(* ===== verification/Prelude.thy ===== *)
theory Prelude
  imports "HOL-Library.Word" "HOL-Library.AList" "HOL-Library.Sublist"
    "HOL-Library.List_Lexorder" "HOL-Library.Char_ord"
begin

text \<open>
  What every component of the model shares: the Go values the repository computes with
  (strings and byte slices as lists of bytes, maps as association lists whose order stands
  for the unspecified iteration order, nil-able pointers as options, 64-bit integers), the
  functions of the package \<open>strings\<close> and \<open>slices\<close> that the code calls, and the
  generic lemmas on them.  A Go string is a sequence of bytes, so \<^typ>\<open>string\<close> (a list of
  \<^typ>\<open>char\<close>, each one byte) is exact, and \<open>len\<close> is \<^const>\<open>length\<close>.
\<close>

named_theorems go_string \<open>characterisations of the string functions\<close>
named_theorems go_map \<open>lookups after updates of a Go map\<close>

section \<open>Values\<close>

type_synonym bytes = "char list"
type_synonym time = int  \<comment> \<open>a \<open>time.Time\<close> as a number of nanoseconds\<close>
type_synonym u64 = "64 word"

text \<open>The \<open>int\<close> of Go on the supported 64-bit targets: arithmetic wraps into
  \<open>[-2^63, 2^63)\<close>.\<close>

definition int64 :: "int \<Rightarrow> int" where
  "int64 i = (i + 2 ^ 63) mod 2 ^ 64 - 2 ^ 63"

definition max_int64 :: int where
  "max_int64 = 2 ^ 63 - 1"

definition is_int64 :: "int \<Rightarrow> bool" where
  "is_int64 i \<longleftrightarrow> - (2 ^ 63) \<le> i \<and> i \<le> max_int64"

lemma int64_id: "is_int64 i \<Longrightarrow> int64 i = i"
  by (simp add: int64_def is_int64_def max_int64_def)

lemma int64_range: "is_int64 (int64 i)"
proof -
  define m where "m = (i + 2 ^ 63) mod 2 ^ 64"
  have "0 \<le> m" and "m < 2 ^ 64"
    unfolding m_def by simp_all
  then show ?thesis
    unfolding is_int64_def int64_def max_int64_def m_def [symmetric] by simp
qed

lemma int64_overflow:
  assumes "max_int64 < i" and "i \<le> 2 * max_int64 + 1"
  shows "int64 i < 0"
proof -
  have "(i + 2 ^ 63) mod 2 ^ 64 = i + 2 ^ 63 - 2 ^ 64"
    using assms unfolding max_int64_def
    by (subst mod_pos_geq) (simp_all add: mod_pos_pos_trivial)
  then show ?thesis
    using assms unfolding int64_def max_int64_def by simp
qed

text \<open>
  What a call does besides returning a value: it returns an error, it panics (the goroutine,
  and with it the process, dies), or a loop in it never ends.
\<close>

datatype ('e, 'a) outcome = Return 'a | Error 'e | Panic | Diverge

fun bind_outcome :: "('e, 'a) outcome \<Rightarrow> ('a \<Rightarrow> ('e, 'b) outcome) \<Rightarrow> ('e, 'b) outcome" where
  "bind_outcome (Return a) f = f a"
| "bind_outcome (Error e) f = Error e"
| "bind_outcome Panic f = Panic"
| "bind_outcome Diverge f = Diverge"

section \<open>Go maps\<close>

text \<open>
  A \<open>map[K]V\<close> is an association list with distinct keys; its order is the order one
  \<open>range\<close> over the map happens to visit.  A map of pointers has option values: reading a
  missing key and reading a nil pointer both give nil.
\<close>

type_synonym ('k, 'v) gomap = "('k \<times> 'v) list"

abbreviation map_keys :: "('k, 'v) gomap \<Rightarrow> 'k list" where
  "map_keys m \<equiv> map fst m"

definition map_ptr :: "('k, 'v option) gomap \<Rightarrow> 'k \<Rightarrow> 'v option" where
  "map_ptr m k = (case map_of m k of Some (Some v) \<Rightarrow> Some v | _ \<Rightarrow> None)"

definition map_put :: "('k, 'v) gomap \<Rightarrow> 'k \<Rightarrow> 'v \<Rightarrow> ('k, 'v) gomap" where
  "map_put m k v = AList.update k v m"

definition map_del :: "('k, 'v) gomap \<Rightarrow> 'k \<Rightarrow> ('k, 'v) gomap" where
  "map_del m k = AList.delete k m"

definition map_wf :: "('k, 'v) gomap \<Rightarrow> bool" where
  "map_wf m \<longleftrightarrow> distinct (map_keys m)"

lemma map_of_put [simp, go_map]: "map_of (map_put m k v) = (map_of m)(k \<mapsto> v)"
  by (simp add: map_put_def update_conv')

lemma map_of_del [simp, go_map]: "map_of (map_del m k) = (map_of m)(k := None)"
  by (simp add: map_del_def delete_conv')

lemma map_ptr_put [simp, go_map]: "map_ptr (map_put m k v) k' = (if k' = k then v else map_ptr m k')"
  by (simp add: map_ptr_def split: option.split)

lemma map_ptr_del [simp, go_map]: "map_ptr (map_del m k) k' = (if k' = k then None else map_ptr m k')"
  by (simp add: map_ptr_def)

lemma map_wf_put [simp, intro]: "map_wf m \<Longrightarrow> map_wf (map_put m k v)"
  by (simp add: map_wf_def map_put_def distinct_update)

lemma map_wf_del [simp, intro]: "map_wf m \<Longrightarrow> map_wf (map_del m k)"
  by (simp add: map_wf_def map_del_def distinct_delete)

lemma map_wf_Nil [simp]: "map_wf []"
  by (simp add: map_wf_def)

lemma map_ptr_Nil [simp]: "map_ptr [] k = None"
  by (simp add: map_ptr_def)

lemma map_ptr_Some: "map_ptr m k = Some v \<longleftrightarrow> map_of m k = Some (Some v)"
  by (simp add: map_ptr_def split: option.splits)

lemma map_ptr_in_set: "map_ptr m k = Some v \<Longrightarrow> (k, Some v) \<in> set m"
  by (auto simp: map_ptr_Some dest: map_of_SomeD)

lemma map_ptr_eq: "map_wf m \<Longrightarrow> (k, Some v) \<in> set m \<Longrightarrow> map_ptr m k = Some v"
  by (simp add: map_wf_def map_ptr_def)

lemma set_map_del: "set (map_del m k) = {p \<in> set m. fst p \<noteq> k}"
  by (auto simp: map_del_def AList.delete_eq)

lemma map_keys_put: "set (map_keys (map_put m k v)) = insert k (set (map_keys m))"
  by (induction m) (auto simp: map_put_def)

lemma map_put_fresh: "k \<notin> set (map_keys m) \<Longrightarrow> map_put m k v = m @ [(k, v)]"
  by (induction m) (auto simp: map_put_def)

lemma set_map_put: "set (map_put m k v) \<subseteq> insert (k, v) (set m)"
  by (induction m) (auto simp: map_put_def)

text \<open>Putting a fresh key and deleting it again gives the map back.\<close>

lemma map_del_put_fresh: "k \<notin> set (map_keys m) \<Longrightarrow> map_del (map_put m k v) k = m"
  by (induction m) (auto simp: map_del_def map_put_def)

lemma map_of_restore:
  "map_of m k = Some v \<Longrightarrow> map_of (map_put (map_del m k) k v) = map_of m"
  by (auto simp: fun_eq_iff)

section \<open>Strings\<close>

definition hasPrefix :: "string \<Rightarrow> string \<Rightarrow> bool" where
  "hasPrefix s p \<longleftrightarrow> take (length p) s = p"

definition hasSuffix :: "string \<Rightarrow> string \<Rightarrow> bool" where
  "hasSuffix s p \<longleftrightarrow> hasPrefix (rev s) (rev p)"

definition trimPrefix :: "string \<Rightarrow> string \<Rightarrow> string" where
  "trimPrefix s p = (if hasPrefix s p then drop (length p) s else s)"

definition trimSuffix :: "string \<Rightarrow> string \<Rightarrow> string" where
  "trimSuffix s p = (if hasSuffix s p then take (length s - length p) s else s)"

definition containsAny :: "string \<Rightarrow> string \<Rightarrow> bool" where
  "containsAny s cs \<longleftrightarrow> list_ex (\<lambda>c. List.member cs c) s"

fun contains :: "string \<Rightarrow> string \<Rightarrow> bool" where
  "contains [] p = (p = [])"
| "contains (c # s) p = (hasPrefix (c # s) p \<or> contains s p)"

text \<open>\<open>strings.Split\<close> at a one-byte separator, and \<open>strings.Cut\<close>.\<close>

fun splitAt :: "char \<Rightarrow> string \<Rightarrow> string list" where
  "splitAt c [] = [[]]"
| "splitAt c (x # s) =
     (if x = c then [] # splitAt c s
      else (case splitAt c s of [] \<Rightarrow> [[x]] | w # ws \<Rightarrow> (x # w) # ws))"

fun joinWith :: "string \<Rightarrow> string list \<Rightarrow> string" where
  "joinWith sep [] = []"
| "joinWith sep [w] = w"
| "joinWith sep (w # ws) = w @ sep @ joinWith sep ws"

fun cutAt :: "char \<Rightarrow> string \<Rightarrow> (string \<times> string) option" where
  "cutAt c [] = None"
| "cutAt c (x # s) =
     (if x = c then Some ([], s) else map_option (\<lambda>(a, b). (x # a, b)) (cutAt c s))"

text \<open>\<open>strings.Trim(s, "c")\<close> for one byte \<open>c\<close>.\<close>

definition trimChar :: "char \<Rightarrow> string \<Rightarrow> string" where
  "trimChar c s = rev (dropWhile (\<lambda>x. x = c) (rev (dropWhile (\<lambda>x. x = c) s)))"

text \<open>\<open>strings.ReplaceAll(s, "\r\n", "\n")\<close>.\<close>

fun replaceCRLF :: "string \<Rightarrow> string" where
  "replaceCRLF [] = []"
| "replaceCRLF [x] = [x]"
| "replaceCRLF (x # y # s) =
     (if x = CHR 0x0D \<and> y = CHR 0x0A then CHR 0x0A # replaceCRLF s
      else x # replaceCRLF (y # s))"

text \<open>
  \<open>strings.TrimSpace\<close>: the leading and trailing code points with the Unicode property White
  Space, given by their UTF-8 encodings.
\<close>

definition ascii_space :: "char \<Rightarrow> bool" where
  "ascii_space c \<longleftrightarrow> List.member [CHR 0x20, CHR 0x09, CHR 0x0A, CHR 0x0B, CHR 0x0C, CHR 0x0D] c"

definition wide_spaces :: "string list" where
  "wide_spaces =
     [[CHR 0xC2, CHR 0x85], [CHR 0xC2, CHR 0xA0], [CHR 0xE1, CHR 0x9A, CHR 0x80],
      [CHR 0xE2, CHR 0x80, CHR 0x80], [CHR 0xE2, CHR 0x80, CHR 0x81], [CHR 0xE2, CHR 0x80, CHR 0x82],
      [CHR 0xE2, CHR 0x80, CHR 0x83], [CHR 0xE2, CHR 0x80, CHR 0x84], [CHR 0xE2, CHR 0x80, CHR 0x85],
      [CHR 0xE2, CHR 0x80, CHR 0x86], [CHR 0xE2, CHR 0x80, CHR 0x87], [CHR 0xE2, CHR 0x80, CHR 0x88],
      [CHR 0xE2, CHR 0x80, CHR 0x89], [CHR 0xE2, CHR 0x80, CHR 0x8A], [CHR 0xE2, CHR 0x80, CHR 0xA8],
      [CHR 0xE2, CHR 0x80, CHR 0xA9], [CHR 0xE2, CHR 0x80, CHR 0xAF], [CHR 0xE2, CHR 0x81, CHR 0x9F],
      [CHR 0xE3, CHR 0x80, CHR 0x80]]"

fun trimLeftSpaces :: "string list \<Rightarrow> string \<Rightarrow> string" where
  "trimLeftSpaces ws [] = []"
| "trimLeftSpaces ws (c # s) =
     (if ascii_space c then trimLeftSpaces ws s
      else (case find (\<lambda>w. w \<noteq> [] \<and> hasPrefix (c # s) w) ws of
              None \<Rightarrow> c # s
            | Some w \<Rightarrow> trimLeftSpaces ws (drop (length w - 1) s)))"

definition trimSpace :: "string \<Rightarrow> string" where
  "trimSpace s = rev (trimLeftSpaces (map rev wide_spaces) (rev (trimLeftSpaces wide_spaces s)))"

text \<open>
  \<open>strings.EqualFold\<close>.  The code only folds against strings it has matched with an ASCII
  regular expression; the code points outside ASCII that fold to an ASCII letter are the
  Kelvin sign (\<open>k\<close>) and the long s (\<open>s\<close>).
\<close>

definition lower :: "char \<Rightarrow> char" where
  "lower c = (if 65 \<le> (of_char c :: nat) \<and> (of_char c :: nat) \<le> 90
              then char_of ((of_char c :: nat) + 32) else c)"

fun foldCase :: "string \<Rightarrow> string" where
  "foldCase [] = []"
| "foldCase (c # s) =
     (if hasPrefix (c # s) [CHR 0xE2, CHR 0x84, CHR 0xAA] then CHR ''k'' # foldCase (drop 2 s)
      else if hasPrefix (c # s) [CHR 0xC5, CHR 0xBF] then CHR ''s'' # foldCase (drop 1 s)
      else lower c # foldCase s)"

definition equalFold :: "string \<Rightarrow> string \<Rightarrow> bool" where
  "equalFold s t \<longleftrightarrow> foldCase s = foldCase t"

section \<open>Lemmas on strings\<close>

lemma hasPrefix_iff [go_string]: "hasPrefix s p \<longleftrightarrow> prefix p s"
  by (metis append_eq_conv_conj hasPrefix_def prefix_def take_is_prefix)

lemma hasSuffix_iff [go_string]: "hasSuffix s p \<longleftrightarrow> suffix p s"
  by (simp add: hasSuffix_def hasPrefix_iff suffix_to_prefix)

lemma hasPrefix_append [simp]: "hasPrefix (p @ s) p"
  by (simp add: hasPrefix_def)

lemma hasPrefix_Nil [simp]: "hasPrefix s []"
  by (simp add: hasPrefix_def)

lemma trimPrefix_append [simp]: "trimPrefix (p @ s) p = s"
  by (simp add: trimPrefix_def)

lemma trimSuffix_append: "trimSuffix (v @ w) w = v"
  by (simp add: trimSuffix_def hasSuffix_def hasPrefix_def)

lemma contains_iff [go_string]: "contains s p \<longleftrightarrow> sublist p s"
proof (induction s)
  case Nil
  then show ?case by simp
next
  case (Cons c s)
  then show ?case by (simp add: hasPrefix_iff sublist_Cons_right)
qed

lemma containsAny_iff [go_string]: "containsAny s cs \<longleftrightarrow> (\<exists>c\<in>set s. c \<in> set cs)"
  by (simp add: containsAny_def list_ex_iff)

lemma splitAt_not_Nil [simp]: "splitAt c s \<noteq> []"
  by (induction s) (auto split: list.split)

lemma joinWith_Cons: "ws \<noteq> [] \<Longrightarrow> joinWith sep (w # ws) = w @ sep @ joinWith sep ws"
  by (cases ws) auto

lemma joinWith_consHead: "joinWith sep ((x # w) # ws) = x # joinWith sep (w # ws)"
  by (cases ws) auto

lemma join_splitAt: "joinWith [c] (splitAt c s) = s"
proof (induction s)
  case Nil
  then show ?case by simp
next
  case (Cons x s)
  then show ?case
    by (cases "splitAt c s") (auto simp: joinWith_Cons joinWith_consHead)
qed

lemma splitAt_parts: "w \<in> set (splitAt c s) \<Longrightarrow> c \<notin> set w"
proof (induction s arbitrary: w)
  case Nil
  then show ?case by simp
next
  case (Cons x s)
  then show ?case
    by (cases "splitAt c s") (auto split: if_splits)
qed

lemma splitAt_plain: "c \<notin> set w \<Longrightarrow> splitAt c w = [w]"
  by (induction w) auto

lemma splitAt_append: "c \<notin> set w \<Longrightarrow> splitAt c (w @ c # s) = w # splitAt c s"
  by (induction w) auto

lemma splitAt_app: "splitAt c (s @ c # t) = splitAt c s @ splitAt c t"
  by (induction s) (auto split: list.split)

lemma joinWith_snoc: "ws \<noteq> [] \<Longrightarrow> joinWith sep (ws @ [w]) = joinWith sep ws @ sep @ w"
proof (induction ws)
  case Nil
  then show ?case by simp
next
  case (Cons v vs)
  then show ?case by (cases "vs = []") (simp_all add: joinWith_Cons)
qed

lemma splitAt_join:
  "ws \<noteq> [] \<Longrightarrow> \<forall>w\<in>set ws. c \<notin> set w \<Longrightarrow> splitAt c (joinWith [c] ws) = ws"
proof (induction ws)
  case Nil
  then show ?case by simp
next
  case (Cons w ws)
  then show ?case by (cases ws) (simp_all add: splitAt_plain splitAt_append)
qed

lemma cutAt_Some: "cutAt c s = Some (a, b) \<Longrightarrow> s = a @ c # b \<and> c \<notin> set a"
  by (induction s arbitrary: a) (auto split: if_splits)

lemma cutAt_None: "cutAt c s = None \<longleftrightarrow> c \<notin> set s"
  by (induction s) auto

lemma cutAt_append: "c \<notin> set a \<Longrightarrow> cutAt c (a @ c # b) = Some (a, b)"
  by (induction a) auto

lemma equalFold_refl [simp]: "equalFold s s"
  by (simp add: equalFold_def)

lemma equalFold_sym: "equalFold s t \<longleftrightarrow> equalFold t s"
  by (auto simp: equalFold_def)

lemma equalFold_trans: "equalFold s t \<Longrightarrow> equalFold t u \<Longrightarrow> equalFold s u"
  by (simp add: equalFold_def)

section \<open>Sorted keys\<close>

text \<open>\<open>sort.Strings\<close> orders by bytes; \<^const>\<open>sort\<close> with the lexicographic order on lists of
  characters (ordered by their codes) does the same.\<close>

definition sortStrings :: "string list \<Rightarrow> string list" where
  "sortStrings xs = sort xs"

lemma set_sortStrings [simp]: "set (sortStrings xs) = set xs"
  by (simp add: sortStrings_def)

lemma sorted_sortStrings [simp]: "sorted (sortStrings xs)"
  by (simp add: sortStrings_def)

lemma distinct_sortStrings [simp]: "distinct (sortStrings xs) = distinct xs"
  by (simp add: sortStrings_def)

text \<open>A map of pointers with its entries in the order of the sorted keys.\<close>

definition sortMap :: "(string, 'v option) gomap \<Rightarrow> (string, 'v option) gomap" where
  "sortMap m = map (\<lambda>k. (k, map_ptr m k)) (sortStrings (map_keys m))"

lemma map_keys_sortMap: "map_keys (sortMap m) = sortStrings (map_keys m)"
  by (simp add: sortMap_def comp_def)

lemma map_wf_sortMap: "map_wf m \<Longrightarrow> map_wf (sortMap m)"
  by (simp add: map_wf_def map_keys_sortMap)

lemma map_of_map_keys: "map_of (map (\<lambda>k. (k, f k)) ks) k = (if k \<in> set ks then Some (f k) else None)"
  by (induction ks) auto

lemma map_ptr_sortMap [simp]: "map_ptr (sortMap m) k = map_ptr m k"
proof (cases "k \<in> set (map_keys m)")
  case True
  then have "map_of (sortMap m) k = Some (map_ptr m k)"
    unfolding sortMap_def by (subst map_of_map_keys) simp
  then show ?thesis by (simp add: map_ptr_def [of "sortMap m"] split: option.split)
next
  case False
  then have "map_of m k = None" by (simp add: map_of_eq_None_iff)
  with False show ?thesis by (simp add: map_ptr_def sortMap_def map_of_map_keys)
qed

section \<open>Numbers as text\<close>

text \<open>\<open>hex.EncodeToString\<close> (and the verb \<open>%x\<close>), and \<open>strconv.Itoa\<close> of a number that is not
  negative.\<close>

definition hexDigit :: "nat \<Rightarrow> char" where
  "hexDigit n = ''0123456789abcdef'' ! n"

definition hexByte :: "8 word \<Rightarrow> string" where
  "hexByte b = [hexDigit (unat b div 16), hexDigit (unat b mod 16)]"

definition hexBytes :: "8 word list \<Rightarrow> string" where
  "hexBytes bs = concat (map hexByte bs)"

fun itoa :: "nat \<Rightarrow> string" where
  "itoa n = (if n < 10 then [char_of (48 + n)] else itoa (n div 10) @ [char_of (48 + n mod 10)])"

declare itoa.simps [simp del]

lemma hexDigit_set: "n < 16 \<Longrightarrow> hexDigit n \<in> set ''0123456789abcdef''"
  unfolding hexDigit_def by (rule nth_mem) simp

lemma hexDigit_inj: "hexDigit a = hexDigit b \<Longrightarrow> a < 16 \<Longrightarrow> b < 16 \<Longrightarrow> a = b"
  unfolding hexDigit_def by (subst (asm) nth_eq_iff_index_eq) simp_all

lemma length_hexBytes [simp]: "length (hexBytes bs) = 2 * length bs"
  by (induction bs) (simp_all add: hexBytes_def hexByte_def)

lemma hexBytes_two: "hexBytes [a, b] = [hexDigit (unat a div 16), hexDigit (unat a mod 16),
    hexDigit (unat b div 16), hexDigit (unat b mod 16)]"
  by (simp add: hexBytes_def hexByte_def)

lemma hexByte_inj: "hexByte a = hexByte b \<Longrightarrow> a = b"
proof -
  have lt: "unat c div 16 < 16" for c :: "8 word"
    using unsigned_less [of c, where 'a = nat] by (simp add: less_mult_imp_div_less)
  assume "hexByte a = hexByte b"
  then have "unat a div 16 = unat b div 16" "unat a mod 16 = unat b mod 16"
    using hexDigit_inj lt by (auto simp: hexByte_def)
  then have "unat a = unat b" by (metis div_mod_decomp)
  then show "a = b" by (simp only: word_unat_eq_iff)
qed

lemma hexBytes_inj: "hexBytes as = hexBytes bs \<Longrightarrow> as = bs"
proof (induction as arbitrary: bs)
  case Nil
  then show ?case by (cases bs) (simp_all add: hexBytes_def hexByte_def)
next
  case (Cons a as)
  then obtain b bs' where bs: "bs = b # bs'" by (cases bs) (simp_all add: hexBytes_def hexByte_def)
  with Cons.prems have "hexByte a = hexByte b" "hexBytes as = hexBytes bs'"
    by (simp_all add: hexBytes_def hexByte_def)
  with Cons.IH hexByte_inj bs show ?case by blast
qed

end
