(* ===== verification/Paths.thy ===== *)
theory Paths
  imports Prelude
begin

text \<open>
  The functions of the package \<open>path/filepath\<close> the repository relies on, for the targets
  where the separator is \<open>/\<close> (Linux and macOS): \<open>Clean\<close>, \<open>IsAbs\<close>, \<open>Join\<close>, \<open>Dir\<close>, \<open>Base\<close>
  and \<open>Rel\<close>, and the containment test \<open>within\<close> of \<open>internal/identity/container.go\<close>.
  They are lexical: none of them reads the file system.
\<close>

section \<open>Cleaning a path\<close>

abbreviation slash :: char where
  "slash \<equiv> CHR ''/''"

definition isAbs :: "string \<Rightarrow> bool" where
  "isAbs p \<longleftrightarrow> hasPrefix p ''/''"

text \<open>One component of the path, against the reversed list of the components kept so far.\<close>

definition cleanStep :: "bool \<Rightarrow> string list \<Rightarrow> string \<Rightarrow> string list" where
  "cleanStep rooted acc c =
     (if c = [] \<or> c = ''.'' then acc
      else if c = ''..'' then
        (case acc of
           [] \<Rightarrow> if rooted then [] else [''..'']
         | a # as \<Rightarrow> if a = ''..'' then ''..'' # acc else as)
      else c # acc)"

definition cleanComps :: "string \<Rightarrow> string list" where
  "cleanComps p = rev (foldl (cleanStep (isAbs p)) [] (splitAt slash p))"

definition renderPath :: "bool \<Rightarrow> string list \<Rightarrow> string" where
  "renderPath rooted cs =
     (if rooted then slash # joinWith ''/'' cs
      else if cs = [] then ''.'' else joinWith ''/'' cs)"

definition clean :: "string \<Rightarrow> string" where
  "clean p = renderPath (isAbs p) (cleanComps p)"

definition joinPath :: "string \<Rightarrow> string \<Rightarrow> string" where
  "joinPath a b =
     (if a \<noteq> [] then clean (a @ ''/'' @ b) else if b \<noteq> [] then clean b else [])"

text \<open>The prefix of a path up to and including its last separator.\<close>

definition upToSlash :: "string \<Rightarrow> string" where
  "upToSlash p = rev (dropWhile (\<lambda>c. c \<noteq> slash) (rev p))"

definition dirPath :: "string \<Rightarrow> string" where
  "dirPath p = clean (upToSlash p)"

definition basePath :: "string \<Rightarrow> string" where
  "basePath p =
     (if p = [] then ''.''
      else let q = rev (dropWhile (\<lambda>c. c = slash) (rev p))
           in if q = [] then ''/'' else rev (takeWhile (\<lambda>c. c \<noteq> slash) (rev q)))"

section \<open>Relative paths and containment\<close>

fun dropCommon :: "string list \<Rightarrow> string list \<Rightarrow> string list \<times> string list" where
  "dropCommon (b # bs) (t # ts) = (if b = t then dropCommon bs ts else (b # bs, t # ts))"
| "dropCommon bs ts = (bs, ts)"

definition relPath :: "string \<Rightarrow> string \<Rightarrow> string option" where
  "relPath base targ =
     (if clean targ = clean base then Some ''.''
      else if isAbs base \<noteq> isAbs targ then None
      else let (bs, ts) = dropCommon (cleanComps base)
                            (if clean targ = ''.'' then [''.''] else cleanComps targ)
           in if bs \<noteq> [] \<and> ts \<noteq> [] \<and> hd bs = ''..'' then None
              else Some (joinWith ''/'' (replicate (length bs) ''..'' @ ts)))"

definition within :: "string \<Rightarrow> string \<Rightarrow> bool" where
  "within path root =
     (case relPath root path of
        None \<Rightarrow> False
      | Some relative \<Rightarrow>
          relative \<noteq> ''..'' \<and> \<not> hasPrefix relative ''../'' \<and> \<not> isAbs relative)"

section \<open>Lemmas\<close>

definition plain_comp :: "string \<Rightarrow> bool" where
  "plain_comp c \<longleftrightarrow> c \<noteq> [] \<and> c \<noteq> ''.'' \<and> slash \<notin> set c"

definition proper_comp :: "string \<Rightarrow> bool" where
  "proper_comp c \<longleftrightarrow> plain_comp c \<and> c \<noteq> ''..''"

lemma isAbs_Cons [simp]: "isAbs (c # p) \<longleftrightarrow> c = slash"
  by (auto simp: isAbs_def hasPrefix_def)

lemma isAbs_Nil [simp]: "\<not> isAbs []"
  by (simp add: isAbs_def hasPrefix_def)

lemma isAbs_append: "p \<noteq> [] \<Longrightarrow> isAbs (p @ q) = isAbs p"
  by (cases p) simp_all

lemma cleanStep_plain:
  "\<forall>a\<in>set acc. plain_comp a \<Longrightarrow> slash \<notin> set c \<Longrightarrow> \<forall>a\<in>set (cleanStep r acc c). plain_comp a"
  by (cases acc) (simp_all add: cleanStep_def plain_comp_def)

lemma cleanStep_proper:
  "\<forall>a\<in>set acc. proper_comp a \<Longrightarrow> slash \<notin> set c \<Longrightarrow> \<forall>a\<in>set (cleanStep True acc c). proper_comp a"
  by (cases acc) (simp_all add: cleanStep_def plain_comp_def proper_comp_def)

lemma foldl_cleanStep_proper:
  "\<forall>a\<in>set acc. proper_comp a \<Longrightarrow> \<forall>c\<in>set cs. slash \<notin> set c
   \<Longrightarrow> \<forall>a\<in>set (foldl (cleanStep True) acc cs). proper_comp a"
proof (induction cs arbitrary: acc)
  case Nil
  then show ?case by simp
next
  case (Cons c cs)
  from Cons.prems have "\<forall>a\<in>set (cleanStep True acc c). proper_comp a"
    by (intro cleanStep_proper) auto
  with Cons show ?case by simp
qed

lemma cleanComps_proper: "isAbs p \<Longrightarrow> \<forall>c\<in>set (cleanComps p). proper_comp c"
  using foldl_cleanStep_proper [of "[]" "splitAt slash p"]
  by (simp add: cleanComps_def splitAt_parts)

lemma foldl_cleanStep_id:
  "\<forall>c\<in>set cs. proper_comp c \<Longrightarrow> foldl (cleanStep r) acc cs = rev cs @ acc"
  by (induction cs arbitrary: acc) (auto simp: cleanStep_def proper_comp_def plain_comp_def)

lemma splitAt_slash_path:
  "\<forall>c\<in>set cs. proper_comp c \<Longrightarrow> splitAt slash (slash # joinWith ''/'' cs) =
     [] # (if cs = [] then [[]] else cs)"
  by (simp add: splitAt_join proper_comp_def plain_comp_def)

lemma cleanComps_render:
  "\<forall>c\<in>set cs. proper_comp c \<Longrightarrow> cleanComps (renderPath True cs) = cs"
proof -
  assume cs: "\<forall>c\<in>set cs. proper_comp c"
  have "foldl (cleanStep True) [] (splitAt slash (slash # joinWith ''/'' cs)) = rev cs"
    by (subst splitAt_slash_path [OF cs])
      (simp add: cleanStep_def foldl_cleanStep_id [OF cs])
  then show ?thesis by (simp add: cleanComps_def renderPath_def)
qed

lemma isAbs_clean: "isAbs p \<Longrightarrow> isAbs (clean p)"
  by (simp add: clean_def renderPath_def)

lemma cleanComps_clean: "isAbs p \<Longrightarrow> cleanComps (clean p) = cleanComps p"
  by (simp add: clean_def cleanComps_render cleanComps_proper)

lemma clean_clean: "isAbs p \<Longrightarrow> clean (clean p) = clean p"
  by (simp add: clean_def [of "clean p"] isAbs_clean cleanComps_clean) (simp add: clean_def)

lemma clean_eq_iff:
  assumes "isAbs p" and "isAbs q"
  shows "clean p = clean q \<longleftrightarrow> cleanComps p = cleanComps q"
proof
  assume "clean p = clean q"
  then have "cleanComps (clean p) = cleanComps (clean q)" by simp
  with assms show "cleanComps p = cleanComps q" by (simp add: cleanComps_clean)
qed (simp add: clean_def assms)

lemma dropCommon_prefix: "fst (dropCommon bs ts) = [] \<longleftrightarrow> prefix bs ts"
  by (induction bs ts rule: dropCommon.induct) auto

lemma dropCommon_subset:
  "set (fst (dropCommon bs ts)) \<subseteq> set bs" "set (snd (dropCommon bs ts)) \<subseteq> set ts"
  by (induction bs ts rule: dropCommon.induct) auto

lemma dropCommon_append: "dropCommon bs (bs @ ts) = ([], ts)"
  by (induction bs) (cases ts, simp_all)

lemma proper_not_dotdot:
  assumes "proper_comp c"
  shows "\<not> hasPrefix (joinWith ''/'' (c # cs)) ''../''"
    and "joinWith ''/'' (c # cs) \<noteq> ''..''"
    and "\<not> isAbs (joinWith ''/'' (c # cs))"
proof -
  have spl: "splitAt slash (joinWith ''/'' (c # cs)) = c # (if cs = [] then [] else splitAt slash (joinWith ''/'' cs))"
    using assms by (cases cs) (simp_all add: splitAt_plain splitAt_append proper_comp_def plain_comp_def)
  show "\<not> hasPrefix (joinWith ''/'' (c # cs)) ''../''"
  proof
    assume "hasPrefix (joinWith ''/'' (c # cs)) ''../''"
    then obtain s where "joinWith ''/'' (c # cs) = ''..'' @ slash # s"
      by (auto simp: hasPrefix_iff prefix_def)
    then have "splitAt slash (joinWith ''/'' (c # cs)) = ''..'' # splitAt slash s"
      by (simp add: splitAt_append [of slash "''..''", simplified])
    with spl assms show False by (simp add: proper_comp_def)
  qed
  show "joinWith ''/'' (c # cs) \<noteq> ''..''"
  proof
    assume "joinWith ''/'' (c # cs) = ''..''"
    then have "splitAt slash (joinWith ''/'' (c # cs)) = [''..'']" by simp
    with spl assms show False by (simp add: proper_comp_def)
  qed
  show "\<not> isAbs (joinWith ''/'' (c # cs))"
    using assms by (cases c; cases cs) (auto simp: proper_comp_def plain_comp_def)
qed

text \<open>For absolute paths, \<^const>\<open>within\<close> is the prefix order on the cleaned components.\<close>

lemma joinWith_dotdot:
  "joinWith ''/'' (''..'' # cs) = ''..'' \<or> hasPrefix (joinWith ''/'' (''..'' # cs)) ''../''"
  by (cases cs) (simp_all add: hasPrefix_def)

lemma within_iff:
  assumes "isAbs path" and "isAbs root"
  shows "within path root \<longleftrightarrow> prefix (cleanComps root) (cleanComps path)"
proof (cases "clean path = clean root")
  case True
  then have "cleanComps path = cleanComps root"
    using assms by (simp add: clean_eq_iff)
  with True show ?thesis by (simp add: within_def relPath_def hasPrefix_def)
next
  case False
  let ?d = "dropCommon (cleanComps root) (cleanComps path)"
  obtain bs ts where d: "?d = (bs, ts)" by fastforce
  have neq: "cleanComps path \<noteq> cleanComps root"
    using False assms by (simp add: clean_eq_iff)
  have dot: "clean path \<noteq> ''.''"
    using assms(1) by (simp add: clean_def renderPath_def)
  have bs: "\<forall>b\<in>set bs. proper_comp b" and ts: "\<forall>t\<in>set ts. proper_comp t"
    using dropCommon_subset [of "cleanComps root" "cleanComps path"] d
      cleanComps_proper [OF assms(1)] cleanComps_proper [OF assms(2)] by auto
  have rel: "relPath root path = Some (joinWith ''/'' (replicate (length bs) ''..'' @ ts))"
    using False assms dot d bs by (cases bs) (auto simp: relPath_def proper_comp_def)
  show ?thesis
  proof (cases bs)
    case Nil
    then have pre: "prefix (cleanComps root) (cleanComps path)"
      using dropCommon_prefix [of "cleanComps root" "cleanComps path"] d by simp
    then obtain us where us: "cleanComps path = cleanComps root @ us" by (auto simp: prefix_def)
    then have "ts = us" using d by (simp add: dropCommon_append)
    with us neq obtain c cs where "ts = c # cs" by (cases us) auto
    then show ?thesis
      using pre rel Nil ts by (simp add: within_def proper_not_dotdot)
  next
    case (Cons b bs')
    then have "\<not> prefix (cleanComps root) (cleanComps path)"
      using dropCommon_prefix [of "cleanComps root" "cleanComps path"] d by simp
    moreover have "\<not> within path root"
      using rel Cons joinWith_dotdot [of "replicate (length bs') ''..'' @ ts"]
      by (auto simp: within_def)
    ultimately show ?thesis by simp
  qed
qed

lemma within_refl: "isAbs p \<Longrightarrow> within p p"
  by (simp add: within_iff)

lemma within_trans:
  "isAbs p \<Longrightarrow> isAbs q \<Longrightarrow> isAbs r \<Longrightarrow> within p q \<Longrightarrow> within q r \<Longrightarrow> within p r"
  by (auto simp: within_iff intro: prefix_order.trans)

section \<open>Parents\<close>

lemma upToSlash_append: "slash \<notin> set c \<Longrightarrow> upToSlash (q @ slash # c) = q @ [slash]"
  by (subst upToSlash_def) (simp, subst dropWhile_append2, auto)

lemma clean_slash_end:
  assumes "\<forall>c\<in>set cs. proper_comp c"
  shows "clean (slash # joinWith ''/'' cs @ ''/'') = renderPath True cs"
proof -
  have "splitAt slash (slash # joinWith ''/'' cs @ ''/'') = [] # (if cs = [] then [[]] else cs) @ [[]]"
    using splitAt_app [of slash "slash # joinWith ''/'' cs" "[]"] splitAt_slash_path [OF assms] by simp
  then have "cleanComps (slash # joinWith ''/'' cs @ ''/'') = cs"
    by (simp add: cleanComps_def cleanStep_def foldl_cleanStep_id [OF assms])
  then show ?thesis by (simp add: clean_def)
qed

lemma dirPath_render:
  assumes "\<forall>c\<in>set cs. proper_comp c"
  shows "dirPath (renderPath True cs) = renderPath True (butlast cs)"
proof (cases cs rule: rev_cases)
  case Nil
  show ?thesis unfolding Nil by code_simp
next
  case (snoc ds d)
  then have d: "slash \<notin> set d" and ds: "\<forall>c\<in>set ds. proper_comp c"
    using assms by (auto simp: proper_comp_def plain_comp_def)
  show ?thesis
  proof (cases "ds = []")
    case True
    have "upToSlash ([] @ slash # d) = [] @ [slash]" by (rule upToSlash_append [OF d])
    moreover have "clean [slash] = renderPath True []" by code_simp
    ultimately show ?thesis using True snoc by (simp add: dirPath_def renderPath_def)
  next
    case False
    have "upToSlash ((slash # joinWith ''/'' ds) @ slash # d) = (slash # joinWith ''/'' ds) @ [slash]"
      by (rule upToSlash_append [OF d])
    then show ?thesis
      using False snoc clean_slash_end [OF ds] by (simp add: dirPath_def renderPath_def joinWith_snoc)
  qed
qed

lemma render_cleanComps: "isAbs p \<Longrightarrow> clean p = p \<Longrightarrow> renderPath True (cleanComps p) = p"
  by (simp add: clean_def)

lemma isAbs_upToSlash: "isAbs p \<Longrightarrow> isAbs (upToSlash p)"
proof -
  assume "isAbs p"
  then obtain q where p: "p = slash # q" by (cases p) auto
  obtain a b where "slash # q = a @ slash # b" "slash \<notin> set b"
    using split_list_last [of slash "slash # q"] by auto
  then have "upToSlash p = a @ [slash]" using p upToSlash_append by simp
  then show ?thesis using p \<open>slash # q = a @ slash # b\<close> by (cases a) auto
qed

lemma dirPath_clean: "isAbs p \<Longrightarrow> isAbs (dirPath p) \<and> clean (dirPath p) = dirPath p"
  by (simp add: dirPath_def isAbs_upToSlash isAbs_clean clean_clean)

end
