(* ===== verification/ProcessState.thy ===== *)
theory ProcessState
  imports Prelude
begin

text \<open>
  The lifecycle state of one process runtime: \<open>internal/supervision/state.go\<close> and the
  runtime part of \<open>internal/supervision/model.go\<close>.  \<open>ProcessState\<close> is a string type in
  the source, so values outside the six constants exist (a registry file can hold them) and
  are the constructor \<open>UnknownState\<close>.
\<close>

section \<open>States and runtimes\<close>

datatype process_state =
  Stopped | Starting | Running | Stopping | Exited | Failed | UnknownState string

record process_runtime =
  rProjectID :: string
  rProcessID :: string
  rInstanceID :: string
  rPID :: "int option"
  rState :: process_state
  rStartedAt :: "time option"
  rFinishedAt :: "time option"
  rExitCode :: "int option"
  rTerminationReason :: string

definition NewProcessRuntime :: "string \<Rightarrow> string \<Rightarrow> string \<Rightarrow> process_runtime" where
  "NewProcessRuntime projectID processID instanceID =
     \<lparr>rProjectID = projectID, rProcessID = processID, rInstanceID = instanceID, rPID = None,
      rState = Starting, rStartedAt = None, rFinishedAt = None, rExitCode = None,
      rTerminationReason = []\<rparr>"

fun IsValid :: "process_state \<Rightarrow> bool" where
  "IsValid (UnknownState _) = False"
| "IsValid _ = True"

fun IsActive :: "process_state \<Rightarrow> bool" where
  "IsActive Starting = True"
| "IsActive Running = True"
| "IsActive Stopping = True"
| "IsActive _ = False"

fun IsTerminal :: "process_state \<Rightarrow> bool" where
  "IsTerminal Stopped = True"
| "IsTerminal Exited = True"
| "IsTerminal Failed = True"
| "IsTerminal _ = False"

fun CanTransition :: "process_state \<Rightarrow> process_state \<Rightarrow> bool" where
  "CanTransition Starting t = (t = Running \<or> t = Stopping \<or> t = Failed)"
| "CanTransition Running t = (t = Stopping \<or> t = Exited \<or> t = Failed)"
| "CanTransition Stopping t = (t = Stopped \<or> t = Failed)"
| "CanTransition _ t = False"

datatype state_error =
  InvalidCurrentState process_state
| InvalidTargetState process_state
| InvalidTransition process_state process_state

definition Transition :: "process_runtime \<Rightarrow> process_state \<Rightarrow> state_error + process_runtime" where
  "Transition r next =
     (if \<not> IsValid (rState r) then Inl (InvalidCurrentState (rState r))
      else if \<not> IsValid next then Inl (InvalidTargetState next)
      else if \<not> CanTransition (rState r) next then Inl (InvalidTransition (rState r) next)
      else Inr (r\<lparr>rState := next\<rparr>))"

section \<open>The transitions as a step relation\<close>

inductive rt_step :: "process_runtime \<Rightarrow> process_runtime \<Rightarrow> bool" where
  move: "Transition r next = Inr r' \<Longrightarrow> rt_step r r'"

inductive rt_steps :: "process_runtime \<Rightarrow> nat \<Rightarrow> process_runtime \<Rightarrow> bool" where
  none: "rt_steps r 0 r"
| more: "rt_steps r n s \<Longrightarrow> rt_step s t \<Longrightarrow> rt_steps r (Suc n) t"

inductive_simps rt_step_iff: "rt_step r r'"

section \<open>Lemmas\<close>

lemma IsValid_cases: "IsValid s \<longleftrightarrow> IsActive s \<or> IsTerminal s"
  by (cases s) simp_all

lemma active_not_terminal: "IsActive s \<Longrightarrow> \<not> IsTerminal s"
  by (cases s) simp_all

lemma active_valid [simp]: "IsActive s \<Longrightarrow> IsValid s"
  by (cases s) simp_all

lemma CanTransition_active: "CanTransition s t \<Longrightarrow> IsActive s"
  by (cases s) simp_all

lemma CanTransition_valid: "CanTransition s t \<Longrightarrow> IsValid s \<and> IsValid t"
  by (cases s) auto

lemma CanTransition_Failed [simp]: "CanTransition s Failed \<longleftrightarrow> IsActive s"
  by (cases s) simp_all

lemma Transition_eq:
  "Transition r next = (if CanTransition (rState r) next then Inr (r\<lparr>rState := next\<rparr>)
     else Transition r next)"
  using CanTransition_valid [of "rState r" "next"] by (simp add: Transition_def)

lemma Transition_Inr:
  "Transition r next = Inr r' \<longleftrightarrow> CanTransition (rState r) next \<and> r' = r\<lparr>rState := next\<rparr>"
  using CanTransition_valid [of "rState r" "next"] by (auto simp: Transition_def)

lemma Transition_ok [simp]:
  "CanTransition (rState r) next \<Longrightarrow> Transition r next = Inr (r\<lparr>rState := next\<rparr>)"
  by (simp add: Transition_Inr)

lemma rt_step_state:
  "rt_step r r' \<longleftrightarrow> (\<exists>t. CanTransition (rState r) t \<and> r' = r\<lparr>rState := t\<rparr>)"
  by (auto simp: rt_step_iff Transition_Inr)

text \<open>How many transitions a state still allows.\<close>

fun state_rank :: "process_state \<Rightarrow> nat" where
  "state_rank Starting = 3"
| "state_rank Running = 2"
| "state_rank Stopping = 1"
| "state_rank _ = 0"

lemma CanTransition_rank: "CanTransition s t \<Longrightarrow> state_rank t < state_rank s"
  by (cases s) auto

lemma rank_zero: "IsValid s \<Longrightarrow> state_rank s = 0 \<longleftrightarrow> IsTerminal s"
  by (cases s) simp_all

lemma rt_steps_rank: "rt_steps r n s \<Longrightarrow> state_rank (rState s) + n \<le> state_rank (rState r)"
proof (induction rule: rt_steps.induct)
  case (none r)
  then show ?case by simp
next
  case (more r n s t)
  then show ?case by (auto simp: rt_step_state dest!: CanTransition_rank)
qed

lemma rt_steps_frame: "rt_steps r n s \<Longrightarrow> s = r\<lparr>rState := rState s\<rparr>"
proof (induction rule: rt_steps.induct)
  case (none r)
  then show ?case by simp
next
  case (more r n s t)
  then obtain u where t: "t = s\<lparr>rState := u\<rparr>" by (auto simp: rt_step_state)
  have "t = (r\<lparr>rState := rState s\<rparr>)\<lparr>rState := u\<rparr>" by (subst t, subst more.IH) simp
  then show ?case using t by simp
qed

section \<open>Properties\<close>

text \<open>The six states split into active and terminal ones; a transition is accepted exactly
  along the edges of the lifecycle graph and then changes nothing but the state, and every other
  attempt, in particular any from a terminal or unknown state, is refused with the error that
  names its cause.\<close>

theorem transition_spec:
  "(IsValid s \<longleftrightarrow> IsActive s \<or> IsTerminal s) \<and> \<not> (IsActive s \<and> IsTerminal s) \<and>
   Transition (r\<lparr>rState := s\<rparr>) t =
     (if (s, t) \<in> {(Starting, Running), (Starting, Stopping), (Starting, Failed), (Running, Stopping),
        (Running, Exited), (Running, Failed), (Stopping, Stopped), (Stopping, Failed)}
      then Inr (r\<lparr>rState := t\<rparr>)
      else Inl (if \<not> (IsActive s \<or> IsTerminal s) then InvalidCurrentState s
                else if \<not> (IsActive t \<or> IsTerminal t) then InvalidTargetState t
                else InvalidTransition s t))"
proof -
  have "CanTransition s t \<longleftrightarrow>
      (s, t) \<in> {(Starting, Running), (Starting, Stopping), (Starting, Failed), (Running, Stopping),
        (Running, Exited), (Running, Failed), (Stopping, Stopped), (Stopping, Failed)}"
    by (cases s) auto
  then show ?thesis
    using IsValid_cases [of s] IsValid_cases [of t] active_not_terminal [of s]
      CanTransition_valid [of s t]
    by (simp add: Transition_def)
qed

text \<open>The life of a start attempt: whatever transitions a new runtime makes, there are at
  most three of them, only its state differs, and it can make a further transition exactly as
  long as it is active, so it ends in a terminal state and stays there.\<close>

theorem runtime_life:
  assumes "rt_steps (NewProcessRuntime p q i) n r"
  shows "n \<le> 3 \<and> r = (NewProcessRuntime p q i)\<lparr>rState := rState r\<rparr>
    \<and> ((\<exists>r'. rt_step r r') \<longleftrightarrow> IsActive (rState r))"
proof -
  have "n \<le> 3"
    using rt_steps_rank [OF assms] by (simp add: NewProcessRuntime_def)
  moreover have "r = (NewProcessRuntime p q i)\<lparr>rState := rState r\<rparr>"
    by (rule rt_steps_frame [OF assms])
  moreover have "(\<exists>r'. rt_step r r') \<longleftrightarrow> IsActive (rState r)"
    using CanTransition_active by (auto simp: rt_step_state intro: exI [of _ Failed])
  ultimately show ?thesis by blast
qed

theorem runtime_life_witness:
  "(3::nat) \<le> 3 \<and> \<not> (\<exists>r'. rt_step ((NewProcessRuntime ''p'' ''q'' ''i'')\<lparr>rState := Stopped\<rparr>) r')"
proof -
  let ?r = "NewProcessRuntime ''p'' ''q'' ''i''"
  have "rt_steps ?r 1 (?r\<lparr>rState := Running\<rparr>)"
    using rt_steps.more [OF rt_steps.none] by (simp add: rt_step_state NewProcessRuntime_def)
  then have "rt_steps ?r (Suc 1) (?r\<lparr>rState := Stopping\<rparr>)"
    by (rule rt_steps.more) (simp add: rt_step_state exI [of _ Stopping])
  then have "rt_steps ?r (Suc (Suc 1)) (?r\<lparr>rState := Stopped\<rparr>)"
    by (rule rt_steps.more) (simp add: rt_step_state exI [of _ Stopped])
  from runtime_life [OF this] show ?thesis by simp
qed

end
