(* ===== verification/OutputBuffer.thy ===== *)
theory OutputBuffer
  imports Prelude
begin

text \<open>
  The bounded output buffer of one runtime, \<open>internal/supervision/output.go\<close>.  Sequence
  numbers are 64-bit words, the limits and the byte counter are Go's \<open>int\<close>, whose wrap-around
  is written out where it can be reached (in \<open>Tail\<close>).  The mutex makes every operation atomic,
  so an operation is a function from the buffer to its outcome.
\<close>

section \<open>Data\<close>

datatype output_stream = Stdout | Stderr | OtherStream string

record output_event =
  eSequence :: u64
  eCapturedAt :: time
  eStream :: output_stream
  eData :: bytes

record output_tail =
  tEvents :: "output_event list"
  tTruncated :: bool

record output_buffer =
  maxBytes :: int
  maxEvents :: int
  bufBytes :: int
  nextSequence :: u64
  events :: "output_event list"
  truncated :: bool

datatype buffer_error =
  ByteLimitNotPositive | EventLimitNotPositive | InvalidStream output_stream | TailLimitNotPositive

section \<open>Operations\<close>

definition NewOutputBuffer :: "int \<Rightarrow> int \<Rightarrow> (buffer_error, output_buffer) outcome" where
  "NewOutputBuffer mb me =
     (if mb \<le> 0 then Error ByteLimitNotPositive
      else if me \<le> 0 then Error EventLimitNotPositive
      else Return \<lparr>maxBytes = mb, maxEvents = me, bufBytes = 0, nextSequence = 1,
                   events = [], truncated = False\<rparr>)"

fun validStream :: "output_stream \<Rightarrow> bool" where
  "validStream Stdout = True"
| "validStream Stderr = True"
| "validStream (OtherStream _) = False"

text \<open>\<open>Writer\<close> hands out the pair of buffer and stream; only the stream matters here.\<close>

definition Writer :: "output_stream \<Rightarrow> (buffer_error, output_stream) outcome" where
  "Writer s = (if validStream s then Return s else Error (InvalidStream s))"

text \<open>\<open>events[0]\<close> of an empty list is a panic.\<close>

function enforceLimits :: "output_buffer \<Rightarrow> (buffer_error, output_buffer) outcome" where
  "enforceLimits b =
     (if maxEvents b < int (length (events b)) \<or> maxBytes b < bufBytes b
      then (case events b of
              [] \<Rightarrow> Panic
            | e # es \<Rightarrow> enforceLimits (b\<lparr>bufBytes := bufBytes b - int (length (eData e)),
                                         events := es, truncated := True\<rparr>))
      else Return b)"
  by pat_completeness auto
termination
  by (relation "measure (\<lambda>b. length (events b))") auto

declare enforceLimits.simps [simp del]

definition appendEvent :: "output_buffer \<Rightarrow> output_stream \<Rightarrow> bytes \<Rightarrow> time \<Rightarrow> output_buffer" where
  "appendEvent b s chunk at =
     b\<lparr>events := events b @ [\<lparr>eSequence = nextSequence b, eCapturedAt = at, eStream = s, eData = chunk\<rparr>],
       nextSequence := nextSequence b + 1,
       bufBytes := bufBytes b + int (length chunk)\<rparr>"

text \<open>
  The loop of \<open>Capture\<close>: \<open>chunkLength = min(len(data), maxBytes)\<close>, which is a slice bound
  (negative: panic) and the loop's progress (zero: it never ends).
\<close>

function captureLoop :: "output_buffer \<Rightarrow> output_stream \<Rightarrow> bytes \<Rightarrow> time
    \<Rightarrow> (buffer_error, output_buffer) outcome" where
  "captureLoop b s data at =
     (if data = [] then Return b
      else let chunkLength = min (int (length data)) (maxBytes b) in
        if chunkLength < 0 then Panic
        else if chunkLength = 0 then Diverge
        else (case enforceLimits (appendEvent b s (take (nat chunkLength) data) at) of
                Return b' \<Rightarrow> captureLoop b' s (drop (nat chunkLength) data) at
              | Error e \<Rightarrow> Error e | Panic \<Rightarrow> Panic | Diverge \<Rightarrow> Diverge))"
  by pat_completeness auto
termination
  by (relation "measure (\<lambda>(b, s, data, at). length data)") (auto simp: min_def)

declare captureLoop.simps [simp del]

definition Capture :: "output_buffer \<Rightarrow> output_stream \<Rightarrow> bytes \<Rightarrow> time
    \<Rightarrow> (buffer_error, output_buffer) outcome" where
  "Capture b s data at =
     (if \<not> validStream s then Error (InvalidStream s)
      else if data = [] then Return b
      else captureLoop b s data at)"

text \<open>\<open>outputWriter.Write\<close>: the number of bytes written is the whole length or 0.\<close>

definition writeOutput :: "output_buffer \<Rightarrow> output_stream \<Rightarrow> bytes \<Rightarrow> time
    \<Rightarrow> (buffer_error, output_buffer \<times> nat) outcome" where
  "writeOutput b s data now = bind_outcome (Capture b s data now) (\<lambda>b'. Return (b', length data))"

definition tailStart :: "output_buffer \<Rightarrow> u64 \<Rightarrow> int \<Rightarrow> int" where
  "tailStart b after limit =
     (if after = 0 then max 0 (int64 (int (length (events b)) - limit))
      else int (length (takeWhile (\<lambda>e. eSequence e \<le> after) (events b))))"

text \<open>
  \<open>end := min(len(events), start+limit)\<close>; both \<open>make([]OutputEvent, 0, end-start)\<close> and
  \<open>events[start:end]\<close> panic when \<open>end < start\<close>.
\<close>

definition Tail :: "output_buffer \<Rightarrow> u64 \<Rightarrow> int \<Rightarrow> (buffer_error, output_tail) outcome" where
  "Tail b after limit =
     (if limit \<le> 0 then Error TailLimitNotPositive
      else let start = tailStart b after limit;
               stop = min (int (length (events b))) (int64 (start + limit))
           in if stop < start then Panic
              else Return \<lparr>tEvents = take (nat (stop - start)) (drop (nat start) (events b)),
                           tTruncated = truncated b\<rparr>)"

section \<open>Well-formed buffers\<close>

abbreviation data_size :: "output_event list \<Rightarrow> int" where
  "data_size es \<equiv> int (sum_list (map (\<lambda>e. length (eData e)) es))"

definition fits :: "int \<Rightarrow> int \<Rightarrow> output_event list \<Rightarrow> bool" where
  "fits mb me es \<longleftrightarrow> int (length es) \<le> me \<and> data_size es \<le> mb"

definition buf_inv :: "output_buffer \<Rightarrow> bool" where
  "buf_inv b \<longleftrightarrow> 0 < maxBytes b \<and> 0 < maxEvents b \<and> bufBytes b = data_size (events b)
     \<and> fits (maxBytes b) (maxEvents b) (events b)"

text \<open>The sequence numbers of the retained events are the consecutive numbers below the next one.\<close>

definition seq_inv :: "output_buffer \<Rightarrow> bool" where
  "seq_inv b \<longleftrightarrow> (\<forall>i<length (events b).
     unat (eSequence (events b ! i)) + (length (events b) - i) = unat (nextSequence b))
     \<and> 0 < unat (nextSequence b) - length (events b)"

section \<open>The abstract log\<close>

text \<open>
  The specification of the buffer: it is the longest suffix of everything captured that respects
  both limits.
\<close>

fun newest :: "int \<Rightarrow> int \<Rightarrow> output_event list \<Rightarrow> output_event list" where
  "newest mb me [] = []"
| "newest mb me (e # es) = (if fits mb me (e # es) then e # es else newest mb me es)"

lemma fits_Nil [simp]: "0 \<le> mb \<Longrightarrow> 0 \<le> me \<Longrightarrow> fits mb me []"
  by (simp add: fits_def)

lemma fits_suffix: "fits mb me es \<Longrightarrow> suffix es' es \<Longrightarrow> fits mb me es'"
  by (auto simp: fits_def suffix_def)

lemma newest_fits: "0 \<le> mb \<Longrightarrow> 0 \<le> me \<Longrightarrow> fits mb me (newest mb me es)"
  by (induction es) simp_all

lemma newest_suffix: "suffix (newest mb me es) es"
  by (induction es) (auto intro: suffix_ConsI)

lemma newest_id: "fits mb me es \<Longrightarrow> newest mb me es = es"
  by (cases es) simp_all

lemma newest_longest: "suffix es' es \<Longrightarrow> fits mb me es' \<Longrightarrow> suffix es' (newest mb me es)"
proof (induction es)
  case Nil
  then show ?case by simp
next
  case (Cons e es)
  show ?case
  proof (cases "fits mb me (e # es)")
    case False
    with Cons.prems have "suffix es' es" by (auto simp: suffix_Cons)
    with Cons False show ?thesis by simp
  qed (use Cons in simp)
qed

lemma newest_unfit:
  "\<not> fits mb me (e # es) \<Longrightarrow> newest mb me (e # es) = newest mb me es"
  by simp

text \<open>Dropping old events early loses nothing.\<close>

lemma newest_append: "newest mb me (newest mb me xs @ ys) = newest mb me (xs @ ys)"
proof (induction xs)
  case Nil
  then show ?case by simp
next
  case (Cons x xs)
  show ?case
  proof (cases "fits mb me (x # xs)")
    case False
    have "suffix (x # xs) (x # xs) \<and> \<not> fits mb me (x # (xs @ ys))"
      using False by (auto simp: fits_def)
    with Cons False show ?thesis by simp
  qed simp
qed

lemma newest_twice: "newest mb me (newest mb me xs) = newest mb me xs"
  using newest_append [of mb me xs "[]"] by simp

section \<open>The operations implement the abstract log\<close>

lemma enforceLimits_newest:
  assumes "0 \<le> maxBytes b" and "0 \<le> maxEvents b" and "bufBytes b = data_size (events b)"
  shows "enforceLimits b =
    (let es = newest (maxBytes b) (maxEvents b) (events b)
     in Return (b\<lparr>events := es, bufBytes := data_size es, truncated := truncated b \<or> es \<noteq> events b\<rparr>))"
  using assms
proof (induction b rule: enforceLimits.induct)
  case (1 b)
  show ?case
  proof (cases "fits (maxBytes b) (maxEvents b) (events b)")
    case True
    then have "\<not> (maxEvents b < int (length (events b)) \<or> maxBytes b < bufBytes b)"
      using "1.prems" by (auto simp: fits_def)
    with True "1.prems"(3) show ?thesis
      by (subst enforceLimits.simps) (simp add: newest_id Let_def)
  next
    case False
    then obtain e es where ev: "events b = e # es"
      using "1.prems" by (cases "events b") auto
    let ?b = "b\<lparr>bufBytes := bufBytes b - int (length (eData e)), events := es, truncated := True\<rparr>"
    have guard: "maxEvents b < int (length (events b)) \<or> maxBytes b < bufBytes b"
      using False "1.prems" by (auto simp: fits_def)
    have IH: "enforceLimits ?b =
      (let ns = newest (maxBytes b) (maxEvents b) es
       in Return (?b\<lparr>events := ns, bufBytes := data_size ns, truncated := True\<rparr>))"
      using "1.IH" [OF guard ev] "1.prems" ev by (simp add: Let_def)
    have "newest (maxBytes b) (maxEvents b) es \<noteq> e # es"
      using newest_suffix [of "maxBytes b" "maxEvents b" es] by (auto dest: suffix_length_le)
    with guard False ev IH show ?thesis
      by (subst enforceLimits.simps) (simp add: Let_def)
  qed
qed

function chunks :: "nat \<Rightarrow> bytes \<Rightarrow> bytes list" where
  "chunks n data = (if data = [] \<or> n = 0 then [] else take n data # chunks n (drop n data))"
  by pat_completeness auto
termination
  by (relation "measure (\<lambda>(n, data). length data)") auto

declare chunks.simps [simp del]

lemma concat_chunks: "0 < n \<Longrightarrow> concat (chunks n data) = data"
  by (induction n data rule: chunks.induct) (subst chunks.simps, simp)

lemma chunks_sizes: "c \<in> set (chunks n data) \<Longrightarrow> c \<noteq> [] \<and> length c \<le> n"
proof (induction n data rule: chunks.induct)
  case (1 n data)
  from "1.prems" have "c \<in> set (if data = [] \<or> n = 0 then [] else take n data # chunks n (drop n data))"
    by (subst (asm) chunks.simps)
  with "1.IH" show ?case by (auto split: if_splits)
qed

fun number :: "u64 \<Rightarrow> output_stream \<Rightarrow> time \<Rightarrow> bytes list \<Rightarrow> output_event list" where
  "number k s at [] = []"
| "number k s at (c # cs) =
     \<lparr>eSequence = k, eCapturedAt = at, eStream = s, eData = c\<rparr> # number (k + 1) s at cs"

lemma length_number [simp]: "length (number k s at cs) = length cs"
  by (induction cs arbitrary: k) simp_all

text \<open>The buffer after the events \<open>new\<close> were logged.\<close>

definition logged :: "output_buffer \<Rightarrow> output_event list \<Rightarrow> output_buffer" where
  "logged b new =
     (let es = newest (maxBytes b) (maxEvents b) (events b @ new)
      in b\<lparr>events := es, bufBytes := data_size es,
           nextSequence := nextSequence b + of_nat (length new),
           truncated := truncated b \<or> es \<noteq> events b @ new\<rparr>)"

lemma logged_simps [simp]:
  "maxBytes (logged b new) = maxBytes b" "maxEvents (logged b new) = maxEvents b"
  "events (logged b new) = newest (maxBytes b) (maxEvents b) (events b @ new)"
  "nextSequence (logged b new) = nextSequence b + of_nat (length new)"
  "bufBytes (logged b new) = data_size (events (logged b new))"
  by (simp_all add: logged_def Let_def)

lemma logged_inv: "buf_inv b \<Longrightarrow> buf_inv (logged b new)"
  by (simp add: buf_inv_def newest_fits)

lemma logged_Nil: "buf_inv b \<Longrightarrow> logged b [] = b"
  by (cases b) (simp add: logged_def buf_inv_def newest_id Let_def)

lemma newest_changed:
  "newest mb me xs \<noteq> xs \<or> newest mb me (newest mb me xs @ ys) \<noteq> newest mb me xs @ ys
   \<longleftrightarrow> newest mb me (xs @ ys) \<noteq> xs @ ys"
proof (cases "newest mb me xs = xs")
  case False
  have "suffix (newest mb me xs) xs" by (rule newest_suffix)
  with False have less: "length (newest mb me xs) < length xs"
    by (metis suffix_length_le suffix_def append_eq_append_conv append_Nil le_neq_implies_less)
  have "suffix (newest mb me (newest mb me xs @ ys)) (newest mb me xs @ ys)"
    by (rule newest_suffix)
  then have "length (newest mb me (xs @ ys)) < length (xs @ ys)"
    using less by (auto simp: newest_append dest: suffix_length_le)
  with False show ?thesis by auto
qed simp

lemma logged_logged:
  "buf_inv b \<Longrightarrow> logged (logged b xs) ys = logged b (xs @ ys)"
  using newest_changed [of "maxBytes b" "maxEvents b" "events b @ xs" ys]
  by (cases b) (simp add: logged_def Let_def newest_append, blast)

lemma enforce_append:
  assumes "buf_inv b"
  shows "enforceLimits (appendEvent b s c at) = Return (logged b (number (nextSequence b) s at [c]))"
  using assms
  by (subst enforceLimits_newest) (simp_all add: buf_inv_def appendEvent_def logged_def Let_def)

lemma captureLoop_logged:
  "buf_inv b \<Longrightarrow> captureLoop b s data at =
     Return (logged b (number (nextSequence b) s at (chunks (nat (maxBytes b)) data)))"
proof (induction b s data at rule: captureLoop.induct)
  case (1 b s data at)
  show ?case
  proof (cases "data = []")
    case True
    with 1 show ?thesis
      by (subst captureLoop.simps) (simp add: chunks.simps logged_Nil)
  next
    case False
    define n where "n = min (int (length data)) (maxBytes b)"
    let ?b = "logged b (number (nextSequence b) s at [take (nat n) data])"
    have mb: "0 < maxBytes b" using "1.prems" by (simp add: buf_inv_def)
    with False have n: "0 < n" by (simp add: n_def)
    have take_n: "take (nat n) data = take (nat (maxBytes b)) data"
      and drop_n: "drop (nat n) data = drop (nat (maxBytes b)) data"
      using mb by (simp_all add: n_def min_def)
    have enf: "enforceLimits (appendEvent b s (take (nat n) data) at) = Return ?b"
      by (rule enforce_append [OF "1.prems"])
    have IH: "captureLoop ?b s (drop (nat n) data) at = Return (logged ?b
        (number (nextSequence b + 1) s at (chunks (nat (maxBytes b)) (drop (nat n) data))))"
      using "1.IH" [OF False n_def _ _ enf] n logged_inv [OF "1.prems"] by simp
    have cs: "chunks (nat (maxBytes b)) data
        = take (nat n) data # chunks (nat (maxBytes b)) (drop (nat n) data)"
      using False mb by (subst chunks.simps) (simp add: take_n drop_n)
    show ?thesis
      using False n enf IH logged_logged [OF "1.prems"]
      by (subst captureLoop.simps) (simp add: n_def [symmetric] Let_def cs)
  qed
qed

lemma Capture_logged:
  assumes "buf_inv b" and "validStream s"
  shows "Capture b s data at =
    Return (logged b (number (nextSequence b) s at (chunks (nat (maxBytes b)) data)))"
  using assms
  by (simp add: Capture_def captureLoop_logged chunks.simps [of _ "[]"] logged_Nil)

lemma NewOutputBuffer_Return:
  "NewOutputBuffer mb me = Return b \<longleftrightarrow> 0 < mb \<and> 0 < me \<and>
     b = \<lparr>maxBytes = mb, maxEvents = me, bufBytes = 0, nextSequence = 1, events = [], truncated = False\<rparr>"
  by (auto simp: NewOutputBuffer_def)

section \<open>Whole runs\<close>

type_synonym output_write = "output_stream \<times> bytes \<times> time"

fun captureAll :: "output_buffer \<Rightarrow> output_write list \<Rightarrow> (buffer_error, output_buffer) outcome" where
  "captureAll b [] = Return b"
| "captureAll b ((s, data, at) # ws) = bind_outcome (Capture b s data at) (\<lambda>b'. captureAll b' ws)"

fun history :: "nat \<Rightarrow> u64 \<Rightarrow> output_write list \<Rightarrow> output_event list" where
  "history n k [] = []"
| "history n k ((s, data, at) # ws) =
     (let new = number k s at (chunks n data) in new @ history n (k + of_nat (length new)) ws)"

lemma captureAll_logged:
  "buf_inv b \<Longrightarrow> \<forall>(s, data, at)\<in>set ws. validStream s \<Longrightarrow>
   captureAll b ws = Return (logged b (history (nat (maxBytes b)) (nextSequence b) ws))"
proof (induction ws arbitrary: b)
  case Nil
  then show ?case by (simp add: logged_Nil)
next
  case (Cons w ws)
  obtain s data at where w: "w = (s, data, at)" by (cases w)
  let ?new = "number (nextSequence b) s at (chunks (nat (maxBytes b)) data)"
  have "Capture b s data at = Return (logged b ?new)"
    using Cons.prems w by (intro Capture_logged) auto
  moreover have "captureAll (logged b ?new) ws
      = Return (logged (logged b ?new) (history (nat (maxBytes b))
          (nextSequence b + of_nat (length ?new)) ws))"
    using Cons.IH [OF logged_inv [OF Cons.prems(1)]] Cons.prems(2) by simp
  ultimately show ?case
    using Cons.prems(1) w by (simp add: logged_logged Let_def)
qed

lemma number_nth:
  "i < length cs \<Longrightarrow> eSequence (number k s at cs ! i) = k + of_nat i"
  by (induction cs arbitrary: k i) (auto simp: nth_Cons' algebra_simps split: nat.split)

lemma history_nth:
  "i < length (history n k ws) \<Longrightarrow> eSequence (history n k ws ! i) = k + of_nat i"
proof (induction ws arbitrary: k i)
  case Nil
  then show ?case by simp
next
  case (Cons w ws)
  obtain s data at where "w = (s, data, at)" by (cases w)
  with Cons show ?case
    by (auto simp: Let_def nth_append number_nth less_diff_conv2 not_less algebra_simps)
qed

lemma number_data: "concat (map eData (number k s at cs)) = concat cs"
  by (induction cs arbitrary: k) simp_all

lemma history_data:
  "0 < n \<Longrightarrow> concat (map eData (history n k ws)) = concat (map (\<lambda>(s, data, at). data) ws)"
  by (induction ws arbitrary: k) (auto simp: Let_def number_data concat_chunks)

lemma number_stream: "\<forall>e\<in>set (number k s at cs). eStream e = s \<and> eCapturedAt e = at"
  by (induction cs arbitrary: k) simp_all

lemma history_stream_data:
  "0 < n \<Longrightarrow> concat (map eData (filter (\<lambda>e. eStream e = u) (history n k ws)))
     = concat (map (\<lambda>(s, data, at). data) (filter (\<lambda>(s, data, at). s = u) ws))"
proof (induction ws arbitrary: k)
  case Nil
  then show ?case by simp
next
  case (Cons w ws)
  obtain s data at where w: "w = (s, data, at)" by (cases w)
  let ?new = "number k s at (chunks n data)"
  have "filter (\<lambda>e. eStream e = u) ?new = (if s = u then ?new else [])"
    using number_stream [of k s "at" "chunks n data"]
    by (auto simp: filter_id_conv filter_empty_conv)
  with Cons w show ?case by (simp add: Let_def number_data concat_chunks)
qed

text \<open>Sequence numbers that increase from a nonzero start without wrapping.\<close>

definition seq_from :: "nat \<Rightarrow> output_event list \<Rightarrow> bool" where
  "seq_from k es \<longleftrightarrow> (\<forall>i<length es. unat (eSequence (es ! i)) = k + i)"

lemma seq_from_Cons: "seq_from k (e # es) \<longleftrightarrow> unat (eSequence e) = k \<and> seq_from (Suc k) es"
  by (auto simp: seq_from_def All_less_Suc2)

lemma seq_from_suffix:
  "seq_from k es \<Longrightarrow> suffix es' es \<Longrightarrow> seq_from (k + (length es - length es')) es'"
proof -
  assume k: "seq_from k es" and "suffix es' es"
  then obtain zs where es: "es = zs @ es'" by (auto simp: suffix_def)
  have "unat (eSequence (es' ! i)) = k + length zs + i" if "i < length es'" for i
    using k that unfolding es seq_from_def
    by (auto simp: nth_append dest: spec [of _ "length zs + i"])
  then show "seq_from (k + (length es - length es')) es'"
    by (simp add: es seq_from_def)
qed

lemma history_seq:
  "length (history n 1 ws) < 2 ^ 64 - 1 \<Longrightarrow> seq_from 1 (history n 1 ws)"
  by (auto simp: seq_from_def history_nth unat_word_ariths unat_of_nat)

lemma seq_from_set: "seq_from k es \<Longrightarrow> e \<in> set es \<Longrightarrow> k \<le> unat (eSequence e)"
  by (induction es arbitrary: k) (auto simp: seq_from_Cons dest: Suc_leD)

lemma seq_from_sorted: "seq_from k es \<Longrightarrow> sorted_wrt (<) (map eSequence es)"
proof (induction es arbitrary: k)
  case Nil
  then show ?case by simp
next
  case (Cons e es)
  have "eSequence e < eSequence f" if "f \<in> set es" for f
    using seq_from_set [of "Suc k" es f] that Cons.prems
    by (simp add: seq_from_Cons word_less_nat_alt)
  with Cons show ?case by (auto simp: seq_from_Cons)
qed

lemma sorted_split:
  "sorted_wrt (<) (map eSequence es) \<Longrightarrow>
   drop (length (takeWhile (\<lambda>e. eSequence e \<le> after) es)) es = filter (\<lambda>e. after < eSequence e) es"
proof (induction es)
  case Nil
  then show ?case by simp
next
  case (Cons e es)
  show ?case
  proof (cases "eSequence e \<le> after")
    case True
    with Cons show ?thesis by (simp add: not_less [symmetric])
  next
    case False
    then have "\<forall>f\<in>set es. after < eSequence f"
      using Cons.prems by (auto simp: not_le intro: less_trans)
    with False show ?thesis by (simp add: not_le filter_id_conv)
  qed
qed

section \<open>Properties\<close>

text \<open>C23: The buffer refines an unbounded log.  Whatever is written to a new buffer, every
  \<open>Capture\<close> returns, and the buffer then holds exactly the longest suffix of the log of all
  captured chunks that respects the byte and the event limit, its truncation flag says whether
  anything was dropped, and the log itself contains every stream's bytes in order.\<close>

theorem buffer_refines_log:
  assumes "NewOutputBuffer mb me = Return b0"
    and "\<forall>(s, data, at)\<in>set ws. validStream s"
    and "h = history (nat mb) 1 ws"
  shows "\<exists>b. captureAll b0 ws = Return b \<and> events b = newest mb me h
    \<and> (truncated b \<longleftrightarrow> events b \<noteq> h)
    \<and> suffix (events b) h \<and> fits mb me (events b) \<and> bufBytes b = data_size (events b)
    \<and> (\<forall>es. suffix es h \<longrightarrow> fits mb me es \<longrightarrow> suffix es (events b))
    \<and> (\<forall>u. concat (map eData (filter (\<lambda>e. eStream e = u) h))
         = concat (map (\<lambda>(s, data, at). data) (filter (\<lambda>(s, data, at). s = u) ws)))"
proof -
  have lim: "0 < mb" "0 < me" and inv: "buf_inv b0"
    and b0: "maxBytes b0 = mb" "maxEvents b0 = me" "events b0 = []" "nextSequence b0 = 1" "\<not> truncated b0"
    using assms(1) by (auto simp: NewOutputBuffer_Return buf_inv_def)
  have run: "captureAll b0 ws = Return (logged b0 h)"
    using captureAll_logged [OF inv assms(2)] b0 assms(3) by simp
  have ev: "events (logged b0 h) = newest mb me h"
    by (simp add: b0)
  have tr: "truncated (logged b0 h) \<longleftrightarrow> newest mb me h \<noteq> h"
    using b0 by (simp add: logged_def Let_def)
  show ?thesis
    using run ev tr newest_suffix newest_longest newest_fits [of mb me h] lim
      history_stream_data [of "nat mb" _ 1 ws] assms(3)
    by (intro exI [of _ "logged b0 h"]) simp
qed

theorem buffer_refines_log_witness:
  "\<exists>b. captureAll \<lparr>maxBytes = 4, maxEvents = 2, bufBytes = 0, nextSequence = 1, events = [], truncated = False\<rparr>
      [(Stdout, ''abc'', 7), (Stderr, ''defgh'', 8)] = Return b
    \<and> events b = newest 4 2 (history 4 1 [(Stdout, ''abc'', 7), (Stderr, ''defgh'', 8)])"
proof -
  have h: "history 4 1 [(Stdout, ''abc'', 7), (Stderr, ''defgh'', 8)]
      = history (nat 4) 1 [(Stdout, ''abc'', 7), (Stderr, ''defgh'', 8)]" by simp
  show ?thesis
    using buffer_refines_log [of 4 2 _ "[(Stdout, ''abc'', 7), (Stderr, ''defgh'', 8)]", OF _ _ h]
    by (fastforce simp: NewOutputBuffer_def)
qed

text \<open>Retained events carry strictly increasing, gap-free sequence numbers (as long as fewer
  than \<open>2^64 - 1\<close> chunks were captured), and the newest captured chunk is the last one.\<close>

theorem retained_sequences:
  assumes "NewOutputBuffer mb me = Return b0" and "captureAll b0 ws = Return b"
    and "\<forall>(s, data, at)\<in>set ws. validStream s"
    and "length (history (nat mb) 1 ws) < 2 ^ 64 - 1"
  shows "sorted_wrt (<) (map eSequence (events b))
    \<and> seq_from (length (history (nat mb) 1 ws) + 1 - length (events b)) (events b)
    \<and> unat (nextSequence b) = length (history (nat mb) 1 ws) + 1"
proof -
  let ?h = "history (nat mb) 1 ws"
  have inv: "buf_inv b0" and b0: "maxBytes b0 = mb" "maxEvents b0 = me" "events b0 = []" "nextSequence b0 = 1"
    using assms(1) by (auto simp: NewOutputBuffer_Return buf_inv_def)
  then have b: "b = logged b0 ?h"
    using captureAll_logged [OF inv assms(3)] assms(2) by simp
  then have ev: "events b = newest mb me ?h" and nx: "nextSequence b = 1 + of_nat (length ?h)"
    by (simp_all add: b0)
  have suf: "suffix (events b) ?h" unfolding ev by (rule newest_suffix)
  have sf: "seq_from (1 + (length ?h - length (events b))) (events b)"
    by (rule seq_from_suffix [OF history_seq [OF assms(4)] suf])
  have "unat (nextSequence b) = length ?h + 1"
    using assms(4) unfolding nx by (simp add: unat_word_ariths unat_of_nat)
  then show ?thesis
    using sf seq_from_sorted [OF sf] suffix_length_le [OF suf] by (simp add: Suc_diff_le)
qed

theorem retained_sequences_witness:
  "sorted_wrt (<) (map eSequence (events (logged \<lparr>maxBytes = 4, maxEvents = 2, bufBytes = 0,
     nextSequence = 1, events = [], truncated = False\<rparr> (history 4 1 [(Stdout, ''abcdef'', 7)]))))"
proof -
  let ?b = "\<lparr>maxBytes = 4, maxEvents = 2, bufBytes = 0, nextSequence = 1, events = [], truncated = False\<rparr>"
  have new: "NewOutputBuffer 4 2 = Return ?b" by (simp add: NewOutputBuffer_def)
  then have "captureAll ?b [(Stdout, ''abcdef'', 7)] = Return (logged ?b (history 4 1 [(Stdout, ''abcdef'', 7)]))"
    by (subst captureAll_logged) (auto simp: buf_inv_def fits_def)
  from retained_sequences [OF new this] show ?thesis
    by (simp add: Let_def chunks.simps)
qed

lemma tail_result:
  assumes "seq_from k (events b)" and "0 < k" and "0 < limit"
    and "int (length (events b)) + limit \<le> max_int64"
  shows "Tail b after limit = Return \<lparr>
     tEvents = (if after = 0 then drop (length (events b) - nat limit) (events b)
                else take (nat limit) (filter (\<lambda>e. after < eSequence e) (events b))),
     tTruncated = truncated b\<rparr>"
proof -
  let ?n = "int (length (events b))"
  let ?s = "tailStart b after limit"
  have sub: "int64 (?n - limit) = ?n - limit"
    using assms(3,4) by (intro int64_id) (simp add: is_int64_def max_int64_def)
  have s: "0 \<le> ?s" "?s \<le> ?n"
    using assms(3) by (auto simp: tailStart_def sub length_takeWhile_le)
  have add: "int64 (?s + limit) = ?s + limit"
    using assms(3,4) s by (intro int64_id) (simp add: is_int64_def max_int64_def)
  have "Tail b after limit = Return \<lparr>tEvents = take (nat limit) (drop (nat ?s) (events b)),
      tTruncated = truncated b\<rparr>"
    using assms(3) s by (simp add: Tail_def Let_def add min_def)
  moreover have "drop (nat ?s) (events b) = filter (\<lambda>e. after < eSequence e) (events b)" if "after \<noteq> 0"
    using that sorted_split [OF seq_from_sorted [OF assms(1)]] by (simp add: tailStart_def)
  moreover have "take (nat limit) (drop (nat ?s) (events b)) = drop (length (events b) - nat limit) (events b)"
    if "after = 0"
  proof -
    have "nat ?s = length (events b) - nat limit"
      using that assms(3) by (simp add: tailStart_def sub max_def nat_diff_distrib')
    then show ?thesis by simp
  qed
  ultimately show ?thesis by simp
qed

text \<open>A sequence-aware read returns exactly the retained events after the given sequence, oldest
  first and at most \<open>limit\<close> of them; sequence 0 asks for the newest \<open>limit\<close> events.  It needs
  \<open>limit\<close> not to run past the largest \<open>int\<close>.\<close>

theorem tail_spec:
  assumes "seq_from k (events b)" and "0 < k" and "0 < limit"
    and "int (length (events b)) + limit \<le> max_int64"
  shows "Tail b after limit = Return \<lparr>
     tEvents = (if after = 0 then drop (length (events b) - nat limit) (events b)
                else take (nat limit) (filter (\<lambda>e. after < eSequence e) (events b))),
     tTruncated = truncated b\<rparr>"
  using assms by (rule tail_result)

theorem tail_spec_witness:
  "Tail \<lparr>maxBytes = 9, maxEvents = 9, bufBytes = 2, nextSequence = 3,
      events = [\<lparr>eSequence = 1, eCapturedAt = 0, eStream = Stdout, eData = ''a''\<rparr>,
                \<lparr>eSequence = 2, eCapturedAt = 0, eStream = Stderr, eData = ''b''\<rparr>], truncated = False\<rparr> 1 5
    = Return \<lparr>tEvents = [\<lparr>eSequence = 2, eCapturedAt = 0, eStream = Stderr, eData = ''b''\<rparr>], tTruncated = False\<rparr>"
  by (subst tail_spec [where k = 1]) (simp_all add: seq_from_Cons max_int64_def, simp add: seq_from_def)

text \<open>Exactly when does a read panic: when the start index plus \<open>limit\<close> exceeds the largest
  \<open>int\<close>.  The control server passes a client's \<open>limit\<close> on unchecked.\<close>

theorem tail_panics_iff:
  assumes "0 < limit" and "limit \<le> max_int64" and "int (length (events b)) \<le> max_int64"
  shows "Tail b after limit = Panic \<longleftrightarrow> after \<noteq> 0 \<and>
    max_int64 < int (length (takeWhile (\<lambda>e. eSequence e \<le> after) (events b))) + limit"
proof -
  let ?n = "int (length (events b))"
  let ?s = "tailStart b after limit"
  have sub: "int64 (?n - limit) = ?n - limit"
    using assms by (intro int64_id) (simp add: is_int64_def max_int64_def)
  have s: "0 \<le> ?s" "?s \<le> ?n"
    using assms(1) by (auto simp: tailStart_def sub length_takeWhile_le)
  have "int64 (?s + limit) < 0" if "max_int64 < ?s + limit"
    using that s assms by (intro int64_overflow) auto
  moreover have "int64 (?s + limit) = ?s + limit" if "\<not> max_int64 < ?s + limit"
    using that s assms by (intro int64_id) (simp add: is_int64_def max_int64_def)
  ultimately have "Tail b after limit = Panic \<longleftrightarrow> max_int64 < ?s + limit"
    using assms(1) s by (cases "max_int64 < ?s + limit") (simp_all add: Tail_def Let_def)
  moreover have "?s + limit \<le> max_int64" if "after = 0"
    using that assms by (simp add: tailStart_def sub)
  ultimately show ?thesis by (auto simp: tailStart_def)
qed

theorem tail_panics_witness:
  "Tail \<lparr>maxBytes = 9, maxEvents = 9, bufBytes = 1, nextSequence = 2,
      events = [\<lparr>eSequence = 1, eCapturedAt = 0, eStream = Stdout, eData = ''a''\<rparr>], truncated = False\<rparr>
      1 max_int64 = Panic"
  by (subst tail_panics_iff) (simp_all add: max_int64_def)

end
