(* ===== verification/Registry.thy ===== *)
theory Registry
  imports ProcessState Paths
begin

text \<open>
  The daemon's registry: the in-memory records of \<open>internal/supervision/model.go\<close> and
  \<open>registry.go\<close>, the versioned document of \<open>registry_document.go\<close> that is written to disk,
  both conversions with their validation, and the reconciliation of interrupted runtimes at
  daemon start.  The maps hold pointers, so an entry may be nil; association-list order is the
  order of one \<open>range\<close> loop.
\<close>

section \<open>Records\<close>

record project_definition =
  pdID :: string
  pdRootDirectory :: string

record process_definition =
  dProjectID :: string
  dID :: string
  dCommand :: string
  dArguments :: "string list"
  dWorkingDirectory :: string
  dEnvironmentOverrides :: "(string, string) gomap option"

record registered_process =
  procDefinition :: process_definition
  procRuntime :: "process_runtime option"

record registered_project =
  projDefinition :: project_definition
  projProcesses :: "(string, registered_process option) gomap"

record registry =
  regProjects :: "(string, registered_project option) gomap"

definition NewRegistry :: registry where
  "NewRegistry = \<lparr>regProjects = []\<rparr>"

definition DaemonRestartTerminationReason :: string where
  "DaemonRestartTerminationReason = ''daemon-restart''"

section \<open>Reconciliation after a daemon restart\<close>

datatype reconcile_error =
  ProjectHasNoRecord string
| ProcessHasNoRecord string string
| InvalidRuntimeState string string process_state
| ReconcileTransition string string state_error

text \<open>The body of the inner loop: the process afterwards and whether it was changed.\<close>

definition reconcileProcess :: "string \<Rightarrow> string \<Rightarrow> time \<Rightarrow> registered_process option
    \<Rightarrow> reconcile_error + (registered_process option \<times> bool)" where
  "reconcileProcess projectID processID at process =
     (case process of
        None \<Rightarrow> Inl (ProcessHasNoRecord processID projectID)
      | Some p \<Rightarrow>
          (case procRuntime p of
             None \<Rightarrow> Inr (process, False)
           | Some r \<Rightarrow>
               if \<not> IsValid (rState r) then Inl (InvalidRuntimeState processID projectID (rState r))
               else if \<not> IsActive (rState r) then Inr (process, False)
               else (case Transition r Failed of
                       Inl e \<Rightarrow> Inl (ReconcileTransition processID projectID e)
                     | Inr r' \<Rightarrow>
                         Inr (Some (p\<lparr>procRuntime := Some (r'\<lparr>rFinishedAt := Some at,
                                rTerminationReason := DaemonRestartTerminationReason\<rparr>)\<rparr>), True))))"

fun reconcileProcesses :: "string \<Rightarrow> time \<Rightarrow> (string, registered_process option) gomap \<Rightarrow> bool
    \<Rightarrow> (string, registered_process option) gomap \<times> (reconcile_error + bool)" where
  "reconcileProcesses projectID at [] changed = ([], Inr changed)"
| "reconcileProcesses projectID at ((k, p) # ps) changed =
     (case reconcileProcess projectID k at p of
        Inl e \<Rightarrow> ((k, p) # ps, Inl e)
      | Inr (p', ch) \<Rightarrow>
          (let (ps', res) = reconcileProcesses projectID at ps (changed \<or> ch)
           in ((k, p') # ps', res)))"

fun reconcileProjects :: "time \<Rightarrow> (string, registered_project option) gomap \<Rightarrow> bool
    \<Rightarrow> (string, registered_project option) gomap \<times> (reconcile_error + bool)" where
  "reconcileProjects at [] changed = ([], Inr changed)"
| "reconcileProjects at ((k, None) # ps) changed = ((k, None) # ps, Inl (ProjectHasNoRecord k))"
| "reconcileProjects at ((k, Some project) # ps) changed =
     (case reconcileProcesses k at (projProcesses project) changed of
        (procs, Inl e) \<Rightarrow> ((k, Some (project\<lparr>projProcesses := procs\<rparr>)) # ps, Inl e)
      | (procs, Inr changed') \<Rightarrow>
          (let (ps', res) = reconcileProjects at ps changed'
           in ((k, Some (project\<lparr>projProcesses := procs\<rparr>)) # ps', res)))"

text \<open>The registry is changed in place, also when an error ends the loops early.\<close>

definition ReconcileAfterDaemonRestart :: "registry \<Rightarrow> time \<Rightarrow> registry \<times> (reconcile_error + bool)" where
  "ReconcileAfterDaemonRestart reg at =
     (let (ps, res) = reconcileProjects at (regProjects reg) False
      in (reg\<lparr>regProjects := ps\<rparr>, res))"

section \<open>The document\<close>

record runtime_document =
  rdInstanceID :: string
  rdPID :: "int option"
  rdState :: process_state
  rdStartedAt :: "time option"
  rdFinishedAt :: "time option"
  rdExitCode :: "int option"
  rdTerminationReason :: string

record process_document =
  cdID :: string
  cdCommand :: string
  cdArguments :: "string list"
  cdWorkingDirectory :: string
  cdEnvironmentOverrides :: "(string, string) gomap option"
  cdRuntime :: "runtime_document option"

record project_document =
  jdID :: string
  jdRootDirectory :: string
  jdProcesses :: "process_document list"

record registry_document =
  docVersion :: int
  docProjects :: "project_document list"

definition registryDocumentVersion :: int where
  "registryDocumentVersion = 1"

datatype document_error =
  RegistryIsNil
| InvalidProjectRecord string
| ProjectRootNotAbsolute string
| InvalidProcessRecord string string
| EmptyCommand string string
| InvalidRuntime string string
| InvalidState string string process_state
| InvalidPID string string
| UnsupportedVersion int
| EmptyProjectID
| DuplicateProject string
| EmptyProcessID string
| DuplicateProcess string string

definition validateRegisteredProject :: "string \<Rightarrow> registered_project option \<Rightarrow> document_error option" where
  "validateRegisteredProject projectID project =
     (case project of
        None \<Rightarrow> Some (InvalidProjectRecord projectID)
      | Some p \<Rightarrow>
          if projectID = [] \<or> pdID (projDefinition p) \<noteq> projectID then Some (InvalidProjectRecord projectID)
          else if \<not> isAbs (pdRootDirectory (projDefinition p)) then Some (ProjectRootNotAbsolute projectID)
          else None)"

definition validateRegisteredProcess :: "string \<Rightarrow> string \<Rightarrow> registered_process option
    \<Rightarrow> document_error option" where
  "validateRegisteredProcess projectID processID process =
     (case process of
        None \<Rightarrow> Some (InvalidProcessRecord processID projectID)
      | Some p \<Rightarrow>
          if processID = [] \<or> dID (procDefinition p) \<noteq> processID \<or> dProjectID (procDefinition p) \<noteq> projectID
          then Some (InvalidProcessRecord processID projectID)
          else if dCommand (procDefinition p) = [] then Some (EmptyCommand processID projectID)
          else (case procRuntime p of
                  None \<Rightarrow> None
                | Some r \<Rightarrow>
                    if rProjectID r \<noteq> projectID \<or> rProcessID r \<noteq> processID \<or> rInstanceID r = []
                    then Some (InvalidRuntime processID projectID)
                    else if \<not> IsValid (rState r) then Some (InvalidState processID projectID (rState r))
                    else if (case rPID r of Some pid \<Rightarrow> pid \<le> 0 | None \<Rightarrow> False)
                    then Some (InvalidPID processID projectID)
                    else None))"

definition runtimeToDocument :: "process_runtime option \<Rightarrow> runtime_document option" where
  "runtimeToDocument runtime =
     map_option (\<lambda>r. \<lparr>rdInstanceID = rInstanceID r, rdPID = rPID r, rdState = rState r,
       rdStartedAt = rStartedAt r, rdFinishedAt = rFinishedAt r, rdExitCode = rExitCode r,
       rdTerminationReason = rTerminationReason r\<rparr>) runtime"

definition documentToRuntime :: "string \<Rightarrow> string \<Rightarrow> runtime_document option \<Rightarrow> process_runtime option" where
  "documentToRuntime projectID processID document =
     map_option (\<lambda>d. \<lparr>rProjectID = projectID, rProcessID = processID, rInstanceID = rdInstanceID d,
       rPID = rdPID d, rState = rdState d, rStartedAt = rdStartedAt d, rFinishedAt = rdFinishedAt d,
       rExitCode = rdExitCode d, rTerminationReason = rdTerminationReason d\<rparr>) document"

definition processToDocument :: "string \<Rightarrow> registered_process \<Rightarrow> process_document" where
  "processToDocument processID p =
     \<lparr>cdID = processID, cdCommand = dCommand (procDefinition p),
      cdArguments = dArguments (procDefinition p),
      cdWorkingDirectory = dWorkingDirectory (procDefinition p),
      cdEnvironmentOverrides = dEnvironmentOverrides (procDefinition p),
      cdRuntime = runtimeToDocument (procRuntime p)\<rparr>"

text \<open>The inner and the outer loop of \<open>registryToDocument\<close>, over the sorted keys.\<close>

fun processesToDocument :: "string \<Rightarrow> (string, registered_process option) gomap \<Rightarrow> string list
    \<Rightarrow> document_error + process_document list" where
  "processesToDocument projectID procs [] = Inr []"
| "processesToDocument projectID procs (k # ks) =
     (case validateRegisteredProcess projectID k (map_ptr procs k) of
        Some e \<Rightarrow> Inl e
      | None \<Rightarrow>
          (case processesToDocument projectID procs ks of
             Inl e \<Rightarrow> Inl e
           | Inr ds \<Rightarrow> Inr (processToDocument k (the (map_ptr procs k)) # ds)))"

fun projectsToDocument :: "(string, registered_project option) gomap \<Rightarrow> string list
    \<Rightarrow> document_error + project_document list" where
  "projectsToDocument projects [] = Inr []"
| "projectsToDocument projects (k # ks) =
     (case validateRegisteredProject k (map_ptr projects k) of
        Some e \<Rightarrow> Inl e
      | None \<Rightarrow>
          (let project = the (map_ptr projects k)
           in case processesToDocument k (projProcesses project)
                     (sortStrings (map_keys (projProcesses project))) of
                Inl e \<Rightarrow> Inl e
              | Inr ps \<Rightarrow>
                  (case projectsToDocument projects ks of
                     Inl e \<Rightarrow> Inl e
                   | Inr ds \<Rightarrow>
                       Inr (\<lparr>jdID = k, jdRootDirectory = pdRootDirectory (projDefinition project),
                             jdProcesses = ps\<rparr> # ds))))"

definition registryToDocument :: "registry option \<Rightarrow> document_error + registry_document" where
  "registryToDocument reg =
     (case reg of
        None \<Rightarrow> Inl RegistryIsNil
      | Some r \<Rightarrow>
          (case projectsToDocument (regProjects r) (sortStrings (map_keys (regProjects r))) of
             Inl e \<Rightarrow> Inl e
           | Inr ps \<Rightarrow> Inr \<lparr>docVersion = registryDocumentVersion, docProjects = ps\<rparr>))"

fun documentToProcesses :: "string \<Rightarrow> process_document list \<Rightarrow> (string, registered_process option) gomap
    \<Rightarrow> document_error + (string, registered_process option) gomap" where
  "documentToProcesses projectID [] procs = Inr procs"
| "documentToProcesses projectID (d # ds) procs =
     (let processID = cdID d;
          process = \<lparr>procDefinition = \<lparr>dProjectID = projectID, dID = processID, dCommand = cdCommand d,
                       dArguments = cdArguments d, dWorkingDirectory = cdWorkingDirectory d,
                       dEnvironmentOverrides = cdEnvironmentOverrides d\<rparr>,
                     procRuntime = documentToRuntime projectID processID (cdRuntime d)\<rparr>
      in if processID = [] then Inl (EmptyProcessID projectID)
         else if cdCommand d = [] then Inl (EmptyCommand processID projectID)
         else if map_of procs processID \<noteq> None then Inl (DuplicateProcess processID projectID)
         else (case procRuntime process of
                 Some r \<Rightarrow>
                   if \<not> IsValid (rState r) then Inl (InvalidState processID projectID (rState r))
                   else documentToProcesses projectID ds (map_put procs processID (Some process))
               | None \<Rightarrow> documentToProcesses projectID ds (map_put procs processID (Some process))))"

fun documentToProjects :: "project_document list \<Rightarrow> (string, registered_project option) gomap
    \<Rightarrow> document_error + (string, registered_project option) gomap" where
  "documentToProjects [] projects = Inr projects"
| "documentToProjects (d # ds) projects =
     (let projectID = jdID d
      in if projectID = [] then Inl EmptyProjectID
         else if \<not> isAbs (jdRootDirectory d) then Inl (ProjectRootNotAbsolute projectID)
         else if map_of projects projectID \<noteq> None then Inl (DuplicateProject projectID)
         else (case documentToProcesses projectID (jdProcesses d) [] of
                 Inl e \<Rightarrow> Inl e
               | Inr procs \<Rightarrow>
                   documentToProjects ds (map_put projects projectID (Some
                     \<lparr>projDefinition = \<lparr>pdID = projectID, pdRootDirectory = jdRootDirectory d\<rparr>,
                      projProcesses = procs\<rparr>))))"

definition documentToRegistry :: "registry_document \<Rightarrow> document_error + registry" where
  "documentToRegistry document =
     (if docVersion document \<noteq> registryDocumentVersion then Inl (UnsupportedVersion (docVersion document))
      else (case documentToProjects (docProjects document) [] of
              Inl e \<Rightarrow> Inl e
            | Inr ps \<Rightarrow> Inr \<lparr>regProjects = ps\<rparr>))"

section \<open>Lookups and validity\<close>

definition regProject :: "registry \<Rightarrow> string \<Rightarrow> registered_project option" where
  "regProject r p = map_ptr (regProjects r) p"

definition regProcess :: "registry \<Rightarrow> string \<Rightarrow> string \<Rightarrow> registered_process option" where
  "regProcess r p q = Option.bind (regProject r p) (\<lambda>project. map_ptr (projProcesses project) q)"

definition processes_valid :: "string \<Rightarrow> (string, registered_process option) gomap \<Rightarrow> bool" where
  "processes_valid p procs \<longleftrightarrow> map_wf procs \<and> (\<forall>k\<in>set (map_keys procs). validateRegisteredProcess p k (map_ptr procs k) = None)"

definition registry_valid :: "registry \<Rightarrow> bool" where
  "registry_valid r \<longleftrightarrow> map_wf (regProjects r) \<and> (\<forall>k\<in>set (map_keys (regProjects r)).
     validateRegisteredProject k (regProject r k) = None \<and>
     (\<forall>project. regProject r k = Some project \<longrightarrow> processes_valid k (projProcesses project)))"

text \<open>The keys of every map of the registry are distinct, as they are in Go.\<close>

definition registry_wf :: "registry \<Rightarrow> bool" where
  "registry_wf r \<longleftrightarrow> map_wf (regProjects r) \<and>
     (\<forall>(k, v)\<in>set (regProjects r). \<forall>project. v = Some project \<longrightarrow> map_wf (projProcesses project))"

definition canonicalProject :: "registered_project \<Rightarrow> registered_project" where
  "canonicalProject project = project\<lparr>projProcesses := sortMap (projProcesses project)\<rparr>"

definition canonical :: "registry \<Rightarrow> registry" where
  "canonical r = r\<lparr>regProjects := map (\<lambda>(k, v). (k, map_option canonicalProject v)) (sortMap (regProjects r))\<rparr>"

lemma validate_project_Some:
  "validateRegisteredProject k v = None \<longleftrightarrow> (\<exists>project. v = Some project \<and> k \<noteq> [] \<and>
     pdID (projDefinition project) = k \<and> isAbs (pdRootDirectory (projDefinition project)))"
  by (auto simp: validateRegisteredProject_def split: option.splits if_splits)

lemma validate_process_Some:
  "validateRegisteredProcess p k v = None \<longleftrightarrow> (\<exists>process. v = Some process \<and> k \<noteq> [] \<and>
     dID (procDefinition process) = k \<and> dProjectID (procDefinition process) = p \<and>
     dCommand (procDefinition process) \<noteq> [] \<and>
     (\<forall>r. procRuntime process = Some r \<longrightarrow> rProjectID r = p \<and> rProcessID r = k \<and>
        rInstanceID r \<noteq> [] \<and> IsValid (rState r) \<and> (\<forall>pid. rPID r = Some pid \<longrightarrow> 0 < pid)))"
  by (auto simp: validateRegisteredProcess_def split: option.splits if_splits)

lemma canonical_keys: "map_keys (regProjects (canonical r)) = sortStrings (map_keys (regProjects r))"
  by (simp add: canonical_def comp_def case_prod_unfold sortMap_def)

lemma map_ptr_map_option:
  "map_ptr (map (\<lambda>(k, v). (k, map_option f v)) m) k = map_option f (map_ptr m k)"
  by (induction m) (auto simp: map_ptr_def split: option.splits)

lemma regProject_canonical: "regProject (canonical r) p = map_option canonicalProject (regProject r p)"
  by (simp add: regProject_def canonical_def map_ptr_map_option)

lemma regProcess_canonical: "regProcess (canonical r) p q = regProcess r p q"
  by (cases "regProject r p") (simp_all add: regProcess_def regProject_canonical canonicalProject_def)

section \<open>The document conversions\<close>

lemma processesToDocument_Inr:
  "(\<exists>ds. processesToDocument p procs ks = Inr ds) \<longleftrightarrow>
     (\<forall>k\<in>set ks. validateRegisteredProcess p k (map_ptr procs k) = None)"
  by (induction ks) (auto split: option.splits sum.splits)

lemma processesToDocument_eq:
  "processesToDocument p procs ks = Inr ds \<Longrightarrow>
     ds = map (\<lambda>k. processToDocument k (the (map_ptr procs k))) ks"
  by (induction ks arbitrary: ds) (auto split: option.splits sum.splits)

lemma processes_roundtrip:
  assumes "\<forall>k\<in>set ks. validateRegisteredProcess p k (map_ptr procs k) = None"
    and "distinct ks" and "set ks \<inter> set (map_keys acc) = {}"
  shows "documentToProcesses p (map (\<lambda>k. processToDocument k (the (map_ptr procs k))) ks) acc
    = Inr (acc @ map (\<lambda>k. (k, map_ptr procs k)) ks)"
  using assms
proof (induction ks arbitrary: acc)
  case Nil
  then show ?case by simp
next
  case (Cons k ks)
  from Cons.prems(1) have "validateRegisteredProcess p k (map_ptr procs k) = None" by simp
  then obtain process where pr: "map_ptr procs k = Some process" "k \<noteq> []"
      "dID (procDefinition process) = k" "dProjectID (procDefinition process) = p"
      "dCommand (procDefinition process) \<noteq> []"
    and rt: "\<And>r. procRuntime process = Some r \<Longrightarrow> rProjectID r = p \<and> rProcessID r = k \<and> IsValid (rState r)"
    by (auto simp: validate_process_Some)
  let ?d = "processToDocument k process"
  have run: "documentToRuntime p k (cdRuntime ?d) = procRuntime process"
    using rt by (cases "procRuntime process")
      (auto simp: processToDocument_def documentToRuntime_def runtimeToDocument_def)
  have rebuilt: "\<lparr>procDefinition = \<lparr>dProjectID = p, dID = k, dCommand = cdCommand ?d,
      dArguments = cdArguments ?d, dWorkingDirectory = cdWorkingDirectory ?d,
      dEnvironmentOverrides = cdEnvironmentOverrides ?d\<rparr>,
      procRuntime = documentToRuntime p k (cdRuntime ?d)\<rparr> = process"
    unfolding run using pr by (cases process, cases "procDefinition process") (simp add: processToDocument_def)
  have ids: "cdID ?d = k" "cdCommand ?d \<noteq> []" using pr by (simp_all add: processToDocument_def)
  have fresh: "map_of acc k = None" "k \<notin> set (map_keys acc)"
    using Cons.prems(3) by (auto simp: map_of_eq_None_iff)
  have "documentToProcesses p (?d # map (\<lambda>k. processToDocument k (the (map_ptr procs k))) ks) acc
      = documentToProcesses p (map (\<lambda>k. processToDocument k (the (map_ptr procs k))) ks)
          (map_put acc k (Some process))"
    using ids pr(2) fresh(1) rt rebuilt by (simp add: Let_def split: option.split)
  also have "\<dots> = Inr ((acc @ [(k, Some process)]) @ map (\<lambda>k. (k, map_ptr procs k)) ks)"
    using Cons.prems fresh(2) by (subst Cons.IH) (auto simp: map_put_fresh)
  finally show ?case using pr(1) by simp
qed

lemma projectsToDocument_Inr:
  "(\<exists>ds. projectsToDocument projects ks = Inr ds) \<longleftrightarrow>
     (\<forall>k\<in>set ks. validateRegisteredProject k (map_ptr projects k) = None \<and>
        (\<forall>project. map_ptr projects k = Some project \<longrightarrow>
           (\<forall>q\<in>set (map_keys (projProcesses project)).
              validateRegisteredProcess k q (map_ptr (projProcesses project) q) = None)))"
proof (induction ks)
  case Nil
  then show ?case by simp
next
  case (Cons k ks)
  show ?case
  proof (cases "validateRegisteredProject k (map_ptr projects k)")
    case None
    then obtain project where "map_ptr projects k = Some project" by (auto simp: validate_project_Some)
    have "(\<exists>ps. processesToDocument k (projProcesses project) (sortStrings (map_keys (projProcesses project))) = Inr ps)
        \<longleftrightarrow> (\<forall>q\<in>set (map_keys (projProcesses project)).
              validateRegisteredProcess k q (map_ptr (projProcesses project) q) = None)"
      by (simp only: processesToDocument_Inr set_sortStrings)
    with None Cons \<open>map_ptr projects k = Some project\<close> show ?thesis
      by (cases "processesToDocument k (projProcesses project) (sortStrings (map_keys (projProcesses project)))";
          cases "projectsToDocument projects ks") (simp_all add: Let_def)
  qed simp
qed

lemma registryToDocument_valid:
  assumes "registry_wf r"
  shows "(\<exists>d. registryToDocument (Some r) = Inr d) \<longleftrightarrow> registry_valid r"
proof -
  have wf: "map_wf (projProcesses project)" if "regProject r k = Some project" for k project
    using assms that by (fastforce simp: registry_wf_def regProject_def dest: map_ptr_in_set)
  have "(\<exists>d. registryToDocument (Some r) = Inr d) \<longleftrightarrow>
      (\<exists>ds. projectsToDocument (regProjects r) (sortStrings (map_keys (regProjects r))) = Inr ds)"
    by (auto simp: registryToDocument_def split: sum.splits)
  then show ?thesis
    using assms wf by (auto simp: projectsToDocument_Inr registry_valid_def registry_wf_def
        processes_valid_def regProject_def)
qed

lemma projects_roundtrip:
  assumes "\<forall>k\<in>set ks. validateRegisteredProject k (map_ptr projects k) = None \<and>
      (\<forall>project. map_ptr projects k = Some project \<longrightarrow> processes_valid k (projProcesses project))"
    and "distinct ks" and "set ks \<inter> set (map_keys acc) = {}"
  shows "\<exists>ds. projectsToDocument projects ks = Inr ds \<and> documentToProjects ds acc
    = Inr (acc @ map (\<lambda>k. (k, map_option canonicalProject (map_ptr projects k))) ks)"
  using assms
proof (induction ks arbitrary: acc)
  case Nil
  then show ?case by simp
next
  case (Cons k ks)
  then obtain project where pr: "map_ptr projects k = Some project" "k \<noteq> []"
      "pdID (projDefinition project) = k" "isAbs (pdRootDirectory (projDefinition project))"
    and val: "validateRegisteredProject k (map_ptr projects k) = None"
    and pv: "processes_valid k (projProcesses project)"
    by (auto simp: validate_project_Some)
  let ?qs = "sortStrings (map_keys (projProcesses project))"
  let ?cs = "map (\<lambda>q. processToDocument q (the (map_ptr (projProcesses project) q))) ?qs"
  let ?d = "\<lparr>jdID = k, jdRootDirectory = pdRootDirectory (projDefinition project), jdProcesses = ?cs\<rparr>"
  have ok: "\<forall>q\<in>set ?qs. validateRegisteredProcess k q (map_ptr (projProcesses project) q) = None"
    and dis: "distinct ?qs"
    using pv by (simp_all add: processes_valid_def map_wf_def)
  obtain cs where "processesToDocument k (projProcesses project) ?qs = Inr cs"
    using ok processesToDocument_Inr by blast
  then have todoc: "processesToDocument k (projProcesses project) ?qs = Inr ?cs"
    using processesToDocument_eq by blast
  have fromdoc: "documentToProcesses k ?cs [] = Inr (sortMap (projProcesses project))"
    using processes_roundtrip [OF ok dis, of "[]"] by (simp add: sortMap_def)
  let ?new = "Some \<lparr>projDefinition = \<lparr>pdID = k, pdRootDirectory = pdRootDirectory (projDefinition project)\<rparr>,
      projProcesses = sortMap (projProcesses project)\<rparr>"
  have new: "?new = map_option canonicalProject (map_ptr projects k)"
    using pr by (cases project, cases "projDefinition project") (simp add: canonicalProject_def)
  have fresh: "map_of acc k = None" "k \<notin> set (map_keys acc)"
    using Cons.prems(3) by (auto simp: map_of_eq_None_iff)
  obtain ds where ds: "projectsToDocument projects ks = Inr ds" and rest: "documentToProjects ds (acc @ [(k, ?new)])
      = Inr ((acc @ [(k, ?new)]) @ map (\<lambda>k. (k, map_option canonicalProject (map_ptr projects k))) ks)"
    using Cons.IH [of "acc @ [(k, ?new)]"] Cons.prems by auto
  have "projectsToDocument projects (k # ks) = Inr (?d # ds)"
    using val pr(1) todoc ds by (simp add: Let_def)
  moreover have "documentToProjects (?d # ds) acc
      = Inr (acc @ map (\<lambda>k. (k, map_option canonicalProject (map_ptr projects k))) (k # ks))"
    using pr fresh fromdoc rest new by (simp add: Let_def map_put_fresh)
  ultimately show ?case by blast
qed

lemma documentToProcesses_valid_states:
  "documentToProcesses p ds acc = Inr procs \<Longrightarrow>
   (\<forall>(k, v)\<in>set acc. \<exists>process. v = Some process \<and>
      (\<forall>r. procRuntime process = Some r \<longrightarrow> IsValid (rState r))) \<Longrightarrow> map_wf acc \<Longrightarrow>
   map_wf procs \<and> (\<forall>(k, v)\<in>set procs. \<exists>process. v = Some process \<and>
      (\<forall>r. procRuntime process = Some r \<longrightarrow> IsValid (rState r)))"
proof (induction ds arbitrary: acc)
  case Nil
  then show ?case by simp
next
  case (Cons d ds)
  have fresh: "cdID d \<notin> set (map_keys acc)"
    using Cons.prems(1) by (auto simp: Let_def map_of_eq_None_iff split: if_splits)
  obtain v where "documentToProcesses p ds (map_put acc (cdID d) (Some v)) = Inr procs"
    and "\<forall>r. procRuntime v = Some r \<longrightarrow> IsValid (rState r)"
    using Cons.prems(1) by (auto simp: Let_def split: if_splits option.splits)
  with Cons.IH [of "map_put acc (cdID d) (Some v)"] Cons.prems(2,3) fresh show ?case
    by (auto simp: map_put_fresh map_wf_def)
qed

lemma documentToProjects_wf:
  "documentToProjects ds acc = Inr projects \<Longrightarrow>
   (\<forall>(k, v)\<in>set acc. \<exists>project. v = Some project \<and> map_wf (projProcesses project) \<and>
      (\<forall>(q, w)\<in>set (projProcesses project). \<exists>process. w = Some process \<and>
         (\<forall>r. procRuntime process = Some r \<longrightarrow> IsValid (rState r)))) \<Longrightarrow> map_wf acc \<Longrightarrow>
   map_wf projects \<and> (\<forall>(k, v)\<in>set projects. \<exists>project. v = Some project \<and> map_wf (projProcesses project) \<and>
      (\<forall>(q, w)\<in>set (projProcesses project). \<exists>process. w = Some process \<and>
         (\<forall>r. procRuntime process = Some r \<longrightarrow> IsValid (rState r))))"
proof (induction ds arbitrary: acc)
  case Nil
  then show ?case by simp
next
  case (Cons d ds)
  have fresh: "jdID d \<notin> set (map_keys acc)"
    using Cons.prems(1) by (auto simp: Let_def map_of_eq_None_iff split: if_splits)
  obtain procs where procs: "documentToProcesses (jdID d) (jdProcesses d) [] = Inr procs"
    and rest: "documentToProjects ds (map_put acc (jdID d) (Some
         \<lparr>projDefinition = \<lparr>pdID = jdID d, pdRootDirectory = jdRootDirectory d\<rparr>, projProcesses = procs\<rparr>))
         = Inr projects"
    using Cons.prems(1) by (auto simp: Let_def split: if_splits sum.splits)
  have pv: "map_wf procs \<and> (\<forall>(k, v)\<in>set procs. \<exists>process. v = Some process \<and>
      (\<forall>r. procRuntime process = Some r \<longrightarrow> IsValid (rState r)))"
    using documentToProcesses_valid_states [OF procs] by simp
  show ?case
    using Cons.IH [OF rest] Cons.prems(2,3) fresh pv
    by (simp add: map_put_fresh map_wf_def)
qed

text \<open>What a loaded registry is known to satisfy: no nil entries and only valid states.\<close>

definition registry_loaded :: "registry \<Rightarrow> bool" where
  "registry_loaded r \<longleftrightarrow> map_wf (regProjects r) \<and>
     (\<forall>(k, v)\<in>set (regProjects r). \<exists>project. v = Some project \<and> map_wf (projProcesses project) \<and>
        (\<forall>(q, w)\<in>set (projProcesses project). \<exists>process. w = Some process \<and>
           (\<forall>r. procRuntime process = Some r \<longrightarrow> IsValid (rState r))))"

lemma documentToRegistry_loaded: "documentToRegistry d = Inr r \<Longrightarrow> registry_loaded r"
  using documentToProjects_wf [of "docProjects d" "[]"]
  by (auto simp: documentToRegistry_def registry_loaded_def split: if_splits sum.splits)

lemma registry_loaded_wf: "registry_loaded r \<Longrightarrow> registry_wf r"
  by (fastforce simp: registry_loaded_def registry_wf_def)

lemma registryToDocument_canonical:
  assumes "registry_wf r" and d: "registryToDocument (Some r) = Inr d"
  shows "documentToRegistry d = Inr (canonical r)"
proof -
  let ?ks = "sortStrings (map_keys (regProjects r))"
  have rv: "registry_valid r" using registryToDocument_valid [OF assms(1)] d by simp
  then obtain ds where ds: "projectsToDocument (regProjects r) ?ks = Inr ds"
    and doc: "documentToProjects ds [] = Inr (map (\<lambda>k. (k, map_option canonicalProject (map_ptr (regProjects r) k))) ?ks)"
    using projects_roundtrip [of ?ks "regProjects r" "[]"]
    by (auto simp: registry_valid_def regProject_def map_wf_def)
  have "d = \<lparr>docVersion = 1, docProjects = ds\<rparr>"
    using d ds by (simp add: registryToDocument_def registryDocumentVersion_def)
  then show ?thesis
    using doc by (simp add: documentToRegistry_def registryDocumentVersion_def canonical_def sortMap_def comp_def)
qed

section \<open>Properties of the document\<close>

text \<open>C22: Round trip of the persisted registry: a registry is written to a document exactly when it
  is valid, and reading that document back gives the same registry, with the entries of every map
  in the order of their keys; every project and process lookup is unchanged.\<close>

theorem registry_roundtrip:
  assumes "registry_wf r"
  shows "(registry_valid r \<longleftrightarrow> (\<exists>d. registryToDocument (Some r) = Inr d)) \<and>
    (\<forall>d. registryToDocument (Some r) = Inr d \<longrightarrow> documentToRegistry d = Inr (canonical r)) \<and>
    regProcess (canonical r) p q = regProcess r p q \<and>
    map_option projDefinition (regProject (canonical r) p) = map_option projDefinition (regProject r p)"
proof -
  have valid: "registry_valid r \<longleftrightarrow> (\<exists>d. registryToDocument (Some r) = Inr d)"
    using registryToDocument_valid [OF assms] by simp
  have "documentToRegistry d = Inr (canonical r)" if "registryToDocument (Some r) = Inr d" for d
    by (rule registryToDocument_canonical [OF assms that])
  then show ?thesis
    using valid by (simp add: regProcess_canonical regProject_canonical option.map_comp comp_def canonicalProject_def)
qed

text \<open>A concrete registry, for the witnesses.\<close>

definition sample_process :: registered_process where
  "sample_process = \<lparr>procDefinition = \<lparr>dProjectID = ''p'', dID = ''q'', dCommand = ''run'', dArguments = [''serve''],
     dWorkingDirectory = [], dEnvironmentOverrides = Some [(''KEY'', ''secret'')]\<rparr>,
     procRuntime = Some \<lparr>rProjectID = ''p'', rProcessID = ''q'', rInstanceID = ''i'', rPID = Some 7,
       rState = Running, rStartedAt = Some 1, rFinishedAt = None, rExitCode = None,
       rTerminationReason = []\<rparr>\<rparr>"

definition sample_registry :: registry where
  "sample_registry = \<lparr>regProjects = [(''p'', Some \<lparr>projDefinition = \<lparr>pdID = ''p'', pdRootDirectory = ''/w''\<rparr>,
     projProcesses = [(''q'', Some sample_process)]\<rparr>)]\<rparr>"

lemma sample_registry_valid: "registry_wf sample_registry" "registry_valid sample_registry"
  by (simp_all add: sample_registry_def sample_process_def registry_wf_def registry_valid_def map_wf_def
      regProject_def map_ptr_def processes_valid_def validateRegisteredProject_def validateRegisteredProcess_def)

theorem registry_roundtrip_witness:
  "registry_valid sample_registry \<longleftrightarrow> (\<exists>d. registryToDocument (Some sample_registry) = Inr d)"
  using registry_roundtrip [OF sample_registry_valid(1), of "''p''" "''q''"] by blast

text \<open>Loading is laxer than saving: the document below, whose runtime has an empty instance ID,
  is accepted when the registry is loaded, and the registry it gives is then refused by every
  later save.\<close>

theorem loaded_registry_not_savable:
  "\<exists>d r. documentToRegistry d = Inr r \<and> registryToDocument (Some r) = Inl (InvalidRuntime ''q'' ''p'')"
proof -
  let ?d = "\<lparr>docVersion = 1, docProjects = [\<lparr>jdID = ''p'', jdRootDirectory = ''/w'', jdProcesses =
     [\<lparr>cdID = ''q'', cdCommand = ''run'', cdArguments = [], cdWorkingDirectory = [], cdEnvironmentOverrides = None,
       cdRuntime = Some \<lparr>rdInstanceID = [], rdPID = None, rdState = Exited, rdStartedAt = None,
         rdFinishedAt = None, rdExitCode = None, rdTerminationReason = []\<rparr>\<rparr>]\<rparr>]\<rparr>"
  obtain r where r: "documentToRegistry ?d = Inr r"
    by (simp add: documentToRegistry_def registryDocumentVersion_def documentToRuntime_def Let_def)
  then have "registryToDocument (Some r) = Inl (InvalidRuntime ''q'' ''p'')"
    by (auto simp: documentToRegistry_def registryDocumentVersion_def documentToRuntime_def Let_def
        registryToDocument_def validateRegisteredProject_def validateRegisteredProcess_def
        map_put_def map_ptr_def sortStrings_def)
  with r show ?thesis by blast
qed

end
