(* ===== verification/Reconciliation.thy ===== *)
theory Reconciliation
  imports Registry
begin

text \<open>
  What the reconciliation of \<open>internal/supervision/registry.go\<close> does to a registry that was just
  loaded: the closed form of its two loops, its effect on every process, and the validity it keeps.
\<close>

section \<open>Reconciliation\<close>

definition interrupted :: "time \<Rightarrow> process_runtime \<Rightarrow> process_runtime" where
  "interrupted at r = (if IsActive (rState r)
     then r\<lparr>rState := Failed, rFinishedAt := Some at, rTerminationReason := DaemonRestartTerminationReason\<rparr>
     else r)"

definition reconciled :: "time \<Rightarrow> registered_process \<Rightarrow> registered_process" where
  "reconciled at p = p\<lparr>procRuntime := map_option (interrupted at) (procRuntime p)\<rparr>"

definition process_active :: "registered_process \<Rightarrow> bool" where
  "process_active p \<longleftrightarrow> (case procRuntime p of None \<Rightarrow> False | Some r \<Rightarrow> IsActive (rState r))"

definition process_ok :: "registered_process option \<Rightarrow> bool" where
  "process_ok v \<longleftrightarrow> (\<exists>p. v = Some p \<and> (\<forall>r. procRuntime p = Some r \<longrightarrow> IsValid (rState r)))"

lemma reconcileProcess_ok:
  "process_ok v \<Longrightarrow> reconcileProcess p q at v =
     Inr (map_option (reconciled at) v, (case v of None \<Rightarrow> False | Some pr \<Rightarrow> process_active pr))"
  by (cases v) (auto simp: process_ok_def reconcileProcess_def reconciled_def interrupted_def
      process_active_def split: option.split)

lemma reconcileProcesses_ok:
  "\<forall>(k, v)\<in>set ps. process_ok v \<Longrightarrow> reconcileProcesses p at ps c =
     (map (\<lambda>(k, v). (k, map_option (reconciled at) v)) ps,
      Inr (c \<or> (\<exists>(k, v)\<in>set ps. \<exists>pr. v = Some pr \<and> process_active pr)))"
proof (induction ps arbitrary: c)
  case Nil
  then show ?case by simp
next
  case (Cons e ps)
  obtain k v where e: "e = (k, v)" by fastforce
  with Cons.prems obtain pr where v: "v = Some pr" and ok: "process_ok v"
    by (auto simp: process_ok_def)
  have "reconcileProcesses p at ps (c \<or> process_active pr) =
     (map (\<lambda>(k, v). (k, map_option (reconciled at) v)) ps,
      Inr ((c \<or> process_active pr) \<or> (\<exists>(k, v)\<in>set ps. \<exists>pr. v = Some pr \<and> process_active pr)))"
    using Cons.prems by (intro Cons.IH) auto
  then show ?case
    using ok v by (simp add: e reconcileProcess_ok disj_ac)
qed

definition reconciledProject :: "time \<Rightarrow> registered_project \<Rightarrow> registered_project" where
  "reconciledProject at project =
     project\<lparr>projProcesses := map (\<lambda>(k, v). (k, map_option (reconciled at) v)) (projProcesses project)\<rparr>"

definition project_active :: "registered_project \<Rightarrow> bool" where
  "project_active project \<longleftrightarrow> (\<exists>(k, v)\<in>set (projProcesses project). \<exists>pr. v = Some pr \<and> process_active pr)"

definition project_ok :: "registered_project option \<Rightarrow> bool" where
  "project_ok v \<longleftrightarrow> (\<exists>project. v = Some project \<and> map_wf (projProcesses project) \<and>
     (\<forall>(k, w)\<in>set (projProcesses project). process_ok w))"

lemma reconcileProjects_ok:
  "\<forall>(k, v)\<in>set ps. project_ok v \<Longrightarrow> reconcileProjects at ps c =
     (map (\<lambda>(k, v). (k, map_option (reconciledProject at) v)) ps,
      Inr (c \<or> (\<exists>(k, v)\<in>set ps. \<exists>project. v = Some project \<and> project_active project)))"
proof (induction ps arbitrary: c)
  case Nil
  then show ?case by simp
next
  case (Cons e ps)
  obtain k v where e: "e = (k, v)" by fastforce
  with Cons.prems obtain project where v: "v = Some project"
    and ok: "\<forall>(k, w)\<in>set (projProcesses project). process_ok w"
    by (auto simp: project_ok_def)
  have "reconcileProjects at ps (c \<or> project_active project) =
     (map (\<lambda>(k, v). (k, map_option (reconciledProject at) v)) ps,
      Inr ((c \<or> project_active project) \<or> (\<exists>(k, v)\<in>set ps. \<exists>project. v = Some project \<and> project_active project)))"
    using Cons.prems by (intro Cons.IH) auto
  moreover have "reconcileProcesses k at (projProcesses project) c =
     (projProcesses (reconciledProject at project), Inr (c \<or> project_active project))"
    by (simp add: reconcileProcesses_ok [OF ok] project_active_def reconciledProject_def)
  moreover have "project\<lparr>projProcesses := projProcesses (reconciledProject at project)\<rparr> = reconciledProject at project"
    by (simp add: reconciledProject_def)
  ultimately show ?case by (simp add: e v disj_ac)
qed

lemma registry_loaded_ok:
  "registry_loaded r \<longleftrightarrow> map_wf (regProjects r) \<and> (\<forall>(k, v)\<in>set (regProjects r). project_ok v)"
  by (simp add: registry_loaded_def project_ok_def process_ok_def)

lemma regProcess_active:
  assumes "registry_loaded r"
  shows "(\<exists>(k, v)\<in>set (regProjects r). \<exists>project. v = Some project \<and> project_active project)
    \<longleftrightarrow> (\<exists>p q process. regProcess r p q = Some process \<and> process_active process)" (is "?l \<longleftrightarrow> ?r")
proof
  assume ?l
  then obtain k project q process where k: "(k, Some project) \<in> set (regProjects r)"
    and q: "(q, Some process) \<in> set (projProcesses project)" and act: "process_active process"
    by (auto simp: project_active_def)
  have wf: "map_wf (regProjects r)" "map_wf (projProcesses project)"
    using assms k by (auto simp: registry_loaded_ok project_ok_def)
  have "regProject r k = Some project" "map_ptr (projProcesses project) q = Some process"
    unfolding regProject_def by (rule map_ptr_eq [OF wf(1) k], rule map_ptr_eq [OF wf(2) q])
  then have "regProcess r k q = Some process" by (simp add: regProcess_def)
  with act show ?r by blast
next
  assume ?r
  then obtain p q project process where "regProject r p = Some project"
    and "map_ptr (projProcesses project) q = Some process" and act: "process_active process"
    by (auto simp: regProcess_def split: bind_splits)
  then have "(p, Some project) \<in> set (regProjects r)" "(q, Some process) \<in> set (projProcesses project)"
    by (auto simp: regProject_def dest: map_ptr_in_set)
  with act show ?l by (auto simp: project_active_def intro!: bexI [of _ "(p, Some project)"])
qed

lemma map_ptr_map_snd: "map_ptr (map (\<lambda>(k, v). (k, map_option f v)) m) k = map_option f (map_ptr m k)"
  by (rule map_ptr_map_option)

lemma reconciled_valid:
  "validateRegisteredProcess p q (Some process) = None
   \<Longrightarrow> validateRegisteredProcess p q (Some (reconciled at process)) = None"
  by (auto simp: validate_process_Some reconciled_def interrupted_def)

text \<open>The registry that reconciliation leaves, and what is found in it.\<close>

definition reconciledRegistry :: "time \<Rightarrow> registry \<Rightarrow> registry" where
  "reconciledRegistry at r
    = r\<lparr>regProjects := map (\<lambda>(k, v). (k, map_option (reconciledProject at) v)) (regProjects r)\<rparr>"

lemma reconciledRegistry_regProject:
  "regProject (reconciledRegistry at r) p = map_option (reconciledProject at) (regProject r p)"
  by (simp add: reconciledRegistry_def regProject_def map_ptr_map_snd)

lemma reconciledRegistry_keys:
  "map_keys (regProjects (reconciledRegistry at r)) = map_keys (regProjects r)"
  by (simp add: reconciledRegistry_def comp_def case_prod_unfold)

lemma reconciledProject_process:
  "map_ptr (projProcesses (reconciledProject at project)) q
    = map_option (reconciled at) (map_ptr (projProcesses project) q)"
  by (simp add: reconciledProject_def map_ptr_map_snd)

lemma reconciledProject_keys:
  "map_keys (projProcesses (reconciledProject at project)) = map_keys (projProcesses project)"
  by (simp add: comp_def case_prod_unfold reconciledProject_def)

lemma reconciledRegistry_regProcess:
  "regProcess (reconciledRegistry at r) p q = map_option (reconciled at) (regProcess r p q)"
  by (cases "regProject r p")
    (simp_all add: regProcess_def reconciledRegistry_regProject reconciledProject_process)

lemma reconciled_inactive: "\<not> process_active (reconciled at process)"
  by (auto simp: process_active_def reconciled_def interrupted_def split: option.split)

lemma reconciledRegistry_inactive:
  "regProcess (reconciledRegistry at r) p q = Some process \<Longrightarrow> \<not> process_active process"
  using reconciled_inactive by (auto simp: reconciledRegistry_regProcess)

lemma reconciled_project_valid:
  "validateRegisteredProject k w = None
    \<Longrightarrow> validateRegisteredProject k (map_option (reconciledProject at) w) = None"
  by (auto simp: validate_project_Some reconciledProject_def)

lemma reconciled_processes_valid:
  assumes "processes_valid k (projProcesses project)"
  shows "processes_valid k (projProcesses (reconciledProject at project))"
proof -
  have "validateRegisteredProcess k q (map_option (reconciled at) (map_ptr (projProcesses project) q)) = None"
    if "q \<in> set (map_keys (projProcesses project))" for q
  proof -
    have ok: "validateRegisteredProcess k q (map_ptr (projProcesses project) q) = None"
      using assms that unfolding processes_valid_def by blast
    then obtain process where "map_ptr (projProcesses project) q = Some process"
      by (auto simp: validate_process_Some)
    with ok reconciled_valid [of k q process] show ?thesis by simp
  qed
  with assms show ?thesis
    by (simp only: processes_valid_def reconciledProject_keys reconciledProject_process map_wf_def) blast
qed

lemma reconciledRegistry_valid:
  assumes "registry_valid r"
  shows "registry_valid (reconciledRegistry at r)"
proof -
  have "validateRegisteredProject k (map_option (reconciledProject at) (regProject r k)) = None"
    "\<forall>project. map_option (reconciledProject at) (regProject r k) = Some project
       \<longrightarrow> processes_valid k (projProcesses project)"
    if "k \<in> set (map_keys (regProjects r))" for k
    using assms that reconciled_project_valid reconciled_processes_valid
    unfolding registry_valid_def by auto
  with assms show ?thesis
    unfolding registry_valid_def reconciledRegistry_regProject reconciledRegistry_keys map_wf_def by blast
qed

lemma reconciled_process_ok: "process_ok w \<Longrightarrow> process_ok (map_option (reconciled at) w)"
  by (auto simp: process_ok_def reconciled_def interrupted_def)

lemma reconciled_project_ok:
  assumes "project_ok v"
  shows "project_ok (map_option (reconciledProject at) v)"
proof -
  obtain project where w: "v = Some project" "map_wf (projProcesses project)"
    "\<forall>(k, w)\<in>set (projProcesses project). process_ok w"
    using assms by (auto simp: project_ok_def)
  then have "map_wf (projProcesses (reconciledProject at project))"
    unfolding map_wf_def reconciledProject_keys by simp
  with w reconciled_process_ok show ?thesis by (fastforce simp: project_ok_def reconciledProject_def)
qed

lemma reconciledRegistry_loaded:
  assumes "registry_loaded r"
  shows "registry_loaded (reconciledRegistry at r)"
proof -
  have "map_wf (regProjects (reconciledRegistry at r))"
    using assms unfolding registry_loaded_ok map_wf_def reconciledRegistry_keys by blast
  then show ?thesis
    using assms reconciled_project_ok by (fastforce simp: registry_loaded_ok reconciledRegistry_def)
qed

lemma reconcile_run:
  assumes "registry_loaded r"
  shows "ReconcileAfterDaemonRestart r at = (reconciledRegistry at r,
    Inr (\<exists>p q process. regProcess r p q = Some process \<and> process_active process))"
proof -
  have ok: "\<forall>(k, v)\<in>set (regProjects r). project_ok v"
    using assms by (simp add: registry_loaded_ok)
  show ?thesis
    by (simp add: ReconcileAfterDaemonRestart_def reconcileProjects_ok [OF ok]
        regProcess_active [OF assms] reconciledRegistry_def)
qed

lemma reconcile_result:
  assumes "registry_loaded r"
  shows "\<exists>r'. ReconcileAfterDaemonRestart r at
      = (r', Inr (\<exists>p q process. regProcess r p q = Some process \<and> process_active process))
    \<and> (\<forall>p q. regProcess r' p q = map_option (reconciled at) (regProcess r p q))
    \<and> (\<forall>p q process. regProcess r' p q = Some process \<longrightarrow> \<not> process_active process)
    \<and> (registry_valid r \<longrightarrow> registry_valid r') \<and> registry_loaded r'"
  using reconcile_run [OF assms, of at] reconciledRegistry_regProcess [of at r]
    reconciledRegistry_inactive [of at r] reconciledRegistry_valid [of r at]
    reconciledRegistry_loaded [OF assms, of at]
  by blast

text \<open>Reconciliation at daemon start.  On a registry that was just loaded it succeeds; every
  runtime that was starting, running or stopping becomes failed with reason \<open>daemon-restart\<close> and
  the given finish time while its recorded PID and everything else stays, every other process is
  untouched, the flag says whether anything changed, no active runtime remains, and a valid
  registry stays valid.\<close>

theorem reconcile_spec:
  assumes "registry_loaded r"
  shows "\<exists>r'. ReconcileAfterDaemonRestart r at
      = (r', Inr (\<exists>p q process. regProcess r p q = Some process \<and> process_active process))
    \<and> (\<forall>p q. regProcess r' p q = map_option (reconciled at) (regProcess r p q))
    \<and> (\<forall>p q process. regProcess r' p q = Some process \<longrightarrow> \<not> process_active process)
    \<and> (registry_valid r \<longrightarrow> registry_valid r') \<and> registry_loaded r'"
  by (rule reconcile_result [OF assms])

theorem reconcile_spec_witness:
  "\<exists>r'. ReconcileAfterDaemonRestart sample_registry 9 = (r', Inr True) \<and>
    regProcess r' ''p'' ''q'' = Some (sample_process\<lparr>procRuntime := Some
      ((the (procRuntime sample_process))\<lparr>rState := Failed, rFinishedAt := Some 9,
         rTerminationReason := ''daemon-restart''\<rparr>)\<rparr>)"
proof -
  have l: "registry_loaded sample_registry"
    by (simp add: registry_loaded_def sample_registry_def sample_process_def map_wf_def)
  have p: "regProcess sample_registry ''p'' ''q'' = Some sample_process"
    by (simp add: sample_registry_def regProcess_def regProject_def map_ptr_def)
  have "process_active sample_process" by (simp add: process_active_def sample_process_def)
  with p have "\<exists>p q process. regProcess sample_registry p q = Some process \<and> process_active process"
    by blast
  then show ?thesis
    using reconcile_spec [OF l, of 9] p
    by (auto simp: reconciled_def interrupted_def sample_process_def DaemonRestartTerminationReason_def)
qed

end
