(* ===== verification/RegistryStore.thy ===== *)
theory RegistryStore
  imports Reconciliation
begin

text \<open>
  The registry file of \<open>internal/supervision/registry_store.go\<close> and \<open>replace_file_other.go\<close>:
  loading with its permission checks, saving through a temporary file that is renamed over the
  registry, and the load at daemon start.  The disk is the directory of the registry and the
  files in it.  Which call of the operating system fails is an argument (\<open>os_fault\<close>), as is
  the random part of the name of the temporary file.  The byte format of \<open>encoding/json\<close> is not
  modelled: \<open>marshal\<close> and \<open>unmarshal\<close> are arguments, \<open>unmarshal\<close> standing for the strict decoder
  followed by \<open>requireJSONEnd\<close>.  The system is Linux.
\<close>

section \<open>The disk\<close>

record os_file =
  fileContent :: bytes
  filePrivate :: bool

text \<open>\<open>diskDirectory\<close>: whether the directory exists, and then whether its permissions are private.\<close>

record disk =
  diskDirectory :: "bool option"
  diskFiles :: "string \<rightharpoonup> os_file"

datatype os_fault =
  NoFault | MkdirFault | StatFault | NotADirectory | CreateTempFault | ChmodFault
| WriteFault nat | SyncFault | CloseFault | RenameFault | OpenDirectoryFault | SyncDirectoryFault
| ReadFault | StatFileFault

datatype store_error =
  PathNotAbsolute
| CreateDirectory | InspectDirectory | NotDirectory | DirectoryNotPrivate
| CreateTemporary | RestrictTemporary | WriteTemporary | FlushTemporary | CloseTemporary
| ReplaceRegistry | OpenDirectoryForFlush | FlushDirectory
| ReadRegistry | InspectFile | FileNotPrivate | DecodeRegistry | EncodeRegistry
| ValidateRegistry document_error
| ReconcileRegistry reconcile_error
| PersistReconciled store_error
| StateDirectoryRelative | NoStateDirectory

definition putFile :: "disk \<Rightarrow> string \<Rightarrow> os_file option \<Rightarrow> disk" where
  "putFile d path f = d\<lparr>diskFiles := (diskFiles d)(path := f)\<rparr>"

section \<open>Replacing the file\<close>

text \<open>\<open>os.Rename\<close>, then a flush of the directory.  Once the rename has happened, a failing flush
  reports an error with the new file already in place.\<close>

definition replaceFile :: "os_fault \<Rightarrow> disk \<Rightarrow> string \<Rightarrow> string \<Rightarrow> disk \<times> store_error option" where
  "replaceFile fault d from to =
     (if fault = RenameFault then (d, Some ReplaceRegistry)
      else let d' = putFile (putFile d to (diskFiles d from)) from None
           in if fault = OpenDirectoryFault then (d', Some OpenDirectoryForFlush)
              else if fault = SyncDirectoryFault then (d', Some FlushDirectory)
              else (d', None))"

definition ensurePrivateDirectory :: "os_fault \<Rightarrow> disk \<Rightarrow> disk \<times> store_error option" where
  "ensurePrivateDirectory fault d =
     (if fault = MkdirFault then (d, Some CreateDirectory)
      else let d' = (if diskDirectory d = None then d\<lparr>diskDirectory := Some True\<rparr> else d)
           in if fault = StatFault then (d', Some InspectDirectory)
              else if fault = NotADirectory then (d', Some NotDirectory)
              else if diskDirectory d' = Some False then (d', Some DirectoryNotPrivate)
              else (d', None))"

definition temporaryPath :: "string \<Rightarrow> string \<Rightarrow> string" where
  "temporaryPath path random =
     (let dir = dirPath path
      in (if hasSuffix dir ''/'' then dir else dir @ ''/'') @ ''.registry-'' @ random @ ''.tmp'')"

text \<open>\<open>os.CreateTemp\<close> opens exclusively, so the name is new; every failure closes and removes the
  temporary file (the deferred \<open>os.Remove\<close>).\<close>

definition writeFileAtomically :: "os_fault \<Rightarrow> string \<Rightarrow> disk \<Rightarrow> string \<Rightarrow> bytes \<Rightarrow> disk \<times> store_error option" where
  "writeFileAtomically fault random d path content =
     (case ensurePrivateDirectory fault d of
        (d0, Some e) \<Rightarrow> (d0, Some e)
      | (d0, None) \<Rightarrow>
          (let tmp = temporaryPath path random;
               remove = (\<lambda>d. putFile d tmp None);
               d1 = putFile d0 tmp (Some \<lparr>fileContent = [], filePrivate = True\<rparr>);
               d2 = putFile d0 tmp (Some \<lparr>fileContent = content, filePrivate = True\<rparr>)
           in if fault = CreateTempFault \<or> diskFiles d0 tmp \<noteq> None then (d0, Some CreateTemporary)
              else if fault = ChmodFault then (remove d1, Some RestrictTemporary)
              else case fault of
                     WriteFault n \<Rightarrow>
                       (remove (putFile d0 tmp (Some \<lparr>fileContent = take n content, filePrivate = True\<rparr>)),
                        Some WriteTemporary)
                   | SyncFault \<Rightarrow> (remove d2, Some FlushTemporary)
                   | CloseFault \<Rightarrow> (remove d2, Some CloseTemporary)
                   | _ \<Rightarrow>
                       (case replaceFile fault d2 tmp path of
                          (d3, e) \<Rightarrow> (remove d3, e))))"

section \<open>The operations of the store\<close>

type_synonym encoder = "registry_document \<Rightarrow> bytes option"
type_synonym decoder = "bytes \<Rightarrow> registry_document option"

text \<open>\<open>FileRegistry.Save\<close>; a new line is appended to the encoding.\<close>

definition Save :: "encoder \<Rightarrow> os_fault \<Rightarrow> string \<Rightarrow> string \<Rightarrow> disk \<Rightarrow> registry option
    \<Rightarrow> disk \<times> store_error option" where
  "Save marshal fault random path d reg =
     (if \<not> isAbs path then (d, Some PathNotAbsolute)
      else case registryToDocument reg of
             Inl e \<Rightarrow> (d, Some (ValidateRegistry e))
           | Inr document \<Rightarrow>
               (case marshal document of
                  None \<Rightarrow> (d, Some EncodeRegistry)
                | Some content \<Rightarrow> writeFileAtomically fault random d path (content @ [CHR 0x0A])))"

definition verifyPrivateRegistryPermissions :: "os_fault \<Rightarrow> disk \<Rightarrow> string \<Rightarrow> store_error option" where
  "verifyPrivateRegistryPermissions fault d path =
     (if fault = StatFault \<or> diskDirectory d = None then Some InspectDirectory
      else if diskDirectory d = Some False then Some DirectoryNotPrivate
      else case diskFiles d path of
             None \<Rightarrow> Some InspectFile
           | Some f \<Rightarrow>
               if fault = StatFileFault then Some InspectFile
               else if \<not> filePrivate f then Some FileNotPrivate
               else None)"

definition Load :: "decoder \<Rightarrow> os_fault \<Rightarrow> string \<Rightarrow> disk \<Rightarrow> store_error + registry" where
  "Load unmarshal fault path d =
     (if \<not> isAbs path then Inl PathNotAbsolute
      else if fault = ReadFault then Inl ReadRegistry
      else case diskFiles d path of
             None \<Rightarrow> Inr NewRegistry
           | Some f \<Rightarrow>
               (case verifyPrivateRegistryPermissions fault d path of
                  Some e \<Rightarrow> Inl e
                | None \<Rightarrow>
                    (case unmarshal (fileContent f) of
                       None \<Rightarrow> Inl DecodeRegistry
                     | Some document \<Rightarrow>
                         (case documentToRegistry document of
                            Inl e \<Rightarrow> Inl (ValidateRegistry e)
                          | Inr r \<Rightarrow> Inr r))))"

definition LoadAndReconcile :: "encoder \<Rightarrow> decoder \<Rightarrow> os_fault \<Rightarrow> os_fault \<Rightarrow> string \<Rightarrow> string \<Rightarrow> disk \<Rightarrow> time
    \<Rightarrow> disk \<times> (store_error + registry)" where
  "LoadAndReconcile marshal unmarshal readFault fault random path d now =
     (case Load unmarshal readFault path d of
        Inl e \<Rightarrow> (d, Inl e)
      | Inr r \<Rightarrow>
          (case ReconcileAfterDaemonRestart r now of
             (r', Inl e) \<Rightarrow> (d, Inl (ReconcileRegistry e))
           | (r', Inr changed) \<Rightarrow>
               if changed then
                 (case Save marshal fault random path d (Some r') of
                    (d', Some e) \<Rightarrow> (d', Inl (PersistReconciled e))
                  | (d', None) \<Rightarrow> (d', Inr r'))
               else (d, Inr r')))"

text \<open>\<open>DefaultRegistryPath\<close> on Linux: \<open>xdg\<close> is the variable \<open>XDG_STATE_HOME\<close> (empty when
  unset), \<open>home\<close> what \<open>os.UserHomeDir\<close> returns.\<close>

definition DefaultRegistryPath :: "string \<Rightarrow> string option \<Rightarrow> store_error + string" where
  "DefaultRegistryPath xdg home =
     (if xdg \<noteq> [] \<and> \<not> isAbs xdg then Inl StateDirectoryRelative
      else case (if xdg \<noteq> [] then Some xdg
                 else map_option (\<lambda>h. joinPath (joinPath h ''.local'') ''state'') home) of
             None \<Rightarrow> Inl NoStateDirectory
           | Some dir \<Rightarrow> Inr (joinPath (joinPath dir ''dovik'') ''registry.json''))"

section \<open>Atomicity\<close>

text \<open>Every failure but a failing flush of the directory leaves the registry file as it was.\<close>

definition late_fault :: "os_fault \<Rightarrow> bool" where
  "late_fault fault \<longleftrightarrow> fault = OpenDirectoryFault \<or> fault = SyncDirectoryFault"

lemma putFile_simps [simp]:
  "diskFiles (putFile d p f) = (diskFiles d)(p := f)" "diskDirectory (putFile d p f) = diskDirectory d"
  by (simp_all add: putFile_def)

lemma temporaryPath_suffix: "hasSuffix (temporaryPath path random) ''.tmp''"
  unfolding temporaryPath_def Let_def hasSuffix_iff by (intro suffixI [of _ "_ @ ''.registry-'' @ random"]) simp

lemma ensurePrivateDirectory_files:
  "ensurePrivateDirectory fault d = (d', e) \<Longrightarrow> diskFiles d' = diskFiles d"
  by (auto simp: ensurePrivateDirectory_def Let_def split: if_splits)

lemma ensurePrivateDirectory_None:
  "ensurePrivateDirectory fault d = (d', None) \<longleftrightarrow> fault \<noteq> MkdirFault \<and> fault \<noteq> StatFault \<and> fault \<noteq> NotADirectory
     \<and> diskDirectory d \<noteq> Some False \<and> d' = d\<lparr>diskDirectory := Some True\<rparr>"
  by (cases d; cases "diskDirectory d") (auto simp: ensurePrivateDirectory_def Let_def)

definition written :: "disk \<Rightarrow> string \<Rightarrow> bytes \<Rightarrow> disk" where
  "written d path content =
     (putFile d path (Some \<lparr>fileContent = content, filePrivate = True\<rparr>))\<lparr>diskDirectory := Some True\<rparr>"

lemma writeFileAtomically_cases:
  assumes w: "writeFileAtomically fault random d path content = (d', e)"
    and tmp: "\<not> hasSuffix path ''.tmp''"
  shows "(d' = written d path content \<and> (e = None \<or> late_fault fault)) \<or>
    (diskFiles d' = diskFiles d \<and> e \<noteq> None)"
proof -
  have ne: "temporaryPath path random \<noteq> path" using tmp temporaryPath_suffix by metis
  obtain d0 e0 where en: "ensurePrivateDirectory fault d = (d0, e0)" by fastforce
  show ?thesis
  proof (cases e0)
    case (Some e1)
    then show ?thesis using w en ensurePrivateDirectory_files by (auto simp: writeFileAtomically_def)
  next
    case None
    then have d0: "d0 = d\<lparr>diskDirectory := Some True\<rparr>" and st: "fault \<notin> {MkdirFault, StatFault, NotADirectory}"
      using en by (auto simp: ensurePrivateDirectory_None)
    have new: "written d path content = putFile (putFile (putFile (putFile d0 (temporaryPath path random)
        (Some \<lparr>fileContent = content, filePrivate = True\<rparr>)) path
        (Some \<lparr>fileContent = content, filePrivate = True\<rparr>)) (temporaryPath path random) None)
        (temporaryPath path random) None" if "diskFiles d (temporaryPath path random) = None"
      using ne that by (auto simp: written_def putFile_def d0 fun_eq_iff)
    show ?thesis
    proof (cases "diskFiles d (temporaryPath path random) = None")
      case False
      then show ?thesis using w en None d0 by (auto simp: writeFileAtomically_def Let_def)
    next
      case True
      have undo: "(diskFiles d)(temporaryPath path random := None) = diskFiles d"
        using True by (auto simp: fun_eq_iff)
      show ?thesis
        using w en None new [OF True] st
        by (cases fault) (auto simp: writeFileAtomically_def Let_def replaceFile_def late_fault_def d0 True undo)
    qed
  qed
qed

lemma writeFileAtomically_fault_free:
  assumes "diskDirectory d \<noteq> Some False" and "diskFiles d (temporaryPath path random) = None"
  shows "snd (writeFileAtomically NoFault random d path content) = None"
  using assms by (simp add: writeFileAtomically_def ensurePrivateDirectory_def replaceFile_def Let_def)

section \<open>The contract of a registry persister\<close>

text \<open>
  The interface \<open>registryPersister\<close> of \<open>lifecycle.go\<close>: \<open>save\<close> is its one operation, \<open>stored\<close>
  what a daemon that starts now would load, \<open>ready\<close> the states a persister is in, and
  \<open>storable\<close> the registries whose encoding can be read back.
\<close>

locale persister =
  fixes save :: "'w \<Rightarrow> registry \<Rightarrow> 'w \<times> 'e option"
    and stored :: "'w \<Rightarrow> registry option"
    and ready :: "'w \<Rightarrow> bool"
    and storable :: "registry \<Rightarrow> bool"
  assumes ready_save: "ready w \<Longrightarrow> save w r = (w', res) \<Longrightarrow> ready w'"
    and save_ok: "ready w \<Longrightarrow> storable r \<Longrightarrow> save w r = (w', None) \<Longrightarrow> stored w' = Some (canonical r)"
    and save_failed: "ready w \<Longrightarrow> storable r \<Longrightarrow> save w r = (w', Some e)
      \<Longrightarrow> stored w' = stored w \<or> stored w' = Some (canonical r)"
    and save_valid: "registry_wf r \<Longrightarrow> save w r = (w', None) \<Longrightarrow> registry_valid r"
begin

lemma stored_either:
  assumes "ready w" and "storable r" and "save w r = (w', e)"
  shows "stored w' = Some (canonical r) \<or> (e \<noteq> None \<and> stored w' = stored w)"
  using assms save_ok save_failed by (cases e) blast+

lemma lookup_after_save:
  assumes "ready w" and "storable r" and "save w r = (w', None)"
  shows "map_option (\<lambda>s. regProcess s p q) (stored w') = Some (regProcess r p q)"
  using save_ok [OF assms] by (simp add: regProcess_canonical)

end

section \<open>The file store as a persister\<close>

text \<open>The disk together with what the operating system will do to the next saves.\<close>

record store_world =
  worldDisk :: disk
  worldSchedule :: "(os_fault \<times> string) list"

definition fileSave :: "encoder \<Rightarrow> string \<Rightarrow> store_world \<Rightarrow> registry \<Rightarrow> store_world \<times> store_error option" where
  "fileSave marshal path w r =
     (let (fault, random) = (case worldSchedule w of [] \<Rightarrow> (NoFault, []) | x # _ \<Rightarrow> x);
          (d, e) = Save marshal fault random path (worldDisk w) (Some r)
      in (w\<lparr>worldDisk := d, worldSchedule := tl (worldSchedule w)\<rparr>, e))"

definition fileStored :: "decoder \<Rightarrow> string \<Rightarrow> disk \<Rightarrow> registry option" where
  "fileStored unmarshal path d = (case Load unmarshal NoFault path d of Inl _ \<Rightarrow> None | Inr r \<Rightarrow> Some r)"

definition disk_ok :: "disk \<Rightarrow> bool" where
  "disk_ok d \<longleftrightarrow> (diskDirectory d = None \<longrightarrow> diskFiles d = Map.empty)"

definition storable :: "encoder \<Rightarrow> decoder \<Rightarrow> string \<Rightarrow> registry \<Rightarrow> bool" where
  "storable marshal unmarshal path r \<longleftrightarrow> registry_wf r \<and> \<not> hasSuffix path ''.tmp'' \<and>
     (case registryToDocument (Some r) of Inl _ \<Rightarrow> True | Inr document \<Rightarrow>
       (case marshal document of None \<Rightarrow> True
        | Some content \<Rightarrow> unmarshal (content @ [CHR 0x0A]) = Some document))"

lemma Save_cases:
  assumes "Save marshal fault random path d (Some r) = (d', e)" and "storable marshal unmarshal path r"
  shows "(\<exists>document content. isAbs path \<and> registryToDocument (Some r) = Inr document \<and>
      marshal document = Some content \<and> unmarshal (content @ [CHR 0x0A]) = Some document \<and>
      d' = written d path (content @ [CHR 0x0A]) \<and> (e = None \<or> late_fault fault))
    \<or> (diskFiles d' = diskFiles d \<and> e \<noteq> None)"
proof -
  have tmp: "\<not> hasSuffix path ''.tmp''" using assms(2) by (simp add: storable_def)
  show ?thesis
  proof (cases "isAbs path \<and> (\<exists>document content. registryToDocument (Some r) = Inr document \<and> marshal document = Some content)")
    case False
    then show ?thesis
      using assms(1) by (auto simp: Save_def split: if_splits sum.splits option.splits)
  next
    case True
    then obtain document content where doc: "isAbs path" "registryToDocument (Some r) = Inr document"
      "marshal document = Some content" by blast
    then have "writeFileAtomically fault random d path (content @ [CHR 0x0A]) = (d', e)"
      and "unmarshal (content @ [CHR 0x0A]) = Some document"
      using assms by (simp_all add: Save_def storable_def)
    with doc writeFileAtomically_cases [OF this(1) tmp] show ?thesis by blast
  qed
qed

lemma Load_written:
  assumes "isAbs path" and "registry_wf r" and "registryToDocument (Some r) = Inr document"
    and "unmarshal content = Some document"
  shows "Load unmarshal NoFault path (written d path content) = Inr (canonical r)"
proof -
  have "documentToRegistry document = Inr (canonical r)"
    using registryToDocument_canonical [OF assms(2)] assms(3) by blast
  with assms(1,4) show ?thesis
    by (simp add: Load_def written_def verifyPrivateRegistryPermissions_def)
qed

lemma Load_cong:
  assumes "diskFiles d' = diskFiles d" and "diskDirectory d' = diskDirectory d \<or> diskFiles d = Map.empty"
  shows "Load unmarshal fault path d' = Load unmarshal fault path d"
proof (cases "diskFiles d = Map.empty")
  case True
  then show ?thesis using assms by (simp add: Load_def)
next
  case False
  then have "verifyPrivateRegistryPermissions fault d' path = verifyPrivateRegistryPermissions fault d path"
    using assms by (simp add: verifyPrivateRegistryPermissions_def)
  then show ?thesis using assms(1) by (cases "diskFiles d path") (simp_all add: Load_def)
qed

lemma Save_directory:
  assumes "Save marshal fault random path d r = (d', e)"
  shows "(diskDirectory d' = diskDirectory d \<or> (diskDirectory d = None \<and> diskDirectory d' = Some True)) \<and>
    (diskDirectory d' = None \<longrightarrow> d' = d)"
proof -
  have "diskDirectory d1 = diskDirectory d0" if "replaceFile f d0 a b = (d1, e1)" for f d0 a b d1 e1
    using that by (auto simp: replaceFile_def Let_def split: if_splits)
  note replaced = this
  have w: "(diskDirectory d1 = diskDirectory d \<or> (diskDirectory d = None \<and> diskDirectory d1 = Some True)) \<and>
      (diskDirectory d1 = None \<longrightarrow> d1 = d)" if "writeFileAtomically fault random d path c = (d1, e1)" for c d1 e1
    using that by (cases fault; cases "diskDirectory d")
      (auto simp: writeFileAtomically_def ensurePrivateDirectory_def Let_def split: prod.splits if_splits dest!: replaced)
  show ?thesis using assms w
    by (auto simp: Save_def split: if_splits sum.splits option.splits)
qed

lemma Save_disk_ok:
  assumes "Save marshal fault random path d r = (d', e)" and "disk_ok d"
  shows "disk_ok d'"
  using Save_directory [OF assms(1)] assms(2) by (auto simp: disk_ok_def)

lemma Save_stored:
  assumes save: "Save marshal fault random path d (Some r) = (d', e)"
    and ok: "storable marshal unmarshal path r" "disk_ok d"
  shows "(e = None \<longrightarrow> Load unmarshal NoFault path d' = Inr (canonical r)) \<and>
    (Load unmarshal NoFault path d' = Inr (canonical r) \<or> Load unmarshal NoFault path d' = Load unmarshal NoFault path d)"
proof -
  have wf: "registry_wf r" using ok(1) by (simp add: storable_def)
  consider (written) document content where "isAbs path" "registryToDocument (Some r) = Inr document"
      "unmarshal content = Some document" "d' = written d path content"
    | (same) "diskFiles d' = diskFiles d" "e \<noteq> None"
    using Save_cases [OF save ok(1)] by blast
  then show ?thesis
  proof cases
    case written
    then show ?thesis using Load_written [OF _ wf] by simp
  next
    case same
    have "diskDirectory d' = diskDirectory d \<or> diskFiles d = Map.empty"
      using Save_directory [OF save] ok(2) by (auto simp: disk_ok_def)
    with same Load_cong show ?thesis by blast
  qed
qed

lemma fileSave_Save:
  assumes "fileSave marshal path w r = (w', e)"
  shows "\<exists>fault random. Save marshal fault random path (worldDisk w) (Some r) = (worldDisk w', e)"
  using assms unfolding fileSave_def Let_def
  by (auto split: prod.splits list.splits intro!: exI)

text \<open>The file store keeps the contract of the interface.\<close>

interpretation file_store: persister "fileSave marshal path" "\<lambda>w. fileStored unmarshal path (worldDisk w)"
  "\<lambda>w. disk_ok (worldDisk w)" "storable marshal unmarshal path"
  for marshal unmarshal path
proof
  fix w w' :: store_world and r res
  assume "disk_ok (worldDisk w)" and "fileSave marshal path w r = (w', res)"
  then show "disk_ok (worldDisk w')" using Save_disk_ok fileSave_Save by metis
next
  fix w w' :: store_world and r e
  assume st: "storable marshal unmarshal path r"
  assume ready: "disk_ok (worldDisk w)"
  show "fileStored unmarshal path (worldDisk w') = Some (canonical r)" if "fileSave marshal path w r = (w', None)"
    using Save_stored [OF _ st ready] fileSave_Save [OF that] by (fastforce simp: fileStored_def)
  show "fileStored unmarshal path (worldDisk w') = fileStored unmarshal path (worldDisk w) \<or>
      fileStored unmarshal path (worldDisk w') = Some (canonical r)" if "fileSave marshal path w r = (w', Some e)"
    using Save_stored [OF _ st ready] fileSave_Save [OF that] by (fastforce simp: fileStored_def)
next
  fix w w' :: store_world and r
  assume "registry_wf r" and "fileSave marshal path w r = (w', None)"
  then show "registry_valid r"
    using fileSave_Save [of marshal path w r w' None] registryToDocument_valid
    by (auto simp: Save_def split: if_splits sum.splits)
qed

section \<open>Properties\<close>

text \<open>C5: Saving is atomic.  Whatever call of the operating system fails, the registry file is
  afterwards either untouched or the complete new content, private, and no other file changed (so no
  temporary file is left); a save that reports no error is what the next load returns, and only a
  failing flush of the directory reports an error although the file was replaced.\<close>

theorem save_atomic:
  assumes "Save marshal fault random path d (Some r) = (d', e)"
    and "storable marshal unmarshal path r" and "disk_ok d"
  shows "(diskFiles d' = diskFiles d \<or> (\<exists>content. isAbs path \<and>
        diskFiles d' = (diskFiles d)(path \<mapsto> \<lparr>fileContent = content, filePrivate = True\<rparr>) \<and>
        Load unmarshal NoFault path d' = Inr (canonical r)))
    \<and> (e = None \<longrightarrow> registry_valid r \<and> Load unmarshal NoFault path d' = Inr (canonical r))
    \<and> (e \<noteq> None \<and> \<not> late_fault fault \<longrightarrow> diskFiles d' = diskFiles d)"
proof -
  have wf: "registry_wf r" using assms(2) by (simp add: storable_def)
  have cases: "(\<exists>content. isAbs path \<and> registry_valid r \<and> d' = written d path content \<and>
      Load unmarshal NoFault path d' = Inr (canonical r) \<and> (e = None \<or> late_fault fault)) \<or>
    (diskFiles d' = diskFiles d \<and> e \<noteq> None)"
    using Save_cases [OF assms(1,2)] Load_written [OF _ wf] registryToDocument_valid [OF wf] by blast
  then show ?thesis by (auto simp: written_def)
qed

text \<open>A concrete store, for the witnesses: an empty disk and a codec that knows one registry.\<close>

definition sample_marshal :: "registry \<Rightarrow> encoder" where
  "sample_marshal r document = (if Inr document = registryToDocument (Some r) then Some ''doc'' else None)"

definition sample_unmarshal :: "registry \<Rightarrow> decoder" where
  "sample_unmarshal r content = (if content = ''doc'' @ [CHR 0x0A]
     then (case registryToDocument (Some r) of Inl _ \<Rightarrow> None | Inr d \<Rightarrow> Some d) else None)"

definition empty_disk :: disk where
  "empty_disk = \<lparr>diskDirectory = None, diskFiles = Map.empty\<rparr>"

lemma sample_path: "isAbs ''/s/registry.json''" "\<not> hasSuffix ''/s/registry.json'' ''.tmp''"
  by (simp_all add: isAbs_def hasPrefix_def hasSuffix_def)

lemma sample_storable:
  "registry_wf r \<Longrightarrow> storable (sample_marshal r0) (sample_unmarshal r0) ''/s/registry.json'' r"
  using sample_path(2) unfolding storable_def
  by (auto simp: sample_marshal_def sample_unmarshal_def split: sum.split option.split)

lemma empty_disk_ok: "disk_ok empty_disk"
  by (simp add: disk_ok_def empty_disk_def)

theorem save_atomic_witness:
  "\<exists>d'. Save (sample_marshal sample_registry) (WriteFault 2) ''1'' ''/s/registry.json'' empty_disk (Some sample_registry)
      = (d', Some WriteTemporary) \<and> diskFiles d' = diskFiles empty_disk"
proof -
  obtain document where doc: "registryToDocument (Some sample_registry) = Inr document"
    using registryToDocument_valid [OF sample_registry_valid(1)] sample_registry_valid(2) by blast
  then obtain d' where save: "Save (sample_marshal sample_registry) (WriteFault 2) ''1'' ''/s/registry.json'' empty_disk (Some sample_registry)
      = (d', Some WriteTemporary)"
    by (simp add: Save_def sample_path sample_marshal_def writeFileAtomically_def ensurePrivateDirectory_def
        empty_disk_def Let_def)
  from save_atomic [OF save sample_storable [OF sample_registry_valid(1)] empty_disk_ok] save show ?thesis
    by (simp add: late_fault_def)
qed

text \<open>The one window of the atomic write: when the directory cannot be flushed after the
  rename, a save of a valid registry reports an error, and yet the next load returns the new
  registry.  Callers undo their change in memory on that error, so memory and disk differ.\<close>

theorem failed_save_replaced:
  assumes "late_fault fault" and "isAbs path" and "registry_valid r"
    and "storable marshal unmarshal path r"
    and "\<forall>document. registryToDocument (Some r) = Inr document \<longrightarrow> marshal document \<noteq> None"
    and "diskDirectory d \<noteq> Some False" and "diskFiles d (temporaryPath path random) = None"
  shows "\<exists>d' e. Save marshal fault random path d (Some r) = (d', Some e) \<and>
    Load unmarshal NoFault path d' = Inr (canonical r)"
proof -
  have wf: "registry_wf r" using assms(4) by (simp add: storable_def)
  obtain document content where doc: "registryToDocument (Some r) = Inr document" "marshal document = Some content"
    using registryToDocument_valid [OF wf] assms(3,5) by blast
  have un: "unmarshal (content @ [CHR 0x0A]) = Some document"
    using assms(4) doc by (simp add: storable_def)
  let ?w = "writeFileAtomically fault random d path (content @ [CHR 0x0A])"
  obtain d' e where w: "?w = (d', Some e)"
    using assms(1,6,7) by (cases "diskDirectory d")
      (auto simp: writeFileAtomically_def ensurePrivateDirectory_def replaceFile_def late_fault_def Let_def)
  have "diskFiles d' path = Some \<lparr>fileContent = content @ [CHR 0x0A], filePrivate = True\<rparr>"
    and "diskDirectory d' = Some True"
  proof -
    have tmp: "temporaryPath path random \<noteq> path"
      using assms(4) temporaryPath_suffix by (metis storable_def)
    then show "diskFiles d' path = Some \<lparr>fileContent = content @ [CHR 0x0A], filePrivate = True\<rparr>"
      "diskDirectory d' = Some True"
      using w assms(1,6,7) by (cases "diskDirectory d";
        auto simp: writeFileAtomically_def ensurePrivateDirectory_def replaceFile_def late_fault_def Let_def)+
  qed
  then have "Load unmarshal NoFault path d' = Inr (canonical r)"
    using assms(2) un registryToDocument_canonical [OF wf doc(1)]
    by (simp add: Load_def verifyPrivateRegistryPermissions_def)
  then show ?thesis using w doc assms(2) by (simp add: Save_def)
qed

theorem failed_save_replaced_witness:
  "\<exists>d' e. Save (sample_marshal sample_registry) SyncDirectoryFault ''1'' ''/s/registry.json'' empty_disk (Some sample_registry) = (d', Some e) \<and>
    Load (sample_unmarshal sample_registry) NoFault ''/s/registry.json'' d' = Inr (canonical sample_registry)"
  by (rule failed_save_replaced [OF _ _ sample_registry_valid(2) sample_storable])
    (simp_all add: late_fault_def sample_path sample_registry_valid sample_marshal_def empty_disk_def)

lemma Load_read_fault: "Load unmarshal fault path d = Inr r \<Longrightarrow> Load unmarshal NoFault path d = Inr r"
  by (auto simp: Load_def verifyPrivateRegistryPermissions_def split: if_splits option.splits)

lemma Load_loaded: "Load unmarshal fault path d = Inr r \<Longrightarrow> registry_loaded r"
proof -
  have "registry_loaded NewRegistry" by (simp add: registry_loaded_def NewRegistry_def)
  moreover assume "Load unmarshal fault path d = Inr r"
  ultimately show ?thesis
    by (auto simp: Load_def split: if_splits option.splits sum.splits dest: documentToRegistry_loaded)
qed

lemma start_stored:
  assumes "LoadAndReconcile marshal unmarshal readFault fault random path d now = (d', Inr r)"
    and "storable marshal unmarshal path r" and "disk_ok d"
  shows "(\<exists>r0. Load unmarshal readFault path d = Inr r0 \<and>
      (\<forall>p q. regProcess r p q = map_option (reconciled now) (regProcess r0 p q)))
    \<and> (\<forall>p q process. regProcess r p q = Some process \<longrightarrow> \<not> process_active process)
    \<and> (\<exists>r1. Load unmarshal NoFault path d' = Inr r1 \<and> (\<forall>p q. regProcess r1 p q = regProcess r p q))"
proof -
  obtain r0 where load: "Load unmarshal readFault path d = Inr r0"
    using assms(1) by (auto simp: LoadAndReconcile_def split: sum.splits)
  define act where "act \<longleftrightarrow> (\<exists>p q process. regProcess r0 p q = Some process \<and> process_active process)"
  obtain r' where rec: "ReconcileAfterDaemonRestart r0 now = (r', Inr act)"
    and look: "\<forall>p q. regProcess r' p q = map_option (reconciled now) (regProcess r0 p q)"
    and none: "\<forall>p q process. regProcess r' p q = Some process \<longrightarrow> \<not> process_active process"
    using reconcile_result [OF Load_loaded [OF load], of now] unfolding act_def by blast
  have r: "r = r'" using assms(1) load rec
    by (auto simp: LoadAndReconcile_def split: if_splits prod.splits option.splits)
  have disk: "\<exists>r1. Load unmarshal NoFault path d' = Inr r1 \<and> (\<forall>p q. regProcess r1 p q = regProcess r p q)"
  proof (cases act)
    case True
    then have "Save marshal fault random path d (Some r) = (d', None)"
      using assms(1) load rec r by (auto simp: LoadAndReconcile_def split: prod.splits option.splits)
    from Save_stored [OF this assms(2,3)] show ?thesis by (auto simp: regProcess_canonical)
  next
    case False
    then have "d' = d" using assms(1) load rec by (simp add: LoadAndReconcile_def)
    moreover have "regProcess r' p q = regProcess r0 p q" for p q
    proof (cases "regProcess r0 p q")
      case (Some process)
      then have "\<not> process_active process" using False by (auto simp: act_def)
      then have "reconciled now process = process"
        by (cases "procRuntime process") (simp_all add: reconciled_def interrupted_def process_active_def)
      then show ?thesis using look Some by simp
    qed (use look in simp)
    ultimately show ?thesis using Load_read_fault [OF load] r by auto
  qed
  show ?thesis using load look none disk r by blast
qed

text \<open>C6: Daemon start.  A registry that \<open>LoadAndReconcile\<close> returns is what was stored with every
  active runtime marked as failed, so it has no active runtime, and the disk holds the same
  projects and processes: what was reconciled has been saved.\<close>

theorem daemon_start:
  assumes "LoadAndReconcile marshal unmarshal readFault fault random path d now = (d', Inr r)"
    and "storable marshal unmarshal path r" and "disk_ok d"
  shows "(\<exists>r0. Load unmarshal readFault path d = Inr r0 \<and>
      (\<forall>p q. regProcess r p q = map_option (reconciled now) (regProcess r0 p q)))
    \<and> (\<forall>p q process. regProcess r p q = Some process \<longrightarrow> \<not> process_active process)
    \<and> (\<exists>r1. Load unmarshal NoFault path d' = Inr r1 \<and> (\<forall>p q. regProcess r1 p q = regProcess r p q))"
  by (rule start_stored [OF assms])

theorem daemon_start_witness:
  "\<exists>r0. Load (sample_unmarshal sample_registry) NoFault ''/s/registry.json'' empty_disk = Inr r0"
proof -
  have l: "LoadAndReconcile (sample_marshal sample_registry) (sample_unmarshal sample_registry) NoFault NoFault ''1'' ''/s/registry.json'' empty_disk 5
      = (empty_disk, Inr NewRegistry)"
    by (simp add: LoadAndReconcile_def Load_def sample_path empty_disk_def ReconcileAfterDaemonRestart_def NewRegistry_def)
  have "registry_wf NewRegistry" by (simp add: registry_wf_def NewRegistry_def)
  from daemon_start [OF l sample_storable [OF this] empty_disk_ok] show ?thesis by blast
qed

end
