(* ===== verification/Lifecycle.thy ===== *)
theory Lifecycle
  imports RegistryStore OutputBuffer
begin

text \<open>
  The lifecycle manager of \<open>internal/supervision\<close> (\<open>lifecycle.go\<close>, \<open>process.go\<close>,
  \<open>process_other.go\<close>, \<open>environment.go\<close>) and its registry operations
  (\<open>registry_operations.go\<close>), on Linux.  Each definition is what one call does while it holds the
  manager's lock; \<open>Stop\<close>, which releases the lock while it waits, is the two parts
  \<open>stopBegin\<close> and \<open>stopFinish\<close>.  Managed runtimes are shared by pointer between the two maps and
  the observing goroutine, so they live in a heap (a list) and the maps hold indices.  What the
  operating system answers (spawned process, exit status, \<open>os.Stat\<close>, the clock, random bytes)
  is an argument, as is the persister's \<open>save\<close>, whose state \<open>'w\<close> is threaded through.
\<close>

section \<open>State\<close>

datatype process_key = ProcessKey (keyProject: string) (keyProcess: string)

record command =
  cmdPath :: string
  cmdArguments :: "string list"
  cmdDir :: string
  cmdEnv :: "string list"

text \<open>What was done to operating-system processes, oldest first.\<close>

datatype process_effect = Spawned int command | Signalled int bool \<comment> \<open>kill?\<close> | Reaped int

text \<open>\<open>mKey\<close> is the argument of the goroutine that observes the runtime; \<open>mDone\<close> is whether
  the channel \<open>done\<close> is closed, \<open>mClosed\<close> whether the process group is.\<close>

record 'e managed_runtime =
  mKey :: process_key
  mInstance :: string
  mPID :: int
  mClosed :: bool
  mOutput :: output_buffer
  mDone :: bool
  mFinishErr :: 'e

datatype 'e lifecycle_error =
  LimitsNotPositive
| ProjectNotFound string
| ProcessNotFound string string
| CreateInstanceID
| PersistStarting 'e
| OutputError buffer_error
| StartProcess string
| PersistFailed 'e
| TransitionRefused state_error
| PersistRunning 'e
| NotOwned string
| PersistStopping 'e
| RequestStopFailed string
| ContextDone
| OwnershipChanged
| PersistTerminal 'e
| ProjectIDRequired | ProjectRootRelative | InspectProjectRoot | ProjectRootNotDirectory
| ProjectExists string | PersistProject 'e | ProjectNotEmpty string | PersistProjectRemoval 'e
| ProcessIDRequired | ProcessCommandRequired | ProcessExists string string
| InspectWorkingDirectory | WorkingDirectoryNotDirectory | PersistProcess 'e
| ProcessActive string string | PersistProcessRemoval 'e
| JoinedErrors "'e lifecycle_error list"

record ('w, 'e) manager =
  mgrRegistry :: registry
  mgrWorld :: 'w
  mgrActive :: "(process_key, nat) gomap"
  mgrOutputs :: "(process_key, nat) gomap"
  mgrHeap :: "'e lifecycle_error option managed_runtime list"
  mgrTrace :: "process_effect list"
  outputByteLimit :: int
  outputEventLimit :: int

type_synonym ('w, 'e) saver = "'w \<Rightarrow> registry \<Rightarrow> 'w \<times> 'e option"

definition NewLifecycleManager :: "registry \<Rightarrow> 'w \<Rightarrow> int \<Rightarrow> int \<Rightarrow> 'e lifecycle_error + ('w, 'e) manager" where
  "NewLifecycleManager reg world byteLimit eventLimit =
     (if byteLimit \<le> 0 \<or> eventLimit \<le> 0 then Inl LimitsNotPositive
      else Inr \<lparr>mgrRegistry = reg, mgrWorld = world, mgrActive = [], mgrOutputs = [], mgrHeap = [],
             mgrTrace = [], outputByteLimit = byteLimit, outputEventLimit = eventLimit\<rparr>)"

definition TerminationReasonStartFailed :: string where
  "TerminationReasonStartFailed = ''start-failed''"
definition TerminationReasonNaturalExit :: string where
  "TerminationReasonNaturalExit = ''natural-exit''"
definition TerminationReasonRequestedStop :: string where
  "TerminationReasonRequestedStop = ''requested-stop''"
definition TerminationReasonObservationFailed :: string where
  "TerminationReasonObservationFailed = ''observation-failed''"

text \<open>The zero value \<open>ProcessRuntime{}\<close>.\<close>

definition zeroRuntime :: process_runtime where
  "zeroRuntime = \<lparr>rProjectID = [], rProcessID = [], rInstanceID = [], rPID = None,
     rState = UnknownState [], rStartedAt = None, rFinishedAt = None, rExitCode = None,
     rTerminationReason = []\<rparr>"

section \<open>Looking up and changing the registry\<close>

definition findProcess :: "registry \<Rightarrow> process_key \<Rightarrow> 'e lifecycle_error + (registered_project \<times> registered_process)" where
  "findProcess reg key =
     (case regProject reg (keyProject key) of
        None \<Rightarrow> Inl (ProjectNotFound (keyProject key))
      | Some project \<Rightarrow>
          (case map_ptr (projProcesses project) (keyProcess key) of
             None \<Rightarrow> Inl (ProcessNotFound (keyProcess key) (keyProject key))
           | Some process \<Rightarrow> Inr (project, process)))"

text \<open>Assigning through the pointers of the two maps.\<close>

definition setProcesses :: "registry \<Rightarrow> string \<Rightarrow> (string, registered_process option) gomap \<Rightarrow> registry" where
  "setProcesses reg p procs =
     (case regProject reg p of
        None \<Rightarrow> reg
      | Some project \<Rightarrow> reg\<lparr>regProjects := map_put (regProjects reg) p (Some (project\<lparr>projProcesses := procs\<rparr>))\<rparr>)"

definition setRuntime :: "registry \<Rightarrow> process_key \<Rightarrow> process_runtime option \<Rightarrow> registry" where
  "setRuntime reg key rt =
     (case regProject reg (keyProject key) of
        None \<Rightarrow> reg
      | Some project \<Rightarrow>
          (case map_ptr (projProcesses project) (keyProcess key) of
             None \<Rightarrow> reg
           | Some process \<Rightarrow>
               setProcesses reg (keyProject key)
                 (map_put (projProcesses project) (keyProcess key) (Some (process\<lparr>procRuntime := rt\<rparr>)))))"

definition runtimeOf :: "registry \<Rightarrow> process_key \<Rightarrow> process_runtime option" where
  "runtimeOf reg key = Option.bind (regProcess reg (keyProject key) (keyProcess key)) procRuntime"

text \<open>\<open>manager.persister.Save(manager.registry)\<close>\<close>

definition saveRegistry :: "('w, 'e) saver \<Rightarrow> ('w, 'e) manager \<Rightarrow> ('w, 'e) manager \<times> 'e option" where
  "saveRegistry save m =
     (let (w, e) = save (mgrWorld m) (mgrRegistry m) in (m\<lparr>mgrWorld := w\<rparr>, e))"

definition assignRuntime :: "('w, 'e) manager \<Rightarrow> process_key \<Rightarrow> process_runtime option \<Rightarrow> ('w, 'e) manager" where
  "assignRuntime m key rt = m\<lparr>mgrRegistry := setRuntime (mgrRegistry m) key rt\<rparr>"

section \<open>Operating-system processes\<close>

definition appendEnvironment :: "string list \<Rightarrow> (string, string) gomap option \<Rightarrow> string list" where
  "appendEnvironment environ overrides =
     (let ov = (case overrides of None \<Rightarrow> [] | Some m \<Rightarrow> m)
      in environ @ map (\<lambda>k. k @ ''='' @ the (map_of ov k)) (sortStrings (map_keys ov)))"

definition newCommand :: "string list \<Rightarrow> process_definition \<Rightarrow> command" where
  "newCommand environ definition =
     \<lparr>cmdPath = dCommand definition, cmdArguments = dArguments definition,
      cmdDir = (if dWorkingDirectory definition = [] then ''.'' else dWorkingDirectory definition),
      cmdEnv = appendEnvironment environ (dEnvironmentOverrides definition)\<rparr>"

text \<open>Where \<open>command.Wait\<close> ends: it succeeds, the process exited with an error status (an
  \<open>exec.ExitError\<close>, code -1 for a signal), or waiting failed, with or without a process state.\<close>

datatype wait_result = WaitOK int | WaitExit int | WaitFailed "int option"

record process_exit =
  exitCode :: int
  exitErr :: bool

fun Wait :: "wait_result \<Rightarrow> process_exit" where
  "Wait (WaitOK code) = \<lparr>exitCode = code, exitErr = False\<rparr>"
| "Wait (WaitExit code) = \<lparr>exitCode = code, exitErr = False\<rparr>"
| "Wait (WaitFailed code) = \<lparr>exitCode = (case code of None \<Rightarrow> -1 | Some c \<Rightarrow> c), exitErr = True\<rparr>"

text \<open>\<open>unixProcessGroup.signal\<close>: \<open>kill(2)\<close> succeeds, finds no such process group, or fails.\<close>

datatype kill_result = KillOK | NoSuchProcess | KillFailed string

definition signalGroup :: "bool \<Rightarrow> kill_result \<Rightarrow> string option" where
  "signalGroup closed res =
     (if closed then None
      else case res of KillOK \<Rightarrow> None | NoSuchProcess \<Rightarrow> None | KillFailed e \<Rightarrow> Some e)"

definition logEffects :: "('w, 'e) manager \<Rightarrow> process_effect list \<Rightarrow> ('w, 'e) manager" where
  "logEffects m es = m\<lparr>mgrTrace := mgrTrace m @ es\<rparr>"

section \<open>Start\<close>

text \<open>\<open>failStart\<close> and \<open>failRunningProcess\<close> work on the runtime of the process under \<open>key\<close>, which
  is not nil where they are called.\<close>

definition failStart :: "('w, 'e) saver \<Rightarrow> ('w, 'e) manager \<Rightarrow> process_key \<Rightarrow> time
    \<Rightarrow> ('w, 'e) manager \<times> 'e lifecycle_error option" where
  "failStart save m key now =
     (case runtimeOf (mgrRegistry m) key of
        None \<Rightarrow> (m, None)
      | Some r \<Rightarrow>
          (let r1 = r\<lparr>rFinishedAt := Some now, rTerminationReason := TerminationReasonStartFailed\<rparr>
           in case Transition r1 Failed of
                Inl e \<Rightarrow> (assignRuntime m key (Some r1), Some (TransitionRefused e))
              | Inr r2 \<Rightarrow>
                  (case saveRegistry save (assignRuntime m key (Some r2)) of
                     (m', None) \<Rightarrow> (m', None)
                   | (m', Some e) \<Rightarrow> (m', Some (PersistFailed e)))))"

definition failRunningProcess :: "('w, 'e) saver \<Rightarrow> ('w, 'e) manager \<Rightarrow> process_key \<Rightarrow> time \<Rightarrow> ('w, 'e) manager" where
  "failRunningProcess save m key now =
     (case runtimeOf (mgrRegistry m) key of
        None \<Rightarrow> m
      | Some r \<Rightarrow>
          (let r1 = r\<lparr>rFinishedAt := Some now, rTerminationReason := TerminationReasonObservationFailed\<rparr>;
               r2 = (case Transition r1 Failed of Inl _ \<Rightarrow> r1 | Inr r2 \<Rightarrow> r2)
           in fst (saveRegistry save (assignRuntime m key (Some r2)))))"

definition currentRuntime :: "('w, 'e) manager \<Rightarrow> process_key \<Rightarrow> process_runtime" where
  "currentRuntime m key = (case runtimeOf (mgrRegistry m) key of None \<Rightarrow> zeroRuntime | Some r \<Rightarrow> r)"

definition resolveDirectory :: "registered_project \<Rightarrow> process_definition \<Rightarrow> process_definition" where
  "resolveDirectory project definition =
     definition\<lparr>dWorkingDirectory :=
       (if dWorkingDirectory definition = [] then pdRootDirectory (projDefinition project)
        else if \<not> isAbs (dWorkingDirectory definition)
        then joinPath (pdRootDirectory (projDefinition project)) (dWorkingDirectory definition)
        else dWorkingDirectory definition)\<rparr>"

text \<open>The second half of \<open>Start\<close>, after the process was spawned.\<close>

definition startSpawned :: "('w, 'e) saver \<Rightarrow> ('w, 'e) manager \<Rightarrow> process_key \<Rightarrow> process_runtime \<Rightarrow> output_buffer
    \<Rightarrow> int \<Rightarrow> time \<Rightarrow> time \<Rightarrow> ('w, 'e) manager \<times> process_runtime \<times> 'e lifecycle_error option" where
  "startSpawned save m key r output pid startedAt failedAt =
     (let r1 = r\<lparr>rPID := Some pid, rStartedAt := Some startedAt\<rparr>
      in case Transition r1 Running of
           Inl e \<Rightarrow>
             (let m1 = logEffects (assignRuntime m key (Some r1)) [Signalled pid True, Reaped pid];
                  m2 = fst (failStart save m1 key failedAt)
              in (m2, currentRuntime m2 key, Some (TransitionRefused e)))
         | Inr r2 \<Rightarrow>
             (case saveRegistry save (assignRuntime m key (Some r2)) of
                (m1, Some e) \<Rightarrow>
                  (let m2 = failRunningProcess save (logEffects m1 [Signalled pid True, Reaped pid]) key failedAt
                   in (m2, currentRuntime m2 key, Some (PersistRunning e)))
              | (m1, None) \<Rightarrow>
                  (let h = length (mgrHeap m1);
                       managed = \<lparr>mKey = key, mInstance = rInstanceID r, mPID = pid, mClosed = False,
                         mOutput = output, mDone = False, mFinishErr = None\<rparr>
                   in (m1\<lparr>mgrHeap := mgrHeap m1 @ [managed], mgrActive := map_put (mgrActive m1) key h,
                          mgrOutputs := map_put (mgrOutputs m1) key h\<rparr>, r2, None))))"

text \<open>\<open>Start\<close> for a process without an active runtime, from the new instance ID on.\<close>

definition startNew :: "('w, 'e) saver \<Rightarrow> ('w, 'e) manager \<Rightarrow> process_key \<Rightarrow> registered_project \<Rightarrow> registered_process
    \<Rightarrow> string option \<Rightarrow> string list \<Rightarrow> (command \<Rightarrow> string + int) \<Rightarrow> time \<Rightarrow> time
    \<Rightarrow> ('w, 'e) manager \<times> process_runtime \<times> 'e lifecycle_error option" where
  "startNew save m key project process newID environ spawn time1 time2 =
     (case newID of
        None \<Rightarrow> (m, zeroRuntime, Some CreateInstanceID)
      | Some instanceID \<Rightarrow>
          (let r = NewProcessRuntime (keyProject key) (keyProcess key) instanceID
           in case saveRegistry save (assignRuntime m key (Some r)) of
                (m1, Some e) \<Rightarrow> (assignRuntime m1 key (procRuntime process), zeroRuntime, Some (PersistStarting e))
              | (m1, None) \<Rightarrow>
                  (case NewOutputBuffer (outputByteLimit m1) (outputEventLimit m1) of
                     Return output \<Rightarrow>
                       (let cmd = newCommand environ (resolveDirectory project (procDefinition process))
                        in case spawn cmd of
                             Inl e \<Rightarrow>
                               (case failStart save m1 key time1 of
                                  (m2, pe) \<Rightarrow> (m2, currentRuntime m2 key, Some (JoinedErrors
                                    (StartProcess e # (case pe of None \<Rightarrow> [] | Some x \<Rightarrow> [x])))))
                           | Inr pid \<Rightarrow>
                               startSpawned save (logEffects m1 [Spawned pid cmd]) key r output pid time1 time2)
                   | Error e \<Rightarrow> (m1, zeroRuntime, Some (OutputError e))
                   | _ \<Rightarrow> (m1, zeroRuntime, None))))"

text \<open>
  \<open>Start\<close>.  \<open>newID\<close>: the new instance ID, or nothing when no random bytes could be read;
  \<open>spawn\<close>: the error of \<open>startOwnedProcess\<close> or the PID; \<open>environ\<close>: the daemon's environment;
  the two times are those of the first and the second reading of the clock.
\<close>

definition Start :: "('w, 'e) saver \<Rightarrow> ('w, 'e) manager \<Rightarrow> process_key \<Rightarrow> string option \<Rightarrow> string list
    \<Rightarrow> (command \<Rightarrow> string + int) \<Rightarrow> time \<Rightarrow> time
    \<Rightarrow> ('w, 'e) manager \<times> process_runtime \<times> 'e lifecycle_error option" where
  "Start save m key newID environ spawn time1 time2 =
     (case findProcess (mgrRegistry m) key of
        Inl e \<Rightarrow> (m, zeroRuntime, Some e)
      | Inr (project, process) \<Rightarrow>
          (case procRuntime process of
             Some r \<Rightarrow>
               if IsActive (rState r) then (m, r, None)
               else startNew save m key project process newID environ spawn time1 time2
           | None \<Rightarrow> startNew save m key project process newID environ spawn time1 time2))"

section \<open>Stop\<close>

text \<open>What \<open>Stop\<close> does under its first lock: return, or wait for the managed runtime with the
  given handle, after requesting its stop if this call moved it to \<open>Stopping\<close>.\<close>

datatype 'e stop_plan = StopReturn process_runtime "'e lifecycle_error option" | StopWait nat bool

definition stopBegin :: "('w, 'e) saver \<Rightarrow> ('w, 'e) manager \<Rightarrow> process_key \<Rightarrow> ('w, 'e) manager \<times> 'e stop_plan" where
  "stopBegin save m key =
     (case findProcess (mgrRegistry m) key of
        Inl e \<Rightarrow> (m, StopReturn zeroRuntime (Some e))
      | Inr (project, process) \<Rightarrow>
          (case procRuntime process of
             None \<Rightarrow> (m, StopReturn (zeroRuntime\<lparr>rProjectID := keyProject key, rProcessID := keyProcess key, rState := Stopped\<rparr>) None)
           | Some r \<Rightarrow>
               if \<not> IsActive (rState r) then (m, StopReturn r None)
               else (case map_of (mgrActive m) key of
                       None \<Rightarrow> (m, StopReturn zeroRuntime (Some (NotOwned (rInstanceID r))))
                     | Some h \<Rightarrow>
                         if mInstance (mgrHeap m ! h) \<noteq> rInstanceID r
                         then (m, StopReturn zeroRuntime (Some (NotOwned (rInstanceID r))))
                         else if rState r = Stopping then (m, StopWait h False)
                         else (case Transition r Stopping of
                                 Inl e \<Rightarrow> (m, StopReturn zeroRuntime (Some (TransitionRefused e)))
                               | Inr r' \<Rightarrow>
                                   (case saveRegistry save (assignRuntime m key (Some r')) of
                                      (m1, Some e) \<Rightarrow>
                                        (assignRuntime m1 key (Some (r'\<lparr>rState := rState r\<rparr>)),
                                         StopReturn zeroRuntime (Some (PersistStopping e)))
                                    | (m1, None) \<Rightarrow> (m1, StopWait h True))))))"

definition statusWithError :: "('w, 'e) manager \<Rightarrow> process_key \<Rightarrow> 'e lifecycle_error option
    \<Rightarrow> process_runtime \<times> 'e lifecycle_error option" where
  "statusWithError m key operationError =
     (case findProcess (mgrRegistry m) key of
        Inl e \<Rightarrow> (zeroRuntime, Some (JoinedErrors ((case operationError of None \<Rightarrow> [] | Some x \<Rightarrow> [x]) @ [e])))
      | Inr (project, process) \<Rightarrow>
          (case procRuntime process of
             None \<Rightarrow> (zeroRuntime, operationError)
           | Some r \<Rightarrow> (r, operationError)))"

text \<open>The request to stop, sent after the lock was released.\<close>

definition requestStop :: "('w, 'e) manager \<Rightarrow> nat \<Rightarrow> kill_result \<Rightarrow> ('w, 'e) manager \<times> string option" where
  "requestStop m h res =
     (let managed = mgrHeap m ! h
      in (if mClosed managed then m else logEffects m [Signalled (mPID managed) False],
          signalGroup (mClosed managed) res))"

text \<open>The end of \<open>Stop\<close>: the request failed, the runtime is done, or the caller's context ended first
  and the process is killed.\<close>

datatype stop_end = RequestFailed string | RuntimeDone | Cancelled

definition stopFinish :: "('w, 'e) manager \<Rightarrow> process_key \<Rightarrow> nat \<Rightarrow> stop_end
    \<Rightarrow> ('w, 'e) manager \<times> process_runtime \<times> 'e lifecycle_error option" where
  "stopFinish m key h how =
     (case how of
        RequestFailed e \<Rightarrow> (m, statusWithError m key (Some (RequestStopFailed e)))
      | RuntimeDone \<Rightarrow> (m, statusWithError m key (mFinishErr (mgrHeap m ! h)))
      | Cancelled \<Rightarrow>
          (let m' = (if mClosed (mgrHeap m ! h) then m else logEffects m [Signalled (mPID (mgrHeap m ! h)) True])
           in (m', statusWithError m' key (Some ContextDone))))"

section \<open>Exit, status and logs\<close>

text \<open>\<open>observeExit\<close>: the wait (which closes the process group), then the update under the lock.\<close>

definition setManaged :: "('w, 'e) manager \<Rightarrow> nat \<Rightarrow> 'e lifecycle_error option managed_runtime \<Rightarrow> ('w, 'e) manager" where
  "setManaged m h managed = m\<lparr>mgrHeap := (mgrHeap m)[h := managed]\<rparr>"

definition exitState :: "process_exit \<Rightarrow> process_state \<Rightarrow> process_state \<times> string" where
  "exitState exit state =
     (if exitErr exit then (Failed, TerminationReasonObservationFailed)
      else if state = Stopping then (Stopped, TerminationReasonRequestedStop)
      else if exitCode exit = 0 then (Exited, TerminationReasonNaturalExit)
      else (Failed, TerminationReasonNaturalExit))"

definition waited :: "('w, 'e) manager \<Rightarrow> nat \<Rightarrow> ('w, 'e) manager" where
  "waited m h = logEffects (setManaged m h ((mgrHeap m ! h)\<lparr>mClosed := True\<rparr>)) [Reaped (mPID (mgrHeap m ! h))]"

definition finishManaged :: "('w, 'e) manager \<Rightarrow> nat \<Rightarrow> 'e lifecycle_error option \<Rightarrow> ('w, 'e) manager" where
  "finishManaged m h e = setManaged m h ((mgrHeap m ! h)\<lparr>mDone := True, mFinishErr := e\<rparr>)"

definition observeLocked :: "('w, 'e) saver \<Rightarrow> ('w, 'e) manager \<Rightarrow> nat \<Rightarrow> process_exit \<Rightarrow> time \<Rightarrow> ('w, 'e) manager" where
  "observeLocked save m h exit now =
     (let managed = mgrHeap m ! h; key = mKey managed
      in case findProcess (mgrRegistry m) key of
           Inl e \<Rightarrow> finishManaged m h (Some e)
         | Inr (project, process) \<Rightarrow>
             (case procRuntime process of
                None \<Rightarrow> finishManaged m h (Some OwnershipChanged)
              | Some r \<Rightarrow>
                  if rInstanceID r \<noteq> mInstance managed then finishManaged m h (Some OwnershipChanged)
                  else
                    (let r1 = r\<lparr>rFinishedAt := Some now,
                           rExitCode := (if 0 \<le> exitCode exit then Some (exitCode exit) else rExitCode r)\<rparr>;
                         (next, reason) = exitState exit (rState r);
                         r2 = r1\<lparr>rTerminationReason := reason\<rparr>;
                         (m1, err) = (case Transition r2 next of
                             Inl e \<Rightarrow> (assignRuntime m key (Some r2), Some (TransitionRefused e))
                           | Inr r3 \<Rightarrow>
                               (case saveRegistry save (assignRuntime m key (Some r3)) of
                                  (m1, e) \<Rightarrow> (m1, map_option PersistTerminal e)))
                     in finishManaged (m1\<lparr>mgrActive := map_del (mgrActive m1) key\<rparr>) h err)))"

text \<open>The goroutine as a whole; other operations may run after the wait and before the lock.\<close>

definition observeExit :: "('w, 'e) saver \<Rightarrow> ('w, 'e) manager \<Rightarrow> nat \<Rightarrow> wait_result
    \<Rightarrow> (('w, 'e) manager \<Rightarrow> ('w, 'e) manager) \<Rightarrow> time \<Rightarrow> ('w, 'e) manager" where
  "observeExit save m h res meanwhile now =
     observeLocked save (meanwhile (waited m h)) h (Wait res) now"

definition Status :: "('w, 'e) manager \<Rightarrow> process_key \<Rightarrow> process_runtime \<times> bool \<times> 'e lifecycle_error option" where
  "Status m key =
     (case findProcess (mgrRegistry m) key of
        Inl e \<Rightarrow> (zeroRuntime, False, Some e)
      | Inr (project, process) \<Rightarrow>
          (case procRuntime process of
             None \<Rightarrow> (zeroRuntime, False, None)
           | Some r \<Rightarrow> (r, True, None)))"

definition Logs :: "('w, 'e) manager \<Rightarrow> process_key \<Rightarrow> u64 \<Rightarrow> int \<Rightarrow> (buffer_error, output_tail) outcome" where
  "Logs m key afterSequence limit =
     (case map_of (mgrOutputs m) key of
        None \<Rightarrow> Return \<lparr>tEvents = [], tTruncated = False\<rparr>
      | Some h \<Rightarrow> Tail (mOutput (mgrHeap m ! h)) afterSequence limit)"

text \<open>The pipes of the process write to its buffer.\<close>

definition captureOutput :: "('w, 'e) manager \<Rightarrow> nat \<Rightarrow> output_stream \<Rightarrow> bytes \<Rightarrow> time \<Rightarrow> ('w, 'e) manager" where
  "captureOutput m h stream data now =
     (case Capture (mOutput (mgrHeap m ! h)) stream data now of
        Return b \<Rightarrow> setManaged m h ((mgrHeap m ! h)\<lparr>mOutput := b\<rparr>)
      | _ \<Rightarrow> m)"

section \<open>Stop, Restart and Shutdown as a whole\<close>

text \<open>\<open>during\<close> is what the other goroutines do to the manager between the request and the moment the
  wait for the given handle ends.\<close>

definition Stop :: "('w, 'e) saver \<Rightarrow> ('w, 'e) manager \<Rightarrow> process_key \<Rightarrow> kill_result
    \<Rightarrow> (('w, 'e) manager \<Rightarrow> nat \<Rightarrow> ('w, 'e) manager) \<Rightarrow> stop_end
    \<Rightarrow> ('w, 'e) manager \<times> process_runtime \<times> 'e lifecycle_error option" where
  "Stop save m key killed during how =
     (case stopBegin save m key of
        (m1, StopReturn r e) \<Rightarrow> (m1, r, e)
      | (m1, StopWait h requested) \<Rightarrow>
          (case (if requested then requestStop m1 h killed else (m1, None)) of
             (m2, Some e) \<Rightarrow> stopFinish m2 key h (RequestFailed e)
           | (m2, None) \<Rightarrow> stopFinish (during m2 h) key h how))"

text \<open>\<open>Restart\<close>: what \<open>Stop\<close> returned, then \<open>start\<close>, a \<open>Start\<close> of the same process.\<close>

definition Restart :: "('w, 'e) manager \<times> process_runtime \<times> 'e lifecycle_error option
    \<Rightarrow> (('w, 'e) manager \<Rightarrow> ('w, 'e) manager \<times> process_runtime \<times> 'e lifecycle_error option)
    \<Rightarrow> ('w, 'e) manager \<times> process_runtime \<times> 'e lifecycle_error option" where
  "Restart stopped start =
     (case stopped of
        (m, r, Some e) \<Rightarrow> (m, zeroRuntime, Some e)
      | (m, r, None) \<Rightarrow> start m)"

fun shutdownKeys :: "(('w, 'e) manager \<Rightarrow> process_key \<Rightarrow> ('w, 'e) manager \<times> process_runtime \<times> 'e lifecycle_error option)
    \<Rightarrow> ('w, 'e) manager \<Rightarrow> process_key list \<Rightarrow> ('w, 'e) manager \<times> 'e lifecycle_error list" where
  "shutdownKeys stop m [] = (m, [])"
| "shutdownKeys stop m (key # keys) =
     (case stop m key of
        (m1, r, e) \<Rightarrow>
          (case shutdownKeys stop m1 keys of
             (m2, es) \<Rightarrow> (m2, (case e of None \<Rightarrow> es | Some x \<Rightarrow> x # es))))"

text \<open>The keys are collected once, under the lock; later starts are not stopped.\<close>

definition Shutdown :: "(('w, 'e) manager \<Rightarrow> process_key \<Rightarrow> ('w, 'e) manager \<times> process_runtime \<times> 'e lifecycle_error option)
    \<Rightarrow> ('w, 'e) manager \<Rightarrow> ('w, 'e) manager \<times> 'e lifecycle_error option" where
  "Shutdown stop m =
     (case shutdownKeys stop m (map_keys (mgrActive m)) of
        (m1, []) \<Rightarrow> (m1, None)
      | (m1, es) \<Rightarrow> (m1, Some (JoinedErrors es)))"

section \<open>Instance IDs\<close>

text \<open>\<open>randomRuntimeInstanceID\<close>: a UUID of version 4 from 16 random bytes.\<close>

unbundle bit_operations_syntax

definition markUUID :: "8 word list \<Rightarrow> 8 word list" where
  "markUUID v = v[6 := ((v ! 6) AND 0x0f) OR 0x40, 8 := ((v ! 8) AND 0x3f) OR 0x80]"

definition randomRuntimeInstanceID :: "8 word list option \<Rightarrow> string option" where
  "randomRuntimeInstanceID random =
     (case random of
        None \<Rightarrow> None
      | Some bytes \<Rightarrow>
          (let v = markUUID bytes
           in Some (hexBytes (take 4 v) @ ''-'' @ hexBytes (take 2 (drop 4 v)) @ ''-'' @ hexBytes (take 2 (drop 6 v))
                @ ''-'' @ hexBytes (take 2 (drop 8 v)) @ ''-'' @ hexBytes (take 6 (drop 10 v)))))"

section \<open>Registry operations\<close>

datatype stat_result = StatFailed | IsDirectory | IsNotDirectory

definition setProjects :: "('w, 'e) manager \<Rightarrow> (string, registered_project option) gomap \<Rightarrow> ('w, 'e) manager" where
  "setProjects m ps = m\<lparr>mgrRegistry := (mgrRegistry m)\<lparr>regProjects := ps\<rparr>\<rparr>"

definition AddProject :: "('w, 'e) saver \<Rightarrow> (string \<Rightarrow> stat_result) \<Rightarrow> ('w, 'e) manager \<Rightarrow> project_definition
    \<Rightarrow> ('w, 'e) manager \<times> ('e lifecycle_error + project_definition)" where
  "AddProject save stat m definition =
     (let i = pdID definition
      in if i = [] then (m, Inl ProjectIDRequired)
         else if \<not> isAbs (pdRootDirectory definition) then (m, Inl ProjectRootRelative)
         else if stat (pdRootDirectory definition) = StatFailed then (m, Inl InspectProjectRoot)
         else if stat (pdRootDirectory definition) \<noteq> IsDirectory then (m, Inl ProjectRootNotDirectory)
         else if regProject (mgrRegistry m) i \<noteq> None then (m, Inl (ProjectExists i))
         else (case saveRegistry save (setProjects m (map_put (regProjects (mgrRegistry m)) i
                      (Some \<lparr>projDefinition = definition, projProcesses = []\<rparr>))) of
                 (m1, Some e) \<Rightarrow> (setProjects m1 (map_del (regProjects (mgrRegistry m1)) i), Inl (PersistProject e))
               | (m1, None) \<Rightarrow> (m1, Inr definition)))"

definition RemoveProject :: "('w, 'e) saver \<Rightarrow> ('w, 'e) manager \<Rightarrow> string \<Rightarrow> ('w, 'e) manager \<times> 'e lifecycle_error option" where
  "RemoveProject save m p =
     (case regProject (mgrRegistry m) p of
        None \<Rightarrow> (m, Some (ProjectNotFound p))
      | Some project \<Rightarrow>
          if projProcesses project \<noteq> [] then (m, Some (ProjectNotEmpty p))
          else (case saveRegistry save (setProjects m (map_del (regProjects (mgrRegistry m)) p)) of
                  (m1, Some e) \<Rightarrow> (setProjects m1 (map_put (regProjects (mgrRegistry m1)) p (Some project)),
                                  Some (PersistProjectRemoval e))
                | (m1, None) \<Rightarrow> (m1, None)))"

text \<open>\<open>ListProjects\<close>: \<open>sort.Slice\<close> by ID.  A nil project record would be dereferenced.\<close>

definition ListProjects :: "('w, 'e) manager \<Rightarrow> (unit, project_definition list) outcome" where
  "ListProjects m =
     (if list_ex (\<lambda>(k, v). v = None) (regProjects (mgrRegistry m)) then Panic
      else Return (sort_key pdID (map (\<lambda>(k, v). projDefinition (the v)) (regProjects (mgrRegistry m)))))"

definition publicProcessDefinition :: "process_definition \<Rightarrow> process_definition" where
  "publicProcessDefinition definition = definition\<lparr>dEnvironmentOverrides := None\<rparr>"

definition AddProcess :: "('w, 'e) saver \<Rightarrow> (string \<Rightarrow> stat_result) \<Rightarrow> ('w, 'e) manager \<Rightarrow> process_definition
    \<Rightarrow> ('w, 'e) manager \<times> ('e lifecycle_error + process_definition)" where
  "AddProcess save stat m definition =
     (let p = dProjectID definition; q = dID definition; wd = dWorkingDirectory definition
      in case regProject (mgrRegistry m) p of
           None \<Rightarrow> (m, Inl (ProjectNotFound p))
         | Some project \<Rightarrow>
             (let dir = (if \<not> isAbs wd then joinPath (pdRootDirectory (projDefinition project)) wd else wd)
              in if q = [] then (m, Inl ProcessIDRequired)
                 else if dCommand definition = [] then (m, Inl ProcessCommandRequired)
                 else if map_ptr (projProcesses project) q \<noteq> None then (m, Inl (ProcessExists q p))
                 else if wd \<noteq> [] \<and> stat dir = StatFailed then (m, Inl InspectWorkingDirectory)
                 else if wd \<noteq> [] \<and> stat dir \<noteq> IsDirectory then (m, Inl WorkingDirectoryNotDirectory)
                 else (case saveRegistry save (m\<lparr>mgrRegistry := setProcesses (mgrRegistry m) p
                              (map_put (projProcesses project) q
                                (Some \<lparr>procDefinition = definition, procRuntime = None\<rparr>))\<rparr>) of
                         (m1, Some e) \<Rightarrow>
                           (m1\<lparr>mgrRegistry := setProcesses (mgrRegistry m1) p
                              (map_del (map_put (projProcesses project) q
                                (Some \<lparr>procDefinition = definition, procRuntime = None\<rparr>)) q)\<rparr>,
                            Inl (PersistProcess e))
                       | (m1, None) \<Rightarrow> (m1, Inr (publicProcessDefinition definition)))))"

definition RemoveProcess :: "('w, 'e) saver \<Rightarrow> ('w, 'e) manager \<Rightarrow> process_key \<Rightarrow> ('w, 'e) manager \<times> 'e lifecycle_error option" where
  "RemoveProcess save m key =
     (case findProcess (mgrRegistry m) key of
        Inl e \<Rightarrow> (m, Some e)
      | Inr (project, process) \<Rightarrow>
          if (case procRuntime process of Some r \<Rightarrow> IsActive (rState r) | None \<Rightarrow> False)
          then (m, Some (ProcessActive (keyProcess key) (keyProject key)))
          else (case saveRegistry save (m\<lparr>mgrRegistry := setProcesses (mgrRegistry m) (keyProject key)
                       (map_del (projProcesses project) (keyProcess key))\<rparr>) of
                  (m1, Some e) \<Rightarrow>
                    (m1\<lparr>mgrRegistry := setProcesses (mgrRegistry m1) (keyProject key)
                       (map_put (map_del (projProcesses project) (keyProcess key)) (keyProcess key) (Some process))\<rparr>,
                     Some (PersistProcessRemoval e))
                | (m1, None) \<Rightarrow> (m1\<lparr>mgrOutputs := map_del (mgrOutputs m1) key\<rparr>, None)))"

definition ListProcesses :: "('w, 'e) manager \<Rightarrow> string \<Rightarrow> ('e lifecycle_error, process_definition list) outcome" where
  "ListProcesses m p =
     (case regProject (mgrRegistry m) p of
        None \<Rightarrow> Error (ProjectNotFound p)
      | Some project \<Rightarrow>
          if list_ex (\<lambda>(k, v). v = None) (projProcesses project) then Panic
          else Return (sort_key dID (map (\<lambda>(k, v). publicProcessDefinition (procDefinition (the v)))
                  (projProcesses project))))"

end
