(* ===== verification/LifecycleSystem.thy ===== *)
theory LifecycleSystem
  imports Lifecycle
begin

text \<open>
  The lifecycle manager as a concurrent system: every critical section of \<open>lifecycle.go\<close> and
  \<open>registry_operations.go\<close> is a step, in any order and with any answer of the operating system
  and the persister.  The invariant ties the three places a runtime is recorded in together:
  the registry, the map of active runtimes and the runtimes whose exit is still awaited.
\<close>

section \<open>The registry after an assignment\<close>

lemma findProcess_Inr:
  "findProcess reg key = Inr (project, process) \<longleftrightarrow> regProject reg (keyProject key) = Some project \<and>
     map_ptr (projProcesses project) (keyProcess key) = Some process"
  by (auto simp: findProcess_def split: option.splits)

lemma findProcess_regProcess:
  "findProcess reg key = Inr (project, process) \<Longrightarrow> regProcess reg (keyProject key) (keyProcess key) = Some process"
  by (simp add: findProcess_Inr regProcess_def)

lemma regProcess_findProcess:
  "regProcess reg (keyProject key) (keyProcess key) = Some process \<Longrightarrow> \<exists>project. findProcess reg key = Inr (project, process)"
  by (auto simp: findProcess_Inr regProcess_def split: bind_splits)

lemma findProcess_runtime:
  "findProcess reg key = Inr (project, process) \<Longrightarrow> runtimeOf reg key = procRuntime process"
  by (simp add: runtimeOf_def findProcess_regProcess)

lemma regProject_setProcesses:
  "regProject reg p = Some project \<Longrightarrow> regProject (setProcesses reg p procs) p' =
     (if p' = p then Some (project\<lparr>projProcesses := procs\<rparr>) else regProject reg p')"
  by (simp add: setProcesses_def regProject_def)

lemma regProcess_setProcesses:
  "regProject reg p = Some project \<Longrightarrow> regProcess (setProcesses reg p procs) p' q =
     (if p' = p then map_ptr procs q else regProcess reg p' q)"
  by (simp add: regProcess_def regProject_setProcesses)

lemma findProcess_setRuntime:
  "findProcess reg key = Inr (project, process) \<Longrightarrow>
   findProcess (setRuntime reg key rt) key =
     Inr (project\<lparr>projProcesses := map_put (projProcesses project) (keyProcess key) (Some (process\<lparr>procRuntime := rt\<rparr>))\<rparr>,
          process\<lparr>procRuntime := rt\<rparr>)"
  by (simp add: findProcess_Inr setRuntime_def regProject_setProcesses)

lemma regProcess_setRuntime:
  assumes "findProcess reg key = Inr (project, process)"
  shows "regProcess (setRuntime reg key rt) p q =
    (if key = ProcessKey p q then Some (process\<lparr>procRuntime := rt\<rparr>) else regProcess reg p q)"
proof -
  have f: "regProject reg (keyProject key) = Some project" "map_ptr (projProcesses project) (keyProcess key) = Some process"
    using assms by (simp_all add: findProcess_Inr)
  then show ?thesis
    by (cases key) (auto simp: setRuntime_def regProcess_setProcesses, auto simp: regProcess_def)
qed

lemma runtimeOf_setRuntime:
  assumes "findProcess reg key = Inr (project, process)"
  shows "runtimeOf (setRuntime reg key rt) = (runtimeOf reg)(key := rt)"
  by (rule ext) (simp add: runtimeOf_def regProcess_setRuntime [OF assms] process_key.expand)

lemma regProject_in: "regProject reg p = Some project \<Longrightarrow> (p, Some project) \<in> set (regProjects reg)"
  by (simp add: regProject_def map_ptr_in_set)

definition procs_ok :: "(string, registered_process option) gomap \<Rightarrow> bool" where
  "procs_ok procs \<longleftrightarrow> map_wf procs \<and> (\<forall>(k, w)\<in>set procs. process_ok w)"

lemma loaded_put_project:
  assumes "registry_loaded reg" and "procs_ok (projProcesses project)"
  shows "registry_loaded (reg\<lparr>regProjects := map_put (regProjects reg) p (Some project)\<rparr>)"
proof -
  have "project_ok (Some project)" using assms(2) by (simp add: project_ok_def procs_ok_def)
  then have "\<forall>(k, v)\<in>set (map_put (regProjects reg) p (Some project)). project_ok v"
    using assms(1) set_map_put [of "regProjects reg" p "Some project"] unfolding registry_loaded_ok by blast
  with assms(1) show ?thesis by (simp add: registry_loaded_ok map_wf_put)
qed

lemma loaded_procs:
  assumes "registry_loaded reg" and "regProject reg p = Some project"
  shows "procs_ok (projProcesses project)"
  using assms regProject_in [OF assms(2)] by (auto simp: registry_loaded_ok project_ok_def procs_ok_def)

lemma loaded_setProcesses:
  assumes "registry_loaded reg" and "procs_ok procs"
  shows "registry_loaded (setProcesses reg p procs)"
  using assms loaded_put_project [OF assms(1)] by (auto simp: setProcesses_def split: option.split)

lemma procs_ok_put: "procs_ok procs \<Longrightarrow> process_ok v \<Longrightarrow> procs_ok (map_put procs q v)"
  using set_map_put [of procs q v] unfolding procs_ok_def by blast

lemma procs_ok_del: "procs_ok procs \<Longrightarrow> procs_ok (map_del procs q)"
  by (auto simp: procs_ok_def set_map_del)

lemma loaded_setRuntime:
  assumes "registry_loaded reg" and "\<forall>r. rt = Some r \<longrightarrow> IsValid (rState r)"
  shows "registry_loaded (setRuntime reg key rt)"
  using assms by (auto simp: setRuntime_def process_ok_def
      intro!: loaded_setProcesses procs_ok_put dest: loaded_procs split: option.split)

lemma loaded_runtime_valid:
  assumes "registry_loaded reg" and "runtimeOf reg key = Some r"
  shows "IsValid (rState r)"
proof -
  obtain process where "regProcess reg (keyProject key) (keyProcess key) = Some process" and rt: "procRuntime process = Some r"
    using assms(2) by (auto simp: runtimeOf_def split: bind_splits)
  then obtain project where "regProject reg (keyProject key) = Some project"
    and "map_ptr (projProcesses project) (keyProcess key) = Some process"
    by (auto simp: regProcess_def split: bind_splits)
  with loaded_procs [OF assms(1)] map_ptr_in_set have "process_ok (Some process)"
    by (fastforce simp: procs_ok_def)
  with rt show ?thesis by (simp add: process_ok_def)
qed

section \<open>The links between registry, active runtimes and observers\<close>

text \<open>What holds of the runtime \<open>rt\<close> of a process whose active entry is \<open>h\<close>.\<close>

definition owned :: "'e managed_runtime list \<Rightarrow> process_key \<Rightarrow> nat \<Rightarrow> process_runtime option \<Rightarrow> bool" where
  "owned heap key h rt \<longleftrightarrow> h < length heap \<and> \<not> mDone (heap ! h) \<and> mKey (heap ! h) = key \<and>
     (\<exists>r. rt = Some r \<and> rInstanceID r = mInstance (heap ! h) \<and> (rState r = Running \<or> rState r = Stopping))"

definition idle :: "process_runtime option \<Rightarrow> bool" where
  "idle rt \<longleftrightarrow> (case rt of None \<Rightarrow> True | Some r \<Rightarrow> \<not> IsActive (rState r))"

definition linked :: "(process_key \<Rightarrow> process_runtime option) \<Rightarrow> (process_key \<Rightarrow> nat option)
    \<Rightarrow> (process_key \<Rightarrow> nat option) \<Rightarrow> 'e managed_runtime list \<Rightarrow> bool" where
  "linked rts act outs heap \<longleftrightarrow>
     (\<forall>key. case act key of
        None \<Rightarrow> idle (rts key)
      | Some h \<Rightarrow> owned heap key h (rts key) \<and> outs key = Some h)
   \<and> (\<forall>h < length heap. \<not> mDone (heap ! h) \<longrightarrow> act (mKey (heap ! h)) = Some h)
   \<and> (\<forall>key h. outs key = Some h \<longrightarrow> h < length heap \<and> mKey (heap ! h) = key)"

named_theorems linked_intro \<open>how each kind of update keeps the links\<close>

lemma linkedI:
  assumes "\<And>key. act key = None \<Longrightarrow> idle (rts key)"
    and "\<And>key h. act key = Some h \<Longrightarrow> owned heap key h (rts key) \<and> outs key = Some h"
    and "\<And>h. h < length heap \<Longrightarrow> \<not> mDone (heap ! h) \<Longrightarrow> act (mKey (heap ! h)) = Some h"
    and "\<And>key h. outs key = Some h \<Longrightarrow> h < length heap \<and> mKey (heap ! h) = key"
  shows "linked rts act outs heap"
  using assms unfolding linked_def by (simp split: option.split)

lemma linked_active:
  "linked rts act outs heap \<Longrightarrow> act key = Some h \<Longrightarrow> owned heap key h (rts key) \<and> outs key = Some h"
  unfolding linked_def by (drule conjunct1) (auto dest: spec [of _ key])

lemma linked_idle: "linked rts act outs heap \<Longrightarrow> act key = None \<Longrightarrow> idle (rts key)"
  unfolding linked_def by (drule conjunct1) (auto dest: spec [of _ key])

lemma linked_undone: "linked rts act outs heap \<Longrightarrow> h < length heap \<Longrightarrow> \<not> mDone (heap ! h) \<Longrightarrow> act (mKey (heap ! h)) = Some h"
  by (simp add: linked_def)

lemma linked_outs: "linked rts act outs heap \<Longrightarrow> outs key = Some h \<Longrightarrow> h < length heap \<and> mKey (heap ! h) = key"
  by (simp add: linked_def)

lemmas linked_dests = linked_active linked_idle linked_undone linked_outs

lemma owned_not_idle: "owned heap key h rt \<Longrightarrow> \<not> idle rt"
  by (auto simp: owned_def idle_def)

lemma linked_inactive: "linked rts act outs heap \<Longrightarrow> idle (rts key) \<Longrightarrow> act key = None"
  using linked_active owned_not_idle by (metis not_None_eq)

lemma owned_heap_cong:
  "owned heap key h rt \<Longrightarrow> h < length heap' \<Longrightarrow> heap' ! h = heap ! h \<Longrightarrow> owned heap' key h rt"
  by (simp add: owned_def)

lemma linked_assign_inactive [linked_intro]:
  assumes "linked rts act outs heap" and "act key = None" and "idle rt"
  shows "linked (rts(key := rt)) act outs heap"
proof (rule linkedI)
  show "owned heap k h ((rts(key := rt)) k) \<and> outs k = Some h" if "act k = Some h" for k h
    using that assms(2) linked_active [OF assms(1) that] by (cases "k = key") auto
qed (use assms in \<open>auto dest: linked_dests [OF assms(1)]\<close>)

lemma linked_assign_active [linked_intro]:
  assumes "linked rts act outs heap" and "rts key = Some r" and "act key \<noteq> None"
    and "rInstanceID r' = rInstanceID r" and "rState r' = Running \<or> rState r' = Stopping"
  shows "linked (rts(key := Some r')) act outs heap"
proof (rule linkedI)
  show "owned heap k h ((rts(key := Some r')) k) \<and> outs k = Some h" if "act k = Some h" for k h
    using that assms linked_active [OF assms(1) that] by (cases "k = key") (auto simp: owned_def)
qed (use assms in \<open>auto dest: linked_dests [OF assms(1)]\<close>)

lemma linked_spawn [linked_intro]:
  assumes "linked rts act outs heap" and "act key = None"
    and "mKey managed = key" and "\<not> mDone managed" and "mInstance managed = rInstanceID r" and "rState r = Running"
  shows "linked (rts(key := Some r)) (act(key := Some (length heap))) (outs(key := Some (length heap))) (heap @ [managed])"
proof (rule linkedI)
  show "owned (heap @ [managed]) k h ((rts(key := Some r)) k) \<and> (outs(key := Some (length heap))) k = Some h"
    if "(act(key := Some (length heap))) k = Some h" for k h
  proof (cases "k = key")
    case True
    then have "h = length heap" using that by simp
    then show ?thesis using True assms by (simp add: owned_def)
  next
    case False
    then have "owned heap k h (rts k) \<and> outs k = Some h" using that linked_active [OF assms(1)] by simp
    then show ?thesis using False by (auto simp: owned_def nth_append)
  qed
  show "(act(key := Some (length heap))) (mKey ((heap @ [managed]) ! h)) = Some h"
    if "h < length (heap @ [managed])" and "\<not> mDone ((heap @ [managed]) ! h)" for h
    using that assms linked_undone [OF assms(1), of h] by (cases "h < length heap") (auto simp: nth_append less_Suc_eq)
qed (use assms in \<open>auto simp: nth_append less_Suc_eq split: if_splits dest: linked_dests [OF assms(1)]\<close>)

lemma linked_exit [linked_intro]:
  assumes "linked rts act outs heap" and "act key = Some h" and "mKey managed = key" and "mDone managed" and "idle rt"
  shows "linked (rts(key := rt)) (act(key := None)) outs (heap[h := managed])"
proof (rule linkedI)
  have h: "mKey (heap ! h) = key" "h < length heap" using linked_active [OF assms(1,2)] by (simp_all add: owned_def)
  show "owned (heap[h := managed]) k i ((rts(key := rt)) k) \<and> outs k = Some i" if "(act(key := None)) k = Some i" for k i
  proof -
    have k: "k \<noteq> key" "owned heap k i (rts k) \<and> outs k = Some i"
      using that linked_active [OF assms(1)] by (auto split: if_splits)
    then have "i \<noteq> h" using h by (auto simp: owned_def)
    with k show ?thesis by (simp add: owned_def)
  qed
  show "(act(key := None)) (mKey (heap[h := managed] ! i)) = Some i"
    if "i < length (heap[h := managed])" and "\<not> mDone (heap[h := managed] ! i)" for i
    using that assms(2,4) h linked_undone [OF assms(1), of i] by (cases "i = h") auto
  show "i < length (heap[h := managed]) \<and> mKey (heap[h := managed] ! i) = k" if "outs k = Some i" for k i
    using linked_outs [OF assms(1) that] assms(3) h by (cases "i = h") auto
qed (use assms in \<open>auto split: if_splits dest: linked_dests [OF assms(1)]\<close>)

lemma linked_heap [linked_intro]:
  assumes "linked rts act outs heap" and "mKey managed = mKey (heap ! h)" and "mDone managed = mDone (heap ! h)"
    and "mInstance managed = mInstance (heap ! h)"
  shows "linked rts act outs (heap[h := managed])"
proof (cases "h < length heap")
  case True
  have at: "mKey (heap[h := managed] ! i) = mKey (heap ! i)" "mDone (heap[h := managed] ! i) = mDone (heap ! i)"
    "mInstance (heap[h := managed] ! i) = mInstance (heap ! i)" for i
    using assms(2-4) True by (auto simp: nth_list_update)
  have own: "owned (heap[h := managed]) k i rt = owned heap k i rt" for k i rt
    by (simp add: owned_def at)
  show ?thesis
    using assms(1) unfolding linked_def own at length_list_update by simp
qed (use assms in \<open>simp add: list_update_beyond\<close>)

lemma linked_forget [linked_intro]:
  assumes "linked rts act outs heap" and "act key = None"
  shows "linked rts act (outs(key := None)) heap"
proof (rule linkedI)
  show "owned heap k h (rts k) \<and> (outs(key := None)) k = Some h" if "act k = Some h" for k h
    using that assms(2) linked_active [OF assms(1) that] by (cases "k = key") auto
qed (use assms in \<open>auto split: if_splits dest: linked_dests [OF assms(1)]\<close>)

definition lifecycle_inv :: "('w, 'e) manager \<Rightarrow> bool" where
  "lifecycle_inv m \<longleftrightarrow> registry_loaded (mgrRegistry m) \<and> 0 < outputByteLimit m \<and> 0 < outputEventLimit m \<and>
     linked (runtimeOf (mgrRegistry m)) (map_of (mgrActive m)) (map_of (mgrOutputs m)) (mgrHeap m)"

section \<open>Every operation keeps the invariant\<close>

lemma saveRegistry_frame:
  assumes "saveRegistry save m = (m', e)"
  shows "mgrRegistry m' = mgrRegistry m" "mgrActive m' = mgrActive m" "mgrOutputs m' = mgrOutputs m"
    "mgrHeap m' = mgrHeap m" "mgrTrace m' = mgrTrace m"
    "outputByteLimit m' = outputByteLimit m" "outputEventLimit m' = outputEventLimit m"
    "mgrWorld m' = fst (save (mgrWorld m) (mgrRegistry m))" "e = snd (save (mgrWorld m) (mgrRegistry m))"
  using assms by (auto simp: saveRegistry_def split: prod.splits)

lemma saveRegistry_inv: "saveRegistry save m = (m', e) \<Longrightarrow> lifecycle_inv m' = lifecycle_inv m"
  by (simp add: lifecycle_inv_def saveRegistry_frame)

lemma logEffects_inv [simp]: "lifecycle_inv (logEffects m es) = lifecycle_inv m"
  by (simp add: lifecycle_inv_def logEffects_def)

text \<open>The invariant of a manager whose runtimes were assigned, in terms of the links.\<close>

lemma inv_assignRuntime:
  assumes "lifecycle_inv m" and "findProcess (mgrRegistry m) key = Inr (project, process)"
    and "\<forall>r. rt = Some r \<longrightarrow> IsValid (rState r)"
    and "linked ((runtimeOf (mgrRegistry m))(key := rt)) (map_of (mgrActive m)) (map_of (mgrOutputs m)) (mgrHeap m)"
  shows "lifecycle_inv (assignRuntime m key rt)"
  using assms by (simp add: lifecycle_inv_def assignRuntime_def loaded_setRuntime runtimeOf_setRuntime)

lemma inv_linked: "lifecycle_inv m \<Longrightarrow> linked (runtimeOf (mgrRegistry m)) (map_of (mgrActive m)) (map_of (mgrOutputs m)) (mgrHeap m)"
  by (simp add: lifecycle_inv_def)

text \<open>While \<open>Start\<close> works on a process, its runtime may be starting without an active entry: the
  invariant then holds apart from that process.\<close>

definition inv_but :: "process_key \<Rightarrow> ('w, 'e) manager \<Rightarrow> bool" where
  "inv_but key m \<longleftrightarrow> registry_loaded (mgrRegistry m) \<and> 0 < outputByteLimit m \<and> 0 < outputEventLimit m \<and>
     linked ((runtimeOf (mgrRegistry m))(key := None)) (map_of (mgrActive m)) (map_of (mgrOutputs m)) (mgrHeap m) \<and>
     map_of (mgrActive m) key = None \<and> regProcess (mgrRegistry m) (keyProject key) (keyProcess key) \<noteq> None"

lemma inv_butI:
  assumes "lifecycle_inv m" and "idle (runtimeOf (mgrRegistry m) key)"
    and "findProcess (mgrRegistry m) key = Inr (project, process)"
  shows "inv_but key m"
proof -
  note l = inv_linked [OF assms(1)]
  have n: "map_of (mgrActive m) key = None" by (rule linked_inactive [OF l assms(2)])
  have "linked ((runtimeOf (mgrRegistry m))(key := None)) (map_of (mgrActive m)) (map_of (mgrOutputs m)) (mgrHeap m)"
    by (rule linked_assign_inactive [OF l n]) (simp add: idle_def)
  then show ?thesis
    using assms n findProcess_regProcess [OF assms(3)] by (auto simp: inv_but_def lifecycle_inv_def)
qed

lemma inv_but_inv:
  assumes "inv_but key m" and "idle (runtimeOf (mgrRegistry m) key)"
  shows "lifecycle_inv m"
proof -
  have "linked (((runtimeOf (mgrRegistry m))(key := None))(key := runtimeOf (mgrRegistry m) key))
      (map_of (mgrActive m)) (map_of (mgrOutputs m)) (mgrHeap m)"
    by (rule linked_assign_inactive) (use assms in \<open>simp_all add: inv_but_def\<close>)
  then show ?thesis using assms(1) by (simp add: inv_but_def lifecycle_inv_def)
qed

lemma inv_but_assign:
  assumes "inv_but key m" and "\<forall>r. rt = Some r \<longrightarrow> IsValid (rState r)"
  shows "inv_but key (assignRuntime m key rt) \<and> runtimeOf (mgrRegistry (assignRuntime m key rt)) key = rt"
proof -
  obtain process where "regProcess (mgrRegistry m) (keyProject key) (keyProcess key) = Some process"
    using assms(1) by (auto simp: inv_but_def)
  then obtain project where f: "(findProcess (mgrRegistry m) key :: unit lifecycle_error + _) = Inr (project, process)"
    using regProcess_findProcess by blast
  with assms show ?thesis
    by (auto simp: inv_but_def assignRuntime_def loaded_setRuntime runtimeOf_setRuntime [OF f] regProcess_setRuntime [OF f])
qed

lemma inv_but_save: "saveRegistry save m = (m', e) \<Longrightarrow> inv_but key m' = inv_but key m"
  by (simp add: inv_but_def saveRegistry_frame)

lemma inv_but_log [simp]: "inv_but key (logEffects m es) = inv_but key m"
  by (simp add: inv_but_def logEffects_def)

lemma logEffects_simps [simp]:
  "mgrRegistry (logEffects m es) = mgrRegistry m" "mgrHeap (logEffects m es) = mgrHeap m"
  "mgrActive (logEffects m es) = mgrActive m" "mgrOutputs (logEffects m es) = mgrOutputs m"
  "mgrWorld (logEffects m es) = mgrWorld m"
  "outputByteLimit (logEffects m es) = outputByteLimit m" "outputEventLimit (logEffects m es) = outputEventLimit m"
  by (simp_all add: logEffects_def)

lemma inv_but_spawned:
  assumes "inv_but key m" and "runtimeOf (mgrRegistry m) key = Some r" and "rState r = Running"
    and "mKey managed = key" and "\<not> mDone managed" and "mInstance managed = rInstanceID r"
  shows "lifecycle_inv (m\<lparr>mgrHeap := mgrHeap m @ [managed], mgrActive := map_put (mgrActive m) key (length (mgrHeap m)),
    mgrOutputs := map_put (mgrOutputs m) key (length (mgrHeap m))\<rparr>)"
proof -
  have "linked (((runtimeOf (mgrRegistry m))(key := None))(key := Some r))
      ((map_of (mgrActive m))(key := Some (length (mgrHeap m))))
      ((map_of (mgrOutputs m))(key := Some (length (mgrHeap m)))) (mgrHeap m @ [managed])"
    by (rule linked_spawn) (use assms in \<open>simp_all add: inv_but_def\<close>)
  moreover have "(runtimeOf (mgrRegistry m))(key := Some r) = runtimeOf (mgrRegistry m)"
    using assms(2) by auto
  ultimately show ?thesis using assms(1) by (simp add: inv_but_def lifecycle_inv_def)
qed

lemma failStart_inv:
  assumes "inv_but key m" and "runtimeOf (mgrRegistry m) key = Some r"
    and "rState r = Starting \<or> rState r = Running" and "failStart save m key now = (m', e)"
  shows "lifecycle_inv m' \<and> (\<exists>r'. runtimeOf (mgrRegistry m') key = Some r' \<and> rState r' = Failed
    \<and> rInstanceID r' = rInstanceID r \<and> rTerminationReason r' = TerminationReasonStartFailed \<and> rFinishedAt r' = Some now)
    \<and> mgrTrace m' = mgrTrace m"
proof -
  let ?r = "r\<lparr>rFinishedAt := Some now, rTerminationReason := TerminationReasonStartFailed, rState := Failed\<rparr>"
  let ?m = "assignRuntime m key (Some ?r)"
  have "Transition (r\<lparr>rFinishedAt := Some now, rTerminationReason := TerminationReasonStartFailed\<rparr>) Failed = Inr ?r"
    using assms(3) by (auto simp: Transition_def)
  then obtain e' where m': "saveRegistry save ?m = (m', e')"
    using assms(2,4) by (auto simp: failStart_def split: prod.splits option.splits)
  have b: "inv_but key ?m" "runtimeOf (mgrRegistry ?m) key = Some ?r"
    using inv_but_assign [OF assms(1), of "Some ?r"] by auto
  have "lifecycle_inv m'"
    by (rule inv_but_inv [of key]) (use m' b in \<open>simp_all add: inv_but_save saveRegistry_frame idle_def\<close>)
  then show ?thesis using m' b by (simp add: saveRegistry_frame assignRuntime_def)
qed

lemma failRunningProcess_inv:
  assumes "inv_but key m" and "runtimeOf (mgrRegistry m) key = Some r" and "rState r = Running"
  shows "lifecycle_inv (failRunningProcess save m key now)
    \<and> (\<exists>r'. runtimeOf (mgrRegistry (failRunningProcess save m key now)) key = Some r' \<and> rState r' = Failed
      \<and> rInstanceID r' = rInstanceID r \<and> rTerminationReason r' = TerminationReasonObservationFailed)"
proof -
  let ?r = "r\<lparr>rFinishedAt := Some now, rTerminationReason := TerminationReasonObservationFailed, rState := Failed\<rparr>"
  let ?m = "assignRuntime m key (Some ?r)"
  have "Transition (r\<lparr>rFinishedAt := Some now, rTerminationReason := TerminationReasonObservationFailed\<rparr>) Failed = Inr ?r"
    using assms(3) by (auto simp: Transition_def)
  then have m': "failRunningProcess save m key now = fst (saveRegistry save ?m)"
    using assms(2) by (simp add: failRunningProcess_def)
  obtain m2 e2 where s: "saveRegistry save ?m = (m2, e2)" by fastforce
  have b: "inv_but key ?m" "runtimeOf (mgrRegistry ?m) key = Some ?r"
    using inv_but_assign [OF assms(1), of "Some ?r"] by auto
  have "lifecycle_inv m2"
    by (rule inv_but_inv [of key]) (use s b in \<open>simp_all add: inv_but_save saveRegistry_frame idle_def\<close>)
  then show ?thesis using m' s b by (simp add: saveRegistry_frame)
qed

lemma startSpawned_inv:
  assumes "inv_but key m" and "runtimeOf (mgrRegistry m) key = Some r0" and "rState r = Starting"
    and "startSpawned save m key r output pid t1 t2 = (m', r', e)"
  shows "lifecycle_inv m' \<and> runtimeOf (mgrRegistry m') key = Some r' \<and> rInstanceID r' = rInstanceID r \<and>
    (e = None \<longrightarrow> rState r' = Running \<and> rPID r' = Some pid \<and> rStartedAt r' = Some t1 \<and> mgrTrace m' = mgrTrace m) \<and>
    (e \<noteq> None \<longrightarrow> rState r' = Failed \<and> rTerminationReason r' = TerminationReasonObservationFailed \<and>
       mgrTrace m' = mgrTrace m @ [Signalled pid True, Reaped pid])"
proof -
  let ?r = "r\<lparr>rPID := Some pid, rStartedAt := Some t1, rState := Running\<rparr>"
  let ?m = "assignRuntime m key (Some ?r)"
  have tr: "Transition (r\<lparr>rPID := Some pid, rStartedAt := Some t1\<rparr>) Running = Inr ?r"
    using assms(3) by (simp add: Transition_def)
  have b: "inv_but key ?m" "runtimeOf (mgrRegistry ?m) key = Some ?r"
    using inv_but_assign [OF assms(1), of "Some ?r"] by auto
  obtain m1 se where s: "saveRegistry save ?m = (m1, se)" by fastforce
  then have m1: "inv_but key m1" "runtimeOf (mgrRegistry m1) key = Some ?r"
    using b by (simp_all add: inv_but_save saveRegistry_frame)
  show ?thesis
  proof (cases se)
    case None
    let ?managed = "\<lparr>mKey = key, mInstance = rInstanceID r, mPID = pid, mClosed = False,
      mOutput = output, mDone = False, mFinishErr = None\<rparr>"
    have out: "m' = m1\<lparr>mgrHeap := mgrHeap m1 @ [?managed], mgrActive := map_put (mgrActive m1) key (length (mgrHeap m1)),
        mgrOutputs := map_put (mgrOutputs m1) key (length (mgrHeap m1))\<rparr>" "r' = ?r" "e = None"
      using assms(4) tr s None by (simp_all add: startSpawned_def Let_def)
    have "lifecycle_inv m'"
      unfolding out by (rule inv_but_spawned [OF m1]) simp_all
    moreover have "mgrTrace m' = mgrTrace m" using out saveRegistry_frame(5) [OF s] by (simp add: assignRuntime_def)
    ultimately show ?thesis using out m1 by simp
  next
    case (Some x)
    let ?log = "logEffects m1 [Signalled pid True, Reaped pid]"
    have out: "m' = failRunningProcess save ?log key t2" "r' = currentRuntime m' key" "e = Some (PersistRunning x)"
      using assms(4) tr s Some by (auto simp: startSpawned_def Let_def)
    have f: "lifecycle_inv m' \<and> (\<exists>r'. runtimeOf (mgrRegistry m') key = Some r' \<and> rState r' = Failed
      \<and> rInstanceID r' = rInstanceID ?r \<and> rTerminationReason r' = TerminationReasonObservationFailed)"
      unfolding out by (rule failRunningProcess_inv) (use m1 in simp_all)
    have "mgrTrace m' = mgrTrace m @ [Signalled pid True, Reaped pid]"
      using s unfolding out by (auto simp: failRunningProcess_def logEffects_def assignRuntime_def
          Let_def saveRegistry_def split: option.split prod.splits)
    with f out show ?thesis by (auto simp: currentRuntime_def)
  qed
qed

definition startCommand :: "string list \<Rightarrow> registered_project \<Rightarrow> registered_process \<Rightarrow> command" where
  "startCommand environ project process = newCommand environ (resolveDirectory project (procDefinition process))"

lemma startNew_persist_fails:
  assumes b: "inv_but key m1" and valid: "\<forall>r. procRuntime process = Some r \<longrightarrow> IsValid (rState r)"
    and "idle (procRuntime process)" and "m' = assignRuntime m1 key (procRuntime process)"
  shows "lifecycle_inv m'" and "idle (runtimeOf (mgrRegistry m') key)" and "mgrTrace m' = mgrTrace m1"
proof -
  note undone = inv_but_assign [OF b valid]
  with assms show "lifecycle_inv m'" by (intro inv_but_inv [of key]) simp_all
  show "idle (runtimeOf (mgrRegistry m') key)" "mgrTrace m' = mgrTrace m1"
    using undone assms by (simp_all add: assignRuntime_def)
qed

lemma startNew_starting:
  assumes b: "inv_but key m" and starting: "rState r = Starting" and s: "saveRegistry save (assignRuntime m key (Some r)) = (m1, se)"
  obtains buffer where "inv_but key m1" "runtimeOf (mgrRegistry m1) key = Some r" "mgrTrace m1 = mgrTrace m"
    "NewOutputBuffer (outputByteLimit m1) (outputEventLimit m1) = Return buffer"
proof -
  have "inv_but key (assignRuntime m key (Some r))" "runtimeOf (mgrRegistry (assignRuntime m key (Some r))) key = Some r"
    using inv_but_assign [OF b, of "Some r"] starting by auto
  then have m1: "inv_but key m1" "runtimeOf (mgrRegistry m1) key = Some r"
    using s by (simp_all add: inv_but_save saveRegistry_frame)
  have "0 < outputByteLimit m1" "0 < outputEventLimit m1" using m1(1) by (simp_all add: inv_but_def)
  then obtain buffer where "NewOutputBuffer (outputByteLimit m1) (outputEventLimit m1) = Return buffer"
    by (simp add: NewOutputBuffer_def)
  moreover have "mgrTrace m1 = mgrTrace m" using saveRegistry_frame(5) [OF s] by (simp add: assignRuntime_def)
  ultimately show thesis using that m1 by blast
qed

lemma startNew_inv:
  assumes "lifecycle_inv m" and "findProcess (mgrRegistry m) key = Inr (project, process)"
    and "idle (procRuntime process)"
    and "startNew save m key project process newID environ spawn t1 t2 = (m', r', e)"
  shows "lifecycle_inv m' \<and>
    (e = None \<longrightarrow> runtimeOf (mgrRegistry m') key = Some r' \<and> rState r' = Running \<and> newID = Some (rInstanceID r') \<and>
       (\<exists>pid. rPID r' = Some pid \<and> spawn (startCommand environ project process) = Inr pid \<and>
          mgrTrace m' = mgrTrace m @ [Spawned pid (startCommand environ project process)])) \<and>
    (e \<noteq> None \<longrightarrow> idle (runtimeOf (mgrRegistry m') key) \<and> (mgrTrace m' = mgrTrace m \<or>
       (\<exists>pid. mgrTrace m' = mgrTrace m @ [Spawned pid (startCommand environ project process), Signalled pid True, Reaped pid])))"
proof (cases newID)
  case None
  then show ?thesis using assms findProcess_runtime [OF assms(2)] by (auto simp: startNew_def)
next
  case (Some i)
  let ?r = "NewProcessRuntime (keyProject key) (keyProcess key) i"
  let ?cmd = "startCommand environ project process"
  note rt = findProcess_runtime [OF assms(2)]
  have b: "inv_but key m" using inv_butI [OF assms(1) _ assms(2)] assms(3) rt by simp
  have r: "rState ?r = Starting" "rInstanceID ?r = i" by (simp_all add: NewProcessRuntime_def)
  have valid: "\<forall>r. procRuntime process = Some r \<longrightarrow> IsValid (rState r)"
    using assms(1) rt loaded_runtime_valid by (auto simp: lifecycle_inv_def)
  obtain m1 se where s: "saveRegistry save (assignRuntime m key (Some ?r)) = (m1, se)" by fastforce
  obtain ob where m1: "inv_but key m1" "runtimeOf (mgrRegistry m1) key = Some ?r" "mgrTrace m1 = mgrTrace m"
    and buf: "NewOutputBuffer (outputByteLimit m1) (outputEventLimit m1) = Return ob"
    by (rule startNew_starting [OF b r(1) s])
  consider x where "se = Some x" | x where "se = None" "spawn ?cmd = Inl x" | pid where "se = None" "spawn ?cmd = Inr pid"
    by (cases se; cases "spawn ?cmd") auto
  then show ?thesis
  proof cases
    case 1
    then have "m' = assignRuntime m1 key (procRuntime process)" "e \<noteq> None"
      using assms(4) s \<open>newID = Some i\<close> by (auto simp: startNew_def Let_def)
    with startNew_persist_fails [OF m1(1) valid assms(3)] m1(3) show ?thesis by simp
  next
    case 2
    obtain m2 pe where f: "failStart save m1 key t1 = (m2, pe)" by fastforce
    then have "m' = m2" "e \<noteq> None" using assms(4) s buf 2 \<open>newID = Some i\<close>
      by (auto simp: startNew_def startCommand_def Let_def)
    then show ?thesis using failStart_inv [OF m1(1,2) _ f] m1(3) r by (auto simp: idle_def)
  next
    case 3
    let ?log = "logEffects m1 [Spawned pid ?cmd]"
    have run: "startSpawned save ?log key ?r ob pid t1 t2 = (m', r', e)"
      using assms(4) s 3 buf \<open>newID = Some i\<close> by (simp add: startNew_def startCommand_def Let_def)
    have tr: "mgrTrace ?log = mgrTrace m @ [Spawned pid ?cmd]" by (simp add: logEffects_def m1(3))
    have pre: "inv_but key ?log" "runtimeOf (mgrRegistry ?log) key = Some ?r" using m1 by simp_all
    from startSpawned_inv [OF pre r(1) run] show ?thesis
      unfolding tr r(2) using 3 \<open>newID = Some i\<close> by (cases e) (simp_all add: idle_def)
  qed
qed

lemma Start_inv:
  assumes "lifecycle_inv m" and "Start save m key newID environ spawn t1 t2 = (m', r', e)"
  shows "lifecycle_inv m'"
proof (cases "findProcess (mgrRegistry m) key :: 'b lifecycle_error + registered_project \<times> registered_process")
  case (Inl x)
  then show ?thesis using assms by (simp add: Start_def)
next
  case (Inr pp)
  obtain project process where pp: "pp = (project, process)" by fastforce
  consider "idle (procRuntime process)" "startNew save m key project process newID environ spawn t1 t2 = (m', r', e)"
    | "m' = m"
    using assms(2) Inr pp by (auto simp: Start_def idle_def split: option.splits if_splits)
  then show ?thesis
    using startNew_inv [OF assms(1) Inr [unfolded pp]] assms(1) by cases blast+
qed

lemma inv_assign_active:
  assumes "lifecycle_inv m" and "findProcess (mgrRegistry m) key = Inr (project, process)"
    and "procRuntime process = Some r" and "IsActive (rState r)" and "map_of (mgrActive m) key = Some h"
    and "rInstanceID r' = rInstanceID r" and "rState r' = Running \<or> rState r' = Stopping"
  shows "lifecycle_inv (assignRuntime m key (Some r'))"
proof (rule inv_assignRuntime [OF assms(1,2)])
  show "linked ((runtimeOf (mgrRegistry m))(key := Some r')) (map_of (mgrActive m)) (map_of (mgrOutputs m)) (mgrHeap m)"
    by (rule linked_assign_active [OF inv_linked [OF assms(1)]])
      (use findProcess_runtime [OF assms(2)] assms in simp_all)
qed (use assms in auto)

lemma stopBegin_active_inv:
  fixes m :: "('a, 'b) manager"
  assumes inv: "lifecycle_inv m"
    and f: "(findProcess (mgrRegistry m) key :: 'b lifecycle_error + _) = Inr (project, process)"
    and r: "procRuntime process = Some r" "rState r = Running" and act: "map_of (mgrActive m) key = Some h"
    and own: "owned (mgrHeap m) key h (Some r)" and stop: "stopBegin save m key = (m', plan)"
  shows "lifecycle_inv m' \<and> (\<forall>h requested. plan = StopWait h requested \<longrightarrow>
    map_of (mgrActive m') key = Some h \<and> (\<exists>r. runtimeOf (mgrRegistry m') key = Some r \<and> rState r = Stopping))"
proof -
  let ?r = "r\<lparr>rState := Stopping\<rparr>"
  let ?m = "assignRuntime m key (Some ?r)"
  have stopping: "lifecycle_inv ?m" by (rule inv_assign_active [OF inv f r(1) _ act]) (simp_all add: r)
  obtain m1 se where s: "saveRegistry save ?m = (m1, se)" by fastforce
  have m1: "lifecycle_inv m1" "mgrRegistry m1 = mgrRegistry ?m" "map_of (mgrActive m1) key = Some h"
    using saveRegistry_inv [OF s] stopping act by (simp_all add: saveRegistry_frame [OF s] assignRuntime_def)
  have rt1: "runtimeOf (mgrRegistry m1) key = Some ?r"
    by (simp add: m1(2) assignRuntime_def runtimeOf_setRuntime [OF f])
  have same: "r\<lparr>rState := Running\<rparr> = r" using r by (cases r) simp
  have "Transition r Stopping = Inr ?r" using r by (simp add: Transition_def)
  then have out: "(m', plan) = (case se of Some e \<Rightarrow> (assignRuntime m1 key (Some r), StopReturn zeroRuntime (Some (PersistStopping e)))
      | None \<Rightarrow> (m1, StopWait h True))"
    using stop f r act own s by (auto simp: stopBegin_def owned_def same split: option.splits)
  have f1: "(findProcess (mgrRegistry m1) key :: 'b lifecycle_error + _) = Inr
      (project\<lparr>projProcesses := map_put (projProcesses project) (keyProcess key) (Some (process\<lparr>procRuntime := Some ?r\<rparr>))\<rparr>,
       process\<lparr>procRuntime := Some ?r\<rparr>)"
    by (simp add: m1(2) assignRuntime_def findProcess_setRuntime [OF f])
  have "lifecycle_inv (assignRuntime m1 key (Some r))"
    by (rule inv_assign_active [OF m1(1) f1 _ _ m1(3), of ?r]) (simp_all add: r)
  then show ?thesis using out m1 rt1 by (cases se) simp_all
qed

lemma stopBegin_inv:
  assumes "lifecycle_inv m" and "stopBegin save m key = (m', plan)"
  shows "lifecycle_inv m' \<and> (\<forall>h requested. plan = StopWait h requested \<longrightarrow>
    map_of (mgrActive m') key = Some h \<and> (\<exists>r. runtimeOf (mgrRegistry m') key = Some r \<and> rState r = Stopping))"
proof (cases "findProcess (mgrRegistry m) key :: 'b lifecycle_error + registered_project \<times> registered_process")
  case (Inl x)
  then show ?thesis using assms by (auto simp: stopBegin_def)
next
  case (Inr pp)
  obtain project process where pp: "pp = (project, process)" by fastforce
  note f = Inr [unfolded pp]
  note rt = findProcess_runtime [OF f]
  note l = inv_linked [OF assms(1)]
  show ?thesis
  proof (cases "idle (procRuntime process)")
    case True
    then show ?thesis using assms f by (auto simp: stopBegin_def idle_def split: option.splits)
  next
    case False
    then obtain r h where r: "procRuntime process = Some r" "IsActive (rState r)" and act: "map_of (mgrActive m) key = Some h"
      using linked_idle [OF l, of key] rt by (cases "map_of (mgrActive m) key") (auto simp: idle_def split: option.splits)
    have own: "owned (mgrHeap m) key h (Some r)" using linked_active [OF l act] rt r by simp
    then consider "rState r = Running" | "rState r = Stopping" by (auto simp: owned_def)
    then show ?thesis
    proof cases
      case 1
      then show ?thesis by (rule stopBegin_active_inv [OF assms(1) f r(1) _ act own assms(2)])
    next
      case 2
      then show ?thesis using assms f r act own rt by (auto simp: stopBegin_def owned_def)
    qed
  qed
qed

lemma setManaged_inv:
  assumes "lifecycle_inv m" and "mKey managed = mKey (mgrHeap m ! h)"
    and "mDone managed = mDone (mgrHeap m ! h)" and "mInstance managed = mInstance (mgrHeap m ! h)"
  shows "lifecycle_inv (setManaged m h managed)"
  using assms linked_heap [OF inv_linked [OF assms(1)] assms(2-4)]
  by (simp add: lifecycle_inv_def setManaged_def)

lemma requestStop_inv: "lifecycle_inv m \<Longrightarrow> requestStop m h res = (m', e) \<Longrightarrow> lifecycle_inv m'"
  by (auto simp: requestStop_def Let_def split: if_splits)

lemma stopFinish_inv: "lifecycle_inv m \<Longrightarrow> stopFinish m key h how = (m', r, e) \<Longrightarrow> lifecycle_inv m'"
  by (auto simp: stopFinish_def Let_def split: stop_end.splits if_splits)

lemma waited_inv: "lifecycle_inv m \<Longrightarrow> lifecycle_inv (waited m h)"
  by (simp add: waited_def setManaged_inv)

lemma captureOutput_inv: "lifecycle_inv m \<Longrightarrow> lifecycle_inv (captureOutput m h stream data now)"
  by (simp add: captureOutput_def setManaged_inv split: outcome.split)

text \<open>The exit of an awaited runtime: the checks of \<open>observeExit\<close> succeed, and the runtime ends.\<close>

definition exited :: "process_exit \<Rightarrow> time \<Rightarrow> process_runtime \<Rightarrow> process_runtime" where
  "exited exit now r = r\<lparr>rFinishedAt := Some now,
     rExitCode := (if 0 \<le> exitCode exit then Some (exitCode exit) else rExitCode r),
     rTerminationReason := snd (exitState exit (rState r)), rState := fst (exitState exit (rState r))\<rparr>"

lemma exited_terminal:
  "rState r = Running \<or> rState r = Stopping \<Longrightarrow> IsTerminal (rState (exited exit now r)) \<and> \<not> IsActive (rState (exited exit now r))"
  by (auto simp: exited_def exitState_def)

lemma observeLocked_run:
  assumes inv: "lifecycle_inv m" and h: "h < length (mgrHeap m)" "\<not> mDone (mgrHeap m ! h)"
  shows "\<exists>r m1 e. runtimeOf (mgrRegistry m) (mKey (mgrHeap m ! h)) = Some r \<and> (rState r = Running \<or> rState r = Stopping) \<and>
    saveRegistry save (assignRuntime m (mKey (mgrHeap m ! h)) (Some (exited exit now r))) = (m1, e) \<and>
    observeLocked save m h exit now =
      finishManaged (m1\<lparr>mgrActive := map_del (mgrActive m1) (mKey (mgrHeap m ! h))\<rparr>) h (map_option PersistTerminal e) \<and>
    lifecycle_inv (observeLocked save m h exit now)"
proof -
  let ?key = "mKey (mgrHeap m ! h)"
  note l = inv_linked [OF inv]
  have act: "map_of (mgrActive m) ?key = Some h" by (rule linked_undone [OF l h])
  then obtain r where r: "runtimeOf (mgrRegistry m) ?key = Some r" "rInstanceID r = mInstance (mgrHeap m ! h)"
    "rState r = Running \<or> rState r = Stopping"
    using linked_active [OF l act] by (auto simp: owned_def)
  then obtain process where p: "regProcess (mgrRegistry m) (keyProject ?key) (keyProcess ?key) = Some process"
    and rt: "procRuntime process = Some r"
    by (auto simp: runtimeOf_def split: bind_splits)
  then obtain project where f: "(findProcess (mgrRegistry m) ?key :: 'b lifecycle_error + _) = Inr (project, process)"
    using regProcess_findProcess by blast
  let ?m = "assignRuntime m ?key (Some (exited exit now r))"
  obtain m1 e where s: "saveRegistry save ?m = (m1, e)" by fastforce
  let ?m2 = "m1\<lparr>mgrActive := map_del (mgrActive m1) ?key\<rparr>"
  have "Transition (r\<lparr>rFinishedAt := Some now, rExitCode := (if 0 \<le> exitCode exit then Some (exitCode exit) else rExitCode r),
      rTerminationReason := snd (exitState exit (rState r))\<rparr>) (fst (exitState exit (rState r))) = Inr (exited exit now r)"
    using r(3) by (auto simp: Transition_def exited_def exitState_def)
  then have out: "observeLocked save m h exit now = finishManaged ?m2 h (map_option PersistTerminal e)"
    using f rt r(2) s by (simp add: observeLocked_def Let_def case_prod_unfold)
  note m1 = saveRegistry_frame [OF s]
  have reg: "mgrRegistry m1 = setRuntime (mgrRegistry m) ?key (Some (exited exit now r))"
    by (simp add: m1 assignRuntime_def)
  have "linked ((runtimeOf (mgrRegistry m))(?key := Some (exited exit now r))) ((map_of (mgrActive m))(?key := None))
      (map_of (mgrOutputs m)) ((mgrHeap m)[h := (mgrHeap m ! h)\<lparr>mDone := True, mFinishErr := map_option PersistTerminal e\<rparr>])"
    by (rule linked_exit [OF l act]) (use exited_terminal r(3) in \<open>auto simp: idle_def\<close>)
  moreover have "registry_loaded (mgrRegistry m1)"
    unfolding reg using inv exited_terminal [OF r(3)]
    by (intro loaded_setRuntime) (auto simp: lifecycle_inv_def IsValid_cases)
  ultimately have "lifecycle_inv (finishManaged ?m2 h (map_option PersistTerminal e))"
    using inv by (simp add: lifecycle_inv_def finishManaged_def setManaged_def m1 assignRuntime_def runtimeOf_setRuntime [OF f])
  with out r s show ?thesis by auto
qed

section \<open>The registry operations keep it too\<close>

lemma regProject_put [simp]:
  "regProject (r\<lparr>regProjects := map_put ps p v\<rparr>) p' = (if p' = p then v else map_ptr ps p')"
  by (simp add: regProject_def)

lemma regProject_del [simp]:
  "regProject (r\<lparr>regProjects := map_del ps p\<rparr>) p' = (if p' = p then None else map_ptr ps p')"
  by (simp add: regProject_def)

lemma loaded_del_project:
  "registry_loaded reg \<Longrightarrow> registry_loaded (reg\<lparr>regProjects := map_del (regProjects reg) p\<rparr>)"
  by (auto simp: registry_loaded_ok set_map_del)

lemma runtimeOf_cong:
  "(\<And>p q. regProcess r' p q = regProcess r p q) \<Longrightarrow> runtimeOf r' = runtimeOf r"
  by (rule ext) (simp add: runtimeOf_def)

lemma inv_registry:
  assumes "lifecycle_inv m" and "registry_loaded reg" and "runtimeOf reg = runtimeOf (mgrRegistry m)"
  shows "lifecycle_inv (m\<lparr>mgrRegistry := reg\<rparr>)"
  using assms by (simp add: lifecycle_inv_def)

text \<open>The change of a registry operation, the save, and the undoing of the change.\<close>

lemma inv_change_undo:
  assumes "lifecycle_inv m" and "registry_loaded reg" and "registry_loaded reg'"
    and "runtimeOf reg = runtimeOf (mgrRegistry m)" and "runtimeOf reg' = runtimeOf (mgrRegistry m)"
    and "saveRegistry save (m\<lparr>mgrRegistry := reg\<rparr>) = (m1, e)"
  shows "lifecycle_inv m1" and "lifecycle_inv (m1\<lparr>mgrRegistry := reg'\<rparr>)" and "mgrRegistry m1 = reg"
proof -
  show 1: "lifecycle_inv m1" and 2: "mgrRegistry m1 = reg"
    using inv_registry [OF assms(1,2,4)] saveRegistry_inv [OF assms(6)] saveRegistry_frame(1) [OF assms(6)] by simp_all
  show "lifecycle_inv (m1\<lparr>mgrRegistry := reg'\<rparr>)"
    by (rule inv_registry [OF 1 assms(3)]) (simp add: 2 assms)
qed

lemma AddProject_cases:
  assumes inv: "lifecycle_inv m" and run: "AddProject save stat m d = (m', res)"
  shows "lifecycle_inv m' \<and> (case res of
      Inl e \<Rightarrow> regProject (mgrRegistry m') = regProject (mgrRegistry m)
    | Inr d' \<Rightarrow> d' = d \<and> regProject (mgrRegistry m) (pdID d) = None \<and> regProject (mgrRegistry m') =
        (regProject (mgrRegistry m))(pdID d := Some \<lparr>projDefinition = d, projProcesses = []\<rparr>))"
proof (cases "pdID d \<noteq> [] \<and> isAbs (pdRootDirectory d) \<and> stat (pdRootDirectory d) = IsDirectory \<and>
    regProject (mgrRegistry m) (pdID d) = None")
  case False
  then have "m' = m \<and> (\<exists>e. res = Inl e)"
    using run by (auto simp: AddProject_def Let_def split: if_splits)
  then show ?thesis using inv by auto
next
  case True
  let ?ps = "regProjects (mgrRegistry m)"
  let ?new = "Some \<lparr>projDefinition = d, projProcesses = []\<rparr>"
  let ?reg = "(mgrRegistry m)\<lparr>regProjects := map_put ?ps (pdID d) ?new\<rparr>"
  let ?reg' = "(mgrRegistry m)\<lparr>regProjects := map_del (map_put ?ps (pdID d) ?new) (pdID d)\<rparr>"
  have fresh: "regProject (mgrRegistry m) (pdID d) = None" using True by simp
  obtain m1 e where s: "saveRegistry save (m\<lparr>mgrRegistry := ?reg\<rparr>) = (m1, e)" by fastforce
  have m1: "mgrRegistry m1 = ?reg" by (simp add: saveRegistry_frame [OF s])
  have out: "(m', res) = (case e of Some e \<Rightarrow> (m1\<lparr>mgrRegistry := ?reg'\<rparr>, Inl (PersistProject e)) | None \<Rightarrow> (m1, Inr d))"
    using run True s m1 by (auto simp: AddProject_def setProjects_def Let_def split: option.splits)
  have loaded: "registry_loaded ?reg"
    by (rule loaded_put_project) (use inv in \<open>simp_all add: lifecycle_inv_def procs_ok_def\<close>)
  have loaded': "registry_loaded ?reg'"
    using loaded_del_project [OF loaded, of "pdID d"] by simp
  have same: "runtimeOf ?reg = runtimeOf (mgrRegistry m)" "runtimeOf ?reg' = runtimeOf (mgrRegistry m)"
    using fresh by (auto intro!: runtimeOf_cong simp: regProcess_def) (auto simp: regProject_def)
  note inv_change_undo [OF inv loaded loaded' same s]
  then show ?thesis
    using out m1 fresh by (cases e) (auto simp: fun_eq_iff regProject_def)
qed

lemma RemoveProject_cases:
  assumes inv: "lifecycle_inv m" and run: "RemoveProject save m p = (m', e)"
  shows "lifecycle_inv m' \<and> (case e of
      Some e \<Rightarrow> regProject (mgrRegistry m') = regProject (mgrRegistry m)
    | None \<Rightarrow> (\<exists>project. regProject (mgrRegistry m) p = Some project \<and> projProcesses project = []) \<and>
        regProject (mgrRegistry m') = (regProject (mgrRegistry m))(p := None))"
proof (cases "\<exists>project. regProject (mgrRegistry m) p = Some project \<and> projProcesses project = []")
  case False
  then show ?thesis
    using inv run by (auto simp: RemoveProject_def split: option.splits if_splits)
next
  case True
  then obtain project where pr: "regProject (mgrRegistry m) p = Some project" "projProcesses project = []" by blast
  let ?ps = "regProjects (mgrRegistry m)"
  let ?reg = "(mgrRegistry m)\<lparr>regProjects := map_del ?ps p\<rparr>"
  let ?reg' = "(mgrRegistry m)\<lparr>regProjects := map_put (map_del ?ps p) p (Some project)\<rparr>"
  obtain m1 se where s: "saveRegistry save (m\<lparr>mgrRegistry := ?reg\<rparr>) = (m1, se)" by fastforce
  have m1: "mgrRegistry m1 = ?reg" by (simp add: saveRegistry_frame [OF s])
  have out: "(m', e) = (case se of Some e \<Rightarrow> (m1\<lparr>mgrRegistry := ?reg'\<rparr>, Some (PersistProjectRemoval e)) | None \<Rightarrow> (m1, None))"
    using run pr s m1 by (simp add: RemoveProject_def setProjects_def split: option.splits)
  have loaded: "registry_loaded ?reg" using inv by (simp add: lifecycle_inv_def loaded_del_project)
  have loaded': "registry_loaded ?reg'"
    using loaded_put_project [OF loaded, of project p] pr by (simp add: procs_ok_def)
  have same: "runtimeOf ?reg = runtimeOf (mgrRegistry m)" "runtimeOf ?reg' = runtimeOf (mgrRegistry m)"
    using pr by (auto intro!: runtimeOf_cong simp: regProcess_def) (auto simp: regProject_def)
  note inv_change_undo [OF inv loaded loaded' same s]
  then show ?thesis
    using out m1 pr by (cases se) (auto simp: fun_eq_iff regProject_def)
qed

text \<open>What the clients of the registry see of it: the project definitions and the process records.\<close>

definition view :: "registry \<Rightarrow> (string \<Rightarrow> project_definition option) \<times> (process_key \<Rightarrow> registered_process option)" where
  "view reg = (\<lambda>p. map_option projDefinition (regProject reg p),
               \<lambda>key. regProcess reg (keyProject key) (keyProcess key))"

lemma view_setProcesses:
  assumes "regProject reg p = Some project"
  shows "view (setProcesses reg p procs) = (fst (view reg),
    \<lambda>key. if keyProject key = p then map_ptr procs (keyProcess key) else snd (view reg) key)"
  using assms by (auto simp: view_def fun_eq_iff regProject_setProcesses regProcess_setProcesses)

lemma runtimeOf_view: "runtimeOf reg key = Option.bind (snd (view reg) key) procRuntime"
  by (simp add: runtimeOf_def view_def)

lemma view_runtime: "view r = view r' \<Longrightarrow> runtimeOf r = runtimeOf r'"
  by (rule ext) (simp add: runtimeOf_view)

lemma setProcesses_twice:
  assumes "regProject reg p = Some project"
  shows "view (setProcesses (setProcesses reg p procs) p procs') = view (setProcesses reg p procs')"
proof -
  have "regProject (setProcesses reg p procs) p = Some (project\<lparr>projProcesses := procs\<rparr>)"
    using assms by (simp add: regProject_setProcesses)
  from view_setProcesses [OF this] view_setProcesses [OF assms] show ?thesis by (auto simp: fun_eq_iff)
qed

lemma view_same:
  assumes "regProject reg p = Some project" and "\<And>q. map_ptr procs q = map_ptr (projProcesses project) q"
  shows "view (setProcesses reg p procs) = view reg"
  using assms by (auto simp: view_setProcesses fun_eq_iff) (auto simp: view_def regProcess_def)

lemma AddProcess_cases:
  assumes inv: "lifecycle_inv m" and run: "AddProcess save stat m d = (m', res)"
  shows "lifecycle_inv m' \<and> (case res of
      Inl e \<Rightarrow> view (mgrRegistry m') = view (mgrRegistry m)
    | Inr d' \<Rightarrow> d' = d\<lparr>dEnvironmentOverrides := None\<rparr> \<and> snd (view (mgrRegistry m)) (ProcessKey (dProjectID d) (dID d)) = None \<and>
        view (mgrRegistry m') = (fst (view (mgrRegistry m)), (snd (view (mgrRegistry m)))
          (ProcessKey (dProjectID d) (dID d) := Some \<lparr>procDefinition = d, procRuntime = None\<rparr>)))"
proof (cases "(\<exists>e. res = Inl e) \<and> m' = m")
  case True
  then show ?thesis using inv by auto
next
  case False
  let ?p = "dProjectID d" and ?q = "dID d"
  let ?new = "Some \<lparr>procDefinition = d, procRuntime = None\<rparr>"
  obtain project where pr: "regProject (mgrRegistry m) ?p = Some project"
    using run False by (auto simp: AddProcess_def Let_def split: option.splits)
  let ?put = "map_put (projProcesses project) ?q ?new"
  let ?reg = "setProcesses (mgrRegistry m) ?p ?put"
  let ?reg' = "setProcesses ?reg ?p (map_del ?put ?q)"
  obtain m1 e where s: "saveRegistry save (m\<lparr>mgrRegistry := ?reg\<rparr>) = (m1, e)" by fastforce
  have m1: "mgrRegistry m1 = ?reg" by (simp add: saveRegistry_frame [OF s])
  have fresh: "map_ptr (projProcesses project) ?q = None"
    and out: "(m', res) = (case e of Some e \<Rightarrow> (m1\<lparr>mgrRegistry := ?reg'\<rparr>, Inl (PersistProcess e))
      | None \<Rightarrow> (m1, Inr (publicProcessDefinition d)))"
    using run False s m1 pr by (auto simp: AddProcess_def Let_def split: if_splits option.splits)
  have rl: "registry_loaded (mgrRegistry m)" using inv by (simp add: lifecycle_inv_def)
  have ok: "procs_ok ?put" using loaded_procs [OF rl pr] by (intro procs_ok_put) (simp_all add: process_ok_def)
  have loaded: "registry_loaded ?reg" "registry_loaded ?reg'"
    using rl ok procs_ok_del [OF ok] by (simp_all add: loaded_setProcesses)
  have undo: "view ?reg' = view (mgrRegistry m)"
    unfolding setProcesses_twice [OF pr] by (rule view_same [OF pr]) (simp add: fresh)
  have vr: "view ?reg = (fst (view (mgrRegistry m)), (snd (view (mgrRegistry m)))(ProcessKey ?p ?q := ?new))"
    using pr by (auto simp: view_setProcesses fun_eq_iff process_key.expand) (auto simp: view_def regProcess_def)
  have none: "snd (view (mgrRegistry m)) (ProcessKey ?p ?q) = None"
    using pr fresh by (simp add: view_def regProcess_def)
  have same: "runtimeOf ?reg = runtimeOf (mgrRegistry m)" "runtimeOf ?reg' = runtimeOf (mgrRegistry m)"
  proof -
    show "runtimeOf ?reg' = runtimeOf (mgrRegistry m)" by (rule view_runtime [OF undo])
    show "runtimeOf ?reg = runtimeOf (mgrRegistry m)"
      by (rule ext) (simp add: runtimeOf_view vr none)
  qed
  note inv_change_undo [OF inv loaded same s]
  then show ?thesis
    using out m1 undo vr none by (cases e) (simp_all add: publicProcessDefinition_def)
qed

lemma RemoveProcess_cases:
  assumes inv: "lifecycle_inv m" and run: "RemoveProcess save m key = (m', e)"
  shows "lifecycle_inv m' \<and> (case e of
      Some e \<Rightarrow> view (mgrRegistry m') = view (mgrRegistry m)
    | None \<Rightarrow> snd (view (mgrRegistry m)) key \<noteq> None \<and> idle (runtimeOf (mgrRegistry m) key) \<and>
        view (mgrRegistry m') = (fst (view (mgrRegistry m)), (snd (view (mgrRegistry m)))(key := None)))"
proof (cases "(\<exists>x. e = Some x) \<and> m' = m")
  case True
  then show ?thesis using inv by auto
next
  case False
  then obtain project process where f: "(findProcess (mgrRegistry m) key :: 'b lifecycle_error + _) = Inr (project, process)"
    using run by (cases "findProcess (mgrRegistry m) key :: 'b lifecycle_error + _") (auto simp: RemoveProcess_def)
  let ?p = "keyProject key" and ?q = "keyProcess key"
  have pr: "regProject (mgrRegistry m) ?p = Some project" and at: "map_ptr (projProcesses project) ?q = Some process"
    using f by (simp_all add: findProcess_Inr)
  let ?del = "map_del (projProcesses project) ?q"
  let ?reg = "setProcesses (mgrRegistry m) ?p ?del"
  let ?reg' = "setProcesses ?reg ?p (map_put ?del ?q (Some process))"
  obtain m1 se where s: "saveRegistry save (m\<lparr>mgrRegistry := ?reg\<rparr>) = (m1, se)" by fastforce
  have m1: "mgrRegistry m1 = ?reg" by (simp add: saveRegistry_frame [OF s])
  have idle: "idle (procRuntime process)"
    using run False f by (auto simp: RemoveProcess_def idle_def split: option.splits if_splits)
  then have out: "(m', e) = (case se of Some e \<Rightarrow> (m1\<lparr>mgrRegistry := ?reg'\<rparr>, Some (PersistProcessRemoval e))
      | None \<Rightarrow> (m1\<lparr>mgrOutputs := map_del (mgrOutputs m1) key\<rparr>, None))"
    using run s m1 f by (auto simp: RemoveProcess_def idle_def split: option.splits)
  have rt: "runtimeOf (mgrRegistry m) key = procRuntime process" by (rule findProcess_runtime [OF f])
  have rl: "registry_loaded (mgrRegistry m)" using inv by (simp add: lifecycle_inv_def)
  have ok: "procs_ok (projProcesses project)" by (rule loaded_procs [OF rl pr])
  have pok: "process_ok (Some process)" using ok map_ptr_in_set [OF at] by (auto simp: procs_ok_def)
  have loaded: "registry_loaded ?reg" "registry_loaded ?reg'"
    using rl ok pok by (simp_all add: loaded_setProcesses procs_ok_put procs_ok_del)
  have undo: "view ?reg' = view (mgrRegistry m)"
    unfolding setProcesses_twice [OF pr] by (rule view_same [OF pr]) (simp add: at)
  have vr: "view ?reg = (fst (view (mgrRegistry m)), (snd (view (mgrRegistry m)))(key := None))"
    using pr by (auto simp: view_setProcesses fun_eq_iff process_key.expand) (auto simp: view_def regProcess_def)
  have there: "snd (view (mgrRegistry m)) key \<noteq> None"
    using pr at by (simp add: view_def regProcess_def)
  note l = inv_linked [OF inv]
  have n: "map_of (mgrActive m) key = None" using linked_inactive [OF l] rt idle by simp
  have rr: "runtimeOf ?reg = (runtimeOf (mgrRegistry m))(key := None)"
    by (rule ext) (simp add: runtimeOf_view vr)
  have l1: "linked (runtimeOf ?reg) (map_of (mgrActive m)) (map_of (mgrOutputs m)) (mgrHeap m)"
    unfolding rr by (rule linked_assign_inactive [OF l n]) (simp add: idle_def)
  have "lifecycle_inv (m1\<lparr>mgrOutputs := map_del (mgrOutputs m1) key\<rparr>)"
    using linked_forget [OF l1 n] inv loaded by (simp add: lifecycle_inv_def saveRegistry_frame [OF s])
  moreover have "lifecycle_inv (m1\<lparr>mgrRegistry := ?reg'\<rparr>)"
    using l inv loaded by (simp add: lifecycle_inv_def saveRegistry_frame [OF s] view_runtime [OF undo])
  ultimately show ?thesis
    using out m1 undo vr there idle rt by (cases se) simp_all
qed

section \<open>The system\<close>

text \<open>
  One step is one critical section (or the end of a wait) of one goroutine.  Whatever the
  persister, the operating system and the clients do, each can come next.
\<close>

inductive manager_step :: "('w, 'e) saver \<Rightarrow> ('w, 'e) manager \<Rightarrow> ('w, 'e) manager \<Rightarrow> bool" for save where
  start: "Start save m key newID environ spawn t1 t2 = (m', r, e) \<Longrightarrow> manager_step save m m'"
| stop_begin: "stopBegin save m key = (m', plan) \<Longrightarrow> manager_step save m m'"
| stop_request: "h < length (mgrHeap m) \<Longrightarrow> requestStop m h res = (m', se) \<Longrightarrow> manager_step save m m'"
| stop_finish: "h < length (mgrHeap m) \<Longrightarrow> stopFinish m key h how = (m', r, e) \<Longrightarrow> manager_step save m m'"
| exit_wait: "h < length (mgrHeap m) \<Longrightarrow> \<not> mClosed (mgrHeap m ! h) \<Longrightarrow> manager_step save m (waited m h)"
| exit_observe: "h < length (mgrHeap m) \<Longrightarrow> mClosed (mgrHeap m ! h) \<Longrightarrow> \<not> mDone (mgrHeap m ! h)
    \<Longrightarrow> manager_step save m (observeLocked save m h exit now)"
| output_captured: "h < length (mgrHeap m) \<Longrightarrow> manager_step save m (captureOutput m h stream data now)"
| add_project: "AddProject save stat m d = (m', res) \<Longrightarrow> manager_step save m m'"
| remove_project: "RemoveProject save m p = (m', e) \<Longrightarrow> manager_step save m m'"
| add_process: "AddProcess save stat m pd = (m', res') \<Longrightarrow> manager_step save m m'"
| remove_process: "RemoveProcess save m key = (m', e) \<Longrightarrow> manager_step save m m'"

inductive manager_reachable :: "('w, 'e) saver \<Rightarrow> ('w, 'e) manager \<Rightarrow> ('w, 'e) manager \<Rightarrow> bool" for save m0 where
  init: "manager_reachable save m0 m0"
| step: "manager_reachable save m0 m \<Longrightarrow> manager_step save m m' \<Longrightarrow> manager_reachable save m0 m'"

lemma manager_step_inv: "manager_step save m m' \<Longrightarrow> lifecycle_inv m \<Longrightarrow> lifecycle_inv m'"
proof (induction rule: manager_step.induct)
  case (exit_observe h m exit now)
  then show ?case using observeLocked_run by blast
qed (auto dest: Start_inv stopBegin_inv requestStop_inv stopFinish_inv waited_inv captureOutput_inv
      AddProject_cases RemoveProject_cases AddProcess_cases RemoveProcess_cases)

lemma manager_reachable_inv: "manager_reachable save m0 m \<Longrightarrow> lifecycle_inv m0 \<Longrightarrow> lifecycle_inv m"
  by (induction rule: manager_reachable.induct) (auto dest: manager_step_inv)

end
