(* ===== verification/LifecycleProperties.thy ===== *)
theory LifecycleProperties
  imports LifecycleSystem
begin

text \<open>
  The properties of the lifecycle manager: the invariant of the concurrent system, the result of
  every operation on a manager in a reachable state, what is on disk after an operation that
  reported success (proved once for every persister, and used for the file store), and the lists
  and identifiers the manager hands out.
\<close>

section \<open>The invariant\<close>

definition nothing_active :: "registry \<Rightarrow> bool" where
  "nothing_active reg \<longleftrightarrow> list_all (\<lambda>(p, v). case v of None \<Rightarrow> True | Some project \<Rightarrow>
     list_all (\<lambda>(q, w). case w of None \<Rightarrow> True | Some process \<Rightarrow> idle (procRuntime process)) (projProcesses project))
     (regProjects reg)"

lemma nothing_active_idle:
  assumes "nothing_active reg"
  shows "idle (runtimeOf reg key)"
proof (cases "regProcess reg (keyProject key) (keyProcess key)")
  case None
  then show ?thesis by (simp add: runtimeOf_def idle_def)
next
  case (Some process)
  then obtain project where "(keyProject key, Some project) \<in> set (regProjects reg)"
    and "(keyProcess key, Some process) \<in> set (projProcesses project)"
    by (auto simp: regProcess_def split: bind_splits dest!: regProject_in map_ptr_in_set)
  with assms have "idle (procRuntime process)"
    by (force simp: nothing_active_def list_all_iff)
  with Some show ?thesis by (simp add: runtimeOf_def)
qed

lemma initial_inv:
  assumes "NewLifecycleManager reg w bl el = Inr m" and "registry_loaded reg" and "nothing_active reg"
  shows "lifecycle_inv m"
  using assms nothing_active_idle
  by (auto simp: NewLifecycleManager_def lifecycle_inv_def linked_def split: if_splits)

text \<open>C1: The invariant of the daemon.  From a manager created on a loaded registry without active
  runtimes, in every reachable state: a process has an active runtime exactly when the manager
  owns one for it, that runtime is running or stopping and has the instance ID of the owned one,
  every runtime whose exit is still awaited is the one owned for its process, and the logs of an
  active process are those of its current runtime.\<close>

theorem manager_invariant:
  assumes "NewLifecycleManager reg w bl el = Inr m0" and "registry_loaded reg" and "nothing_active reg"
    and "manager_reachable save m0 m"
  shows "((\<exists>r. runtimeOf (mgrRegistry m) key = Some r \<and> IsActive (rState r)) \<longleftrightarrow> (\<exists>h. map_of (mgrActive m) key = Some h))
    \<and> (\<forall>h. map_of (mgrActive m) key = Some h \<longrightarrow> h < length (mgrHeap m) \<and> \<not> mDone (mgrHeap m ! h)
         \<and> map_of (mgrOutputs m) key = Some h
         \<and> (\<exists>r. runtimeOf (mgrRegistry m) key = Some r \<and> rInstanceID r = mInstance (mgrHeap m ! h)
              \<and> (rState r = Running \<or> rState r = Stopping)))
    \<and> (\<forall>h < length (mgrHeap m). \<not> mDone (mgrHeap m ! h) \<longrightarrow> map_of (mgrActive m) (mKey (mgrHeap m ! h)) = Some h)"
proof -
  have inv: "lifecycle_inv m"
    by (rule manager_reachable_inv [OF assms(4) initial_inv [OF assms(1-3)]])
  note l = inv_linked [OF inv]
  have own: "owned (mgrHeap m) key h (runtimeOf (mgrRegistry m) key) \<and> map_of (mgrOutputs m) key = Some h"
    if "map_of (mgrActive m) key = Some h" for h
    by (rule linked_active [OF l that])
  have "idle (runtimeOf (mgrRegistry m) key)" if "map_of (mgrActive m) key = None"
    by (rule linked_idle [OF l that])
  then have "(\<exists>r. runtimeOf (mgrRegistry m) key = Some r \<and> IsActive (rState r)) \<longleftrightarrow> (\<exists>h. map_of (mgrActive m) key = Some h)"
    using own owned_not_idle by (cases "map_of (mgrActive m) key") (fastforce simp: idle_def split: option.splits)+
  with own linked_undone [OF l] show ?thesis by (simp add: owned_def)
qed

text \<open>A manager with one process, its persister never failing, for the witnesses.\<close>

definition idle_registry :: registry where
  "idle_registry = \<lparr>regProjects = [(''p'', Some \<lparr>projDefinition = \<lparr>pdID = ''p'', pdRootDirectory = ''/w''\<rparr>,
     projProcesses = [(''q'', Some (sample_process\<lparr>procRuntime := None\<rparr>))]\<rparr>)]\<rparr>"

definition sample_manager :: "(unit, unit) manager" where
  "sample_manager = \<lparr>mgrRegistry = idle_registry, mgrWorld = (), mgrActive = [], mgrOutputs = [], mgrHeap = [],
     mgrTrace = [], outputByteLimit = 100, outputEventLimit = 10\<rparr>"

definition sample_save :: "(unit, unit) saver" where
  "sample_save w r = ((), None)"

lemma sample_manager_new: "NewLifecycleManager idle_registry () 100 10 = Inr sample_manager"
  "registry_loaded idle_registry" "nothing_active idle_registry"
  by (simp_all add: NewLifecycleManager_def sample_manager_def idle_registry_def registry_loaded_def
      sample_process_def map_wf_def nothing_active_def idle_def)

lemmas sample_inv = initial_inv [OF sample_manager_new]

theorem manager_invariant_witness:
  "\<not> (\<exists>h. map_of (mgrActive sample_manager) (ProcessKey ''p'' ''q'') = Some h) \<and>
   \<not> (\<exists>r. runtimeOf (mgrRegistry sample_manager) (ProcessKey ''p'' ''q'') = Some r \<and> IsActive (rState r))"
  using manager_invariant [OF sample_manager_new manager_reachable.init [of sample_save], of "ProcessKey ''p'' ''q''"]
  by (auto simp: sample_manager_def)

section \<open>Starting\<close>

text \<open>C2: \<open>Start\<close>.  On a process that is not registered it fails and changes nothing.  On a
  process with an active runtime it changes nothing and returns that runtime, so a process never
  has two.  Otherwise success means that the recorded runtime is the new one, running, with the PID
  of the one process that was spawned, from the resolved command; and failure means that the
  process is left without an active runtime, and a process that was already spawned was killed
  and reaped.\<close>

theorem start_result:
  assumes "lifecycle_inv m" and "Start save m key newID environ spawn t1 t2 = (m', r, e)"
  shows "lifecycle_inv m' \<and> (case findProcess (mgrRegistry m) key of
      Inl x \<Rightarrow> e = Some x \<and> m' = m
    | Inr (project, process) \<Rightarrow>
        if \<not> idle (procRuntime process) then m' = m \<and> e = None \<and> procRuntime process = Some r
        else (case e of
            None \<Rightarrow> runtimeOf (mgrRegistry m') key = Some r \<and> rState r = Running \<and> newID = Some (rInstanceID r) \<and>
              (\<exists>pid. rPID r = Some pid \<and> spawn (startCommand environ project process) = Inr pid \<and>
                 mgrTrace m' = mgrTrace m @ [Spawned pid (startCommand environ project process)])
          | Some x \<Rightarrow> idle (runtimeOf (mgrRegistry m') key) \<and> map_of (mgrActive m') key = None \<and>
              (mgrTrace m' = mgrTrace m \<or> (\<exists>pid. mgrTrace m' = mgrTrace m @
                 [Spawned pid (startCommand environ project process), Signalled pid True, Reaped pid]))))"
proof -
  have inv: "lifecycle_inv m'" by (rule Start_inv [OF assms])
  show ?thesis
  proof (cases "findProcess (mgrRegistry m) key :: 'b lifecycle_error + _")
    case (Inl x)
    then show ?thesis using inv assms(2) by (simp add: Start_def)
  next
    case (Inr pp)
    obtain project process where pp: "pp = (project, process)" by fastforce
    note f = Inr [unfolded pp]
    show ?thesis
    proof (cases "idle (procRuntime process)")
      case False
      then show ?thesis using inv assms(2) f by (auto simp: Start_def idle_def split: option.splits)
    next
      case True
      then have "startNew save m key project process newID environ spawn t1 t2 = (m', r, e)"
        using assms(2) f by (simp add: Start_def idle_def split: option.splits)
      note new = startNew_inv [OF assms(1) f True this]
      have "map_of (mgrActive m') key = None" if "idle (runtimeOf (mgrRegistry m') key)"
        by (rule linked_inactive [OF inv_linked [OF inv] that])
      with new f True inv show ?thesis by (cases e) simp_all
    qed
  qed
qed

theorem start_result_witness:
  "\<exists>m' r. Start sample_save sample_manager (ProcessKey ''p'' ''q'') (Some ''i'') [''HOME=/h''] (\<lambda>c. Inr 7) 1 2 = (m', r, None)
    \<and> rState r = Running \<and> rPID r = Some 7"
proof -
  let ?s = "Start sample_save sample_manager (ProcessKey ''p'' ''q'') (Some ''i'') [''HOME=/h''] (\<lambda>c. Inr 7) 1 2"
  obtain m' r e where s: "?s = (m', r, e)" by (metis prod.exhaust)
  have f: "(findProcess (mgrRegistry sample_manager) (ProcessKey ''p'' ''q'') :: unit lifecycle_error + _)
      = Inr (\<lparr>projDefinition = \<lparr>pdID = ''p'', pdRootDirectory = ''/w''\<rparr>,
           projProcesses = [(''q'', Some (sample_process\<lparr>procRuntime := None\<rparr>))]\<rparr>, sample_process\<lparr>procRuntime := None\<rparr>)"
    by (simp add: findProcess_def sample_manager_def idle_registry_def regProject_def map_ptr_def)
  have "e = None"
    using s f by (simp add: Start_def startNew_def saveRegistry_def sample_save_def NewOutputBuffer_def
        assignRuntime_def sample_manager_def startSpawned_def Transition_def NewProcessRuntime_def Let_def
        sample_process_def logEffects_def)
  with start_result [OF sample_inv s] f s show ?thesis by (auto simp: idle_def)
qed

section \<open>Stopping and exiting\<close>

lemma stopBegin_active:
  assumes "lifecycle_inv m" and "runtimeOf (mgrRegistry m) key = Some r" and "IsActive (rState r)"
  shows "\<exists>h. map_of (mgrActive m) key = Some h \<and> owned (mgrHeap m) key h (Some r)"
proof -
  note l = inv_linked [OF assms(1)]
  have "map_of (mgrActive m) key \<noteq> None"
    using linked_idle [OF l, of key] assms(2,3) by (auto simp: idle_def)
  then obtain h where "map_of (mgrActive m) key = Some h" by blast
  with linked_active [OF l this] assms(2) show ?thesis by simp
qed

text \<open>\<open>Stop\<close>, up to its wait.  An inactive process is left alone and its last runtime (or
  stopped, if it never ran) returned; an active one is never refused as not owned: either the save
  fails and the registry is as before, or the runtime is stopping, and the call waits for the exit
  of exactly the runtime that is active, requesting the stop only if no other call has.\<close>

theorem stop_begin_result:
  fixes m :: "('w, 'e) manager"
  assumes "lifecycle_inv m" and "stopBegin save m key = (m', plan)"
    and "(findProcess (mgrRegistry m) key :: 'e lifecycle_error + _) = Inr (project, process)"
  shows "lifecycle_inv m' \<and> (if idle (procRuntime process)
    then m' = m \<and> (\<exists>r. plan = StopReturn r None \<and> (procRuntime process = Some r \<or> procRuntime process = None \<and> rState r = Stopped))
    else (\<exists>h r. procRuntime process = Some r \<and> map_of (mgrActive m) key = Some h \<and>
      (plan = StopWait h (rState r = Running) \<and> runtimeOf (mgrRegistry m') key = Some (r\<lparr>rState := Stopping\<rparr>)
       \<or> (\<exists>x. plan = StopReturn zeroRuntime (Some (PersistStopping x)) \<and> rState r = Running \<and>
            runtimeOf (mgrRegistry m') = runtimeOf (mgrRegistry m)))))"
proof -
  have inv: "lifecycle_inv m'" using stopBegin_inv [OF assms(1,2)] by blast
  note rt = findProcess_runtime [OF assms(3)]
  show ?thesis
  proof (cases "idle (procRuntime process)")
    case True
    then show ?thesis using inv assms(2,3) by (auto simp: stopBegin_def idle_def split: option.splits)
  next
    case False
    then obtain r where r: "procRuntime process = Some r" "IsActive (rState r)"
      by (auto simp: idle_def split: option.splits)
    then obtain h where act: "map_of (mgrActive m) key = Some h" and own: "owned (mgrHeap m) key h (Some r)"
      using stopBegin_active [OF assms(1)] rt by fastforce
    show ?thesis
    proof (cases "rState r = Stopping")
      case True
      then have "r\<lparr>rState := Stopping\<rparr> = r" by (cases r) simp
      then show ?thesis using True False inv assms(2,3) r act own rt by (auto simp: stopBegin_def owned_def)
    next
      case neq: False
      then have run: "rState r = Running" using own by (simp add: owned_def)
      let ?r = "r\<lparr>rState := Stopping\<rparr>"
      obtain m1 se where s: "saveRegistry save (assignRuntime m key (Some ?r)) = (m1, se)" by fastforce
      have same: "r\<lparr>rState := Running\<rparr> = r" using run by (cases r) simp
      have tr: "Transition r Stopping = Inr ?r" using run by (simp add: Transition_def)
      have reg: "mgrRegistry m1 = setRuntime (mgrRegistry m) key (Some ?r)"
        by (simp add: saveRegistry_frame [OF s] assignRuntime_def)
      have out: "(m', plan) = (case se of Some e \<Rightarrow> (assignRuntime m1 key (Some r), StopReturn zeroRuntime (Some (PersistStopping e)))
          | None \<Rightarrow> (m1, StopWait h True))"
        using assms(2,3) r act own run s tr by (auto simp: stopBegin_def owned_def same split: option.splits)
      have rt1: "runtimeOf (mgrRegistry m1) = (runtimeOf (mgrRegistry m))(key := Some ?r)"
        unfolding reg by (rule runtimeOf_setRuntime [OF assms(3)])
      have "runtimeOf (mgrRegistry (assignRuntime m1 key (Some r))) = runtimeOf (mgrRegistry m)"
        using rt r(1) by (simp add: assignRuntime_def reg runtimeOf_setRuntime [OF findProcess_setRuntime [OF assms(3)]]
            runtimeOf_setRuntime [OF assms(3)] fun_upd_idem)
      then show ?thesis using False inv out rt1 r act run by (cases se) auto
    qed
  qed
qed

theorem stop_begin_result_witness:
  "stopBegin sample_save sample_manager (ProcessKey ''p'' ''q'') = (sample_manager,
     StopReturn (zeroRuntime\<lparr>rProjectID := ''p'', rProcessID := ''q'', rState := Stopped\<rparr>) None) \<and>
   lifecycle_inv sample_manager"
proof -
  let ?k = "ProcessKey ''p'' ''q''"
  have f: "(findProcess (mgrRegistry sample_manager) ?k :: unit lifecycle_error + _)
      = Inr (\<lparr>projDefinition = \<lparr>pdID = ''p'', pdRootDirectory = ''/w''\<rparr>,
           projProcesses = [(''q'', Some (sample_process\<lparr>procRuntime := None\<rparr>))]\<rparr>, sample_process\<lparr>procRuntime := None\<rparr>)"
    by (simp add: findProcess_def sample_manager_def idle_registry_def regProject_def map_ptr_def)
  then have "stopBegin sample_save sample_manager ?k = (sample_manager,
      StopReturn (zeroRuntime\<lparr>rProjectID := ''p'', rProcessID := ''q'', rState := Stopped\<rparr>) None)"
    by (simp add: stopBegin_def)
  with stop_begin_result [OF sample_inv this f] show ?thesis by simp
qed

text \<open>The end of a runtime.  When the exit of an awaited runtime is observed, the record of its
  process becomes terminal: failed if waiting failed, stopped if a stop was requested, exited for
  exit code 0, failed otherwise, with the finish time, the reason and the exit code when there is one;
  the entry of active runtimes goes away and waiting callers are released, also when the save fails,
  whose error they then get.\<close>

theorem exit_result:
  assumes "lifecycle_inv m" and "h < length (mgrHeap m)" and "\<not> mDone (mgrHeap m ! h)"
  shows "\<exists>r. runtimeOf (mgrRegistry m) (mKey (mgrHeap m ! h)) = Some r \<and> (rState r = Running \<or> rState r = Stopping) \<and>
    (let m' = observeLocked save m h exit now; key = mKey (mgrHeap m ! h); r' = exited exit now r
     in runtimeOf (mgrRegistry m') = (runtimeOf (mgrRegistry m))(key := Some r') \<and>
        (rState r', rTerminationReason r') =
          (if exitErr exit then (Failed, ''observation-failed'')
           else if rState r = Stopping then (Stopped, ''requested-stop'')
           else if exitCode exit = 0 then (Exited, ''natural-exit'') else (Failed, ''natural-exit'')) \<and>
        rFinishedAt r' = Some now \<and> rExitCode r' = (if 0 \<le> exitCode exit then Some (exitCode exit) else rExitCode r) \<and>
        map_of (mgrActive m') = (map_of (mgrActive m))(key := None) \<and> mDone (mgrHeap m' ! h) \<and>
        mFinishErr (mgrHeap m' ! h) = map_option PersistTerminal
          (snd (save (mgrWorld m) (setRuntime (mgrRegistry m) key (Some r')))))"
proof -
  let ?key = "mKey (mgrHeap m ! h)"
  obtain r m1 e where r: "runtimeOf (mgrRegistry m) ?key = Some r" "rState r = Running \<or> rState r = Stopping"
    and s: "saveRegistry save (assignRuntime m ?key (Some (exited exit now r))) = (m1, e)"
    and out: "observeLocked save m h exit now =
      finishManaged (m1\<lparr>mgrActive := map_del (mgrActive m1) ?key\<rparr>) h (map_option PersistTerminal e)"
    using observeLocked_run [OF assms] by blast
  obtain process where "regProcess (mgrRegistry m) (keyProject ?key) (keyProcess ?key) = Some process"
    using r(1) by (auto simp: runtimeOf_def split: bind_splits)
  then obtain project where f: "(findProcess (mgrRegistry m) ?key :: unit lifecycle_error + _) = Inr (project, process)"
    using regProcess_findProcess by blast
  note m1 = saveRegistry_frame [OF s]
  have "runtimeOf (mgrRegistry (observeLocked save m h exit now)) = (runtimeOf (mgrRegistry m))(?key := Some (exited exit now r))"
    by (simp add: out finishManaged_def setManaged_def m1 assignRuntime_def runtimeOf_setRuntime [OF f])
  moreover have "map_of (mgrActive (observeLocked save m h exit now)) = (map_of (mgrActive m))(?key := None)"
    "mDone (mgrHeap (observeLocked save m h exit now) ! h)"
    "mFinishErr (mgrHeap (observeLocked save m h exit now) ! h) = map_option PersistTerminal
       (snd (save (mgrWorld m) (setRuntime (mgrRegistry m) ?key (Some (exited exit now r)))))"
    using assms(2) by (simp_all add: out finishManaged_def setManaged_def m1 assignRuntime_def)
  ultimately show ?thesis
    using r by (intro exI [of _ r]) (simp add: Let_def exited_def exitState_def TerminationReasonObservationFailed_def
        TerminationReasonRequestedStop_def TerminationReasonNaturalExit_def)
qed

text \<open>A manager with one running process, whose exit was just observed.\<close>

definition running_manager :: "(unit, unit) manager" where
  "running_manager = \<lparr>mgrRegistry = sample_registry, mgrWorld = (), mgrActive = [(ProcessKey ''p'' ''q'', 0)],
     mgrOutputs = [(ProcessKey ''p'' ''q'', 0)],
     mgrHeap = [\<lparr>mKey = ProcessKey ''p'' ''q'', mInstance = ''i'', mPID = 7, mClosed = True,
       mOutput = \<lparr>maxBytes = 4, maxEvents = 2, bufBytes = 0, nextSequence = 1, events = [], truncated = False\<rparr>,
       mDone = False, mFinishErr = None\<rparr>],
     mgrTrace = [], outputByteLimit = 4, outputEventLimit = 2\<rparr>"

lemma running_manager_runtime:
  "runtimeOf (mgrRegistry running_manager) key =
     (if key = ProcessKey ''p'' ''q'' then procRuntime sample_process else None)"
  by (cases key) (auto simp: running_manager_def sample_registry_def runtimeOf_def regProcess_def regProject_def map_ptr_def
      split: option.splits)

lemma running_inv: "lifecycle_inv running_manager"
proof -
  have "registry_loaded (mgrRegistry running_manager)"
    by (simp add: running_manager_def registry_loaded_def sample_registry_def sample_process_def map_wf_def)
  moreover have "linked (runtimeOf (mgrRegistry running_manager)) (map_of (mgrActive running_manager))
      (map_of (mgrOutputs running_manager)) (mgrHeap running_manager)"
    unfolding linked_def running_manager_runtime
    by (auto simp: running_manager_def sample_process_def idle_def owned_def)
  ultimately show ?thesis by (simp add: lifecycle_inv_def) (simp add: running_manager_def)
qed

theorem exit_result_witness:
  "mDone (mgrHeap (observeLocked sample_save running_manager 0 \<lparr>exitCode = 0, exitErr = False\<rparr> 5) ! 0)"
  using exit_result [OF running_inv, of 0 sample_save "\<lparr>exitCode = 0, exitErr = False\<rparr>" 5]
  by (simp add: running_manager_def Let_def) blast

section \<open>The registry operations\<close>

lemma view_of_regProject: "regProject r' = regProject r \<Longrightarrow> view r' = view r"
  by (simp add: view_def regProcess_def)

lemma AddProject_view:
  assumes "lifecycle_inv m"
  shows "case AddProject save stat m d of
      (m', Inl e) \<Rightarrow> view (mgrRegistry m') = view (mgrRegistry m)
    | (m', Inr d') \<Rightarrow> d' = d \<and> fst (view (mgrRegistry m)) (pdID d) = None \<and>
        view (mgrRegistry m') = ((fst (view (mgrRegistry m)))(pdID d := Some d), snd (view (mgrRegistry m)))"
proof (cases "AddProject save stat m d")
  case (Pair m' res)
  with AddProject_cases [OF assms Pair] view_of_regProject [of "mgrRegistry m'" "mgrRegistry m"] show ?thesis
    by (cases res) (auto simp: view_def regProcess_def fun_eq_iff)
qed

lemma RemoveProject_view:
  assumes "lifecycle_inv m"
  shows "case RemoveProject save m p of
      (m', Some e) \<Rightarrow> view (mgrRegistry m') = view (mgrRegistry m)
    | (m', None) \<Rightarrow> fst (view (mgrRegistry m)) p \<noteq> None \<and> (\<forall>q. snd (view (mgrRegistry m)) (ProcessKey p q) = None) \<and>
        view (mgrRegistry m') = ((fst (view (mgrRegistry m)))(p := None), snd (view (mgrRegistry m)))"
proof (cases "RemoveProject save m p")
  case (Pair m' e)
  with RemoveProject_cases [OF assms Pair] view_of_regProject [of "mgrRegistry m'" "mgrRegistry m"] show ?thesis
    by (cases e) (auto simp: view_def regProcess_def fun_eq_iff)
qed

lemma AddProcess_view:
  assumes "lifecycle_inv m"
  shows "case AddProcess save stat m pd of
      (m', Inl e) \<Rightarrow> view (mgrRegistry m') = view (mgrRegistry m)
    | (m', Inr d') \<Rightarrow> d' = pd\<lparr>dEnvironmentOverrides := None\<rparr> \<and>
        snd (view (mgrRegistry m)) (ProcessKey (dProjectID pd) (dID pd)) = None \<and>
        view (mgrRegistry m') = (fst (view (mgrRegistry m)), (snd (view (mgrRegistry m)))
          (ProcessKey (dProjectID pd) (dID pd) := Some \<lparr>procDefinition = pd, procRuntime = None\<rparr>))"
proof (cases "AddProcess save stat m pd")
  case (Pair m' res)
  from AddProcess_cases [OF assms Pair] Pair show ?thesis by (simp split: sum.splits)
qed

lemma RemoveProcess_view:
  assumes "lifecycle_inv m"
  shows "case RemoveProcess save m key of
      (m', Some e) \<Rightarrow> view (mgrRegistry m') = view (mgrRegistry m)
    | (m', None) \<Rightarrow> snd (view (mgrRegistry m)) key \<noteq> None \<and> idle (runtimeOf (mgrRegistry m) key) \<and>
        view (mgrRegistry m') = (fst (view (mgrRegistry m)), (snd (view (mgrRegistry m)))(key := None))"
proof (cases "RemoveProcess save m key")
  case (Pair m' e)
  from RemoveProcess_cases [OF assms Pair] Pair show ?thesis by (simp split: option.splits)
qed

text \<open>C4: The registry operations refine updates of two maps, from project IDs to definitions and
  from processes to records.  An operation that reports an error, at whatever point, leaves both
  maps as they were (what was changed before a failing save is undone); a project is only added
  under a new ID and without processes, and only removed without processes; a process is only
  added under a new ID in an existing project, without a runtime, and only removed while inactive.\<close>

theorem registry_operations_refine:
  assumes "lifecycle_inv m"
  shows "(case AddProject save stat m d of
      (m', Inl e) \<Rightarrow> view (mgrRegistry m') = view (mgrRegistry m)
    | (m', Inr d') \<Rightarrow> d' = d \<and> fst (view (mgrRegistry m)) (pdID d) = None \<and>
        view (mgrRegistry m') = ((fst (view (mgrRegistry m)))(pdID d := Some d), snd (view (mgrRegistry m))))
  \<and> (case RemoveProject save m p of
      (m', Some e) \<Rightarrow> view (mgrRegistry m') = view (mgrRegistry m)
    | (m', None) \<Rightarrow> fst (view (mgrRegistry m)) p \<noteq> None \<and> (\<forall>q. snd (view (mgrRegistry m)) (ProcessKey p q) = None) \<and>
        view (mgrRegistry m') = ((fst (view (mgrRegistry m)))(p := None), snd (view (mgrRegistry m))))
  \<and> (case AddProcess save stat m pd of
      (m', Inl e) \<Rightarrow> view (mgrRegistry m') = view (mgrRegistry m)
    | (m', Inr d') \<Rightarrow> d' = pd\<lparr>dEnvironmentOverrides := None\<rparr> \<and>
        snd (view (mgrRegistry m)) (ProcessKey (dProjectID pd) (dID pd)) = None \<and>
        view (mgrRegistry m') = (fst (view (mgrRegistry m)), (snd (view (mgrRegistry m)))
          (ProcessKey (dProjectID pd) (dID pd) := Some \<lparr>procDefinition = pd, procRuntime = None\<rparr>)))
  \<and> (case RemoveProcess save m key of
      (m', Some e) \<Rightarrow> view (mgrRegistry m') = view (mgrRegistry m)
    | (m', None) \<Rightarrow> snd (view (mgrRegistry m)) key \<noteq> None \<and> idle (runtimeOf (mgrRegistry m) key) \<and>
        view (mgrRegistry m') = (fst (view (mgrRegistry m)), (snd (view (mgrRegistry m)))(key := None)))"
  by (intro conjI AddProject_view [OF assms] RemoveProject_view [OF assms] AddProcess_view [OF assms] RemoveProcess_view [OF assms])

theorem registry_operations_refine_witness:
  "case RemoveProject sample_save sample_manager ''p'' of
      (m', Some e) \<Rightarrow> view (mgrRegistry m') = view (mgrRegistry sample_manager)
    | (m', None) \<Rightarrow> fst (view (mgrRegistry sample_manager)) ''p'' \<noteq> None \<and>
        (\<forall>q. snd (view (mgrRegistry sample_manager)) (ProcessKey ''p'' q) = None) \<and>
        view (mgrRegistry m') = ((fst (view (mgrRegistry sample_manager)))(''p'' := None), snd (view (mgrRegistry sample_manager)))"
  by (rule conjunct1 [OF conjunct2 [OF registry_operations_refine [OF sample_inv]]])

section \<open>What is on disk after a success\<close>

text \<open>\<open>synced stored m\<close>: a daemon started now would find the registry that \<open>m\<close> has in memory.\<close>

definition synced :: "('w \<Rightarrow> registry option) \<Rightarrow> ('w, 'e) manager \<Rightarrow> bool" where
  "synced stored m \<longleftrightarrow> stored (mgrWorld m) = Some (canonical (mgrRegistry m))"

context persister
begin

lemma saveRegistry_synced:
  assumes "saveRegistry save m = (m', None)" and "ready (mgrWorld m)" and "storable (mgrRegistry m')"
  shows "synced stored m'"
  using assms save_ok by (auto simp: synced_def saveRegistry_def split: prod.splits)

lemma saveRegistry_ready: "saveRegistry save m = (m', e) \<Longrightarrow> ready (mgrWorld m) \<Longrightarrow> ready (mgrWorld m')"
  using ready_save by (auto simp: saveRegistry_def split: prod.splits)

lemma AddProject_synced:
  assumes "AddProject save stat m d = (m', Inr d')" and "ready (mgrWorld m)" and "storable (mgrRegistry m')"
  shows "synced stored m'"
  using assms by (auto simp: AddProject_def Let_def setProjects_def
      split: if_splits prod.splits option.splits intro!: saveRegistry_synced)

lemma RemoveProject_synced:
  assumes "RemoveProject save m p = (m', None)" and "ready (mgrWorld m)" and "storable (mgrRegistry m')"
  shows "synced stored m'"
  using assms by (auto simp: RemoveProject_def setProjects_def
      split: if_splits prod.splits option.splits intro!: saveRegistry_synced)

lemma AddProcess_synced:
  assumes "AddProcess save stat m d = (m', Inr d')" and "ready (mgrWorld m)" and "storable (mgrRegistry m')"
  shows "synced stored m'"
  using assms by (auto simp: AddProcess_def Let_def
      split: if_splits prod.splits option.splits intro!: saveRegistry_synced)

lemma RemoveProcess_synced:
  assumes "RemoveProcess save m key = (m', None)" and "ready (mgrWorld m)" and "storable (mgrRegistry m')"
  shows "synced stored m'"
proof -
  obtain m1 m2 where "saveRegistry save m1 = (m2, None)" "mgrWorld m1 = mgrWorld m"
    "mgrWorld m' = mgrWorld m2" "mgrRegistry m' = mgrRegistry m2"
    using assms(1) by (auto simp: RemoveProcess_def split: sum.splits if_splits prod.splits option.splits)
  moreover from this have "mgrRegistry m1 = mgrRegistry m2" using saveRegistry_frame(1) by metis
  ultimately show ?thesis
    using saveRegistry_synced [of m1 m2] assms(2,3) by (simp add: synced_def)
qed

lemma stopBegin_synced:
  assumes "stopBegin save m key = (m', StopWait h True)" and "ready (mgrWorld m)" and "storable (mgrRegistry m')"
  shows "synced stored m'"
  using assms by (auto simp: stopBegin_def assignRuntime_def
      split: sum.splits if_splits prod.splits option.splits intro!: saveRegistry_synced)

lemma startSpawned_synced:
  assumes "startSpawned save m key r b pid t1 t2 = (m', r', None)" and "ready (mgrWorld m)" and "storable (mgrRegistry m')"
  shows "synced stored m'"
proof -
  obtain m1 m2 where "saveRegistry save m1 = (m2, None)" "mgrWorld m1 = mgrWorld m"
    "mgrWorld m' = mgrWorld m2" "mgrRegistry m' = mgrRegistry m2"
    using assms(1) by (auto simp: startSpawned_def Let_def assignRuntime_def
        split: sum.splits prod.splits option.splits)
  moreover from this have "mgrRegistry m1 = mgrRegistry m2" using saveRegistry_frame(1) by metis
  ultimately show ?thesis
    using saveRegistry_synced [of m1 m2] assms(2,3) by (simp add: synced_def)
qed

lemma Start_synced:
  assumes "Start save m key newID environ spawn t1 t2 = (m', r', None)" and "m' = m \<or> storable (mgrRegistry m')"
    and "ready (mgrWorld m)" and "0 < outputByteLimit m" "0 < outputEventLimit m"
  shows "m' = m \<or> synced stored m'"
proof (cases "findProcess (mgrRegistry m) key :: 'e lifecycle_error + _")
  case (Inl x)
  then show ?thesis using assms(1) by (simp add: Start_def)
next
  case (Inr pp)
  obtain project process where pp: "pp = (project, process)" by fastforce
  consider "startNew save m key project process newID environ spawn t1 t2 = (m', r', None)" | "m' = m"
    using assms(1) Inr pp by (auto simp: Start_def split: option.splits if_splits)
  then show ?thesis
  proof cases
    case 1
    then obtain i where i: "newID = Some i" by (auto simp: startNew_def split: option.splits)
    let ?r = "NewProcessRuntime (keyProject key) (keyProcess key) i"
    obtain m1 where s: "saveRegistry save (assignRuntime m key (Some ?r)) = (m1, None)"
      using 1 i by (auto simp: startNew_def Let_def split: prod.splits option.splits)
    have ready: "ready (mgrWorld m1)"
      using saveRegistry_ready [OF s] assms(3) by (simp add: assignRuntime_def)
    have "0 < outputByteLimit m1" "0 < outputEventLimit m1"
      using assms(4,5) by (simp_all add: saveRegistry_frame [OF s] assignRuntime_def)
    then obtain ob where buf: "NewOutputBuffer (outputByteLimit m1) (outputEventLimit m1) = Return ob"
      by (simp add: NewOutputBuffer_def)
    then obtain pid es where "startSpawned save (logEffects m1 es) key ?r ob pid t1 t2 = (m', r', None)"
      using 1 i s by (auto simp: startNew_def Let_def split: sum.splits prod.splits)
    from startSpawned_synced [OF this] ready assms(2) show ?thesis by auto
  qed simp
qed

end

text \<open>C3: Durability with the file store.  After a successful \<open>AddProject\<close>, \<open>RemoveProject\<close>,
  \<open>AddProcess\<close>, \<open>RemoveProcess\<close>, request to stop, or \<open>Start\<close> of a process (that did anything), a
  load of the registry file returns the registry the manager has in memory.\<close>

theorem operations_durable:
  fixes m m' :: "(store_world, store_error) manager"
  assumes "disk_ok (worldDisk (mgrWorld m))" and "0 < outputByteLimit m" and "0 < outputEventLimit m"
    and "storable marshal unmarshal path (mgrRegistry m')"
    and "AddProject (fileSave marshal path) stat m d = (m', Inr d')
      \<or> RemoveProject (fileSave marshal path) m p = (m', None)
      \<or> AddProcess (fileSave marshal path) stat m pd = (m', Inr pd')
      \<or> RemoveProcess (fileSave marshal path) m key = (m', None)
      \<or> stopBegin (fileSave marshal path) m key = (m', StopWait h True)
      \<or> (Start (fileSave marshal path) m key newID environ spawn t1 t2 = (m', r, None) \<and> m' \<noteq> m)"
  shows "Load unmarshal NoFault path (worldDisk (mgrWorld m')) = Inr (canonical (mgrRegistry m'))"
proof -
  let ?stored = "\<lambda>w. fileStored unmarshal path (worldDisk w)"
  have "synced ?stored m'"
    using assms(5)
  proof (elim disjE conjE)
    assume "Start (fileSave marshal path) m key newID environ spawn t1 t2 = (m', r, None)" and "m' \<noteq> m"
    then show ?thesis
      using file_store.Start_synced [where marshal = marshal and path = path and unmarshal = unmarshal] assms(1-4) by blast
  qed (use assms in \<open>blast intro: file_store.AddProject_synced file_store.RemoveProject_synced
        file_store.AddProcess_synced file_store.RemoveProcess_synced file_store.stopBegin_synced\<close>)+
  then show ?thesis by (simp add: synced_def fileStored_def split: sum.splits)
qed

definition one_project :: registry where
  "one_project = \<lparr>regProjects = [(''p'', Some \<lparr>projDefinition = \<lparr>pdID = ''p'', pdRootDirectory = ''/w''\<rparr>,
     projProcesses = []\<rparr>)]\<rparr>"

definition store_manager :: "(store_world, store_error) manager" where
  "store_manager = \<lparr>mgrRegistry = NewRegistry, mgrWorld = \<lparr>worldDisk = empty_disk, worldSchedule = []\<rparr>,
     mgrActive = [], mgrOutputs = [], mgrHeap = [], mgrTrace = [], outputByteLimit = 4, outputEventLimit = 2\<rparr>"

lemma one_project_valid: "registry_wf one_project" "registry_valid one_project"
  by (simp_all add: one_project_def registry_wf_def registry_valid_def map_wf_def validateRegisteredProject_def
      regProject_def map_ptr_def isAbs_def hasPrefix_def processes_valid_def)

theorem operations_durable_witness:
  "\<exists>m'. AddProject (fileSave (sample_marshal one_project) ''/s/registry.json'') (\<lambda>p. IsDirectory) store_manager
      \<lparr>pdID = ''p'', pdRootDirectory = ''/w''\<rparr> = (m', Inr \<lparr>pdID = ''p'', pdRootDirectory = ''/w''\<rparr>) \<and>
    Load (sample_unmarshal one_project) NoFault ''/s/registry.json'' (worldDisk (mgrWorld m')) = Inr (canonical one_project)"
proof -
  let ?save = "fileSave (sample_marshal one_project) ''/s/registry.json''"
  let ?d = "\<lparr>pdID = ''p'', pdRootDirectory = ''/w''\<rparr>"
  let ?m = "store_manager\<lparr>mgrRegistry := one_project\<rparr>"
  obtain document where doc: "registryToDocument (Some one_project) = Inr document"
    using registryToDocument_valid [OF one_project_valid(1)] one_project_valid(2) by blast
  have "snd (Save (sample_marshal one_project) NoFault [] ''/s/registry.json'' empty_disk (Some one_project)) = None"
    using doc by (simp add: Save_def sample_path sample_marshal_def writeFileAtomically_fault_free empty_disk_def)
  then have "snd (saveRegistry ?save ?m) = None"
    by (simp add: saveRegistry_def fileSave_def store_manager_def Let_def case_prod_unfold)
  then obtain m' where s: "saveRegistry ?save ?m = (m', None)" by (cases "saveRegistry ?save ?m") simp
  have reg: "mgrRegistry m' = one_project" using saveRegistry_frame(1) [OF s] by simp
  have run: "AddProject ?save (\<lambda>p. IsDirectory) store_manager ?d = (m', Inr ?d)"
    using s by (simp add: AddProject_def setProjects_def store_manager_def NewRegistry_def one_project_def map_put_def
        isAbs_def hasPrefix_def regProject_def map_ptr_def)
  have "Load (sample_unmarshal one_project) NoFault ''/s/registry.json'' (worldDisk (mgrWorld m')) = Inr (canonical (mgrRegistry m'))"
    by (rule operations_durable [of store_manager "sample_marshal one_project", OF _ _ _ _ disjI1 [OF run]])
      (simp_all add: store_manager_def empty_disk_ok reg sample_storable one_project_valid)
  with run reg show ?thesis by auto
qed

section \<open>Lists and identifiers\<close>

lemma map_values:
  assumes "map_wf m" and "\<not> list_ex (\<lambda>(k, v). v = None) m"
  shows "(\<lambda>(k, v). f (the v)) ` set m = {f v | k v. map_ptr m k = Some v}" (is "?l = ?r")
proof
  show "?l \<subseteq> ?r"
  proof
    fix x assume "x \<in> ?l"
    then obtain k v where "(k, v) \<in> set m" "x = f (the v)" by auto
    moreover from this obtain w where "v = Some w" using assms(2) by (cases v) (auto simp: list_ex_iff)
    ultimately show "x \<in> ?r" using map_ptr_eq [OF assms(1)] by auto
  qed
  show "?r \<subseteq> ?l"
    using map_ptr_in_set by (force simp: image_iff)
qed

text \<open>The lists handed out: in a reachable state neither panics, the projects are exactly the
  registered definitions, the processes of a project exactly its definitions, both ordered by ID,
  and no process definition carries the values of environment overrides.\<close>

theorem lists_result:
  assumes "lifecycle_inv m" and "regProject (mgrRegistry m) p = Some project"
  shows "(\<exists>ds. ListProjects m = Return ds \<and> sorted (map pdID ds) \<and>
      set ds = {d. \<exists>i. fst (view (mgrRegistry m)) i = Some d}) \<and>
    (\<exists>ds. ListProcesses m p = (Return ds :: ('b lifecycle_error, process_definition list) outcome) \<and> sorted (map dID ds) \<and>
      set ds = {publicProcessDefinition (procDefinition process) | q process.
        snd (view (mgrRegistry m)) (ProcessKey p q) = Some process} \<and>
      (\<forall>d\<in>set ds. dEnvironmentOverrides d = None))"
proof -
  have rl: "registry_loaded (mgrRegistry m)" using assms(1) by (simp add: lifecycle_inv_def)
  then have wf: "map_wf (regProjects (mgrRegistry m))"
    and nn: "\<not> list_ex (\<lambda>(k, v). v = None) (regProjects (mgrRegistry m))"
    by (auto simp: registry_loaded_ok project_ok_def list_ex_iff)
  have "(\<lambda>(k, v). projDefinition (the v)) ` set (regProjects (mgrRegistry m)) = {d. \<exists>i. fst (view (mgrRegistry m)) i = Some d}"
    unfolding map_values [OF wf nn] by (auto simp: view_def regProject_def)
  then have projects: "\<exists>ds. ListProjects m = Return ds \<and> sorted (map pdID ds) \<and>
      set ds = {d. \<exists>i. fst (view (mgrRegistry m)) i = Some d}"
    using nn by (simp add: ListProjects_def)
  have ok: "procs_ok (projProcesses project)" by (rule loaded_procs [OF rl assms(2)])
  then have nn2: "\<not> list_ex (\<lambda>(k, v). v = None) (projProcesses project)"
    by (auto simp: procs_ok_def process_ok_def list_ex_iff)
  have wf2: "map_wf (projProcesses project)" using ok by (simp add: procs_ok_def)
  have procs: "(\<lambda>(k, v). publicProcessDefinition (procDefinition (the v))) ` set (projProcesses project)
      = {publicProcessDefinition (procDefinition process) | q process.
          snd (view (mgrRegistry m)) (ProcessKey p q) = Some process}"
    using map_values [OF wf2 nn2, of "\<lambda>pr. publicProcessDefinition (procDefinition pr)"] assms(2)
    by (simp add: view_def regProcess_def)
  then have "\<exists>ds. ListProcesses m p = (Return ds :: ('b lifecycle_error, process_definition list) outcome) \<and> sorted (map dID ds) \<and>
      set ds = {publicProcessDefinition (procDefinition process) | q process.
        snd (view (mgrRegistry m)) (ProcessKey p q) = Some process} \<and>
      (\<forall>d\<in>set ds. dEnvironmentOverrides d = None)"
    using assms(2) nn2 by (simp add: ListProcesses_def flip: procs) (auto simp: publicProcessDefinition_def)
  with projects show ?thesis by blast
qed

theorem lists_result_witness:
  "\<exists>ds. ListProcesses sample_manager ''p'' = (Return ds :: (unit lifecycle_error, process_definition list) outcome) \<and>
    (\<forall>d\<in>set ds. dEnvironmentOverrides d = None)"
proof -
  have "regProject (mgrRegistry sample_manager) ''p'' = Some \<lparr>projDefinition = \<lparr>pdID = ''p'', pdRootDirectory = ''/w''\<rparr>,
      projProcesses = [(''q'', Some (sample_process\<lparr>procRuntime := None\<rparr>))]\<rparr>"
    by (simp add: sample_manager_def idle_registry_def regProject_def map_ptr_def)
  from lists_result [OF sample_inv this] show ?thesis by blast
qed

lemma unat_high_nibble: "unat w div 16 = unat (drop_bit 4 w)" for w :: "8 word"
  by (simp add: drop_bit_eq_div unat_div)

lemma uuid_version: "unat ((b AND 0x0f) OR (0x40 :: 8 word)) div 16 = 4"
proof -
  have "drop_bit 4 ((b AND 0x0f) OR (0x40 :: 8 word)) = 4"
    by (rule bit_word_eqI) (auto simp: bit_simps)
  then show ?thesis by (simp add: unat_high_nibble)
qed

lemma uuid_variant: "unat ((b AND 0x3f) OR (0x80 :: 8 word)) div 16 \<in> {8, 9, 10, 11}"
proof -
  have eq: "drop_bit 4 ((b AND 0x3f) OR (0x80 :: 8 word)) = take_bit 2 (drop_bit 4 b) OR 8"
  proof (rule bit_word_eqI)
    fix n assume "n < LENGTH(8)"
    then have "n \<in> {0, 1, 2, 3, 4, 5, 6, 7}" by auto
    then show "bit (drop_bit 4 ((b AND 0x3f) OR (0x80 :: 8 word))) n = bit (take_bit 2 (drop_bit 4 b) OR 8) n"
      by (elim insertE emptyE) (simp_all add: bit_simps)
  qed
  define t where "t = take_bit 2 (drop_bit 4 b)"
  have "t = drop_bit 4 b mod 4" by (simp add: t_def take_bit_eq_mod)
  then have "unat t < 4" by (simp add: unat_mod)
  then have "unat t = unat (0 :: 8 word) \<or> unat t = unat (1 :: 8 word) \<or> unat t = unat (2 :: 8 word) \<or> unat t = unat (3 :: 8 word)"
    by simp linarith
  then have "t \<in> {0, 1, 2, 3}" by (auto simp only: word_unat_eq_iff)
  then show ?thesis unfolding unat_high_nibble eq t_def [symmetric] by auto
qed

text \<open>Instance IDs are UUIDs of version 4: 36 characters, hexadecimal digits except for dashes
  at positions 8, 13, 18 and 23, version digit 4, variant digit 8, 9, a or b; and equal IDs come from
  random bytes that agree in every bit that is not fixed.\<close>

theorem instance_id_format:
  assumes "length bytes = 16" and "randomRuntimeInstanceID (Some bytes) = Some s"
  shows "length s = 36 \<and> (\<forall>i\<in>{8, 13, 18, 23}. s ! i = CHR ''-'') \<and> s ! 14 = CHR ''4'' \<and> s ! 19 \<in> set ''89ab'' \<and>
    (\<forall>bytes'. length bytes' = 16 \<longrightarrow> randomRuntimeInstanceID (Some bytes') = Some s \<longrightarrow> markUUID bytes' = markUUID bytes)"
proof -
  define parts where "parts v = (hexBytes (take 4 v), hexBytes (take 2 (drop 4 v)), hexBytes (take 2 (drop 6 v)),
    hexBytes (take 2 (drop 8 v)), hexBytes (take 6 (drop 10 v)))" for v :: "8 word list"
  let ?v = "markUUID bytes"
  have len: "length (markUUID b) = length b" for b by (simp add: markUUID_def)
  have s: "s = hexBytes (take 4 ?v) @ ''-'' @ hexBytes (take 2 (drop 4 ?v)) @ ''-'' @ hexBytes (take 2 (drop 6 ?v))
      @ ''-'' @ hexBytes (take 2 (drop 8 ?v)) @ ''-'' @ hexBytes (take 6 (drop 10 ?v))"
    using assms(2) by (simp add: randomRuntimeInstanceID_def Let_def)
  have ls: "length s = 36" using assms(1) by (simp add: s len)
  have dashes: "\<forall>i\<in>{8, 13, 18, 23}. s ! i = CHR ''-''"
    using assms(1) by (simp add: s len nth_append)
  have b6: "take 2 (drop 6 ?v) = [?v ! 6, ?v ! 7]" and b8: "take 2 (drop 8 ?v) = [?v ! 8, ?v ! 9]"
    using assms(1) len by (simp_all add: take_Suc_conv_app_nth numeral_2_eq_2 Cons_nth_drop_Suc [symmetric])
  have v: "?v ! 6 = (bytes ! 6 AND 0x0f) OR 0x40" "?v ! 8 = (bytes ! 8 AND 0x3f) OR 0x80"
    using assms(1) by (simp_all add: markUUID_def)
  have "s ! 14 = hexDigit (unat (?v ! 6) div 16)"
    using assms(1) by (simp add: s len nth_append b6 hexBytes_two)
  then have version: "s ! 14 = CHR ''4''" unfolding v uuid_version by (simp add: hexDigit_def)
  have "s ! 19 = hexDigit (unat (?v ! 8) div 16)"
    using assms(1) by (simp add: s len nth_append b6 b8 hexBytes_two)
  then have variant: "s ! 19 \<in> set ''89ab''"
    unfolding v using uuid_variant [of "bytes ! 8"] by (auto simp: hexDigit_def)
  have "markUUID bytes' = ?v" if l: "length bytes' = 16" and r: "randomRuntimeInstanceID (Some bytes') = Some s" for bytes'
  proof -
    let ?w = "markUUID bytes'"
    have "s = hexBytes (take 4 ?w) @ ''-'' @ hexBytes (take 2 (drop 4 ?w)) @ ''-'' @ hexBytes (take 2 (drop 6 ?w))
        @ ''-'' @ hexBytes (take 2 (drop 8 ?w)) @ ''-'' @ hexBytes (take 6 (drop 10 ?w))"
      using r by (simp add: randomRuntimeInstanceID_def Let_def)
    then have "parts ?w = parts ?v"
      unfolding s parts_def using assms(1) l len by (simp add: append_eq_append_conv)
    then have eq: "take 4 ?w = take 4 ?v" "take 2 (drop 4 ?w) = take 2 (drop 4 ?v)" "take 2 (drop 6 ?w) = take 2 (drop 6 ?v)"
      "take 2 (drop 8 ?w) = take 2 (drop 8 ?v)" "take 6 (drop 10 ?w) = take 6 (drop 10 ?v)"
      by (auto simp: parts_def dest: hexBytes_inj)
    have split: "x = take 4 x @ take 2 (drop 4 x) @ take 2 (drop 6 x) @ take 2 (drop 8 x) @ take 6 (drop 10 x)"
      if "length x = 16" for x :: "8 word list"
    proof -
      have "drop n x = take k (drop n x) @ drop (n + k) x" for n k
        by (metis append_take_drop_id drop_drop add.commute)
      from this [of 4 2] this [of 6 2] this [of 8 2] append_take_drop_id [of 4 x] that show ?thesis by simp
    qed
    show ?thesis
      using split [of ?w] split [of ?v] eq l assms(1) len by metis
  qed
  then show ?thesis using ls dashes version variant by blast
qed

theorem instance_id_format_witness:
  "\<exists>s. randomRuntimeInstanceID (Some (replicate 16 0xff)) = Some s \<and> length s = 36 \<and> s ! 14 = CHR ''4''"
proof -
  obtain s where s: "randomRuntimeInstanceID (Some (replicate 16 0xff)) = Some s"
    by (simp add: randomRuntimeInstanceID_def Let_def)
  from instance_id_format [OF _ s] s show ?thesis by simp
qed

end
