(* ===== verification/IdentityModel.thy ===== *)
theory IdentityModel
  imports Paths
begin

text \<open>
  Personas, policies, projects and the identity state of \<open>internal/identity/model.go\<close> with their
  validation and lookups, on Linux (where \<open>pathKey\<close> only cleans).  \<open>mail.ParseAddress\<close> is an
  argument: the address it finds in a string, if any.
\<close>

section \<open>Character classes\<close>

definition charCode :: "char \<Rightarrow> nat" where
  "charCode c = of_char c"

definition digit :: "char \<Rightarrow> bool" where
  "digit c \<longleftrightarrow> 48 \<le> charCode c \<and> charCode c \<le> 57"

definition alnum :: "char \<Rightarrow> bool" where
  "alnum c \<longleftrightarrow> digit c \<or> (65 \<le> charCode c \<and> charCode c \<le> 90) \<or> (97 \<le> charCode c \<and> charCode c \<le> 122)"

text \<open>\<open>^[a-zA-Z0-9][a-zA-Z0-9_.-]{0,99}$\<close> and \<open>^[a-zA-Z0-9][a-zA-Z0-9.-]*[a-zA-Z0-9]$\<close>.\<close>

definition isIdentifier :: "string \<Rightarrow> bool" where
  "isIdentifier s \<longleftrightarrow> (case s of [] \<Rightarrow> False | c # cs \<Rightarrow> alnum c \<and> length cs \<le> 99 \<and>
     list_all (\<lambda>c. alnum c \<or> List.member ''_.-'' c) cs)"

definition hostName :: "string \<Rightarrow> bool" where
  "hostName s \<longleftrightarrow> 2 \<le> length s \<and> alnum (hd s) \<and> alnum (last s) \<and> list_all (\<lambda>c. alnum c \<or> List.member ''.-'' c) s"

section \<open>Policies\<close>

record persona =
  peID :: string
  peName :: string
  peGitName :: string
  peGitEmail :: string
  peHost :: string
  peAccount :: string

record policy =
  polPreset :: string
  polExceptions :: "(string, bool) gomap"

definition RepositoryOperations :: "string list" where
  "RepositoryOperations = [''read'', ''comment'', ''create'', ''edit'', ''close'', ''review'', ''merge'', ''actions'']"

definition Permissions :: "string list" where
  "Permissions = RepositoryOperations @ [''persona'']"

definition Allows :: "policy \<Rightarrow> string \<Rightarrow> bool" where
  "Allows p operation =
     (if \<not> List.member Permissions operation then False
      else case map_of (polExceptions p) operation of
             Some allow \<Rightarrow> allow
           | None \<Rightarrow>
               if polPreset p = ''read-only'' then operation = ''read''
               else if polPreset p = ''collaborate''
               then List.member [''read'', ''comment'', ''create'', ''edit'', ''close'', ''review''] operation
               else if polPreset p = ''maintain'' then operation \<noteq> ''persona''
               else False)"

section \<open>Projects and state\<close>

record project =
  prID :: string
  prName :: string
  prDescription :: string
  prRoot :: string
  prRepository :: string
  prPersona :: string
  prAlternatives :: "string list"
  prMode :: string
  prPolicy :: policy
  prProxyEnabled :: bool

record identity_state =
  stVersion :: int
  stGHPath :: string
  stPersonas :: "persona list"
  stProjects :: "project list"

datatype identity_error =
  InvalidPersonaID | PersonaNameRequired | InvalidGitEmail
| UnsupportedStateVersion | GHPathNotAbsolute | DuplicatePersonaID
| InvalidProjectID | InvalidProjectText | RootNotClean | DuplicateRoot | InvalidRepository
| UnknownPersona | UnknownAlternative | AlternativeHost | UnknownMode | UnknownPreset | UnknownOperation
| PersonaNotConfigured | ProjectRequired

definition plainText :: "string \<Rightarrow> nat \<Rightarrow> bool" where
  "plainText value limit \<longleftrightarrow> trimSpace value \<noteq> [] \<and> length value \<le> limit \<and>
     \<not> containsAny value [CHR 0x00, CHR 0x0D, CHR 0x0A, CHR 0x1B]"

definition validatePersona :: "(string \<Rightarrow> string option) \<Rightarrow> persona \<Rightarrow> identity_error option" where
  "validatePersona parseAddress p =
     (if \<not> isIdentifier (peID p) \<or> \<not> isIdentifier (peAccount p) \<or> \<not> hostName (peHost p) \<or> contains (peHost p) ''..''
      then Some InvalidPersonaID
      else if \<not> plainText (peName p) 120 \<or> \<not> plainText (peGitName p) 120 then Some PersonaNameRequired
      else if parseAddress (peGitEmail p) \<noteq> Some (peGitEmail p) then Some InvalidGitEmail
      else None)"

definition pathKey :: "string \<Rightarrow> string" where
  "pathKey path = clean path"

fun findPersonaIn :: "persona list \<Rightarrow> string \<Rightarrow> persona option" where
  "findPersonaIn [] i = None"
| "findPersonaIn (p # ps) i = (if peID p = i then Some p else findPersonaIn ps i)"

definition FindPersona :: "identity_state \<Rightarrow> string \<Rightarrow> identity_error + persona" where
  "FindPersona s i = (case findPersonaIn (stPersonas s) i of None \<Rightarrow> Inl PersonaNotConfigured | Some p \<Rightarrow> Inr p)"

fun findProjectIn :: "project list \<Rightarrow> string \<Rightarrow> string \<Rightarrow> project option" where
  "findProjectIn [] i root = None"
| "findProjectIn (p # ps) i root =
     (if i \<noteq> [] \<and> prID p = i then Some p
      else if i = [] \<and> root \<noteq> [] \<and> pathKey root = pathKey (prRoot p) then Some p
      else findProjectIn ps i root)"

definition FindProject :: "identity_state \<Rightarrow> string \<Rightarrow> string \<Rightarrow> identity_error + project" where
  "FindProject s i root = (case findProjectIn (stProjects s) i root of None \<Rightarrow> Inl ProjectRequired | Some p \<Rightarrow> Inr p)"

section \<open>Validation\<close>

text \<open>The loops of \<open>State.Validate\<close>, with the sets they have collected so far.\<close>

fun validatePersonas :: "(string \<Rightarrow> string option) \<Rightarrow> persona list \<Rightarrow> string list \<Rightarrow> identity_error + string list" where
  "validatePersonas parseAddress [] ids = Inr ids"
| "validatePersonas parseAddress (p # ps) ids =
     (case validatePersona parseAddress p of
        Some e \<Rightarrow> Inl e
      | None \<Rightarrow> if List.member ids (peID p) then Inl DuplicatePersonaID
                else validatePersonas parseAddress ps (peID p # ids))"

fun validateAlternatives :: "persona list \<Rightarrow> string list \<Rightarrow> string \<Rightarrow> string list \<Rightarrow> identity_error option" where
  "validateAlternatives personas ids primary [] = None"
| "validateAlternatives personas ids primary (a # as) =
     (if \<not> List.member ids a then Some UnknownAlternative
      else if \<not> equalFold (case findPersonaIn personas primary of None \<Rightarrow> [] | Some p \<Rightarrow> peHost p)
                  (case findPersonaIn personas a of None \<Rightarrow> [] | Some p \<Rightarrow> peHost p)
      then Some AlternativeHost
      else validateAlternatives personas ids primary as)"

definition repositoryName :: "string \<Rightarrow> bool" where
  "repositoryName s \<longleftrightarrow> (case splitAt CHR ''/'' s of [owner, name] \<Rightarrow> isIdentifier owner \<and> isIdentifier name | _ \<Rightarrow> False)"

definition validateProject :: "persona list \<Rightarrow> string list \<Rightarrow> string list \<Rightarrow> string list \<Rightarrow> project \<Rightarrow> identity_error option" where
  "validateProject personas ids projects roots p =
     (if \<not> isIdentifier (prID p) \<or> List.member projects (prID p) then Some InvalidProjectID
      else if \<not> plainText (prName p) 120 \<or> 4096 < length (prDescription p) \<or>
          containsAny (prDescription p) [CHR 0x00, CHR 0x1B] then Some InvalidProjectText
      else if \<not> isAbs (prRoot p) \<or> clean (prRoot p) \<noteq> prRoot p then Some RootNotClean
      else if List.member roots (pathKey (prRoot p)) then Some DuplicateRoot
      else if \<not> repositoryName (prRepository p) then Some InvalidRepository
      else if \<not> List.member ids (prPersona p) then Some UnknownPersona
      else case validateAlternatives personas ids (prPersona p) (prAlternatives p) of
             Some e \<Rightarrow> Some e
           | None \<Rightarrow>
               if prMode p \<noteq> ''proxy-level'' \<and> prMode p \<noteq> ''agent-isolation'' then Some UnknownMode
               else if \<not> List.member [''read-only'', ''collaborate'', ''maintain''] (polPreset (prPolicy p)) then Some UnknownPreset
               else if list_ex (\<lambda>(operation, allow). \<not> List.member Permissions operation) (polExceptions (prPolicy p))
               then Some UnknownOperation
               else None)"

fun validateProjects :: "persona list \<Rightarrow> string list \<Rightarrow> project list \<Rightarrow> string list \<Rightarrow> string list \<Rightarrow> identity_error option" where
  "validateProjects personas ids [] projects roots = None"
| "validateProjects personas ids (p # ps) projects roots =
     (case validateProject personas ids projects roots p of
        Some e \<Rightarrow> Some e
      | None \<Rightarrow> validateProjects personas ids ps (prID p # projects) (pathKey (prRoot p) # roots))"

definition validateState :: "(string \<Rightarrow> string option) \<Rightarrow> identity_state \<Rightarrow> identity_error option" where
  "validateState parseAddress s =
     (if stVersion s \<noteq> 1 then Some UnsupportedStateVersion
      else if stGHPath s \<noteq> [] \<and> \<not> isAbs (stGHPath s) then Some GHPathNotAbsolute
      else case validatePersonas parseAddress (stPersonas s) [] of
             Inl e \<Rightarrow> Some e
           | Inr ids \<Rightarrow> validateProjects (stPersonas s) ids (stProjects s) [] [])"

section \<open>What validation means\<close>

definition persona_ok :: "(string \<Rightarrow> string option) \<Rightarrow> persona \<Rightarrow> bool" where
  "persona_ok parseAddress p \<longleftrightarrow> isIdentifier (peID p) \<and> isIdentifier (peAccount p) \<and> hostName (peHost p) \<and>
     \<not> contains (peHost p) ''..'' \<and> plainText (peName p) 120 \<and> plainText (peGitName p) 120 \<and>
     parseAddress (peGitEmail p) = Some (peGitEmail p)"

lemma validatePersona_None: "validatePersona parseAddress p = None \<longleftrightarrow> persona_ok parseAddress p"
  by (auto simp: validatePersona_def persona_ok_def)

lemma validatePersonas_Inr:
  "validatePersonas parseAddress ps ids = Inr ids' \<longleftrightarrow> (\<forall>p\<in>set ps. persona_ok parseAddress p) \<and>
     distinct (map peID ps) \<and> set (map peID ps) \<inter> set ids = {} \<and> ids' = rev (map peID ps) @ ids"
proof (induction ps arbitrary: ids)
  case Nil
  then show ?case by auto
next
  case (Cons p ps)
  show ?case
  proof (cases "validatePersona parseAddress p")
    case None
    then have "persona_ok parseAddress p" by (simp add: validatePersona_None)
    then show ?thesis using None Cons.IH [of "peID p # ids"] by auto
  next
    case (Some e)
    then show ?thesis using validatePersona_None [of parseAddress p] by simp
  qed
qed

lemma findPersonaIn_Some: "findPersonaIn ps i = Some p \<Longrightarrow> p \<in> set ps \<and> peID p = i"
  by (induction ps) (auto split: if_splits)

lemma findPersonaIn_None: "findPersonaIn ps i = None \<longleftrightarrow> i \<notin> set (map peID ps)"
  by (induction ps) auto

lemma findPersonaIn_unique: "distinct (map peID ps) \<Longrightarrow> p \<in> set ps \<Longrightarrow> findPersonaIn ps (peID p) = Some p"
  by (induction ps) auto

text \<open>The static part of a project's validity, against the configured personas.\<close>

definition project_ok :: "persona list \<Rightarrow> project \<Rightarrow> bool" where
  "project_ok personas p \<longleftrightarrow> isIdentifier (prID p) \<and> plainText (prName p) 120 \<and> length (prDescription p) \<le> 4096 \<and>
     \<not> containsAny (prDescription p) [CHR 0x00, CHR 0x1B] \<and> isAbs (prRoot p) \<and> clean (prRoot p) = prRoot p \<and>
     repositoryName (prRepository p) \<and>
     (\<exists>primary. findPersonaIn personas (prPersona p) = Some primary \<and>
        (\<forall>a\<in>set (prAlternatives p). \<exists>other. findPersonaIn personas a = Some other \<and> equalFold (peHost primary) (peHost other))) \<and>
     (prMode p = ''proxy-level'' \<or> prMode p = ''agent-isolation'') \<and>
     List.member [''read-only'', ''collaborate'', ''maintain''] (polPreset (prPolicy p)) \<and>
     fst ` set (polExceptions (prPolicy p)) \<subseteq> set Permissions"

lemma validateAlternatives_None:
  assumes "set ids = set (map peID personas)" and "findPersonaIn personas primary = Some p"
  shows "validateAlternatives personas ids primary as = None \<longleftrightarrow>
    (\<forall>a\<in>set as. \<exists>other. findPersonaIn personas a = Some other \<and> equalFold (peHost p) (peHost other))"
proof (induction as)
  case Nil
  then show ?case by simp
next
  case (Cons a as)
  have "a \<in> set ids \<longleftrightarrow> (\<exists>other. findPersonaIn personas a = Some other)"
    using assms(1) findPersonaIn_None [of personas a] by auto
  with Cons assms(2) show ?case by (cases "findPersonaIn personas a") auto
qed

lemma if_Some_None: "(if b then Some e else x) = None \<longleftrightarrow> \<not> b \<and> x = None"
  by simp

lemma case_Some_None: "(case x of Some e \<Rightarrow> Some e | None \<Rightarrow> y) = None \<longleftrightarrow> x = None \<and> y = None"
  by (cases x) simp_all

lemma validateProject_None:
  assumes "set ids = set (map peID personas)"
  shows "validateProject personas ids projects roots p = None \<longleftrightarrow>
    project_ok personas p \<and> prID p \<notin> set projects \<and> prRoot p \<notin> set roots"
proof -
  have ops: "\<not> list_ex (\<lambda>(operation, allow). operation \<notin> set Permissions) es \<longleftrightarrow> fst ` set es \<subseteq> set Permissions" for es
    by (auto simp: list_ex_iff)
  have root: "clean (prRoot p) = prRoot p \<Longrightarrow> pathKey (prRoot p) = prRoot p" by (simp add: pathKey_def)
  have found: "prPersona p \<in> set ids \<and> validateAlternatives personas ids (prPersona p) (prAlternatives p) = None \<longleftrightarrow>
      (\<exists>primary. findPersonaIn personas (prPersona p) = Some primary \<and>
        (\<forall>a\<in>set (prAlternatives p). \<exists>other. findPersonaIn personas a = Some other \<and> equalFold (peHost primary) (peHost other)))"
  proof (cases "findPersonaIn personas (prPersona p)")
    case None
    then show ?thesis using assms findPersonaIn_None [of personas "prPersona p"] by auto
  next
    case (Some primary)
    then have "prPersona p \<in> set ids" using assms findPersonaIn_None [of personas "prPersona p"] by auto
    with Some validateAlternatives_None [OF assms Some] show ?thesis by simp
  qed
  show ?thesis
  proof (cases "clean (prRoot p) = prRoot p")
    case True
    show ?thesis
      unfolding validateProject_def project_ok_def if_Some_None case_Some_None not_not de_Morgan_disj ops
        not_less List.member_iff root [OF True] found [symmetric]
      by blast
  next
    case False
    then show ?thesis
      unfolding validateProject_def project_ok_def if_Some_None de_Morgan_disj by blast
  qed
qed

lemma validateProjects_None:
  assumes "set ids = set (map peID personas)"
  shows "validateProjects personas ids ps projects roots = None \<longleftrightarrow> (\<forall>p\<in>set ps. project_ok personas p) \<and>
    distinct (map prID ps) \<and> set (map prID ps) \<inter> set projects = {} \<and>
    distinct (map prRoot ps) \<and> set (map prRoot ps) \<inter> set roots = {}"
proof (induction ps arbitrary: projects roots)
  case Nil
  then show ?case by simp
next
  case (Cons p ps)
  have root: "project_ok personas p \<Longrightarrow> pathKey (prRoot p) = prRoot p" by (simp add: project_ok_def pathKey_def)
  show ?case
  proof (cases "validateProject personas ids projects roots p")
    case None
    then have "project_ok personas p" "prID p \<notin> set projects" "prRoot p \<notin> set roots"
      using validateProject_None [OF assms] by simp_all
    moreover from this have eq: "validateProjects personas ids (p # ps) projects roots =
        validateProjects personas ids ps (prID p # projects) (prRoot p # roots)"
      using None root by (simp only: validateProjects.simps option.case)
    ultimately show ?thesis
      unfolding eq Cons.IH [of "prID p # projects" "prRoot p # roots"] by auto
  next
    case (Some e)
    then have "\<not> (project_ok personas p \<and> prID p \<notin> set projects \<and> prRoot p \<notin> set roots)"
      using validateProject_None [OF assms, of projects roots p] by simp
    then show ?thesis using Some by auto
  qed
qed

lemma findProjectIn_id:
  "distinct (map prID ps) \<Longrightarrow> p \<in> set ps \<Longrightarrow> prID p \<noteq> [] \<Longrightarrow> findProjectIn ps (prID p) root = Some p"
  by (induction ps) auto

lemma findProjectIn_root:
  "distinct (map prRoot ps) \<Longrightarrow> \<forall>q\<in>set ps. pathKey (prRoot q) = prRoot q \<Longrightarrow> p \<in> set ps \<Longrightarrow> prRoot p \<noteq> [] \<Longrightarrow>
   findProjectIn ps [] (prRoot p) = Some p"
  by (induction ps) (auto, metis image_eqI)

lemma validateState_None:
  "validateState parseAddress s = None \<longleftrightarrow> stVersion s = 1 \<and> (stGHPath s = [] \<or> isAbs (stGHPath s)) \<and>
     (\<forall>p\<in>set (stPersonas s). persona_ok parseAddress p) \<and> distinct (map peID (stPersonas s)) \<and>
     (\<forall>p\<in>set (stProjects s). project_ok (stPersonas s) p) \<and>
     distinct (map prID (stProjects s)) \<and> distinct (map prRoot (stProjects s))"
proof (cases "validatePersonas parseAddress (stPersonas s) []")
  case (Inl e)
  then have "\<not> ((\<forall>p\<in>set (stPersonas s). persona_ok parseAddress p) \<and> distinct (map peID (stPersonas s)))"
    using validatePersonas_Inr [of parseAddress "stPersonas s" "[]"] by auto
  then show ?thesis using Inl by (auto simp: validateState_def)
next
  case (Inr ids)
  then have p: "\<forall>p\<in>set (stPersonas s). persona_ok parseAddress p" "distinct (map peID (stPersonas s))"
    "set ids = set (map peID (stPersonas s))"
    using validatePersonas_Inr [of parseAddress "stPersonas s" "[]" ids] by auto
  show ?thesis
    using p Inr validateProjects_None [OF p(3), of "stProjects s" "[]" "[]"] by (auto simp: validateState_def)
qed

section \<open>Properties\<close>

text \<open>The identity state is accepted exactly when the version is 1, the path of gh is absolute
  if it is set, every persona is well-formed, every project has a clean absolute root, an
  \<open>OWNER/REPO\<close> repository, a configured persona, alternatives on the same host, a known mode, an
  explicit preset and only known operations among its exceptions, and the IDs of the personas and the
  IDs and roots of the projects are distinct.  In an accepted state every project is found by its ID
  and by its root, and its persona by its ID.\<close>

theorem identity_state_valid:
  "(validateState parseAddress s = None \<longleftrightarrow> stVersion s = 1 \<and> (stGHPath s = [] \<or> isAbs (stGHPath s)) \<and>
     (\<forall>p\<in>set (stPersonas s). persona_ok parseAddress p) \<and> distinct (map peID (stPersonas s)) \<and>
     (\<forall>p\<in>set (stProjects s). project_ok (stPersonas s) p) \<and>
     distinct (map prID (stProjects s)) \<and> distinct (map prRoot (stProjects s))) \<and>
   (validateState parseAddress s = None \<longrightarrow> (\<forall>p\<in>set (stProjects s).
      (\<forall>root. FindProject s (prID p) root = Inr p) \<and> FindProject s [] (prRoot p) = Inr p \<and>
      (\<exists>persona\<in>set (stPersonas s). FindPersona s (prPersona p) = Inr persona \<and> peID persona = prPersona p)))"
proof -
  have "(\<forall>root. FindProject s (prID p) root = Inr p) \<and> FindProject s [] (prRoot p) = Inr p \<and>
      (\<exists>persona\<in>set (stPersonas s). FindPersona s (prPersona p) = Inr persona \<and> peID persona = prPersona p)"
    if v: "validateState parseAddress s = None" and p: "p \<in> set (stProjects s)" for p
  proof -
    have ok: "\<forall>q\<in>set (stProjects s). project_ok (stPersonas s) q"
      and d: "distinct (map prID (stProjects s))" "distinct (map prRoot (stProjects s))"
      using v unfolding validateState_None by blast+
    then have r: "\<forall>q\<in>set (stProjects s). pathKey (prRoot q) = prRoot q" by (simp add: project_ok_def pathKey_def)
    have po: "project_ok (stPersonas s) p" using ok p by blast
    then obtain persona where f: "findPersonaIn (stPersonas s) (prPersona p) = Some persona"
      by (auto simp: project_ok_def)
    have ne: "prID p \<noteq> []" "prRoot p \<noteq> []" using po by (auto simp: project_ok_def isIdentifier_def)
    have "findProjectIn (stProjects s) (prID p) root = Some p" for root
      by (rule findProjectIn_id [OF d(1) p ne(1)])
    moreover have "findProjectIn (stProjects s) [] (prRoot p) = Some p"
      by (rule findProjectIn_root [OF d(2) r p ne(2)])
    ultimately show ?thesis
      using f findPersonaIn_Some [OF f] by (simp add: FindProject_def FindPersona_def)
  qed
  then show ?thesis using validateState_None by blast
qed

definition sample_persona :: persona where
  "sample_persona = \<lparr>peID = ''me'', peName = ''Me'', peGitName = ''Me'', peGitEmail = ''me@x.org'',
     peHost = ''github.com'', peAccount = ''me''\<rparr>"

definition sample_project :: project where
  "sample_project = \<lparr>prID = ''p'', prName = ''P'', prDescription = [], prRoot = ''/w'', prRepository = ''o/r'',
     prPersona = ''me'', prAlternatives = [], prMode = ''proxy-level'',
     prPolicy = \<lparr>polPreset = ''collaborate'', polExceptions = [(''merge'', True)]\<rparr>, prProxyEnabled = True\<rparr>"

definition sample_state :: identity_state where
  "sample_state = \<lparr>stVersion = 1, stGHPath = ''/usr/bin/gh'', stPersonas = [sample_persona], stProjects = [sample_project]\<rparr>"

lemma sample_state_valid: "validateState Some sample_state = None"
  by code_simp

theorem identity_state_valid_witness:
  "FindProject sample_state [] ''/w'' = Inr sample_project"
  using conjunct2 [OF identity_state_valid [of Some sample_state]] sample_state_valid
  by (simp add: sample_state_def sample_project_def)

end
