(* ===== verification/Catalog.thy ===== *)
theory Catalog
  imports IdentityModel
begin

text \<open>
  The authorisation of GitHub CLI calls in \<open>internal/identity/catalog.go\<close>: a closed catalogue of
  commands and flags, the REST routes, and the Git credential request, each checked against the
  policy of the project before any credential is touched.
\<close>

section \<open>Invocations and commands\<close>

record invocation =
  inArguments :: "string list"
  inInput :: bytes

record gh_command =
  cmArguments :: "string list"
  cmPermission :: string
  cmCredential :: bool
  cmInteractive :: bool

datatype denied = OperationDenied | CredentialDenied | RestDenied

record command_spec =
  csPermission :: string
  csValues :: string
  csBooleans :: string
  csPositional :: bool

definition spec :: "string \<Rightarrow> string \<Rightarrow> string \<Rightarrow> bool \<Rightarrow> command_spec" where
  "spec permission vals bools pos =
     \<lparr>csPermission = permission, csValues = vals, csBooleans = bools, csPositional = pos\<rparr>"

definition catalog :: "(string \<times> command_spec) list" where
  "catalog = [
    (''repo view'', spec ''read'' ''branch'' [] False),
    (''pr list'', spec ''read'' ''state,base,head,author,assignee,label,limit,search'' ''draft'' False),
    (''pr view'', spec ''read'' [] ''comments'' True),
    (''pr diff'', spec ''read'' ''color'' ''patch,name-only'' True),
    (''pr checks'', spec ''read'' [] ''required'' True),
    (''pr create'', spec ''create'' ''title,body,body-file,head,base,assignee,label,reviewer,milestone''
       ''draft,no-maintainer-edit'' False),
    (''pr comment'', spec ''comment'' ''body,body-file'' [] True),
    (''pr edit'', spec ''edit'' ''title,body,body-file,base,add-label,remove-label,add-assignee,remove-assignee,add-reviewer,remove-reviewer,milestone'' [] True),
    (''pr close'', spec ''close'' ''comment'' [] True),
    (''pr reopen'', spec ''close'' ''comment'' [] True),
    (''pr review'', spec ''review'' ''body,body-file'' ''approve,request-changes,comment'' True),
    (''pr ready'', spec ''edit'' [] ''undo'' True),
    (''pr merge'', spec ''merge'' ''match-head-commit'' ''merge,squash,rebase,auto,disable-auto'' True),
    (''issue list'', spec ''read'' ''state,author,assignee,label,limit,search'' [] False),
    (''issue view'', spec ''read'' [] ''comments'' True),
    (''issue create'', spec ''create'' ''title,body,body-file,assignee,label,milestone'' [] False),
    (''issue comment'', spec ''comment'' ''body,body-file'' [] True),
    (''issue edit'', spec ''edit'' ''title,body,body-file,add-label,remove-label,add-assignee,remove-assignee,milestone'' [] True),
    (''issue close'', spec ''close'' ''comment,reason'' [] True),
    (''issue reopen'', spec ''close'' ''comment'' [] True),
    (''run list'', spec ''read'' ''workflow,branch,event,status,user,limit,commit,created'' [] False),
    (''run view'', spec ''read'' ''job,attempt'' ''log,log-failed,exit-status'' True),
    (''run rerun'', spec ''actions'' ''job'' ''failed'' True),
    (''run cancel'', spec ''actions'' [] [] True),
    (''workflow list'', spec ''read'' ''limit'' ''all'' False),
    (''workflow view'', spec ''read'' ''ref'' ''yaml'' True),
    (''workflow run'', spec ''actions'' ''ref,raw-field'' [] True)]"

definition shortFlags :: "(string \<times> string) list" where
  "shortFlags = [(''R'', ''repo''), (''b'', ''body''), (''F'', ''body-file''), (''f'', ''raw-field''), (''t'', ''title''),
     (''H'', ''head''), (''B'', ''base''), (''L'', ''limit''), (''q'', ''jq''), (''s'', ''state''), (''a'', ''assignee''), (''l'', ''label'')]"

text \<open>\<open>^[1-9][0-9]*$\<close> and \<open>^[a-zA-Z0-9][a-zA-Z0-9_.-]*$\<close>\<close>

definition numeric :: "string \<Rightarrow> bool" where
  "numeric s \<longleftrightarrow> s \<noteq> [] \<and> list_all digit s \<and> hd s \<noteq> CHR ''0''"

definition workflowName :: "string \<Rightarrow> bool" where
  "workflowName s \<longleftrightarrow> s \<noteq> [] \<and> alnum (hd s) \<and> list_all (\<lambda>c. alnum c \<or> List.member ''_.-'' c) s"

text \<open>\<open>strconv.Atoi\<close>\<close>

definition decimal :: "string \<Rightarrow> int" where
  "decimal s = foldl (\<lambda>n c. 10 * n + (int (charCode c) - 48)) 0 s"

definition atoi :: "string \<Rightarrow> int option" where
  "atoi s = (let (negative, ds) = (case s of
        CHR ''-'' # r \<Rightarrow> (True, r) | CHR ''+'' # r \<Rightarrow> (False, r) | _ \<Rightarrow> (False, s));
      n = (if negative then - decimal ds else decimal ds)
    in if ds \<noteq> [] \<and> list_all digit ds \<and> is_int64 n then Some n else None)"

definition sameRepository :: "string \<Rightarrow> project \<Rightarrow> persona \<Rightarrow> bool" where
  "sameRepository value p persona \<longleftrightarrow> equalFold value (prRepository p) \<or>
     equalFold value (peHost persona @ ''/'' @ prRepository p)"

section \<open>Flags\<close>

definition isValueFlag :: "command_spec \<Rightarrow> string \<Rightarrow> bool" where
  "isValueFlag s flag \<longleftrightarrow> List.member (splitAt CHR '','' (csValues s)) flag \<or> flag = ''repo'' \<or>
     (csPermission s = ''read'' \<and> List.member [''json'', ''jq'', ''template''] flag)"

definition isBoolFlag :: "command_spec \<Rightarrow> string \<Rightarrow> bool" where
  "isBoolFlag s flag \<longleftrightarrow> List.member (splitAt CHR '','' (csBooleans s)) flag \<and> flag \<noteq> []"

text \<open>The name of a flag and its inline value: \<open>--flag\<close>, \<open>--flag=value\<close> or a short flag.  A short flag is looked
  up with everything that follows its dash, so one with a value in the same argument is unknown.\<close>

definition flagOf :: "string \<Rightarrow> (string \<times> string option) option" where
  "flagOf arg =
     (let (flag, value) = (case cutAt CHR ''='' (trimPrefix arg ''--'') of
            None \<Rightarrow> (trimPrefix arg ''--'', None) | Some (f, v) \<Rightarrow> (f, Some v))
      in if hasPrefix arg ''--'' then (if flag = [] then None else Some (flag, value))
         else map_option (\<lambda>f. (f, value)) (map_of shortFlags (trimPrefix arg ''-'')))"

lemma shortFlags_shape: "map_of shortFlags k = Some f \<Longrightarrow> length k = 1"
  by (auto simp: shortFlags_def split: if_splits)

lemma flagOf_short_value:
  "\<not> hasPrefix arg ''--'' \<Longrightarrow> flagOf arg = Some (f, value) \<Longrightarrow> length (trimPrefix arg ''-'') = 1"
  using shortFlags_shape [of "trimPrefix arg ''-''" f] by (auto simp: flagOf_def split: option.splits)

text \<open>What a value flag adds to the output.\<close>

definition addValue :: "project \<Rightarrow> persona \<Rightarrow> string \<Rightarrow> string \<Rightarrow> string list option" where
  "addValue project persona flag value =
     (if flag = ''repo'' then (if sameRepository value project persona then Some [] else None)
      else if flag = ''body-file'' \<and> value \<noteq> ''-'' then None
      else if flag = ''limit'' \<and> (case atoi value of None \<Rightarrow> True | Some n \<Rightarrow> n < 1 \<or> 1000 < n) then None
      else Some [''--'' @ flag, value])"

text \<open>The loop over the arguments after the command name: the values seen, the output and the
  number of positional arguments, or nothing if the call is denied.\<close>

fun parseArguments :: "project \<Rightarrow> persona \<Rightarrow> string \<Rightarrow> command_spec \<Rightarrow> string list \<Rightarrow> (string, string) gomap
    \<Rightarrow> string list \<Rightarrow> nat \<Rightarrow> ((string, string) gomap \<times> string list \<times> nat) option" where
  "parseArguments project persona name s [] vals out positional = Some (vals, out, positional)"
| "parseArguments project persona name s (arg # rest) vals out positional =
     (if \<not> hasPrefix arg ''-'' then
        (if \<not> csPositional s \<or> 0 < positional then None
         else if (if hasPrefix name ''workflow '' then \<not> workflowName arg else \<not> numeric arg) then None
         else parseArguments project persona name s rest vals (out @ [arg]) (positional + 1))
      else
        (case flagOf arg of
           None \<Rightarrow> None
         | Some (flag, inline) \<Rightarrow>
             if \<not> isValueFlag s flag \<and> \<not> isBoolFlag s flag then None
             else if map_of vals flag \<noteq> None \<and> flag \<noteq> ''raw-field'' then None
             else if isBoolFlag s flag then
               (if inline \<noteq> None then None
                else parseArguments project persona name s rest (map_put vals flag ''true'') (out @ [''--'' @ flag]) positional)
             else
               (case inline of
                  Some value \<Rightarrow>
                    (case addValue project persona flag value of
                       None \<Rightarrow> None
                     | Some extra \<Rightarrow> parseArguments project persona name s rest (map_put vals flag value) (out @ extra) positional)
                | None \<Rightarrow>
                    (case rest of
                       [] \<Rightarrow> None
                     | value # rest' \<Rightarrow>
                         (case addValue project persona flag value of
                            None \<Rightarrow> None
                          | Some extra \<Rightarrow>
                              parseArguments project persona name s rest' (map_put vals flag value) (out @ extra) positional)))))"

definition valueOf :: "(string, string) gomap \<Rightarrow> string \<Rightarrow> string" where
  "valueOf vals flag = (case map_of vals flag of None \<Rightarrow> [] | Some v \<Rightarrow> v)"

text \<open>The checks after the loop.\<close>

definition completeCommand :: "project \<Rightarrow> string \<Rightarrow> command_spec \<Rightarrow> (string, string) gomap \<Rightarrow> nat \<Rightarrow> bool" where
  "completeCommand project name s vals positional \<longleftrightarrow>
     \<not> (csPositional s \<and> positional \<noteq> 1) \<and>
     \<not> (csPermission s = ''close'' \<and> valueOf vals ''comment'' \<noteq> [] \<and> \<not> Allows (prPolicy project) ''comment'') \<and>
     \<not> (hasSuffix name '' create'' \<and> (valueOf vals ''title'' = [] \<or> (valueOf vals ''body'' = [] \<and> valueOf vals ''body-file'' \<noteq> ''-''))) \<and>
     \<not> (name = ''pr create'' \<and> (valueOf vals ''head'' = [] \<or> valueOf vals ''base'' = [])) \<and>
     \<not> (hasSuffix name '' comment'' \<and> valueOf vals ''body'' = [] \<and> valueOf vals ''body-file'' \<noteq> ''-'') \<and>
     \<not> (name = ''pr review'' \<and>
        length (filter (\<lambda>f. valueOf vals f \<noteq> []) [''approve'', ''request-changes'', ''comment'']) \<noteq> 1)"

section \<open>The Git credential request\<close>

definition isGitCredentialInvocation :: "invocation \<Rightarrow> bool" where
  "isGitCredentialInvocation call \<longleftrightarrow> (case inArguments call of a # b # _ \<Rightarrow> a = ''auth'' \<and> b = ''git-credential'' | _ \<Rightarrow> False)"

text \<open>One line of the request, against the fields seen so far.\<close>

definition credentialLine :: "string \<Rightarrow> (string, string) gomap \<Rightarrow> (string, string) gomap option" where
  "credentialLine line given =
     (if line = [] then Some given
      else (case cutAt CHR ''='' line of
              None \<Rightarrow> None
            | Some (key, value) \<Rightarrow>
                if key = ''capability[]'' then
                  (if List.member [''authtype'', ''state''] value then Some given else None)
                else if key = ''wwwauth[]'' then
                  (if value = [] \<or> 4096 < length value then None else Some given)
                else if map_of given key \<noteq> None \<or> \<not> List.member [''protocol'', ''host'', ''path'', ''username''] key then None
                else Some (map_put given key value)))"

fun credentialFields :: "string list \<Rightarrow> (string, string) gomap \<Rightarrow> (string, string) gomap option" where
  "credentialFields [] given = Some given"
| "credentialFields (line # ls) given =
     (case credentialLine line given of
        None \<Rightarrow> None
      | Some given' \<Rightarrow> credentialFields ls given')"

definition authorizeGitCredential :: "project \<Rightarrow> persona \<Rightarrow> invocation \<Rightarrow> denied + gh_command" where
  "authorizeGitCredential project persona call =
     (let deny = Inl CredentialDenied
      in if length (inArguments call) \<noteq> 3 \<or> inArguments call ! 2 \<noteq> ''get'' \<or> inInput call = [] \<or> 64 * 1024 < length (inInput call)
         then deny
         else case credentialFields (splitAt (CHR 0x0A) (replaceCRLF (inInput call))) [] of
                None \<Rightarrow> deny
              | Some given \<Rightarrow>
                  if valueOf given ''protocol'' \<noteq> ''https'' \<or> \<not> equalFold (valueOf given ''host'') (peHost persona) then deny
                  else (let path = trimSuffix (trimChar CHR ''/'' (valueOf given ''path'')) ''.git''
                        in if path \<noteq> [] \<and> \<not> equalFold path (prRepository project) then deny
                           else Inr \<lparr>cmArguments = [], cmPermission = [], cmCredential = True, cmInteractive = False\<rparr>))"

section \<open>REST calls\<close>

type_synonym api_route = "string \<times> string \<times> string \<times> string"  \<comment> \<open>method, path, permission, fields\<close>

definition apiRoutes :: "api_route list" where
  "apiRoutes = [
    (''GET'', [], ''read'', []),
    (''GET'', ''issues'', ''read'', ''state,labels,assignee,creator,page,per_page''),
    (''GET'', ''issues/#'', ''read'', []),
    (''GET'', ''issues/#/comments'', ''read'', ''page,per_page''),
    (''GET'', ''pulls'', ''read'', ''state,head,base,page,per_page''),
    (''GET'', ''pulls/#'', ''read'', []),
    (''GET'', ''pulls/#/reviews'', ''read'', ''page,per_page''),
    (''GET'', ''actions/runs'', ''read'', ''branch,event,status,page,per_page''),
    (''GET'', ''actions/runs/#'', ''read'', []),
    (''GET'', ''actions/workflows'', ''read'', ''page,per_page''),
    (''POST'', ''issues'', ''create'', ''title,body''),
    (''POST'', ''issues/#/comments'', ''comment'', ''body''),
    (''PATCH'', ''issues/#'', ''edit'', ''title,body''),
    (''POST'', ''pulls'', ''create'', ''title,body,head,base''),
    (''PATCH'', ''pulls/#'', ''edit'', ''title,body,base''),
    (''PUT'', ''pulls/#/merge'', ''merge'', ''merge_method,commit_title,commit_message,sha''),
    (''POST'', ''actions/runs/#/rerun'', ''actions'', []),
    (''POST'', ''actions/runs/#/cancel'', ''actions'', []),
    (''POST'', ''actions/workflows/#/dispatches'', ''actions'', ''ref'')]"

text \<open>The flags of \<open>gh api\<close>: the method (once), the fields and the output format.\<close>

definition apiFlag :: "string \<Rightarrow> string \<Rightarrow> string option \<times> string list \<times> string list
    \<Rightarrow> (string option \<times> string list \<times> string list) option" where
  "apiFlag flag value seen =
     (case seen of (method, given, format) \<Rightarrow>
        if flag = ''--method'' \<or> flag = ''-X'' then
          (if method \<noteq> None then None else Some (Some value, given, format))
        else if flag = ''--raw-field'' \<or> flag = ''-f'' then Some (method, given @ [value], format)
        else if flag = ''--jq'' \<or> flag = ''--template'' then Some (method, given, format @ [flag, value])
        else None)"

fun apiFlags :: "string list \<Rightarrow> string option \<times> string list \<times> string list
    \<Rightarrow> (string option \<times> string list \<times> string list) option" where
  "apiFlags [] seen = Some seen"
| "apiFlags [flag] seen = None"
| "apiFlags (flag # value # rest) seen =
     (case apiFlag flag value seen of
        None \<Rightarrow> None
      | Some seen' \<Rightarrow> apiFlags rest seen')"

fun fieldsAllowed :: "string list \<Rightarrow> string list \<Rightarrow> string list \<Rightarrow> bool" where
  "fieldsAllowed allowed [] seen = True"
| "fieldsAllowed allowed (f # fs) seen =
     (case cutAt CHR ''='' f of
        None \<Rightarrow> False
      | Some (key, v) \<Rightarrow> \<not> List.member seen key \<and> List.member allowed key \<and> fieldsAllowed allowed fs (key # seen))"

definition placeholder :: "string \<Rightarrow> string" where
  "placeholder p = (if numeric p then ''#'' else p)"

definition routePath :: "string \<Rightarrow> string" where
  "routePath sub = joinWith ''/'' (map placeholder (splitAt CHR ''/'' sub))"

fun firstRoute :: "policy \<Rightarrow> string \<Rightarrow> string \<Rightarrow> api_route list \<Rightarrow> api_route option" where
  "firstRoute policy method path [] = None"
| "firstRoute policy method path ((m, p, permission, given) # rs) =
     (if m \<noteq> method \<or> p \<noteq> path \<or> \<not> Allows policy permission then firstRoute policy method path rs
      else Some (m, p, permission, given))"

definition authorizeAPI :: "project \<Rightarrow> persona \<Rightarrow> invocation \<Rightarrow> denied + gh_command" where
  "authorizeAPI project persona call =
     (let endpoint = trimPrefix (inArguments call ! 1) ''/'';
          pre = ''repos/'' @ prRepository project
      in if endpoint \<noteq> pre \<and> \<not> hasPrefix endpoint (pre @ ''/'') then Inl RestDenied
         else (let path = routePath (trimPrefix (trimPrefix endpoint pre) ''/'')
               in case apiFlags (drop 2 (inArguments call)) (None, [], []) of
                    None \<Rightarrow> Inl RestDenied
                  | Some (m, given, format) \<Rightarrow>
                      (let method = (case m of None \<Rightarrow> ''GET'' | Some x \<Rightarrow> x)
                       in case firstRoute (prPolicy project) method path apiRoutes of
                            None \<Rightarrow> Inl RestDenied
                          | Some (m', p, permission, allowed) \<Rightarrow>
                              if \<not> fieldsAllowed (splitAt CHR '','' allowed) given [] then Inl RestDenied
                              else Inr \<lparr>cmArguments = [''api'', endpoint, ''--hostname'', peHost persona, ''--method'', method]
                                          @ concat (map (\<lambda>f. [''--raw-field'', f]) given) @ format,
                                        cmPermission = permission, cmCredential = False, cmInteractive = False\<rparr>)))"

section \<open>Authorize\<close>

definition Authorize :: "project \<Rightarrow> persona \<Rightarrow> invocation \<Rightarrow> denied + gh_command" where
  "Authorize project persona call =
     (let args = inArguments call; deny = Inl OperationDenied
      in if 1024 * 1024 < length (inInput call) \<or> length args < 2 \<or> 256 < length args then deny
         else if list_ex (\<lambda>arg. 1024 * 1024 < length arg \<or> List.member arg (CHR 0x00)) args then deny
         else if isGitCredentialInvocation call then authorizeGitCredential project persona call
         else if args ! 0 = ''api'' then authorizeAPI project persona call
         else (let name = joinWith '' '' (take 2 args)
               in case map_of catalog name of
                    None \<Rightarrow> deny
                  | Some s \<Rightarrow>
                      if \<not> Allows (prPolicy project) (csPermission s) then deny
                      else if name = ''pr create'' \<and> length args = 2 then
                        Inr \<lparr>cmArguments = [''pr'', ''create'', ''--repo'', peHost persona @ ''/'' @ prRepository project],
                             cmPermission = csPermission s, cmCredential = False, cmInteractive = True\<rparr>
                      else (case parseArguments project persona name s (drop 2 args) [] (take 2 args) 0 of
                              None \<Rightarrow> deny
                            | Some (vals, out, positional) \<Rightarrow>
                                if \<not> completeCommand project name s vals positional then deny
                                else Inr \<lparr>cmArguments = out @ [''--repo'', peHost persona @ ''/'' @ prRepository project],
                                          cmPermission = csPermission s, cmCredential = False, cmInteractive = False\<rparr>)))"

section \<open>What an authorised command contains\<close>

text \<open>The arguments that the loop lets through come in groups.\<close>

definition positional_group :: "string \<Rightarrow> command_spec \<Rightarrow> string list \<Rightarrow> bool" where
  "positional_group name s g \<longleftrightarrow> (\<exists>a. g = [a] \<and> \<not> hasPrefix a ''-'' \<and> csPositional s \<and>
     (if hasPrefix name ''workflow '' then workflowName a else numeric a))"

definition flag_group :: "command_spec \<Rightarrow> string list \<Rightarrow> bool" where
  "flag_group s g \<longleftrightarrow> (\<exists>f. g = [''--'' @ f] \<and> isBoolFlag s f) \<or>
     (\<exists>f v. g = [''--'' @ f, v] \<and> isValueFlag s f \<and> f \<noteq> ''repo'' \<and> (f = ''body-file'' \<longrightarrow> v = ''-'') \<and>
        (f = ''limit'' \<longrightarrow> (\<exists>n. atoi v = Some n \<and> 1 \<le> n \<and> n \<le> 1000)))"

lemma addValue_Some:
  assumes "addValue project persona f v = Some extra" and "isValueFlag s f"
  shows "(extra = [] \<and> f = ''repo'' \<and> sameRepository v project persona) \<or> flag_group s extra"
proof (cases "f = ''repo''")
  case True
  then show ?thesis using assms(1) by (simp add: addValue_def split: if_splits)
next
  case False
  have body: "f = ''body-file'' \<longrightarrow> v = ''-''"
  proof (rule impI, rule ccontr)
    assume "f = ''body-file''" "v \<noteq> ''-''"
    then show False using assms(1) False by (simp add: addValue_def)
  qed
  have limit: "\<not> (f = ''limit'' \<and> (case atoi v of None \<Rightarrow> True | Some n \<Rightarrow> n < 1 \<or> 1000 < n))"
  proof
    assume l: "f = ''limit'' \<and> (case atoi v of None \<Rightarrow> True | Some n \<Rightarrow> n < 1 \<or> 1000 < n)"
    then show False using assms(1) by (simp add: addValue_def)
  qed
  have "\<not> (f = ''body-file'' \<and> v \<noteq> ''-'')" using body by blast
  then have "extra = [''--'' @ f, v]"
    using assms(1) False limit unfolding addValue_def by (simp only: if_False option.inject simp_thms)
  moreover have "f = ''limit'' \<longrightarrow> (\<exists>n. atoi v = Some n \<and> 1 \<le> n \<and> n \<le> 1000)"
    using limit by (cases "atoi v") (simp_all add: not_less)
  ultimately have "\<exists>f v. extra = [''--'' @ f, v] \<and> isValueFlag s f \<and> f \<noteq> ''repo'' \<and> (f = ''body-file'' \<longrightarrow> v = ''-'') \<and>
      (f = ''limit'' \<longrightarrow> (\<exists>n. atoi v = Some n \<and> 1 \<le> n \<and> n \<le> 1000))"
    using assms(2) False body by (intro exI conjI) assumption+
  then show ?thesis unfolding flag_group_def by (intro disjI2)
qed

definition groups_ok :: "string \<Rightarrow> command_spec \<Rightarrow> string list list \<Rightarrow> bool" where
  "groups_ok name s gs \<longleftrightarrow> (\<forall>g\<in>set gs. positional_group name s g \<or> flag_group s g)"

text \<open>The four ways one step of the loop goes on.\<close>

lemma parseArguments_step:
  assumes "parseArguments project persona name s (arg # rest) vals out n = Some res"
  obtains (positional) "positional_group name s [arg]"
      "parseArguments project persona name s rest vals (out @ [arg]) (n + 1) = Some res" "n = 0"
    | (bool) f where "isBoolFlag s f" "flag_group s [''--'' @ f]"
      "parseArguments project persona name s rest (map_put vals f ''true'') (out @ [''--'' @ f]) n = Some res"
    | (valued) f v extra rest' where "suffix rest' rest" "isValueFlag s f" "addValue project persona f v = Some extra"
      "parseArguments project persona name s rest' (map_put vals f v) (out @ extra) n = Some res"
proof (cases "hasPrefix arg ''-''")
  case False
  then have ok: "\<not> (\<not> csPositional s \<or> 0 < n)" "\<not> (if hasPrefix name ''workflow '' then \<not> workflowName arg else \<not> numeric arg)"
    and run: "parseArguments project persona name s rest vals (out @ [arg]) (n + 1) = Some res"
    using assms by (simp_all only: parseArguments.simps simp_thms if_True split: if_splits) simp_all
  then have "positional_group name s [arg]" using False unfolding positional_group_def by (auto split: if_splits)
  then show thesis using ok run by (intro positional) auto
next
  case True
  then obtain f inline where fl: "flagOf arg = Some (f, inline)"
    using assms by (cases "flagOf arg") auto
  have known: "isValueFlag s f \<or> isBoolFlag s f" using assms True fl by (simp split: if_splits)
  show thesis
  proof (cases "isBoolFlag s f")
    case b: True
    then have "parseArguments project persona name s rest (map_put vals f ''true'') (out @ [''--'' @ f]) n = Some res"
      using assms True fl by (simp split: if_splits)
    moreover have "flag_group s [''--'' @ f]" using b unfolding flag_group_def by blast
    ultimately show thesis using bool b by blast
  next
    case nb: False
    show thesis
    proof (cases inline)
      case (Some v)
      then obtain extra where "addValue project persona f v = Some extra"
        "parseArguments project persona name s rest (map_put vals f v) (out @ extra) n = Some res"
        using assms True fl nb by (simp split: if_splits option.splits)
      then show thesis using known nb by (intro valued [of rest f v]) auto
    next
      case None
      then obtain v rest' where r: "rest = v # rest'"
        using assms True fl nb by (cases rest) (simp_all split: if_splits)
      then obtain extra where "addValue project persona f v = Some extra"
        "parseArguments project persona name s rest' (map_put vals f v) (out @ extra) n = Some res"
        using assms True fl nb None by (simp split: if_splits option.splits)
      then show thesis using known nb r by (intro valued [of rest' f v]) (auto simp: suffix_Cons)
    qed
  qed
qed

lemma groups_ok_Cons: "g = [] \<or> positional_group name s g \<or> flag_group s g \<Longrightarrow> groups_ok name s gs \<Longrightarrow>
  \<exists>gs'. concat gs' = g @ concat gs \<and> groups_ok name s gs'"
  by (intro exI [of _ "if g = [] then gs else g # gs"]) (auto simp: groups_ok_def)

lemma parseArguments_groups:
  "parseArguments project persona name s args vals out n = Some (vals', out', n') \<Longrightarrow>
   \<exists>gs. out' = out @ concat gs \<and> groups_ok name s gs"
proof (induction "length args" arbitrary: args vals out n rule: less_induct)
  case less
  have step: "\<exists>gs. out' = out @ concat gs \<and> groups_ok name s gs"
    if run: "parseArguments project persona name s args1 vals1 (out @ g) n1 = Some (vals', out', n')"
      and "length args1 < length args" and g: "g = [] \<or> positional_group name s g \<or> flag_group s g" for args1 vals1 n1 g
  proof -
    obtain gs where "out' = (out @ g) @ concat gs" "groups_ok name s gs"
      using less.hyps [OF \<open>length args1 < length args\<close> run] by blast
    with groups_ok_Cons [OF g] show ?thesis by (metis append.assoc)
  qed
  show ?case
  proof (cases args)
    case Nil
    then show ?thesis using less.prems by (intro exI [of _ "[]"]) (simp add: groups_ok_def)
  next
    case (Cons arg rest)
    from less.prems [unfolded Cons] show ?thesis
    proof (cases rule: parseArguments_step)
      case positional
      then show ?thesis using Cons by (intro step [of rest vals "[arg]"]) auto
    next
      case (bool f)
      then show ?thesis using Cons by (intro step [of rest _ "[''--'' @ f]"]) auto
    next
      case (valued f v extra rest')
      then show ?thesis
        using Cons addValue_Some [OF valued(3,2)] suffix_length_le [OF valued(1)] by (intro step [of rest' _ extra]) auto
    qed
  qed
qed

lemma firstRoute_Some:
  "firstRoute pol method path rs = Some (m, p, permission, allowed) \<Longrightarrow>
   m = method \<and> p = path \<and> Allows pol permission \<and> (m, p, permission, allowed) \<in> set rs"
  by (induction rs) (auto split: if_splits)

lemma fieldsAllowed_keys:
  "fieldsAllowed allowed fs seen \<Longrightarrow> (\<forall>f\<in>set fs. \<exists>key v. f = key @ ''='' @ v \<and> key \<in> set allowed)"
  by (induction fs arbitrary: seen) (auto split: option.splits dest!: cutAt_Some)

text \<open>The output format: pairs of \<open>--jq\<close> or \<open>--template\<close> and a value.\<close>

fun format_pairs :: "string list \<Rightarrow> bool" where
  "format_pairs [] = True"
| "format_pairs [flag] = False"
| "format_pairs (flag # v # rest) \<longleftrightarrow> (flag = ''--jq'' \<or> flag = ''--template'') \<and> format_pairs rest"

lemma format_pairs_snoc:
  "format_pairs format \<Longrightarrow> flag = ''--jq'' \<or> flag = ''--template'' \<Longrightarrow> format_pairs (format @ [flag, v])"
  by (induction format rule: format_pairs.induct) auto

lemma apiFlags_format:
  "apiFlags args (m, given, format) = Some (m', given', format') \<Longrightarrow> format_pairs format \<Longrightarrow> format_pairs format'"
proof (induction args "(m, given, format)" arbitrary: m given format rule: apiFlags.induct)
  case (3 flag v rest)
  then obtain m1 given1 format1 where step: "apiFlag flag v (m, given, format) = Some (m1, given1, format1)"
    and rest: "apiFlags rest (m1, given1, format1) = Some (m', given', format')"
    by (auto split: option.splits)
  then have "format_pairs format1"
    using 3(3) format_pairs_snoc [of format flag v] by (auto simp: apiFlag_def split: if_splits)
  with 3(1) step rest show ?case by blast
qed simp_all

text \<open>What a REST call may be: within the repository, one of the routes, with its fields and an output
  format only.\<close>

definition rest_call :: "project \<Rightarrow> persona \<Rightarrow> gh_command \<Rightarrow> bool" where
  "rest_call project persona c \<longleftrightarrow> (\<exists>sub method allowed given format.
     (sub = [] \<or> hd sub = CHR ''/'') \<and> format_pairs format \<and>
     (method, routePath (trimPrefix sub ''/''), cmPermission c, allowed) \<in> set apiRoutes \<and>
     (\<forall>f\<in>set given. \<exists>key v. f = key @ ''='' @ v \<and> key \<in> set (splitAt CHR '','' allowed)) \<and>
     cmArguments c = [''api'', ''repos/'' @ prRepository project @ sub, ''--hostname'', peHost persona, ''--method'', method]
       @ concat (map (\<lambda>f. [''--raw-field'', f]) given) @ format)"

definition restCommand :: "persona \<Rightarrow> string \<Rightarrow> string \<Rightarrow> string list \<Rightarrow> string list \<Rightarrow> string \<Rightarrow> gh_command" where
  "restCommand persona endpoint verb given format permission =
    \<lparr>cmArguments = [''api'', endpoint, ''--hostname'', peHost persona, ''--method'', verb]
       @ concat (map (\<lambda>f. [''--raw-field'', f]) given) @ format,
     cmPermission = permission, cmCredential = False, cmInteractive = False\<rparr>"

lemma authorizeAPI_cases:
  assumes "authorizeAPI project persona call = Inr c"
  obtains sub verb given format m' p allowed where
    "sub = [] \<or> hd sub = CHR ''/''"
    "firstRoute (prPolicy project) verb (routePath (trimPrefix sub ''/'')) apiRoutes = Some (m', p, cmPermission c, allowed)"
    "fieldsAllowed (splitAt CHR '','' allowed) given []" "format_pairs format"
    "c = restCommand persona (''repos/'' @ prRepository project @ sub) verb given format (cmPermission c)"
proof -
  define endpoint where "endpoint = trimPrefix (inArguments call ! 1) ''/''"
  define pre where "pre = ''repos/'' @ prRepository project"
  define path where "path = routePath (trimPrefix (trimPrefix endpoint pre) ''/'')"
  have run: "(if endpoint \<noteq> pre \<and> \<not> hasPrefix endpoint (pre @ ''/'') then Inl RestDenied
      else case apiFlags (drop 2 (inArguments call)) (None, [], []) of
          None \<Rightarrow> Inl RestDenied
        | Some (m, given, format) \<Rightarrow>
            case firstRoute (prPolicy project) (case m of None \<Rightarrow> ''GET'' | Some x \<Rightarrow> x) path apiRoutes of
              None \<Rightarrow> Inl RestDenied
            | Some (m', p, permission, allowed) \<Rightarrow>
                if \<not> fieldsAllowed (splitAt CHR '','' allowed) given [] then Inl RestDenied
                else Inr (restCommand persona endpoint (case m of None \<Rightarrow> ''GET'' | Some x \<Rightarrow> x) given format permission)) = Inr c"
    using assms unfolding authorizeAPI_def Let_def endpoint_def pre_def path_def restCommand_def .
  have inside: "endpoint = pre \<or> hasPrefix endpoint (pre @ ''/'')"
    using run by (metis (no_types) Inl_Inr_False)
  then obtain sub where sub: "endpoint = pre @ sub" "sub = [] \<or> hd sub = CHR ''/''"
    by (auto simp: hasPrefix_iff prefix_def)
  obtain m given format where fl: "apiFlags (drop 2 (inArguments call)) (None, [], []) = Some (m, given, format)"
    using run inside by (cases "apiFlags (drop 2 (inArguments call)) (None, [], [])") auto
  define verb where "verb = (case m of None \<Rightarrow> ''GET'' | Some x \<Rightarrow> x)"
  have run2: "(case firstRoute (prPolicy project) verb path apiRoutes of
              None \<Rightarrow> Inl RestDenied
            | Some (m', p, permission, allowed) \<Rightarrow>
                if \<not> fieldsAllowed (splitAt CHR '','' allowed) given [] then Inl RestDenied
                else Inr (restCommand persona endpoint verb given format permission)) = Inr c"
    using run inside unfolding fl verb_def by (simp only: if_False option.case prod.case de_Morgan_conj not_not simp_thms split: if_splits)
  then obtain m' p permission allowed where
    route: "firstRoute (prPolicy project) verb path apiRoutes = Some (m', p, permission, allowed)"
    by (cases "firstRoute (prPolicy project) verb path apiRoutes") auto
  have ok: "fieldsAllowed (splitAt CHR '','' allowed) given []"
    and c: "c = restCommand persona endpoint verb given format permission"
    using run2 unfolding route by (simp_all split: if_splits)
  have path: "path = routePath (trimPrefix sub ''/'')" by (simp add: path_def sub(1))
  have permission: "permission = cmPermission c" by (simp add: c restCommand_def)
  show thesis
    using that [OF sub(2) _ ok] apiFlags_format [OF fl] route c unfolding path permission sub(1) pre_def by simp
qed

lemma authorizeAPI_Inr:
  assumes "authorizeAPI project persona call = Inr c"
  shows "rest_call project persona c \<and> Allows (prPolicy project) (cmPermission c) \<and> \<not> cmCredential c \<and> \<not> cmInteractive c"
  using assms
proof (cases rule: authorizeAPI_cases)
  case (1 sub verb given format m' p allowed)
  note r = firstRoute_Some [OF 1(2)] and given = fieldsAllowed_keys [OF 1(3)]
  have "cmArguments c = [''api'', ''repos/'' @ prRepository project @ sub, ''--hostname'', peHost persona, ''--method'', verb]
       @ concat (map (\<lambda>f. [''--raw-field'', f]) given) @ format" "\<not> cmCredential c" "\<not> cmInteractive c"
    by (subst 1(5), simp add: restCommand_def)+
  moreover have "(verb, routePath (trimPrefix sub ''/''), cmPermission c, allowed) \<in> set apiRoutes"
    and "Allows (prPolicy project) (cmPermission c)" using r by auto
  ultimately show ?thesis unfolding rest_call_def using 1(1,4) given by blast
qed

text \<open>What a credential request must have asked for.\<close>

definition credential_request :: "project \<Rightarrow> persona \<Rightarrow> invocation \<Rightarrow> bool" where
  "credential_request project persona call \<longleftrightarrow> isGitCredentialInvocation call \<and> inArguments call ! 2 = ''get'' \<and>
     (\<exists>given. credentialFields (splitAt (CHR 0x0A) (replaceCRLF (inInput call))) [] = Some given \<and>
        valueOf given ''protocol'' = ''https'' \<and> equalFold (valueOf given ''host'') (peHost persona) \<and>
        (let path = trimSuffix (trimChar CHR ''/'' (valueOf given ''path'')) ''.git''
         in path = [] \<or> equalFold path (prRepository project)))"

lemma authorizeGitCredential_Inr:
  assumes "authorizeGitCredential project persona call = Inr c" and "isGitCredentialInvocation call"
  shows "credential_request project persona call \<and> cmCredential c \<and> cmArguments c = []"
proof -
  have guard: "\<not> (length (inArguments call) \<noteq> 3 \<or> inArguments call ! 2 \<noteq> ''get'' \<or> inInput call = [] \<or> 64 * 1024 < length (inInput call))"
    using assms(1) unfolding authorizeGitCredential_def Let_def by (metis (no_types) Inl_Inr_False)
  then obtain given where f: "credentialFields (splitAt (CHR 0x0A) (replaceCRLF (inInput call))) [] = Some given"
    using assms(1) unfolding authorizeGitCredential_def Let_def
    by (cases "credentialFields (splitAt (CHR 0x0A) (replaceCRLF (inInput call))) []") (simp_all split: if_splits)
  define path where "path = trimSuffix (trimChar CHR ''/'' (valueOf given ''path'')) ''.git''"
  have run: "(if valueOf given ''protocol'' \<noteq> ''https'' \<or> \<not> equalFold (valueOf given ''host'') (peHost persona) then Inl CredentialDenied
      else if path \<noteq> [] \<and> \<not> equalFold path (prRepository project) then Inl CredentialDenied
      else Inr \<lparr>cmArguments = [], cmPermission = [], cmCredential = True, cmInteractive = False\<rparr>) = Inr c"
    using assms(1) guard unfolding authorizeGitCredential_def Let_def f path_def by (simp only: if_False option.case)
  then have "valueOf given ''protocol'' = ''https'' \<and> equalFold (valueOf given ''host'') (peHost persona)"
    by (metis (no_types) Inl_Inr_False)
  moreover from this run have "path = [] \<or> equalFold path (prRepository project)"
    by (metis (no_types) Inl_Inr_False)
  moreover from calculation run have "c = \<lparr>cmArguments = [], cmPermission = [], cmCredential = True, cmInteractive = False\<rparr>"
    by (metis (no_types, lifting) Inr_inject)
  ultimately show ?thesis
    using assms(2) guard f unfolding credential_request_def Let_def path_def [symmetric] by (simp add: path_def)
qed

text \<open>What an ordinary command may be: one of the catalogue, its arguments the checked groups, and
  the repository of the project and no other.\<close>

definition catalogue_call :: "project \<Rightarrow> persona \<Rightarrow> invocation \<Rightarrow> gh_command \<Rightarrow> bool" where
  "catalogue_call project persona call c \<longleftrightarrow> (\<exists>s gs.
     map_of catalog (joinWith '' '' (take 2 (inArguments call))) = Some s \<and> cmPermission c = csPermission s \<and>
     cmArguments c = (if cmInteractive c then [''pr'', ''create''] else take 2 (inArguments call)) @ concat gs @ [''--repo'', peHost persona @ ''/'' @ prRepository project] \<and>
     groups_ok (joinWith '' '' (take 2 (inArguments call))) s gs \<and> (cmInteractive c \<longrightarrow> gs = []))"

lemma Authorize_command:
  assumes run: "Authorize project persona call = Inr c"
    and other: "\<not> isGitCredentialInvocation call" "inArguments call ! 0 \<noteq> ''api''"
  shows "catalogue_call project persona call c \<and> Allows (prPolicy project) (cmPermission c) \<and> \<not> cmCredential c"
proof -
  define name where "name = joinWith '' '' (take 2 (inArguments call))"
  obtain s where s: "map_of catalog name = Some s"
    and run2: "(if \<not> Allows (prPolicy project) (csPermission s) then Inl OperationDenied
      else if name = ''pr create'' \<and> length (inArguments call) = 2 then
        Inr \<lparr>cmArguments = [''pr'', ''create'', ''--repo'', peHost persona @ ''/'' @ prRepository project],
             cmPermission = csPermission s, cmCredential = False, cmInteractive = True\<rparr>
      else (case parseArguments project persona name s (drop 2 (inArguments call)) [] (take 2 (inArguments call)) 0 of
              None \<Rightarrow> Inl OperationDenied
            | Some (vals, out, positional) \<Rightarrow>
                if \<not> completeCommand project name s vals positional then Inl OperationDenied
                else Inr \<lparr>cmArguments = out @ [''--repo'', peHost persona @ ''/'' @ prRepository project],
                          cmPermission = csPermission s, cmCredential = False, cmInteractive = False\<rparr>)) = Inr c"
    using run other unfolding Authorize_def Let_def name_def [symmetric]
    by (simp only: if_False split: if_splits option.splits) simp_all
  have allowed: "Allows (prPolicy project) (csPermission s)"
    using run2 by (metis (no_types) Inl_Inr_False)
  show ?thesis
  proof (cases "name = ''pr create'' \<and> length (inArguments call) = 2")
    case True
    then have "c = \<lparr>cmArguments = [''pr'', ''create'', ''--repo'', peHost persona @ ''/'' @ prRepository project],
        cmPermission = csPermission s, cmCredential = False, cmInteractive = True\<rparr>"
      using run2 allowed by (simp only: if_True if_False simp_thms) simp
    then show ?thesis
      using s allowed unfolding catalogue_call_def name_def [symmetric]
      by (intro conjI exI [of _ s] exI [of _ "[]"]) (simp_all add: groups_ok_def)
  next
    case False
    then have run3: "(case parseArguments project persona name s (drop 2 (inArguments call)) [] (take 2 (inArguments call)) 0 of
              None \<Rightarrow> Inl OperationDenied
            | Some (vals, out, positional) \<Rightarrow>
                if \<not> completeCommand project name s vals positional then Inl OperationDenied
                else Inr \<lparr>cmArguments = out @ [''--repo'', peHost persona @ ''/'' @ prRepository project],
                          cmPermission = csPermission s, cmCredential = False, cmInteractive = False\<rparr>) = Inr c"
      using run2 allowed by (simp only: if_True if_False simp_thms)
    then obtain vals out positional where
      p: "parseArguments project persona name s (drop 2 (inArguments call)) [] (take 2 (inArguments call)) 0 = Some (vals, out, positional)"
      by (cases "parseArguments project persona name s (drop 2 (inArguments call)) [] (take 2 (inArguments call)) 0") auto
    then have c: "c = \<lparr>cmArguments = out @ [''--repo'', peHost persona @ ''/'' @ prRepository project],
        cmPermission = csPermission s, cmCredential = False, cmInteractive = False\<rparr>"
      using run3 by (simp split: if_splits)
    obtain gs where "out = take 2 (inArguments call) @ concat gs" "groups_ok name s gs"
      using parseArguments_groups [OF p] by blast
    then show ?thesis
      using s allowed unfolding catalogue_call_def name_def [symmetric] c
      by (intro conjI exI [of _ s] exI [of _ gs]) simp_all
  qed
qed

lemma catalog_permissions: "map_of catalog name = Some s \<Longrightarrow> csPermission s \<in> set RepositoryOperations"
proof -
  have "list_all (\<lambda>(n, s). List.member RepositoryOperations (csPermission s)) catalog" by code_simp
  moreover assume "map_of catalog name = Some s"
  ultimately show ?thesis by (auto simp: list_all_iff dest!: map_of_SomeD)
qed

lemma read_routes: "(verb, path, ''read'', allowed) \<in> set apiRoutes \<Longrightarrow> verb = ''GET''"
proof -
  have "list_all (\<lambda>(m, p, permission, fs). permission \<noteq> ''read'' \<or> m = ''GET'') apiRoutes" by code_simp
  moreover assume "(verb, path, ''read'', allowed) \<in> set apiRoutes"
  ultimately show ?thesis by (auto simp: list_all_iff)
qed

section \<open>Properties\<close>

lemma Authorize_cases:
  assumes "Authorize project persona call = Inr c"
  shows "if cmCredential c then credential_request project persona call \<and> cmArguments c = []
    else Allows (prPolicy project) (cmPermission c) \<and> (rest_call project persona c \<or> catalogue_call project persona call c)"
proof -
  consider (git) "isGitCredentialInvocation call" "authorizeGitCredential project persona call = Inr c"
    | (api) "authorizeAPI project persona call = Inr c"
    | (command) "\<not> isGitCredentialInvocation call" "inArguments call ! 0 \<noteq> ''api''"
    using assms unfolding Authorize_def Let_def by (metis (no_types) Inl_Inr_False)
  then show ?thesis
  proof cases
    case git
    then show ?thesis using authorizeGitCredential_Inr by simp
  next
    case api
    then show ?thesis using authorizeAPI_Inr by simp
  next
    case command
    then show ?thesis using Authorize_command [OF assms] by simp
  qed
qed

text \<open>C7: What an authorised call may do.  A credential request asked for the configured host over
  https, and for the project's repository if it named one.  Every other call has a permission that
  the project's policy allows, and is either a REST call inside the project's repository, on the
  persona's host, to one of the listed routes and with that route's fields, or a command of the
  catalogue whose arguments are flags of that command and selectors, naming the project's repository
  and no other.  A REST call has no further arguments than these fields and an output format.\<close>

theorem authorize_confined:
  assumes "Authorize project persona call = Inr c"
  shows "if cmCredential c then credential_request project persona call \<and> cmArguments c = []
    else Allows (prPolicy project) (cmPermission c) \<and> (rest_call project persona c \<or> catalogue_call project persona call c)"
  by (rule Authorize_cases [OF assms])

definition merge_call :: invocation where
  "merge_call = \<lparr>inArguments = [''pr'', ''merge'', ''12'', ''--squash'', ''--repo=O/R''], inInput = []\<rparr>"

theorem authorize_confined_witness:
  "\<exists>c. Authorize sample_project sample_persona merge_call = Inr c \<and>
    cmArguments c = [''pr'', ''merge'', ''12'', ''--squash'', ''--repo'', ''github.com/o/r''] \<and>
    Allows (prPolicy sample_project) (cmPermission c)"
proof -
  let ?name = "joinWith '' '' (take 2 (inArguments merge_call))"
  let ?s = "spec ''merge'' ''match-head-commit'' ''merge,squash,rebase,auto,disable-auto'' True"
  have guard: "\<not> (1024 * 1024 < length (inInput merge_call) \<or> length (inArguments merge_call) < 2 \<or> 256 < length (inArguments merge_call))"
    "\<not> list_ex (\<lambda>arg. 1024 * 1024 < length arg \<or> List.member arg (CHR 0x00)) (inArguments merge_call)"
    by (simp_all add: merge_call_def)
  have route: "\<not> isGitCredentialInvocation merge_call" "inArguments merge_call ! 0 \<noteq> ''api''"
    "map_of catalog ?name = Some ?s" "Allows (prPolicy sample_project) (csPermission ?s)"
    "\<not> (?name = ''pr create'' \<and> length (inArguments merge_call) = 2)"
    by code_simp+
  have parse: "parseArguments sample_project sample_persona ?name ?s (drop 2 (inArguments merge_call)) []
      (take 2 (inArguments merge_call)) 0 = Some ([(''squash'', ''true''), (''repo'', ''O/R'')], [''pr'', ''merge'', ''12'', ''--squash''], 1)"
    by code_simp
  have complete: "completeCommand sample_project ?name ?s [(''squash'', ''true''), (''repo'', ''O/R'')] 1"
    by code_simp
  have "Authorize sample_project sample_persona merge_call = Inr \<lparr>cmArguments =
      [''pr'', ''merge'', ''12'', ''--squash''] @ [''--repo'', peHost sample_persona @ ''/'' @ prRepository sample_project],
      cmPermission = csPermission ?s, cmCredential = False, cmInteractive = False\<rparr>"
    using guard route parse complete unfolding Authorize_def Let_def
    by (simp only: if_False if_True option.case prod.case not_True_eq_False)
  moreover have "peHost sample_persona = ''github.com''" "prRepository sample_project = ''o/r''"
    by (simp_all add: sample_persona_def sample_project_def)
  ultimately have "Authorize sample_project sample_persona merge_call = Inr \<lparr>cmArguments =
      [''pr'', ''merge'', ''12'', ''--squash'', ''--repo'', ''github.com/o/r''],
      cmPermission = csPermission ?s, cmCredential = False, cmInteractive = False\<rparr>" by simp
  from authorize_confined [OF this] this show ?thesis by simp
qed

text \<open>Under the preset \<open>read-only\<close> without exceptions every authorised call that is not a
  credential request only reads: its permission is \<open>read\<close>, and a REST call uses the verb GET.\<close>

theorem read_only_reads:
  assumes "Authorize project persona call = Inr c" and "polPreset (prPolicy project) = ''read-only''"
    and "polExceptions (prPolicy project) = []" and "cmCredential c = False"
  shows "cmPermission c = ''read'' \<and> (catalogue_call project persona call c \<or>
    (rest_call project persona c \<and> take 2 (drop 4 (cmArguments c)) = [''--method'', ''GET'']))"
proof -
  have al: "Allows (prPolicy project) (cmPermission c)"
    and alt: "rest_call project persona c \<or> catalogue_call project persona call c"
    using Authorize_cases [OF assms(1)] assms(4) by simp_all
  from al have read: "cmPermission c = ''read''"
    using assms(2,3) by (simp add: Allows_def split: if_splits)
  have "take 2 (drop 4 (cmArguments c)) = [''--method'', ''GET'']" if rest: "rest_call project persona c"
  proof -
    obtain sub verb allowed given format where r: "(verb, routePath (trimPrefix sub ''/''), ''read'', allowed) \<in> set apiRoutes"
      and args: "cmArguments c = [''api'', ''repos/'' @ prRepository project @ sub, ''--hostname'', peHost persona, ''--method'', verb]
       @ concat (map (\<lambda>f. [''--raw-field'', f]) given) @ format"
      using rest unfolding rest_call_def read by blast
    have "verb = ''GET''" by (rule read_routes [OF r])
    then show ?thesis unfolding args by simp
  qed
  with read alt show ?thesis by blast
qed

definition read_project :: project where
  "read_project = sample_project\<lparr>prPolicy := \<lparr>polPreset = ''read-only'', polExceptions = []\<rparr>\<rparr>"

text \<open>A read of one issue, given by its selector.\<close>

definition issue_call :: "string \<Rightarrow> invocation" where
  "issue_call selector = \<lparr>inArguments = [''api'', ''repos/o/r/issues/'' @ selector], inInput = []\<rparr>"

lemma issue_call_authorized:
  assumes "selector = ''7'' \<or> selector = ''#''" and "project = read_project \<or> project = sample_project"
  shows "Authorize project sample_persona (issue_call selector) = Inr
    \<lparr>cmArguments = [''api'', ''repos/o/r/issues/'' @ selector, ''--hostname'', ''github.com'', ''--method'', ''GET''],
     cmPermission = ''read'', cmCredential = False, cmInteractive = False\<rparr>"
proof -
  have guard: "\<not> (1024 * 1024 < length (inInput (issue_call selector)) \<or> length (inArguments (issue_call selector)) < 2
      \<or> 256 < length (inArguments (issue_call selector)))"
    "\<not> list_ex (\<lambda>arg. 1024 * 1024 < length arg \<or> List.member arg (CHR 0x00)) (inArguments (issue_call selector))"
    using assms by (auto simp: issue_call_def)
  have route: "\<not> isGitCredentialInvocation (issue_call selector)" "inArguments (issue_call selector) ! 0 = ''api''"
    by (simp_all add: issue_call_def isGitCredentialInvocation_def)
  have "authorizeAPI sample_project sample_persona (issue_call ''7'') = Inr
      \<lparr>cmArguments = [''api'', ''repos/o/r/issues/7'', ''--hostname'', ''github.com'', ''--method'', ''GET''],
       cmPermission = ''read'', cmCredential = False, cmInteractive = False\<rparr>"
    "authorizeAPI sample_project sample_persona (issue_call ''#'') = Inr
      \<lparr>cmArguments = [''api'', ''repos/o/r/issues/#'', ''--hostname'', ''github.com'', ''--method'', ''GET''],
       cmPermission = ''read'', cmCredential = False, cmInteractive = False\<rparr>"
    "authorizeAPI read_project sample_persona (issue_call ''7'') = authorizeAPI sample_project sample_persona (issue_call ''7'')"
    "authorizeAPI read_project sample_persona (issue_call ''#'') = authorizeAPI sample_project sample_persona (issue_call ''#'')"
    by code_simp+
  moreover have "Authorize project sample_persona (issue_call selector) = authorizeAPI project sample_persona (issue_call selector)"
    using guard route unfolding Authorize_def Let_def by (simp only: if_False if_True simp_thms)
  ultimately show ?thesis using assms by auto
qed

theorem read_only_reads_witness:
  "\<exists>c. Authorize read_project sample_persona (issue_call ''7'') = Inr c \<and> cmPermission c = ''read''"
proof -
  note call = issue_call_authorized [OF disjI1 [OF refl] disjI1 [OF refl]]
  have "polPreset (prPolicy read_project) = ''read-only''" "polExceptions (prPolicy read_project) = []"
    by (simp_all add: read_project_def)
  from read_only_reads [OF call this] call show ?thesis by auto
qed

text \<open>The selectors of the REST routes are meant to be numbers, but the placeholder of the route
  table is itself accepted: the path segment \<open>#\<close>, which is no number, passes as an issue number.\<close>

theorem placeholder_accepted:
  "\<exists>c. Authorize read_project sample_persona (issue_call ''#'') = Inr c \<and> \<not> numeric ''#''"
  using issue_call_authorized [OF disjI2 [OF refl] disjI1 [OF refl]] by (simp add: numeric_def digit_def charCode_def)

end
