(* ===== verification/SecretFilter.thy ===== *)
theory SecretFilter
  imports Prelude
begin

text \<open>
  The redaction of a credential in the output of the original GitHub CLI (\<open>secretFilter\<close> and
  \<open>limitedBuffer\<close> in \<open>internal/identity/executor.go\<close>).  The filter keeps a possible partial match
  across writes; the writer behind it is a sink that may fail after some number of writes.
\<close>

section \<open>Sinks and the limited buffer\<close>

text \<open>\<open>sinkBudget\<close>: how many more writes succeed, or no limit.\<close>

record sink =
  sinkData :: bytes
  sinkBudget :: "nat option"

definition sinkWrite :: "sink \<Rightarrow> bytes \<Rightarrow> sink \<times> bool" where
  "sinkWrite s p =
     (case sinkBudget s of
        None \<Rightarrow> (s\<lparr>sinkData := sinkData s @ p\<rparr>, True)
      | Some 0 \<Rightarrow> (s, False)
      | Some (Suc n) \<Rightarrow> (s\<lparr>sinkData := sinkData s @ p, sinkBudget := Some n\<rparr>, True))"

definition limitedWrite :: "nat \<Rightarrow> bytes \<Rightarrow> bytes \<Rightarrow> bytes option" where
  "limitedWrite limit buffer p = (if limit < length buffer + length p then None else Some (buffer @ p))"

text \<open>A sequence of writes; the copy stops at the first one that fails.\<close>

fun limitedWrites :: "nat \<Rightarrow> bytes \<Rightarrow> bytes list \<Rightarrow> bytes option" where
  "limitedWrites limit buffer [] = Some buffer"
| "limitedWrites limit buffer (p # ps) =
     (case limitedWrite limit buffer p of None \<Rightarrow> None | Some b \<Rightarrow> limitedWrites limit b ps)"

section \<open>The filter\<close>

record secret_filter =
  fWriter :: sink
  fSecret :: bytes
  fPending :: bytes

definition newSecretFilter :: "sink \<Rightarrow> bytes \<Rightarrow> secret_filter" where
  "newSecretFilter w secret = \<lparr>fWriter = w, fSecret = secret, fPending = []\<rparr>"

definition marker :: bytes where
  "marker = ''[credential redacted]''"

fun indexOf :: "bytes \<Rightarrow> bytes \<Rightarrow> nat option" where
  "indexOf [] p = (if p = [] then Some 0 else None)"
| "indexOf (c # s) p = (if hasPrefix (c # s) p then Some 0 else map_option Suc (indexOf s p))"

text \<open>One round of the loop of \<open>Write\<close>, entered with at least as many pending bytes as the secret
  has: the filter afterwards and whether the writes succeeded.\<close>

definition filterRound :: "secret_filter \<Rightarrow> secret_filter \<times> bool" where
  "filterRound f =
     (case indexOf (fPending f) (fSecret f) of
        Some m \<Rightarrow>
          (case (if 0 < m then sinkWrite (fWriter f) (take m (fPending f)) else (fWriter f, True)) of
             (w1, False) \<Rightarrow> (f\<lparr>fWriter := w1\<rparr>, False)
           | (w1, True) \<Rightarrow>
               (case sinkWrite w1 marker of
                  (w2, False) \<Rightarrow> (f\<lparr>fWriter := w2\<rparr>, False)
                | (w2, True) \<Rightarrow> (f\<lparr>fWriter := w2, fPending := drop (m + length (fSecret f)) (fPending f)\<rparr>, True)))
      | None \<Rightarrow>
          (let count = length (fPending f) - length (fSecret f) + 1
           in case sinkWrite (fWriter f) (take count (fPending f)) of
                (w1, False) \<Rightarrow> (f\<lparr>fWriter := w1\<rparr>, False)
              | (w1, True) \<Rightarrow> (f\<lparr>fWriter := w1, fPending := drop count (fPending f)\<rparr>, True)))"

lemma indexOf_bound: "indexOf s p = Some m \<Longrightarrow> m + length p \<le> length s"
  by (induction s p arbitrary: m rule: indexOf.induct) (auto simp: hasPrefix_iff dest: prefix_length_le split: if_splits)

lemma filterRound_secret: "fSecret (fst (filterRound f)) = fSecret f"
  by (simp add: filterRound_def Let_def split: option.split prod.split bool.split)

lemma filterRound_less:
  assumes "filterRound f = (f', True)" and "fSecret f \<noteq> []" and "length (fSecret f) \<le> length (fPending f)"
  shows "length (fPending f') < length (fPending f)"
proof -
  obtain c cs where "fSecret f = c # cs" using assms(2) by (cases "fSecret f") auto
  then show ?thesis
    using assms(1,3) indexOf_bound [of "fPending f" "fSecret f"]
    by (auto simp: filterRound_def Let_def split: option.splits prod.splits bool.splits if_splits)
qed

text \<open>An empty secret would match for ever: the marker is written until the sink fails.\<close>

function filterLoop :: "secret_filter \<Rightarrow> (secret_filter, secret_filter) outcome" where
  "filterLoop f =
     (if length (fPending f) < length (fSecret f) then Return f
      else if fSecret f = [] then
        (case sinkBudget (fWriter f) of
           None \<Rightarrow> Diverge
         | Some n \<Rightarrow> Error (f\<lparr>fWriter := \<lparr>sinkData = sinkData (fWriter f) @ concat (replicate n marker), sinkBudget = Some 0\<rparr>\<rparr>))
      else (case filterRound f of
              (f', False) \<Rightarrow> Error f'
            | (f', True) \<Rightarrow> filterLoop f'))"
  by auto
termination
  by (relation "measure (\<lambda>f. length (fPending f))") (auto simp: not_less dest!: sym [of "(_, _)"] filterRound_less)

definition filterWrite :: "secret_filter \<Rightarrow> bytes \<Rightarrow> (secret_filter, secret_filter) outcome" where
  "filterWrite f p = filterLoop (f\<lparr>fPending := fPending f @ p\<rparr>)"

definition filterFlush :: "secret_filter \<Rightarrow> secret_filter \<times> bool" where
  "filterFlush f =
     (case sinkWrite (fWriter f) (fPending f) of (w, ok) \<Rightarrow> (f\<lparr>fWriter := w, fPending := []\<rparr>, ok))"

text \<open>The writes of the process; the copy stops at the first one that fails.\<close>

fun filterWrites :: "secret_filter \<Rightarrow> bytes list \<Rightarrow> (secret_filter, secret_filter) outcome" where
  "filterWrites f [] = Return f"
| "filterWrites f (p # ps) = bind_outcome (filterWrite f p) (\<lambda>f'. filterWrites f' ps)"

section \<open>The abstract redaction\<close>

function redact :: "bytes \<Rightarrow> bytes \<Rightarrow> bytes" where
  "redact secret [] = []"
| "redact secret (c # s) =
     (if secret \<noteq> [] \<and> hasPrefix (c # s) secret then marker @ redact secret (drop (length secret) (c # s))
      else c # redact secret s)"
  by pat_completeness auto
termination
  by (relation "measure (\<lambda>(secret, s). length s)") (auto simp: length_greater_0_conv Suc_le_eq)

lemma redact_skip:
  "\<forall>i<k. \<not> hasPrefix (drop i s) secret \<Longrightarrow> k \<le> length s \<Longrightarrow> redact secret s = take k s @ redact secret (drop k s)"
proof (induction k arbitrary: s)
  case 0
  then show ?case by simp
next
  case (Suc k)
  then obtain c t where s: "s = c # t" by (cases s) auto
  have "\<not> hasPrefix s secret" using Suc.prems(1) by (metis drop0 zero_less_Suc)
  moreover have "\<forall>i<k. \<not> hasPrefix (drop i t) secret" using Suc.prems(1) s by (metis Suc_less_eq drop_Suc_Cons)
  ultimately show ?case using Suc.IH [of t] Suc.prems(2) s by simp
qed

lemma redact_match:
  "secret \<noteq> [] \<Longrightarrow> hasPrefix s secret \<Longrightarrow> redact secret s = marker @ redact secret (drop (length secret) s)"
  by (cases s) (auto simp: hasPrefix_iff)

lemma redact_short: "length s < length secret \<Longrightarrow> redact secret s = s"
  by (induction s) (auto simp: hasPrefix_iff dest: prefix_length_le)

lemma indexOf_Some: "indexOf s p = Some m \<Longrightarrow> hasPrefix (drop m s) p \<and> (\<forall>i<m. \<not> hasPrefix (drop i s) p)"
proof (induction s p arbitrary: m rule: indexOf.induct)
  case (2 c s p)
  then show ?case by (auto split: if_splits simp: less_Suc_eq_0_disj)
qed (auto split: if_splits)

lemma indexOf_None: "indexOf s p = None \<Longrightarrow> i \<le> length s \<Longrightarrow> \<not> hasPrefix (drop i s) p"
proof (induction s p arbitrary: i rule: indexOf.induct)
  case (1 p)
  then show ?case by (auto simp: hasPrefix_iff split: if_splits)
next
  case (2 c s p)
  then show ?case by (cases i) (auto split: if_splits)
qed

lemma hasPrefix_append_long: "length p \<le> length s \<Longrightarrow> hasPrefix (s @ t) p = hasPrefix s p"
  by (simp add: hasPrefix_def)

section \<open>The filter is the redaction\<close>

lemma redact_index_Some:
  assumes "indexOf s secret = Some m" and "secret \<noteq> []"
  shows "redact secret (s @ t) = take m s @ marker @ redact secret (drop (m + length secret) s @ t)"
proof -
  have b: "m + length secret \<le> length s" by (rule indexOf_bound [OF assms(1)])
  have at: "hasPrefix (drop m (s @ t)) secret" "\<forall>i<m. \<not> hasPrefix (drop i (s @ t)) secret"
    using indexOf_Some [OF assms(1)] b by (auto simp: hasPrefix_append_long)
  have "redact secret (s @ t) = take m (s @ t) @ redact secret (drop m (s @ t))"
    by (rule redact_skip) (use at b in auto)
  also have "redact secret (drop m (s @ t)) = marker @ redact secret (drop (length secret) (drop m (s @ t)))"
    by (rule redact_match [OF assms(2) at(1)])
  finally show ?thesis using b by (simp add: add.commute)
qed

lemma redact_index_None:
  assumes "indexOf s secret = None" and "secret \<noteq> []" and "length secret \<le> length s"
  shows "redact secret (s @ t) = take (length s - length secret + 1) s @ redact secret (drop (length s - length secret + 1) s @ t)"
proof -
  let ?k = "length s - length secret + 1"
  have k: "?k \<le> length s" using assms(2,3) by (cases secret) auto
  have "redact secret (s @ t) = take ?k (s @ t) @ redact secret (drop ?k (s @ t))"
  proof (rule redact_skip, intro allI impI)
    fix i assume "i < ?k"
    then have i: "i + length secret \<le> length s" using assms(3) by simp
    then show "\<not> hasPrefix (drop i (s @ t)) secret"
      using indexOf_None [OF assms(1), of i] by (simp add: hasPrefix_append_long)
  qed (use k in simp)
  then show ?thesis using k by simp
qed

lemma sinkWrite_data: "sinkWrite w p = (w', True) \<Longrightarrow> sinkData w' = sinkData w @ p"
  by (auto simp: sinkWrite_def split: option.splits nat.splits)

lemma filterRound_redact:
  assumes "filterRound f = (f', True)" and "fSecret f \<noteq> []" and "length (fSecret f) \<le> length (fPending f)"
  shows "sinkData (fWriter f') @ redact (fSecret f) (fPending f' @ t) = sinkData (fWriter f) @ redact (fSecret f) (fPending f @ t)
    \<and> fSecret f' = fSecret f"
proof (cases "indexOf (fPending f) (fSecret f)")
  case None
  then obtain w1 where w: "sinkWrite (fWriter f) (take (length (fPending f) - length (fSecret f) + 1) (fPending f)) = (w1, True)"
    and f': "f' = f\<lparr>fWriter := w1, fPending := drop (length (fPending f) - length (fSecret f) + 1) (fPending f)\<rparr>"
    using assms(1) by (auto simp: filterRound_def Let_def split: prod.splits bool.splits)
  show ?thesis
    unfolding redact_index_None [OF None assms(2,3)] f' using sinkWrite_data [OF w] by simp
next
  case (Some m)
  then obtain w1 w2 where w1: "(if 0 < m then sinkWrite (fWriter f) (take m (fPending f)) else (fWriter f, True)) = (w1, True)"
    and w2: "sinkWrite w1 marker = (w2, True)"
    and f': "f' = f\<lparr>fWriter := w2, fPending := drop (m + length (fSecret f)) (fPending f)\<rparr>"
    using assms(1) by (auto simp: filterRound_def Let_def split: prod.splits bool.splits)
  have "sinkData w1 = sinkData (fWriter f) @ take m (fPending f)"
    using w1 sinkWrite_data by (cases "0 < m") auto
  then show ?thesis
    unfolding redact_index_Some [OF Some assms(2)] f' using sinkWrite_data [OF w2] by simp
qed

declare filterLoop.simps [simp del]

lemma filterLoop_redact:
  "filterLoop f = Return f' \<Longrightarrow> fSecret f \<noteq> [] \<Longrightarrow>
   sinkData (fWriter f') @ redact (fSecret f) (fPending f' @ t) = sinkData (fWriter f) @ redact (fSecret f) (fPending f @ t)
   \<and> fSecret f' = fSecret f \<and> length (fPending f') < length (fSecret f)"
proof (induction f rule: filterLoop.induct)
  case (1 f)
  show ?case
  proof (cases "length (fPending f) < length (fSecret f)")
    case True
    then show ?thesis using 1(2) by (simp add: filterLoop.simps)
  next
    case False
    obtain f1 where r: "filterRound f = (f1, True)" and l: "filterLoop f1 = Return f'"
      using 1(2,3) False by (cases "filterRound f"; cases "snd (filterRound f)") (auto simp: filterLoop.simps [of f])
    note step = filterRound_redact [OF r 1(3), of t] False
    then show ?thesis
      using 1(1) [OF False 1(3) r [symmetric] refl l] 1(3) by simp
  qed
qed

lemma filterWrites_redact:
  "filterWrites f ps = Return f' \<Longrightarrow> fSecret f \<noteq> [] \<Longrightarrow> length (fPending f) < length (fSecret f) \<Longrightarrow>
   sinkData (fWriter f') @ redact (fSecret f) (fPending f' @ t) = sinkData (fWriter f) @ redact (fSecret f) (fPending f @ concat ps @ t)
   \<and> fSecret f' = fSecret f \<and> length (fPending f') < length (fSecret f)"
proof (induction ps arbitrary: f)
  case Nil
  then show ?case by simp
next
  case (Cons p ps)
  obtain f1 where w: "filterLoop (f\<lparr>fPending := fPending f @ p\<rparr>) = Return f1" and rest: "filterWrites f1 ps = Return f'"
    using Cons.prems(1) by (cases "filterWrite f p") (auto simp: filterWrite_def)
  have l: "sinkData (fWriter f1) @ redact (fSecret f) (fPending f1 @ u)
      = sinkData (fWriter f) @ redact (fSecret f) (fPending f @ p @ u)
    \<and> fSecret f1 = fSecret f \<and> length (fPending f1) < length (fSecret f)" for u
    using filterLoop_redact [OF w, of u] Cons.prems(2) by simp
  then have s: "fSecret f1 = fSecret f" "length (fPending f1) < length (fSecret f1)" by simp_all
  show ?case using Cons.IH [OF rest] s Cons.prems(2) l [of "concat ps @ t"] by simp
qed

text \<open>With a sink that does not fail, neither do the writes, and they end.\<close>

lemma filterRound_Return:
  "sinkBudget (fWriter f) = None \<Longrightarrow> snd (filterRound f) \<and> sinkBudget (fWriter (fst (filterRound f))) = None"
  by (cases "indexOf (fPending f) (fSecret f)") (simp_all add: filterRound_def Let_def sinkWrite_def)

lemma filterLoop_Return:
  "fSecret f \<noteq> [] \<Longrightarrow> sinkBudget (fWriter f) = None \<Longrightarrow> \<exists>f'. filterLoop f = Return f' \<and> sinkBudget (fWriter f') = None"
proof (induction f rule: filterLoop.induct)
  case (1 f)
  show ?case
  proof (cases "length (fPending f) < length (fSecret f)")
    case True
    then show ?thesis using 1 by (simp add: filterLoop.simps)
  next
    case False
    obtain f1 where r: "filterRound f = (f1, True)" and b: "sinkBudget (fWriter f1) = None"
      using filterRound_Return [OF 1(3)] by (cases "filterRound f") auto
    have "fSecret f1 = fSecret f" using filterRound_secret [of f] r by simp
    then have "\<exists>f'. filterLoop f1 = Return f' \<and> sinkBudget (fWriter f') = None"
      using 1(1) [OF False 1(2) r [symmetric] refl] 1(2) b by simp
    then show ?thesis using False 1(2) r by (simp add: filterLoop.simps [of f])
  qed
qed

lemma filterWrites_Return:
  "fSecret f \<noteq> [] \<Longrightarrow> sinkBudget (fWriter f) = None \<Longrightarrow> length (fPending f) < length (fSecret f) \<Longrightarrow>
   \<exists>f'. filterWrites f ps = Return f' \<and> sinkBudget (fWriter f') = None"
proof (induction ps arbitrary: f)
  case Nil
  then show ?case by simp
next
  case (Cons p ps)
  obtain f1 where w: "filterLoop (f\<lparr>fPending := fPending f @ p\<rparr>) = Return f1" and b: "sinkBudget (fWriter f1) = None"
    using filterLoop_Return [of "f\<lparr>fPending := fPending f @ p\<rparr>"] Cons.prems by auto
  have "fSecret f1 = fSecret f" "length (fPending f1) < length (fSecret f)"
    using filterLoop_redact [OF w, of "[]"] Cons.prems(1) by simp_all
  then show ?case using Cons.IH [of f1] Cons.prems b w by (simp add: filterWrite_def)
qed

text \<open>The complete run of a filter over the writes of a process.\<close>

definition filtered :: "bytes \<Rightarrow> bytes list \<Rightarrow> (secret_filter, bytes) outcome" where
  "filtered secret ps =
     bind_outcome (filterWrites (newSecretFilter \<lparr>sinkData = [], sinkBudget = None\<rparr> secret) ps)
       (\<lambda>f. Return (sinkData (fWriter (fst (filterFlush f)))))"

lemma filtered_redact:
  assumes "secret \<noteq> []"
  shows "filtered secret ps = Return (redact secret (concat ps))"
proof -
  let ?f = "newSecretFilter \<lparr>sinkData = [], sinkBudget = None\<rparr> secret"
  obtain f' where f': "filterWrites ?f ps = Return f'" "sinkBudget (fWriter f') = None"
    using filterWrites_Return [of ?f ps] assms by (auto simp: newSecretFilter_def)
  have r: "sinkData (fWriter f') @ redact secret (fPending f' @ []) = redact secret (concat ps @ [])"
    "length (fPending f') < length secret"
    using filterWrites_redact [OF f'(1), of "[]"] assms by (auto simp: newSecretFilter_def)
  then have "sinkData (fWriter f') @ fPending f' = redact secret (concat ps)"
    by (simp add: redact_short)
  then show ?thesis
    using f' by (simp add: filtered_def filterFlush_def sinkWrite_def)
qed

section \<open>The redaction hides the secret\<close>

lemma redact_plain_prefix:
  "prefix p (redact secret s) \<Longrightarrow> CHR ''['' \<notin> set p \<Longrightarrow> prefix p s"
proof (induction secret s arbitrary: p rule: redact.induct)
  case (1 secret)
  then show ?case by simp
next
  case (2 secret c s)
  show ?case
  proof (cases "secret \<noteq> [] \<and> hasPrefix (c # s) secret")
    case True
    then have "prefix p (marker @ redact secret (drop (length secret) (c # s)))" using "2.prems"(1) by simp
    then show ?thesis using "2.prems"(2) by (cases p) (auto simp: marker_def)
  next
    case False
    then have p: "prefix p (c # redact secret s)" using "2.prems"(1) by (simp only: redact.simps if_False)
    show ?thesis
    proof (cases p)
      case (Cons x q)
      then have "x = c" "prefix q (redact secret s)" using p by auto
      with "2.IH"(2) [OF False, of q] "2.prems"(2) Cons show ?thesis by simp
    qed simp
  qed
qed

lemma sublist_split:
  assumes "sublist x (a @ CHR '']'' # b)" and "CHR '']'' \<notin> set x"
  shows "sublist x a \<or> sublist x b"
proof -
  have "sublist x a \<or> sublist x (CHR '']'' # b) \<or> (\<exists>x1 x2. x = x1 @ x2 \<and> suffix x1 a \<and> prefix x2 (CHR '']'' # b))"
    using assms(1) by (simp add: sublist_append)
  then show ?thesis
  proof (elim disjE exE conjE)
    assume "sublist x (CHR '']'' # b)"
    then show ?thesis using assms(2) by (auto simp: sublist_Cons_right prefix_Cons)
  next
    fix x1 x2 assume "x = x1 @ x2" "suffix x1 a" "prefix x2 (CHR '']'' # b)"
    then have "x2 = []" using assms(2) by (auto simp: prefix_Cons)
    with \<open>x = x1 @ x2\<close> \<open>suffix x1 a\<close> show ?thesis by (simp add: suffix_imp_sublist)
  qed blast
qed

lemma redact_hides:
  assumes "secret \<noteq> []" and "CHR ''['' \<notin> set secret" and "CHR '']'' \<notin> set secret" and "\<not> contains marker secret"
  shows "\<not> sublist secret (redact secret s)"
proof (induction "length s" arbitrary: s rule: less_induct)
  case less
  show ?case
  proof (cases s)
    case Nil
    then show ?thesis using assms(1) by simp
  next
    case (Cons c t)
    show ?thesis
    proof (cases "hasPrefix s secret")
      case True
      let ?rest = "redact secret (drop (length secret) s)"
      have "length (drop (length secret) s) < length s" using assms(1) Cons by simp
      then have ih: "\<not> sublist secret ?rest" by (rule less)
      have m: "marker @ ?rest = ''[credential redacted'' @ CHR '']'' # ?rest" by (simp add: marker_def)
      have "sublist secret marker" if sub: "sublist secret ''[credential redacted''"
      proof -
        obtain ps ss where "''[credential redacted'' = ps @ secret @ ss" using sub by (auto simp: sublist_def)
        then have "marker = ps @ secret @ (ss @ '']'')"
          unfolding marker_def by (metis append.assoc append_Cons append_Nil)
        then show ?thesis by (auto simp: sublist_def)
      qed
      then have "\<not> sublist secret ''[credential redacted''" using assms(4) by (auto simp: contains_iff)
      then have "\<not> sublist secret (marker @ ?rest)"
        using sublist_split assms(3) ih unfolding m by blast
      then show ?thesis using redact_match [OF assms(1) True] by simp
    next
      case False
      then have r: "redact secret s = c # redact secret t" using Cons by simp
      have ih: "\<not> sublist secret (redact secret t)" using less Cons by simp
      have "\<not> prefix secret (redact secret s)"
        using redact_plain_prefix [OF _ assms(2)] False by (auto simp: hasPrefix_iff)
      then show ?thesis using r ih by (simp add: sublist_Cons_right)
    qed
  qed
qed

section \<open>Properties\<close>

text \<open>C8: Redaction.  For every non-empty credential and however the output is cut into writes, the
  filter neither loops nor fails, and what arrives is the whole output with every leftmost occurrence of
  the credential replaced by the marker; and a credential without square brackets that is not part
  of the marker (every GitHub token) does not occur in what arrives.\<close>

theorem redaction_complete:
  assumes "secret \<noteq> []"
  shows "filtered secret ps = Return (redact secret (concat ps)) \<and>
    (CHR ''['' \<notin> set secret \<and> CHR '']'' \<notin> set secret \<and> \<not> contains marker secret \<longrightarrow>
       \<not> contains (redact secret (concat ps)) secret)"
  using filtered_redact [OF assms] redact_hides [OF assms] by (simp add: contains_iff)

theorem redaction_complete_witness:
  "filtered ''ghp_x'' [''token gh'', ''p_x and g'', ''hp''] = Return ''token [credential redacted] and ghp''"
proof -
  have "redact ''ghp_x'' (concat [''token gh'', ''p_x and g'', ''hp'']) = ''token [credential redacted] and ghp''"
    by code_simp
  with redaction_complete [of "''ghp_x''" "[''token gh'', ''p_x and g'', ''hp'']"] show ?thesis by simp
qed

end
