(* ===== verification/Executor.thy ===== *)
theory Executor
  imports Catalog SecretFilter
begin

text \<open>
  The execution of an authorised GitHub CLI call in \<open>internal/identity/executor.go\<close>: the checks on
  the original executable, the environments, the lookup and verification of the credential, the
  run and its redacted output.  What the operating system knows is the record \<open>os_view\<close>; running
  a program is the argument \<open>exec\<close>, which gives the writes of the program (to standard output or
  not) and how it ended.  The system is Linux.
\<close>

section \<open>Running programs\<close>

record exec_request =
  exPath :: string
  exArguments :: "string list"
  exEnv :: "string list option"  \<comment> \<open>none: the daemon's own\<close>
  exDir :: string
  exStdin :: bytes

datatype run_end = EndOK | EndExit int | EndOther

type_synonym exec = "exec_request \<Rightarrow> (bool \<times> bytes) list \<times> run_end"

record os_view =
  osLookupEnv :: "string \<Rightarrow> string option"
  osEvalSymlinks :: "string \<Rightarrow> string option"
  osRegular :: "string \<Rightarrow> bool"
  osIsSelf :: "string \<Rightarrow> bool"
  osLookPath :: "string \<Rightarrow> string option"  \<comment> \<open>made absolute\<close>
  osMkdirTemp :: "string \<Rightarrow> string option"
  osProtect :: "string \<Rightarrow> bool"
  osContextDone :: bool

datatype exec_error =
  NotAuthorized denied | NeedsTerminal
| GHNotAbsolute | GHUnavailable | GHNotRegular | GHIsProxy | GHIsDovik
| AuthenticationUnavailable | InvalidCredential | NoPrivateDirectory | NotProtected
| VerificationFailed | CredentialOutputClosed | OutputClosed | ExecutionCanceled | NotExecuted

definition writesTo :: "bool \<Rightarrow> (bool \<times> bytes) list \<Rightarrow> bytes list" where
  "writesTo stdout ws = map snd (filter (\<lambda>(b, p). b = stdout) ws)"

text \<open>A program whose standard output goes to a \<open>limitedBuffer\<close>: the buffer, and whether
  \<open>Run\<close> reports no error.\<close>

fun limitedOutput :: "nat \<Rightarrow> bytes \<Rightarrow> bytes list \<Rightarrow> bytes \<times> bool" where
  "limitedOutput limit buffer [] = (buffer, True)"
| "limitedOutput limit buffer (p # ps) =
     (case limitedWrite limit buffer p of None \<Rightarrow> (buffer, False) | Some b \<Rightarrow> limitedOutput limit b ps)"

definition runLimited :: "exec \<Rightarrow> nat \<Rightarrow> exec_request \<Rightarrow> bytes \<times> bool" where
  "runLimited exec limit req =
     (case exec req of (ws, fin) \<Rightarrow>
        (case limitedOutput limit [] (writesTo True ws) of (b, ok) \<Rightarrow> (b, ok \<and> fin = EndOK)))"

section \<open>Environments\<close>

definition operatorKeys :: "string list" where
  "operatorKeys = [''SystemRoot'', ''WINDIR'', ''HOME'', ''USERPROFILE'', ''LOCALAPPDATA'', ''APPDATA'', ''XDG_CONFIG_HOME'',
     ''XDG_RUNTIME_DIR'', ''DBUS_SESSION_BUS_ADDRESS'', ''GH_CONFIG_DIR'', ''TEMP'', ''TMP'', ''LANG'', ''LC_ALL'']"

definition operatorEnvironment :: "os_view \<Rightarrow> string list" where
  "operatorEnvironment os = concat (map (\<lambda>key. case osLookupEnv os key of
      None \<Rightarrow> [] | Some v \<Rightarrow> [key @ ''='' @ v]) operatorKeys)"

definition trustedExecutableDirectory :: "os_view \<Rightarrow> string \<Rightarrow> string" where
  "trustedExecutableDirectory os name =
     (case osLookPath os name of
        None \<Rightarrow> []
      | Some path \<Rightarrow>
          (case osEvalSymlinks os path of
             None \<Rightarrow> []
           | Some p \<Rightarrow> if osRegular os p then dirPath p else []))"

definition commandEnvironment :: "os_view \<Rightarrow> string \<Rightarrow> persona \<Rightarrow> string \<Rightarrow> string list" where
  "commandEnvironment os directory persona token =
     [''HOME='' @ directory, ''USERPROFILE='' @ directory, ''GH_CONFIG_DIR='' @ directory, ''XDG_CONFIG_HOME='' @ directory,
      ''GH_HOST='' @ peHost persona, ''GH_PROMPT_DISABLED=1'', ''GH_NO_UPDATE_NOTIFIER=1'',
      ''GH_NO_EXTENSION_UPDATE_NOTIFIER=1'', ''GH_PAGER=cat'', ''NO_COLOR=1'', ''GIT_CONFIG_NOSYSTEM=1'',
      ''GIT_CONFIG_GLOBAL=/dev/null'', ''GIT_TERMINAL_PROMPT=0'']
     @ (case trustedExecutableDirectory os ''git'' of [] \<Rightarrow> [] | d \<Rightarrow> [''PATH='' @ d])
     @ [(if peHost persona = ''github.com'' \<or> hasSuffix (peHost persona) ''.ghe.com'' then ''GH_TOKEN'' else ''GH_ENTERPRISE_TOKEN'')
          @ ''='' @ token]"

section \<open>The original executable\<close>

definition probeRequest :: "os_view \<Rightarrow> string \<Rightarrow> exec_request" where
  "probeRequest os resolved = \<lparr>exPath = resolved, exArguments = [''--dovik-proxy-identify''],
     exEnv = Some (operatorEnvironment os), exDir = [], exStdin = []\<rparr>"

definition ValidateGH :: "os_view \<Rightarrow> exec \<Rightarrow> string \<Rightarrow> exec_error + string" where
  "ValidateGH os exec path =
     (if \<not> isAbs path then Inl GHNotAbsolute
      else case osEvalSymlinks os path of
             None \<Rightarrow> Inl GHUnavailable
           | Some resolved \<Rightarrow>
               if \<not> osRegular os resolved then Inl GHNotRegular
               else if osIsSelf os resolved then Inl GHIsProxy
               else if trimSpace (fst (runLimited exec 1024 (probeRequest os resolved))) = ''dovik-gh-proxy-v1''
               then Inl GHIsDovik
               else Inr resolved)"

section \<open>Run\<close>

definition tokenRequest :: "os_view \<Rightarrow> string \<Rightarrow> string \<Rightarrow> persona \<Rightarrow> exec_request" where
  "tokenRequest os dir gh persona = \<lparr>exPath = gh,
     exArguments = [''auth'', ''token'', ''--hostname'', peHost persona, ''--user'', peAccount persona],
     exEnv = Some (operatorEnvironment os), exDir = dir, exStdin = []\<rparr>"

definition verifyRequest :: "string \<Rightarrow> string list \<Rightarrow> string \<Rightarrow> persona \<Rightarrow> exec_request" where
  "verifyRequest gh env directory persona = \<lparr>exPath = gh,
     exArguments = [''api'', ''user'', ''--hostname'', peHost persona, ''--jq'', ''.login''],
     exEnv = Some env, exDir = directory, exStdin = []\<rparr>"

definition commandRequest :: "string \<Rightarrow> string list \<Rightarrow> string \<Rightarrow> gh_command \<Rightarrow> bytes \<Rightarrow> exec_request" where
  "commandRequest gh env directory command input = \<lparr>exPath = gh, exArguments = cmArguments command,
     exEnv = Some env, exDir = directory, exStdin = input\<rparr>"

text \<open>One output of the program through a filter, and the final flush.\<close>

definition filterOutput :: "sink \<Rightarrow> bytes \<Rightarrow> bytes list \<Rightarrow> sink \<times> bool" where
  "filterOutput out token ps =
     (case filterWrites (newSecretFilter out token) ps of
        Return f \<Rightarrow> (case filterFlush f of (f', ok) \<Rightarrow> (fWriter f', ok))
      | Error f \<Rightarrow> (case filterFlush f of (f', ok) \<Rightarrow> (fWriter f', ok))
      | _ \<Rightarrow> (out, False))"

definition credentialText :: "bytes \<Rightarrow> bytes" where
  "credentialText token = ''username=x-access-token'' @ [CHR 0x0A] @ ''password='' @ token @ [CHR 0x0A, CHR 0x0A]"

record run_result =
  resOut :: sink
  resErr :: sink
  resCode :: int
  resError :: "exec_error option"

definition failure :: "sink \<Rightarrow> sink \<Rightarrow> exec_error \<Rightarrow> run_result" where
  "failure out err e = \<lparr>resOut = out, resErr = err, resCode = 1, resError = Some e\<rparr>"

text \<open>The last part: the verified credential is handed out, or the command is run.\<close>

definition runVerified :: "os_view \<Rightarrow> exec \<Rightarrow> string \<Rightarrow> string list \<Rightarrow> string \<Rightarrow> string \<Rightarrow> gh_command \<Rightarrow> bytes
    \<Rightarrow> sink \<Rightarrow> sink \<Rightarrow> run_result" where
  "runVerified os exec gh env directory token command input out err =
     (if cmCredential command then
        (case sinkWrite out (credentialText token) of
           (out', False) \<Rightarrow> failure out' err CredentialOutputClosed
         | (out', True) \<Rightarrow> \<lparr>resOut = out', resErr = err, resCode = 0, resError = None\<rparr>)
      else
        (case exec (commandRequest gh env directory command input) of
           (ws, fin) \<Rightarrow>
             (case (filterOutput out token (writesTo True ws), filterOutput err token (writesTo False ws)) of
                ((out', ok1), (err', ok2)) \<Rightarrow>
                  if \<not> ok1 \<or> \<not> ok2 then failure out' err' OutputClosed
                  else if osContextDone os then failure out' err' ExecutionCanceled
                  else (case fin of
                          EndOK \<Rightarrow> \<lparr>resOut = out', resErr = err', resCode = 0, resError = None\<rparr>
                        | EndExit code \<Rightarrow> \<lparr>resOut = out', resErr = err', resCode = code, resError = None\<rparr>
                        | EndOther \<Rightarrow> failure out' err' NotExecuted))))"

text \<open>The part between: the private directory and the verification of the account.\<close>

definition badToken :: "bytes \<Rightarrow> bool" where
  "badToken token \<longleftrightarrow> token = [] \<or> containsAny token [CHR 0x0D, CHR 0x0A, CHR 0x00]"

definition runToken :: "os_view \<Rightarrow> exec \<Rightarrow> string \<Rightarrow> string \<Rightarrow> persona \<Rightarrow> gh_command \<Rightarrow> bytes \<Rightarrow> bytes \<Rightarrow> sink \<Rightarrow> sink \<Rightarrow> run_result" where
  "runToken os exec executorDir gh persona command input token out err =
     (if badToken token then failure out err InvalidCredential
      else case osMkdirTemp os executorDir of
             None \<Rightarrow> failure out err NoPrivateDirectory
           | Some directory \<Rightarrow>
               if \<not> osProtect os directory then failure out err NotProtected
               else (let env = commandEnvironment os directory persona token
                     in case runLimited exec 1024 (verifyRequest gh env directory persona) of
                          (login, verified) \<Rightarrow>
                            if \<not> verified \<or> \<not> equalFold (trimSpace login) (peAccount persona)
                            then failure out err VerificationFailed
                            else runVerified os exec gh env directory token command input out err))"

definition Run :: "os_view \<Rightarrow> exec \<Rightarrow> string \<Rightarrow> string \<Rightarrow> project \<Rightarrow> persona \<Rightarrow> invocation \<Rightarrow> sink \<Rightarrow> sink \<Rightarrow> run_result" where
  "Run os exec executorDir ghPath project persona call out err =
     (case Authorize project persona call of
        Inl e \<Rightarrow> failure out err (NotAuthorized e)
      | Inr command \<Rightarrow>
          if cmInteractive command then failure out err NeedsTerminal
          else (case ValidateGH os exec ghPath of
                  Inl e \<Rightarrow> failure out err e
                | Inr gh \<Rightarrow>
                    (case runLimited exec (64 * 1024) (tokenRequest os executorDir gh persona) of
                       (tokenOutput, ok) \<Rightarrow>
                         if \<not> ok then failure out err AuthenticationUnavailable
                         else runToken os exec executorDir gh persona command (inInput call) (trimSpace tokenOutput) out err)))"

section \<open>Output\<close>

lemma filterOutput_redact:
  assumes "token \<noteq> []" and "filterOutput \<lparr>sinkData = [], sinkBudget = None\<rparr> token ps = (out, ok)"
  shows "sinkData out = redact token (concat ps) \<and> ok"
proof -
  obtain f' where f': "filterWrites (newSecretFilter \<lparr>sinkData = [], sinkBudget = None\<rparr> token) ps = Return f'"
    "sinkBudget (fWriter f') = None"
    using filterWrites_Return [of "newSecretFilter \<lparr>sinkData = [], sinkBudget = None\<rparr> token" ps] assms(1)
    by (auto simp: newSecretFilter_def)
  have "filtered token ps = Return (sinkData (fWriter (fst (filterFlush f'))))"
    by (simp add: filtered_def f'(1))
  then show ?thesis
    using filtered_redact [OF assms(1), of ps] assms(2) f' by (auto simp: filterOutput_def filterFlush_def sinkWrite_def)
qed

text \<open>The sinks of a call that nobody has written to yet.\<close>

definition freshSink :: sink where
  "freshSink = \<lparr>sinkData = [], sinkBudget = None\<rparr>"

definition silent :: "run_result \<Rightarrow> bool" where
  "silent res \<longleftrightarrow> sinkData (resOut res) = [] \<and> sinkData (resErr res) = []"

lemma failure_silent: "silent (failure freshSink freshSink e)"
  by (simp add: silent_def failure_def freshSink_def)

lemma runVerified_output:
  assumes "token \<noteq> []" and "res = runVerified os exec gh env directory token command input freshSink freshSink"
  shows "if cmCredential command then sinkData (resOut res) = credentialText token \<and> sinkData (resErr res) = []
     else (let ws = fst (exec (commandRequest gh env directory command input))
           in sinkData (resOut res) = redact token (concat (writesTo True ws)) \<and>
              sinkData (resErr res) = redact token (concat (writesTo False ws)))"
proof (cases "cmCredential command")
  case True
  then show ?thesis by (simp add: assms(2) runVerified_def sinkWrite_def freshSink_def)
next
  case False
  obtain ws fin where e: "exec (commandRequest gh env directory command input) = (ws, fin)" by fastforce
  obtain out' ok1 where o: "filterOutput freshSink token (writesTo True ws) = (out', ok1)" by fastforce
  obtain err' ok2 where r: "filterOutput freshSink token (writesTo False ws) = (err', ok2)" by fastforce
  have "resOut res = out'" "resErr res = err'"
    using False e o r by (auto simp: assms(2) runVerified_def failure_def split: run_end.split)
  then show ?thesis
    using False e filterOutput_redact [OF assms(1) o [unfolded freshSink_def]]
      filterOutput_redact [OF assms(1) r [unfolded freshSink_def]] by simp
qed

lemma runToken_loud:
  assumes "\<not> silent (runToken os exec executorDir gh persona command input token freshSink freshSink)"
  shows "token \<noteq> [] \<and> (\<exists>directory login.
    runLimited exec 1024 (verifyRequest gh (commandEnvironment os directory persona token) directory persona) = (login, True) \<and>
    equalFold (trimSpace login) (peAccount persona) \<and>
    runToken os exec executorDir gh persona command input token freshSink freshSink =
      runVerified os exec gh (commandEnvironment os directory persona token) directory token command input freshSink freshSink)"
proof -
  have ok: "\<not> badToken token"
    using assms failure_silent by (auto simp: runToken_def)
  then obtain directory where d: "osMkdirTemp os executorDir = Some directory" "osProtect os directory"
    using assms failure_silent unfolding runToken_def by (cases "osMkdirTemp os executorDir") (simp_all split: if_splits)
  let ?env = "commandEnvironment os directory persona token"
  obtain login verified where l: "runLimited exec 1024 (verifyRequest gh ?env directory persona) = (login, verified)"
    by fastforce
  have run: "runToken os exec executorDir gh persona command input token freshSink freshSink =
      (if \<not> verified \<or> \<not> equalFold (trimSpace login) (peAccount persona) then failure freshSink freshSink VerificationFailed
       else runVerified os exec gh ?env directory token command input freshSink freshSink)"
    using ok d l unfolding runToken_def Let_def by (simp only: if_False option.case prod.case not_True_eq_False)
  with assms failure_silent have "verified" "equalFold (trimSpace login) (peAccount persona)" by (auto split: if_splits)
  with run l ok show ?thesis by (intro conjI exI [of _ directory] exI [of _ login]) (auto simp: badToken_def)
qed

lemma Run_output:
  assumes "res = Run os exec executorDir ghPath project persona call freshSink freshSink" and "\<not> silent res"
  shows "\<exists>command gh token directory login.
    Authorize project persona call = Inr command \<and> \<not> cmInteractive command \<and> ValidateGH os exec ghPath = Inr gh \<and> token \<noteq> [] \<and>
    runLimited exec 1024 (verifyRequest gh (commandEnvironment os directory persona token) directory persona) = (login, True) \<and>
    equalFold (trimSpace login) (peAccount persona) \<and>
    (if cmCredential command then sinkData (resOut res) = credentialText token \<and> sinkData (resErr res) = []
     else (let ws = fst (exec (commandRequest gh (commandEnvironment os directory persona token) directory command (inInput call)))
           in sinkData (resOut res) = redact token (concat (writesTo True ws)) \<and>
              sinkData (resErr res) = redact token (concat (writesTo False ws))))"
proof -
  obtain command where a: "Authorize project persona call = Inr command" and i: "\<not> cmInteractive command"
    using assms failure_silent by (cases "Authorize project persona call") (auto simp: Run_def split: if_splits)
  obtain gh where v: "ValidateGH os exec ghPath = Inr gh"
    using assms a i failure_silent by (cases "ValidateGH os exec ghPath") (simp_all add: Run_def)
  obtain tokenOutput ok where t: "runLimited exec (64 * 1024) (tokenRequest os executorDir gh persona) = (tokenOutput, ok)"
    by fastforce
  define token where "token = trimSpace tokenOutput"
  have res: "res = (if \<not> ok then failure freshSink freshSink AuthenticationUnavailable
      else runToken os exec executorDir gh persona command (inInput call) token freshSink freshSink)"
    using assms(1) a i v t unfolding Run_def token_def by (simp only: sum.case if_False prod.case)
  with assms(2) failure_silent have res': "res = runToken os exec executorDir gh persona command (inInput call) token freshSink freshSink"
    by (auto split: if_splits)
  from runToken_loud [OF assms(2) [unfolded res']]
  obtain directory login where d: "token \<noteq> []"
      "runLimited exec 1024 (verifyRequest gh (commandEnvironment os directory persona token) directory persona) = (login, True)"
      "equalFold (trimSpace login) (peAccount persona)"
      "res = runVerified os exec gh (commandEnvironment os directory persona token) directory token command (inInput call) freshSink freshSink"
    unfolding res' by blast
  show ?thesis
    using a i v d(1-3) runVerified_output [OF d(1,4)] by blast
qed

text \<open>C9: What leaves the executor.  If a call wrote anything, it was authorised and not interactive,
  the executable passed its checks, the account that the credential belongs to was verified, in an
  environment with that credential, to be the persona's account, and then the output is the answer
  to a credential request, or both outputs of exactly the authorised command, run in that
  environment, with every occurrence of the credential redacted.\<close>

theorem executor_output:
  assumes "res = Run os exec executorDir ghPath project persona call freshSink freshSink" and "\<not> silent res"
  shows "\<exists>command gh token directory login.
    Authorize project persona call = Inr command \<and> \<not> cmInteractive command \<and> ValidateGH os exec ghPath = Inr gh \<and> token \<noteq> [] \<and>
    runLimited exec 1024 (verifyRequest gh (commandEnvironment os directory persona token) directory persona) = (login, True) \<and>
    equalFold (trimSpace login) (peAccount persona) \<and>
    (if cmCredential command then sinkData (resOut res) = credentialText token \<and> sinkData (resErr res) = []
     else (let ws = fst (exec (commandRequest gh (commandEnvironment os directory persona token) directory command (inInput call)))
           in sinkData (resOut res) = redact token (concat (writesTo True ws)) \<and>
              sinkData (resErr res) = redact token (concat (writesTo False ws))))"
  using assms by (rule Run_output)

text \<open>A system with a well-behaved original executable, for the witness.\<close>

definition sample_os :: os_view where
  "sample_os = \<lparr>osLookupEnv = (\<lambda>k. None), osEvalSymlinks = Some, osRegular = (\<lambda>p. True), osIsSelf = (\<lambda>p. False),
     osLookPath = (\<lambda>n. None), osMkdirTemp = (\<lambda>d. Some ''/d''), osProtect = (\<lambda>p. True), osContextDone = False\<rparr>"

definition sample_exec :: exec where
  "sample_exec req = (let a = exArguments req
     in if a ! 0 = ''auth'' then ([(True, ''ghp_x'')], EndOK)
        else if length a = 1 then ([], EndOK)
        else if a ! 1 = ''user'' then ([(True, ''Me'')], EndOK)
        else ([(True, ''got gh''), (False, ''warn''), (True, ''p_x'')], EndOK))"

lemma sample_os_simps:
  "osEvalSymlinks sample_os = Some" "osRegular sample_os p" "\<not> osIsSelf sample_os p"
  "osMkdirTemp sample_os x = Some ''/d''" "osProtect sample_os p" "\<not> osContextDone sample_os"
  by (simp_all add: sample_os_def)

lemma sample_runs:
  "runLimited sample_exec 1024 (probeRequest sample_os p) = ([], True)"
  "runLimited sample_exec n (verifyRequest gh env d persona) = (if n < 2 then ([], False) else (''Me'', True))"
  "runLimited sample_exec 65536 (tokenRequest sample_os d gh persona) = (''ghp_x'', True)"
  by (simp_all add: runLimited_def sample_exec_def probeRequest_def verifyRequest_def tokenRequest_def
      writesTo_def limitedWrite_def Let_def)

lemma sample_texts: "trimSpace ''ghp_x'' = ''ghp_x''" "trimSpace ''Me'' = ''Me''" "equalFold ''Me'' ''me''"
  "trimSpace [] = []" "containsAny ''ghp_x'' [CHR 0x0D, CHR 0x0A, CHR 0x00] = False"
  by code_simp+

lemma sample_run:
  assumes "project = read_project \<or> project = sample_project" and "isAbs gh"
  shows "sinkData (resOut (Run sample_os sample_exec dir gh project sample_persona (issue_call ''7'') freshSink freshSink))
    = redact ''ghp_x'' ''got ghp_x''"
proof -
  let ?res = "Run sample_os sample_exec dir gh project sample_persona (issue_call ''7'') freshSink freshSink"
  note call = issue_call_authorized [OF disjI1 [OF refl] assms(1)]
  let ?c = "\<lparr>cmArguments = [''api'', ''repos/o/r/issues/'' @ ''7'', ''--hostname'', ''github.com'', ''--method'', ''GET''],
     cmPermission = ''read'', cmCredential = False, cmInteractive = False\<rparr>"
  have v: "ValidateGH sample_os sample_exec gh = Inr gh"
    using assms(2) by (simp add: ValidateGH_def sample_runs sample_texts sample_os_simps)
  have acc: "peAccount sample_persona = ''me''" by (simp add: sample_persona_def)
  let ?env = "commandEnvironment sample_os ''/d'' sample_persona ''ghp_x''"
  have r: "?res = runVerified sample_os sample_exec gh ?env ''/d'' ''ghp_x'' ?c [] freshSink freshSink"
    using call v by (simp add: Run_def runToken_def badToken_def sample_runs sample_texts sample_os_simps acc issue_call_def)
  show ?thesis
    using runVerified_output [OF _ r] by (simp add: sample_exec_def commandRequest_def writesTo_def Let_def)
qed

lemma sample_redacted: "redact ''ghp_x'' ''got ghp_x'' \<noteq> []"
  by code_simp

theorem executor_output_witness:
  "\<exists>command login. Authorize read_project sample_persona (issue_call ''7'') = Inr command \<and>
    equalFold (trimSpace login) ''me'' \<and>
    sinkData (resOut (Run sample_os sample_exec ''/x'' ''/gh'' read_project sample_persona (issue_call ''7'') freshSink freshSink))
      \<noteq> []"
proof -
  let ?res = "Run sample_os sample_exec ''/x'' ''/gh'' read_project sample_persona (issue_call ''7'') freshSink freshSink"
  have out: "sinkData (resOut ?res) \<noteq> []"
    using sample_run [OF disjI1 [OF refl], of "''/gh''" "''/x''"] sample_redacted by (simp add: isAbs_def hasPrefix_def)
  then have loud: "\<not> silent ?res" by (simp add: silent_def)
  have acc: "peAccount sample_persona = ''me''" by (simp add: sample_persona_def)
  from executor_output [OF refl loud] show ?thesis
    using out acc by metis
qed

end
