(* ===== verification/IdentityStore.thy ===== *)
theory IdentityStore
  imports IdentityModel
begin

text \<open>
  The identity state file of \<open>internal/identity/store.go\<close> and \<open>private_unix.go\<close>: opening it,
  the one operation \<open>Update\<close> through which every change goes, and \<open>SetPersona\<close> and
  \<open>SetProject\<close>.  The disk is the directory of the state file with its permission bits and the
  files in it; what each call of the operating system does is a field of \<open>state_os\<close>.  The byte
  format of \<open>encoding/json\<close> is an argument here: \<open>encode\<close> and \<open>indent\<close> are \<open>json.Marshal\<close> and
  \<open>json.MarshalIndent\<close>, \<open>unmarshal\<close> is \<open>json.Unmarshal\<close>, and \<open>decode\<close> reads one value from the
  front of a text with \<open>DisallowUnknownFields\<close> and returns the rest; the theory IdentityDurable puts
  the fields of a state and a text form of JSON in their place.  The system is Linux.
\<close>

section \<open>The disk\<close>

record state_disk =
  sdDirectory :: "nat option"  \<comment> \<open>the permission bits of the directory, if it exists\<close>
  sdFiles :: "string \<rightharpoonup> bytes \<times> nat"

datatype lstat = LstatFails | LstatLink | LstatDirectory | LstatFile

record state_os =
  soMkdir :: bool
  soLstat :: "string \<Rightarrow> lstat"
  soChmod :: "string \<Rightarrow> bool"
  soRead :: bool
  soTemp :: "string option"  \<comment> \<open>the random part of the name \<open>os.CreateTemp\<close> picks\<close>
  soWrite :: "nat option"  \<comment> \<open>some \<open>n\<close>: the write fails after \<open>n\<close> bytes\<close>
  soSync :: bool
  soClose :: bool
  soRename :: bool
  soOpenDirectory :: bool
  soSyncDirectory :: bool

datatype change_error = NoPersonasToImport | ImportOverwrites | UnknownProject

datatype store_failure =
  StatePathNotAbsolute | StateDirectoryFails | StateLstatFails | StateIsLink | StateChmodFails
| StateReadFails | StateInvalid | StateRejected identity_error | WorkspaceContainsState
| StateEncodeFails | StateTempFails | StateWriteFails | StateSyncFails | StateCloseFails
| StateRenameFails | StateOpenDirectoryFails | StateSyncDirectoryFails
| ChangeRefused change_error | ProjectRootMissing | ProjectRootNotDirectory

definition protectPath :: "state_os \<Rightarrow> string \<Rightarrow> store_failure + nat" where
  "protectPath os path =
     (case soLstat os path of
        LstatFails \<Rightarrow> Inl StateLstatFails
      | LstatLink \<Rightarrow> Inl StateIsLink
      | kind \<Rightarrow>
          (let mode = (if kind = LstatDirectory then 448 else 384)  \<comment> \<open>0700 and 0600\<close>
           in if soChmod os path then Inr mode else Inl StateChmodFails))"

definition setFile :: "state_disk \<Rightarrow> string \<Rightarrow> (bytes \<times> nat) option \<Rightarrow> state_disk" where
  "setFile d path f = d\<lparr>sdFiles := (sdFiles d)(path := f)\<rparr>"

definition replaceState :: "state_os \<Rightarrow> state_disk \<Rightarrow> string \<Rightarrow> string \<Rightarrow> state_disk \<times> store_failure option" where
  "replaceState os d from to =
     (if \<not> soRename os then (d, Some StateRenameFails)
      else let d' = setFile (setFile d to (sdFiles d from)) from None
           in if \<not> soOpenDirectory os then (d', Some StateOpenDirectoryFails)
              else if \<not> soSyncDirectory os then (d', Some StateSyncDirectoryFails)
              else (d', None))"

section \<open>Opening the store\<close>

record identity_store =
  isPath :: string
  isState :: identity_state

definition json_space :: "char \<Rightarrow> bool" where
  "json_space c \<longleftrightarrow> List.member [CHR 0x20, CHR 0x09, CHR 0x0A, CHR 0x0D] c"

text \<open>\<open>Decode\<close>: one value, after which only white space may follow.\<close>

definition Decode :: "(bytes \<Rightarrow> ('a \<times> bytes) option) \<Rightarrow> bytes \<Rightarrow> 'a option" where
  "Decode decode data =
     (case decode data of
        None \<Rightarrow> None
      | Some (v, rest) \<Rightarrow> if list_all json_space rest then Some v else None)"

definition emptyState :: identity_state where
  "emptyState = \<lparr>stVersion = 1, stGHPath = [], stPersonas = [], stProjects = []\<rparr>"

type_synonym state_decoder = "bytes \<Rightarrow> (identity_state \<times> bytes) option"

definition readStore :: "(string \<Rightarrow> string option) \<Rightarrow> state_decoder \<Rightarrow> state_os \<Rightarrow> string \<Rightarrow> state_disk
    \<Rightarrow> state_disk \<times> (store_failure + identity_store)" where
  "readStore parseAddress decode os path d =
     (if \<not> soRead os then (d, Inl StateReadFails)
      else case sdFiles d path of
             None \<Rightarrow> (d, Inr \<lparr>isPath = path, isState = emptyState\<rparr>)
           | Some (data, m) \<Rightarrow>
               (case protectPath os path of
                  Inl e \<Rightarrow> (d, Inl e)
                | Inr mode \<Rightarrow>
                    (setFile d path (Some (data, mode)),
                     case Decode decode data of
                       None \<Rightarrow> Inl StateInvalid
                     | Some s \<Rightarrow>
                         (case validateState parseAddress s of
                            Some e \<Rightarrow> Inl (StateRejected e)
                          | None \<Rightarrow> Inr \<lparr>isPath = path, isState = s\<rparr>))))"

definition OpenStore :: "(string \<Rightarrow> string option) \<Rightarrow> state_decoder \<Rightarrow> state_os \<Rightarrow> string \<Rightarrow> state_disk
    \<Rightarrow> state_disk \<times> (store_failure + identity_store)" where
  "OpenStore parseAddress decode os path d =
     (if \<not> isAbs path then (d, Inl StatePathNotAbsolute)
      else if \<not> soMkdir os then (d, Inl StateDirectoryFails)
      else let d1 = (if sdDirectory d = None then d\<lparr>sdDirectory := Some 448\<rparr> else d)
           in case protectPath os (dirPath path) of
                Inl e \<Rightarrow> (d1, Inl e)
              | Inr mode \<Rightarrow> readStore parseAddress decode os path (d1\<lparr>sdDirectory := Some mode\<rparr>))"

section \<open>Update\<close>

text \<open>\<open>cloneState\<close> copies through JSON; both errors are ignored there, and leave the zero value.\<close>

definition cloneState :: "(identity_state \<Rightarrow> bytes option) \<Rightarrow> (bytes \<Rightarrow> identity_state option) \<Rightarrow> identity_state
    \<Rightarrow> identity_state" where
  "cloneState encode unmarshal s =
     (case Option.bind (encode s) unmarshal of
        None \<Rightarrow> \<lparr>stVersion = 0, stGHPath = [], stPersonas = [], stProjects = []\<rparr>
      | Some s' \<Rightarrow> s')"

definition Snapshot :: "(identity_state \<Rightarrow> bytes option) \<Rightarrow> (bytes \<Rightarrow> identity_state option) \<Rightarrow> identity_store
    \<Rightarrow> identity_state" where
  "Snapshot encode unmarshal st = cloneState encode unmarshal (isState st)"

definition exposed :: "string \<Rightarrow> identity_state \<Rightarrow> bool" where
  "exposed path s \<longleftrightarrow> list_ex (\<lambda>p. within path (prRoot p) \<or> (stGHPath s \<noteq> [] \<and> within (stGHPath s) (prRoot p))) (stProjects s)"

text \<open>From \<open>os.CreateTemp\<close> to the rename; the deferred \<open>os.Remove\<close> removes the temporary file.\<close>

definition tempStatePath :: "string \<Rightarrow> string \<Rightarrow> string" where
  "tempStatePath path random = joinPath (dirPath path) (''.identity-'' @ random)"

definition writeState :: "state_os \<Rightarrow> state_disk \<Rightarrow> string \<Rightarrow> bytes \<Rightarrow> state_disk \<times> store_failure option" where
  "writeState os d path data =
     (case soTemp os of
        None \<Rightarrow> (d, Some StateTempFails)
      | Some random \<Rightarrow>
          (let tmp = tempStatePath path random
           in if sdFiles d tmp \<noteq> None then (d, Some StateTempFails)
              else
                (let d1 = setFile d tmp (Some ([], 384));
                     remove = (\<lambda>d. setFile d tmp None)
                 in case protectPath os tmp of
                      Inl e \<Rightarrow> (remove d1, Some e)
                    | Inr mode \<Rightarrow>
                        (let d2 = setFile d1 tmp (Some (case soWrite os of None \<Rightarrow> data | Some n \<Rightarrow> take n data, mode))
                         in if soWrite os \<noteq> None then (remove d2, Some StateWriteFails)
                            else if \<not> soSync os then (remove d2, Some StateSyncFails)
                            else if \<not> soClose os then (remove d2, Some StateCloseFails)
                            else (case replaceState os d2 tmp path of (d3, e) \<Rightarrow> (remove d3, e))))))"

definition Update :: "(string \<Rightarrow> string option) \<Rightarrow> (identity_state \<Rightarrow> bytes option) \<Rightarrow> (identity_state \<Rightarrow> bytes option)
    \<Rightarrow> (bytes \<Rightarrow> identity_state option) \<Rightarrow> state_os \<Rightarrow> state_disk \<Rightarrow> identity_store
    \<Rightarrow> (identity_state \<Rightarrow> change_error + identity_state) \<Rightarrow> state_disk \<times> identity_store \<times> store_failure option" where
  "Update parseAddress encode indent unmarshal os d st change =
     (case change (cloneState encode unmarshal (isState st)) of
        Inl e \<Rightarrow> (d, st, Some (ChangeRefused e))
      | Inr nxt \<Rightarrow>
          (case validateState parseAddress nxt of
             Some e \<Rightarrow> (d, st, Some (StateRejected e))
           | None \<Rightarrow>
               if exposed (isPath st) nxt then (d, st, Some WorkspaceContainsState)
               else (case indent nxt of
                       None \<Rightarrow> (d, st, Some StateEncodeFails)
                     | Some data \<Rightarrow>
                         (case writeState os d (isPath st) (data @ [CHR 0x0A]) of
                            (d', Some e) \<Rightarrow> (d', st, Some e)
                          | (d', None) \<Rightarrow> (d', st\<lparr>isState := nxt\<rparr>, None)))))"

section \<open>Changes\<close>

text \<open>The first entry with the ID is replaced, or the new one is appended.\<close>

fun putPersona :: "persona list \<Rightarrow> persona \<Rightarrow> persona list" where
  "putPersona [] p = [p]"
| "putPersona (q # qs) p = (if peID q = peID p then p # qs else q # putPersona qs p)"

fun putProject :: "project list \<Rightarrow> project \<Rightarrow> project list" where
  "putProject [] p = [p]"
| "putProject (q # qs) p = (if prID q = prID p then p # qs else q # putProject qs p)"

definition changePersona :: "persona \<Rightarrow> identity_state \<Rightarrow> change_error + identity_state" where
  "changePersona p s = Inr (s\<lparr>stPersonas := putPersona (stPersonas s) p\<rparr>)"

definition changeProject :: "project \<Rightarrow> identity_state \<Rightarrow> change_error + identity_state" where
  "changeProject p s = Inr (s\<lparr>stProjects := putProject (stProjects s) p\<rparr>)"

text \<open>\<open>SetPersona\<close> and \<open>SetProject\<close>, over the update they go through.\<close>

definition SetPersona :: "((identity_state \<Rightarrow> change_error + identity_state) \<Rightarrow> 'r) \<Rightarrow> persona \<Rightarrow> 'r" where
  "SetPersona update p = update (changePersona p)"

definition SetProject :: "((identity_state \<Rightarrow> change_error + identity_state) \<Rightarrow> 'w \<times> store_failure option) \<Rightarrow> 'w
    \<Rightarrow> (string \<Rightarrow> string option) \<Rightarrow> (string \<Rightarrow> bool) \<Rightarrow> project \<Rightarrow> 'w \<times> store_failure option" where
  "SetProject update w evalSymlinks isDir p =
     (case evalSymlinks (prRoot p) of
        None \<Rightarrow> (w, Some ProjectRootMissing)
      | Some root \<Rightarrow>
          if \<not> isDir root then (w, Some ProjectRootNotDirectory)
          else update (changeProject (p\<lparr>prRoot := clean root\<rparr>)))"

section \<open>Atomicity of an update\<close>

lemma setFile_simps [simp]:
  "sdFiles (setFile d p f) = (sdFiles d)(p := f)" "sdDirectory (setFile d p f) = sdDirectory d"
  by (simp_all add: setFile_def)

definition flush_failure :: "store_failure option \<Rightarrow> bool" where
  "flush_failure e \<longleftrightarrow> e = Some StateOpenDirectoryFails \<or> e = Some StateSyncDirectoryFails"

text \<open>The write replaces the file, and nothing else, or leaves every file as it was.\<close>

lemma writeState_cases:
  assumes "writeState os d path data = (d', e)"
    and "\<And>random. soTemp os = Some random \<Longrightarrow> tempStatePath path random \<noteq> path"
  shows "sdDirectory d' = sdDirectory d \<and>
    ((\<exists>mode. sdFiles d' = (sdFiles d)(path \<mapsto> (data, mode)) \<and> (e = None \<or> flush_failure e)) \<or>
     (sdFiles d' = sdFiles d \<and> e \<noteq> None))"
proof (cases "soTemp os")
  case None
  then show ?thesis using assms(1) by (auto simp: writeState_def)
next
  case (Some random)
  let ?tmp = "tempStatePath path random"
  show ?thesis
  proof (cases "sdFiles d ?tmp = None")
    case False
    then show ?thesis using assms(1) Some by (auto simp: writeState_def)
  next
    case free: True
    then have undo: "(sdFiles d)(?tmp := None) = sdFiles d" by (auto simp: fun_eq_iff)
    show ?thesis
    proof (cases "protectPath os ?tmp")
      case (Inl e1)
      then show ?thesis using assms(1) Some free undo by (auto simp: writeState_def Let_def)
    next
      case (Inr mode)
      show ?thesis
      proof (cases "soWrite os = None \<and> soSync os \<and> soClose os")
        case False
        then show ?thesis
          using assms(1) Some free undo Inr by (auto simp: writeState_def Let_def split: if_splits)
      next
        case True
        have "(sdFiles d)(?tmp \<mapsto> (data, mode), path \<mapsto> (data, mode), ?tmp := None) = (sdFiles d)(path \<mapsto> (data, mode))"
          using assms(2) [OF Some] free by (auto simp: fun_eq_iff)
        then show ?thesis
          using assms(1) Some free undo Inr True
          by (auto simp: writeState_def Let_def replaceState_def flush_failure_def split: if_splits)
      qed
    qed
  qed
qed

lemma Update_cases:
  assumes "Update parseAddress encode indent unmarshal os d st change = (d', st', res)"
  obtains (refused) e where "st' = st" "d' = d" "res = Some e" "\<not> flush_failure res"
  | (failed) e nxt data where "st' = st" "res = Some e" "change (cloneState encode unmarshal (isState st)) = Inr nxt"
      "validateState parseAddress nxt = None" "\<not> exposed (isPath st) nxt" "indent nxt = Some data"
      "writeState os d (isPath st) (data @ [CHR 0x0A]) = (d', Some e)"
  | (updated) nxt data where "st' = st\<lparr>isState := nxt\<rparr>" "res = None"
      "change (cloneState encode unmarshal (isState st)) = Inr nxt"
      "validateState parseAddress nxt = None" "\<not> exposed (isPath st) nxt" "indent nxt = Some data"
      "writeState os d (isPath st) (data @ [CHR 0x0A]) = (d', None)"
proof (cases "change (cloneState encode unmarshal (isState st))")
  case (Inl e)
  then show ?thesis using assms refused by (auto simp: Update_def flush_failure_def)
next
  case (Inr nxt)
  show ?thesis
  proof (cases "validateState parseAddress nxt = None \<and> \<not> exposed (isPath st) nxt \<and> indent nxt \<noteq> None")
    case False
    then show ?thesis using assms Inr refused
      by (auto simp: Update_def flush_failure_def split: option.splits if_splits)
  next
    case True
    then obtain data where data: "indent nxt = Some data" by blast
    obtain d1 e1 where "writeState os d (isPath st) (data @ [CHR 0x0A]) = (d1, e1)" by fastforce
    with assms Inr True data failed updated show ?thesis by (cases e1) (auto simp: Update_def)
  qed
qed

text \<open>A later start of the daemon on a system where nothing fails.\<close>

definition calm :: "state_os \<Rightarrow> string \<Rightarrow> bool" where
  "calm os path \<longleftrightarrow> soMkdir os \<and> soRead os \<and> soChmod os path \<and> soChmod os (dirPath path) \<and>
     soLstat os (dirPath path) = LstatDirectory \<and> soLstat os path = LstatFile"

lemma OpenStore_calm:
  assumes "calm os path" and "isAbs path"
  shows "snd (OpenStore parseAddress decode os path d) =
    (case sdFiles d path of
       None \<Rightarrow> Inr \<lparr>isPath = path, isState = emptyState\<rparr>
     | Some (data, m) \<Rightarrow>
         (case Decode decode data of
            None \<Rightarrow> Inl StateInvalid
          | Some s \<Rightarrow> (case validateState parseAddress s of
                         Some e \<Rightarrow> Inl (StateRejected e) | None \<Rightarrow> Inr \<lparr>isPath = path, isState = s\<rparr>)))"
  using assms by (simp add: OpenStore_def readStore_def calm_def protectPath_def Let_def split: option.split)

lemma not_exposed:
  assumes "\<not> exposed path s" and "validateState parseAddress s = None" and "isAbs path" and "p \<in> set (stProjects s)"
  shows "\<not> prefix (cleanComps (prRoot p)) (cleanComps path) \<and>
    (stGHPath s \<noteq> [] \<longrightarrow> \<not> prefix (cleanComps (prRoot p)) (cleanComps (stGHPath s)))"
proof -
  have "isAbs (prRoot p)" and "stGHPath s = [] \<or> isAbs (stGHPath s)"
    using assms(2,4) unfolding validateState_None project_ok_def by blast+
  then show ?thesis
    using assms(1,3,4) by (auto simp: exposed_def list_ex_iff within_iff)
qed

text \<open>The encoding of \<open>sample_state\<close> with one more persona, for the witnesses.\<close>

definition other_persona :: persona where
  "other_persona = sample_persona\<lparr>peID := ''you'', peAccount := ''you''\<rparr>"

definition two_personas :: identity_state where
  "two_personas = sample_state\<lparr>stPersonas := [sample_persona, other_persona]\<rparr>"

definition sample_indent :: "identity_state \<Rightarrow> bytes option" where
  "sample_indent s = (if s = sample_state then Some ''1'' else if s = two_personas then Some ''2'' else None)"

definition sample_decode :: "bytes \<Rightarrow> (identity_state \<times> bytes) option" where
  "sample_decode data = (if hasPrefix data ''1'' then Some (sample_state, tl data)
     else if hasPrefix data ''2'' then Some (two_personas, tl data) else None)"

definition sample_read :: "bytes \<Rightarrow> identity_state option" where
  "sample_read data = map_option fst (sample_decode data)"

definition calm_os :: state_os where
  "calm_os = \<lparr>soMkdir = True, soLstat = (\<lambda>p. if p = ''/s'' then LstatDirectory else LstatFile), soChmod = (\<lambda>p. True), soRead = True,
     soTemp = Some ''7'', soWrite = None, soSync = True, soClose = True, soRename = True, soOpenDirectory = True,
     soSyncDirectory = True\<rparr>"

definition sample_store :: identity_store where
  "sample_store = \<lparr>isPath = ''/s/identity.json'', isState = sample_state\<rparr>"

definition state_dir :: state_disk where
  "state_dir = \<lparr>sdDirectory = Some 448, sdFiles = Map.empty\<rparr>"

lemma sample_update:
  "\<exists>d'. Update Some sample_indent sample_indent sample_read calm_os state_dir sample_store (changePersona other_persona) =
     (d', sample_store\<lparr>isState := two_personas\<rparr>, None)"
proof -
  have "tempStatePath ''/s/identity.json'' ''7'' = ''/s/.identity-7''" by code_simp
  moreover have "cloneState sample_indent sample_read sample_state = sample_state"
    by (simp add: cloneState_def sample_indent_def sample_read_def sample_decode_def hasPrefix_def)
  moreover have "changePersona other_persona sample_state = Inr two_personas" by code_simp
  moreover have "validateState Some two_personas = None" "\<not> exposed ''/s/identity.json'' two_personas" by code_simp+
  moreover have "two_personas \<noteq> sample_state" by (simp add: two_personas_def sample_state_def)
  ultimately show ?thesis
    by (simp add: Update_def sample_store_def sample_indent_def writeState_def calm_os_def state_dir_def protectPath_def replaceState_def Let_def)
qed

section \<open>The contract of the store\<close>

text \<open>
  What the identity service relies on: \<open>update\<close> is the only operation that changes the state,
  \<open>state\<close> is the state in memory and \<open>snapshot\<close> what \<open>Snapshot\<close> returns.
\<close>

locale state_store =
  fixes update :: "'w \<Rightarrow> (identity_state \<Rightarrow> change_error + identity_state) \<Rightarrow> 'w \<times> store_failure option"
    and state :: "'w \<Rightarrow> identity_state"
    and snapshot :: "'w \<Rightarrow> identity_state"
    and valid :: "identity_state \<Rightarrow> bool"
  assumes updated: "update w change = (w', None) \<Longrightarrow> change (snapshot w) = Inr (state w') \<and> valid (state w')"
    and refused: "update w change = (w', Some e) \<Longrightarrow> state w' = state w"
begin

lemma valid_update: "valid (state w) \<Longrightarrow> update w change = (w', res) \<Longrightarrow> valid (state w')"
  using updated refused by (cases res) (metis, metis)

lemma set_persona:
  assumes "SetPersona (update w) p = (w', None)"
  shows "state w' = (snapshot w)\<lparr>stPersonas := putPersona (stPersonas (snapshot w)) p\<rparr>"
  using updated assms by (fastforce simp: SetPersona_def changePersona_def)

lemma set_project:
  assumes "SetProject (update w) w evalSymlinks isDir p = (w', None)"
  shows "\<exists>root. evalSymlinks (prRoot p) = Some root \<and> isDir root \<and>
    state w' = (snapshot w)\<lparr>stProjects := putProject (stProjects (snapshot w)) (p\<lparr>prRoot := clean root\<rparr>)\<rparr>"
  using updated assms by (fastforce simp: SetProject_def changeProject_def split: option.splits if_splits)

lemma set_project_failed:
  "SetProject (update w) w evalSymlinks isDir p = (w', Some e) \<Longrightarrow> state w' = state w"
  using refused by (auto simp: SetProject_def split: option.splits if_splits)

end

text \<open>The store with the disk under it, and what the system does at each update.\<close>

record identity_world =
  iwDisk :: state_disk
  iwStore :: identity_store
  iwClock :: nat

definition worldUpdate :: "(string \<Rightarrow> string option) \<Rightarrow> (identity_state \<Rightarrow> bytes option) \<Rightarrow> (identity_state \<Rightarrow> bytes option)
    \<Rightarrow> (bytes \<Rightarrow> identity_state option) \<Rightarrow> (nat \<Rightarrow> state_os) \<Rightarrow> identity_world
    \<Rightarrow> (identity_state \<Rightarrow> change_error + identity_state) \<Rightarrow> identity_world \<times> store_failure option" where
  "worldUpdate parseAddress encode indent unmarshal os w change =
     (case Update parseAddress encode indent unmarshal (os (iwClock w)) (iwDisk w) (iwStore w) change of
        (d, st, res) \<Rightarrow> (\<lparr>iwDisk = d, iwStore = st, iwClock = iwClock w + 1\<rparr>, res))"

definition worldState :: "identity_world \<Rightarrow> identity_state" where
  "worldState w = isState (iwStore w)"

definition worldSnapshot :: "(identity_state \<Rightarrow> bytes option) \<Rightarrow> (bytes \<Rightarrow> identity_state option) \<Rightarrow> identity_world
    \<Rightarrow> identity_state" where
  "worldSnapshot encode unmarshal w = Snapshot encode unmarshal (iwStore w)"

lemma worldUpdate_updated:
  "worldUpdate parseAddress encode indent unmarshal os w change = (w', None)
   \<Longrightarrow> change (worldSnapshot encode unmarshal w) = Inr (worldState w') \<and> validateState parseAddress (worldState w') = None"
  by (auto simp: worldUpdate_def worldState_def worldSnapshot_def Snapshot_def split: prod.splits elim!: Update_cases)

lemma worldUpdate_refused:
  "worldUpdate parseAddress encode indent unmarshal os w change = (w', Some e) \<Longrightarrow> worldState w' = worldState w"
  by (auto simp: worldUpdate_def worldState_def split: prod.splits elim!: Update_cases)

interpretation disk_store: state_store "worldUpdate parseAddress encode indent unmarshal os" worldState
  "worldSnapshot encode unmarshal" "\<lambda>s. validateState parseAddress s = None"
  for parseAddress encode indent unmarshal os
  by unfold_locales (erule worldUpdate_updated, erule worldUpdate_refused)

lemma findPersonaIn_put:
  "findPersonaIn (putPersona ps p) i = (if i = peID p then Some p else findPersonaIn ps i)"
  by (induction ps) auto

lemma length_putPersona: "peID p \<in> set (map peID ps) \<Longrightarrow> length (putPersona ps p) = length ps"
  by (induction ps) auto

lemma findProjectIn_put:
  "i \<noteq> [] \<Longrightarrow> findProjectIn (putProject ps p) i root = (if i = prID p then Some p else findProjectIn ps i root)"
  by (induction ps) auto

text \<open>Storing a persona or a project that reports success stores exactly that: the entry with
  its ID is the one given (a project with the cleaned, resolved root, which is an existing
  directory), every other ID finds what the snapshot had, and the rest of the state is the
  snapshot's.\<close>

theorem set_entry_result:
  "(SetPersona (worldUpdate parseAddress encode indent unmarshal os w) p = (w', None) \<longrightarrow>
      (\<forall>i. findPersonaIn (stPersonas (worldState w')) i =
         (if i = peID p then Some p else findPersonaIn (stPersonas (worldSnapshot encode unmarshal w)) i)) \<and>
      stProjects (worldState w') = stProjects (worldSnapshot encode unmarshal w) \<and>
      stGHPath (worldState w') = stGHPath (worldSnapshot encode unmarshal w)) \<and>
   (SetProject (worldUpdate parseAddress encode indent unmarshal os w) w evalSymlinks isDir q = (w', None) \<longrightarrow>
      (\<exists>root. evalSymlinks (prRoot q) = Some root \<and> isDir root \<and>
        (\<forall>i r. i \<noteq> [] \<longrightarrow> findProjectIn (stProjects (worldState w')) i r =
           (if i = prID q then Some (q\<lparr>prRoot := clean root\<rparr>)
            else findProjectIn (stProjects (worldSnapshot encode unmarshal w)) i r))) \<and>
      stPersonas (worldState w') = stPersonas (worldSnapshot encode unmarshal w) \<and>
      stGHPath (worldState w') = stGHPath (worldSnapshot encode unmarshal w))"
  by (auto dest!: disk_store.set_persona disk_store.set_project simp: findPersonaIn_put findProjectIn_put)

theorem set_entry_result_witness:
  "findPersonaIn (stPersonas (worldState (fst (SetPersona
     (worldUpdate Some sample_indent sample_indent sample_read (\<lambda>n. calm_os) \<lparr>iwDisk = state_dir, iwStore = sample_store, iwClock = 0\<rparr>)
     other_persona)))) ''you'' = Some other_persona"
proof -
  let ?w = "\<lparr>iwDisk = state_dir, iwStore = sample_store, iwClock = 0\<rparr>"
  obtain d' where "Update Some sample_indent sample_indent sample_read calm_os state_dir sample_store (changePersona other_persona) =
     (d', sample_store\<lparr>isState := two_personas\<rparr>, None)" using sample_update by blast
  then have "SetPersona (worldUpdate Some sample_indent sample_indent sample_read (\<lambda>n. calm_os) ?w) other_persona =
    (\<lparr>iwDisk = d', iwStore = sample_store\<lparr>isState := two_personas\<rparr>, iwClock = 1\<rparr>, None)"
    by (simp add: SetPersona_def worldUpdate_def)
  from conjunct1 [OF set_entry_result, THEN mp, OF this] show ?thesis
    using \<open>SetPersona _ _ = _\<close> by (simp add: other_persona_def)
qed

end
