(* ===== verification/WireJson.thy ===== *)
theory WireJson
  imports Prelude
begin

text \<open>
  What the program uses of \<open>encoding/json\<close>, on the level of JSON values: how a struct is written by
  its field tags, and how a value is read into a struct that already holds something.  Reading
  follows the package: a key selects the field with just that name or else one that differs only in
  case, a later key overwrites an earlier one, \<open>null\<close> leaves a string, number or struct alone and makes a
  pointer, slice or map nil, and what has no field is ignored or, with \<open>DisallowUnknownFields\<close>, an error.
  Times and byte slices are texts of a fixed form on the wire and constructors of their own here.
\<close>

section \<open>Values\<close>

datatype json =
  JNull
| JBool bool
| JNumber int
| JDecimal string  \<comment> \<open>a number that is not written as an integer\<close>
| JText string
| JTime time
| JData bytes
| JArray "json list"
| JObject "(string \<times> json) list"

section \<open>Reading values\<close>

text \<open>A reader takes a value and what the place to fill holds; it gives nothing for a value of the wrong type.\<close>

type_synonym 'a reader = "json \<Rightarrow> 'a \<Rightarrow> 'a option"

definition readText :: "string reader" where
  "readText j old = (case j of JNull \<Rightarrow> Some old | JText s \<Rightarrow> Some s | _ \<Rightarrow> None)"

definition readInt :: "int reader" where
  "readInt j old = (case j of JNull \<Rightarrow> Some old | JNumber n \<Rightarrow> if is_int64 n then Some n else None | _ \<Rightarrow> None)"

definition readUint64 :: "u64 reader" where
  "readUint64 j old = (case j of JNull \<Rightarrow> Some old
     | JNumber n \<Rightarrow> if 0 \<le> n \<and> n < 2 ^ 64 then Some (word_of_int n) else None | _ \<Rightarrow> None)"

definition readBool :: "bool reader" where
  "readBool j old = (case j of JNull \<Rightarrow> Some old | JBool b \<Rightarrow> Some b | _ \<Rightarrow> None)"

definition readTime :: "time reader" where
  "readTime j old = (case j of JNull \<Rightarrow> Some old | JTime t \<Rightarrow> Some t | _ \<Rightarrow> None)"

definition readData :: "bytes reader" where
  "readData j old = (case j of JNull \<Rightarrow> Some [] | JData d \<Rightarrow> Some d | _ \<Rightarrow> None)"

definition readPointer :: "'a reader \<Rightarrow> 'a \<Rightarrow> 'a option reader" where
  "readPointer read zero j old =
     (case j of
        JNull \<Rightarrow> Some None
      | _ \<Rightarrow> map_option Some (read j (case old of None \<Rightarrow> zero | Some x \<Rightarrow> x)))"

fun readElements :: "'a reader \<Rightarrow> 'a \<Rightarrow> json list \<Rightarrow> 'a list \<Rightarrow> 'a list option" where
  "readElements read zero [] old = Some []"
| "readElements read zero (j # js) old =
     Option.bind (read j (case old of [] \<Rightarrow> zero | x # _ \<Rightarrow> x))
       (\<lambda>x. map_option ((#) x) (readElements read zero js (drop 1 old)))"

definition readList :: "'a reader \<Rightarrow> 'a \<Rightarrow> 'a list reader" where
  "readList read zero j old = (case j of JNull \<Rightarrow> Some [] | JArray js \<Rightarrow> readElements read zero js old | _ \<Rightarrow> None)"

fun readEntries :: "'a reader \<Rightarrow> 'a \<Rightarrow> (string \<times> json) list \<Rightarrow> (string, 'a) gomap \<Rightarrow> (string, 'a) gomap option" where
  "readEntries read zero [] m = Some m"
| "readEntries read zero ((k, j) # es) m = Option.bind (read j zero) (\<lambda>x. readEntries read zero es (map_put m k x))"

definition readMap :: "'a reader \<Rightarrow> 'a \<Rightarrow> (string, 'a) gomap option reader" where
  "readMap read zero j old =
     (case j of
        JNull \<Rightarrow> Some None
      | JObject es \<Rightarrow> map_option Some (readEntries read zero es (case old of None \<Rightarrow> [] | Some m \<Rightarrow> m))
      | _ \<Rightarrow> None)"

section \<open>Structs\<close>

record 'r json_field =
  fieldName :: string
  fieldWrite :: "'r \<Rightarrow> json option"
  fieldRead :: "'r reader"

text \<open>A field by its name, the writer (with \<open>omitempty\<close>, it may write nothing) and the reader of its
  type, its selector and its update.\<close>

definition field :: "string \<Rightarrow> ('a \<Rightarrow> json option) \<Rightarrow> 'a reader \<Rightarrow> ('r \<Rightarrow> 'a) \<Rightarrow> (('a \<Rightarrow> 'a) \<Rightarrow> 'r \<Rightarrow> 'r) \<Rightarrow> 'r json_field" where
  "field name write read get upd =
     \<lparr>fieldName = name, fieldWrite = (\<lambda>r. write (get r)),
      fieldRead = (\<lambda>j r. map_option (\<lambda>x. upd (\<lambda>_. x) r) (read j (get r)))\<rparr>"

fun writeFields :: "'r json_field list \<Rightarrow> 'r \<Rightarrow> (string \<times> json) list" where
  "writeFields [] r = []"
| "writeFields (f # fs) r =
     (case fieldWrite f r of None \<Rightarrow> writeFields fs r | Some j \<Rightarrow> (fieldName f, j) # writeFields fs r)"

declare writeFields.simps(2) [simp del]

definition writeStruct :: "'r json_field list \<Rightarrow> 'r \<Rightarrow> json" where
  "writeStruct fs r = JObject (writeFields fs r)"

definition findField :: "'r json_field list \<Rightarrow> string \<Rightarrow> 'r json_field option" where
  "findField fs key =
     (case find (\<lambda>f. fieldName f = key) fs of
        Some f \<Rightarrow> Some f
      | None \<Rightarrow> find (\<lambda>f. equalFold (fieldName f) key) fs)"

fun readFields :: "bool \<Rightarrow> 'r json_field list \<Rightarrow> (string \<times> json) list \<Rightarrow> 'r \<Rightarrow> 'r option" where
  "readFields strict fs [] r = Some r"
| "readFields strict fs ((k, j) # es) r =
     (case findField fs k of
        None \<Rightarrow> if strict then None else readFields strict fs es r
      | Some f \<Rightarrow> Option.bind (fieldRead f j r) (readFields strict fs es))"

definition readStruct :: "bool \<Rightarrow> 'r json_field list \<Rightarrow> 'r reader" where
  "readStruct strict fs j old =
     (case j of JNull \<Rightarrow> Some old | JObject es \<Rightarrow> readFields strict fs es old | _ \<Rightarrow> None)"

text \<open>Writers of the basic types.\<close>

abbreviation always :: "('a \<Rightarrow> json) \<Rightarrow> 'a \<Rightarrow> json option" where
  "always write \<equiv> (\<lambda>x. Some (write x))"

definition omitText :: "string \<Rightarrow> json option" where
  "omitText s = (if s = [] then None else Some (JText s))"

definition omitData :: "bytes \<Rightarrow> json option" where
  "omitData d = (if d = [] then None else Some (JData d))"

definition omitUint64 :: "u64 \<Rightarrow> json option" where
  "omitUint64 n = (if n = 0 then None else Some (JNumber (uint n)))"

definition omitNil :: "('a \<Rightarrow> json) \<Rightarrow> 'a option \<Rightarrow> json option" where
  "omitNil write x = map_option write x"

definition omitList :: "('a \<Rightarrow> json) \<Rightarrow> 'a list \<Rightarrow> json option" where
  "omitList write xs = (if xs = [] then None else Some (JArray (map write xs)))"

text \<open>A map is written with its keys in order.\<close>

definition writeEntries :: "('a \<Rightarrow> json) \<Rightarrow> (string, 'a) gomap \<Rightarrow> json" where
  "writeEntries write m = JObject (map (\<lambda>k. (k, write (the (map_of m k)))) (sortStrings (map_keys m)))"

definition omitMap :: "('a \<Rightarrow> json) \<Rightarrow> (string, 'a) gomap option \<Rightarrow> json option" where
  "omitMap write m = (case m of None \<Rightarrow> None | Some [] \<Rightarrow> None | Some es \<Rightarrow> Some (writeEntries write es))"

section \<open>Texts\<close>

text \<open>The encoder replaces what is not UTF-8 in a text; \<open>utf\<close> is that replacement.\<close>

fun carried :: "(string \<Rightarrow> string) \<Rightarrow> json \<Rightarrow> json" where
  "carried utf (JText s) = JText (utf s)"
| "carried utf (JArray js) = JArray (map (carried utf) js)"
| "carried utf (JObject es) = JObject (map (\<lambda>(k, j). (utf k, carried utf j)) es)"
| "carried utf j = j"

fun jsonTexts :: "json \<Rightarrow> string set" where
  "jsonTexts (JText s) = {s}"
| "jsonTexts (JArray js) = (\<Union>j\<in>set js. jsonTexts j)"
| "jsonTexts (JObject es) = (\<Union>(k, j)\<in>set es. insert k (jsonTexts j))"
| "jsonTexts j = {}"

lemma carried_id: "(\<And>s. s \<in> jsonTexts j \<Longrightarrow> utf s = s) \<Longrightarrow> carried utf j = j"
proof (induction utf j rule: carried.induct)
  case (2 utf js)
  have "map (carried utf) js = map id js"
    by (rule map_cong) (use 2 in auto)
  then show ?case by simp
next
  case (3 utf es)
  have "map (\<lambda>(k, j). (utf k, carried utf j)) es = map id es"
  proof (rule map_cong)
    fix e
    assume e: "e \<in> set es"
    obtain k j where kj: "e = (k, j)" by (cases e)
    then have "utf k = k" "\<And>s. s \<in> jsonTexts j \<Longrightarrow> utf s = s" using 3(2) e by fastforce+
    then show "(case e of (k, j) \<Rightarrow> (utf k, carried utf j)) = id e" using 3(1) [OF e kj [symmetric]] kj by simp
  qed simp
  then show ?case by simp
qed auto

text \<open>A time can be written only if its year has at most four digits; \<open>ok\<close> says so.\<close>

fun writable :: "(time \<Rightarrow> bool) \<Rightarrow> json \<Rightarrow> bool" where
  "writable ok (JTime t) = ok t"
| "writable ok (JArray js) = list_all (writable ok) js"
| "writable ok (JObject es) = list_all (\<lambda>(k, j). writable ok j) es"
| "writable ok j = True"

section \<open>Round trips\<close>

named_theorems wire  \<comment> \<open>the steps of a round trip\<close>

lemma read_basic [wire, simp]:
  "readText (JText s) os = Some s" "readBool (JBool b) ob = Some b" "readTime (JTime t) ot = Some t"
  "readData (JData d) od = Some d" "is_int64 n \<Longrightarrow> readInt (JNumber n) oi = Some n"
  by (simp_all add: readText_def readBool_def readTime_def readData_def readInt_def)

lemma readUint64_uint [wire, simp]: "readUint64 (JNumber (uint n)) old = Some n"
  using uint_lt2p [of n] by (simp add: readUint64_def)

lemma readEntries_map:
  assumes "distinct (map fst m @ ks)" and "\<And>k. k \<in> set ks \<Longrightarrow> read (f k) zero = Some (g k)"
  shows "readEntries read zero (map (\<lambda>k. (k, f k)) ks) m = Some (m @ map (\<lambda>k. (k, g k)) ks)"
  using assms
proof (induction ks arbitrary: m)
  case (Cons k ks)
  have "map_put m k (g k) = m @ [(k, g k)]" using Cons.prems(1) by (intro map_put_fresh) auto
  moreover have "distinct (map fst (m @ [(k, g k)]) @ ks)" using Cons.prems(1) by auto
  ultimately show ?case using Cons by simp
qed simp

text \<open>What reading does with one written field, so that a round trip is one step per field.\<close>

definition copyField :: "'r json_field \<Rightarrow> 'r json_field \<Rightarrow> 'r \<Rightarrow> 'r \<Rightarrow> 'r option" where
  "copyField f g r a = (case fieldWrite f r of None \<Rightarrow> Some a | Some j \<Rightarrow> fieldRead g j a)"

lemma readFields_written [wire]:
  assumes "findField fs (fieldName f) = Some g"
  shows "readFields strict fs (writeFields (f # rest) r) a =
     Option.bind (copyField f g r a) (readFields strict fs (writeFields rest r))"
  using assms by (simp add: copyField_def writeFields.simps(2) split: option.split)

lemma copy_always [wire]:
  "read (write (get r)) (get a) = Some (get r) \<Longrightarrow>
   copyField (field n (always write) rd get u) (field n wr read get upd) r a = Some (upd (\<lambda>_. get r) a)"
  by (simp add: copyField_def field_def)

lemma copy_text [wire]:
  "get a = [] \<Longrightarrow> upd (\<lambda>_. []) a = a \<Longrightarrow> copyField (field n omitText rd get u) (field n wr readText get upd) r a = Some (upd (\<lambda>_. get r) a)"
  by (simp add: copyField_def field_def omitText_def)

lemma copy_data [wire]:
  "get a = [] \<Longrightarrow> upd (\<lambda>_. []) a = a \<Longrightarrow> copyField (field n omitData rd get u) (field n wr readData get upd) r a = Some (upd (\<lambda>_. get r) a)"
  by (simp add: copyField_def field_def omitData_def)

lemma copy_uint64 [wire]:
  "get a = 0 \<Longrightarrow> upd (\<lambda>_. 0) a = a \<Longrightarrow> copyField (field n omitUint64 rd get u) (field n wr readUint64 get upd) r a = Some (upd (\<lambda>_. get r) a)"
  by (simp add: copyField_def field_def omitUint64_def)

lemma copy_nil [wire]:
  "get a = None \<Longrightarrow> upd (\<lambda>_. None) a = a \<Longrightarrow>
   (\<And>x. get r = Some x \<Longrightarrow> readPointer read zero (write x) None = Some (Some x)) \<Longrightarrow>
   copyField (field n (omitNil write) rd get u) (field n wr (readPointer read zero) get upd) r a = Some (upd (\<lambda>_. get r) a)"
  by (cases "get r") (simp_all add: copyField_def field_def omitNil_def)

lemma copy_list [wire]:
  "get a = [] \<Longrightarrow> upd (\<lambda>_. []) a = a \<Longrightarrow> readList read zero (JArray (map write (get r))) [] = Some (get r) \<Longrightarrow>
   copyField (field n (omitList write) rd get u) (field n wr (readList read zero) get upd) r a = Some (upd (\<lambda>_. get r) a)"
  by (simp add: copyField_def field_def omitList_def)

lemma fieldName_field [simp]: "fieldName (field n w rd g u) = n"
  by (simp add: field_def)

lemma findField_here [simp]: "fieldName f = n \<Longrightarrow> findField (f # fs) n = Some f"
  by (simp add: findField_def)

lemma findField_later [simp]:
  "fieldName f \<noteq> n \<Longrightarrow> n \<in> fieldName ` set fs \<Longrightarrow> findField (f # fs) n = findField fs n"
  by (auto simp: findField_def find_None_iff split: option.split)

text \<open>What an interface of the wire relies on: reading what was written gives the value back.\<close>

locale json_codec =
  fixes enc :: "'a \<Rightarrow> json" and dec :: "'a reader" and zero :: 'a and ok :: "'a \<Rightarrow> bool"
  assumes roundtrip: "ok x \<Longrightarrow> dec (enc x) zero = Some x"
    and not_null: "enc x \<noteq> JNull"
begin

lemma elements: "list_all ok xs \<Longrightarrow> readElements dec zero (map enc xs) [] = Some xs"
  by (induction xs) (simp_all add: roundtrip)

lemma list: "list_all ok xs \<Longrightarrow> readList dec zero (JArray (map enc xs)) [] = Some xs"
  by (simp add: readList_def elements)

lemma pointer: "ok x \<Longrightarrow> readPointer dec zero (enc x) None = Some (Some x)"
  using not_null [of x] roundtrip [of x] by (cases "enc x") (simp_all add: readPointer_def)

lemma entries:
  assumes "map_wf m" and "list_all (\<lambda>(k, x). ok x) m"
  shows "readMap dec zero (writeEntries enc m) None = Some (Some (map (\<lambda>k. (k, the (map_of m k))) (sortStrings (map_keys m))))"
proof -
  have "dec (enc (the (map_of m k))) zero = Some (the (map_of m k))" if "k \<in> set (map_keys m)" for k
  proof (rule roundtrip)
    have "map_of m k \<noteq> None" using that by (simp add: map_of_eq_None_iff)
    then obtain x where "map_of m k = Some x" by auto
    moreover from this have "(k, x) \<in> set m" by (rule map_of_SomeD)
    ultimately show "ok (the (map_of m k))" using assms(2) by (auto simp: list_all_iff)
  qed
  then have "readEntries dec zero (map (\<lambda>k. (k, enc (the (map_of m k)))) (sortStrings (map_keys m))) []
      = Some ([] @ map (\<lambda>k. (k, the (map_of m k))) (sortStrings (map_keys m)))"
    using assms(1) by (intro readEntries_map) (simp_all add: map_wf_def)
  then show ?thesis by (simp add: readMap_def writeEntries_def)
qed

end

interpretation texts: json_codec JText readText "[]" "\<lambda>_. True"
  by unfold_locales simp_all

interpretation numbers: json_codec JNumber readInt 0 is_int64
  by unfold_locales simp_all

interpretation times: json_codec JTime readTime 0 "\<lambda>_. True"
  by unfold_locales simp_all

interpretation flags: json_codec JBool readBool False "\<lambda>_. True"
  by unfold_locales simp_all

end
