(* ===== verification/JsonText.thy ===== *)
theory JsonText
  imports IdentityStore WireJson
begin

text \<open>
  JSON values as texts.  What the program relies on of \<open>encoding/json\<close> is the contract \<open>json_text\<close>: reading
  the text of a value gives the value back, and what follows it.  The compact form of JSON that is
  defined here keeps this contract, so that it is one that can be kept.
\<close>

section \<open>The contract\<close>

text \<open>A value as it is read: times and byte slices are texts on the wire, and integers are the only numbers here.\<close>

fun plain_json :: "json \<Rightarrow> bool" where
  "plain_json (JTime t) = False"
| "plain_json (JData d) = False"
| "plain_json (JDecimal s) = False"
| "plain_json (JArray js) = list_all plain_json js"
| "plain_json (JObject es) = list_all (\<lambda>(k, j). plain_json j) es"
| "plain_json j = True"

text \<open>A text ends where white space, a separator or nothing follows; \<open>utf\<close> is what the encoder makes of a text
  that is not UTF-8, and what it leaves alone is read back.\<close>

definition json_text :: "(string \<Rightarrow> string) \<Rightarrow> (json \<Rightarrow> bytes) \<Rightarrow> (bytes \<Rightarrow> (json \<times> bytes) option) \<Rightarrow> bool" where
  "json_text utf render parse \<longleftrightarrow>
     (\<forall>j rest. plain_json j \<longrightarrow> (\<forall>t\<in>jsonTexts j. utf t = t) \<longrightarrow> (rest = [] \<or> json_space (hd rest)) \<longrightarrow>
        parse (render j @ rest) = Some (j, rest))"

section \<open>A compact form\<close>

text \<open>Texts: quotes, backslashes and control characters are written as \<open>\u00\<close> and two digits.\<close>

definition hexDigit :: "nat \<Rightarrow> char" where
  "hexDigit n = ''0123456789abcdef'' ! n"

definition unhexDigit :: "char \<Rightarrow> nat" where
  "unhexDigit c = (let n = of_char c in if n < 58 then n - 48 else n - 87)"

definition quote :: char where "quote = CHR 0x22"
definition backslash :: char where "backslash = CHR 0x5C"

definition escapedChar :: "char \<Rightarrow> bool" where
  "escapedChar c \<longleftrightarrow> c = quote \<or> c = backslash \<or> (of_char c :: nat) < 32"

definition renderChar :: "char \<Rightarrow> bytes" where
  "renderChar c = (if escapedChar c then backslash # ''u00'' @ [hexDigit (of_char c div 16), hexDigit (of_char c mod 16)] else [c])"

definition renderText :: "string \<Rightarrow> bytes" where
  "renderText s = quote # concat (map renderChar s) @ [quote]"

fun parseChars :: "bytes \<Rightarrow> (string \<times> bytes) option" where
  "parseChars [] = None"
| "parseChars (c # r) =
     (if c = quote then Some ([], r)
      else if c = backslash then
        (case r of
           u # y # z # a # b # r' \<Rightarrow>
             if [u, y, z] = ''u00'' then map_option (\<lambda>(s, t). (char_of (16 * unhexDigit a + unhexDigit b) # s, t)) (parseChars r') else None
         | _ \<Rightarrow> None)
      else map_option (\<lambda>(s, t). (c # s, t)) (parseChars r))"

lemma hex_digits: "n < 16 \<Longrightarrow> unhexDigit (hexDigit n) = n"
proof -
  have "list_all (\<lambda>n. unhexDigit (hexDigit n) = n) [0..<16]" by code_simp
  then show "n < 16 \<Longrightarrow> unhexDigit (hexDigit n) = n" by (simp add: list_all_iff)
qed

lemma hex_char: "char_of (16 * unhexDigit (hexDigit (of_char c div 16)) + unhexDigit (hexDigit (of_char c mod 16))) = c"
proof -
  have "(of_char c :: nat) < 256" by (rule nat_of_char_less_256)
  then have "of_char c div 16 < (16 :: nat)" by (simp add: less_mult_imp_div_less)
  then show ?thesis by (simp add: hex_digits)
qed

lemma parseChars_render: "parseChars (concat (map renderChar s) @ quote # rest) = Some (s, rest)"
proof (induction s)
  case (Cons c s)
  show ?case
  proof (cases "escapedChar c")
    case True
    have "quote \<noteq> backslash" by (simp add: quote_def backslash_def)
    then show ?thesis using True Cons hex_char [of c] by (simp add: renderChar_def)
  next
    case False
    then show ?thesis using Cons by (simp add: renderChar_def escapedChar_def)
  qed
qed simp

text \<open>Integers.\<close>

definition renderInt :: "int \<Rightarrow> bytes" where
  "renderInt n = (if n < 0 then ''-'' else []) @ itoa (nat \<bar>n\<bar>)"

definition digitOf :: "char \<Rightarrow> bool" where
  "digitOf c \<longleftrightarrow> 48 \<le> (of_char c :: nat) \<and> (of_char c :: nat) \<le> 57"

definition natOf :: "bytes \<Rightarrow> nat" where
  "natOf ds = foldl (\<lambda>n c. 10 * n + (of_char c - 48)) 0 ds"

definition parseInt :: "bytes \<Rightarrow> (json \<times> bytes) option" where
  "parseInt data =
     (let negative = (data \<noteq> [] \<and> hd data = CHR ''-''); body = (if negative then tl data else data);
          ds = takeWhile digitOf body
      in if ds = [] then None else Some (JNumber (if negative then - int (natOf ds) else int (natOf ds)), dropWhile digitOf body))"

lemma itoa_digits: "list_all digitOf (itoa n) \<and> itoa n \<noteq> [] \<and> natOf (itoa n) = n"
proof (induction n rule: itoa.induct)
  case (1 n)
  have d: "of_char (char_of (48 + k) :: char) = 48 + k" if "k < 10" for k :: nat
    using that by simp
  show ?case
  proof (cases "n < 10")
    case True
    then show ?thesis using d [OF True] by (subst (1 2 3) itoa.simps) (simp add: digitOf_def natOf_def)
  next
    case False
    have "n mod 10 < 10" by simp
    with 1 [OF False] d [OF this] False show ?thesis
      by (subst (1 2 3) itoa.simps) (simp add: natOf_def, simp add: digitOf_def)
  qed
qed

lemma parseInt_render:
  assumes "rest = [] \<or> \<not> digitOf (hd rest)"
  shows "parseInt (renderInt n @ rest) = Some (JNumber n, rest)"
proof -
  let ?ds = "itoa (nat \<bar>n\<bar>)"
  note i = itoa_digits [of "nat \<bar>n\<bar>"]
  have w: "takeWhile digitOf (?ds @ rest) = ?ds" "dropWhile digitOf (?ds @ rest) = rest"
    using i assms by (cases rest; simp add: takeWhile_append dropWhile_append list_all_iff takeWhile_eq_all_conv)+
  have "hd (?ds @ rest) \<noteq> CHR ''-''"
    using i by (cases ?ds) (auto simp: digitOf_def)
  then show ?thesis using w i by (auto simp: parseInt_def renderInt_def Let_def)
qed

section \<open>Values\<close>

fun compactJSON :: "json \<Rightarrow> bytes" where
  "compactJSON JNull = ''null''"
| "compactJSON (JBool b) = (if b then ''true'' else ''false'')"
| "compactJSON (JNumber n) = renderInt n"
| "compactJSON (JText s) = renderText s"
| "compactJSON (JArray js) = ''['' @ joinWith '','' (map compactJSON js) @ '']''"
| "compactJSON (JObject es) = ''{'' @ joinWith '','' (map (\<lambda>(k, j). renderText k @ '':'' @ compactJSON j) es) @ ''}''"
| "compactJSON j = ''null''"

fun parseValue :: "nat \<Rightarrow> bytes \<Rightarrow> (json \<times> bytes) option"
  and parseElements :: "nat \<Rightarrow> bytes \<Rightarrow> (json list \<times> bytes) option"
  and parseMembers :: "nat \<Rightarrow> bytes \<Rightarrow> ((string \<times> json) list \<times> bytes) option"
where
  "parseValue 0 data = None"
| "parseValue (Suc n) data =
     (case data of
        [] \<Rightarrow> None
      | c # r \<Rightarrow>
          if c = quote then map_option (\<lambda>(s, t). (JText s, t)) (parseChars r)
          else if c = CHR ''['' then
            (if take 1 r = '']'' then Some (JArray [], tl r) else map_option (\<lambda>(js, t). (JArray js, t)) (parseElements n r))
          else if c = CHR ''{'' then
            (if take 1 r = ''}'' then Some (JObject [], tl r) else map_option (\<lambda>(es, t). (JObject es, t)) (parseMembers n r))
          else if take 4 data = ''null'' then Some (JNull, drop 4 data)
          else if take 4 data = ''true'' then Some (JBool True, drop 4 data)
          else if take 5 data = ''false'' then Some (JBool False, drop 5 data)
          else parseInt data)"
| "parseElements 0 data = None"
| "parseElements (Suc n) data =
     (case parseValue n data of
        None \<Rightarrow> None
      | Some (j, t) \<Rightarrow>
          if take 1 t = '','' then map_option (\<lambda>(js, u). (j # js, u)) (parseElements n (tl t))
          else if take 1 t = '']'' then Some ([j], tl t) else None)"
| "parseMembers 0 data = None"
| "parseMembers (Suc n) data =
     (case data of
        [] \<Rightarrow> None
      | c # r \<Rightarrow>
          if c \<noteq> quote then None
          else case parseChars r of
                 None \<Rightarrow> None
               | Some (k, t) \<Rightarrow>
                   if take 1 t \<noteq> '':'' then None
                   else case parseValue n (tl t) of
                          None \<Rightarrow> None
                        | Some (j, u) \<Rightarrow>
                            if take 1 u = '','' then map_option (\<lambda>(es, v). ((k, j) # es, v)) (parseMembers n (tl u))
                            else if take 1 u = ''}'' then Some ([(k, j)], tl u) else None)"

text \<open>The fuel that a value takes, which the length of its text is always enough for.\<close>

fun jsonFuel :: "json \<Rightarrow> nat" where
  "jsonFuel (JArray js) = Suc (sum_list (map (\<lambda>j. Suc (jsonFuel j)) js))"
| "jsonFuel (JObject es) = Suc (sum_list (map (\<lambda>(k, j). Suc (jsonFuel j)) es))"
| "jsonFuel j = 1"

definition parseJSON :: "bytes \<Rightarrow> (json \<times> bytes) option" where
  "parseJSON data = parseValue (length data) data"

lemma render_starts:
  "compactJSON j \<noteq> [] \<and> hd (compactJSON j) \<notin> {CHR '']'', CHR ''}'', CHR '',''}"
proof (cases j)
  case (JNumber n)
  have "itoa (nat \<bar>n\<bar>) \<noteq> [] \<and> list_all digitOf (itoa (nat \<bar>n\<bar>))" using itoa_digits by blast
  then show ?thesis using JNumber by (cases "itoa (nat \<bar>n\<bar>)") (auto simp: renderInt_def digitOf_def)
qed (auto simp: renderText_def quote_def)

text \<open>What may follow a value: nothing, white space or a separator.\<close>

definition ends_value :: "bytes \<Rightarrow> bool" where
  "ends_value rest \<longleftrightarrow> rest = [] \<or> json_space (hd rest) \<or> hd rest \<in> {CHR '','', CHR '']'', CHR ''}''}"

lemma ends_value_digit: "ends_value rest \<Longrightarrow> rest = [] \<or> \<not> digitOf (hd rest)"
  by (auto simp: ends_value_def json_space_def digitOf_def)

lemma ends_value_Cons [simp]: "ends_value (CHR '','' # rest)" "ends_value (CHR '']'' # rest)" "ends_value (CHR ''}'' # rest)"
  by (simp_all add: ends_value_def)

lemma number_start:
  "\<exists>c r. renderInt n = c # r \<and> c \<notin> {quote, CHR ''['', CHR ''{'', CHR ''n'', CHR ''t'', CHR ''f''}"
proof -
  have "itoa (nat \<bar>n\<bar>) \<noteq> [] \<and> list_all digitOf (itoa (nat \<bar>n\<bar>))" using itoa_digits by blast
  then show ?thesis by (cases "itoa (nat \<bar>n\<bar>)") (auto simp: renderInt_def digitOf_def quote_def)
qed

text \<open>Elements and members, given that their values are read back.\<close>

lemma parseElements_render:
  assumes "js \<noteq> []" and "\<And>j rest n. j \<in> set js \<Longrightarrow> ends_value rest \<Longrightarrow> jsonFuel j \<le> n \<Longrightarrow> parseValue n (compactJSON j @ rest) = Some (j, rest)"
    and "sum_list (map (\<lambda>j. Suc (jsonFuel j)) js) \<le> n"
  shows "parseElements n (joinWith '','' (map compactJSON js) @ CHR '']'' # rest) = Some (js, rest)"
  using assms
proof (induction js arbitrary: n)
  case (Cons j js)
  obtain m where n: "n = Suc m" "jsonFuel j \<le> m" "sum_list (map (\<lambda>j. Suc (jsonFuel j)) js) \<le> m"
    using Cons.prems(3) by (cases n) auto
  show ?case
  proof (cases "js = []")
    case True
    then show ?thesis using Cons.prems(2) [of j "CHR '']'' # rest" m] n by simp
  next
    case False
    let ?rest = "joinWith '','' (map compactJSON js) @ CHR '']'' # rest"
    have "parseElements m ?rest = Some (js, rest)" by (rule Cons.IH [OF False]) (use Cons.prems(2) n in auto)
    then show ?thesis using False Cons.prems(2) [of j "CHR '','' # ?rest" m] n by (simp add: joinWith_Cons)
  qed
qed simp

lemma parseMembers_render:
  assumes "es \<noteq> []" and "\<And>k j rest n. (k, j) \<in> set es \<Longrightarrow> ends_value rest \<Longrightarrow> jsonFuel j \<le> n \<Longrightarrow> parseValue n (compactJSON j @ rest) = Some (j, rest)"
    and "sum_list (map (\<lambda>(k, j). Suc (jsonFuel j)) es) \<le> n"
  shows "parseMembers n (joinWith '','' (map (\<lambda>(k, j). renderText k @ '':'' @ compactJSON j) es) @ CHR ''}'' # rest) = Some (es, rest)"
  using assms
proof (induction es arbitrary: n)
  case (Cons e es)
  obtain k j where e: "e = (k, j)" by fastforce
  obtain m where n: "n = Suc m" "jsonFuel j \<le> m" "sum_list (map (\<lambda>(k, j). Suc (jsonFuel j)) es) \<le> m"
    using Cons.prems(3) e by (cases n) auto
  have k: "parseChars (concat (map renderChar k) @ quote # r) = Some (k, r)" for r by (rule parseChars_render)
  show ?case
  proof (cases "es = []")
    case True
    then show ?thesis using Cons.prems(2) [of k j "CHR ''}'' # rest" m] n k e by (simp add: renderText_def)
  next
    case False
    let ?rest = "joinWith '','' (map (\<lambda>(k, j). renderText k @ '':'' @ compactJSON j) es) @ CHR ''}'' # rest"
    have "parseMembers m ?rest = Some (es, rest)" by (rule Cons.IH [OF False]) (use Cons.prems(2) n in auto)
    then show ?thesis using False Cons.prems(2) [of k j "CHR '','' # ?rest" m] n k e by (simp add: joinWith_Cons renderText_def)
  qed
qed simp

lemma joined_start:
  "xs \<noteq> [] \<Longrightarrow> hd xs \<noteq> [] \<Longrightarrow> take 1 (joinWith sep xs @ rest) = [hd (hd xs)]"
  by (cases "tl xs = []"; cases xs; cases "hd xs") (auto simp: joinWith_Cons)

lemma parseValue_render:
  "plain_json j \<Longrightarrow> ends_value rest \<Longrightarrow> jsonFuel j \<le> n \<Longrightarrow> parseValue n (compactJSON j @ rest) = Some (j, rest)"
proof (induction j arbitrary: n rest)
  case (JNumber i)
  then obtain m where n: "n = Suc m" by (cases n) auto
  obtain c r where c: "renderInt i = c # r" "c \<notin> {quote, CHR ''['', CHR ''{'', CHR ''n'', CHR ''t'', CHR ''f''}"
    using number_start by blast
  have "parseInt (c # r @ rest) = Some (JNumber i, rest)"
    using parseInt_render [OF ends_value_digit [OF JNumber.prems(2)], of i] c by simp
  then show ?case using c n by (simp add: take_Cons')
next
  case (JText s)
  then obtain m where "n = Suc m" by (cases n) auto
  then show ?case by (simp add: renderText_def parseChars_render)
next
  case (JArray js)
  then obtain m where n: "n = Suc m" "sum_list (map (\<lambda>j. Suc (jsonFuel j)) js) \<le> m" by (cases n) auto
  show ?case
  proof (cases "js = []")
    case False
    have "take 1 (joinWith '','' (map compactJSON js) @ CHR '']'' # rest) = [hd (compactJSON (hd js))]"
      using False render_starts by (subst joined_start) (auto simp: hd_map)
    moreover have "hd (compactJSON (hd js)) \<noteq> CHR '']''" using render_starts by blast
    moreover have "parseElements m (joinWith '','' (map compactJSON js) @ CHR '']'' # rest) = Some (js, rest)"
      by (rule parseElements_render [OF False _ n(2)]) (use JArray in \<open>auto simp: list_all_iff\<close>)
    ultimately show ?thesis using n by (simp add: quote_def)
  qed (simp add: n quote_def)
next
  case (JObject es)
  then obtain m where n: "n = Suc m" "sum_list (map (\<lambda>(k, j). Suc (jsonFuel j)) es) \<le> m" by (cases n) auto
  show ?case
  proof (cases "es = []")
    case False
    then obtain k j es' where es: "es = (k, j) # es'" by (metis list.exhaust surj_pair)
    have "take 1 (joinWith '','' (map (\<lambda>(k, j). renderText k @ '':'' @ compactJSON j) es) @ CHR ''}'' # rest) = [quote]"
      unfolding es by (subst joined_start) (simp_all add: renderText_def)
    moreover have "parseMembers m (joinWith '','' (map (\<lambda>(k, j). renderText k @ '':'' @ compactJSON j) es) @ CHR ''}'' # rest) = Some (es, rest)"
      by (rule parseMembers_render [OF False _ n(2)]) (use JObject in \<open>fastforce simp: list_all_iff\<close>)
    ultimately show ?thesis using n by (simp add: quote_def)
  qed (simp add: n quote_def)
next
  case JNull
  then obtain m where "n = Suc m" by (cases n) auto
  then show ?case by (simp add: quote_def)
next
  case (JBool b)
  then obtain m where "n = Suc m" by (cases n) auto
  then show ?case by (simp add: quote_def)
qed simp_all

lemma joinWith_length: "sum_list (map (\<lambda>x. Suc (length x)) xs) \<le> Suc (length (joinWith '','' xs))"
proof (induction xs)
  case (Cons x xs)
  then show ?case by (cases "xs = []") (simp_all add: joinWith_Cons)
qed simp

lemma fuel_length: "jsonFuel j \<le> length (compactJSON j)"
proof (induction j)
  case (JArray js)
  then have "sum_list (map (\<lambda>j. Suc (jsonFuel j)) js) \<le> sum_list (map (\<lambda>x. Suc (length x)) (map compactJSON js))"
    unfolding map_map by (intro sum_list_mono) simp
  with joinWith_length [of "map compactJSON js"] show ?case by simp
next
  case (JObject es)
  then have "sum_list (map (\<lambda>(k, j). Suc (jsonFuel j)) es) \<le>
      sum_list (map (\<lambda>x. Suc (length x)) (map (\<lambda>(k, j). renderText k @ '':'' @ compactJSON j) es))"
    unfolding map_map by (intro sum_list_mono) (fastforce split: prod.splits)
  with joinWith_length [of "map (\<lambda>(k, j). renderText k @ '':'' @ compactJSON j) es"] show ?case by simp
next
  case (JNumber n)
  then show ?case using itoa_digits [of "nat \<bar>n\<bar>"] by (cases "itoa (nat \<bar>n\<bar>)") (auto simp: renderInt_def)
qed (simp_all add: renderText_def)

lemma compact_json_text: "json_text utf compactJSON parseJSON"
proof -
  have "parseJSON (compactJSON j @ rest) = Some (j, rest)" if "plain_json j" "rest = [] \<or> json_space (hd rest)" for j rest
    unfolding parseJSON_def
    by (rule parseValue_render) (use that fuel_length [of j] in \<open>auto simp: ends_value_def\<close>)
  then show ?thesis by (simp add: json_text_def)
qed

end
