(* ===== verification/NativeIsolation.thy ===== *)
theory NativeIsolation
  imports Executor
begin

text \<open>
  The checks behind native isolation, on Linux: which account may be an agent
  (\<open>internal/identity/native.go\<close>), the integrity of the original gh and of its parent directories
  (\<open>integrity_unix.go\<close>), the privacy of the credential directories (\<open>doctor.go\<close>,
  \<open>doctor_unix.go\<close>, \<open>doctor_linux.go\<close>), and the agent socket and the peer that connects to it
  (\<open>native_unix.go\<close>).  The answers of the file system and of the user database are the fields of
  \<open>native_os\<close>.
\<close>

unbundle bit_operations_syntax

section \<open>What the operating system answers\<close>

text \<open>\<open>fiOwner\<close> is the owner and the group, if the platform data is a \<open>syscall.Stat_t\<close>.\<close>

record file_info =
  fiDir :: bool
  fiLink :: bool
  fiSticky :: bool
  fiPerm :: "32 word"
  fiOwner :: "(nat \<times> nat) option"

datatype stat_answer = StatMissing | StatError | StatFound file_info

datatype walk_entry = WalkError | WalkEntry bool  \<comment> \<open>whether the entry is a symbolic link\<close>

record native_os =
  noUid :: nat
  noLstat :: "string \<Rightarrow> file_info option"
  noStat :: "string \<Rightarrow> stat_answer"
  noWalk :: "string \<Rightarrow> walk_entry list"
  noLookupId :: "string \<Rightarrow> string option"  \<comment> \<open>the UID of the account with that UID\<close>
  noLookup :: "string \<Rightarrow> string option"  \<comment> \<open>the UID of the account with that name\<close>
  noCurrent :: "string option"
  noGroupIds :: "string \<Rightarrow> string list option"
  noGroupName :: "string \<Rightarrow> string option"
  noRuntimeDirectory :: string
  noHome :: string
  noConfig :: string
  noGHConfig :: string
  noTemp :: string
  noMkdirAgents :: bool
  noListen :: "string \<Rightarrow> bool"
  noChmodSocket :: bool

datatype native_error =
  NoSuchAccount | CurrentAccountUnknown | AccountNotSeparate | GroupsUnknown | PrivilegedGroup | GroupUnknown
| IntegrityUnknown | ForeignOwner | WritableOutside
| DirectoryUnknown | CredentialsNotPrivate | CredentialsUnknown | CredentialLink
| SocketDirectoryFails | SocketDirectoryNotPrivate | SocketDirectoryForeign | SocketFails
| PeerNotAuthorized | EngineUnknown | EngineWritable | ProjectUnknown | ProjectInaccessible

section \<open>Agent accounts\<close>

definition privilegedIds :: "string list" where
  "privilegedIds = [''S-1-5-32-544'', ''S-1-5-32-551'', ''S-1-5-32-578'']"

definition privilegedNames :: "string list" where
  "privilegedNames = [''root'', ''sudo'', ''wheel'', ''admin'', ''docker'', ''docker-users'', ''podman'', ''lxd'', ''disk'',
     ''Administrators'', ''BUILTIN'' @ [CHR 0x5C] @ ''Administrators'']"

fun checkGroups :: "(string \<Rightarrow> string option) \<Rightarrow> string list \<Rightarrow> native_error option" where
  "checkGroups groupName [] = None"
| "checkGroups groupName (i # is') =
     (if List.member privilegedIds i then Some PrivilegedGroup
      else case groupName i of
             None \<Rightarrow> Some GroupUnknown
           | Some name \<Rightarrow> if List.member privilegedNames name then Some PrivilegedGroup else checkGroups groupName is')"

definition nativePrincipal :: "native_os \<Rightarrow> string \<Rightarrow> native_error + string" where
  "nativePrincipal os account =
     (case (case noLookupId os account of None \<Rightarrow> noLookup os account | Some uid \<Rightarrow> Some uid) of
        None \<Rightarrow> Inl NoSuchAccount
      | Some uid \<Rightarrow>
          (case noCurrent os of
             None \<Rightarrow> Inl CurrentAccountUnknown
           | Some current \<Rightarrow>
               if uid = current \<or> uid = ''0'' \<or> uid = ''S-1-5-18'' then Inl AccountNotSeparate
               else case noGroupIds os uid of
                      None \<Rightarrow> Inl GroupsUnknown
                    | Some ids \<Rightarrow> (case checkGroups (noGroupName os) ids of Some e \<Rightarrow> Inl e | None \<Rightarrow> Inr uid)))"

section \<open>Walking up to the root\<close>

text \<open>
  The loop \<open>for current := path; ; current = filepath.Dir(current)\<close> with a check of every
  directory.  Whether it ends depends on \<open>Dir\<close>, so it is a partial function: none is a loop that
  never ends, some error the first check that fails.
\<close>

partial_function (option) walkUp :: "(string \<Rightarrow> native_error option) \<Rightarrow> string \<Rightarrow> native_error option option" where
  "walkUp check path =
     (case check path of
        Some e \<Rightarrow> Some (Some e)
      | None \<Rightarrow> if dirPath path = path then Some None else walkUp check (dirPath path))"

definition checkIntegrityOf :: "native_os \<Rightarrow> string \<Rightarrow> native_error option" where
  "checkIntegrityOf os path =
     (case noLstat os path of
        None \<Rightarrow> Some IntegrityUnknown
      | Some info \<Rightarrow>
          if (case fiOwner info of None \<Rightarrow> True | Some (uid, gid) \<Rightarrow> uid \<noteq> 0 \<and> uid \<noteq> noUid os) \<or> fiLink info
          then Some ForeignOwner
          else if fiPerm info AND 18 \<noteq> 0 \<and> \<not> (fiDir info \<and> fiSticky info)  \<comment> \<open>0022\<close>
          then Some WritableOutside
          else None)"

definition checkExecutableIntegrity :: "native_os \<Rightarrow> string \<Rightarrow> native_error option option" where
  "checkExecutableIntegrity os path = walkUp (checkIntegrityOf os) path"

section \<open>Private directories\<close>

definition checkPrivateDirectory :: "native_os \<Rightarrow> string \<Rightarrow> native_error option" where
  "checkPrivateDirectory os path =
     (case noLstat os path of
        None \<Rightarrow> Some DirectoryUnknown
      | Some info \<Rightarrow>
          if (case fiOwner info of None \<Rightarrow> True | Some (uid, gid) \<Rightarrow> uid \<noteq> noUid os) \<or> \<not> fiDir info \<or> fiLink info \<or>
             fiPerm info AND 63 \<noteq> 0  \<comment> \<open>0077\<close>
          then Some CredentialsNotPrivate
          else None)"

definition credentialDirectories :: "native_os \<Rightarrow> string list" where
  "credentialDirectories os =
     [noGHConfig os, joinPath (joinPath (noHome os) ''.config'') ''gh'', joinPath (noConfig os) ''gh'']"

fun checkWalk :: "walk_entry list \<Rightarrow> native_error option" where
  "checkWalk [] = None"
| "checkWalk (WalkError # es) = Some CredentialLink"
| "checkWalk (WalkEntry link # es) = (if link then Some CredentialLink else checkWalk es)"

fun checkCredentials :: "native_os \<Rightarrow> string list \<Rightarrow> native_error option" where
  "checkCredentials os [] = None"
| "checkCredentials os (path # ps) =
     (if path = [] then checkCredentials os ps
      else case noStat os path of
             StatMissing \<Rightarrow> checkCredentials os ps
           | StatError \<Rightarrow> Some CredentialsUnknown
           | StatFound info \<Rightarrow>
               (case checkPrivateDirectory os path of
                  Some e \<Rightarrow> Some e
                | None \<Rightarrow>
                    (case checkWalk (noWalk os path) of
                       Some e \<Rightarrow> Some e
                     | None \<Rightarrow> checkCredentials os ps)))"

text \<open>\<open>nativeBoundary\<close>, for a state file and a path of gh; none if a walk never ends.\<close>

definition nativeBoundary :: "native_os \<Rightarrow> string \<Rightarrow> string \<Rightarrow> native_error option option" where
  "nativeBoundary os statePath ghPath =
     (case (if ghPath \<noteq> [] then checkExecutableIntegrity os ghPath else Some None) of
        None \<Rightarrow> None
      | Some (Some e) \<Rightarrow> Some (Some e)
      | Some None \<Rightarrow>
          Some (case checkPrivateDirectory os (dirPath statePath) of
                  Some e \<Rightarrow> Some e
                | None \<Rightarrow> checkCredentials os (credentialDirectories os)))"

section \<open>The agent socket\<close>

definition listenAgent :: "native_os \<Rightarrow> string \<Rightarrow> native_error + string" where
  "listenAgent os i =
     (let directory = joinPath (noTemp os) (''dovik-agent-'' @ itoa (noUid os))
      in if \<not> noMkdirAgents os then Inl SocketDirectoryFails
         else case noLstat os directory of
                None \<Rightarrow> Inl SocketDirectoryNotPrivate
              | Some info \<Rightarrow>
                  if fiLink info \<or> fiPerm info \<noteq> 457 then Inl SocketDirectoryNotPrivate  \<comment> \<open>0711\<close>
                  else if (case fiOwner info of None \<Rightarrow> True | Some (uid, gid) \<Rightarrow> uid \<noteq> noUid os) then Inl SocketDirectoryForeign
                  else (let endpoint = joinPath directory (take 24 i @ ''.sock'')
                        in if \<not> noListen os endpoint \<or> \<not> noChmodSocket os then Inl SocketFails else Inr endpoint))"

text \<open>The permission bits a agent has on a file: the owner's, the first matching group's, or
  those of the others.\<close>

definition accessBits :: "file_info \<Rightarrow> nat \<times> nat \<Rightarrow> string \<Rightarrow> string list \<Rightarrow> 32 word" where
  "accessBits info owner agent groups =
     (if itoa (fst owner) = agent then drop_bit 6 (fiPerm info) AND 7
      else if List.member groups (itoa (snd owner)) then drop_bit 3 (fiPerm info) AND 7
      else fiPerm info AND 7)"

definition engineSockets :: "native_os \<Rightarrow> string list" where
  "engineSockets os = [''/var/run/docker.sock'', ''/run/podman/podman.sock'',
     joinPath (joinPath (noRuntimeDirectory os) ''podman'') ''podman.sock'']"

fun checkSockets :: "native_os \<Rightarrow> string \<Rightarrow> string list \<Rightarrow> string list \<Rightarrow> native_error option" where
  "checkSockets os agent groups [] = None"
| "checkSockets os agent groups (socket # ss) =
     (case noStat os socket of
        StatMissing \<Rightarrow> checkSockets os agent groups ss
      | StatError \<Rightarrow> Some EngineUnknown
      | StatFound info \<Rightarrow>
          (case fiOwner info of
             None \<Rightarrow> Some EngineUnknown
           | Some owner \<Rightarrow>
               if accessBits info owner agent groups AND 2 \<noteq> 0 then Some EngineWritable
               else checkSockets os agent groups ss))"

definition checkAccessOf :: "native_os \<Rightarrow> string \<Rightarrow> string \<Rightarrow> string list \<Rightarrow> string \<Rightarrow> native_error option" where
  "checkAccessOf os root agent groups path =
     (case noStat os path of
        StatFound info \<Rightarrow>
          (case fiOwner info of
             None \<Rightarrow> Some ProjectUnknown
           | Some owner \<Rightarrow>
               (let required = (if path = root then 7 else 1)
                in if accessBits info owner agent groups AND required \<noteq> required then Some ProjectInaccessible else None))
      | _ \<Rightarrow> Some ProjectUnknown)"

definition nativeProjectAccess :: "native_os \<Rightarrow> string \<Rightarrow> string \<Rightarrow> native_error option option" where
  "nativeProjectAccess os root agent =
     (case noLookupId os agent of
        None \<Rightarrow> Some (Some NoSuchAccount)
      | Some uid \<Rightarrow>
          (case noGroupIds os uid of
             None \<Rightarrow> Some (Some GroupsUnknown)
           | Some groups \<Rightarrow>
               (case checkSockets os agent groups (engineSockets os) of
                  Some e \<Rightarrow> Some (Some e)
                | None \<Rightarrow> walkUp (checkAccessOf os root agent groups) root)))"

text \<open>\<open>authenticateAgent\<close>, where \<open>peer\<close> is the UID the socket reports for the peer.\<close>

definition authenticateAgent :: "native_os \<Rightarrow> nat option \<Rightarrow> string \<Rightarrow> string \<Rightarrow> native_error option option" where
  "authenticateAgent os peer agent projectRoot =
     (if (case peer of None \<Rightarrow> True | Some uid \<Rightarrow> itoa uid \<noteq> agent) then Some (Some PeerNotAuthorized)
      else if projectRoot \<noteq> [] then nativeProjectAccess os projectRoot agent
      else Some None)"

section \<open>The walk ends, and what it has checked\<close>

fun firstError :: "(string \<Rightarrow> native_error option) \<Rightarrow> string list \<Rightarrow> native_error option" where
  "firstError check [] = None"
| "firstError check (p # ps) = (case check p of Some e \<Rightarrow> Some e | None \<Rightarrow> firstError check ps)"

lemma firstError_None: "firstError check ps = None \<longleftrightarrow> (\<forall>p\<in>set ps. check p = None)"
  by (induction ps) (auto split: option.splits)

definition ancestors :: "string \<Rightarrow> string list" where
  "ancestors path = map (renderPath True) (rev (prefixes (cleanComps path)))"

lemma walkUp_render:
  "\<forall>c\<in>set cs. proper_comp c \<Longrightarrow>
     walkUp check (renderPath True cs) = Some (firstError check (map (renderPath True) (rev (prefixes cs))))"
proof (induction cs rule: rev_induct)
  case Nil
  then show ?case
    using dirPath_render [of "[]"] by (subst walkUp.simps) (simp split: option.split)
next
  case (snoc d ds)
  then have ds: "\<forall>c\<in>set ds. proper_comp c" by simp
  have "renderPath True ds \<noteq> renderPath True (ds @ [d])"
    using cleanComps_render [OF ds] cleanComps_render [OF snoc.prems] by force
  then have "walkUp check (renderPath True (ds @ [d])) = (case check (renderPath True (ds @ [d])) of
      Some e \<Rightarrow> Some (Some e) | None \<Rightarrow> walkUp check (renderPath True ds))"
    using walkUp.simps [of check "renderPath True (ds @ [d])"]
    by (simp only: dirPath_render [OF snoc.prems] butlast_snoc if_False)
  then show ?case
    using snoc.IH [OF ds] by (simp add: prefixes_snoc split: option.split)
qed

lemma walkUp_clean:
  "isAbs path \<Longrightarrow> clean path = path \<Longrightarrow> walkUp check path = Some (firstError check (ancestors path))"
  using walkUp_render [of "cleanComps path" check] cleanComps_proper [of path]
  by (simp add: render_cleanComps ancestors_def)

lemma walkUp_ends: "isAbs path \<Longrightarrow> \<exists>r. walkUp check path = Some r"
  using walkUp_clean [of "dirPath path" check] dirPath_clean [of path]
  by (subst walkUp.simps) (simp split: option.split)

lemma set_ancestors: "set (ancestors path) = {renderPath True cs | cs. prefix cs (cleanComps path)}"
  by (auto simp: ancestors_def in_set_prefixes)

lemma walkUp_None:
  assumes "isAbs path" and "clean path = path"
  shows "walkUp check path = Some None \<longleftrightarrow> (\<forall>cs. prefix cs (cleanComps path) \<longrightarrow> check (renderPath True cs) = None)"
proof -
  have "walkUp check path = Some None \<longleftrightarrow> firstError check (ancestors path) = None"
    by (simp add: walkUp_clean [OF assms])
  also have "\<dots> \<longleftrightarrow> (\<forall>p\<in>set (ancestors path). check p = None)"
    by (rule firstError_None)
  finally show ?thesis by (auto simp: set_ancestors)
qed

section \<open>Integrity and privacy\<close>

text \<open>Nobody but root and the operator can replace the file or directory.\<close>

definition trusted :: "native_os \<Rightarrow> string \<Rightarrow> bool" where
  "trusted os path \<longleftrightarrow> (\<exists>info uid gid. noLstat os path = Some info \<and> fiOwner info = Some (uid, gid) \<and>
     (uid = 0 \<or> uid = noUid os) \<and> \<not> fiLink info \<and> (fiPerm info AND 18 = 0 \<or> fiDir info \<and> fiSticky info))"

definition privateDir :: "native_os \<Rightarrow> string \<Rightarrow> bool" where
  "privateDir os path \<longleftrightarrow> (\<exists>info gid. noLstat os path = Some info \<and> fiOwner info = Some (noUid os, gid) \<and>
     fiDir info \<and> \<not> fiLink info \<and> fiPerm info AND 63 = 0)"

lemma checkIntegrityOf_None: "checkIntegrityOf os path = None \<longleftrightarrow> trusted os path"
  by (auto simp: checkIntegrityOf_def trusted_def split: option.splits)

lemma checkPrivateDirectory_None: "checkPrivateDirectory os path = None \<longleftrightarrow> privateDir os path"
  by (auto simp: checkPrivateDirectory_def privateDir_def split: option.splits)

lemma checkWalk_None: "checkWalk es = None \<longleftrightarrow> (\<forall>e\<in>set es. e = WalkEntry False)"
  by (induction es rule: checkWalk.induct) auto

lemma checkCredentials_None:
  "checkCredentials os ps = None \<longleftrightarrow> (\<forall>p\<in>set ps. p = [] \<or> noStat os p = StatMissing \<or>
     (\<exists>info. noStat os p = StatFound info) \<and> privateDir os p \<and> (\<forall>e\<in>set (noWalk os p). e = WalkEntry False))"
proof (induction ps)
  case Nil
  then show ?case by simp
next
  case (Cons p ps)
  have "checkCredentials os (p # ps) = None \<longleftrightarrow> (p = [] \<or> noStat os p = StatMissing \<or>
     (\<exists>info. noStat os p = StatFound info) \<and> privateDir os p \<and> checkWalk (noWalk os p) = None) \<and> checkCredentials os ps = None"
    by (cases "noStat os p")
      (simp_all add: checkPrivateDirectory_None [symmetric] split: option.split)
  then show ?case unfolding Cons.IH checkWalk_None by (simp only: list.set ball_simps)
qed

lemma nativeBoundary_accepts:
  assumes "isAbs gh"
  shows "\<exists>r. nativeBoundary os statePath gh = Some r"
    and "clean gh = gh \<Longrightarrow> nativeBoundary os statePath gh = Some None \<longleftrightarrow>
      (\<forall>cs. prefix cs (cleanComps gh) \<longrightarrow> trusted os (renderPath True cs)) \<and>
      privateDir os (dirPath statePath) \<and>
      (\<forall>p\<in>set (credentialDirectories os). p = [] \<or> noStat os p = StatMissing \<or>
         (\<exists>info. noStat os p = StatFound info) \<and> privateDir os p \<and> (\<forall>e\<in>set (noWalk os p). e = WalkEntry False))"
proof -
  have ne: "gh \<noteq> []" using assms by auto
  obtain r where r: "walkUp (checkIntegrityOf os) gh = Some r" using walkUp_ends [OF assms] by blast
  show "\<exists>r. nativeBoundary os statePath gh = Some r"
    using ne r by (simp add: nativeBoundary_def checkExecutableIntegrity_def split: option.split)
  have b: "nativeBoundary os statePath gh = Some None \<longleftrightarrow> walkUp (checkIntegrityOf os) gh = Some None \<and>
      checkPrivateDirectory os (dirPath statePath) = None \<and> checkCredentials os (credentialDirectories os) = None"
    using ne r by (auto simp: nativeBoundary_def checkExecutableIntegrity_def split: option.splits)
  show "nativeBoundary os statePath gh = Some None \<longleftrightarrow>
      (\<forall>cs. prefix cs (cleanComps gh) \<longrightarrow> trusted os (renderPath True cs)) \<and> privateDir os (dirPath statePath) \<and>
      (\<forall>p\<in>set (credentialDirectories os). p = [] \<or> noStat os p = StatMissing \<or>
         (\<exists>info. noStat os p = StatFound info) \<and> privateDir os p \<and> (\<forall>e\<in>set (noWalk os p). e = WalkEntry False))"
    if "clean gh = gh"
    unfolding b walkUp_None [OF assms that] checkIntegrityOf_None checkPrivateDirectory_None checkCredentials_None ..
qed

text \<open>C15: The checks before native isolation end for every absolute path of gh, and they accept, for
  a clean path, exactly when gh and each of its parent directories up to the root belong to root or
  the operator, are no links and cannot be written by others (but for sticky directories), the
  directory of the identity state is private to the operator, and so is every credential directory
  that exists, with no link inside.\<close>

theorem native_boundary_iff:
  assumes "isAbs gh"
  shows "(\<exists>r. nativeBoundary os statePath gh = Some r) \<and>
    (clean gh = gh \<longrightarrow> (nativeBoundary os statePath gh = Some None \<longleftrightarrow>
      (\<forall>cs. prefix cs (cleanComps gh) \<longrightarrow> trusted os (renderPath True cs)) \<and>
      privateDir os (dirPath statePath) \<and>
      (\<forall>p\<in>set (credentialDirectories os). p = [] \<or> noStat os p = StatMissing \<or>
         (\<exists>info. noStat os p = StatFound info) \<and> privateDir os p \<and> (\<forall>e\<in>set (noWalk os p). e = WalkEntry False))))"
  by (intro conjI impI nativeBoundary_accepts assms)


definition sample_native :: native_os where
  "sample_native = \<lparr>noUid = 7,
     noLstat = (\<lambda>p. Some \<lparr>fiDir = True, fiLink = False, fiSticky = False, fiPerm = (if p = ''/s'' then 448 else 493), fiOwner = Some (7, 7)\<rparr>),
     noStat = (\<lambda>p. if p = ''/w'' then StatFound \<lparr>fiDir = True, fiLink = False, fiSticky = False, fiPerm = 511, fiOwner = Some (7, 7)\<rparr>
       else if p = ''/'' then StatFound \<lparr>fiDir = True, fiLink = False, fiSticky = False, fiPerm = 493, fiOwner = Some (0, 0)\<rparr>
       else StatMissing),
     noWalk = (\<lambda>p. []), noLookupId = Some, noLookup = (\<lambda>n. None), noCurrent = Some ''7'', noGroupIds = (\<lambda>u. Some [''9'']),
     noGroupName = (\<lambda>g. Some ''staff''), noRuntimeDirectory = ''/run/user/7'', noHome = ''/home/o'', noConfig = ''/home/o/.config'',
     noGHConfig = [], noTemp = ''/tmp'', noMkdirAgents = True, noListen = (\<lambda>e. True), noChmodSocket = True\<rparr>"

theorem native_boundary_iff_witness:
  "nativeBoundary sample_native ''/s/identity.json'' ''/usr/bin/gh'' = Some None"
proof -
  have abs: "isAbs ''/usr/bin/gh''" and c: "clean ''/usr/bin/gh'' = ''/usr/bin/gh''" "cleanComps ''/usr/bin/gh'' = [''usr'', ''bin'', ''gh'']"
    and d: "dirPath ''/s/identity.json'' = ''/s''" by code_simp+
  have t: "trusted sample_native p" for p by (simp add: trusted_def sample_native_def)
  have p: "privateDir sample_native ''/s''" by (simp add: privateDir_def sample_native_def)
  have "\<forall>p\<in>set (credentialDirectories sample_native). p = [] \<or> noStat sample_native p = StatMissing" by code_simp
  then show ?thesis
    using native_boundary_iff [OF abs, of sample_native "''/s/identity.json''"] c t p d by auto
qed

section \<open>Access of the agent\<close>

definition no_engine_access :: "native_os \<Rightarrow> string \<Rightarrow> string list \<Rightarrow> string \<Rightarrow> bool" where
  "no_engine_access os agent groups socket \<longleftrightarrow> noStat os socket = StatMissing \<or>
     (\<exists>info owner. noStat os socket = StatFound info \<and> fiOwner info = Some owner \<and> accessBits info owner agent groups AND 2 = 0)"

definition has_access :: "native_os \<Rightarrow> string \<Rightarrow> string list \<Rightarrow> 32 word \<Rightarrow> string \<Rightarrow> bool" where
  "has_access os agent groups required path \<longleftrightarrow>
     (\<exists>info owner. noStat os path = StatFound info \<and> fiOwner info = Some owner \<and>
        accessBits info owner agent groups AND required = required)"

lemma checkSockets_None: "checkSockets os agent groups ss = None \<longleftrightarrow> (\<forall>s\<in>set ss. no_engine_access os agent groups s)"
  by (induction ss) (auto simp: no_engine_access_def split: stat_answer.splits option.splits)

lemma checkAccessOf_None:
  "checkAccessOf os root agent groups path = None \<longleftrightarrow> has_access os agent groups (if path = root then 7 else 1) path"
  by (auto simp: checkAccessOf_def has_access_def Let_def split: stat_answer.splits option.splits)

lemma authenticateAgent_accepts:
  assumes "isAbs root" and "clean root = root"
  shows "authenticateAgent os peer agent root = Some None \<longleftrightarrow>
      (\<exists>uid. peer = Some uid \<and> itoa uid = agent) \<and>
      (\<exists>u groups. noLookupId os agent = Some u \<and> noGroupIds os u = Some groups \<and>
        (\<forall>socket\<in>set (engineSockets os). no_engine_access os agent groups socket) \<and>
        has_access os agent groups 7 root \<and>
        (\<forall>cs. strict_prefix cs (cleanComps root) \<longrightarrow> has_access os agent groups 1 (renderPath True cs)))"
    and "authenticateAgent os peer agent root \<noteq> None"
proof -
  have ne: "root \<noteq> []" using assms(1) by auto
  have root: "renderPath True (cleanComps root) = root" by (rule render_cleanComps [OF assms])
  have other: "renderPath True cs \<noteq> root" if "strict_prefix cs (cleanComps root)" for cs
  proof -
    have "\<forall>c\<in>set cs. proper_comp c"
      using that cleanComps_proper [OF assms(1)] set_mono_prefix [of cs "cleanComps root"]
      by (auto simp: strict_prefix_def)
    then show ?thesis using cleanComps_render that by fastforce
  qed
  have w: "walkUp (checkAccessOf os root agent groups) root = Some None \<longleftrightarrow>
      has_access os agent groups 7 root \<and>
      (\<forall>cs. strict_prefix cs (cleanComps root) \<longrightarrow> has_access os agent groups 1 (renderPath True cs))" for groups
  proof -
    have "has_access os agent groups (if renderPath True cs = root then 7 else 1) (renderPath True cs) \<longleftrightarrow>
        (if cs = cleanComps root then has_access os agent groups 7 root else has_access os agent groups 1 (renderPath True cs))"
      if "prefix cs (cleanComps root)" for cs
      using root other [of cs] that by (cases "cs = cleanComps root") (simp_all add: strict_prefix_def)
    then show ?thesis
      unfolding walkUp_None [OF assms] checkAccessOf_None strict_prefix_def
      by (metis prefix_order.order_refl)
  qed
  show "authenticateAgent os peer agent root = Some None \<longleftrightarrow>
      (\<exists>uid. peer = Some uid \<and> itoa uid = agent) \<and>
      (\<exists>u groups. noLookupId os agent = Some u \<and> noGroupIds os u = Some groups \<and>
        (\<forall>socket\<in>set (engineSockets os). no_engine_access os agent groups socket) \<and>
        has_access os agent groups 7 root \<and>
        (\<forall>cs. strict_prefix cs (cleanComps root) \<longrightarrow> has_access os agent groups 1 (renderPath True cs)))"
  proof -
    have a: "authenticateAgent os peer agent root = Some None \<longleftrightarrow> (\<exists>uid. peer = Some uid \<and> itoa uid = agent) \<and>
        nativeProjectAccess os root agent = Some None"
      using ne by (auto simp: authenticateAgent_def split: option.splits)
    have "nativeProjectAccess os root agent = Some None \<longleftrightarrow> (\<exists>u groups. noLookupId os agent = Some u \<and> noGroupIds os u = Some groups \<and>
        checkSockets os agent groups (engineSockets os) = None \<and> walkUp (checkAccessOf os root agent groups) root = Some None)"
      by (simp add: nativeProjectAccess_def split: option.split)
    then show ?thesis unfolding a w checkSockets_None by blast
  qed
  show "authenticateAgent os peer agent root \<noteq> None"
    using ne walkUp_ends [OF assms(1)]
    by (auto simp: authenticateAgent_def nativeProjectAccess_def split: option.splits)
qed

text \<open>C14: An agent that connects to the socket of a native session is let in exactly when the peer has
  the UID of the session's account, that account can write to no container engine socket, has full
  access to the project's root, and may pass through every directory above it; the check ends for
  every clean root.\<close>

theorem authenticate_agent_iff:
  assumes "isAbs root" and "clean root = root"
  shows "(authenticateAgent os peer agent root = Some None \<longleftrightarrow>
      (\<exists>uid. peer = Some uid \<and> itoa uid = agent) \<and>
      (\<exists>u groups. noLookupId os agent = Some u \<and> noGroupIds os u = Some groups \<and>
        (\<forall>socket\<in>set (engineSockets os). no_engine_access os agent groups socket) \<and>
        has_access os agent groups 7 root \<and>
        (\<forall>cs. strict_prefix cs (cleanComps root) \<longrightarrow> has_access os agent groups 1 (renderPath True cs)))) \<and>
    authenticateAgent os peer agent root \<noteq> None"
  by (intro conjI authenticateAgent_accepts assms)

theorem authenticate_agent_iff_witness:
  "authenticateAgent sample_native (Some 42) ''42'' ''/w'' = Some None"
proof -
  have abs: "isAbs ''/w''" and c: "clean ''/w'' = ''/w''" "cleanComps ''/w'' = [''w'']"
    and i: "itoa 42 = ''42''" "itoa 7 = ''7''" "itoa 0 = ''0''" by code_simp+
  have r: "renderPath True [] = ''/''" by code_simp
  have "\<forall>s\<in>set (engineSockets sample_native). noStat sample_native s = StatMissing" by code_simp
  then have e: "\<forall>s\<in>set (engineSockets sample_native). no_engine_access sample_native ''42'' [''9''] s"
    by (simp add: no_engine_access_def)
  have w: "has_access sample_native ''42'' [''9''] 7 ''/w''" "has_access sample_native ''42'' [''9''] 1 ''/''"
    by (simp_all add: has_access_def sample_native_def accessBits_def i)
  show ?thesis
    using authenticate_agent_iff [OF abs c(1), of sample_native "Some 42" "''42''"] e w i c(2) r
    by (auto simp: sample_native_def strict_prefix_def prefix_Cons)
qed

text \<open>The same facts of the sample system, for the components above.\<close>

lemma sample_boundary:
  "nativeBoundary sample_native ''/s/identity.json'' ''/usr/bin/gh'' = Some None"
proof -
  have abs: "isAbs ''/usr/bin/gh''" and c: "clean ''/usr/bin/gh'' = ''/usr/bin/gh''" "cleanComps ''/usr/bin/gh'' = [''usr'', ''bin'', ''gh'']"
    and d: "dirPath ''/s/identity.json'' = ''/s''" by code_simp+
  have t: "trusted sample_native p" for p by (simp add: trusted_def sample_native_def)
  have p: "privateDir sample_native ''/s''" by (simp add: privateDir_def sample_native_def)
  have "\<forall>p\<in>set (credentialDirectories sample_native). p = [] \<or> noStat sample_native p = StatMissing" by code_simp
  then show ?thesis
    using nativeBoundary_accepts(2) [OF abs c(1), of sample_native "''/s/identity.json''"] t p d by auto
qed

lemma sample_authenticated:
  "authenticateAgent sample_native (Some 42) ''42'' ''/w'' = Some None"
proof -
  have abs: "isAbs ''/w''" and c: "clean ''/w'' = ''/w''" "cleanComps ''/w'' = [''w'']"
    and i: "itoa 42 = ''42''" "itoa 7 = ''7''" "itoa 0 = ''0''" by code_simp+
  have r: "renderPath True [] = ''/''" by code_simp
  have "\<forall>s\<in>set (engineSockets sample_native). noStat sample_native s = StatMissing" by code_simp
  then have e: "\<forall>s\<in>set (engineSockets sample_native). no_engine_access sample_native ''42'' [''9''] s"
    by (simp add: no_engine_access_def)
  have w: "has_access sample_native ''42'' [''9''] 7 ''/w''" "has_access sample_native ''42'' [''9''] 1 ''/''"
    by (simp_all add: has_access_def sample_native_def accessBits_def i)
  show ?thesis
    using authenticateAgent_accepts(1) [OF abs c(1), of sample_native "Some 42" "''42''"] e w i c(2) r
    by (auto simp: sample_native_def strict_prefix_def prefix_Cons)
qed

end
