(* ===== verification/IdentityService.thy ===== *)
theory IdentityService
  imports IdentityStore NativeIsolation
begin

text \<open>
  The identity broker of \<open>internal/identity/service.go\<close>: the requests that change the identity state,
  the agent sessions with their personas, the context a GitHub call is made in, and its execution.
  The service holds the store and, under its lock, the map of sessions and the map of listeners.
  The answers of the operating system, of the original gh and of \<open>crypto/rand\<close> are arguments.
\<close>

section \<open>State and requests\<close>

record session =
  seStatus :: string
  seID :: string
  seProjectID :: string
  sePersonaID :: string
  seBackend :: string
  sePrincipal :: string
  seEndpoint :: string

text \<open>\<open>svClosed\<close> records the endpoints whose listeners were closed.\<close>

record service =
  svWorld :: identity_world
  svSessions :: "(string, session) gomap"
  svListeners :: "(string, string) gomap"
  svClosed :: "string list"
  svCanceled :: bool

record identity_request =
  rqAction :: string
  rqPersona :: "persona option"
  rqProject :: "project option"
  rqProjectID :: string
  rqPersonaID :: string
  rqSessionID :: string
  rqPolicy :: "policy option"
  rqPath :: string
  rqRoot :: string
  rqBackend :: string
  rqPrincipal :: string
  rqPersonas :: "persona list"

record execution_request =
  xrProjectID :: string
  xrRoot :: string
  xrSessionID :: string
  xrInvocation :: invocation

datatype service_error =
  StoreError store_failure | GHError exec_error | IdentityError identity_error | NativeError native_error | BoundaryNeverEnds
| PersonaAndProjectRequired | RootUnresolved | RootNotDirectory | PersonaMissing | ProjectMissing | PolicyMissing
| UnknownSession | UnknownIdentityOperation
| UnknownBackend | IsolationRequired | RandomFails
| SessionUnavailable | PersonaChangeDenied | AlternativeHostDiffers
| SessionNotIsolated | SessionPersonaDenied | IsolatedSessionRequired | CredentialHelperUnavailable

record check =
  ckName :: string
  ckReady :: bool
  ckDetail :: string

record service_snapshot =
  ssState :: identity_state
  ssSessions :: "session list"
  ssChecks :: "check list"

record service_env =
  evParse :: "string \<Rightarrow> string option"
  evEncode :: "identity_state \<Rightarrow> bytes option"
  evIndent :: "identity_state \<Rightarrow> bytes option"
  evUnmarshal :: "bytes \<Rightarrow> identity_state option"
  evStateOS :: "nat \<Rightarrow> state_os"
  evOS :: os_view
  evExec :: exec
  evNative :: native_os
  evIsDir :: "string \<Rightarrow> bool"
  evMessage :: "service_error \<Rightarrow> string"  \<comment> \<open>the text of an error\<close>

definition NewService :: "identity_world \<Rightarrow> service" where
  "NewService w = \<lparr>svWorld = w, svSessions = [], svListeners = [], svClosed = [], svCanceled = False\<rparr>"

definition Close :: "service \<Rightarrow> service" where
  "Close s = s\<lparr>svCanceled := True, svClosed := svClosed s @ map snd (svListeners s), svSessions := []\<rparr>"

definition stateOf :: "service_env \<Rightarrow> service \<Rightarrow> identity_state" where
  "stateOf env s = worldSnapshot (evEncode env) (evUnmarshal env) (svWorld s)"

definition serviceSnapshot :: "service_env \<Rightarrow> service \<Rightarrow> service_snapshot" where
  "serviceSnapshot env s = \<lparr>ssState = stateOf env s, ssSessions = sort_key seID (map snd (svSessions s)), ssChecks = []\<rparr>"

section \<open>Changes of the state\<close>

definition updateService :: "service_env \<Rightarrow> service \<Rightarrow> (identity_state \<Rightarrow> change_error + identity_state)
    \<Rightarrow> service \<times> service_error option" where
  "updateService env s change =
     (case worldUpdate (evParse env) (evEncode env) (evIndent env) (evUnmarshal env) (evStateOS env) (svWorld s) change of
        (w, e) \<Rightarrow> (s\<lparr>svWorld := w\<rparr>, map_option StoreError e))"

fun importLoop :: "persona list \<Rightarrow> identity_state \<Rightarrow> change_error + identity_state" where
  "importLoop [] s = Inr s"
| "importLoop (p # ps) s =
     (case FindPersona s (peID p) of
        Inr q \<Rightarrow> Inl ImportOverwrites
      | Inl e \<Rightarrow> importLoop ps (s\<lparr>stPersonas := stPersonas s @ [p]\<rparr>))"

definition changeImport :: "persona list \<Rightarrow> identity_state \<Rightarrow> change_error + identity_state" where
  "changeImport ps s = (if ps = [] then Inl NoPersonasToImport else importLoop ps s)"

definition changeConfigure :: "string \<Rightarrow> persona \<Rightarrow> project \<Rightarrow> identity_state \<Rightarrow> change_error + identity_state" where
  "changeConfigure path persona project s = Inr (s\<lparr>stGHPath := path, stPersonas := putPersona (stPersonas s) persona,
     stProjects := putProject (stProjects s) project\<rparr>)"

definition changeGH :: "string \<Rightarrow> identity_state \<Rightarrow> change_error + identity_state" where
  "changeGH path s = Inr (s\<lparr>stGHPath := path\<rparr>)"

fun setPolicy :: "project list \<Rightarrow> string \<Rightarrow> policy \<Rightarrow> project list option" where
  "setPolicy [] i policy = None"
| "setPolicy (p # ps) i policy =
     (if prID p = i then Some (p\<lparr>prPolicy := policy\<rparr> # ps) else map_option ((#) p) (setPolicy ps i policy))"

definition changePolicy :: "string \<Rightarrow> policy \<Rightarrow> identity_state \<Rightarrow> change_error + identity_state" where
  "changePolicy i policy s =
     (case setPolicy (stProjects s) i policy of
        None \<Rightarrow> Inl UnknownProject
      | Some ps \<Rightarrow> Inr (s\<lparr>stProjects := ps\<rparr>))"

definition configure :: "service_env \<Rightarrow> service \<Rightarrow> identity_request \<Rightarrow> service \<times> service_error option" where
  "configure env s r =
     (case (rqPersona r, rqProject r) of
        (Some persona, Some project) \<Rightarrow>
          (case ValidateGH (evOS env) (evExec env) (rqPath r) of
             Inl e \<Rightarrow> (s, Some (GHError e))
           | Inr path \<Rightarrow>
               (case osEvalSymlinks (evOS env) (prRoot project) of
                  None \<Rightarrow> (s, Some RootUnresolved)
                | Some root \<Rightarrow>
                    if \<not> evIsDir env root then (s, Some RootNotDirectory)
                    else updateService env s (changeConfigure path persona (project\<lparr>prRoot := root\<rparr>))))
      | _ \<Rightarrow> (s, Some PersonaAndProjectRequired))"

definition putPersonaRequest :: "service_env \<Rightarrow> service \<Rightarrow> identity_request \<Rightarrow> service \<times> service_error option" where
  "putPersonaRequest env s r =
     (case rqPersona r of
        None \<Rightarrow> (s, Some PersonaMissing)
      | Some p \<Rightarrow> SetPersona (updateService env s) p)"

definition putProjectRequest :: "service_env \<Rightarrow> service \<Rightarrow> identity_request \<Rightarrow> service \<times> service_error option" where
  "putProjectRequest env s r =
     (case rqProject r of
        None \<Rightarrow> (s, Some ProjectMissing)
      | Some p \<Rightarrow>
          (case SetProject (worldUpdate (evParse env) (evEncode env) (evIndent env) (evUnmarshal env) (evStateOS env) (svWorld s))
                  (svWorld s) (osEvalSymlinks (evOS env)) (evIsDir env) p of
             (w, e) \<Rightarrow> (s\<lparr>svWorld := w\<rparr>, map_option StoreError e)))"

definition setGH :: "service_env \<Rightarrow> service \<Rightarrow> identity_request \<Rightarrow> service \<times> service_error option" where
  "setGH env s r =
     (case ValidateGH (evOS env) (evExec env) (rqPath r) of
        Inl e \<Rightarrow> (s, Some (GHError e))
      | Inr path \<Rightarrow> updateService env s (changeGH path))"

definition setPolicyRequest :: "service_env \<Rightarrow> service \<Rightarrow> identity_request \<Rightarrow> service \<times> service_error option" where
  "setPolicyRequest env s r =
     (case rqPolicy r of
        None \<Rightarrow> (s, Some PolicyMissing)
      | Some policy \<Rightarrow> updateService env s (changePolicy (rqProjectID r) policy))"

section \<open>Sessions\<close>

definition backends :: "string list" where
  "backends = [''proxy-level'', ''native'', ''docker'', ''podman'']"

text \<open>The part of \<open>createSession\<close> after the new ID, for the session as it is built so far.\<close>

definition startSession :: "service_env \<Rightarrow> service \<Rightarrow> identity_state \<Rightarrow> session \<Rightarrow> service \<times> (service_error + session)" where
  "startSession env s state session =
     (if seBackend session \<noteq> ''native'' then
        (s\<lparr>svSessions := map_put (svSessions s) (seID session) session\<rparr>, Inr session)
      else
        (case nativeBoundary (evNative env) (isPath (iwStore (svWorld s))) (stGHPath state) of
           None \<Rightarrow> (s, Inl BoundaryNeverEnds)
         | Some (Some e) \<Rightarrow> (s, Inl (NativeError e))
         | Some None \<Rightarrow>
             (case nativePrincipal (evNative env) (sePrincipal session) of
                Inl e \<Rightarrow> (s, Inl (NativeError e))
              | Inr agent \<Rightarrow>
                  (case listenAgent (evNative env) (seID session) of
                     Inl e \<Rightarrow> (s, Inl (NativeError e))
                   | Inr endpoint \<Rightarrow>
                       (let session' = session\<lparr>sePrincipal := agent, seEndpoint := endpoint\<rparr>
                        in (s\<lparr>svSessions := map_put (svSessions s) (seID session) session',
                              svListeners := map_put (svListeners s) (seID session) endpoint\<rparr>, Inr session'))))))"

definition createSession :: "service_env \<Rightarrow> 8 word list option \<Rightarrow> service \<Rightarrow> identity_request \<Rightarrow> service \<times> (service_error + session)" where
  "createSession env nonce s r =
     (case FindProject (stateOf env s) (rqProjectID r) [] of
        Inl e \<Rightarrow> (s, Inl (IdentityError e))
      | Inr p \<Rightarrow>
          if \<not> List.member backends (rqBackend r) then (s, Inl UnknownBackend)
          else if prMode p = ''agent-isolation'' \<and> rqBackend r = ''proxy-level'' then (s, Inl IsolationRequired)
          else (case nonce of
                  None \<Rightarrow> (s, Inl RandomFails)
                | Some bytes \<Rightarrow>
                    startSession env s (stateOf env s)
                      \<lparr>seStatus = (if rqBackend r = ''proxy-level'' then ''active'' else ''awaiting-agent''),
                       seID = hexBytes bytes, seProjectID = prID p, sePersonaID = prPersona p,
                       seBackend = rqBackend r, sePrincipal = rqPrincipal r, seEndpoint = []\<rparr>))"

definition revokeSession :: "service \<Rightarrow> string \<Rightarrow> service \<times> service_error option" where
  "revokeSession s i =
     (case map_of (svSessions s) i of
        None \<Rightarrow> (s, Some UnknownSession)
      | Some session \<Rightarrow>
          (let s1 = s\<lparr>svSessions := map_del (svSessions s) i\<rparr>
           in case map_of (svListeners s) i of
                None \<Rightarrow> (s1, None)
              | Some endpoint \<Rightarrow>
                  (s1\<lparr>svClosed := svClosed s @ [endpoint], svListeners := map_del (svListeners s) i\<rparr>, None)))"

definition selectSessionPersona :: "service_env \<Rightarrow> service \<Rightarrow> string \<Rightarrow> string \<Rightarrow> service \<times> service_error option" where
  "selectSessionPersona env s i persona =
     (case map_of (svSessions s) i of
        None \<Rightarrow> (s, Some SessionUnavailable)
      | Some session \<Rightarrow>
          (case FindProject (stateOf env s) (seProjectID session) [] of
             Inl e \<Rightarrow> (s, Some (IdentityError e))
           | Inr p \<Rightarrow>
               if \<not> Allows (prPolicy p) ''persona'' \<or> (persona \<noteq> prPersona p \<and> \<not> List.member (prAlternatives p) persona)
               then (s, Some PersonaChangeDenied)
               else (let original = (case FindPersona (stateOf env s) (prPersona p) of Inr q \<Rightarrow> peHost q | Inl e \<Rightarrow> [])
                     in case FindPersona (stateOf env s) persona of
                          Inl e \<Rightarrow> (s, Some AlternativeHostDiffers)
                        | Inr alternative \<Rightarrow>
                            if original \<noteq> peHost alternative then (s, Some AlternativeHostDiffers)
                            else (s\<lparr>svSessions := map_put (svSessions s) i (session\<lparr>sePersonaID := persona\<rparr>)\<rparr>, None))))"

definition activateSession :: "service \<Rightarrow> string \<Rightarrow> service" where
  "activateSession s i =
     (case map_of (svSessions s) i of
        None \<Rightarrow> s
      | Some session \<Rightarrow> s\<lparr>svSessions := map_put (svSessions s) i (session\<lparr>seStatus := ''active''\<rparr>)\<rparr>)"

section \<open>The requests of the operator\<close>

datatype action =
  Doctor | PersonaImport | Configure | GetState | PersonaPut | ProjectPut | GHSet | PolicySet
| SessionCreate | SessionRevoke | SessionPersona

definition actions :: "(string \<times> action) list" where
  "actions = [(''doctor'', Doctor), (''persona.import'', PersonaImport), (''configure'', Configure), (''get'', GetState),
     (''persona.put'', PersonaPut), (''project.put'', ProjectPut), (''gh.set'', GHSet), (''policy.set'', PolicySet),
     (''session.create'', SessionCreate), (''session.revoke'', SessionRevoke), (''session.persona'', SessionPersona)]"

definition perform :: "service_env \<Rightarrow> 8 word list option \<Rightarrow> service \<Rightarrow> action \<Rightarrow> identity_request
    \<Rightarrow> service \<times> service_error option" where
  "perform env nonce s a r =
     (case a of
        Doctor \<Rightarrow> (s, None)
      | GetState \<Rightarrow> (s, None)
      | PersonaImport \<Rightarrow> updateService env s (changeImport (rqPersonas r))
      | Configure \<Rightarrow> configure env s r
      | PersonaPut \<Rightarrow> putPersonaRequest env s r
      | ProjectPut \<Rightarrow> putProjectRequest env s r
      | GHSet \<Rightarrow> setGH env s r
      | PolicySet \<Rightarrow> setPolicyRequest env s r
      | SessionCreate \<Rightarrow>
          (case createSession env nonce s r of (s', Inl e) \<Rightarrow> (s', Some e) | (s', Inr session) \<Rightarrow> (s', None))
      | SessionRevoke \<Rightarrow> revokeSession s (rqSessionID r)
      | SessionPersona \<Rightarrow> selectSessionPersona env s (rqSessionID r) (rqPersonaID r))"

definition checkOf :: "service_env \<Rightarrow> string \<Rightarrow> service_error option \<Rightarrow> check" where
  "checkOf env name e = \<lparr>ckName = name, ckReady = (e = None), ckDetail = (case e of None \<Rightarrow> [] | Some x \<Rightarrow> evMessage env x)\<rparr>"

definition doctorChecks :: "service_env \<Rightarrow> service \<Rightarrow> identity_request \<Rightarrow> check list" where
  "doctorChecks env s r =
     (let state = stateOf env s
      in [checkOf env ''original-gh'' (case ValidateGH (evOS env) (evExec env) (stGHPath state) of Inr p \<Rightarrow> None | Inl e \<Rightarrow> Some (GHError e)),
          checkOf env ''private-operator-storage''
            (case nativeBoundary (evNative env) (isPath (iwStore (svWorld s))) (stGHPath state) of
               None \<Rightarrow> Some BoundaryNeverEnds | Some None \<Rightarrow> None | Some (Some e) \<Rightarrow> Some (NativeError e))]
         @ (if rqPrincipal r \<noteq> []
            then [checkOf env ''native-account''
                    (case nativePrincipal (evNative env) (rqPrincipal r) of Inr p \<Rightarrow> None | Inl e \<Rightarrow> Some (NativeError e))]
            else [])
         @ (if rqBackend r = ''docker'' \<or> rqBackend r = ''podman''
            then [\<lparr>ckName = ''container-runtime'', ckReady = (osLookPath (evOS env) (rqBackend r) \<noteq> None),
                   ckDetail = ''Run an isolated session to verify the engine and image bridge.''\<rparr>] else [])
         @ (if rqSessionID r \<noteq> []
            then [\<lparr>ckName = ''authenticated-agent-channel'',
                   ckReady = (case map_of (svSessions s) (rqSessionID r) of None \<Rightarrow> False | Some session \<Rightarrow> seStatus session = ''active''),
                   ckDetail = ''A native session becomes active after an authenticated connection from its assigned account.''\<rparr>]
            else []))"

definition Call :: "service_env \<Rightarrow> 8 word list option \<Rightarrow> service \<Rightarrow> identity_request
    \<Rightarrow> service \<times> (service_error + service_snapshot)" where
  "Call env nonce s r =
     (case map_of actions (rqAction r) of
        None \<Rightarrow> (s, Inl UnknownIdentityOperation)
      | Some Doctor \<Rightarrow> (s, Inr ((serviceSnapshot env s)\<lparr>ssChecks := doctorChecks env s r\<rparr>))
      | Some a \<Rightarrow>
          (case perform env nonce s a r of
             (s', Some e) \<Rightarrow> (s', Inl e)
           | (s', None) \<Rightarrow> (s', Inr (serviceSnapshot env s'))))"

section \<open>Contexts and execution\<close>

definition sessionContext :: "identity_state \<Rightarrow> session \<Rightarrow> service_error + project \<times> persona" where
  "sessionContext state session =
     (case FindProject state (seProjectID session) [] of
        Inl e \<Rightarrow> Inl (IdentityError e)
      | Inr p \<Rightarrow>
          if prMode p = ''agent-isolation'' \<and> seBackend session = ''proxy-level'' then Inl SessionNotIsolated
          else if sePersonaID session \<noteq> prPersona p \<and> \<not> List.member (prAlternatives p) (sePersonaID session)
          then Inl SessionPersonaDenied
          else case FindPersona state (sePersonaID session) of Inl e \<Rightarrow> Inl (IdentityError e) | Inr persona \<Rightarrow> Inr (p, persona))"

definition callContext :: "service_env \<Rightarrow> service \<Rightarrow> execution_request \<Rightarrow> service_error + project \<times> persona" where
  "callContext env s r =
     (if xrSessionID r \<noteq> [] then
        (case map_of (svSessions s) (xrSessionID r) of
           None \<Rightarrow> Inl SessionUnavailable
         | Some session \<Rightarrow> sessionContext (stateOf env s) session)
      else
        (case FindProject (stateOf env s) (xrProjectID r) (xrRoot r) of
           Inl e \<Rightarrow> Inl (IdentityError e)
         | Inr p \<Rightarrow>
             if prMode p = ''agent-isolation'' then Inl IsolatedSessionRequired
             else case FindPersona (stateOf env s) (prPersona p) of Inl e \<Rightarrow> Inl (IdentityError e) | Inr persona \<Rightarrow> Inr (p, persona)))"

definition Execute :: "service_env \<Rightarrow> service \<Rightarrow> execution_request \<Rightarrow> sink \<Rightarrow> sink \<Rightarrow> service_error + run_result" where
  "Execute env s r out err =
     (case callContext env s r of
        Inl e \<Rightarrow> Inl e
      | Inr (project, persona) \<Rightarrow>
          if xrSessionID r \<noteq> [] \<and> isGitCredentialInvocation (xrInvocation r) then Inl CredentialHelperUnavailable
          else Inr (Run (evOS env) (evExec env) (dirPath (isPath (iwStore (svWorld s)))) (stGHPath (stateOf env s))
                      project persona (xrInvocation r) out err))"

section \<open>The invariant of the service\<close>

definition session_ok :: "(string, string) gomap \<Rightarrow> string \<Rightarrow> session \<Rightarrow> bool" where
  "session_ok listeners i session \<longleftrightarrow> i \<noteq> [] \<and> seID session = i \<and> seBackend session \<in> set backends \<and>
     (seStatus session = ''active'' \<or> seStatus session = ''awaiting-agent'') \<and>
     (seBackend session = ''proxy-level'' \<longrightarrow> seStatus session = ''active'') \<and>
     (seBackend session = ''native'' \<longrightarrow> map_of listeners i = Some (seEndpoint session))"

definition sessions_ok :: "service \<Rightarrow> bool" where
  "sessions_ok s \<longleftrightarrow> map_wf (svSessions s) \<and>
     (\<forall>i session. map_of (svSessions s) i = Some session \<longrightarrow> session_ok (svListeners s) i session)"

definition service_inv :: "service_env \<Rightarrow> service \<Rightarrow> bool" where
  "service_inv env s \<longleftrightarrow> validateState (evParse env) (worldState (svWorld s)) = None \<and> sessions_ok s"

lemma sessions_ok_put:
  assumes "sessions_ok s" and "session_ok (svListeners s) i session"
  shows "sessions_ok (s\<lparr>svSessions := map_put (svSessions s) i session\<rparr>)"
  using assms by (auto simp: sessions_ok_def)

lemma sessions_ok_world: "sessions_ok s \<Longrightarrow> sessions_ok (s\<lparr>svWorld := w\<rparr>)"
  by (simp add: sessions_ok_def)

lemma updateService_inv:
  "service_inv env s \<Longrightarrow> updateService env s change = (s', e) \<Longrightarrow> service_inv env s'"
  unfolding service_inv_def updateService_def
  by (auto split: prod.splits intro: sessions_ok_world disk_store.valid_update)

lemma updateService_sessions: "updateService env s change = (s', e) \<Longrightarrow> svSessions s' = svSessions s"
  by (auto simp: updateService_def split: prod.splits)

lemma putPersonaRequest_inv: "service_inv env s \<Longrightarrow> putPersonaRequest env s r = (s', e) \<Longrightarrow> service_inv env s'"
  by (auto simp: putPersonaRequest_def SetPersona_def split: option.splits intro: updateService_inv)

lemma putProjectRequest_inv: "service_inv env s \<Longrightarrow> putProjectRequest env s r = (s', e) \<Longrightarrow> service_inv env s'"
  by (auto simp: putProjectRequest_def SetProject_def service_inv_def
      split: option.splits prod.splits if_splits intro: sessions_ok_world disk_store.valid_update)

lemma setGH_inv: "service_inv env s \<Longrightarrow> setGH env s r = (s', e) \<Longrightarrow> service_inv env s'"
  by (auto simp: setGH_def split: sum.splits intro: updateService_inv)

lemma setPolicyRequest_inv: "service_inv env s \<Longrightarrow> setPolicyRequest env s r = (s', e) \<Longrightarrow> service_inv env s'"
  by (auto simp: setPolicyRequest_def split: option.splits intro: updateService_inv)

lemma configure_inv: "service_inv env s \<Longrightarrow> configure env s r = (s', e) \<Longrightarrow> service_inv env s'"
  by (auto simp: configure_def split: option.splits sum.splits if_splits intro: updateService_inv)

lemma startSession_cases:
  assumes "startSession env s state session = (s', res)"
  obtains (failed) e where "s' = s" "res = Inl e" "seBackend session = ''native''"
  | (plain) "seBackend session \<noteq> ''native''" "res = Inr session"
      "s' = s\<lparr>svSessions := map_put (svSessions s) (seID session) session\<rparr>"
  | (native) agent endpoint session' where "seBackend session = ''native''"
      "nativeBoundary (evNative env) (isPath (iwStore (svWorld s))) (stGHPath state) = Some None"
      "nativePrincipal (evNative env) (sePrincipal session) = Inr agent"
      "session' = session\<lparr>sePrincipal := agent, seEndpoint := endpoint\<rparr>" "res = Inr session'"
      "s' = s\<lparr>svSessions := map_put (svSessions s) (seID session) session',
              svListeners := map_put (svListeners s) (seID session) endpoint\<rparr>"
  using assms by (auto simp: startSession_def Let_def split: if_splits option.splits sum.splits)

lemma createSession_cases:
  assumes "createSession env nonce s r = (s', res)"
  obtains (failed) e where "s' = s" "res = Inl e"
  | (started) p bytes where "FindProject (stateOf env s) (rqProjectID r) [] = Inr p" "rqBackend r \<in> set backends"
      "\<not> (prMode p = ''agent-isolation'' \<and> rqBackend r = ''proxy-level'')" "nonce = Some bytes"
      "startSession env s (stateOf env s)
        \<lparr>seStatus = (if rqBackend r = ''proxy-level'' then ''active'' else ''awaiting-agent''), seID = hexBytes bytes,
         seProjectID = prID p, sePersonaID = prPersona p, seBackend = rqBackend r, sePrincipal = rqPrincipal r, seEndpoint = []\<rparr>
       = (s', res)"
  using assms unfolding createSession_def
  by (simp split: sum.splits if_splits option.splits) (blast intro: failed started)+

definition fresh_nonce :: "8 word list option \<Rightarrow> bool" where
  "fresh_nonce nonce \<longleftrightarrow> (case nonce of None \<Rightarrow> True | Some bytes \<Rightarrow> length bytes = 24)"

lemma createSession_inv:
  assumes inv: "service_inv env s" and "createSession env nonce s r = (s', res)" and nonce: "fresh_nonce nonce"
  shows "service_inv env s'"
  using assms(2)
proof (cases rule: createSession_cases)
  case (failed e)
  then show ?thesis using inv by simp
next
  case (started p bytes)
  have ne: "hexBytes bytes \<noteq> []"
  proof
    assume "hexBytes bytes = []"
    then have "length (hexBytes bytes) = 0" by simp
    then show False using nonce started(4) by (simp add: fresh_nonce_def)
  qed
  from started(5) show ?thesis
  proof (cases rule: startSession_cases)
    case (failed e)
    then show ?thesis using inv by simp
  next
    case plain
    then show ?thesis
      using inv ne started(2) by (auto simp: service_inv_def session_ok_def intro!: sessions_ok_put)
  next
    case (native agent endpoint session')
    then show ?thesis
      using inv ne started(2) by (auto simp: service_inv_def sessions_ok_def session_ok_def)
  qed
qed

lemma session_ok_listeners: "session_ok listeners i session \<Longrightarrow> i \<noteq> j \<Longrightarrow> session_ok (map_del listeners j) i session"
  by (simp add: session_ok_def)

lemma revokeSession_inv:
  assumes "service_inv env s" and "revokeSession s i = (s', e)"
  shows "service_inv env s'"
proof -
  have "sessions_ok (s\<lparr>svSessions := map_del (svSessions s) i\<rparr>)"
    "sessions_ok (s\<lparr>svSessions := map_del (svSessions s) i, svClosed := c, svListeners := map_del (svListeners s) i\<rparr>)" for c
    using assms(1) by (auto simp: service_inv_def sessions_ok_def session_ok_listeners)
  then show ?thesis
    using assms by (auto simp: revokeSession_def service_inv_def Let_def split: option.splits)
qed

lemma selectSessionPersona_cases:
  assumes "selectSessionPersona env s i persona = (s', e)"
  obtains (refused) e1 where "s' = s" "e = Some e1"
  | (selected) session p where "e = None" "map_of (svSessions s) i = Some session"
      "FindProject (stateOf env s) (seProjectID session) [] = Inr p" "Allows (prPolicy p) ''persona''"
      "persona = prPersona p \<or> persona \<in> set (prAlternatives p)"
      "s' = s\<lparr>svSessions := map_put (svSessions s) i (session\<lparr>sePersonaID := persona\<rparr>)\<rparr>"
proof (cases "map_of (svSessions s) i")
  case None
  then show ?thesis using assms by (auto simp: selectSessionPersona_def intro: refused)
next
  case (Some session)
  show ?thesis
  proof (cases "FindProject (stateOf env s) (seProjectID session) []")
    case (Inl e1)
    then show ?thesis using assms Some by (auto simp: selectSessionPersona_def intro: refused)
  next
    case (Inr p)
    show ?thesis
    proof (cases "Allows (prPolicy p) ''persona'' \<and> (persona = prPersona p \<or> persona \<in> set (prAlternatives p))")
      case False
      then show ?thesis using assms Some Inr by (auto simp: selectSessionPersona_def intro: refused)
    next
      case True
      then show ?thesis
        using assms Some Inr
        by (auto simp: selectSessionPersona_def Let_def split: sum.splits if_split_asm intro: refused selected)
    qed
  qed
qed

lemma selectSessionPersona_inv:
  assumes inv: "service_inv env s" and "selectSessionPersona env s i persona = (s', e)"
  shows "service_inv env s'"
  using assms(2)
proof (cases rule: selectSessionPersona_cases)
  case (refused e1)
  then show ?thesis using inv by simp
next
  case (selected session p)
  have "session_ok (svListeners s) i session" using inv selected(2) by (auto simp: service_inv_def sessions_ok_def)
  then have "session_ok (svListeners s) i (session\<lparr>sePersonaID := persona\<rparr>)" by (simp add: session_ok_def)
  then show ?thesis using inv selected(6) by (simp add: service_inv_def sessions_ok_put)
qed

lemma activateSession_inv: "service_inv env s \<Longrightarrow> service_inv env (activateSession s i)"
  by (auto simp: activateSession_def service_inv_def sessions_ok_def session_ok_def split: option.splits if_splits)

lemma Close_inv: "service_inv env s \<Longrightarrow> service_inv env (Close s)"
  by (simp add: Close_def service_inv_def sessions_ok_def)

lemma perform_inv:
  assumes "service_inv env s" and "perform env nonce s a r = (s', e)" and "fresh_nonce nonce"
  shows "service_inv env s'"
proof (cases a)
  case SessionCreate
  then show ?thesis
    using assms createSession_inv by (auto simp: perform_def split: prod.splits sum.splits)
qed (use assms in \<open>auto simp: perform_def intro: updateService_inv configure_inv putPersonaRequest_inv putProjectRequest_inv
      setGH_inv setPolicyRequest_inv revokeSession_inv selectSessionPersona_inv\<close>)

lemma Call_perform:
  "Call env nonce s r = (s', res) \<Longrightarrow> s' = s \<or> (\<exists>a e. map_of actions (rqAction r) = Some a \<and> perform env nonce s a r = (s', e))"
  by (fastforce simp: Call_def split: option.splits action.splits prod.splits)

text \<open>The steps of the service: a request of the operator, an agent that selects a persona, a session
  that becomes active, and the end of the daemon.\<close>

inductive service_step :: "service_env \<Rightarrow> service \<Rightarrow> service \<Rightarrow> bool" for env where
  Called: "Call env nonce s r = (s', res) \<Longrightarrow> fresh_nonce nonce \<Longrightarrow> service_step env s s'"
| Selected: "selectSessionPersona env s i persona = (s', e) \<Longrightarrow> service_step env s s'"
| Activated: "service_step env s (activateSession s i)"
| Closed: "service_step env s (Close s)"

inductive service_reachable :: "service_env \<Rightarrow> identity_world \<Rightarrow> service \<Rightarrow> bool" for env w where
  New: "service_reachable env w (NewService w)"
| Step: "service_reachable env w s \<Longrightarrow> service_step env s s' \<Longrightarrow> service_reachable env w s'"

lemma service_step_inv: "service_step env s s' \<Longrightarrow> service_inv env s \<Longrightarrow> service_inv env s'"
proof (induction rule: service_step.induct)
  case (Called nonce s r s' res)
  then show ?case using Call_perform [OF Called(1)] perform_inv by blast
qed (auto intro: selectSessionPersona_inv activateSession_inv Close_inv)

text \<open>C10: In every state the identity service can reach from a store that was opened with a valid state,
  the state in memory is valid, and every session is filed under its own, non-empty ID, has a known
  backend and a known status, is active if it is a session at proxy level, and has a listener of its
  own if it is a native one.\<close>

theorem service_invariant:
  assumes "service_reachable env w s" and "validateState (evParse env) (worldState w) = None"
  shows "validateState (evParse env) (worldState (svWorld s)) = None \<and> map_wf (svSessions s) \<and>
    (\<forall>i session. map_of (svSessions s) i = Some session \<longrightarrow>
       i \<noteq> [] \<and> seID session = i \<and> seBackend session \<in> set backends \<and>
       (seStatus session = ''active'' \<or> seStatus session = ''awaiting-agent'' \<and> seBackend session \<noteq> ''proxy-level'') \<and>
       (seBackend session = ''native'' \<longrightarrow> map_of (svListeners s) i = Some (seEndpoint session)))"
proof -
  have "service_inv env s"
    using assms(1)
  proof (induction rule: service_reachable.induct)
    case New
    then show ?case using assms(2) by (simp add: service_inv_def NewService_def sessions_ok_def)
  next
    case (Step s s')
    then show ?case by (blast intro: service_step_inv)
  qed
  then show ?thesis by (auto simp: service_inv_def sessions_ok_def session_ok_def)
qed

text \<open>A service on the sample store, for the witnesses.\<close>

definition sample_env :: service_env where
  "sample_env = \<lparr>evParse = Some, evEncode = sample_indent, evIndent = sample_indent, evUnmarshal = sample_read,
     evStateOS = (\<lambda>n. calm_os), evOS = sample_os, evExec = sample_exec, evNative = sample_native, evIsDir = (\<lambda>p. True), evMessage = (\<lambda>e. [])\<rparr>"

definition sample_world :: identity_world where
  "sample_world = \<lparr>iwDisk = state_dir, iwStore = sample_store, iwClock = 0\<rparr>"

definition sample_session :: session where
  "sample_session = \<lparr>seStatus = ''active'', seID = ''5a'', seProjectID = ''p'', sePersonaID = ''me'',
     seBackend = ''proxy-level'', sePrincipal = [], seEndpoint = []\<rparr>"

definition sample_service :: service where
  "sample_service = (NewService sample_world)\<lparr>svSessions := [(''5a'', sample_session)]\<rparr>"

lemma sample_stateOf: "svWorld s = sample_world \<Longrightarrow> stateOf sample_env s = sample_state"
  by (simp add: stateOf_def worldSnapshot_def Snapshot_def sample_env_def sample_world_def sample_store_def cloneState_def
      sample_indent_def sample_read_def sample_decode_def hasPrefix_def)

lemma sample_project_found: "FindProject sample_state ''p'' [] = Inr sample_project"
  "FindPersona sample_state ''me'' = Inr sample_persona"
  by code_simp+

definition create_request :: identity_request where
  "create_request = \<lparr>rqAction = ''session.create'', rqPersona = None, rqProject = None, rqProjectID = ''p'', rqPersonaID = [],
     rqSessionID = [], rqPolicy = None, rqPath = [], rqRoot = [], rqBackend = ''proxy-level'', rqPrincipal = [], rqPersonas = []\<rparr>"

lemma sample_created:
  "createSession sample_env (Some bytes) (NewService sample_world) create_request =
     ((NewService sample_world)\<lparr>svSessions := [(hexBytes bytes, sample_session\<lparr>seID := hexBytes bytes\<rparr>)]\<rparr>,
      Inr (sample_session\<lparr>seID := hexBytes bytes\<rparr>))"
  by (simp add: createSession_def create_request_def sample_stateOf NewService_def sample_project_found backends_def startSession_def
      sample_project_def sample_session_def map_put_def)

theorem service_invariant_witness:
  "\<exists>s i session. service_reachable sample_env sample_world s \<and> map_of (svSessions s) i = Some session \<and> seID session = i"
proof -
  define bytes :: "8 word list" where "bytes = replicate 24 0"
  define s where "s = (NewService sample_world)\<lparr>svSessions := [(hexBytes bytes, sample_session\<lparr>seID := hexBytes bytes\<rparr>)]\<rparr>"
  have "rqAction create_request = ''session.create''" by (simp add: create_request_def)
  moreover have "map_of actions ''session.create'' = Some SessionCreate" by code_simp
  ultimately have "Call sample_env (Some bytes) (NewService sample_world) create_request = (s, Inr (serviceSnapshot sample_env s))"
    using sample_created [of bytes] \<open>rqAction create_request = _\<close> by (simp add: Call_def perform_def s_def)
  then have "service_step sample_env (NewService sample_world) s"
    by (rule service_step.Called) (simp add: fresh_nonce_def bytes_def)
  then have r: "service_reachable sample_env sample_world s" by (blast intro: service_reachable.intros)
  have v: "validateState (evParse sample_env) (worldState sample_world) = None"
    using sample_state_valid by (simp add: sample_env_def sample_world_def worldState_def sample_store_def)
  have "map_of (svSessions s) (hexBytes bytes) = Some (sample_session\<lparr>seID := hexBytes bytes\<rparr>)" by (simp add: s_def)
  with service_invariant [OF r v] r show ?thesis by blast
qed

section \<open>The context of a call\<close>

lemma findProjectIn_Some:
  "findProjectIn ps i root = Some p \<Longrightarrow> p \<in> set ps \<and> (if i \<noteq> [] then prID p = i else root \<noteq> [] \<and> pathKey root = pathKey (prRoot p))"
  by (induction ps) (auto split: if_splits)

lemma FindProject_Inr: "FindProject st i root = Inr p \<Longrightarrow> p \<in> set (stProjects st) \<and>
    (if i \<noteq> [] then prID p = i else root \<noteq> [] \<and> pathKey root = pathKey (prRoot p))"
  by (auto simp: FindProject_def dest!: findProjectIn_Some split: option.splits)

lemma FindPersona_Inr: "FindPersona st i = Inr p \<Longrightarrow> p \<in> set (stPersonas st) \<and> peID p = i"
  by (auto simp: FindPersona_def dest!: findPersonaIn_Some split: option.splits)

text \<open>In a valid state every persona of a project is on one host.\<close>

lemma project_host:
  assumes "validateState parseAddress st = None" and "p \<in> set (stProjects st)"
    and "i = prPersona p \<or> i \<in> set (prAlternatives p)" and "FindPersona st i = Inr persona"
  shows "\<exists>primary. FindPersona st (prPersona p) = Inr primary \<and> equalFold (peHost primary) (peHost persona)"
proof -
  have "project_ok (stPersonas st) p" using assms(1,2) unfolding validateState_None by blast
  then obtain primary where "findPersonaIn (stPersonas st) (prPersona p) = Some primary"
    and "\<forall>a\<in>set (prAlternatives p). \<exists>other. findPersonaIn (stPersonas st) a = Some other \<and> equalFold (peHost primary) (peHost other)"
    unfolding project_ok_def by blast
  then show ?thesis using assms(3,4) by (auto simp: FindPersona_def split: option.splits)
qed

lemma sessionContext_Inr:
  assumes "sessionContext st session = Inr (project, persona)"
  shows "FindProject st (seProjectID session) [] = Inr project \<and> FindPersona st (sePersonaID session) = Inr persona \<and>
    (sePersonaID session = prPersona project \<or> sePersonaID session \<in> set (prAlternatives project)) \<and>
    (prMode project = ''agent-isolation'' \<longrightarrow> seBackend session \<noteq> ''proxy-level'')"
  using assms by (auto simp: sessionContext_def split: sum.splits if_split_asm)

definition session_binding :: "service \<Rightarrow> string \<Rightarrow> project \<Rightarrow> persona \<Rightarrow> bool" where
  "session_binding s i project persona \<longleftrightarrow> (\<exists>session. map_of (svSessions s) i = Some session \<and>
     prID project = seProjectID session \<and> peID persona = sePersonaID session \<and>
     (peID persona = prPersona project \<or> peID persona \<in> set (prAlternatives project)) \<and>
     (prMode project = ''agent-isolation'' \<longrightarrow> seBackend session \<noteq> ''proxy-level''))"

lemma callContext_Inr:
  assumes c: "callContext env s r = Inr (project, persona)" and v: "validateState (evParse env) (stateOf env s) = None"
  shows "project \<in> set (stProjects (stateOf env s)) \<and> persona \<in> set (stPersonas (stateOf env s)) \<and>
    (\<exists>primary. FindPersona (stateOf env s) (prPersona project) = Inr primary \<and> equalFold (peHost primary) (peHost persona)) \<and>
    (if xrSessionID r \<noteq> [] then session_binding s (xrSessionID r) project persona
     else prMode project = ''proxy-level'' \<and> peID persona = prPersona project \<and>
       (if xrProjectID r \<noteq> [] then prID project = xrProjectID r else pathKey (xrRoot r) = pathKey (prRoot project)))"
proof (cases "xrSessionID r = []")
  case True
  then have p: "FindProject (stateOf env s) (xrProjectID r) (xrRoot r) = Inr project"
    and m: "prMode project \<noteq> ''agent-isolation''" and q: "FindPersona (stateOf env s) (prPersona project) = Inr persona"
    using c by (auto simp: callContext_def split: sum.splits if_split_asm)
  have "project_ok (stPersonas (stateOf env s)) project"
    using v FindProject_Inr [OF p] unfolding validateState_None by blast
  then have "prMode project = ''proxy-level''" using m unfolding project_ok_def by blast
  then show ?thesis
    using True FindProject_Inr [OF p] FindPersona_Inr [OF q] q by (auto split: if_split_asm)
next
  case False
  then obtain session where se: "map_of (svSessions s) (xrSessionID r) = Some session"
    and sc: "sessionContext (stateOf env s) session = Inr (project, persona)"
    using c by (auto simp: callContext_def split: option.splits)
  note f = sessionContext_Inr [OF sc]
  have p: "project \<in> set (stProjects (stateOf env s)) \<and> prID project = seProjectID session"
    using f FindProject_Inr [of "stateOf env s" "seProjectID session" "[]" project] by (auto split: if_split_asm)
  have q: "persona \<in> set (stPersonas (stateOf env s)) \<and> peID persona = sePersonaID session"
    using f FindPersona_Inr by blast
  have "session_binding s (xrSessionID r) project persona"
    unfolding session_binding_def using se p q f by metis
  moreover have "\<exists>primary. FindPersona (stateOf env s) (prPersona project) = Inr primary \<and> equalFold (peHost primary) (peHost persona)"
    using project_host [OF v] p f by blast
  ultimately show ?thesis using False p q by simp
qed

text \<open>C13: The context of a call.  A call that is given a context gets a configured project and a
  configured persona on the host of that project's persona.  In a session they are the session's own,
  the persona is the project's or one of its alternatives, and a project that requires isolation
  is only served in an isolated session; outside a session the project is the one asked for, by
  its ID or its root, it does not require isolation, and the persona is the project's.\<close>

theorem context_confined:
  assumes "callContext env s r = Inr (project, persona)" and "validateState (evParse env) (stateOf env s) = None"
  shows "project \<in> set (stProjects (stateOf env s)) \<and> persona \<in> set (stPersonas (stateOf env s)) \<and>
    (\<exists>primary. FindPersona (stateOf env s) (prPersona project) = Inr primary \<and> equalFold (peHost primary) (peHost persona)) \<and>
    (if xrSessionID r \<noteq> [] then session_binding s (xrSessionID r) project persona
     else prMode project = ''proxy-level'' \<and> peID persona = prPersona project \<and>
       (if xrProjectID r \<noteq> [] then prID project = xrProjectID r else pathKey (xrRoot r) = pathKey (prRoot project)))"
  using assms by (rule callContext_Inr)

definition session_call :: execution_request where
  "session_call = \<lparr>xrProjectID = [], xrRoot = [], xrSessionID = ''5a'',
     xrInvocation = \<lparr>inArguments = [''auth'', ''git-credential'', ''get''], inInput = []\<rparr>\<rparr>"

lemma sample_context: "callContext sample_env sample_service session_call = Inr (sample_project, sample_persona)"
proof -
  have "stateOf sample_env sample_service = sample_state" by (simp add: sample_stateOf sample_service_def NewService_def)
  then show ?thesis
    by (simp add: callContext_def session_call_def sample_service_def sessionContext_def sample_session_def sample_project_found
) (simp add: sample_project_def)
qed

theorem context_confined_witness:
  "session_binding sample_service ''5a'' sample_project sample_persona"
proof -
  have "validateState (evParse sample_env) (stateOf sample_env sample_service) = None"
    using sample_state_valid by (simp add: sample_stateOf sample_service_def NewService_def) (simp add: sample_env_def)
  from context_confined [OF sample_context this] show ?thesis by (simp add: session_call_def)
qed

end
