(* ===== verification/IdentityWire.thy ===== *)
theory IdentityWire
  imports WireJson IdentityService
begin

text \<open>
  The JSON form of the identity service's requests and answers: the field tags of \<open>Persona\<close>, \<open>Policy\<close>,
  \<open>Project\<close> and \<open>State\<close> in \<open>internal/identity/model.go\<close>, of \<open>Invocation\<close> in \<open>catalog.go\<close>, of \<open>Request\<close>,
  \<open>Session\<close>, \<open>Snapshot\<close> and \<open>ExecutionRequest\<close> in \<open>service.go\<close> and of \<open>Check\<close> in \<open>doctor.go\<close>, with one
  round trip for each.
\<close>

section \<open>Personas, projects and the state\<close>

definition zeroPersona :: persona where
  "zeroPersona = \<lparr>peID = [], peName = [], peGitName = [], peGitEmail = [], peHost = [], peAccount = []\<rparr>"

definition personaFields :: "persona json_field list" where
  "personaFields =
     [field ''id'' (always JText) readText peID peID_update,
      field ''name'' (always JText) readText peName peName_update,
      field ''gitName'' (always JText) readText peGitName peGitName_update,
      field ''gitEmail'' (always JText) readText peGitEmail peGitEmail_update,
      field ''host'' (always JText) readText peHost peHost_update,
      field ''account'' (always JText) readText peAccount peAccount_update]"

interpretation personas: json_codec "writeStruct personaFields" "readStruct strict personaFields" zeroPersona "\<lambda>_. True"
  for strict
  by unfold_locales (simp_all add: writeStruct_def readStruct_def personaFields_def zeroPersona_def wire)

text \<open>A map without pointers; the association list is in the order in which the map is written.\<close>

definition readPlainMap :: "'a reader \<Rightarrow> 'a \<Rightarrow> (string, 'a) gomap reader" where
  "readPlainMap read zero j old = map_option (\<lambda>m. case m of None \<Rightarrow> [] | Some es \<Rightarrow> es) (readMap read zero j (Some old))"

definition in_order :: "(string, 'a) gomap \<Rightarrow> bool" where
  "in_order m \<longleftrightarrow> map_wf m \<and> sorted (map_keys m)"

lemma writeEntries_in_order: "in_order m \<Longrightarrow> map (\<lambda>k. (k, the (map_of m k))) (sortStrings (map_keys m)) = m"
proof -
  assume m: "in_order m"
  then have "sortStrings (map_keys m) = map_keys m" by (simp add: in_order_def sortStrings_def sort_key_id_if_sorted)
  moreover have "map (\<lambda>k. (k, the (map_of m k))) (map_keys m) = map id m"
    unfolding map_map
  proof (rule map_cong)
    fix e
    assume "e \<in> set m"
    with m have "map_of m (fst e) = Some (snd e)" by (intro map_of_is_SomeI) (auto simp: in_order_def map_wf_def)
    then show "((\<lambda>k. (k, the (map_of m k))) \<circ> fst) e = id e" by simp
  qed simp
  ultimately show ?thesis by simp
qed

lemma readPlainMap_flags: "in_order m \<Longrightarrow> readPlainMap readBool False (writeEntries JBool m) [] = Some m"
proof -
  assume m: "in_order m"
  have "readMap readBool False (writeEntries JBool m) (Some []) = readMap readBool False (writeEntries JBool m) None"
    by (simp add: readMap_def writeEntries_def)
  also have "\<dots> = Some (Some m)"
    using flags.entries [of m] writeEntries_in_order [OF m] m by (simp add: in_order_def list_all_iff)
  finally show ?thesis by (simp add: readPlainMap_def)
qed

definition zeroPolicy :: policy where
  "zeroPolicy = \<lparr>polPreset = [], polExceptions = []\<rparr>"

definition policyFields :: "policy json_field list" where
  "policyFields =
     [field ''preset'' (always JText) readText polPreset polPreset_update,
      field ''exceptions'' (always (writeEntries JBool)) (readPlainMap readBool False) polExceptions polExceptions_update]"

interpretation policies: json_codec "writeStruct policyFields" "readStruct strict policyFields" zeroPolicy "\<lambda>p. in_order (polExceptions p)"
  for strict
  by unfold_locales (simp_all add: writeStruct_def readStruct_def policyFields_def zeroPolicy_def wire readPlainMap_flags)

definition zeroProject :: project where
  "zeroProject = \<lparr>prID = [], prName = [], prDescription = [], prRoot = [], prRepository = [], prPersona = [],
     prAlternatives = [], prMode = [], prPolicy = zeroPolicy, prProxyEnabled = False\<rparr>"

definition projectFields :: "bool \<Rightarrow> project json_field list" where
  "projectFields strict =
     [field ''id'' (always JText) readText prID prID_update,
      field ''name'' (always JText) readText prName prName_update,
      field ''description'' (always JText) readText prDescription prDescription_update,
      field ''root'' (always JText) readText prRoot prRoot_update,
      field ''repository'' (always JText) readText prRepository prRepository_update,
      field ''persona'' (always JText) readText prPersona prPersona_update,
      field ''alternatives'' (always (\<lambda>xs. JArray (map JText xs))) (readList readText []) prAlternatives prAlternatives_update,
      field ''mode'' (always JText) readText prMode prMode_update,
      field ''policy'' (always (writeStruct policyFields)) (readStruct strict policyFields) prPolicy prPolicy_update,
      field ''proxyEnabled'' (always JBool) readBool prProxyEnabled prProxyEnabled_update]"

interpretation projects: json_codec "writeStruct (projectFields s)" "readStruct strict (projectFields strict)" zeroProject
    "\<lambda>p. in_order (polExceptions (prPolicy p))"
  for s strict
  by (unfold_locales; unfold writeStruct_def [of "projectFields t" for t] readStruct_def [of t "projectFields t" for t];
      simp add: projectFields_def zeroProject_def wire policies.roundtrip texts.list list_all_iff)

definition stateFields :: "bool \<Rightarrow> identity_state json_field list" where
  "stateFields strict =
     [field ''version'' (always JNumber) readInt stVersion stVersion_update,
      field ''ghPath'' (always JText) readText stGHPath stGHPath_update,
      field ''personas'' (always (\<lambda>xs. JArray (map (writeStruct personaFields) xs))) (readList (readStruct strict personaFields) zeroPersona) stPersonas stPersonas_update,
      field ''projects'' (always (\<lambda>xs. JArray (map (writeStruct (projectFields strict)) xs))) (readList (readStruct strict (projectFields strict)) zeroProject) stProjects stProjects_update]"

definition zeroState :: identity_state where
  "zeroState = \<lparr>stVersion = 0, stGHPath = [], stPersonas = [], stProjects = []\<rparr>"

text \<open>What a state must satisfy to be read back unchanged: an exact version and ordered maps.\<close>

definition state_written :: "identity_state \<Rightarrow> bool" where
  "state_written s \<longleftrightarrow> is_int64 (stVersion s) \<and> list_all (\<lambda>p. in_order (polExceptions (prPolicy p))) (stProjects s)"

interpretation states: json_codec "writeStruct (stateFields s)" "readStruct strict (stateFields strict)" zeroState state_written
  for s strict
  by (unfold_locales; unfold writeStruct_def [of "stateFields t" for t] readStruct_def [of t "stateFields t" for t];
      simp add: stateFields_def zeroState_def wire personas.list projects.list list_all_iff state_written_def)

section \<open>Sessions, requests and answers\<close>

definition zeroSession :: session where
  "zeroSession = \<lparr>seStatus = [], seID = [], seProjectID = [], sePersonaID = [], seBackend = [], sePrincipal = [], seEndpoint = []\<rparr>"

definition sessionFields :: "session json_field list" where
  "sessionFields =
     [field ''status'' (always JText) readText seStatus seStatus_update,
      field ''id'' (always JText) readText seID seID_update,
      field ''projectId'' (always JText) readText seProjectID seProjectID_update,
      field ''personaId'' (always JText) readText sePersonaID sePersonaID_update,
      field ''backend'' (always JText) readText seBackend seBackend_update,
      field ''principal'' omitText readText sePrincipal sePrincipal_update,
      field ''endpoint'' omitText readText seEndpoint seEndpoint_update]"

interpretation sessions: json_codec "writeStruct sessionFields" "readStruct strict sessionFields" zeroSession "\<lambda>_. True"
  for strict
  by unfold_locales (simp_all add: writeStruct_def readStruct_def sessionFields_def zeroSession_def wire)

definition zeroCheck :: check where
  "zeroCheck = \<lparr>ckName = [], ckReady = False, ckDetail = []\<rparr>"

definition checkFields :: "check json_field list" where
  "checkFields =
     [field ''name'' (always JText) readText ckName ckName_update,
      field ''ready'' (always JBool) readBool ckReady ckReady_update,
      field ''detail'' omitText readText ckDetail ckDetail_update]"

interpretation checks: json_codec "writeStruct checkFields" "readStruct strict checkFields" zeroCheck "\<lambda>_. True"
  for strict
  by unfold_locales (simp_all add: writeStruct_def readStruct_def checkFields_def zeroCheck_def wire)

definition zeroSnapshot :: service_snapshot where
  "zeroSnapshot = \<lparr>ssState = zeroState, ssSessions = [], ssChecks = []\<rparr>"

definition snapshotFields :: "bool \<Rightarrow> service_snapshot json_field list" where
  "snapshotFields strict =
     [field ''state'' (always (writeStruct (stateFields strict))) (readStruct strict (stateFields strict)) ssState ssState_update,
      field ''sessions'' (always (\<lambda>xs. JArray (map (writeStruct sessionFields) xs))) (readList (readStruct strict sessionFields) zeroSession) ssSessions ssSessions_update,
      field ''checks'' (omitList (writeStruct checkFields)) (readList (readStruct strict checkFields) zeroCheck) ssChecks ssChecks_update]"

interpretation snapshots: json_codec "writeStruct (snapshotFields s)" "readStruct strict (snapshotFields strict)" zeroSnapshot
    "\<lambda>x. state_written (ssState x)"
  for s strict
  by (unfold_locales; unfold writeStruct_def [of "snapshotFields t" for t] readStruct_def [of t "snapshotFields t" for t];
      simp add: snapshotFields_def zeroSnapshot_def wire states.roundtrip sessions.list checks.list list_all_iff)

definition zeroInvocation :: invocation where
  "zeroInvocation = \<lparr>inArguments = [], inInput = []\<rparr>"

definition invocationFields :: "invocation json_field list" where
  "invocationFields =
     [field ''arguments'' (always (\<lambda>xs. JArray (map JText xs))) (readList readText []) inArguments inArguments_update,
      field ''input'' omitData readData inInput inInput_update]"

interpretation invocations: json_codec "writeStruct invocationFields" "readStruct strict invocationFields" zeroInvocation "\<lambda>_. True"
  for strict
  by unfold_locales (simp_all add: writeStruct_def readStruct_def invocationFields_def zeroInvocation_def wire texts.list list_all_iff)

definition zeroExecution :: execution_request where
  "zeroExecution = \<lparr>xrProjectID = [], xrRoot = [], xrSessionID = [], xrInvocation = zeroInvocation\<rparr>"

definition executionFields :: "bool \<Rightarrow> execution_request json_field list" where
  "executionFields strict =
     [field ''projectId'' omitText readText xrProjectID xrProjectID_update,
      field ''root'' omitText readText xrRoot xrRoot_update,
      field ''sessionId'' omitText readText xrSessionID xrSessionID_update,
      field ''invocation'' (always (writeStruct invocationFields)) (readStruct strict invocationFields) xrInvocation xrInvocation_update]"

interpretation executions: json_codec "writeStruct (executionFields s)" "readStruct strict (executionFields strict)" zeroExecution "\<lambda>_. True"
  for s strict
  by (unfold_locales; unfold writeStruct_def [of "executionFields t" for t] readStruct_def [of t "executionFields t" for t];
      simp add: executionFields_def zeroExecution_def wire invocations.roundtrip)

definition zeroRequest :: identity_request where
  "zeroRequest = \<lparr>rqAction = [], rqPersona = None, rqProject = None, rqProjectID = [], rqPersonaID = [], rqSessionID = [],
     rqPolicy = None, rqPath = [], rqRoot = [], rqBackend = [], rqPrincipal = [], rqPersonas = []\<rparr>"

definition identityFields :: "bool \<Rightarrow> identity_request json_field list" where
  "identityFields strict =
     [field ''action'' (always JText) readText rqAction rqAction_update,
      field ''persona'' (omitNil (writeStruct personaFields)) (readPointer (readStruct strict personaFields) zeroPersona) rqPersona rqPersona_update,
      field ''project'' (omitNil (writeStruct (projectFields strict))) (readPointer (readStruct strict (projectFields strict)) zeroProject) rqProject rqProject_update,
      field ''projectId'' omitText readText rqProjectID rqProjectID_update,
      field ''personaId'' omitText readText rqPersonaID rqPersonaID_update,
      field ''sessionId'' omitText readText rqSessionID rqSessionID_update,
      field ''policy'' (omitNil (writeStruct policyFields)) (readPointer (readStruct strict policyFields) zeroPolicy) rqPolicy rqPolicy_update,
      field ''path'' omitText readText rqPath rqPath_update,
      field ''root'' omitText readText rqRoot rqRoot_update,
      field ''backend'' omitText readText rqBackend rqBackend_update,
      field ''principal'' omitText readText rqPrincipal rqPrincipal_update,
      field ''personas'' (omitList (writeStruct personaFields)) (readList (readStruct strict personaFields) zeroPersona) rqPersonas rqPersonas_update]"

definition request_written :: "identity_request \<Rightarrow> bool" where
  "request_written r \<longleftrightarrow> (\<forall>p. rqProject r = Some p \<longrightarrow> in_order (polExceptions (prPolicy p))) \<and>
     (\<forall>p. rqPolicy r = Some p \<longrightarrow> in_order (polExceptions p))"

interpretation requests: json_codec "writeStruct (identityFields s)" "readStruct strict (identityFields strict)" zeroRequest request_written
  for s strict
  by (unfold_locales; unfold writeStruct_def [of "identityFields t" for t] readStruct_def [of t "identityFields t" for t];
      simp add: identityFields_def zeroRequest_def request_written_def wire personas.pointer projects.pointer policies.pointer
        personas.list list_all_iff)

end
