(* ===== verification/IdentityDurable.thy ===== *)
theory IdentityDurable
  imports IdentityWire JsonText
begin

text \<open>
  What an update of the identity state leaves on the disk.  The state is written as the JSON value of its field
  tags and read back with \<open>DisallowUnknownFields\<close> into a new state; of the texts of \<open>encoding/json\<close> only the
  contract \<open>json_text\<close> is assumed.  A map is written with its keys in order and a text that is not UTF-8
  is changed, so what a later daemon opens is the state with its exceptions in order.
\<close>

section \<open>The bytes of a state\<close>



section \<open>The order of the exceptions\<close>

definition orderedMap :: "(string, 'a) gomap \<Rightarrow> (string, 'a) gomap" where
  "orderedMap m = map (\<lambda>k. (k, the (map_of m k))) (sortStrings (map_keys m))"

definition orderedProject :: "project \<Rightarrow> project" where
  "orderedProject p = p\<lparr>prPolicy := (prPolicy p)\<lparr>polExceptions := orderedMap (polExceptions (prPolicy p))\<rparr>\<rparr>"



lemma orderedMap_lookup: "map_of (orderedMap m) = map_of m"
proof
  fix k
  show "map_of (orderedMap m) k = map_of m k"
  proof (cases "map_of m k")
    case None
    then have "k \<notin> set (map_keys m)" by (simp add: map_of_eq_None_iff)
    then have "k \<notin> fst ` set (orderedMap m)" by (simp add: orderedMap_def image_image)
    then have "map_of (orderedMap m) k = None" unfolding map_of_eq_None_iff .
    then show ?thesis using None by simp
  next
    case (Some v)
    then have "k \<in> set (map_keys m)" by (auto dest: map_of_SomeD intro: rev_image_eqI)
    then show ?thesis using Some by (simp add: orderedMap_def map_of_map_restrict restrict_map_def)
  qed
qed





text \<open>An ordered state allows the same operations and is written in the same way.\<close>

lemma ordered_allows: "Allows (prPolicy (orderedProject p)) operation = Allows (prPolicy p) operation"
  by (simp add: Allows_def orderedProject_def orderedMap_lookup)



lemma orderedProject_fields [simp]:
  "prID (orderedProject p) = prID p" "prRoot (orderedProject p) = prRoot p"
  by (simp_all add: orderedProject_def)




section \<open>Reading a state back\<close>










end
