(* ===== verification/AgentChannel.thy ===== *)
theory AgentChannel
  imports IdentityService
begin

text \<open>
  The streamed execution and the agent channel of \<open>internal/identity/stream.go\<close>: the frames a call
  is sent in and read back from, the requests an agent may make, and the admission of a connection
  to the socket of a native session.  A connection is the list of the frames written to it; their
  JSON encoding is not modelled.  In \<open>writes\<close> are the writes that the two frame writers receive, in
  the order in which they take their common lock.
\<close>

section \<open>Frames\<close>

datatype agent_error =
  ServiceFailure service_error | ExecFailure exec_error | InvalidAgentRequest | NotPermitted
| ExecutionUnavailable | InvalidAgentSession | InvalidExecution  \<comment> \<open>of the control server\<close>

text \<open>An empty error text stands for no error, and no error of the code has an empty text.\<close>

record frame =
  frStream :: string
  frData :: bytes
  frExitCode :: "int option"
  frError :: "agent_error option"
  frContext :: "(project \<times> persona) option"

definition emptyFrame :: frame where
  "emptyFrame = \<lparr>frStream = [], frData = [], frExitCode = None, frError = None, frContext = None\<rparr>"

definition frameSize :: nat where
  "frameSize = 32 * 1024"

text \<open>\<open>frameWriter.Write\<close>: pieces of at most 32 KiB, none for an empty write.\<close>

function framePieces :: "bytes \<Rightarrow> bytes list" where
  "framePieces p = (if p = [] then [] else take frameSize p # framePieces (drop frameSize p))"
  by auto
termination
  by (relation "measure length") (auto simp: frameSize_def)

declare framePieces.simps [simp del]

definition streamName :: "bool \<Rightarrow> string" where
  "streamName out = (if out then ''stdout'' else ''stderr'')"

definition writeFrames :: "bool \<Rightarrow> bytes \<Rightarrow> frame list" where
  "writeFrames out p = map (\<lambda>d. emptyFrame\<lparr>frStream := streamName out, frData := d\<rparr>) (framePieces p)"

definition streamFrames :: "(bool \<times> bytes) list \<Rightarrow> int \<Rightarrow> agent_error option \<Rightarrow> frame list" where
  "streamFrames writes code e = concat (map (\<lambda>(out, p). writeFrames out p) writes) @ [emptyFrame\<lparr>frExitCode := Some code, frError := e\<rparr>]"

definition Stream :: "service_env \<Rightarrow> service \<Rightarrow> execution_request \<Rightarrow> (bool \<times> bytes) list \<Rightarrow> frame list" where
  "Stream env s r writes =
     (case Execute env s r freshSink freshSink of
        Inl e \<Rightarrow> streamFrames writes 1 (Some (ServiceFailure e))
      | Inr res \<Rightarrow> streamFrames writes (resCode res) (map_option ExecFailure (resError res)))"

section \<open>Reading a stream\<close>

datatype read_error = ChannelClosed | InvalidFrame | WriteFailed | RemoteError agent_error

record read_result =
  rdOut :: sink
  rdErr :: sink
  rdCode :: int
  rdError :: "read_error option"

fun ReadStream :: "frame list \<Rightarrow> sink \<Rightarrow> sink \<Rightarrow> read_result" where
  "ReadStream [] out err = \<lparr>rdOut = out, rdErr = err, rdCode = 1, rdError = Some ChannelClosed\<rparr>"
| "ReadStream (f # fs) out err =
     (case frExitCode f of
        Some code \<Rightarrow> \<lparr>rdOut = out, rdErr = err, rdCode = code, rdError = map_option RemoteError (frError f)\<rparr>
      | None \<Rightarrow>
          if frStream f = ''stdout'' then
            (case sinkWrite out (frData f) of
               (out', True) \<Rightarrow> ReadStream fs out' err
             | (out', False) \<Rightarrow> \<lparr>rdOut = out', rdErr = err, rdCode = 1, rdError = Some WriteFailed\<rparr>)
          else if frStream f = ''stderr'' then
            (case sinkWrite err (frData f) of
               (err', True) \<Rightarrow> ReadStream fs out err'
             | (err', False) \<Rightarrow> \<lparr>rdOut = out, rdErr = err', rdCode = 1, rdError = Some WriteFailed\<rparr>)
          else \<lparr>rdOut = out, rdErr = err, rdCode = 1, rdError = Some InvalidFrame\<rparr>)"

section \<open>The requests of an agent\<close>

record agent_request =
  agVersion :: int
  agAction :: string
  agInvocation :: invocation
  agPersonaID :: string

definition AgentProtocolVersion :: int where
  "AgentProtocolVersion = 1"

text \<open>\<open>HandleAgent\<close>; the request is none if it could not be decoded.\<close>

definition HandleAgent :: "service_env \<Rightarrow> service \<Rightarrow> string \<Rightarrow> agent_request option \<Rightarrow> (bool \<times> bytes) list
    \<Rightarrow> service \<times> frame list" where
  "HandleAgent env s sid request writes =
     (case request of
        None \<Rightarrow> (s, [emptyFrame\<lparr>frError := Some InvalidAgentRequest\<rparr>])
      | Some q \<Rightarrow>
          if agVersion q \<noteq> AgentProtocolVersion then (s, [emptyFrame\<lparr>frError := Some InvalidAgentRequest\<rparr>])
          else (let r = \<lparr>xrProjectID = [], xrRoot = [], xrSessionID = sid, xrInvocation = agInvocation q\<rparr>
                in if agAction q = ''execute'' then (s, Stream env s r writes)
                   else if agAction q = ''context'' then
                     (case callContext env s r of
                        Inl e \<Rightarrow> (s, [emptyFrame\<lparr>frError := Some (ServiceFailure e)\<rparr>])
                      | Inr (p, persona) \<Rightarrow> (s, [emptyFrame\<lparr>frContext := Some (p\<lparr>prRoot := []\<rparr>, persona)\<rparr>]))
                   else if agAction q = ''persona'' then
                     (case selectSessionPersona env s sid (agPersonaID q) of
                        (s', Some e) \<Rightarrow> (s', [emptyFrame\<lparr>frError := Some (ServiceFailure e)\<rparr>])
                      | (s', None) \<Rightarrow> (s', [emptyFrame]))
                   else (s, [emptyFrame\<lparr>frError := Some NotPermitted\<rparr>])))"

text \<open>One connection to the socket of a native session: \<open>first\<close> says whether a first byte arrives in
  time, \<open>peer\<close> is the UID of the peer.  Nothing is sent to a connection that is not admitted.\<close>

definition serveAgent :: "service_env \<Rightarrow> service \<Rightarrow> session \<Rightarrow> bool \<Rightarrow> nat option \<Rightarrow> agent_request option \<Rightarrow> (bool \<times> bytes) list
    \<Rightarrow> service \<times> frame list" where
  "serveAgent env s session first peer request writes =
     (if \<not> first then (s, [])
      else case FindProject (stateOf env s) (seProjectID session) [] of
        Inl e \<Rightarrow> (s, [])
      | Inr p \<Rightarrow>
          if authenticateAgent (evNative env) peer (sePrincipal session) (prRoot p) \<noteq> Some None then (s, [])
          else if nativeBoundary (evNative env) (isPath (iwStore (svWorld s))) (stGHPath (stateOf env s)) \<noteq> Some None then (s, [])
          else HandleAgent env (activateSession s (seID session)) (seID session) request writes)"

section \<open>Frames carry the output\<close>

lemma concat_framePieces: "concat (framePieces p) = p"
proof (induction p rule: framePieces.induct)
  case (1 p)
  then show ?case by (subst framePieces.simps) simp
qed

lemma framePieces_sizes: "d \<in> set (framePieces p) \<Longrightarrow> d \<noteq> [] \<and> length d \<le> frameSize"
proof (induction p rule: framePieces.induct)
  case (1 p)
  show ?case
  proof (cases "p = []")
    case True
    then show ?thesis using "1.prems" by (subst (asm) framePieces.simps) simp
  next
    case False
    have "d = take frameSize p \<or> d \<in> set (framePieces (drop frameSize p))"
      using "1.prems" False by (subst (asm) framePieces.simps) simp
    moreover have "frameSize \<noteq> 0" by (simp add: frameSize_def)
    ultimately show ?thesis using "1.IH" [OF False] False by auto
  qed
qed

definition absorb :: "sink \<Rightarrow> bytes \<Rightarrow> sink" where
  "absorb s d = s\<lparr>sinkData := sinkData s @ d\<rparr>"

lemma ReadStream_pieces:
  assumes "sinkBudget out = None" and "sinkBudget err = None"
  shows "ReadStream (map (\<lambda>d. emptyFrame\<lparr>frStream := streamName b, frData := d\<rparr>) ps @ fs) out err =
    (if b then ReadStream fs (absorb out (concat ps)) err else ReadStream fs out (absorb err (concat ps)))"
  using assms
proof (induction ps arbitrary: out err)
  case Nil
  then show ?case by (simp add: absorb_def)
next
  case (Cons d ds)
  then show ?case by (cases b) (simp_all add: emptyFrame_def streamName_def sinkWrite_def absorb_def)
qed

lemma ReadStream_streamFrames:
  assumes "sinkBudget out = None" and "sinkBudget err = None"
  shows "ReadStream (streamFrames writes code e) out err =
    \<lparr>rdOut = absorb out (concat (writesTo True writes)), rdErr = absorb err (concat (writesTo False writes)),
     rdCode = code, rdError = map_option RemoteError e\<rparr>"
  using assms
proof (induction writes arbitrary: out err)
  case Nil
  then show ?case by (simp add: streamFrames_def emptyFrame_def writesTo_def absorb_def)
next
  case (Cons w ws)
  obtain b p where w: "w = (b, p)" by fastforce
  have "streamFrames (w # ws) code e = writeFrames b p @ streamFrames ws code e"
    by (simp add: streamFrames_def w)
  then have "ReadStream (streamFrames (w # ws) code e) out err =
      (if b then ReadStream (streamFrames ws code e) (absorb out p) err
       else ReadStream (streamFrames ws code e) out (absorb err p))"
    using ReadStream_pieces [OF Cons.prems] by (simp add: writeFrames_def concat_framePieces)
  then show ?case
    using Cons.IH [of "absorb out p" err] Cons.IH [of out "absorb err p"] Cons.prems
    by (cases b) (simp_all add: w writesTo_def absorb_def)
qed

text \<open>Reading a streamed call back gives what the call did: its exit code, its error, and on both
  outputs exactly the bytes that were written, in order, whatever the interleaving of the two
  outputs; no frame carries more than 32 KiB.\<close>

theorem stream_roundtrip:
  assumes "Execute env s r freshSink freshSink = Inr res"
    and "concat (writesTo True writes) = sinkData (resOut res)" and "concat (writesTo False writes) = sinkData (resErr res)"
  shows "ReadStream (Stream env s r writes) freshSink freshSink =
      \<lparr>rdOut = \<lparr>sinkData = sinkData (resOut res), sinkBudget = None\<rparr>, rdErr = \<lparr>sinkData = sinkData (resErr res), sinkBudget = None\<rparr>,
       rdCode = resCode res, rdError = map_option (\<lambda>e. RemoteError (ExecFailure e)) (resError res)\<rparr> \<and>
    (\<forall>f\<in>set (Stream env s r writes). length (frData f) \<le> 32 * 1024)"
proof -
  have st: "Stream env s r writes = streamFrames writes (resCode res) (map_option ExecFailure (resError res))"
    by (simp add: Stream_def assms(1))
  have "ReadStream (Stream env s r writes) freshSink freshSink =
      \<lparr>rdOut = absorb freshSink (sinkData (resOut res)), rdErr = absorb freshSink (sinkData (resErr res)),
       rdCode = resCode res, rdError = map_option RemoteError (map_option ExecFailure (resError res))\<rparr>"
    unfolding st assms(2,3) [symmetric] by (rule ReadStream_streamFrames) (simp_all add: freshSink_def)
  moreover have "\<forall>f\<in>set (Stream env s r writes). length (frData f) \<le> 32 * 1024"
    unfolding st using framePieces_sizes
    by (fastforce simp: streamFrames_def writeFrames_def emptyFrame_def frameSize_def split: prod.splits)
  ultimately show ?thesis
    by (simp add: absorb_def freshSink_def option.map_comp comp_def)
qed

definition bad_call :: execution_request where
  "bad_call = \<lparr>xrProjectID = ''p'', xrRoot = [], xrSessionID = [], xrInvocation = \<lparr>inArguments = [''auth''], inInput = []\<rparr>\<rparr>"

lemma sample_service_state: "stateOf sample_env sample_service = sample_state"
  by (simp add: sample_stateOf sample_service_def NewService_def)

lemma sample_execute:
  "Execute sample_env sample_service bad_call freshSink freshSink = Inr (failure freshSink freshSink (NotAuthorized OperationDenied))"
proof -
  have "callContext sample_env sample_service bad_call = Inr (sample_project, sample_persona)"
    by (simp add: callContext_def bad_call_def sample_service_state sample_project_found) (simp add: sample_project_def sample_project_found)
  moreover have "Authorize sample_project sample_persona (xrInvocation bad_call) = Inl OperationDenied"
    by (simp add: Authorize_def bad_call_def)
  ultimately show ?thesis by (simp add: Execute_def Run_def) (simp add: bad_call_def)
qed

theorem stream_roundtrip_witness:
  "rdError (ReadStream (Stream sample_env sample_service bad_call []) freshSink freshSink) =
     Some (RemoteError (ExecFailure (NotAuthorized OperationDenied)))"
proof -
  have "concat (writesTo b []) = []" for b by (simp add: writesTo_def)
  from stream_roundtrip [OF sample_execute, of "[]"] this show ?thesis by (simp add: failure_def freshSink_def)
qed

section \<open>What an agent can do\<close>

lemma activateSession_frame:
  "svWorld (activateSession s i) = svWorld s \<and> svListeners (activateSession s i) = svListeners s \<and>
   (\<forall>j. j \<noteq> i \<longrightarrow> map_of (svSessions (activateSession s i)) j = map_of (svSessions s) j) \<and>
   map_of (svSessions (activateSession s i)) i = map_option (\<lambda>session. session\<lparr>seStatus := ''active''\<rparr>) (map_of (svSessions s) i)"
  by (simp add: activateSession_def split: option.split)

text \<open>The change of the session's persona that its project's policy permits.\<close>

definition permitted_change :: "service_env \<Rightarrow> service \<Rightarrow> session \<Rightarrow> string \<Rightarrow> bool" where
  "permitted_change env s session persona \<longleftrightarrow> (\<exists>p. FindProject (stateOf env s) (seProjectID session) [] = Inr p \<and>
     Allows (prPolicy p) ''persona'' \<and> (persona = prPersona p \<or> persona \<in> set (prAlternatives p)))"

lemma HandleAgent_confined:
  assumes "HandleAgent env s sid request writes = (s', frames)"
  shows "svWorld s' = svWorld s \<and> svListeners s' = svListeners s \<and>
    (\<forall>j. j \<noteq> sid \<longrightarrow> map_of (svSessions s') j = map_of (svSessions s) j) \<and>
    (s' = s \<or> (\<exists>session q. map_of (svSessions s) sid = Some session \<and> request = Some q \<and>
       permitted_change env s session (agPersonaID q) \<and>
       map_of (svSessions s') sid = Some (session\<lparr>sePersonaID := agPersonaID q\<rparr>)))"
proof (cases request)
  case None
  then show ?thesis using assms by (simp add: HandleAgent_def)
next
  case (Some q)
  show ?thesis
  proof (cases "agVersion q = AgentProtocolVersion \<and> agAction q = ''persona''")
    case False
    then have "s' = s"
      using assms Some by (auto simp: HandleAgent_def Let_def split: if_split_asm sum.splits)
    then show ?thesis by simp
  next
    case True
    obtain s1 e where sel: "selectSessionPersona env s sid (agPersonaID q) = (s1, e)" by fastforce
    then have "s' = s1" using assms Some True by (cases e) (auto simp: HandleAgent_def Let_def)
    from sel show ?thesis
    proof (cases rule: selectSessionPersona_cases)
      case (refused e1)
      then show ?thesis using \<open>s' = s1\<close> by simp
    next
      case (selected session p)
      then have "permitted_change env s session (agPersonaID q)" by (auto simp: permitted_change_def)
      with selected \<open>s' = s1\<close> Some show ?thesis by simp
    qed
  qed
qed

lemma HandleAgent_context:
  assumes "HandleAgent env s sid request writes = (s', frames)" and "f \<in> set frames" and "frContext f = Some (p, persona)"
  shows "prRoot p = []"
  using assms
  by (auto simp: HandleAgent_def Let_def Stream_def streamFrames_def writeFrames_def emptyFrame_def
      split: option.splits if_split_asm sum.splits prod.splits)

text \<open>What a request does to the session it was made in.\<close>

lemma agent_own_session:
  assumes h: "HandleAgent env (activateSession s sid) sid request writes = (s', frames)"
    and o: "map_of (svSessions s) sid = Some own" "map_of (svSessions s') sid = Some own'"
  shows "own' = own\<lparr>seStatus := seStatus own', sePersonaID := sePersonaID own'\<rparr> \<and>
    (sePersonaID own' = sePersonaID own \<or> permitted_change env s own (sePersonaID own'))"
proof -
  let ?s1 = "activateSession s sid"
  note a = activateSession_frame [of s sid] and c = HandleAgent_confined [OF h]
  have s1o: "map_of (svSessions ?s1) sid = Some (own\<lparr>seStatus := ''active''\<rparr>)" using a o(1) by simp
  consider "s' = ?s1" | own1 and q :: agent_request where "map_of (svSessions ?s1) sid = Some own1"
      "permitted_change env ?s1 own1 (agPersonaID q)" "map_of (svSessions s') sid = Some (own1\<lparr>sePersonaID := agPersonaID q\<rparr>)"
    using c [THEN conjunct2, THEN conjunct2, THEN conjunct2] by blast
  then show ?thesis
  proof cases
    case 1
    then have "own' = own\<lparr>seStatus := ''active''\<rparr>" using s1o o(2) by simp
    then show ?thesis by simp
  next
    case (2 own1 q)
    then have "own1 = own\<lparr>seStatus := ''active''\<rparr>" using s1o by simp
    moreover have "stateOf env ?s1 = stateOf env s" using a by (simp add: stateOf_def)
    ultimately show ?thesis using 2 o(2) by (auto simp: permitted_change_def)
  qed
qed

text \<open>What a channel may change: its own session's status, and that session's persona, to one that the policy of
  the session's project permits.\<close>

definition session_confined :: "service_env \<Rightarrow> string \<Rightarrow> service \<Rightarrow> service \<Rightarrow> bool" where
  "session_confined env i s s' \<longleftrightarrow> svWorld s' = svWorld s \<and> svListeners s' = svListeners s \<and>
     (\<forall>j. j \<noteq> i \<longrightarrow> map_of (svSessions s') j = map_of (svSessions s) j) \<and>
     (\<forall>own own'. map_of (svSessions s) i = Some own \<longrightarrow> map_of (svSessions s') i = Some own' \<longrightarrow>
        own' = own\<lparr>seStatus := seStatus own', sePersonaID := sePersonaID own'\<rparr> \<and>
        (sePersonaID own' = sePersonaID own \<or> permitted_change env s own (sePersonaID own')))"

lemma session_confined_refl [simp]: "session_confined env i s s"
  by (simp add: session_confined_def)

lemma HandleAgent_session:
  assumes "HandleAgent env s i request writes = (s', frames)"
  shows "session_confined env i s s'"
  unfolding session_confined_def using HandleAgent_confined [OF assms] by (intro conjI allI impI) auto

lemma serveAgent_session:
  assumes "serveAgent env s session first peer request writes = (s', frames)"
  shows "session_confined env (seID session) s s'"
proof (cases "s' = s")
  case False
  define s1 where "s1 = activateSession s (seID session)"
  have h: "HandleAgent env s1 (seID session) request writes = (s', frames)"
    using assms False by (auto simp: serveAgent_def s1_def split: sum.splits if_split_asm)
  note a = activateSession_frame [of s "seID session", folded s1_def] and c = HandleAgent_confined [OF h]
  show ?thesis
    unfolding session_confined_def using a c agent_own_session [OF h [unfolded s1_def]] by auto
qed simp

text \<open>C12: An agent is confined.  A connection to the socket of a native session changes nothing and gets
  no answer unless its peer is authenticated as the session's account and the operator's credentials
  are still protected; and then, whatever it sends, it can change nothing but its own session's
  status and persona, the persona only to one that the policy of the session's project permits,
  and is never told the project's root.\<close>

theorem agent_confined:
  assumes "serveAgent env s session first peer request writes = (s', frames)"
  shows "((s', frames) = (s, []) \<or>
      (\<exists>p. FindProject (stateOf env s) (seProjectID session) [] = Inr p \<and>
        authenticateAgent (evNative env) peer (sePrincipal session) (prRoot p) = Some None \<and>
        nativeBoundary (evNative env) (isPath (iwStore (svWorld s))) (stGHPath (stateOf env s)) = Some None)) \<and>
    svWorld s' = svWorld s \<and> svListeners s' = svListeners s \<and>
    (\<forall>j. j \<noteq> seID session \<longrightarrow> map_of (svSessions s') j = map_of (svSessions s) j) \<and>
    (\<forall>own own'. map_of (svSessions s) (seID session) = Some own \<longrightarrow> map_of (svSessions s') (seID session) = Some own' \<longrightarrow>
       own' = own\<lparr>seStatus := seStatus own', sePersonaID := sePersonaID own'\<rparr> \<and>
       (sePersonaID own' = sePersonaID own \<or> permitted_change env s own (sePersonaID own'))) \<and>
    (\<forall>f p persona. f \<in> set frames \<longrightarrow> frContext f = Some (p, persona) \<longrightarrow> prRoot p = [])"
proof (cases "first \<and> (\<exists>p. FindProject (stateOf env s) (seProjectID session) [] = Inr p \<and>
        authenticateAgent (evNative env) peer (sePrincipal session) (prRoot p) = Some None \<and>
        nativeBoundary (evNative env) (isPath (iwStore (svWorld s))) (stGHPath (stateOf env s)) = Some None)")
  case False
  then have "(s', frames) = (s, [])"
    using assms by (auto simp: serveAgent_def split: sum.splits if_split_asm)
  then show ?thesis by simp
next
  case True
  define s1 where "s1 = activateSession s (seID session)"
  have h: "HandleAgent env s1 (seID session) request writes = (s', frames)"
    using assms True by (auto simp: serveAgent_def s1_def)
  show ?thesis
    using True serveAgent_session [OF assms, unfolded session_confined_def] HandleAgent_context [OF h] by auto
qed

text \<open>A native session of the sample service, and a request for its context from its own account.\<close>

definition native_session :: session where
  "native_session = sample_session\<lparr>seBackend := ''native'', seStatus := ''awaiting-agent'', sePrincipal := ''42''\<rparr>"

definition native_service :: service where
  "native_service = (NewService sample_world)\<lparr>svSessions := [(''5a'', native_session)], svListeners := [(''5a'', [])]\<rparr>"

definition context_request :: agent_request where
  "context_request = \<lparr>agVersion = 1, agAction = ''context'', agInvocation = \<lparr>inArguments = [], inInput = []\<rparr>, agPersonaID = []\<rparr>"

lemma native_service_state: "stateOf sample_env native_service = sample_state"
  by (simp add: sample_stateOf native_service_def NewService_def)

lemma context_answered:
  "\<exists>s'. serveAgent sample_env native_service native_session True (Some 42) (Some context_request) [] =
     (s', [emptyFrame\<lparr>frContext := Some (sample_project\<lparr>prRoot := []\<rparr>, sample_persona)\<rparr>])"
proof -
  define s1 where "s1 = activateSession native_service ''5a''"
  have st: "stateOf sample_env s1 = sample_state"
    using activateSession_frame [of native_service "''5a''"] by (simp add: stateOf_def s1_def native_service_state [unfolded stateOf_def])
  have se: "map_of (svSessions s1) ''5a'' = Some (native_session\<lparr>seStatus := ''active''\<rparr>)"
    using activateSession_frame [of native_service "''5a''"] by (simp add: s1_def native_service_def)
  have sc: "sessionContext sample_state (native_session\<lparr>seStatus := ''active''\<rparr>) = Inr (sample_project, sample_persona)"
    by (simp add: sessionContext_def native_session_def sample_session_def sample_project_found) (simp add: sample_project_def)
  have h: "HandleAgent sample_env s1 ''5a'' (Some context_request) [] =
      (s1, [emptyFrame\<lparr>frContext := Some (sample_project\<lparr>prRoot := []\<rparr>, sample_persona)\<rparr>])"
    by (simp add: HandleAgent_def context_request_def AgentProtocolVersion_def callContext_def st se sc)
  have "seProjectID native_session = ''p''" "sePrincipal native_session = ''42''" "seID native_session = ''5a''"
    by (simp_all add: native_session_def sample_session_def)
  moreover have "prRoot sample_project = ''/w''" "stGHPath sample_state = ''/usr/bin/gh''" "evNative sample_env = sample_native"
    "isPath (iwStore (svWorld native_service)) = ''/s/identity.json''"
    by (simp_all add: sample_project_def sample_state_def sample_env_def native_service_def NewService_def sample_world_def sample_store_def)
  ultimately show ?thesis
    using h by (simp add: serveAgent_def native_service_state sample_project_found sample_authenticated sample_boundary s1_def)
qed

theorem agent_confined_witness:
  "\<exists>s' frames. serveAgent sample_env native_service native_session True (Some 42) (Some context_request) [] = (s', frames) \<and>
     frames \<noteq> [] \<and> svWorld s' = sample_world \<and> (\<forall>f p persona. f \<in> set frames \<longrightarrow> frContext f = Some (p, persona) \<longrightarrow> prRoot p = [])"
proof -
  obtain s' where r: "serveAgent sample_env native_service native_session True (Some 42) (Some context_request) [] =
     (s', [emptyFrame\<lparr>frContext := Some (sample_project\<lparr>prRoot := []\<rparr>, sample_persona)\<rparr>])" using context_answered by blast
  have "svWorld native_service = sample_world" by (simp add: native_service_def NewService_def)
  moreover have "svWorld s' = svWorld native_service"
    using agent_confined [OF r] by (elim conjE)
  moreover have "\<forall>f p persona. f \<in> set [emptyFrame\<lparr>frContext := Some (sample_project\<lparr>prRoot := []\<rparr>, sample_persona)\<rparr>] \<longrightarrow>
      frContext f = Some (p, persona) \<longrightarrow> prRoot p = []"
    using agent_confined [OF r] by (elim conjE)
  ultimately show ?thesis using r by (intro exI conjI) (assumption, simp_all)
qed

end
