(* ===== verification/IdentitySessions.thy ===== *)
theory IdentitySessions
  imports IdentityService
begin

text \<open>
  What the sessions of the identity service promise, beyond their invariant: how they begin and
  end, what may be executed in one, and a case in which the two places of the code that decide whether
  an alternative persona is acceptable disagree.
\<close>

section \<open>Beginning and end\<close>

lemma created_session:
  assumes "createSession env nonce s r = (s', Inr session)"
  shows "(\<exists>p bytes. FindProject (stateOf env s) (rqProjectID r) [] = Inr p \<and> nonce = Some bytes \<and> seID session = hexBytes bytes \<and>
         seProjectID session = prID p \<and> sePersonaID session = prPersona p \<and> seBackend session = rqBackend r \<and>
         (prMode p = ''agent-isolation'' \<longrightarrow> seBackend session \<noteq> ''proxy-level'')) \<and>
      (seBackend session = ''native'' \<longrightarrow> nativePrincipal (evNative env) (rqPrincipal r) = Inr (sePrincipal session) \<and>
         nativeBoundary (evNative env) (isPath (iwStore (svWorld s))) (stGHPath (stateOf env s)) = Some None) \<and>
      map_of (svSessions s') = (map_of (svSessions s))(seID session \<mapsto> session) \<and> svWorld s' = svWorld s"
  using assms
proof (cases rule: createSession_cases)
  case (started p bytes)
  from started(5) show ?thesis
    by (cases rule: startSession_cases) (use started in auto)
qed simp

lemma revoked_session:
  assumes "revokeSession s i = (s', None)"
  shows "(xrSessionID x = i \<longrightarrow> i \<noteq> [] \<longrightarrow> callContext env s' x = Inl SessionUnavailable) \<and>
      (\<forall>endpoint. map_of (svListeners s) i = Some endpoint \<longrightarrow> endpoint \<in> set (svClosed s') \<and> map_of (svListeners s') i = None) \<and>
      (\<forall>j. j \<noteq> i \<longrightarrow> map_of (svSessions s') j = map_of (svSessions s) j) \<and> svWorld s' = svWorld s"
  using assms by (auto simp: revokeSession_def callContext_def Let_def split: option.splits)

lemma closed_sessions: "xrSessionID x \<noteq> [] \<Longrightarrow> callContext env (Close s) x = Inl SessionUnavailable"
  by (simp add: callContext_def Close_def)

text \<open>A session that is created belongs to a configured project, starts with that project's persona,
  is not at proxy level if the project requires isolation, and, if it is native, belongs to a
  separate account and starts only while the operator's credentials are protected; no other
  session changes.  A revoked session serves no call any more, its listener is closed, and no other
  session changes.  Once the service is closed, no session serves a call.\<close>

theorem session_lifecycle:
  "(createSession env nonce s r = (s', Inr session) \<longrightarrow>
      (\<exists>p bytes. FindProject (stateOf env s) (rqProjectID r) [] = Inr p \<and> nonce = Some bytes \<and> seID session = hexBytes bytes \<and>
         seProjectID session = prID p \<and> sePersonaID session = prPersona p \<and> seBackend session = rqBackend r \<and>
         (prMode p = ''agent-isolation'' \<longrightarrow> seBackend session \<noteq> ''proxy-level'')) \<and>
      (seBackend session = ''native'' \<longrightarrow> nativePrincipal (evNative env) (rqPrincipal r) = Inr (sePrincipal session) \<and>
         nativeBoundary (evNative env) (isPath (iwStore (svWorld s))) (stGHPath (stateOf env s)) = Some None) \<and>
      map_of (svSessions s') = (map_of (svSessions s))(seID session \<mapsto> session) \<and> svWorld s' = svWorld s) \<and>
   (revokeSession s i = (s', None) \<longrightarrow>
      (xrSessionID x = i \<longrightarrow> i \<noteq> [] \<longrightarrow> callContext env s' x = Inl SessionUnavailable) \<and>
      (\<forall>endpoint. map_of (svListeners s) i = Some endpoint \<longrightarrow> endpoint \<in> set (svClosed s') \<and> map_of (svListeners s') i = None) \<and>
      (\<forall>j. j \<noteq> i \<longrightarrow> map_of (svSessions s') j = map_of (svSessions s) j) \<and> svWorld s' = svWorld s) \<and>
   (xrSessionID x \<noteq> [] \<longrightarrow> callContext env (Close s) x = Inl SessionUnavailable)"
  by (intro conjI; rule impI; erule created_session revoked_session closed_sessions)

text \<open>The sample session, revoked.\<close>

theorem session_lifecycle_witness:
  "callContext sample_env (fst (revokeSession sample_service ''5a'')) session_call = Inl SessionUnavailable"
proof -
  have id: "xrSessionID session_call = ''5a''" by (simp add: session_call_def)
  obtain s' where r: "revokeSession sample_service ''5a'' = (s', None)"
    by (simp add: revokeSession_def sample_service_def NewService_def Let_def)
  from session_lifecycle [THEN conjunct2, THEN conjunct1, THEN mp, OF r, THEN conjunct1, THEN mp, OF id] show ?thesis
    by (simp add: r)
qed

section \<open>Execution\<close>

lemma Execute_Inr:
  assumes "Execute env s r out err = Inr res"
  obtains project persona where "callContext env s r = Inr (project, persona)"
    "\<not> (xrSessionID r \<noteq> [] \<and> isGitCredentialInvocation (xrInvocation r))"
    "res = Run (evOS env) (evExec env) (dirPath (isPath (iwStore (svWorld s)))) (stGHPath (stateOf env s))
       project persona (xrInvocation r) out err"
proof (cases "callContext env s r")
  case (Inl e)
  then show ?thesis using assms by (simp add: Execute_def)
next
  case (Inr c)
  obtain project persona where "c = (project, persona)" by fastforce
  with assms Inr that show ?thesis by (simp add: Execute_def split: if_split_asm)
qed

text \<open>C11: What an isolated session can obtain.  If a call in a session wrote anything, what it wrote is exactly
  the redacted output of one program run: the run of the original gh that passed its checks, with the
  arguments of the command that the policy of the session's project authorises for the session's
  persona, in the environment of that persona's credential, after the account of the credential was
  verified, with that same executable and environment, to be the persona's.  The command is never the
  credential request, and a session is never handed the credential (if the credential has no square
  brackets and is not part of the marker) inside an output either.  A call that is not authorised, or
  that asks for the credential, writes nothing.\<close>

theorem session_execution:
  assumes "Execute env s r freshSink freshSink = Inr res" and "xrSessionID r \<noteq> []" and "\<not> silent res"
    and "validateState (evParse env) (stateOf env s) = None"
  shows "\<exists>project persona command token gh directory login ws.
    session_binding s (xrSessionID r) project persona \<and>
    Authorize project persona (xrInvocation r) = Inr command \<and> \<not> cmCredential command \<and> \<not> cmInteractive command \<and>
    \<not> isGitCredentialInvocation (xrInvocation r) \<and>
    ValidateGH (evOS env) (evExec env) (stGHPath (stateOf env s)) = Inr gh \<and> token \<noteq> [] \<and>
    runLimited (evExec env) 1024
      (verifyRequest gh (commandEnvironment (evOS env) directory persona token) directory persona) = (login, True) \<and>
    equalFold (trimSpace login) (peAccount persona) \<and>
    ws = fst (evExec env (commandRequest gh (commandEnvironment (evOS env) directory persona token) directory command
      (inInput (xrInvocation r)))) \<and>
    sinkData (resOut res) = redact token (concat (writesTo True ws)) \<and>
    sinkData (resErr res) = redact token (concat (writesTo False ws)) \<and>
    (CHR ''['' \<notin> set token \<and> CHR '']'' \<notin> set token \<and> \<not> contains marker token \<longrightarrow>
       \<not> contains (sinkData (resOut res)) token \<and> \<not> contains (sinkData (resErr res)) token)"
  using assms(1)
proof (cases rule: Execute_Inr)
  case (1 project persona)
  obtain command gh token directory login where run:
      "Authorize project persona (xrInvocation r) = Inr command" "\<not> cmInteractive command"
      "ValidateGH (evOS env) (evExec env) (stGHPath (stateOf env s)) = Inr gh" "token \<noteq> []"
      "runLimited (evExec env) 1024 (verifyRequest gh (commandEnvironment (evOS env) directory persona token) directory persona) = (login, True)"
      "equalFold (trimSpace login) (peAccount persona)"
    and outputs: "if cmCredential command then sinkData (resOut res) = credentialText token \<and> sinkData (resErr res) = []
     else (let ws = fst (evExec env (commandRequest gh (commandEnvironment (evOS env) directory persona token) directory command (inInput (xrInvocation r))))
           in sinkData (resOut res) = redact token (concat (writesTo True ws)) \<and>
              sinkData (resErr res) = redact token (concat (writesTo False ws)))"
    using Run_output [OF 1(3) assms(3)] by blast
  have b: "session_binding s (xrSessionID r) project persona"
    using callContext_Inr [OF 1(1) assms(4)] assms(2) by simp
  have g: "\<not> isGitCredentialInvocation (xrInvocation r)" using 1(2) assms(2) by blast
  have c: "\<not> cmCredential command"
    using Authorize_cases [OF run(1)] g by (auto simp: credential_request_def)
  define ws where "ws = fst (evExec env (commandRequest gh (commandEnvironment (evOS env) directory persona token) directory command (inInput (xrInvocation r))))"
  have o: "sinkData (resOut res) = redact token (concat (writesTo True ws))"
    "sinkData (resErr res) = redact token (concat (writesTo False ws))"
    using outputs c by (simp_all add: ws_def Let_def)
  have h: "CHR ''['' \<notin> set token \<and> CHR '']'' \<notin> set token \<and> \<not> contains marker token \<longrightarrow>
       \<not> contains (sinkData (resOut res)) token \<and> \<not> contains (sinkData (resErr res)) token"
    unfolding o contains_iff using redact_hides [OF run(4)] by (simp add: contains_iff)
  from b run(1) c run(2) g run(3-6) ws_def o h show ?thesis by blast
qed

definition read_call :: execution_request where
  "read_call = \<lparr>xrProjectID = [], xrRoot = [], xrSessionID = ''5a'', xrInvocation = issue_call ''7''\<rparr>"

theorem session_execution_witness:
  "\<exists>project persona command. session_binding sample_service ''5a'' project persona \<and>
     Authorize project persona (issue_call ''7'') = Inr command \<and> \<not> cmCredential command"
proof -
  have st: "stateOf sample_env sample_service = sample_state"
    by (simp add: sample_stateOf sample_service_def NewService_def)
  have ctx: "callContext sample_env sample_service read_call = Inr (sample_project, sample_persona)"
    using sample_context by (simp add: callContext_def read_call_def session_call_def)
  have nocred: "\<not> isGitCredentialInvocation (issue_call ''7'')"
    by (simp add: isGitCredentialInvocation_def issue_call_def)
  have inv: "xrInvocation read_call = issue_call ''7''" "xrSessionID read_call = ''5a''" by (simp_all add: read_call_def)
  obtain res where ex: "Execute sample_env sample_service read_call freshSink freshSink = Inr res"
    and res: "res = Run sample_os sample_exec (dirPath (isPath (iwStore (svWorld sample_service)))) (stGHPath sample_state)
       sample_project sample_persona (issue_call ''7'') freshSink freshSink"
    using nocred by (simp add: Execute_def ctx inv st) (simp add: sample_env_def)
  have "isAbs (stGHPath sample_state)" by (simp add: sample_state_def)
  then have "\<not> silent res" using sample_run sample_redacted by (simp add: res silent_def)
  moreover have "validateState (evParse sample_env) (stateOf sample_env sample_service) = None"
    using sample_state_valid by (simp add: st) (simp add: sample_env_def)
  ultimately show ?thesis
    using session_execution [OF ex] inv by fastforce
qed

section \<open>Hosts that differ in case\<close>

text \<open>An alternative persona whose host is spelled in another case.\<close>

definition upper_persona :: persona where
  "upper_persona = sample_persona\<lparr>peID := ''up'', peHost := ''GitHub.com''\<rparr>"

definition case_state :: identity_state where
  "case_state = sample_state\<lparr>stPersonas := [sample_persona, upper_persona],
     stProjects := [sample_project\<lparr>prAlternatives := [''up''],
       prPolicy := \<lparr>polPreset = ''read-only'', polExceptions = [(''persona'', True)]\<rparr>\<rparr>]\<rparr>"

text \<open>Validation compares the hosts of alternative personas without regard to case, but the change of a
  session's persona compares them exactly: there is a valid state with a project whose policy
  permits the change of persona to one of its alternatives, and a session of that project is
  nevertheless always refused that alternative.\<close>

theorem alternative_case_refused:
  "\<exists>st p. validateState Some st = None \<and> p \<in> set (stProjects st) \<and> Allows (prPolicy p) ''persona'' \<and>
     ''up'' \<in> set (prAlternatives p) \<and>
     (\<forall>env s i session. stateOf env s = st \<longrightarrow> map_of (svSessions s) i = Some session \<longrightarrow> seProjectID session = prID p \<longrightarrow>
        selectSessionPersona env s i ''up'' = (s, Some AlternativeHostDiffers))"
proof -
  define p where "p = hd (stProjects case_state)"
  have v: "validateState Some case_state = None" by code_simp
  have p: "p \<in> set (stProjects case_state)" "Allows (prPolicy p) ''persona''" "List.member (prAlternatives p) ''up''"
      "FindProject case_state (prID p) [] = Inr p" "FindPersona case_state (prPersona p) = Inr sample_persona"
      "FindPersona case_state ''up'' = Inr upper_persona" "peHost sample_persona \<noteq> peHost upper_persona"
    unfolding p_def by code_simp+
  have "selectSessionPersona env s i ''up'' = (s, Some AlternativeHostDiffers)"
    if "stateOf env s = case_state" "map_of (svSessions s) i = Some session" "seProjectID session = prID p" for env s i session
    using p by (simp add: selectSessionPersona_def that Let_def)
  with v p show ?thesis by (intro exI [of _ case_state] exI [of _ p]) auto
qed

theorem alternative_case_refused_witness:
  "\<exists>env s p. validateState Some (stateOf env s) = None \<and> p \<in> set (stProjects (stateOf env s)) \<and>
     ''up'' \<in> set (prAlternatives p) \<and> map_of (svSessions s) ''5a'' \<noteq> None \<and>
     selectSessionPersona env s ''5a'' ''up'' = (s, Some AlternativeHostDiffers)"
proof -
  obtain st p where st: "validateState Some st = None" "p \<in> set (stProjects st)" "''up'' \<in> set (prAlternatives p)"
    and refused: "\<And>env s i session. stateOf env s = st \<Longrightarrow> map_of (svSessions s) i = Some session \<Longrightarrow>
      seProjectID session = prID p \<Longrightarrow> selectSessionPersona env s i ''up'' = (s, Some AlternativeHostDiffers)"
    using alternative_case_refused by blast
  define env where "env = sample_env\<lparr>evEncode := \<lambda>_. Some [], evUnmarshal := \<lambda>_. Some st\<rparr>"
  define s where "s = sample_service\<lparr>svSessions := [(''5a'', sample_session\<lparr>seProjectID := prID p\<rparr>)]\<rparr>"
  have "stateOf env s = st" by (simp add: env_def stateOf_def worldSnapshot_def Snapshot_def cloneState_def)
  moreover have "map_of (svSessions s) ''5a'' = Some (sample_session\<lparr>seProjectID := prID p\<rparr>)" by (simp add: s_def)
  ultimately show ?thesis using st refused by (intro exI [of _ env] exI [of _ s] exI [of _ p]) auto
qed

end
