(* ===== verification/CliGh.thy ===== *)
theory CliGh
  imports IdentityService
begin

text \<open>
  The gh command that stands in for the GitHub CLI, \<open>internal/cli/gh.go\<close> with \<open>prepareInvocation\<close> of
  \<open>internal/cli/identity.go\<close>: a call goes to the agent channel, to the broker, or to the original gh,
  with or without the environment of the project's persona.  What the command finds in its
  environment, and what the broker answers, are the fields of \<open>gh_host\<close>; the result is the action the
  command ends with.  The system is Linux.
\<close>

section \<open>What the command sees\<close>

record gh_host =
  ghAgentEndpoint :: string
  ghSession :: string
  ghEnviron :: "string list"
  ghRoot :: "string option"
  ghState :: "identity_state option"  \<comment> \<open>none: the daemon does not answer\<close>
  ghBroker :: "execution_request \<Rightarrow> bytes \<times> int \<times> bool"  \<comment> \<open>output, exit code, and whether there was no error\<close>
  ghStdin :: "bytes option"  \<comment> \<open>none: reading fails\<close>
  ghOpen :: "string \<Rightarrow> bytes option option"  \<comment> \<open>none: opening fails; some none: reading fails\<close>

datatype gh_refusal =
  CredentialInputTooLong | BodyFileMissing | BodyTwice | BodyFileFails | BodyTooLong
| NotificationFails | ManagementBlocked | CredentialsBlocked | PersonaUnknown
| BrokerFails | BrokerExit | NoCredential

text \<open>An empty path stands for the lookup of \<open>realgh\<close>; no environment stands for the inherited one.\<close>

datatype gh_action =
  Identify
| AskAgent invocation
| AskBroker execution_request
| RunOriginal string "string list" "string list option"
| IgnoreNotification
| Refuse int gh_refusal

section \<open>Preparing an invocation\<close>

definition readLimited :: "nat \<Rightarrow> bytes option \<Rightarrow> bytes option" where
  "readLimited limit data = (case data of None \<Rightarrow> None | Some d \<Rightarrow> if limit < length d then None else Some d)"

definition isGitCredentialGet :: "string list \<Rightarrow> bool" where
  "isGitCredentialGet args \<longleftrightarrow> args = [''auth'', ''git-credential'', ''get'']"

definition gitCredentialNotification :: "string list \<Rightarrow> bool" where
  "gitCredentialNotification args \<longleftrightarrow>
     args = [''auth'', ''git-credential'', ''store''] \<or> args = [''auth'', ''git-credential'', ''erase'']"

text \<open>The input of one body flag, given by its path, after the input read so far.\<close>

definition readBody :: "gh_host \<Rightarrow> bytes option \<Rightarrow> string \<Rightarrow> gh_refusal + bytes" where
  "readBody h input path =
     (if input \<noteq> None then Inl BodyTwice
      else case (if path = ''-'' then Some (ghStdin h) else ghOpen h (clean path)) of
             None \<Rightarrow> Inl BodyFileFails
           | Some data \<Rightarrow> (case readLimited (1024 * 1024) data of None \<Rightarrow> Inl BodyTooLong | Some d \<Rightarrow> Inr d))"

definition bodyFlag :: string where
  "bodyFlag = ''--body-file''"

definition bodyAssignment :: string where
  "bodyAssignment = ''--body-file=''"

text \<open>The loop over the arguments, with the arguments rewritten so far and the input.\<close>

fun prepareLoop :: "gh_host \<Rightarrow> string list \<Rightarrow> bytes option \<Rightarrow> string list \<Rightarrow> gh_refusal + string list \<times> bytes option" where
  "prepareLoop h kept input [] = Inr (kept, input)"
| "prepareLoop h kept input (flag # rest) =
     (if flag = bodyFlag \<or> flag = ''-F'' then
        (case rest of
           [] \<Rightarrow> Inl BodyFileMissing
         | path # rest' \<Rightarrow>
             (case readBody h input path of
                Inl e \<Rightarrow> Inl e
              | Inr d \<Rightarrow> prepareLoop h (kept @ [flag, ''-'']) (Some d) rest'))
      else if hasPrefix flag bodyAssignment then
        (case readBody h input (trimPrefix flag bodyAssignment) of
           Inl e \<Rightarrow> Inl e
         | Inr d \<Rightarrow> prepareLoop h (kept @ [bodyAssignment @ ''-'']) (Some d) rest)
      else prepareLoop h (kept @ [flag]) input rest)"

definition prepareInvocation :: "gh_host \<Rightarrow> string list \<Rightarrow> gh_refusal + invocation" where
  "prepareInvocation h args =
     (if isGitCredentialGet args then
        (case readLimited (64 * 1024) (ghStdin h) of
           None \<Rightarrow> Inl CredentialInputTooLong
         | Some d \<Rightarrow> Inr \<lparr>inArguments = args, inInput = d\<rparr>)
      else
        (case prepareLoop h [] None args of
           Inl e \<Rightarrow> Inl e
         | Inr (out, input) \<Rightarrow> Inr \<lparr>inArguments = out, inInput = (case input of None \<Rightarrow> [] | Some d \<Rightarrow> d)\<rparr>))"

section \<open>Which calls go where\<close>

definition ordinaryGHMetadata :: "string list \<Rightarrow> bool" where
  "ordinaryGHMetadata args \<longleftrightarrow>
     (case args of
        [] \<Rightarrow> True
      | a # _ \<Rightarrow> a = ''help'' \<or> a = ''--version'' \<or> a = ''version'' \<or> list_ex (\<lambda>arg. arg = ''--help'' \<or> arg = ''-h'') args)"

definition blockedManagement :: "string list" where
  "blockedManagement = [''login'', ''logout'', ''refresh'', ''setup-git'', ''switch'', ''token'']"

definition showsToken :: "string \<Rightarrow> bool" where
  "showsToken arg \<longleftrightarrow> arg = ''--show-token'' \<or> hasPrefix arg ''--show-token='' \<or>
     (hasPrefix arg ''-'' \<and> \<not> hasPrefix arg ''--'' \<and> contains (trimPrefix arg ''-'') ''t'')"

definition allowOrdinaryGH :: "string list \<Rightarrow> gh_refusal option" where
  "allowOrdinaryGH args =
     (case args of
        a # b # rest \<Rightarrow>
          if a \<noteq> ''auth'' then None
          else if List.member blockedManagement b then Some ManagementBlocked
          else if b = ''status'' \<and> list_ex showsToken rest then Some CredentialsBlocked
          else None
      | _ \<Rightarrow> None)"

section \<open>The environment of a persona\<close>

text \<open>\<open>strings.ToUpper\<close>, compared with names in ASCII only: besides the ASCII letters, the dotless i and
  the long s have an ASCII letter as upper case.\<close>

definition upper :: "char \<Rightarrow> char" where
  "upper c = (if 97 \<le> (of_char c :: nat) \<and> (of_char c :: nat) \<le> 122 then char_of ((of_char c :: nat) - 32) else c)"

fun toUpper :: "string \<Rightarrow> string" where
  "toUpper [] = []"
| "toUpper (c # s) =
     (if hasPrefix (c # s) [CHR 0xC4, CHR 0xB1] then CHR ''I'' # toUpper (drop 1 s)
      else if hasPrefix (c # s) [CHR 0xC5, CHR 0xBF] then CHR ''S'' # toUpper (drop 1 s)
      else upper c # toUpper s)"

definition blockedVariables :: "string list" where
  "blockedVariables = [''GH_TOKEN'', ''GITHUB_TOKEN'', ''GH_ENTERPRISE_TOKEN'', ''GITHUB_ENTERPRISE_TOKEN'', ''GH_HOST'',
     ''GH_PROMPT_DISABLED'']"

definition variableName :: "string \<Rightarrow> string" where
  "variableName item = (case cutAt CHR ''='' item of None \<Rightarrow> item | Some (key, v) \<Rightarrow> key)"

definition tokenVariable :: "persona \<Rightarrow> string" where
  "tokenVariable persona = (if peHost persona = ''github.com'' \<or> hasSuffix (peHost persona) ''.ghe.com''
     then ''GH_TOKEN'' else ''GH_ENTERPRISE_TOKEN'')"

definition interactiveGHEnvironment :: "string list \<Rightarrow> persona \<Rightarrow> string \<Rightarrow> string list" where
  "interactiveGHEnvironment environ persona token =
     filter (\<lambda>item. \<not> List.member blockedVariables (toUpper (variableName item))) environ
     @ [''GH_HOST='' @ peHost persona, tokenVariable persona @ ''='' @ token]"

section \<open>A call for a persona\<close>

definition credentialRequest :: "project \<Rightarrow> persona \<Rightarrow> execution_request" where
  "credentialRequest project persona = \<lparr>xrProjectID = prID project, xrRoot = [], xrSessionID = [],
     xrInvocation = \<lparr>inArguments = [''auth'', ''git-credential'', ''get''],
       inInput = ''protocol=https'' @ [CHR 0x0A] @ ''host='' @ peHost persona @ [CHR 0x0A] @ ''path='' @ prRepository project
         @ [CHR 0x0A, CHR 0x0A]\<rparr>\<rparr>"

definition passwordKey :: string where
  "passwordKey = ''password=''"

definition credentialToken :: "bytes \<Rightarrow> string" where
  "credentialToken data =
     (case find (\<lambda>line. hasPrefix line passwordKey) (splitAt (CHR 0x0A) (replaceCRLF data)) of
        None \<Rightarrow> []
      | Some line \<Rightarrow> trimPrefix line passwordKey)"

definition runPersonaGH :: "gh_host \<Rightarrow> string \<Rightarrow> project \<Rightarrow> persona \<Rightarrow> string list \<Rightarrow> gh_action" where
  "runPersonaGH h path project persona args =
     (case ghBroker h (credentialRequest project persona) of
        (data, code, ok) \<Rightarrow>
          if \<not> ok then Refuse 1 BrokerFails
          else if code \<noteq> 0 then Refuse code BrokerExit
          else if badToken (credentialToken data) then Refuse 1 NoCredential
          else RunOriginal path args (Some (interactiveGHEnvironment (ghEnviron h) persona (credentialToken data))))"

section \<open>The command\<close>

definition brokered :: "gh_host \<Rightarrow> project \<Rightarrow> string list \<Rightarrow> gh_action" where
  "brokered h project args =
     (case prepareInvocation h args of
        Inl e \<Rightarrow> Refuse 2 e
      | Inr call \<Rightarrow> AskBroker \<lparr>xrProjectID = prID project, xrRoot = [], xrSessionID = ghSession h, xrInvocation = call\<rparr>)"

text \<open>The part of \<open>runGHWith\<close> after the project of the repository is known.\<close>

definition runProjectGH :: "gh_host \<Rightarrow> identity_state \<Rightarrow> project \<Rightarrow> string list \<Rightarrow> gh_action" where
  "runProjectGH h st project args =
     (if \<not> prProxyEnabled project \<and> prMode project = ''proxy-level'' \<and> ghSession h = [] then RunOriginal (stGHPath st) args None
      else if gitCredentialNotification args then
        (if readLimited (64 * 1024) (ghStdin h) = None then Refuse 1 NotificationFails else IgnoreNotification)
      else if isGitCredentialGet args then brokered h project args
      else if prMode project = ''proxy-level'' \<and> ghSession h = [] then
        (case allowOrdinaryGH args of
           Some e \<Rightarrow> Refuse 1 e
         | None \<Rightarrow>
             (case FindPersona st (prPersona project) of
                Inl e \<Rightarrow> Refuse 1 PersonaUnknown
              | Inr persona \<Rightarrow> runPersonaGH h (stGHPath st) project persona args))
      else brokered h project args)"

definition dropSeparator :: "string list \<Rightarrow> string list" where
  "dropSeparator args = (case args of [] \<Rightarrow> [] | a # rest \<Rightarrow> if a = ''--'' then rest else args)"

definition runGHWith :: "gh_host \<Rightarrow> string list \<Rightarrow> gh_action" where
  "runGHWith h arguments =
     (let args = dropSeparator arguments
      in if args = [''--dovik-proxy-identify''] then Identify
         else if ghAgentEndpoint h \<noteq> [] then
           (case prepareInvocation h args of Inl e \<Rightarrow> Refuse 2 e | Inr call \<Rightarrow> AskAgent call)
         else if ordinaryGHMetadata args then RunOriginal [] args None
         else case ghState h of
                None \<Rightarrow> RunOriginal [] args None
              | Some st \<Rightarrow>
                  (case ghRoot h of
                     None \<Rightarrow> RunOriginal (stGHPath st) args None
                   | Some root \<Rightarrow>
                       (case FindProject st [] root of
                          Inl e \<Rightarrow> RunOriginal (stGHPath st) args None
                        | Inr project \<Rightarrow> runProjectGH h st project args)))"

text \<open>Running the original: the exit code, or none with an error.\<close>

definition runOriginalGH :: "os_view \<Rightarrow> exec \<Rightarrow> string \<Rightarrow> string list \<Rightarrow> bytes \<Rightarrow> string list option \<Rightarrow> int option" where
  "runOriginalGH os exec path args input environ =
     (case (if path = [] then osLookPath os ''realgh'' else Some path) of
        None \<Rightarrow> None
      | Some p \<Rightarrow>
          (case ValidateGH os exec p of
             Inl e \<Rightarrow> None
           | Inr gh \<Rightarrow>
               (case snd (exec \<lparr>exPath = gh, exArguments = args, exEnv = environ, exDir = [], exStdin = input\<rparr>) of
                  EndOK \<Rightarrow> Some 0
                | EndExit code \<Rightarrow> Some code
                | EndOther \<Rightarrow> None)))"

section \<open>What a prepared invocation carries\<close>

text \<open>The files a list of arguments takes a body from.\<close>

fun bodyPaths :: "string list \<Rightarrow> string list" where
  "bodyPaths [] = []"
| "bodyPaths (flag # rest) =
     (if flag = bodyFlag \<or> flag = ''-F'' then
        (case rest of [] \<Rightarrow> [] | path # rest' \<Rightarrow> path # bodyPaths rest')
      else if hasPrefix flag bodyAssignment then trimPrefix flag bodyAssignment # bodyPaths rest
      else bodyPaths rest)"

lemma readBody_Inr:
  "readBody h input path = Inr d \<Longrightarrow> length d \<le> 1024 * 1024 \<and> input = None \<and> (path = ''-'' \<longrightarrow> ghStdin h = Some d)"
  by (auto simp: readBody_def readLimited_def split: if_split_asm option.splits)

lemma bodyAssignment_dash [simp]:
  "bodyAssignment @ ''-'' \<noteq> bodyFlag" "bodyAssignment @ ''-'' \<noteq> ''-F''"
  "hasPrefix (bodyAssignment @ ''-'') bodyAssignment" "trimPrefix (bodyAssignment @ ''-'') bodyAssignment = ''-''"
  by (simp_all add: bodyAssignment_def bodyFlag_def hasPrefix_def trimPrefix_def)

lemma prepareLoop_Inr:
  assumes "prepareLoop h kept input args = Inr (out, input')"
  shows "\<exists>new. out = kept @ new \<and> length new = length args \<and> set (bodyPaths new) \<subseteq> {''-''} \<and>
     list_all2 (\<lambda>new old. new = old \<or> new = ''-'' \<or> new = bodyAssignment @ ''-'') new args \<and>
     (input' = input \<or> input = None \<and> (\<exists>d. input' = Some d \<and> length d \<le> 1024 * 1024)) \<and>
     length (bodyPaths args) \<le> (if input = None then 1 else 0) \<and>
     (bodyPaths args = [] \<longrightarrow> new = args \<and> input' = input)"
  using assms
proof (induction args arbitrary: kept input rule: bodyPaths.induct)
  case (2 flag rest)
  consider (separate) path rest' where "flag = bodyFlag \<or> flag = ''-F''" "rest = path # rest'"
    | (joined) "\<not> (flag = bodyFlag \<or> flag = ''-F'')" "hasPrefix flag bodyAssignment"
    | (other) "\<not> (flag = bodyFlag \<or> flag = ''-F'')" "\<not> hasPrefix flag bodyAssignment"
    using "2.prems" by (cases rest) (auto split: if_split_asm)
  then show ?case
  proof cases
    case separate
    with "2.prems" obtain d where d: "readBody h input path = Inr d"
      and l: "prepareLoop h (kept @ [flag, ''-'']) (Some d) rest' = Inr (out, input')"
      by (auto split: sum.splits)
    from "2.IH"(1) [OF separate l] readBody_Inr [OF d] separate show ?thesis
      by (auto intro: exI [of _ "flag # ''-'' # new" for new])
  next
    case joined
    with "2.prems" obtain d where d: "readBody h input (trimPrefix flag bodyAssignment) = Inr d"
      and l: "prepareLoop h (kept @ [bodyAssignment @ ''-'']) (Some d) rest = Inr (out, input')"
      by (auto split: sum.splits)
    from "2.IH"(2) [OF joined l] readBody_Inr [OF d] joined show ?thesis
      by (auto intro: exI [of _ "(bodyAssignment @ ''-'') # new" for new])
  next
    case other
    with "2.prems" have l: "prepareLoop h (kept @ [flag]) input rest = Inr (out, input')" by auto
    from "2.IH"(3) [OF other l] other show ?thesis by (auto intro: exI [of _ "flag # new" for new])
  qed
qed simp

text \<open>A prepared invocation carries no file of the client.  It has as many arguments as the command
  line, each of them the same or the dash that stands for the input; it names no file to take a body
  from; its input has at most a mebibyte; and a command line with two bodies is never prepared.\<close>

theorem invocation_bounds:
  assumes "prepareInvocation h args = Inr call"
  shows "length (inArguments call) = length args \<and>
     list_all2 (\<lambda>new old. new = old \<or> new = ''-'' \<or> new = bodyAssignment @ ''-'') (inArguments call) args \<and>
     set (bodyPaths (inArguments call)) \<subseteq> {''-''} \<and> length (inInput call) \<le> 1024 * 1024 \<and>
     length (bodyPaths args) \<le> 1 \<and>
     (bodyPaths args = [] \<longrightarrow> inArguments call = args \<and> (inInput call = [] \<or> isGitCredentialGet args))"
proof (cases "isGitCredentialGet args")
  case True
  then have args: "args = [''auth'', ''git-credential'', ''get'']" by (simp add: isGitCredentialGet_def)
  have "bodyPaths args = []" by (simp add: args bodyFlag_def bodyAssignment_def hasPrefix_def)
  with True assms show ?thesis
    by (auto simp: prepareInvocation_def readLimited_def list.rel_refl split: option.splits if_split_asm)
next
  case False
  with assms obtain out input where l: "prepareLoop h [] None args = Inr (out, input)"
    and c: "call = \<lparr>inArguments = out, inInput = (case input of None \<Rightarrow> [] | Some d \<Rightarrow> d)\<rparr>"
    by (auto simp: prepareInvocation_def split: sum.splits)
  from prepareLoop_Inr [OF l] c show ?thesis by auto
qed

lemma sample_prepared:
  "ghOpen h ''/b'' = Some (Some ''text'') \<Longrightarrow>
   prepareInvocation h [''issue'', ''create'', ''-F'', ''/b''] =
     Inr \<lparr>inArguments = [''issue'', ''create'', ''-F'', ''-''], inInput = ''text''\<rparr>"
proof -
  assume o: "ghOpen h ''/b'' = Some (Some ''text'')"
  have "clean ''/b'' = ''/b''" by code_simp
  with o have "readBody h None ''/b'' = Inr ''text''" by (simp add: readBody_def readLimited_def)
  then show ?thesis
    by (simp add: prepareInvocation_def isGitCredentialGet_def bodyFlag_def bodyAssignment_def hasPrefix_def)
qed

definition sample_gh_host :: gh_host where
  "sample_gh_host = \<lparr>ghAgentEndpoint = [], ghSession = [], ghEnviron = [''PATH=/bin'', ''gh_host=evil'', ''GH_TOKEN=ghp_old''],
     ghRoot = Some ''/w'', ghState = Some sample_state,
     ghBroker = (\<lambda>r. (''username=me'' @ [CHR 0x0A] @ ''password=ghp_x'' @ [CHR 0x0A], 0, True)),
     ghStdin = Some [], ghOpen = (\<lambda>path. if path = ''/b'' then Some (Some ''text'') else None)\<rparr>"

lemma sample_gh_host_simps [simp]:
  "ghAgentEndpoint sample_gh_host = []" "ghSession sample_gh_host = []" "ghRoot sample_gh_host = Some ''/w''"
  "ghEnviron sample_gh_host = [''PATH=/bin'', ''gh_host=evil'', ''GH_TOKEN=ghp_old'']"
  "ghState sample_gh_host = Some sample_state"
  "ghBroker sample_gh_host r = (''username=me'' @ [CHR 0x0A] @ ''password=ghp_x'' @ [CHR 0x0A], 0, True)"
  "ghOpen sample_gh_host ''/b'' = Some (Some ''text'')"
  by (simp_all add: sample_gh_host_def)

theorem invocation_bounds_witness:
  "\<exists>call. prepareInvocation sample_gh_host [''issue'', ''create'', ''-F'', ''/b''] = Inr call \<and>
     set (bodyPaths (inArguments call)) \<subseteq> {''-''} \<and> inInput call = ''text''"
proof -
  note p = sample_prepared [of sample_gh_host, simplified]
  from invocation_bounds [OF p] p show ?thesis by simp
qed

section \<open>When the original gh runs\<close>













text \<open>A call that only looks like one for help escapes every rule.  \<open>gh auth token -h github.com\<close>
  prints the operator's own token, and is one of the calls refused for a project; but \<open>-h\<close>, there the
  host, is taken for help, so that outside of the agent channel the original gh runs it with the
  caller's environment whatever the project of the directory demands.\<close>

theorem token_through_help:
  assumes "ghAgentEndpoint h = []"
  shows "runGHWith h [''auth'', ''token'', ''-h'', ''github.com''] =
       RunOriginal [] [''auth'', ''token'', ''-h'', ''github.com''] None \<and>
     allowOrdinaryGH [''auth'', ''token'', ''-h'', ''github.com''] = Some ManagementBlocked"
  using assms
  by (simp add: runGHWith_def dropSeparator_def ordinaryGHMetadata_def allowOrdinaryGH_def blockedManagement_def)

theorem token_through_help_witness:
  "runGHWith sample_gh_host [''auth'', ''token'', ''-h'', ''github.com''] =
     RunOriginal [] [''auth'', ''token'', ''-h'', ''github.com''] None"
  using token_through_help [of sample_gh_host] by simp

end
