(* ===== verification/ControlProtocol.thy ===== *)
theory ControlProtocol
  imports IdentityWire Lifecycle
begin

text \<open>
  The protocol of the local daemon, \<open>internal/control/protocol.go\<close>: its operations, requests and
  responses, the inputs and the views of the operations, and the conversions between the views and
  the records of the supervision package (those back from a view are in \<open>client.go\<close>), with the JSON
  form of each and its round trip.
\<close>

section \<open>Operations, requests and responses\<close>

definition ProtocolVersion :: int where
  "ProtocolVersion = 1"

datatype operation =
  OperationIdentity | OperationGHExecute | OperationAgentRun
| OperationProjectAdd | OperationProjectRemove | OperationProjectList
| OperationProcessAdd | OperationProcessRemove | OperationProcessList
| OperationProcessStart | OperationProcessStop | OperationProcessRestart
| OperationProcessStatus | OperationProcessLogs

fun operationName :: "operation \<Rightarrow> string" where
  "operationName OperationIdentity = ''identity''"
| "operationName OperationGHExecute = ''identity.execute''"
| "operationName OperationAgentRun = ''identity.agent-run''"
| "operationName OperationProjectAdd = ''project.add''"
| "operationName OperationProjectRemove = ''project.remove''"
| "operationName OperationProjectList = ''project.list''"
| "operationName OperationProcessAdd = ''process.add''"
| "operationName OperationProcessRemove = ''process.remove''"
| "operationName OperationProcessList = ''process.list''"
| "operationName OperationProcessStart = ''process.start''"
| "operationName OperationProcessStop = ''process.stop''"
| "operationName OperationProcessRestart = ''process.restart''"
| "operationName OperationProcessStatus = ''process.status''"
| "operationName OperationProcessLogs = ''process.logs''"

definition operations :: "operation list" where
  "operations =
     [OperationIdentity, OperationGHExecute, OperationAgentRun, OperationProjectAdd, OperationProjectRemove,
      OperationProjectList, OperationProcessAdd, OperationProcessRemove, OperationProcessList, OperationProcessStart,
      OperationProcessStop, OperationProcessRestart, OperationProcessStatus, OperationProcessLogs]"

definition operationOf :: "string \<Rightarrow> operation option" where
  "operationOf name = find (\<lambda>op. operationName op = name) operations"

lemma operationOf_name [simp]: "operationOf (operationName op) = Some op"
  by (cases op) (simp_all add: operationOf_def operations_def)

text \<open>\<open>json.RawMessage\<close> is the value itself, or none when it is empty.\<close>

record control_request =
  ctVersion :: int
  ctID :: string
  ctOperation :: string
  ctPayload :: "json option"

record protocol_error =
  perCode :: string
  perMessage :: string

record control_response =
  reVersion :: int
  reID :: string
  reResult :: "json option"
  reError :: "protocol_error option"

definition readRaw :: "json option reader" where
  "readRaw j old = Some (Some j)"

definition omitRaw :: "json option \<Rightarrow> json option" where
  "omitRaw j = j"

lemma copy_raw [wire]:
  "get a = None \<Longrightarrow> upd (\<lambda>_. None) a = a \<Longrightarrow>
   copyField (field n omitRaw rd get u) (field n wr readRaw get upd) r a = Some (upd (\<lambda>_. get r) a)"
  by (simp add: copyField_def field_def omitRaw_def readRaw_def split: option.split)

definition requestFields :: "control_request json_field list" where
  "requestFields =
     [field ''version'' (always JNumber) readInt ctVersion ctVersion_update,
      field ''id'' (always JText) readText ctID ctID_update,
      field ''operation'' (always JText) readText ctOperation ctOperation_update,
      field ''payload'' omitRaw readRaw ctPayload ctPayload_update]"

definition zeroControlRequest :: control_request where
  "zeroControlRequest = \<lparr>ctVersion = 0, ctID = [], ctOperation = [], ctPayload = None\<rparr>"

interpretation control_requests: json_codec "writeStruct requestFields" "readStruct strict requestFields" zeroControlRequest
    "\<lambda>r. is_int64 (ctVersion r)"
  for strict
  by unfold_locales (simp_all add: writeStruct_def readStruct_def requestFields_def zeroControlRequest_def wire)

definition errorFields :: "protocol_error json_field list" where
  "errorFields =
     [field ''code'' (always JText) readText perCode perCode_update,
      field ''message'' (always JText) readText perMessage perMessage_update]"

definition zeroProtocolError :: protocol_error where
  "zeroProtocolError = \<lparr>perCode = [], perMessage = []\<rparr>"

interpretation protocol_errors: json_codec "writeStruct errorFields" "readStruct strict errorFields" zeroProtocolError "\<lambda>_. True"
  for strict
  by unfold_locales (simp_all add: writeStruct_def readStruct_def errorFields_def zeroProtocolError_def wire)

definition responseFields :: "control_response json_field list" where
  "responseFields =
     [field ''version'' (always JNumber) readInt reVersion reVersion_update,
      field ''id'' (always JText) readText reID reID_update,
      field ''result'' omitRaw readRaw reResult reResult_update,
      field ''error'' (omitNil (writeStruct errorFields)) (readPointer (readStruct False errorFields) zeroProtocolError)
        reError reError_update]"

definition zeroResponse :: control_response where
  "zeroResponse = \<lparr>reVersion = 0, reID = [], reResult = None, reError = None\<rparr>"

interpretation responses: json_codec "writeStruct responseFields" "readStruct strict responseFields" zeroResponse
    "\<lambda>r. is_int64 (reVersion r)"
  for strict
  by (unfold_locales; unfold writeStruct_def [of responseFields] readStruct_def [of t responseFields for t];
      simp add: responseFields_def zeroResponse_def wire protocol_errors.pointer)

section \<open>The inputs of the operations\<close>

record project_input =
  piID :: string
  piRootDirectory :: string

record project_reference =
  pfProjectID :: string

record process_input =
  ciProjectID :: string
  ciID :: string
  ciCommand :: string
  ciArguments :: "string list"
  ciWorkingDirectory :: string
  ciEnvironmentOverrides :: "(string, string) gomap option"

record process_reference =
  cfProjectID :: string
  cfProcessID :: string

record logs_input =
  liProjectID :: string
  liProcessID :: string
  liAfterSequence :: u64
  liLimit :: int

definition projectInputFields :: "project_input json_field list" where
  "projectInputFields =
     [field ''id'' (always JText) readText piID piID_update,
      field ''rootDirectory'' (always JText) readText piRootDirectory piRootDirectory_update]"

definition zeroProjectInput :: project_input where
  "zeroProjectInput = \<lparr>piID = [], piRootDirectory = []\<rparr>"

interpretation project_inputs: json_codec "writeStruct projectInputFields" "readStruct strict projectInputFields" zeroProjectInput "\<lambda>_. True"
  for strict
  by unfold_locales (simp_all add: writeStruct_def readStruct_def projectInputFields_def zeroProjectInput_def wire)

definition projectReferenceFields :: "project_reference json_field list" where
  "projectReferenceFields =
     [field ''projectId'' (always JText) readText pfProjectID pfProjectID_update]"

definition zeroProjectReference :: project_reference where
  "zeroProjectReference = \<lparr>pfProjectID = []\<rparr>"

interpretation project_references: json_codec "writeStruct projectReferenceFields" "readStruct strict projectReferenceFields" zeroProjectReference "\<lambda>_. True"
  for strict
  by unfold_locales (simp_all add: writeStruct_def readStruct_def projectReferenceFields_def zeroProjectReference_def wire)

definition processReferenceFields :: "process_reference json_field list" where
  "processReferenceFields =
     [field ''projectId'' (always JText) readText cfProjectID cfProjectID_update,
      field ''processId'' (always JText) readText cfProcessID cfProcessID_update]"

definition zeroProcessReference :: process_reference where
  "zeroProcessReference = \<lparr>cfProjectID = [], cfProcessID = []\<rparr>"

interpretation process_references: json_codec "writeStruct processReferenceFields" "readStruct strict processReferenceFields" zeroProcessReference "\<lambda>_. True"
  for strict
  by unfold_locales (simp_all add: writeStruct_def readStruct_def processReferenceFields_def zeroProcessReference_def wire)

definition logsInputFields :: "logs_input json_field list" where
  "logsInputFields =
     [field ''projectId'' (always JText) readText liProjectID liProjectID_update,
      field ''processId'' (always JText) readText liProcessID liProcessID_update,
      field ''afterSequence'' omitUint64 readUint64 liAfterSequence liAfterSequence_update,
      field ''limit'' (always JNumber) readInt liLimit liLimit_update]"

definition zeroLogsInput :: logs_input where
  "zeroLogsInput = \<lparr>liProjectID = [], liProcessID = [], liAfterSequence = 0, liLimit = 0\<rparr>"

interpretation logs_inputs: json_codec "writeStruct logsInputFields" "readStruct strict logsInputFields" zeroLogsInput "\<lambda>r. is_int64 (liLimit r)"
  for strict
  by unfold_locales (simp_all add: writeStruct_def readStruct_def logsInputFields_def zeroLogsInput_def wire)

text \<open>The overrides of a process arrive in the order of their names, and an empty map as none.\<close>

definition carriedMap :: "(string, string) gomap option \<Rightarrow> (string, string) gomap option" where
  "carriedMap m = (case m of None \<Rightarrow> None | Some [] \<Rightarrow> None
     | Some es \<Rightarrow> Some (map (\<lambda>k. (k, the (map_of es k))) (sortStrings (map_keys es))))"

definition map_written :: "(string, string) gomap option \<Rightarrow> bool" where
  "map_written m \<longleftrightarrow> m = carriedMap m \<and> (\<forall>es. m = Some es \<longrightarrow> map_wf es)"

lemma copy_overrides [wire]:
  assumes "get a = None" and "upd (\<lambda>_. None) a = a" and "\<forall>es. get r = Some es \<longrightarrow> map_wf es"
  shows "copyField (field n (omitMap JText) rd get u) (field n wr (readMap readText []) get upd) r a =
     Some (upd (\<lambda>_. carriedMap (get r)) a)"
  using assms texts.entries
  by (auto simp: copyField_def field_def omitMap_def carriedMap_def list_all_iff split: option.split list.split)

definition processInputFields :: "process_input json_field list" where
  "processInputFields =
     [field ''projectId'' (always JText) readText ciProjectID ciProjectID_update,
      field ''id'' (always JText) readText ciID ciID_update,
      field ''command'' (always JText) readText ciCommand ciCommand_update,
      field ''arguments'' (omitList JText) (readList readText []) ciArguments ciArguments_update,
      field ''workingDirectory'' omitText readText ciWorkingDirectory ciWorkingDirectory_update,
      field ''environmentOverrides'' (omitMap JText) (readMap readText []) ciEnvironmentOverrides ciEnvironmentOverrides_update]"

definition zeroProcessInput :: process_input where
  "zeroProcessInput = \<lparr>ciProjectID = [], ciID = [], ciCommand = [], ciArguments = [], ciWorkingDirectory = [], ciEnvironmentOverrides = None\<rparr>"

lemma process_input_carried:
  fixes r :: process_input
  assumes "\<forall>es. ciEnvironmentOverrides r = Some es \<longrightarrow> map_wf es"
  shows "readStruct strict processInputFields (writeStruct processInputFields r) zeroProcessInput =
     Some (r\<lparr>ciEnvironmentOverrides := carriedMap (ciEnvironmentOverrides r)\<rparr>)"
  using assms by (simp add: writeStruct_def readStruct_def processInputFields_def zeroProcessInput_def wire texts.list list_all_iff)

interpretation process_inputs: json_codec "writeStruct processInputFields" "readStruct strict processInputFields"
    zeroProcessInput "\<lambda>r. map_written (ciEnvironmentOverrides r)"
  for strict
proof
  fix r :: process_input
  assume "map_written (ciEnvironmentOverrides r)"
  then have m: "ciEnvironmentOverrides r = carriedMap (ciEnvironmentOverrides r)"
    "\<forall>es. ciEnvironmentOverrides r = Some es \<longrightarrow> map_wf es"
    by (simp_all add: map_written_def)
  show "readStruct strict processInputFields (writeStruct processInputFields r) zeroProcessInput = Some r"
    unfolding process_input_carried [OF m(2)] m(1) [symmetric] by simp
qed (simp add: writeStruct_def)

section \<open>The views\<close>

text \<open>The names of the process states and output streams, \<open>state.go\<close> and \<open>output.go\<close>.\<close>

fun stateName :: "process_state \<Rightarrow> string" where
  "stateName Stopped = ''stopped''"
| "stateName Starting = ''starting''"
| "stateName Running = ''running''"
| "stateName Stopping = ''stopping''"
| "stateName Exited = ''exited''"
| "stateName Failed = ''failed''"
| "stateName (UnknownState s) = s"

definition stateOfName :: "string \<Rightarrow> process_state" where
  "stateOfName s = (case find (\<lambda>st. stateName st = s) [Stopped, Starting, Running, Stopping, Exited, Failed] of
     Some st \<Rightarrow> st | None \<Rightarrow> UnknownState s)"

text \<open>A value of the string type is one constant or none of them.\<close>

definition proper_state :: "process_state \<Rightarrow> bool" where
  "proper_state st \<longleftrightarrow> stateOfName (stateName st) = st"

lemma proper_states [simp]:
  "proper_state Stopped" "proper_state Starting" "proper_state Running" "proper_state Stopping"
  "proper_state Exited" "proper_state Failed" "proper_state (UnknownState [])"
  by (simp_all add: proper_state_def stateOfName_def)

definition readState :: "process_state reader" where
  "readState j old = map_option stateOfName (readText j (stateName old))"

fun streamText :: "output_stream \<Rightarrow> string" where
  "streamText Stdout = ''stdout''"
| "streamText Stderr = ''stderr''"
| "streamText (OtherStream s) = s"

definition streamOfText :: "string \<Rightarrow> output_stream" where
  "streamOfText s = (if s = ''stdout'' then Stdout else if s = ''stderr'' then Stderr else OtherStream s)"

definition proper_stream :: "output_stream \<Rightarrow> bool" where
  "proper_stream st \<longleftrightarrow> streamOfText (streamText st) = st"

definition readStream :: "output_stream reader" where
  "readStream j old = map_option streamOfText (readText j (streamText old))"

lemma read_names [wire]:
  "proper_state st \<Longrightarrow> readState (JText (stateName st)) old = Some st"
  "proper_stream so \<Longrightarrow> readStream (JText (streamText so)) old' = Some so"
  by (simp_all add: readState_def proper_state_def readStream_def proper_stream_def)

record project_view =
  pvID :: string
  pvRootDirectory :: string

record process_view =
  cvProjectID :: string
  cvID :: string
  cvCommand :: string
  cvArguments :: "string list"
  cvWorkingDirectory :: string

record runtime_view =
  rvProjectID :: string
  rvProcessID :: string
  rvInstanceID :: string
  rvPID :: "int option"
  rvState :: process_state
  rvStartedAt :: "time option"
  rvFinishedAt :: "time option"
  rvExitCode :: "int option"
  rvTerminationReason :: string

record status_view =
  tvExists :: bool
  tvRuntime :: "runtime_view option"

record output_event_view =
  ovSequence :: u64
  ovCapturedAt :: time
  ovStream :: output_stream
  ovData :: bytes

record output_tail_view =
  lvEvents :: "output_event_view list"
  lvTruncated :: bool

definition projectToView :: "project_definition \<Rightarrow> project_view" where
  "projectToView project = \<lparr>pvID = pdID project, pvRootDirectory = pdRootDirectory project\<rparr>"

definition processToView :: "process_definition \<Rightarrow> process_view" where
  "processToView process = \<lparr>cvProjectID = dProjectID process, cvID = dID process, cvCommand = dCommand process,
     cvArguments = dArguments process, cvWorkingDirectory = dWorkingDirectory process\<rparr>"

definition runtimeToView :: "process_runtime \<Rightarrow> runtime_view" where
  "runtimeToView r = \<lparr>rvProjectID = rProjectID r, rvProcessID = rProcessID r, rvInstanceID = rInstanceID r, rvPID = rPID r,
     rvState = rState r, rvStartedAt = rStartedAt r, rvFinishedAt = rFinishedAt r, rvExitCode = rExitCode r,
     rvTerminationReason = rTerminationReason r\<rparr>"

definition eventToView :: "output_event \<Rightarrow> output_event_view" where
  "eventToView e = \<lparr>ovSequence = eSequence e, ovCapturedAt = eCapturedAt e, ovStream = eStream e, ovData = eData e\<rparr>"

definition projectFromView :: "project_view \<Rightarrow> project_definition" where
  "projectFromView view = \<lparr>pdID = pvID view, pdRootDirectory = pvRootDirectory view\<rparr>"

definition processFromView :: "process_view \<Rightarrow> process_definition" where
  "processFromView view = \<lparr>dProjectID = cvProjectID view, dID = cvID view, dCommand = cvCommand view,
     dArguments = cvArguments view, dWorkingDirectory = cvWorkingDirectory view, dEnvironmentOverrides = None\<rparr>"

definition runtimeFromView :: "runtime_view \<Rightarrow> process_runtime" where
  "runtimeFromView view = \<lparr>rProjectID = rvProjectID view, rProcessID = rvProcessID view, rInstanceID = rvInstanceID view,
     rPID = rvPID view, rState = rvState view, rStartedAt = rvStartedAt view, rFinishedAt = rvFinishedAt view,
     rExitCode = rvExitCode view, rTerminationReason = rvTerminationReason view\<rparr>"

definition eventFromView :: "output_event_view \<Rightarrow> output_event" where
  "eventFromView view = \<lparr>eSequence = ovSequence view, eCapturedAt = ovCapturedAt view, eStream = ovStream view, eData = ovData view\<rparr>"

lemma from_to_view [simp]:
  "projectFromView (projectToView p) = p" "processFromView (processToView d) = publicProcessDefinition d"
  "runtimeFromView (runtimeToView r) = r" "eventFromView (eventToView e) = e"
  by (simp_all add: projectFromView_def projectToView_def processFromView_def processToView_def publicProcessDefinition_def
      runtimeFromView_def runtimeToView_def eventFromView_def eventToView_def)

section \<open>The form of the views\<close>

definition projectViewFields :: "project_view json_field list" where
  "projectViewFields =
     [field ''id'' (always JText) readText pvID pvID_update,
      field ''rootDirectory'' (always JText) readText pvRootDirectory pvRootDirectory_update]"

definition zeroProjectView :: project_view where
  "zeroProjectView = \<lparr>pvID = [], pvRootDirectory = []\<rparr>"

interpretation project_views: json_codec "writeStruct projectViewFields" "readStruct False projectViewFields" zeroProjectView "\<lambda>_. True"
  by unfold_locales (simp_all add: writeStruct_def readStruct_def projectViewFields_def zeroProjectView_def wire)

definition processViewFields :: "process_view json_field list" where
  "processViewFields =
     [field ''projectId'' (always JText) readText cvProjectID cvProjectID_update,
      field ''id'' (always JText) readText cvID cvID_update,
      field ''command'' (always JText) readText cvCommand cvCommand_update,
      field ''arguments'' (omitList JText) (readList readText []) cvArguments cvArguments_update,
      field ''workingDirectory'' omitText readText cvWorkingDirectory cvWorkingDirectory_update]"

definition zeroProcessView :: process_view where
  "zeroProcessView = \<lparr>cvProjectID = [], cvID = [], cvCommand = [], cvArguments = [], cvWorkingDirectory = []\<rparr>"

interpretation process_views: json_codec "writeStruct processViewFields" "readStruct False processViewFields" zeroProcessView "\<lambda>_. True"
  by unfold_locales (simp_all add: writeStruct_def readStruct_def processViewFields_def zeroProcessView_def wire texts.list list_all_iff)

definition runtime_ok :: "runtime_view \<Rightarrow> bool" where
  "runtime_ok r \<longleftrightarrow> proper_state (rvState r) \<and> (\<forall>n. rvPID r = Some n \<longrightarrow> is_int64 n) \<and> (\<forall>n. rvExitCode r = Some n \<longrightarrow> is_int64 n)"

definition runtimeViewFields :: "runtime_view json_field list" where
  "runtimeViewFields =
     [field ''projectId'' (always JText) readText rvProjectID rvProjectID_update,
      field ''processId'' (always JText) readText rvProcessID rvProcessID_update,
      field ''instanceId'' (always JText) readText rvInstanceID rvInstanceID_update,
      field ''pid'' (omitNil JNumber) (readPointer readInt 0) rvPID rvPID_update,
      field ''state'' (always (\<lambda>st. JText (stateName st))) readState rvState rvState_update,
      field ''startedAt'' (omitNil JTime) (readPointer readTime 0) rvStartedAt rvStartedAt_update,
      field ''finishedAt'' (omitNil JTime) (readPointer readTime 0) rvFinishedAt rvFinishedAt_update,
      field ''exitCode'' (omitNil JNumber) (readPointer readInt 0) rvExitCode rvExitCode_update,
      field ''terminationReason'' omitText readText rvTerminationReason rvTerminationReason_update]"

definition zeroRuntimeView :: runtime_view where
  "zeroRuntimeView = \<lparr>rvProjectID = [], rvProcessID = [], rvInstanceID = [], rvPID = None, rvState = UnknownState [], rvStartedAt = None, rvFinishedAt = None, rvExitCode = None, rvTerminationReason = []\<rparr>"

interpretation runtime_views: json_codec "writeStruct runtimeViewFields" "readStruct False runtimeViewFields" zeroRuntimeView "runtime_ok"
  by unfold_locales (simp_all add: writeStruct_def readStruct_def runtimeViewFields_def zeroRuntimeView_def wire runtime_ok_def numbers.pointer times.pointer)

definition statusViewFields :: "status_view json_field list" where
  "statusViewFields =
     [field ''exists'' (always JBool) readBool tvExists tvExists_update,
      field ''runtime'' (omitNil (writeStruct runtimeViewFields)) (readPointer (readStruct False runtimeViewFields) zeroRuntimeView) tvRuntime tvRuntime_update]"

definition zeroStatusView :: status_view where
  "zeroStatusView = \<lparr>tvExists = False, tvRuntime = None\<rparr>"

interpretation status_views: json_codec "writeStruct statusViewFields" "readStruct False statusViewFields" zeroStatusView "\<lambda>v. \<forall>r. tvRuntime v = Some r \<longrightarrow> runtime_ok r"
  by (unfold_locales; unfold writeStruct_def [of statusViewFields] readStruct_def [of t statusViewFields for t];
      simp add: statusViewFields_def zeroStatusView_def wire runtime_views.pointer)

definition eventViewFields :: "output_event_view json_field list" where
  "eventViewFields =
     [field ''sequence'' (always (\<lambda>n. JNumber (uint n))) readUint64 ovSequence ovSequence_update,
      field ''capturedAt'' (always JTime) readTime ovCapturedAt ovCapturedAt_update,
      field ''stream'' (always (\<lambda>st. JText (streamText st))) readStream ovStream ovStream_update,
      field ''data'' (always JData) readData ovData ovData_update]"

definition zeroEventView :: output_event_view where
  "zeroEventView = \<lparr>ovSequence = 0, ovCapturedAt = 0, ovStream = OtherStream [], ovData = []\<rparr>"

interpretation event_views: json_codec "writeStruct eventViewFields" "readStruct False eventViewFields" zeroEventView "\<lambda>e. proper_stream (ovStream e)"
  by unfold_locales (simp_all add: writeStruct_def readStruct_def eventViewFields_def zeroEventView_def wire)

definition tailViewFields :: "output_tail_view json_field list" where
  "tailViewFields =
     [field ''events'' (always (\<lambda>xs. JArray (map (writeStruct eventViewFields) xs))) (readList (readStruct False eventViewFields) zeroEventView) lvEvents lvEvents_update,
      field ''truncated'' (always JBool) readBool lvTruncated lvTruncated_update]"

definition zeroTailView :: output_tail_view where
  "zeroTailView = \<lparr>lvEvents = [], lvTruncated = False\<rparr>"

interpretation tail_views: json_codec "writeStruct tailViewFields" "readStruct False tailViewFields" zeroTailView "\<lambda>t. list_all (\<lambda>e. proper_stream (ovStream e)) (lvEvents t)"
  by (unfold_locales; unfold writeStruct_def [of tailViewFields] readStruct_def [of t tailViewFields for t];
      simp add: tailViewFields_def zeroTailView_def wire event_views.list)

end
