(* ===== verification/Container.thy ===== *)
theory Container
  imports AgentChannel
begin

text \<open>
  Agents in containers, \<open>internal/identity/container.go\<close>: which directories may be mounted, the
  command line of the container, and the run of an agent with its session, its bridge and its
  cleanup.  The answers of the operating system and of the container engine are the fields of
  \<open>container_os\<close>; the commands given to the engine are recorded in order.  The system is Linux.
\<close>

section \<open>Requests and answers\<close>

record mount_resource =
  rsSource :: string
  rsTarget :: string

record container_request =
  crProjectID :: string
  crBackend :: string
  crImage :: string
  crCommand :: "string list"
  crResources :: "mount_resource list"
  crInput :: bytes

datatype tree_entry = EntryFails | SpecialEntry \<comment> \<open>a socket, device or named pipe\<close> | PlainEntry

datatype bridge_result =
  NoPipe | BridgeNotStarted | BridgeIncompatible | BridgeTimeout | BridgeCancelled | BridgeReady

text \<open>\<open>coRequests\<close> are the requests that arrive over the bridge while the agent runs, with the writes
  of the call each makes.\<close>

record container_os =
  coAbs :: "string \<Rightarrow> string option"
  coEvalSymlinks :: "string \<Rightarrow> string option"
  coTree :: "string \<Rightarrow> tree_entry list"
  coLookPath :: "string \<Rightarrow> string option"
  coHome :: string
  coConfig :: string
  coExecutable :: string
  coGHConfigDir :: string
  coRuntimeDir :: string
  coCreate :: bool
  coBridge :: bridge_result
  coRequests :: "(agent_request option \<times> (bool \<times> bytes) list) list"
  coAgent :: run_end

datatype mount_error = NotMountable | OverlapsOperator | ContentsUnknown | SpecialContents

datatype container_error =
  SelectEngine | ImageAndCommandRequired | MountFails mount_error | ResourceTarget

datatype container_failure =
  ContainerProject identity_error | RuntimeUnavailable | ContainerSession service_error | ContainerArgs container_error
| CreateFails | PipeFails | BridgeFails | NoCompatibleBridge | BridgeNotReady | ContextEnded | AgentNotStarted

section \<open>Mounts\<close>

definition canonicalPath :: "container_os \<Rightarrow> string \<Rightarrow> string option" where
  "canonicalPath os path =
     (case coAbs os path of
        None \<Rightarrow> None
      | Some a \<Rightarrow> Some (case coEvalSymlinks os a of None \<Rightarrow> a | Some canonical \<Rightarrow> canonical))"

fun overlaps :: "container_os \<Rightarrow> string \<Rightarrow> string list \<Rightarrow> bool" where
  "overlaps os resolved [] = False"
| "overlaps os resolved (path # paths) =
     (if path = [] then overlaps os resolved paths
      else case canonicalPath os path of
             None \<Rightarrow> overlaps os resolved paths
           | Some a \<Rightarrow> if within a resolved \<or> within resolved a then True else overlaps os resolved paths)"

fun walkTree :: "tree_entry list \<Rightarrow> mount_error option" where
  "walkTree [] = None"
| "walkTree (EntryFails # es) = Some ContentsUnknown"
| "walkTree (SpecialEntry # es) = Some SpecialContents"
| "walkTree (PlainEntry # es) = walkTree es"

definition validateMount :: "container_os \<Rightarrow> string \<Rightarrow> string list \<Rightarrow> mount_error + string" where
  "validateMount os source protected =
     (case coEvalSymlinks os source of
        None \<Rightarrow> Inl NotMountable
      | Some resolved \<Rightarrow>
          if \<not> isAbs resolved \<or> containsAny resolved [CHR '','', CHR 0x0D, CHR 0x0A] then Inl NotMountable
          else if overlaps os resolved protected then Inl OverlapsOperator
          else (case walkTree (coTree os resolved) of Some e \<Rightarrow> Inl e | None \<Rightarrow> Inr resolved))"

section \<open>The command line of a container\<close>

definition mountProject :: "string \<Rightarrow> string" where
  "mountProject root = ''type=bind,src='' @ root @ '',dst=/workspace''"

definition mountResource :: "string \<Rightarrow> string \<Rightarrow> string" where
  "mountResource source target = ''type=bind,readonly,src='' @ source @ '',dst='' @ target"

fun resourceArgs :: "container_os \<Rightarrow> string list \<Rightarrow> mount_resource list \<Rightarrow> container_error + string list" where
  "resourceArgs os protected [] = Inr []"
| "resourceArgs os protected (r # rs) =
     (case validateMount os (rsSource r) protected of
        Inl e \<Rightarrow> Inl (MountFails e)
      | Inr source \<Rightarrow>
          if \<not> hasPrefix (rsTarget r) ''/resources/'' \<or> containsAny (rsTarget r) [CHR '','', CHR 0x0D, CHR 0x0A] \<or> contains (rsTarget r) ''..''
          then Inl ResourceTarget
          else map_sum id (\<lambda>args. [''--mount'', mountResource source (rsTarget r)] @ args) (resourceArgs os protected rs))"

definition containerOptions :: "string \<Rightarrow> string \<Rightarrow> string list" where
  "containerOptions name root =
     [''run'', ''--detach'', ''--pull=never'', ''--name'', name, ''--user'', ''10001:10001'', ''--cap-drop=ALL'',
      ''--security-opt=no-new-privileges'', ''--pids-limit=512'', ''--memory=4g'', ''--cpus=2'', ''--workdir'', ''/workspace'',
      ''--env'', ''DOVIK_AGENT_ENDPOINT=/tmp/dovik-agent.sock'', ''--mount'', mountProject root,
      ''--entrypoint'', ''/usr/local/bin/dovik'']"

definition containerArgs :: "container_os \<Rightarrow> container_request \<Rightarrow> project \<Rightarrow> string \<Rightarrow> string list \<Rightarrow> container_error + string list" where
  "containerArgs os r p name protected =
     (if crBackend r \<noteq> ''docker'' \<and> crBackend r \<noteq> ''podman'' then Inl SelectEngine
      else if crImage r = [] \<or> hasPrefix (crImage r) ''-'' \<or> containsAny (crImage r) [CHR '' '', CHR 0x0D, CHR 0x0A, CHR 0x00]
          \<or> crCommand r = [] \<or> 1024 * 1024 < length (crInput r)
      then Inl ImageAndCommandRequired
      else case validateMount os (prRoot p) protected of
             Inl e \<Rightarrow> Inl (MountFails e)
           | Inr root \<Rightarrow>
               map_sum id (\<lambda>args. containerOptions name root @ args @ [crImage r, ''agent-idle''])
                 (resourceArgs os protected (crResources r)))"

definition protectedPaths :: "container_os \<Rightarrow> string \<Rightarrow> string \<Rightarrow> string list" where
  "protectedPaths os statePath ghPath =
     [dirPath statePath, coExecutable os, ghPath, joinPath (coHome os) ''.ssh'', joinPath (coHome os) ''.docker'',
      joinPath (joinPath (coHome os) ''.config'') ''containers'', joinPath (joinPath (coHome os) ''.config'') ''gh'',
      joinPath (coConfig os) ''gh'', coGHConfigDir os, ''/var/run/docker.sock'', ''/run/podman'',
      joinPath (coRuntimeDir os) ''podman'']"

section \<open>The run of an agent\<close>

text \<open>\<open>cnAnswers\<close> are the frames sent back over the bridge.\<close>

record container_run =
  cnService :: service
  cnCommands :: "(string \<times> string list) list"
  cnAnswers :: "frame list"
  cnCode :: int
  cnError :: "container_failure option"

fun serveBridge :: "service_env \<Rightarrow> service \<Rightarrow> string \<Rightarrow> (agent_request option \<times> (bool \<times> bytes) list) list \<Rightarrow> service \<times> frame list" where
  "serveBridge env s i [] = (s, [])"
| "serveBridge env s i ((q, writes) # qs) =
     (case HandleAgent env s i q writes of
        (s1, frames) \<Rightarrow> (case serveBridge env s1 i qs of (s2, frames2) \<Rightarrow> (s2, frames @ frames2)))"

definition containerName :: "session \<Rightarrow> string" where
  "containerName session = ''dovik-agent-'' @ take 16 (seID session)"

definition removeCommand :: "string \<Rightarrow> string list" where
  "removeCommand name = [''rm'', ''--force'', name]"

definition bridgeCommand :: "string \<Rightarrow> string list" where
  "bridgeCommand name = [''exec'', ''-i'', name, ''/usr/local/bin/dovik'', ''agent-bridge'']"

definition failRun :: "service \<Rightarrow> (string \<times> string list) list \<Rightarrow> container_failure \<Rightarrow> container_run" where
  "failRun s commands e = \<lparr>cnService = s, cnCommands = commands, cnAnswers = [], cnCode = 1, cnError = Some e\<rparr>"

text \<open>After the container was created: its bridge, the agent and the requests it makes.\<close>

definition runAgent :: "service_env \<Rightarrow> container_os \<Rightarrow> service \<Rightarrow> session \<Rightarrow> string \<Rightarrow> container_request \<Rightarrow> container_run" where
  "runAgent env os s session runtime r =
     (let name = containerName session; bridge = (runtime, bridgeCommand name)
      in case coBridge os of
           NoPipe \<Rightarrow> failRun s [] PipeFails
         | BridgeNotStarted \<Rightarrow> failRun s [] BridgeFails
         | BridgeIncompatible \<Rightarrow> failRun s [bridge] NoCompatibleBridge
         | BridgeTimeout \<Rightarrow> failRun s [bridge] BridgeNotReady
         | BridgeCancelled \<Rightarrow> failRun s [bridge] ContextEnded
         | BridgeReady \<Rightarrow>
             (case serveBridge env (activateSession s (seID session)) (seID session) (coRequests os) of
                (s', answers) \<Rightarrow>
                  \<lparr>cnService = s', cnCommands = [bridge, (runtime, [''exec'', ''-i'', name] @ crCommand r)], cnAnswers = answers,
                   cnCode = (case coAgent os of EndOK \<Rightarrow> 0 | EndExit code \<Rightarrow> code | EndOther \<Rightarrow> 1),
                   cnError = (case coAgent os of EndOther \<Rightarrow> Some AgentNotStarted | _ \<Rightarrow> None)\<rparr>))"

text \<open>The part between the start of the session and its revocation.\<close>

definition runSession :: "service_env \<Rightarrow> container_os \<Rightarrow> service \<Rightarrow> session \<Rightarrow> project \<Rightarrow> string \<Rightarrow> string list \<Rightarrow> container_request \<Rightarrow> container_run" where
  "runSession env os s session p runtime protected r =
     (case containerArgs os r p (containerName session) protected of
        Inl e \<Rightarrow> failRun s [] (ContainerArgs e)
      | Inr args \<Rightarrow>
          if \<not> coCreate os then failRun s [(runtime, args)] CreateFails
          else (let run = runAgent env os s session runtime r
                in run\<lparr>cnCommands := [(runtime, args)] @ cnCommands run @ [(runtime, removeCommand (containerName session))]\<rparr>))"

definition sessionRequest :: "string \<Rightarrow> string \<Rightarrow> string \<Rightarrow> string \<Rightarrow> identity_request" where
  "sessionRequest action project backend session =
     \<lparr>rqAction = action, rqPersona = None, rqProject = None, rqProjectID = project, rqPersonaID = [], rqSessionID = session,
      rqPolicy = None, rqPath = [], rqRoot = [], rqBackend = backend, rqPrincipal = [], rqPersonas = []\<rparr>"

definition RunContainer :: "service_env \<Rightarrow> container_os \<Rightarrow> 8 word list option \<Rightarrow> service \<Rightarrow> container_request \<Rightarrow> container_run" where
  "RunContainer env os nonce s r =
     (case FindProject (stateOf env s) (crProjectID r) [] of
        Inl e \<Rightarrow> failRun s [] (ContainerProject e)
      | Inr p \<Rightarrow>
          (case coLookPath os (crBackend r) of
             None \<Rightarrow> failRun s [] RuntimeUnavailable
           | Some runtime \<Rightarrow>
               (case createSession env nonce s (sessionRequest [] (prID p) (crBackend r) []) of
                  (s1, Inl e) \<Rightarrow> failRun s1 [] (ContainerSession e)
                | (s1, Inr session) \<Rightarrow>
                    (let protected = protectedPaths os (isPath (iwStore (svWorld s))) (stGHPath (stateOf env s));
                         run = runSession env os s1 session p runtime protected r
                     in run\<lparr>cnService := fst (Call env None (cnService run)
                              (sessionRequest ''session.revoke'' [] [] (seID session)))\<rparr>))))"

text \<open>\<open>StreamContainer\<close>: the frames of what the commands wrote, and the frame of the result.\<close>

definition StreamContainer :: "service_env \<Rightarrow> container_os \<Rightarrow> 8 word list option \<Rightarrow> service \<Rightarrow> container_request \<Rightarrow> (bool \<times> bytes) list
    \<Rightarrow> service \<times> (frame list \<times> int \<times> container_failure option)" where
  "StreamContainer env os nonce s r writes =
     (let run = RunContainer env os nonce s r
      in (cnService run, concat (map (\<lambda>(out, p). writeFrames out p) writes), cnCode run, cnError run))"

section \<open>What may be mounted\<close>

lemma overlaps_iff:
  "overlaps os resolved paths \<longleftrightarrow>
     (\<exists>path\<in>set paths. \<exists>a. path \<noteq> [] \<and> canonicalPath os path = Some a \<and> (within a resolved \<or> within resolved a))"
  by (induction paths) (auto split: option.split)

lemma walkTree_None: "walkTree es = None \<longleftrightarrow> set es \<subseteq> {PlainEntry}"
  by (induction es rule: walkTree.induct) auto

text \<open>A directory that is safe to mount for an agent: nothing the operator protects is in it or above
  it, and there is no special file in it.\<close>

definition mountable :: "container_os \<Rightarrow> string list \<Rightarrow> string \<Rightarrow> bool" where
  "mountable os protected resolved \<longleftrightarrow> isAbs resolved \<and> \<not> containsAny resolved [CHR '','', CHR 0x0D, CHR 0x0A] \<and>
     (\<forall>path\<in>set protected. \<forall>a. path \<noteq> [] \<longrightarrow> canonicalPath os path = Some a \<longrightarrow> \<not> within a resolved \<and> \<not> within resolved a) \<and>
     set (coTree os resolved) \<subseteq> {PlainEntry}"

lemma validateMount_Inr:
  "validateMount os source protected = Inr resolved \<longleftrightarrow> coEvalSymlinks os source = Some resolved \<and> mountable os protected resolved"
  by (auto simp: validateMount_def mountable_def overlaps_iff walkTree_None [symmetric] split: option.split)

lemma resourceArgs_Inr:
  assumes "resourceArgs os protected rs = Inr args"
  shows "\<exists>sources. length sources = length rs \<and>
     args = concat (map (\<lambda>(source, r). [''--mount'', mountResource source (rsTarget r)]) (zip sources rs)) \<and>
     (\<forall>(source, r)\<in>set (zip sources rs). coEvalSymlinks os (rsSource r) = Some source \<and> mountable os protected source \<and>
        hasPrefix (rsTarget r) ''/resources/'' \<and> \<not> contains (rsTarget r) ''..'' \<and> \<not> containsAny (rsTarget r) [CHR '','', CHR 0x0D, CHR 0x0A])"
  using assms
proof (induction rs arbitrary: args)
  case (Cons r rs)
  from Cons.prems obtain source rest where v: "validateMount os (rsSource r) protected = Inr source"
    and rest: "resourceArgs os protected rs = Inr rest"
    and t: "hasPrefix (rsTarget r) ''/resources/''" "\<not> contains (rsTarget r) ''..''"
      "\<not> containsAny (rsTarget r) [CHR '','', CHR 0x0D, CHR 0x0A]"
    and args: "args = [''--mount'', mountResource source (rsTarget r)] @ rest"
    by (cases "resourceArgs os protected rs") (auto split: sum.splits if_split_asm)
  from Cons.IH [OF rest] obtain sources where s: "length sources = length rs"
    "rest = concat (map (\<lambda>(source, r). [''--mount'', mountResource source (rsTarget r)]) (zip sources rs))"
    "\<forall>(source, r)\<in>set (zip sources rs). coEvalSymlinks os (rsSource r) = Some source \<and> mountable os protected source \<and>
        hasPrefix (rsTarget r) ''/resources/'' \<and> \<not> contains (rsTarget r) ''..'' \<and> \<not> containsAny (rsTarget r) [CHR '','', CHR 0x0D, CHR 0x0A]"
    by auto
  from v have "coEvalSymlinks os (rsSource r) = Some source" "mountable os protected source" by (simp_all add: validateMount_Inr)
  with s t args show ?case by (intro exI [of _ "source # sources"]) simp
qed simp

text \<open>C17: The command line of a container is safe.  Whatever a request says, the engine gets the fixed
  options (no capabilities, no privileges, a user that is not root), the project's directory as the
  only writable mount, further mounts that are read-only and below \<open>/resources/\<close>, and an image that is
  not an option; and no mounted directory is, contains or lies in a path the operator protects or
  contains a socket, a device or a named pipe.\<close>

theorem container_args_safe:
  assumes "containerArgs os r p name protected = Inr args"
  shows "\<exists>root sources. coEvalSymlinks os (prRoot p) = Some root \<and> mountable os protected root \<and>
     length sources = length (crResources r) \<and>
     args = containerOptions name root
       @ concat (map (\<lambda>(source, r). [''--mount'', mountResource source (rsTarget r)]) (zip sources (crResources r)))
       @ [crImage r, ''agent-idle''] \<and>
     (\<forall>(source, r)\<in>set (zip sources (crResources r)). coEvalSymlinks os (rsSource r) = Some source \<and> mountable os protected source \<and>
        hasPrefix (rsTarget r) ''/resources/'' \<and> \<not> contains (rsTarget r) ''..'' \<and> \<not> containsAny (rsTarget r) [CHR '','', CHR 0x0D, CHR 0x0A]) \<and>
     crImage r \<noteq> [] \<and> \<not> hasPrefix (crImage r) ''-'' \<and> crBackend r \<in> {''docker'', ''podman''}"
proof -
  from assms have ok: "crBackend r \<in> {''docker'', ''podman''}" "crImage r \<noteq> []" "\<not> hasPrefix (crImage r) ''-''"
    unfolding containerArgs_def by (auto split: if_split_asm)
  from assms obtain root rest where v: "validateMount os (prRoot p) protected = Inr root"
    and rest: "resourceArgs os protected (crResources r) = Inr rest"
    and args: "args = containerOptions name root @ rest @ [crImage r, ''agent-idle'']"
    unfolding containerArgs_def by (cases "resourceArgs os protected (crResources r)") (auto split: if_split_asm sum.splits)
  from resourceArgs_Inr [OF rest] v args ok show ?thesis unfolding validateMount_Inr by auto
qed

definition sample_container_os :: container_os where
  "sample_container_os = \<lparr>coAbs = Some, coEvalSymlinks = Some, coTree = (\<lambda>path. [PlainEntry]),
     coLookPath = (\<lambda>name. Some (''/bin/'' @ name)), coHome = ''/h'', coConfig = ''/h/.config'', coExecutable = ''/bin/dovikd'',
     coGHConfigDir = [], coRuntimeDir = ''/run/u'', coCreate = True, coBridge = BridgeReady, coRequests = [], coAgent = EndOK\<rparr>"

definition sample_container_request :: container_request where
  "sample_container_request = \<lparr>crProjectID = ''p'', crBackend = ''docker'', crImage = ''agent'', crCommand = [''claude''],
     crResources = [\<lparr>rsSource = ''/data'', rsTarget = ''/resources/data''\<rparr>], crInput = []\<rparr>"

definition sample_arguments :: "string \<Rightarrow> string list" where
  "sample_arguments name = containerOptions name ''/w''
     @ [''--mount'', ''type=bind,readonly,src=/data,dst=/resources/data'', ''agent'', ''agent-idle'']"

lemma sample_mountable:
  "validateMount sample_container_os ''/w'' [''/s'', [], ''/h/.ssh''] = Inr ''/w''"
  "validateMount sample_container_os ''/data'' [''/s'', [], ''/h/.ssh''] = Inr ''/data''"
  by code_simp+

lemma sample_container_args:
  "containerArgs sample_container_os sample_container_request sample_project name [''/s'', [], ''/h/.ssh''] = Inr (sample_arguments name)"
proof -
  have "prRoot sample_project = ''/w''" by (simp add: sample_project_def)
  then show ?thesis
    by (simp add: containerArgs_def sample_container_request_def sample_mountable sample_arguments_def hasPrefix_def containsAny_def
        contains_def mountResource_def)
qed

theorem container_args_safe_witness:
  "\<exists>root. coEvalSymlinks sample_container_os ''/w'' = Some root \<and> mountable sample_container_os [''/s'', [], ''/h/.ssh''] root"
proof -
  have "prRoot sample_project = ''/w''" by (simp add: sample_project_def)
  with container_args_safe [OF sample_container_args [of "''n''"]] show ?thesis by auto
qed

section \<open>What a run leaves behind\<close>

lemma serveBridge_frame:
  assumes "serveBridge env s i qs = (s', frames)"
  shows "svWorld s' = svWorld s \<and> svListeners s' = svListeners s \<and>
     (\<forall>j. j \<noteq> i \<longrightarrow> map_of (svSessions s') j = map_of (svSessions s) j) \<and>
     (\<forall>f p persona. f \<in> set frames \<longrightarrow> frContext f = Some (p, persona) \<longrightarrow> prRoot p = [])"
  using assms
proof (induction qs arbitrary: s frames)
  case (Cons q qs)
  obtain request writes where q: "q = (request, writes)" by fastforce
  obtain s1 f1 where h: "HandleAgent env s i request writes = (s1, f1)" by fastforce
  obtain s2 f2 where "serveBridge env s1 i qs = (s2, f2)" by fastforce
  then have t: "serveBridge env s1 i qs = (s', f2)" and "frames = f1 @ f2" using Cons.prems by (simp_all add: q h)
  with HandleAgent_confined [OF h] Cons.IH [OF t] HandleAgent_context [OF h] show ?case by auto
qed simp

lemma runSession_frame:
  assumes "runSession env os s session p runtime protected r = run"
  shows "svWorld (cnService run) = svWorld s \<and> svListeners (cnService run) = svListeners s \<and>
     (\<forall>j. j \<noteq> seID session \<longrightarrow> map_of (svSessions (cnService run)) j = map_of (svSessions s) j) \<and>
     (\<forall>f p persona. f \<in> set (cnAnswers run) \<longrightarrow> frContext f = Some (p, persona) \<longrightarrow> prRoot p = [])"
proof -
  obtain s' frames where b: "serveBridge env (activateSession s (seID session)) (seID session) (coRequests os) = (s', frames)" by fastforce
  note a = activateSession_frame [of s "seID session"]
  show ?thesis
    using assms serveBridge_frame [OF b] a
    by (auto simp: runSession_def runAgent_def failRun_def b Let_def split: sum.splits if_split_asm bridge_result.splits)
qed

lemma runSession_commands:
  assumes "runSession env os s session p runtime protected r = run" and "cnCommands run \<noteq> []"
  shows "\<exists>args. containerArgs os r p (containerName session) protected = Inr args \<and> hd (cnCommands run) = (runtime, args) \<and>
     (\<forall>c\<in>set (cnCommands run). fst c = runtime) \<and>
     (coCreate os \<longrightarrow> last (cnCommands run) = (runtime, removeCommand (containerName session)))"
  using assms
  by (auto simp: runSession_def runAgent_def failRun_def Let_def split: sum.splits if_split_asm bridge_result.splits prod.splits)

lemma revoke_call:
  "fst (Call env nonce s (sessionRequest ''session.revoke'' x y i)) = fst (revokeSession s i)"
proof -
  obtain s' e where r: "revokeSession s i = (s', e)" by fastforce
  have "map_of actions ''session.revoke'' = Some SessionRevoke" by code_simp
  then show ?thesis by (cases e) (simp_all add: Call_def sessionRequest_def perform_def r)
qed

lemma revokeSession_frame:
  "svWorld (fst (revokeSession s i)) = svWorld s \<and> map_of (svSessions (fst (revokeSession s i))) i = None \<and>
   (\<forall>j. j \<noteq> i \<longrightarrow> map_of (svSessions (fst (revokeSession s i))) j = map_of (svSessions s) j)"
  by (auto simp: revokeSession_def Let_def split: option.split)

lemma startSession_frame:
  assumes "startSession env s state session = (s', res)"
  shows "svWorld s' = svWorld s \<and> (\<forall>j. j \<noteq> seID session \<longrightarrow> map_of (svSessions s') j = map_of (svSessions s) j) \<and>
     (\<forall>e. res = Inl e \<longrightarrow> s' = s) \<and> (\<forall>new. res = Inr new \<longrightarrow> seID new = seID session)"
  using assms by (auto simp: startSession_def Let_def split: if_split_asm option.splits sum.splits)

lemma RunContainer_cases:
  assumes "RunContainer env os nonce s r = run"
  obtains (failed) e where "run = failRun s [] e"
  | (ran) p runtime s1 session bytes run1 where "FindProject (stateOf env s) (crProjectID r) [] = Inr p"
      "coLookPath os (crBackend r) = Some runtime" "nonce = Some bytes" "seID session = hexBytes bytes" "svWorld s1 = svWorld s"
      "\<forall>j. j \<noteq> seID session \<longrightarrow> map_of (svSessions s1) j = map_of (svSessions s) j"
      "runSession env os s1 session p runtime (protectedPaths os (isPath (iwStore (svWorld s))) (stGHPath (stateOf env s))) r = run1"
      "run = run1\<lparr>cnService := fst (revokeSession (cnService run1) (seID session))\<rparr>"
proof (cases "FindProject (stateOf env s) (crProjectID r) []")
  case (Inl e)
  then show thesis using assms failed by (auto simp: RunContainer_def)
next
  case (Inr p)
  obtain s1 res where c: "createSession env nonce s (sessionRequest [] (prID p) (crBackend r) []) = (s1, res)" by fastforce
  show thesis
  proof (cases "coLookPath os (crBackend r)")
    case None
    then show thesis using assms Inr failed by (auto simp: RunContainer_def)
  next
    case (Some runtime)
    from c show thesis
    proof (cases rule: createSession_cases)
      case (failed e)
      then show thesis using assms Inr Some c that(1) by (auto simp: RunContainer_def)
    next
      case (started q bytes)
      note st = startSession_frame [OF started(5)]
      show thesis
      proof (cases res)
        case (Inl e)
        then show thesis using assms \<open>FindProject _ _ _ = Inr p\<close> Some c st that(1) by (auto simp: RunContainer_def)
      next
        case (Inr session)
        have "run = (runSession env os s1 session p runtime (protectedPaths os (isPath (iwStore (svWorld s))) (stGHPath (stateOf env s))) r)
            \<lparr>cnService := fst (revokeSession (cnService (runSession env os s1 session p runtime
              (protectedPaths os (isPath (iwStore (svWorld s))) (stGHPath (stateOf env s))) r)) (seID session))\<rparr>"
          using assms \<open>FindProject _ _ _ = Inr p\<close> Some c Inr by (simp add: RunContainer_def Let_def revoke_call)
        moreover have "seID session = hexBytes bytes" using st Inr by simp
        moreover have "svWorld s1 = svWorld s"
          "\<forall>j. j \<noteq> seID session \<longrightarrow> map_of (svSessions s1) j = map_of (svSessions s) j" using st Inr by simp_all
        ultimately show thesis using that(2) [OF \<open>FindProject _ _ _ = Inr p\<close> Some started(4) _ _ _ refl] by blast
      qed
    qed
  qed
qed

text \<open>C19: A container leaves nothing behind.  However a run ends, the identity state is as before and so
  is every session but the one made for the run, which is revoked; the agent is never told the
  project's root; the engine was given nothing but a safe command line first and, if the container
  came up, its removal last.\<close>

theorem container_cleanup:
  assumes "RunContainer env os nonce s r = run"
  shows "svWorld (cnService run) = svWorld s \<and>
     (\<forall>j. map_of (svSessions (cnService run)) j = map_of (svSessions s) j \<or>
          map_of (svSessions (cnService run)) j = None \<and> (\<exists>bytes. nonce = Some bytes \<and> j = hexBytes bytes)) \<and>
     (\<forall>f p persona. f \<in> set (cnAnswers run) \<longrightarrow> frContext f = Some (p, persona) \<longrightarrow> prRoot p = []) \<and>
     (cnCommands run \<noteq> [] \<longrightarrow>
       (\<exists>p runtime name args. FindProject (stateOf env s) (crProjectID r) [] = Inr p \<and> coLookPath os (crBackend r) = Some runtime \<and>
          containerArgs os r p name (protectedPaths os (isPath (iwStore (svWorld s))) (stGHPath (stateOf env s))) = Inr args \<and>
          hd (cnCommands run) = (runtime, args) \<and> (\<forall>c\<in>set (cnCommands run). fst c = runtime) \<and>
          (coCreate os \<longrightarrow> last (cnCommands run) = (runtime, removeCommand name))))"
  using assms
proof (cases rule: RunContainer_cases)
  case (failed e)
  then show ?thesis by (simp add: failRun_def)
next
  case (ran p runtime s1 session bytes run1)
  note f = runSession_frame [OF ran(7)] and v = revokeSession_frame [of "cnService run1" "seID session"]
  have "svWorld (cnService run) = svWorld s" using f v ran by simp
  moreover have "map_of (svSessions (cnService run)) j = map_of (svSessions s) j \<or>
      map_of (svSessions (cnService run)) j = None \<and> (\<exists>bytes. nonce = Some bytes \<and> j = hexBytes bytes)" for j
    using f v ran by (cases "j = seID session") auto
  moreover have "\<forall>f p persona. f \<in> set (cnAnswers run) \<longrightarrow> frContext f = Some (p, persona) \<longrightarrow> prRoot p = []"
    using f ran by simp
  moreover have "cnCommands run = cnCommands run1" using ran by simp
  ultimately show ?thesis using runSession_commands [OF ran(7)] ran(1,2) by auto
qed

definition zero_nonce :: "8 word list" where
  "zero_nonce = replicate 24 0"

lemma sample_run_commands:
  "cnCommands (RunContainer sample_env sample_container_os (Some zero_nonce) sample_service sample_container_request) =
     [(''/bin/docker'', sample_arguments ''dovik-agent-0000000000000000''),
      (''/bin/docker'', bridgeCommand ''dovik-agent-0000000000000000''),
      (''/bin/docker'', [''exec'', ''-i'', ''dovik-agent-0000000000000000'', ''claude'']),
      (''/bin/docker'', removeCommand ''dovik-agent-0000000000000000'')]"
proof -
  define session where "session = \<lparr>seStatus = ''awaiting-agent'', seID = hexBytes zero_nonce, seProjectID = ''p'', sePersonaID = ''me'',
     seBackend = ''docker'', sePrincipal = [], seEndpoint = []\<rparr>"
  have p: "prID sample_project = ''p''" "prPersona sample_project = ''me''" "prMode sample_project = ''proxy-level''"
    by (simp_all add: sample_project_def)
  have c: "createSession sample_env (Some zero_nonce) sample_service (sessionRequest [] ''p'' ''docker'' []) =
    (sample_service\<lparr>svSessions := map_put (svSessions sample_service) (seID session) session\<rparr>, Inr session)"
    by (simp add: createSession_def sessionRequest_def sample_service_state sample_project_found p startSession_def session_def backends_def)
  have n: "containerName session = ''dovik-agent-0000000000000000''"
    unfolding session_def containerName_def zero_nonce_def session.simps by code_simp
  have v: "validateMount sample_container_os ''/w'' (protectedPaths sample_container_os ''/s/identity.json'' ''/usr/bin/gh'') = Inr ''/w''"
    "validateMount sample_container_os ''/data'' (protectedPaths sample_container_os ''/s/identity.json'' ''/usr/bin/gh'') = Inr ''/data''"
    by code_simp+
  have s: "isPath (iwStore (svWorld sample_service)) = ''/s/identity.json''" "stGHPath sample_state = ''/usr/bin/gh''"
    by (simp_all add: sample_service_def NewService_def sample_world_def sample_store_def sample_state_def)
  have r: "prRoot sample_project = ''/w''" by (simp add: sample_project_def)
  have a: "containerArgs sample_container_os sample_container_request sample_project name
      (protectedPaths sample_container_os ''/s/identity.json'' ''/usr/bin/gh'') = Inr (sample_arguments name)" for name
    by (simp add: containerArgs_def sample_container_request_def v r sample_arguments_def hasPrefix_def containsAny_def
        contains_def mountResource_def)
  have q: "crProjectID sample_container_request = ''p''" "crBackend sample_container_request = ''docker''"
    "crCommand sample_container_request = [''claude'']"
    by (simp_all add: sample_container_request_def)
  have o: "coLookPath sample_container_os x = Some (''/bin/'' @ x)" "coCreate sample_container_os"
    "coBridge sample_container_os = BridgeReady" "coRequests sample_container_os = []" for x
    by (simp_all add: sample_container_os_def)
  show ?thesis
    by (simp add: RunContainer_def sample_service_state q sample_project_found o p c s runSession_def a n runAgent_def Let_def)
qed

theorem container_cleanup_witness:
  "\<exists>runtime name. last (cnCommands (RunContainer sample_env sample_container_os (Some zero_nonce) sample_service sample_container_request))
     = (runtime, removeCommand name)"
proof -
  have "coCreate sample_container_os" by (simp add: sample_container_os_def)
  with container_cleanup [OF refl, of sample_env sample_container_os "Some zero_nonce" sample_service sample_container_request]
  show ?thesis unfolding sample_run_commands by auto
qed

end
