(* ===== verification/Control.thy ===== *)
theory Control
  imports ControlProtocol Container
begin

text \<open>
  The daemon's control server, \<open>internal/control/server.go\<close>, and its client, \<open>client.go\<close> and
  \<open>identity.go\<close> of the same package, over a connection that carries one request and its answer.  The
  record \<open>wire\<close> holds what the connection does: the replacement of bytes that are not UTF-8, the times
  that can be written, the number of bytes of a value and whether dialling succeeds.  The record
  \<open>daemon_env\<close> holds the answers the lifecycle manager and the identity service get.
\<close>

section \<open>The server\<close>

record wire =
  wUtf :: "string \<Rightarrow> string"
  wTimeOK :: "time \<Rightarrow> bool"
  wSize :: "json \<Rightarrow> nat"
  wDial :: bool

datatype 'e control_failure =
  ManagerFailure "'e lifecycle_error" | LogsFailure buffer_error | InvalidPayload
| IdentityUnavailable | InvalidIdentityRequest | IdentityFailure service_error | UnsupportedOperation string

record ('w, 'e) daemon_env =
  deSave :: "('w, 'e) saver"
  deStat :: "string \<Rightarrow> stat_result"
  deNewID :: "string option"
  deEnviron :: "string list"
  deSpawn :: "command \<Rightarrow> string + int"
  deTime1 :: time
  deTime2 :: time
  deKilled :: kill_result
  deDuring :: "('w, 'e) manager \<Rightarrow> nat \<Rightarrow> ('w, 'e) manager"
  deHow :: stop_end
  deService :: service_env
  deContainer :: container_os
  deNonce :: "8 word list option"
  deWrites :: "(bool \<times> bytes) list"
  deMessage :: "'e control_failure \<Rightarrow> string"

record ('w, 'e) control_server =
  svManager :: "('w, 'e) manager"
  svIdentities :: "service option"

definition managerStart :: "('w, 'e) daemon_env \<Rightarrow> ('w, 'e) manager \<Rightarrow> process_key \<Rightarrow> ('w, 'e) manager \<times> process_runtime \<times> 'e lifecycle_error option" where
  "managerStart env m key = Start (deSave env) m key (deNewID env) (deEnviron env) (deSpawn env) (deTime1 env) (deTime2 env)"

definition managerStop :: "('w, 'e) daemon_env \<Rightarrow> ('w, 'e) manager \<Rightarrow> process_key \<Rightarrow> ('w, 'e) manager \<times> process_runtime \<times> 'e lifecycle_error option" where
  "managerStop env m key = Stop (deSave env) m key (deKilled env) (deDuring env) (deHow env)"

definition managerRestart :: "('w, 'e) daemon_env \<Rightarrow> ('w, 'e) manager \<Rightarrow> process_key \<Rightarrow> ('w, 'e) manager \<times> process_runtime \<times> 'e lifecycle_error option" where
  "managerRestart env m key = Restart (managerStop env m key) (\<lambda>m'. managerStart env m' key)"

text \<open>The value of \<open>any\<close> that an operation returns; \<open>EmptyResult\<close> is \<open>struct{}{}\<close>.\<close>

datatype control_result =
  EmptyResult | ProjectResult project_view | ProjectsResult "project_view list" | ProcessResult process_view
| ProcessesResult "process_view list" | RuntimeResult runtime_view | StatusResult status_view | TailResult output_tail_view
| SnapshotResult service_snapshot

fun resultJson :: "control_result \<Rightarrow> json" where
  "resultJson EmptyResult = JObject []"
| "resultJson (ProjectResult v) = writeStruct projectViewFields v"
| "resultJson (ProjectsResult vs) = JArray (map (writeStruct projectViewFields) vs)"
| "resultJson (ProcessResult v) = writeStruct processViewFields v"
| "resultJson (ProcessesResult vs) = JArray (map (writeStruct processViewFields) vs)"
| "resultJson (RuntimeResult v) = writeStruct runtimeViewFields v"
| "resultJson (StatusResult v) = writeStruct statusViewFields v"
| "resultJson (TailResult v) = writeStruct tailViewFields v"
| "resultJson (SnapshotResult v) = writeStruct (snapshotFields False) v"

definition marshalResult :: "wire \<Rightarrow> control_result \<Rightarrow> json option" where
  "marshalResult w value = (if writable (wTimeOK w) (resultJson value) then Some (resultJson value) else None)"

definition decodePayload :: "'r json_field list \<Rightarrow> 'r \<Rightarrow> json option \<Rightarrow> 'r option" where
  "decodePayload fs zero payload = readStruct True fs (case payload of None \<Rightarrow> JObject [] | Some j \<Rightarrow> j) zero"

definition decodeProcessReference :: "json option \<Rightarrow> process_reference option" where
  "decodeProcessReference payload = decodePayload processReferenceFields zeroProcessReference payload"

definition referenceKey :: "process_reference \<Rightarrow> process_key" where
  "referenceKey input = ProcessKey (cfProjectID input) (cfProcessID input)"

type_synonym ('w, 'e) executed = "('w, 'e) control_server \<times> ('e control_failure, control_result) outcome"

definition executeIdentity :: "('w, 'e) daemon_env \<Rightarrow> ('w, 'e) control_server \<Rightarrow> json option \<Rightarrow> ('w, 'e) executed" where
  "executeIdentity env s payload =
     (case svIdentities s of
        None \<Rightarrow> (s, Error IdentityUnavailable)
      | Some service \<Rightarrow>
          (case decodePayload (identityFields True) zeroRequest payload of
             None \<Rightarrow> (s, Error InvalidIdentityRequest)
           | Some input \<Rightarrow>
               (case Call (deService env) (deNonce env) service input of
                  (service', Inl e) \<Rightarrow> (s\<lparr>svIdentities := Some service'\<rparr>, Error (IdentityFailure e))
                | (service', Inr snapshot) \<Rightarrow> (s\<lparr>svIdentities := Some service'\<rparr>, Return (SnapshotResult snapshot)))))"

definition executeProjectAdd :: "('w, 'e) daemon_env \<Rightarrow> ('w, 'e) control_server \<Rightarrow> json option \<Rightarrow> ('w, 'e) executed" where
  "executeProjectAdd env s payload =
     (case decodePayload projectInputFields zeroProjectInput payload of
        None \<Rightarrow> (s, Error InvalidPayload)
      | Some input \<Rightarrow>
          (case AddProject (deSave env) (deStat env) (svManager s) \<lparr>pdID = piID input, pdRootDirectory = piRootDirectory input\<rparr> of
             (m, Inl e) \<Rightarrow> (s\<lparr>svManager := m\<rparr>, Error (ManagerFailure e))
           | (m, Inr project) \<Rightarrow> (s\<lparr>svManager := m\<rparr>, Return (ProjectResult (projectToView project)))))"

definition executeProjectRemove :: "('w, 'e) daemon_env \<Rightarrow> ('w, 'e) control_server \<Rightarrow> json option \<Rightarrow> ('w, 'e) executed" where
  "executeProjectRemove env s payload =
     (case decodePayload projectReferenceFields zeroProjectReference payload of
        None \<Rightarrow> (s, Error InvalidPayload)
      | Some input \<Rightarrow>
          (case RemoveProject (deSave env) (svManager s) (pfProjectID input) of
             (m, Some e) \<Rightarrow> (s\<lparr>svManager := m\<rparr>, Error (ManagerFailure e))
           | (m, None) \<Rightarrow> (s\<lparr>svManager := m\<rparr>, Return EmptyResult)))"

definition executeProjectList :: "('w, 'e) control_server \<Rightarrow> ('w, 'e) executed" where
  "executeProjectList s =
     (s, case ListProjects (svManager s) of Return projects \<Rightarrow> Return (ProjectsResult (map projectToView projects)) | _ \<Rightarrow> Panic)"

definition executeProcessAdd :: "('w, 'e) daemon_env \<Rightarrow> ('w, 'e) control_server \<Rightarrow> json option \<Rightarrow> ('w, 'e) executed" where
  "executeProcessAdd env s payload =
     (case decodePayload processInputFields zeroProcessInput payload of
        None \<Rightarrow> (s, Error InvalidPayload)
      | Some input \<Rightarrow>
          (case AddProcess (deSave env) (deStat env) (svManager s) \<lparr>dProjectID = ciProjectID input, dID = ciID input,
                  dCommand = ciCommand input, dArguments = ciArguments input, dWorkingDirectory = ciWorkingDirectory input,
                  dEnvironmentOverrides = ciEnvironmentOverrides input\<rparr> of
             (m, Inl e) \<Rightarrow> (s\<lparr>svManager := m\<rparr>, Error (ManagerFailure e))
           | (m, Inr process) \<Rightarrow> (s\<lparr>svManager := m\<rparr>, Return (ProcessResult (processToView process)))))"

definition executeProcessRemove :: "('w, 'e) daemon_env \<Rightarrow> ('w, 'e) control_server \<Rightarrow> json option \<Rightarrow> ('w, 'e) executed" where
  "executeProcessRemove env s payload =
     (case decodeProcessReference payload of
        None \<Rightarrow> (s, Error InvalidPayload)
      | Some input \<Rightarrow>
          (case RemoveProcess (deSave env) (svManager s) (referenceKey input) of
             (m, Some e) \<Rightarrow> (s\<lparr>svManager := m\<rparr>, Error (ManagerFailure e))
           | (m, None) \<Rightarrow> (s\<lparr>svManager := m\<rparr>, Return EmptyResult)))"

definition executeProcessList :: "('w, 'e) control_server \<Rightarrow> json option \<Rightarrow> ('w, 'e) executed" where
  "executeProcessList s payload =
     (case decodePayload projectReferenceFields zeroProjectReference payload of
        None \<Rightarrow> (s, Error InvalidPayload)
      | Some input \<Rightarrow>
          (s, case ListProcesses (svManager s) (pfProjectID input) of
                Return processes \<Rightarrow> Return (ProcessesResult (map processToView processes))
              | Error e \<Rightarrow> Error (ManagerFailure e)
              | _ \<Rightarrow> Panic))"

text \<open>Start, stop and restart, by what the manager does.\<close>

definition executeRuntime :: "(('w, 'e) manager \<Rightarrow> process_key \<Rightarrow> ('w, 'e) manager \<times> process_runtime \<times> 'e lifecycle_error option)
    \<Rightarrow> ('w, 'e) control_server \<Rightarrow> json option \<Rightarrow> ('w, 'e) executed" where
  "executeRuntime run s payload =
     (case decodeProcessReference payload of
        None \<Rightarrow> (s, Error InvalidPayload)
      | Some input \<Rightarrow>
          (case run (svManager s) (referenceKey input) of
             (m, r, Some e) \<Rightarrow> (s\<lparr>svManager := m\<rparr>, Error (ManagerFailure e))
           | (m, r, None) \<Rightarrow> (s\<lparr>svManager := m\<rparr>, Return (RuntimeResult (runtimeToView r)))))"

definition executeStatus :: "('w, 'e) control_server \<Rightarrow> json option \<Rightarrow> ('w, 'e) executed" where
  "executeStatus s payload =
     (case decodeProcessReference payload of
        None \<Rightarrow> (s, Error InvalidPayload)
      | Some input \<Rightarrow>
          (s, case Status (svManager s) (referenceKey input) of
                (r, exists, Some e) \<Rightarrow> Error (ManagerFailure e)
              | (r, exists, None) \<Rightarrow> Return (StatusResult (if exists then \<lparr>tvExists = True, tvRuntime = Some (runtimeToView r)\<rparr>
                  else \<lparr>tvExists = False, tvRuntime = None\<rparr>))))"

definition executeLogs :: "('w, 'e) control_server \<Rightarrow> json option \<Rightarrow> ('w, 'e) executed" where
  "executeLogs s payload =
     (case decodePayload logsInputFields zeroLogsInput payload of
        None \<Rightarrow> (s, Error InvalidPayload)
      | Some input \<Rightarrow>
          (s, case Logs (svManager s) (ProcessKey (liProjectID input) (liProcessID input)) (liAfterSequence input) (liLimit input) of
                Return tail \<Rightarrow> Return (TailResult \<lparr>lvEvents = map eventToView (tEvents tail), lvTruncated = tTruncated tail\<rparr>)
              | Error e \<Rightarrow> Error (LogsFailure e)
              | _ \<Rightarrow> Panic))"

definition execute :: "('w, 'e) daemon_env \<Rightarrow> ('w, 'e) control_server \<Rightarrow> control_request \<Rightarrow> ('w, 'e) executed" where
  "execute env s request =
     (let payload = ctPayload request
      in case operationOf (ctOperation request) of
           Some OperationIdentity \<Rightarrow> executeIdentity env s payload
         | Some OperationProjectAdd \<Rightarrow> executeProjectAdd env s payload
         | Some OperationProjectRemove \<Rightarrow> executeProjectRemove env s payload
         | Some OperationProjectList \<Rightarrow> executeProjectList s
         | Some OperationProcessAdd \<Rightarrow> executeProcessAdd env s payload
         | Some OperationProcessRemove \<Rightarrow> executeProcessRemove env s payload
         | Some OperationProcessList \<Rightarrow> executeProcessList s payload
         | Some OperationProcessStart \<Rightarrow> executeRuntime (managerStart env) s payload
         | Some OperationProcessStop \<Rightarrow> executeRuntime (managerStop env) s payload
         | Some OperationProcessRestart \<Rightarrow> executeRuntime (managerRestart env) s payload
         | Some OperationProcessStatus \<Rightarrow> executeStatus s payload
         | Some OperationProcessLogs \<Rightarrow> executeLogs s payload
         | _ \<Rightarrow> (s, Error (UnsupportedOperation (ctOperation request))))"

text \<open>\<open>handleRequest\<close>; a panic ends the daemon and gives no response.\<close>

definition errorResponse :: "string \<Rightarrow> string \<Rightarrow> string \<Rightarrow> control_response" where
  "errorResponse i code message =
     \<lparr>reVersion = ProtocolVersion, reID = i, reResult = None, reError = Some \<lparr>perCode = code, perMessage = message\<rparr>\<rparr>"

definition versionMessage :: "int \<Rightarrow> string" where
  "versionMessage v = ''protocol version '' @ (if v < 0 then ''-'' else []) @ itoa (nat \<bar>v\<bar>) @ '' is not supported''"

definition handleRequest :: "wire \<Rightarrow> ('w, 'e) daemon_env \<Rightarrow> ('w, 'e) control_server \<Rightarrow> control_request
    \<Rightarrow> ('w, 'e) control_server \<times> control_response option" where
  "handleRequest w env s request =
     (if ctVersion request \<noteq> ProtocolVersion
      then (s, Some (errorResponse (ctID request) ''incompatible_version'' (versionMessage (ctVersion request))))
      else if ctID request = [] then (s, Some (errorResponse [] ''invalid_request'' ''request ID is required''))
      else case execute env s request of
             (s', Error e) \<Rightarrow> (s', Some (errorResponse (ctID request) ''operation_failed'' (deMessage env e)))
           | (s', Return value) \<Rightarrow>
               (case marshalResult w value of
                  None \<Rightarrow> (s', Some (errorResponse (ctID request) ''internal_error'' ''response could not be encoded''))
                | Some j \<Rightarrow> (s', Some \<lparr>reVersion = ProtocolVersion, reID = ctID request, reResult = Some j, reError = None\<rparr>))
           | (s', _) \<Rightarrow> (s', None))"

section \<open>Connections\<close>

definition maximumRequestBytes :: nat where
  "maximumRequestBytes = 2 * 1024 * 1024"

definition resourceFields :: "mount_resource json_field list" where
  "resourceFields =
     [field ''source'' (always JText) readText rsSource rsSource_update,
      field ''target'' (always JText) readText rsTarget rsTarget_update]"

definition zeroResource :: mount_resource where
  "zeroResource = \<lparr>rsSource = [], rsTarget = []\<rparr>"

definition containerFields :: "bool \<Rightarrow> container_request json_field list" where
  "containerFields strict =
     [field ''projectId'' (always JText) readText crProjectID crProjectID_update,
      field ''backend'' (always JText) readText crBackend crBackend_update,
      field ''image'' (always JText) readText crImage crImage_update,
      field ''command'' (always (\<lambda>xs. JArray (map JText xs))) (readList readText []) crCommand crCommand_update,
      field ''resources'' (omitList (writeStruct resourceFields)) (readList (readStruct strict resourceFields) zeroResource)
        crResources crResources_update,
      field ''input'' omitData readData crInput crInput_update]"

definition zeroContainerRequest :: container_request where
  "zeroContainerRequest = \<lparr>crProjectID = [], crBackend = [], crImage = [], crCommand = [], crResources = [], crInput = []\<rparr>"

interpretation resources: json_codec "writeStruct resourceFields" "readStruct strict resourceFields" zeroResource "\<lambda>_. True"
  for strict
  by unfold_locales (simp_all add: writeStruct_def readStruct_def resourceFields_def zeroResource_def wire)

interpretation containers: json_codec "writeStruct (containerFields s)" "readStruct strict (containerFields strict)"
    zeroContainerRequest "\<lambda>_. True"
  for s strict
  by (unfold_locales; unfold writeStruct_def [of "containerFields t" for t] readStruct_def [of t "containerFields t" for t];
      simp add: containerFields_def zeroContainerRequest_def wire resources.list texts.list list_all_iff)

text \<open>What is sent back over a connection; the result of a container run closes its frames.\<close>

datatype control_reply =
  ResponseReply control_response
| FramesReply "frame list"
| ContainerReply "frame list" int "container_failure option"
| NoReply

definition refuseStream :: "agent_error \<Rightarrow> control_reply" where
  "refuseStream e = FramesReply [emptyFrame\<lparr>frExitCode := Some 1, frError := Some e\<rparr>]"

definition handleAgentRun :: "('w, 'e) daemon_env \<Rightarrow> ('w, 'e) control_server \<Rightarrow> service \<Rightarrow> json option \<Rightarrow> ('w, 'e) control_server \<times> control_reply" where
  "handleAgentRun env s service payload =
     (case decodePayload (containerFields True) zeroContainerRequest payload of
        None \<Rightarrow> (s, refuseStream InvalidAgentSession)
      | Some input \<Rightarrow>
          (case StreamContainer (deService env) (deContainer env) (deNonce env) service input (deWrites env) of
             (service', frames, code, e) \<Rightarrow> (s\<lparr>svIdentities := Some service'\<rparr>, ContainerReply frames code e)))"

definition handleExecute :: "('w, 'e) daemon_env \<Rightarrow> ('w, 'e) control_server \<Rightarrow> service \<Rightarrow> json option \<Rightarrow> ('w, 'e) control_server \<times> control_reply" where
  "handleExecute env s service payload =
     (case decodePayload (executionFields True) zeroExecution payload of
        None \<Rightarrow> (s, refuseStream InvalidExecution)
      | Some input \<Rightarrow> (s, FramesReply (Stream (deService env) service input (deWrites env))))"

text \<open>\<open>handleConnection\<close>, for what was received: the decoder reads at most two mebibytes.\<close>

definition handleConnection :: "wire \<Rightarrow> ('w, 'e) daemon_env \<Rightarrow> ('w, 'e) control_server \<Rightarrow> json \<Rightarrow> string
    \<Rightarrow> ('w, 'e) control_server \<times> control_reply" where
  "handleConnection w env s received decodeError =
     (case (if maximumRequestBytes < wSize w received then None else readStruct True requestFields received zeroControlRequest) of
        None \<Rightarrow> (s, ResponseReply (errorResponse [] ''invalid_request'' decodeError))
      | Some request \<Rightarrow>
          if ctOperation request = operationName OperationGHExecute \<or> ctOperation request = operationName OperationAgentRun then
            (case svIdentities s of
               None \<Rightarrow> (s, refuseStream ExecutionUnavailable)
             | Some service \<Rightarrow>
                 if ctVersion request \<noteq> ProtocolVersion \<or> ctID request = [] then (s, refuseStream ExecutionUnavailable)
                 else if ctOperation request = operationName OperationAgentRun
                 then handleAgentRun env s service (ctPayload request)
                 else handleExecute env s service (ctPayload request))
          else (case handleRequest w env s request of
                  (s', None) \<Rightarrow> (s', NoReply)
                | (s', Some response) \<Rightarrow> (s', ResponseReply response)))"

section \<open>The client\<close>

datatype client_error =
  DialFails | ResponseUnreadable | IncompatibleVersion int | ResponseMismatch string string
| RemoteFailure protocol_error | ResultUndecodable

text \<open>\<open>Client.call\<close>; the client's counter of requests is its state.  The result is none when it is empty.\<close>

definition callControl :: "wire \<Rightarrow> ('w, 'e) daemon_env \<Rightarrow> ('w, 'e) control_server \<Rightarrow> u64 \<Rightarrow> operation \<Rightarrow> json
    \<Rightarrow> ('w, 'e) control_server \<times> u64 \<times> (client_error + json option)" where
  "callControl w env s lastID op payload =
     (let next = lastID + 1; requestID = itoa (unat next);
          request = \<lparr>ctVersion = ProtocolVersion, ctID = requestID, ctOperation = operationName op, ctPayload = Some payload\<rparr>
      in if \<not> wDial w then (s, next, Inl DialFails)
         else case handleConnection w env s (carried (wUtf w) (writeStruct requestFields request)) [] of
                (s', ResponseReply answer) \<Rightarrow>
                  (case readStruct False responseFields (carried (wUtf w) (writeStruct responseFields answer)) zeroResponse of
                     None \<Rightarrow> (s', next, Inl ResponseUnreadable)
                   | Some response \<Rightarrow>
                       (s', next,
                        if reVersion response \<noteq> ProtocolVersion then Inl (IncompatibleVersion (reVersion response))
                        else if reID response \<noteq> requestID then Inl (ResponseMismatch (reID response) requestID)
                        else case reError response of Some e \<Rightarrow> Inl (RemoteFailure e) | None \<Rightarrow> Inr (reResult response)))
              | (s', _) \<Rightarrow> (s', next, Inl ResponseUnreadable))"

text \<open>A call with a result of its own type: what was unmarshalled into the zero value.\<close>

definition callFor :: "wire \<Rightarrow> ('w, 'e) daemon_env \<Rightarrow> ('w, 'e) control_server \<Rightarrow> u64 \<Rightarrow> operation \<Rightarrow> json \<Rightarrow> 'r reader \<Rightarrow> 'r
    \<Rightarrow> ('w, 'e) control_server \<times> u64 \<times> 'r \<times> client_error option" where
  "callFor w env s lastID op payload read zero =
     (case callControl w env s lastID op payload of
        (s', next, Inl e) \<Rightarrow> (s', next, zero, Some e)
      | (s', next, Inr None) \<Rightarrow> (s', next, zero, None)
      | (s', next, Inr (Some j)) \<Rightarrow>
          (case read j zero of None \<Rightarrow> (s', next, zero, Some ResultUndecodable) | Some x \<Rightarrow> (s', next, x, None)))"

end
