(* ===== verification/ControlClient.thy ===== *)
theory ControlClient
  imports Control LifecycleProperties
begin

text \<open>
  The operations of the client of \<open>internal/control/client.go\<close> and \<open>identity.go\<close> (the interface of
  \<open>internal/operatorclient/client.go\<close>) over the connection of theory Control, and what they amount to:
  an operation through the client is the operation on the daemon's manager or identity service.
\<close>

section \<open>The operations of the client\<close>

type_synonym ('w, 'e, 'r) answered = "('w, 'e) control_server \<times> u64 \<times> 'r \<times> client_error option"

definition mapAnswer :: "('r \<Rightarrow> 'q) \<Rightarrow> ('w, 'e, 'r) answered \<Rightarrow> ('w, 'e, 'q) answered" where
  "mapAnswer f a = (case a of (s, n, r, e) \<Rightarrow> (s, n, f r, e))"

text \<open>A list read into nothing is nil; with an error the lists and tails are the zero value.\<close>

definition clientAddProject :: "wire \<Rightarrow> ('w, 'e) daemon_env \<Rightarrow> ('w, 'e) control_server \<Rightarrow> u64 \<Rightarrow> project_definition
    \<Rightarrow> ('w, 'e, project_definition) answered" where
  "clientAddProject w env s n d = mapAnswer projectFromView
     (callFor w env s n OperationProjectAdd
       (writeStruct projectInputFields \<lparr>piID = pdID d, piRootDirectory = pdRootDirectory d\<rparr>)
       (readStruct False projectViewFields) zeroProjectView)"

definition clientRemoveProject :: "wire \<Rightarrow> ('w, 'e) daemon_env \<Rightarrow> ('w, 'e) control_server \<Rightarrow> u64 \<Rightarrow> string \<Rightarrow> ('w, 'e, unit) answered" where
  "clientRemoveProject w env s n p =
     callFor w env s n OperationProjectRemove (writeStruct projectReferenceFields \<lparr>pfProjectID = p\<rparr>) (\<lambda>j x. Some x) ()"

definition clientListProjects :: "wire \<Rightarrow> ('w, 'e) daemon_env \<Rightarrow> ('w, 'e) control_server \<Rightarrow> u64 \<Rightarrow> ('w, 'e, project_definition list) answered" where
  "clientListProjects w env s n = mapAnswer (map projectFromView)
     (callFor w env s n OperationProjectList (JObject []) (readList (readStruct False projectViewFields) zeroProjectView) [])"

definition clientAddProcess :: "wire \<Rightarrow> ('w, 'e) daemon_env \<Rightarrow> ('w, 'e) control_server \<Rightarrow> u64 \<Rightarrow> process_definition
    \<Rightarrow> ('w, 'e, process_definition) answered" where
  "clientAddProcess w env s n d = mapAnswer processFromView
     (callFor w env s n OperationProcessAdd
       (writeStruct processInputFields \<lparr>ciProjectID = dProjectID d, ciID = dID d, ciCommand = dCommand d,
          ciArguments = dArguments d, ciWorkingDirectory = dWorkingDirectory d, ciEnvironmentOverrides = dEnvironmentOverrides d\<rparr>)
       (readStruct False processViewFields) zeroProcessView)"

definition referenceJson :: "process_key \<Rightarrow> json" where
  "referenceJson key = writeStruct processReferenceFields \<lparr>cfProjectID = keyProject key, cfProcessID = keyProcess key\<rparr>"

definition clientRemoveProcess :: "wire \<Rightarrow> ('w, 'e) daemon_env \<Rightarrow> ('w, 'e) control_server \<Rightarrow> u64 \<Rightarrow> process_key \<Rightarrow> ('w, 'e, unit) answered" where
  "clientRemoveProcess w env s n key = callFor w env s n OperationProcessRemove (referenceJson key) (\<lambda>j x. Some x) ()"

definition clientListProcesses :: "wire \<Rightarrow> ('w, 'e) daemon_env \<Rightarrow> ('w, 'e) control_server \<Rightarrow> u64 \<Rightarrow> string
    \<Rightarrow> ('w, 'e, process_definition list) answered" where
  "clientListProcesses w env s n p = mapAnswer (map processFromView)
     (callFor w env s n OperationProcessList (writeStruct projectReferenceFields \<lparr>pfProjectID = p\<rparr>)
       (readList (readStruct False processViewFields) zeroProcessView) [])"

definition runtimeOperation :: "wire \<Rightarrow> ('w, 'e) daemon_env \<Rightarrow> ('w, 'e) control_server \<Rightarrow> u64 \<Rightarrow> operation \<Rightarrow> process_key
    \<Rightarrow> ('w, 'e, process_runtime) answered" where
  "runtimeOperation w env s n op key = mapAnswer runtimeFromView
     (callFor w env s n op (referenceJson key) (readStruct False runtimeViewFields) zeroRuntimeView)"

definition clientStatus :: "wire \<Rightarrow> ('w, 'e) daemon_env \<Rightarrow> ('w, 'e) control_server \<Rightarrow> u64 \<Rightarrow> process_key
    \<Rightarrow> ('w, 'e, process_runtime \<times> bool) answered" where
  "clientStatus w env s n key = mapAnswer
     (\<lambda>view. case tvRuntime view of Some r \<Rightarrow> if tvExists view then (runtimeFromView r, True) else (zeroRuntime, False)
        | None \<Rightarrow> (zeroRuntime, False))
     (callFor w env s n OperationProcessStatus (referenceJson key) (readStruct False statusViewFields) zeroStatusView)"

definition clientLogs :: "wire \<Rightarrow> ('w, 'e) daemon_env \<Rightarrow> ('w, 'e) control_server \<Rightarrow> u64 \<Rightarrow> process_key \<Rightarrow> u64 \<Rightarrow> int
    \<Rightarrow> ('w, 'e, output_tail) answered" where
  "clientLogs w env s n key afterSequence limit = mapAnswer
     (\<lambda>view. \<lparr>tEvents = map eventFromView (lvEvents view), tTruncated = lvTruncated view\<rparr>)
     (callFor w env s n OperationProcessLogs
       (writeStruct logsInputFields \<lparr>liProjectID = keyProject key, liProcessID = keyProcess key,
          liAfterSequence = afterSequence, liLimit = limit\<rparr>)
       (readStruct False tailViewFields) zeroTailView)"

definition clientIdentity :: "wire \<Rightarrow> ('w, 'e) daemon_env \<Rightarrow> ('w, 'e) control_server \<Rightarrow> u64 \<Rightarrow> identity_request
    \<Rightarrow> ('w, 'e, service_snapshot) answered" where
  "clientIdentity w env s n r =
     callFor w env s n OperationIdentity (writeStruct (identityFields False) r) (readStruct False (snapshotFields False)) zeroSnapshot"

section \<open>A call is the operation\<close>

text \<open>What was sent arrives: dialling succeeds, every text is UTF-8 and the request is not too long.\<close>

definition intact :: "wire \<Rightarrow> json \<Rightarrow> bool" where
  "intact w j \<longleftrightarrow> (\<forall>t\<in>jsonTexts j. wUtf w t = t)"

definition requestOf :: "u64 \<Rightarrow> operation \<Rightarrow> json \<Rightarrow> control_request" where
  "requestOf n op payload =
     \<lparr>ctVersion = ProtocolVersion, ctID = itoa (unat (n + 1)), ctOperation = operationName op, ctPayload = Some payload\<rparr>"

definition delivered :: "wire \<Rightarrow> control_request \<Rightarrow> bool" where
  "delivered w request \<longleftrightarrow> wDial w \<and> intact w (writeStruct requestFields request) \<and>
     wSize w (writeStruct requestFields request) \<le> maximumRequestBytes"

text \<open>The response to an execution, and that it arrives.\<close>

definition responseOf :: "('w, 'e) daemon_env \<Rightarrow> string \<Rightarrow> ('e control_failure, control_result) outcome \<Rightarrow> control_response" where
  "responseOf env i res =
     (case res of
        Return v \<Rightarrow> \<lparr>reVersion = ProtocolVersion, reID = i, reResult = Some (resultJson v), reError = None\<rparr>
      | Error e \<Rightarrow> errorResponse i ''operation_failed'' (deMessage env e)
      | _ \<Rightarrow> zeroResponse)"

definition answered :: "wire \<Rightarrow> ('w, 'e) daemon_env \<Rightarrow> string \<Rightarrow> ('e control_failure, control_result) outcome \<Rightarrow> bool" where
  "answered w env i res \<longleftrightarrow> intact w (writeStruct responseFields (responseOf env i res)) \<and>
     (\<forall>v. res = Return v \<longrightarrow> writable (wTimeOK w) (resultJson v))"

definition remote :: "('w, 'e) daemon_env \<Rightarrow> 'e control_failure \<Rightarrow> client_error" where
  "remote env e = RemoteFailure \<lparr>perCode = ''operation_failed'', perMessage = deMessage env e\<rparr>"

lemma intact_carried: "intact w j \<Longrightarrow> carried (wUtf w) j = j"
  by (rule carried_id) (simp add: intact_def)

lemma itoa_nonempty: "itoa n \<noteq> []"
  by (subst itoa.simps) simp

lemma version_int64 [simp]: "is_int64 ProtocolVersion"
  by (simp add: ProtocolVersion_def is_int64_def max_int64_def)

lemma requestOf_simps [simp]:
  "ctVersion (requestOf n op payload) = ProtocolVersion" "ctID (requestOf n op payload) = itoa (unat (n + 1))"
  "ctOperation (requestOf n op payload) = operationName op" "ctPayload (requestOf n op payload) = Some payload"
  by (simp_all add: requestOf_def)

lemma handleConnection_request:
  assumes "delivered w (requestOf n op payload)" and "op \<noteq> OperationGHExecute" and "op \<noteq> OperationAgentRun"
    and "execute env s (requestOf n op payload) = (s', res)" and "answered w env (itoa (unat (n + 1))) res"
  shows "handleConnection w env s (writeStruct requestFields (requestOf n op payload)) [] =
     (s', case res of Return v \<Rightarrow> ResponseReply (responseOf env (itoa (unat (n + 1))) res)
        | Error e \<Rightarrow> ResponseReply (responseOf env (itoa (unat (n + 1))) res) | _ \<Rightarrow> NoReply)"
proof -
  have read: "readStruct True requestFields (writeStruct requestFields (requestOf n op payload)) zeroControlRequest = Some (requestOf n op payload)"
    by (rule control_requests.roundtrip) simp
  have size: "\<not> maximumRequestBytes < wSize w (writeStruct requestFields (requestOf n op payload))"
    using assms(1) by (simp add: delivered_def)
  have name: "operationName op \<noteq> operationName OperationGHExecute" "operationName op \<noteq> operationName OperationAgentRun"
    using assms(2,3) operationOf_name by (metis option.inject)+
  have "handleRequest w env s (requestOf n op payload) =
     (s', case res of Return v \<Rightarrow> Some (responseOf env (itoa (unat (n + 1))) res)
        | Error e \<Rightarrow> Some (responseOf env (itoa (unat (n + 1))) res) | _ \<Rightarrow> None)"
    using assms(4,5) itoa_nonempty
    by (cases res) (simp_all add: handleRequest_def responseOf_def answered_def marshalResult_def)
  then show ?thesis
    using name size by (cases res) (simp_all add: handleConnection_def read del: operationName.simps)
qed

lemma callControl_execute:
  assumes "delivered w (requestOf n op payload)" and "op \<noteq> OperationGHExecute" and "op \<noteq> OperationAgentRun"
    and "execute env s (requestOf n op payload) = (s', res)" and "answered w env (itoa (unat (n + 1))) res"
  shows "callControl w env s n op payload =
     (s', n + 1, case res of Return v \<Rightarrow> Inr (Some (resultJson v)) | Error e \<Rightarrow> Inl (remote env e) | _ \<Rightarrow> Inl ResponseUnreadable)"
proof -
  let ?answer = "responseOf env (itoa (unat (n + 1))) res"
  have dial: "wDial w" using assms(1) by (simp add: delivered_def)
  have sent: "carried (wUtf w) (writeStruct requestFields (requestOf n op payload)) = writeStruct requestFields (requestOf n op payload)"
    using assms(1) by (intro intact_carried) (simp add: delivered_def)
  have reply: "readStruct False responseFields (carried (wUtf w) (writeStruct responseFields ?answer)) zeroResponse = Some ?answer"
      if "reVersion ?answer = ProtocolVersion"
    using assms(5) that by (simp add: answered_def intact_carried responses.roundtrip)
  note h = handleConnection_request [OF assms]
  have req: "\<lparr>ctVersion = ProtocolVersion, ctID = itoa (unat (n + 1)), ctOperation = operationName op, ctPayload = Some payload\<rparr>
    = requestOf n op payload"
    by (simp add: requestOf_def)
  show ?thesis
  proof (cases res)
    case (Return v)
    then show ?thesis using reply h
      by (simp add: callControl_def Let_def req dial sent) (simp add: responseOf_def)
  next
    case (Error e)
    then show ?thesis using reply h
      by (simp add: callControl_def Let_def req dial sent) (simp add: responseOf_def errorResponse_def remote_def)
  qed (use h in \<open>simp_all add: callControl_def Let_def req dial sent\<close>)
qed

lemma callFor_execute:
  assumes "delivered w (requestOf n op payload)" and "op \<noteq> OperationGHExecute" and "op \<noteq> OperationAgentRun"
    and "execute env s (requestOf n op payload) = (s', res)" and "answered w env (itoa (unat (n + 1))) res"
    and "\<And>v. res = Return v \<Longrightarrow> read (resultJson v) zero = Some (value v)"
  shows "callFor w env s n op payload read zero =
     (s', n + 1, case res of Return v \<Rightarrow> (value v, None) | Error e \<Rightarrow> (zero, Some (remote env e)) | _ \<Rightarrow> (zero, Some ResponseUnreadable))"
  using assms(6) by (cases res) (simp_all add: callFor_def callControl_execute [OF assms(1-5)])

lemma decode_reference: "decodeProcessReference (Some (referenceJson key)) = Some \<lparr>cfProjectID = keyProject key, cfProcessID = keyProcess key\<rparr>"
  by (simp add: decodeProcessReference_def decodePayload_def referenceJson_def process_references.roundtrip)

lemma referenceKey_reference: "referenceKey \<lparr>cfProjectID = keyProject key, cfProcessID = keyProcess key\<rparr> = key"
  by (simp add: referenceKey_def)

text \<open>The operations that a client runs on a process, and what the manager does for each.\<close>

definition runtime_operations :: "('w, 'e) daemon_env
    \<Rightarrow> (operation \<times> (('w, 'e) manager \<Rightarrow> process_key \<Rightarrow> ('w, 'e) manager \<times> process_runtime \<times> 'e lifecycle_error option)) list" where
  "runtime_operations env =
     [(OperationProcessStart, managerStart env), (OperationProcessStop, managerStop env), (OperationProcessRestart, managerRestart env)]"

text \<open>What the daemon makes of the runtime and the error of such an operation.\<close>

definition runtimeOutcome :: "process_runtime \<Rightarrow> 'e lifecycle_error option \<Rightarrow> ('e control_failure, control_result) outcome" where
  "runtimeOutcome r e = (case e of None \<Rightarrow> Return (RuntimeResult (runtimeToView r)) | Some x \<Rightarrow> Error (ManagerFailure x))"

lemma zero_views [simp]:
  "runtimeFromView zeroRuntimeView = zeroRuntime" "projectFromView zeroProjectView = \<lparr>pdID = [], pdRootDirectory = []\<rparr>"
  by (simp_all add: runtimeFromView_def zeroRuntimeView_def zeroRuntime_def projectFromView_def zeroProjectView_def)

text \<open>C18: Starting, stopping and restarting through the client is doing it in the daemon.  If the request
  and the response arrive, the manager afterwards is the one the manager's own operation gives, the
  client gets the runtime that operation returned, and with an error it gets the error's text and no
  runtime, although the manager's operation returns one with some errors.\<close>

theorem client_runtime:
  assumes "(op, run) \<in> set (runtime_operations env)" and "run (svManager s) key = (m, r, e)"
    and "delivered w (requestOf n op (referenceJson key))" and "answered w env (itoa (unat (n + 1))) (runtimeOutcome r e)"
    and "runtime_ok (runtimeToView r)"
  shows "runtimeOperation w env s n op key =
     (s\<lparr>svManager := m\<rparr>, n + 1,
      case e of None \<Rightarrow> (r, None) | Some x \<Rightarrow> (zeroRuntime, Some (remote env (ManagerFailure x))))"
proof -
  have ops: "op \<noteq> OperationGHExecute" "op \<noteq> OperationAgentRun" using assms(1) by (auto simp: runtime_operations_def)
  have x: "execute env s (requestOf n op (referenceJson key)) = (s\<lparr>svManager := m\<rparr>, runtimeOutcome r e)"
    using assms(1,2)
    by (cases e) (auto simp: runtime_operations_def execute_def executeRuntime_def decode_reference referenceKey_reference
        runtimeOutcome_def operationOf_name simp del: operationName.simps)
  have "callFor w env s n op (referenceJson key) (readStruct False runtimeViewFields) zeroRuntimeView =
    (s\<lparr>svManager := m\<rparr>, n + 1, case runtimeOutcome r e of Return v \<Rightarrow> (runtimeToView r, None)
       | Error e \<Rightarrow> (zeroRuntimeView, Some (remote env e)) | _ \<Rightarrow> (zeroRuntimeView, Some ResponseUnreadable))"
    by (rule callFor_execute [OF assms(3) ops x assms(4)])
      (use assms(5) in \<open>auto simp: runtimeOutcome_def runtime_views.roundtrip split: option.splits\<close>)
  then show ?thesis by (cases e) (simp_all add: runtimeOperation_def mapAnswer_def runtimeOutcome_def)
qed

definition sample_wire :: wire where
  "sample_wire = \<lparr>wUtf = (\<lambda>s. s), wTimeOK = (\<lambda>t. True), wSize = (\<lambda>j. 100), wDial = True\<rparr>"

lemma sample_wire_simps [simp]:
  "wUtf sample_wire s = s" "wTimeOK sample_wire t = True" "wSize sample_wire j = 100" "wDial sample_wire" "intact sample_wire j"
  by (simp_all add: sample_wire_def intact_def)

definition sample_daemon :: "(unit, unit) daemon_env" where
  "sample_daemon = \<lparr>deSave = sample_save, deStat = (\<lambda>path. IsDirectory), deNewID = Some ''i'', deEnviron = [],
     deSpawn = (\<lambda>c. Inr 7), deTime1 = 1, deTime2 = 2, deKilled = KillOK, deDuring = (\<lambda>m h. m), deHow = RuntimeDone,
     deService = sample_env, deContainer = sample_container_os, deNonce = None, deWrites = [], deMessage = (\<lambda>e. ''error'')\<rparr>"

definition sample_server :: "(unit, unit) control_server" where
  "sample_server = \<lparr>svManager = sample_manager, svIdentities = None\<rparr>"

lemma writable_all: "(\<And>t. ok t) \<Longrightarrow> writable ok j"
  by (induction ok j rule: writable.induct) (auto simp: list_all_iff)

lemma sample_connection:
  "delivered sample_wire request" "answered sample_wire env i x"
  by (auto simp: delivered_def answered_def maximumRequestBytes_def intro: writable_all)

lemma sample_started:
  "\<exists>m. managerStart sample_daemon (svManager sample_server) (ProcessKey ''p'' ''q'') =
     (m, (NewProcessRuntime ''p'' ''q'' ''i'')\<lparr>rPID := Some 7, rStartedAt := Some 1, rState := Running\<rparr>, None)"
proof -
  have "(findProcess (mgrRegistry sample_manager) (ProcessKey ''p'' ''q'') :: unit lifecycle_error + _)
      = Inr (\<lparr>projDefinition = \<lparr>pdID = ''p'', pdRootDirectory = ''/w''\<rparr>,
           projProcesses = [(''q'', Some (sample_process\<lparr>procRuntime := None\<rparr>))]\<rparr>, sample_process\<lparr>procRuntime := None\<rparr>)"
    by (simp add: findProcess_def sample_manager_def idle_registry_def regProject_def map_ptr_def)
  then show ?thesis
    by (simp add: managerStart_def sample_daemon_def sample_server_def Start_def startNew_def saveRegistry_def sample_save_def
        NewOutputBuffer_def assignRuntime_def sample_manager_def startSpawned_def Transition_def NewProcessRuntime_def Let_def
        sample_process_def logEffects_def)
qed

theorem client_runtime_witness:
  "\<exists>s r. runtimeOperation sample_wire sample_daemon sample_server 0 OperationProcessStart (ProcessKey ''p'' ''q'') = (s, 1, r, None) \<and>
     rState r = Running \<and> rPID r = Some 7"
proof -
  let ?r = "(NewProcessRuntime ''p'' ''q'' ''i'')\<lparr>rPID := Some 7, rStartedAt := Some 1, rState := Running\<rparr>"
  obtain m where m: "managerStart sample_daemon (svManager sample_server) (ProcessKey ''p'' ''q'') = (m, ?r, None)"
    using sample_started by blast
  have "(OperationProcessStart, managerStart sample_daemon) \<in> set (runtime_operations sample_daemon)"
    by (simp add: runtime_operations_def)
  moreover have "runtime_ok (runtimeToView ?r)"
    by (simp add: runtime_ok_def runtimeToView_def NewProcessRuntime_def is_int64_def max_int64_def)
  ultimately show ?thesis using client_runtime [of OperationProcessStart "managerStart sample_daemon" sample_daemon sample_server, OF _ m, of sample_wire 0] by (simp add: sample_connection)
qed

text \<open>Adding a process through the client is adding it in the daemon: with the overrides of its
  environment in the order of their names, and none of them when there are none.  Their values go to
  the daemon and never come back: the client gets the definition without them.\<close>

theorem client_add_process:
  assumes "AddProcess (deSave env) (deStat env) (svManager s) (d\<lparr>dEnvironmentOverrides := carriedMap (dEnvironmentOverrides d)\<rparr>) = (m, a)"
    and "\<forall>es. dEnvironmentOverrides d = Some es \<longrightarrow> map_wf es"
    and "delivered w (requestOf n OperationProcessAdd (writeStruct processInputFields
           \<lparr>ciProjectID = dProjectID d, ciID = dID d, ciCommand = dCommand d, ciArguments = dArguments d,
            ciWorkingDirectory = dWorkingDirectory d, ciEnvironmentOverrides = dEnvironmentOverrides d\<rparr>))"
    and "answered w env (itoa (unat (n + 1))) (case a of Inl e \<Rightarrow> Error (ManagerFailure e) | Inr p \<Rightarrow> Return (ProcessResult (processToView p)))"
  shows "clientAddProcess w env s n d =
     (s\<lparr>svManager := m\<rparr>, n + 1,
      case a of Inl e \<Rightarrow> (processFromView zeroProcessView, Some (remote env (ManagerFailure e)))
      | Inr p \<Rightarrow> (publicProcessDefinition p, None))"
proof -
  let ?j = "writeStruct processInputFields
           \<lparr>ciProjectID = dProjectID d, ciID = dID d, ciCommand = dCommand d, ciArguments = dArguments d,
            ciWorkingDirectory = dWorkingDirectory d, ciEnvironmentOverrides = dEnvironmentOverrides d\<rparr>"
  have d: "\<lparr>dProjectID = dProjectID d, dID = dID d, dCommand = dCommand d, dArguments = dArguments d,
      dWorkingDirectory = dWorkingDirectory d, dEnvironmentOverrides = carriedMap (dEnvironmentOverrides d)\<rparr>
    = d\<lparr>dEnvironmentOverrides := carriedMap (dEnvironmentOverrides d)\<rparr>"
    by simp
  have x: "execute env s (requestOf n OperationProcessAdd ?j) = (s\<lparr>svManager := m\<rparr>,
      case a of Inl e \<Rightarrow> Error (ManagerFailure e) | Inr p \<Rightarrow> Return (ProcessResult (processToView p)))"
    using assms(1,2)
    by (cases a) (simp_all add: execute_def executeProcessAdd_def decodePayload_def process_input_carried operationOf_name d
        del: operationName.simps)
  have "callFor w env s n OperationProcessAdd ?j (readStruct False processViewFields) zeroProcessView =
    (s\<lparr>svManager := m\<rparr>, n + 1,
      case (case a of Inl e \<Rightarrow> Error (ManagerFailure e) | Inr p \<Rightarrow> Return (ProcessResult (processToView p))) of
        Return v \<Rightarrow> (case a of Inr p \<Rightarrow> processToView p | Inl e \<Rightarrow> zeroProcessView, None)
      | Error e \<Rightarrow> (zeroProcessView, Some (remote env e)) | _ \<Rightarrow> (zeroProcessView, Some ResponseUnreadable))"
    by (rule callFor_execute [OF assms(3) _ _ x assms(4)]) (auto simp: process_views.roundtrip split: sum.splits)
  then show ?thesis by (cases a) (simp_all add: clientAddProcess_def mapAnswer_def)
qed

definition new_process :: process_definition where
  "new_process = \<lparr>dProjectID = ''p'', dID = ''r'', dCommand = ''run'', dArguments = [], dWorkingDirectory = [],
     dEnvironmentOverrides = Some [(''T'', ''1''), (''S'', ''2'')]\<rparr>"

theorem client_add_process_witness:
  "\<exists>s. clientAddProcess sample_wire sample_daemon sample_server 0 new_process =
     (s, 1, new_process\<lparr>dEnvironmentOverrides := None\<rparr>, None)"
proof -
  have c: "carriedMap (dEnvironmentOverrides new_process) = Some [(''S'', ''2''), (''T'', ''1'')]"
    unfolding new_process_def process_definition.simps by code_simp
  have "\<exists>m. AddProcess (deSave sample_daemon) (deStat sample_daemon) (svManager sample_server)
      (new_process\<lparr>dEnvironmentOverrides := Some [(''S'', ''2''), (''T'', ''1'')]\<rparr>)
    = (m, Inr (new_process\<lparr>dEnvironmentOverrides := None\<rparr>))"
    by (simp add: AddProcess_def sample_daemon_def sample_server_def sample_manager_def idle_registry_def new_process_def
        regProject_def map_ptr_def saveRegistry_def sample_save_def publicProcessDefinition_def Let_def)
  then obtain m where "AddProcess (deSave sample_daemon) (deStat sample_daemon) (svManager sample_server)
      (new_process\<lparr>dEnvironmentOverrides := carriedMap (dEnvironmentOverrides new_process)\<rparr>)
    = (m, Inr (new_process\<lparr>dEnvironmentOverrides := None\<rparr>))"
    unfolding c by blast
  from client_add_process [OF this, of sample_wire 0] show ?thesis
    by (auto simp: sample_connection new_process_def map_wf_def publicProcessDefinition_def)
qed

text \<open>Reading the output through the client, also where the daemon's read panics.\<close>

lemma client_logs:
  assumes "Logs (svManager s) key afterSequence limit = out" and "is_int64 limit"
    and "delivered w (requestOf n OperationProcessLogs (writeStruct logsInputFields \<lparr>liProjectID = keyProject key,
           liProcessID = keyProcess key, liAfterSequence = afterSequence, liLimit = limit\<rparr>))"
    and "answered w env (itoa (unat (n + 1))) (case out of Return tail \<Rightarrow> Return (TailResult \<lparr>lvEvents = map eventToView (tEvents tail),
           lvTruncated = tTruncated tail\<rparr>) | Error e \<Rightarrow> Error (LogsFailure e) | _ \<Rightarrow> Panic)"
    and "\<And>tail. out = Return tail \<Longrightarrow> list_all (\<lambda>e. proper_stream (eStream e)) (tEvents tail)"
  shows "clientLogs w env s n key afterSequence limit =
     (s, n + 1, case out of Return tail \<Rightarrow> (tail, None) | Error e \<Rightarrow> (\<lparr>tEvents = [], tTruncated = False\<rparr>, Some (remote env (LogsFailure e)))
       | _ \<Rightarrow> (\<lparr>tEvents = [], tTruncated = False\<rparr>, Some ResponseUnreadable))"
proof -
  let ?res = "case out of Return tail \<Rightarrow> Return (TailResult \<lparr>lvEvents = map eventToView (tEvents tail),
           lvTruncated = tTruncated tail\<rparr>) | Error e \<Rightarrow> Error (LogsFailure e) | _ \<Rightarrow> Panic"
  let ?j = "writeStruct logsInputFields \<lparr>liProjectID = keyProject key, liProcessID = keyProcess key, liAfterSequence = afterSequence, liLimit = limit\<rparr>"
  have x: "execute env s (requestOf n OperationProcessLogs ?j) = (s, ?res)"
    using assms(1,2)
    by (simp add: execute_def executeLogs_def decodePayload_def logs_inputs.roundtrip operationOf_name del: operationName.simps)
  have "callFor w env s n OperationProcessLogs ?j (readStruct False tailViewFields) zeroTailView =
    (s, n + 1, case ?res of Return v \<Rightarrow> (case out of Return tail \<Rightarrow> \<lparr>lvEvents = map eventToView (tEvents tail), lvTruncated = tTruncated tail\<rparr>
         | _ \<Rightarrow> zeroTailView, None)
      | Error e \<Rightarrow> (zeroTailView, Some (remote env e)) | _ \<Rightarrow> (zeroTailView, Some ResponseUnreadable))"
    by (rule callFor_execute [OF assms(3) _ _ x assms(4)])
      (use assms(5) in \<open>auto simp: tail_views.roundtrip list_all_iff eventToView_def split: outcome.splits\<close>)
  then show ?thesis
    by (cases out) (simp_all add: clientLogs_def mapAnswer_def zeroTailView_def comp_def)
qed

end
