(* ===== verification/TuiModel.thy ===== *)
theory TuiModel
  imports Lifecycle IdentityWire
begin

text \<open>
  The state machine of the terminal interface, \<open>internal/tui/model.go\<close>, with the sizes of the layout
  from \<open>presentation.go\<close>, the editor's state from \<open>editor.go\<close>, and the start of the daemon from
  \<open>daemon.go\<close>.  A command is data: what it does when it runs, and the message it ends with, are
  \<open>runCommand\<close> in theory TuiCommands.  An update that would panic is none.  The form of the editor is
  a component of a library: it is the argument \<open>teForm\<close>.
\<close>

section \<open>State\<close>

record process_item =
  tiKey :: process_key
  tiCommand :: string
  tiState :: process_state
  tiKnown :: bool

datatype registry_outcome = RegistryLoading | RegistryEmpty | RegistryPopulated | RegistryUnavailable

datatype workspace_tab = WorkspaceProcesses | WorkspacePersonas | WorkspaceProjects

datatype editor_kind = EditorProcess | EditorProject | EditorPersona

datatype form_state = FormNormal | FormAborted | FormCompleted

record editor_state =
  edKind :: editor_kind
  edForm :: form_state
  edProcessAction :: string
  edProject :: project
  edPersona :: persona

record confirmation_state =
  cnKind :: editor_kind
  cnApprove :: bool

record tui =
  tuIdentities :: service_snapshot
  tuIdentityError :: string
  tuIdentityLoading :: bool
  tuIdentitySelected :: int
  tuPersonaSelected :: int
  tuWorkspace :: workspace_tab
  tuEditor :: "editor_state option"
  tuConfirmation :: "confirmation_state option"
  tuSaving :: bool
  tuLauncher :: bool
  tuDaemonStarting :: bool
  tuItems :: "process_item list"
  tuSelected :: int
  tuGeneration :: u64
  tuWidth :: int
  tuHeight :: int
  tuLoading :: bool
  tuRegistry :: registry_outcome
  tuRefreshing :: bool
  tuPending :: bool
  tuRuntime :: process_runtime
  tuHasRuntime :: bool
  tuStatusKnown :: bool
  tuEvents :: "output_event list"
  tuTruncated :: bool
  tuLastSeq :: u64
  tuScroll :: int
  tuShowHelp :: bool
  tuShowDetail :: bool
  tuShowOutput :: bool
  tuFollow :: bool
  tuNotice :: string
  tuDiagnostic :: string

text \<open>An error is its text.\<close>

datatype tui_msg =
  IdentityLoaded "string + service_snapshot"
| IdentitySaved editor_kind "string + service_snapshot"
| WindowSize int int
| KeyPress string
| RegistryLoaded "string + process_item list"
| DaemonLaunch "string + process_item list"
| RefreshDone process_key u64 "string + process_runtime \<times> bool \<times> output_tail"
| ActionDone process_key u64 string "string + process_runtime"
| TickMsg
| OtherMsg

datatype tui_cmd =
  NoCmd | QuitCmd | TickCmd | FormCmd
| LoadRegistryCmd | LoadIdentityCmd | DaemonStartCmd
| RefreshCmd process_key u64 u64 string bool
| ActionCmd string process_key u64
| SaveIdentityCmd editor_kind "editor_state option"
| BatchCmd "tui_cmd list"

record tui_env =
  teForm :: "editor_state \<Rightarrow> tui_msg \<Rightarrow> editor_state"
  teParse :: "string \<Rightarrow> string option"
  teText :: "identity_error \<Rightarrow> string"

definition emptySnapshot :: service_snapshot where
  "emptySnapshot = \<lparr>ssState = \<lparr>stVersion = 0, stGHPath = [], stPersonas = [], stProjects = []\<rparr>, ssSessions = [], ssChecks = []\<rparr>"

definition NewModel :: "bool \<Rightarrow> tui" where
  "NewModel launcher =
     \<lparr>tuIdentities = emptySnapshot, tuIdentityError = [], tuIdentityLoading = True, tuIdentitySelected = 0, tuPersonaSelected = 0,
      tuWorkspace = WorkspaceProcesses, tuEditor = None, tuConfirmation = None, tuSaving = False, tuLauncher = launcher,
      tuDaemonStarting = False, tuItems = [], tuSelected = 0, tuGeneration = 0, tuWidth = 0, tuHeight = 0, tuLoading = True,
      tuRegistry = RegistryLoading, tuRefreshing = False, tuPending = False, tuRuntime = zeroRuntime, tuHasRuntime = False,
      tuStatusKnown = False, tuEvents = [], tuTruncated = False, tuLastSeq = 0, tuScroll = 0, tuShowHelp = False,
      tuShowDetail = False, tuShowOutput = False, tuFollow = False, tuNotice = [], tuDiagnostic = []\<rparr>"

definition Init :: tui_cmd where
  "Init = BatchCmd [LoadRegistryCmd, LoadIdentityCmd, TickCmd]"

section \<open>The layout\<close>

record workspace_layout =
  wlWide :: bool
  wlBodyHeight :: int
  wlNavigatorWidth :: int
  wlNavigatorHeight :: int
  wlSummaryWidth :: int
  wlSummaryHeight :: int
  wlOutputWidth :: int
  wlOutputHeight :: int

definition viewportSize :: "tui \<Rightarrow> int \<times> int" where
  "viewportSize m = (if tuWidth m \<le> 0 then 100 else tuWidth m, if tuHeight m \<le> 0 then 30 else tuHeight m)"

definition workspaceLayoutWithFooter :: "tui \<Rightarrow> int \<Rightarrow> workspace_layout" where
  "workspaceLayoutWithFooter m footerHeight =
     (case viewportSize m of (width, height) \<Rightarrow>
        let bodyHeight = max 1 (height - 1 - footerHeight)
        in if 96 \<le> width \<and> 24 \<le> height then
             (let navigatorWidth = max 28 (min 36 (width div 3)); summaryHeight = min 12 (max 11 (bodyHeight div 3))
              in \<lparr>wlWide = True, wlBodyHeight = bodyHeight, wlNavigatorWidth = navigatorWidth, wlNavigatorHeight = bodyHeight,
                  wlSummaryWidth = width - navigatorWidth, wlSummaryHeight = summaryHeight,
                  wlOutputWidth = width - navigatorWidth, wlOutputHeight = bodyHeight - summaryHeight\<rparr>)
           else
             (let navigatorHeight = max 4 (min 7 (height div 4)); summaryHeight = min 10 (max 9 (bodyHeight div 3))
              in \<lparr>wlWide = False, wlBodyHeight = bodyHeight, wlNavigatorWidth = width, wlNavigatorHeight = navigatorHeight,
                  wlSummaryWidth = width, wlSummaryHeight = summaryHeight, wlOutputWidth = width,
                  wlOutputHeight = max 2 (bodyHeight - navigatorHeight - summaryHeight)\<rparr>))"

definition workspaceLayout :: "tui \<Rightarrow> workspace_layout" where
  "workspaceLayout m = workspaceLayoutWithFooter m 1"

definition processWorkspaceLayout :: "tui \<Rightarrow> workspace_layout" where
  "processWorkspaceLayout m =
     workspaceLayoutWithFooter m (if tuItems m \<noteq> [] \<and> tuRegistry m \<noteq> RegistryUnavailable then 2 else 1)"

section \<open>The output\<close>

definition outputLimit :: nat where
  "outputLimit = 400"

text \<open>The lines with the stream each came from.\<close>

definition outputLines :: "tui \<Rightarrow> (output_stream \<times> string) list" where
  "outputLines m = concat (map (\<lambda>event.
     map (Pair (eStream event)) (filter (\<lambda>part. part \<noteq> [])
       (splitAt (CHR 0x0A) (trimSuffix (replaceCRLF (eData event)) [CHR 0x0A])))) (tuEvents m))"

definition visibleOutputLines :: "tui \<Rightarrow> int \<Rightarrow> (output_stream \<times> string) list" where
  "visibleOutputLines m limit =
     (let lines = outputLines m; height = max 1 limit; endLine = max 0 (int (length lines) - tuScroll m);
          startLine = max 0 (endLine - height)
      in take (nat (endLine - startLine)) (drop (nat startLine) lines))"

definition pageHeight :: "tui \<Rightarrow> int" where
  "pageHeight m =
     (if tuHeight m \<le> 0 \<or> tuWidth m \<le> 0 then 8
      else max 1 (wlOutputHeight (processWorkspaceLayout m) - (if tuTruncated m then 4 else 3)))"

definition fullOutputPageHeight :: "tui \<Rightarrow> int" where
  "fullOutputPageHeight m = max 1 (wlBodyHeight (processWorkspaceLayout m) - (if tuTruncated m then 7 else 6))"

definition fullOutputMaxScroll :: "tui \<Rightarrow> int" where
  "fullOutputMaxScroll m = max 0 (int (length (outputLines m)) - fullOutputPageHeight m)"

definition navigatorRange :: "tui \<Rightarrow> int \<Rightarrow> int \<times> int" where
  "navigatorRange m capacity =
     (let start = max 0 (tuSelected m - capacity div 2); finish = min (int (length (tuItems m))) (start + capacity)
      in (max 0 (finish - capacity), finish))"

text \<open>\<open>sort.SliceStable\<close> by sequence, then only the events that are new, then the newest of all.\<close>

fun addEvents :: "output_event list \<Rightarrow> u64 \<Rightarrow> output_event list \<Rightarrow> output_event list \<times> u64" where
  "addEvents kept lastSeq [] = (kept, lastSeq)"
| "addEvents kept lastSeq (e # es) =
     (if eSequence e \<le> lastSeq then addEvents kept lastSeq es else addEvents (kept @ [e]) (eSequence e) es)"

definition appendEvents :: "tui \<Rightarrow> output_event list \<Rightarrow> tui" where
  "appendEvents m new =
     (case addEvents (tuEvents m) (tuLastSeq m) (sort_key eSequence new) of
        (kept, lastSeq) \<Rightarrow>
          m\<lparr>tuEvents := (if outputLimit < length kept then drop (length kept - outputLimit) kept else kept), tuLastSeq := lastSeq\<rparr>)"

section \<open>Selection and state\<close>

definition selectedKey :: "tui \<Rightarrow> process_key" where
  "selectedKey m = (if tuSelected m < 0 \<or> int (length (tuItems m)) \<le> tuSelected m then ProcessKey [] []
     else tiKey (tuItems m ! nat (tuSelected m)))"

text \<open>\<open>model.items[model.selected]\<close>, none if it is out of range.\<close>

definition selectedItem :: "tui \<Rightarrow> process_item option" where
  "selectedItem m = (if tuSelected m < 0 \<or> int (length (tuItems m)) \<le> tuSelected m then None
     else Some (tuItems m ! nat (tuSelected m)))"

definition currentState :: "tui \<Rightarrow> process_state" where
  "currentState m = (if tuHasRuntime m then rState (tuRuntime m) else Stopped)"

definition actionAvailable :: "tui \<Rightarrow> string \<Rightarrow> bool" where
  "actionAvailable m action =
     (if \<not> tuStatusKnown m then False
      else if action = ''start'' then \<not> IsActive (currentState m)
      else if action = ''stop'' \<or> action = ''restart'' then IsActive (currentState m)
      else False)"

definition resetSelection :: "tui \<Rightarrow> tui" where
  "resetSelection m = m\<lparr>tuGeneration := tuGeneration m + 1, tuRuntime := zeroRuntime, tuHasRuntime := False, tuStatusKnown := False,
     tuEvents := [], tuTruncated := False, tuLastSeq := 0, tuScroll := 0, tuNotice := [], tuDiagnostic := []\<rparr>"

definition applyRuntime :: "tui \<Rightarrow> process_runtime \<Rightarrow> bool \<Rightarrow> tui" where
  "applyRuntime m r exists =
     (let m1 = (if exists \<and> tuHasRuntime m \<and> rInstanceID r \<noteq> rInstanceID (tuRuntime m)
                then m\<lparr>tuEvents := [], tuTruncated := False, tuLastSeq := 0, tuScroll := 0\<rparr> else m);
          m2 = m1\<lparr>tuRuntime := r, tuHasRuntime := exists\<rparr>
      in case selectedItem m2 of
           None \<Rightarrow> m2
         | Some item \<Rightarrow> m2\<lparr>tuItems := (tuItems m2)[nat (tuSelected m2) :=
             item\<lparr>tiKnown := True, tiState := (if exists then rState r else Stopped)\<rparr>]\<rparr>)"

fun indexOfKey :: "process_item list \<Rightarrow> process_key \<Rightarrow> int" where
  "indexOfKey [] key = -1"
| "indexOfKey (item # items) key =
     (if tiKey item = key then 0 else let i = indexOfKey items key in if i < 0 then -1 else i + 1)"

definition refreshCmd :: "tui \<Rightarrow> tui_cmd" where
  "refreshCmd m = RefreshCmd (selectedKey m) (tuGeneration m) (tuLastSeq m) (rInstanceID (tuRuntime m)) (tuHasRuntime m)"

definition unavailableNotice :: string where
  "unavailableNotice = ''Process state is unavailable. Press l to retry.''"

section \<open>Actions\<close>

definition capitalised :: "string \<Rightarrow> string" where
  "capitalised s = (case s of [] \<Rightarrow> []
     | c # cs \<Rightarrow> (if 97 \<le> (of_char c :: nat) \<and> (of_char c :: nat) \<le> 122 then char_of ((of_char c :: nat) - 32) else c) # cs)"

definition actionLabel :: "string \<Rightarrow> string" where
  "actionLabel action = (if action = [] then ''Action'' else capitalised action)"

definition actionKey :: "string \<Rightarrow> string" where
  "actionKey action = (if action = ''start'' then ''s'' else if action = ''stop'' then ''x''
     else if action = ''restart'' then ''r'' else ''the action key'')"

text \<open>The name of a state, as it is shown; \<open>state.go\<close>.\<close>

fun stateText :: "process_state \<Rightarrow> string" where
  "stateText Stopped = ''stopped''"
| "stateText Starting = ''starting''"
| "stateText Running = ''running''"
| "stateText Stopping = ''stopping''"
| "stateText Exited = ''exited''"
| "stateText Failed = ''failed''"
| "stateText (UnknownState s) = s"

text \<open>The log line of an accepted action reads the selected item.\<close>

definition beginAction :: "tui \<Rightarrow> string \<Rightarrow> (tui \<times> tui_cmd) option" where
  "beginAction m action =
     (if tuPending m \<or> tuLoading m \<or> tuDaemonStarting m \<or> tuRegistry m = RegistryUnavailable \<or> tuItems m = [] then Some (m, NoCmd)
      else if \<not> tuStatusKnown m then Some (m\<lparr>tuNotice := unavailableNotice\<rparr>, NoCmd)
      else if \<not> actionAvailable m action
      then Some (m\<lparr>tuNotice := action @ '' is not available while state is '' @ stateText (currentState m)\<rparr>, NoCmd)
      else let m1 = m\<lparr>tuGeneration := tuGeneration m + 1, tuRefreshing := False, tuPending := True,
             tuNotice := actionLabel action @ '' pending...'', tuDiagnostic := []\<rparr>
           in case selectedItem m1 of None \<Rightarrow> None
              | Some item \<Rightarrow> Some (m1, ActionCmd action (selectedKey m1) (tuGeneration m1)))"

definition beginDaemonStart :: "tui \<Rightarrow> tui \<times> tui_cmd" where
  "beginDaemonStart m =
     (if \<not> tuLauncher m \<or> tuDaemonStarting m \<or> tuLoading m \<or> tuPending m then (m, NoCmd)
      else (m\<lparr>tuDaemonStarting := True, tuNotice := ''Starting daemon...'', tuDiagnostic := [], tuShowDetail := False\<rparr>, DaemonStartCmd))"

section \<open>Editors\<close>

definition editorOf :: "editor_kind \<Rightarrow> string \<Rightarrow> project \<Rightarrow> persona \<Rightarrow> editor_state" where
  "editorOf kind action p q = \<lparr>edKind = kind, edForm = FormNormal, edProcessAction = action, edProject = p, edPersona = q\<rparr>"

definition openProcessEditor :: "tui \<Rightarrow> (tui \<times> tui_cmd) option" where
  "openProcessEditor m =
     (case selectedItem m of
        None \<Rightarrow> None
      | Some item \<Rightarrow>
          Some (m\<lparr>tuEditor := Some (editorOf EditorProcess
            (if tuStatusKnown m \<and> IsActive (currentState m) then ''stop'' else ''start'') zeroProject zeroPersona)\<rparr>, FormCmd))"

text \<open>\<open>slice[min(selected, len(slice)-1)]\<close>; a negative index panics.\<close>

definition chosen :: "'a list \<Rightarrow> int \<Rightarrow> 'a option" where
  "chosen xs i = (let k = min i (int (length xs) - 1) in if k < 0 then None else Some (xs ! nat k))"

definition openProjectEditor :: "tui \<Rightarrow> (tui \<times> tui_cmd) option" where
  "openProjectEditor m =
     (if stProjects (ssState (tuIdentities m)) = [] then Some (m, NoCmd)
      else case chosen (stProjects (ssState (tuIdentities m))) (tuIdentitySelected m) of
             None \<Rightarrow> None
           | Some p \<Rightarrow> Some (m\<lparr>tuEditor := Some (editorOf EditorProject [] p zeroPersona)\<rparr>, FormCmd))"

definition openPersonaEditor :: "tui \<Rightarrow> (tui \<times> tui_cmd) option" where
  "openPersonaEditor m =
     (if stPersonas (ssState (tuIdentities m)) = [] then Some (m, NoCmd)
      else case chosen (stPersonas (ssState (tuIdentities m))) (tuPersonaSelected m) of
             None \<Rightarrow> None
           | Some p \<Rightarrow> Some (m\<lparr>tuEditor := Some (editorOf EditorPersona [] zeroProject p)\<rparr>, FormCmd))"

definition requiredText :: "string \<Rightarrow> bool" where
  "requiredText v \<longleftrightarrow> trimSpace v \<noteq> []"

definition validateRepository :: "string \<Rightarrow> bool" where
  "validateRepository v \<longleftrightarrow>
     (case splitAt slash v of [a, b] \<Rightarrow> trimSpace a \<noteq> [] \<and> trimSpace b \<noteq> [] | _ \<Rightarrow> False)"

definition validateEditedProject :: "(string \<Rightarrow> string option) \<Rightarrow> identity_state \<Rightarrow> project \<Rightarrow> identity_error option" where
  "validateEditedProject parse st p =
     validateState parse (st\<lparr>stProjects := map (\<lambda>q. if prID q = prID p then p else q) (stProjects st)\<rparr>)"

definition completeEditor :: "tui_env \<Rightarrow> tui \<Rightarrow> editor_state \<Rightarrow> (tui \<times> tui_cmd) option" where
  "completeEditor env m e =
     (case edKind e of
        EditorProcess \<Rightarrow> beginAction (m\<lparr>tuEditor := None\<rparr>) (edProcessAction e)
      | EditorPersona \<Rightarrow>
          (case validatePersona (teParse env) (edPersona e) of
             Some err \<Rightarrow> openPersonaEditor (m\<lparr>tuNotice := teText env err\<rparr>)
           | None \<Rightarrow> Some (m\<lparr>tuConfirmation := Some \<lparr>cnKind = EditorPersona, cnApprove = False\<rparr>\<rparr>, NoCmd))
      | EditorProject \<Rightarrow>
          (case validateEditedProject (teParse env) (ssState (tuIdentities m)) (edProject e) of
             Some err \<Rightarrow> openProjectEditor (m\<lparr>tuNotice := teText env err\<rparr>)
           | None \<Rightarrow> Some (m\<lparr>tuConfirmation := Some \<lparr>cnKind = EditorProject, cnApprove = False\<rparr>\<rparr>, NoCmd)))"

text \<open>A completed or aborted form ignores messages; the editor is shared by pointer, so it stays
  updated in the model.\<close>

definition formUpdate :: "tui_env \<Rightarrow> editor_state \<Rightarrow> tui_msg \<Rightarrow> editor_state" where
  "formUpdate env e msg = (if edForm e = FormNormal then teForm env e msg else e)"

definition updateEditor :: "tui_env \<Rightarrow> tui \<Rightarrow> tui_msg \<Rightarrow> (tui \<times> tui_cmd) option" where
  "updateEditor env m msg =
     (case tuEditor m of
        None \<Rightarrow> Some (m, NoCmd)
      | Some e \<Rightarrow>
          (let m1 = (case msg of WindowSize w h \<Rightarrow> m\<lparr>tuWidth := w, tuHeight := h\<rparr> | _ \<Rightarrow> m);
               e1 = formUpdate env e msg; m2 = m1\<lparr>tuEditor := Some e1\<rparr>
           in case edForm e1 of
                FormAborted \<Rightarrow> Some (m2\<lparr>tuEditor := None\<rparr>, NoCmd)
              | FormCompleted \<Rightarrow> completeEditor env m2 e1
              | FormNormal \<Rightarrow> Some (m2, FormCmd)))"

definition updateConfirmation :: "tui \<Rightarrow> string \<Rightarrow> tui \<times> tui_cmd" where
  "updateConfirmation m key =
     (case tuConfirmation m of
        None \<Rightarrow> (m, NoCmd)
      | Some c \<Rightarrow>
          if List.member [''esc'', ''ctrl+c'', ''n''] key then (m\<lparr>tuConfirmation := None, tuEditor := None\<rparr>, NoCmd)
          else if List.member [''left'', ''right'', ''tab'', ''shift+tab''] key
          then (m\<lparr>tuConfirmation := Some (c\<lparr>cnApprove := \<not> cnApprove c\<rparr>)\<rparr>, NoCmd)
          else if key = ''y'' then (m\<lparr>tuConfirmation := Some (c\<lparr>cnApprove := True\<rparr>)\<rparr>, NoCmd)
          else if key = ''enter'' then
            (if \<not> cnApprove c then (m\<lparr>tuConfirmation := None, tuEditor := None\<rparr>, NoCmd)
             else (m\<lparr>tuConfirmation := None, tuIdentityLoading := True, tuSaving := True\<rparr>, SaveIdentityCmd (cnKind c) (tuEditor m)))
          else (m, NoCmd))"

section \<open>Keys\<close>

definition tabOrder :: "workspace_tab list" where
  "tabOrder = [WorkspacePersonas, WorkspaceProjects, WorkspaceProcesses]"

fun tabIndex :: "workspace_tab list \<Rightarrow> workspace_tab \<Rightarrow> int" where
  "tabIndex [] t = 0"
| "tabIndex (x # xs) t = (if x = t then 0 else if t \<in> set xs then tabIndex xs t + 1 else 0)"

definition switchWorkspace :: "tui \<Rightarrow> int \<Rightarrow> tui \<times> tui_cmd" where
  "switchWorkspace m direction =
     (let next = (tabIndex tabOrder (tuWorkspace m) + direction + 3) mod 3;
          m1 = m\<lparr>tuWorkspace := tabOrder ! nat next\<rparr>
      in if tuWorkspace m1 = WorkspaceProcesses then (m1, NoCmd)
         else (m1\<lparr>tuIdentityLoading := True\<rparr>, LoadIdentityCmd))"

definition updateOutputKey :: "tui \<Rightarrow> string \<Rightarrow> tui \<times> tui_cmd" where
  "updateOutputKey m key =
     (if List.member [''esc'', ''q'', ''o''] key then (m\<lparr>tuShowOutput := False, tuFollow := False, tuScroll := 0\<rparr>, NoCmd)
      else if key = ''f'' then
        (if tuFollow m then (m\<lparr>tuFollow := False\<rparr>, NoCmd)
         else let m1 = m\<lparr>tuFollow := True, tuScroll := 0\<rparr>
              in if tuRefreshing m1 then (m1, NoCmd) else (m1\<lparr>tuRefreshing := True\<rparr>, refreshCmd m1))
      else if key = ''up'' then (m\<lparr>tuFollow := False, tuScroll := min (fullOutputMaxScroll m) (tuScroll m + 1)\<rparr>, NoCmd)
      else if key = ''down'' then (m\<lparr>tuScroll := max 0 (tuScroll m - 1)\<rparr>, NoCmd)
      else if key = ''pgup'' then
        (m\<lparr>tuFollow := False, tuScroll := min (fullOutputMaxScroll m) (tuScroll m + fullOutputPageHeight m)\<rparr>, NoCmd)
      else if key = ''pgdown'' then (m\<lparr>tuScroll := max 0 (tuScroll m - fullOutputPageHeight m)\<rparr>, NoCmd)
      else if key = ''home'' then (m\<lparr>tuFollow := False, tuScroll := fullOutputMaxScroll m\<rparr>, NoCmd)
      else if key = ''end'' then (m\<lparr>tuScroll := 0\<rparr>, NoCmd)
      else if key = ''ctrl+c'' then (m, QuitCmd)
      else (m, NoCmd))"

definition updateProjectsKey :: "tui \<Rightarrow> string \<Rightarrow> (tui \<times> tui_cmd) option" where
  "updateProjectsKey m key =
     (let last = max 0 (int (length (stProjects (ssState (tuIdentities m)))) - 1)
      in if key = ''esc'' then Some (m\<lparr>tuWorkspace := WorkspaceProcesses\<rparr>, NoCmd)
         else if key = ''down'' then Some (m\<lparr>tuIdentitySelected := min (tuIdentitySelected m + 1) last\<rparr>, NoCmd)
         else if key = ''up'' then Some (m\<lparr>tuIdentitySelected := max 0 (tuIdentitySelected m - 1)\<rparr>, NoCmd)
         else if key = ''enter'' then
           (if tuIdentityLoading m \<or> tuIdentityError m \<noteq> [] then Some (m, NoCmd)
            else if tuPending m \<or> tuDaemonStarting m \<or> tuRegistry m = RegistryUnavailable then Some (m, NoCmd)
            else openProjectEditor m)
         else if key = ''l'' then Some (m\<lparr>tuIdentityLoading := True\<rparr>, LoadIdentityCmd)
         else Some (m, NoCmd))"

definition updatePersonasKey :: "tui \<Rightarrow> string \<Rightarrow> (tui \<times> tui_cmd) option" where
  "updatePersonasKey m key =
     (let last = max 0 (int (length (stPersonas (ssState (tuIdentities m)))) - 1)
      in if key = ''esc'' then Some (m\<lparr>tuWorkspace := WorkspaceProcesses\<rparr>, NoCmd)
         else if key = ''down'' then Some (m\<lparr>tuPersonaSelected := min (tuPersonaSelected m + 1) last\<rparr>, NoCmd)
         else if key = ''up'' then Some (m\<lparr>tuPersonaSelected := max 0 (tuPersonaSelected m - 1)\<rparr>, NoCmd)
         else if key = ''enter'' then
           (if tuIdentityLoading m \<or> tuIdentityError m \<noteq> [] \<or> stPersonas (ssState (tuIdentities m)) = [] then Some (m, NoCmd)
            else openPersonaEditor m)
         else if key = ''l'' then Some (m\<lparr>tuIdentityLoading := True\<rparr>, LoadIdentityCmd)
         else Some (m, NoCmd))"

text \<open>Moving the selection, under the guard that the caller checks.\<close>

definition moveSelection :: "tui \<Rightarrow> int \<Rightarrow> tui \<times> tui_cmd" where
  "moveSelection m step =
     (let m1 = (resetSelection (m\<lparr>tuSelected := tuSelected m + step\<rparr>))\<lparr>tuRefreshing := True\<rparr> in (m1, refreshCmd m1))"

definition updateProcessesKey :: "tui \<Rightarrow> string \<Rightarrow> (tui \<times> tui_cmd) option" where
  "updateProcessesKey m key =
     (let free = (\<not> tuPending m \<and> \<not> tuLoading m \<and> tuRegistry m \<noteq> RegistryUnavailable)
      in if key = ''i'' then Some (m\<lparr>tuIdentityLoading := True, tuWorkspace := WorkspaceProjects\<rparr>, LoadIdentityCmd)
         else if key = ''?'' then Some (m\<lparr>tuShowHelp := \<not> tuShowHelp m\<rparr>, NoCmd)
         else if key = ''d'' then
           Some (if tuItems m \<noteq> [] \<or> tuDiagnostic m \<noteq> [] then m\<lparr>tuShowDetail := \<not> tuShowDetail m\<rparr> else m, NoCmd)
         else if key = ''o'' then
           Some (if tuItems m \<noteq> [] \<and> tuRegistry m \<noteq> RegistryUnavailable
                 then m\<lparr>tuShowOutput := True, tuFollow := False, tuScroll := 0\<rparr> else m, NoCmd)
         else if key = ''enter'' then (if free \<and> tuItems m \<noteq> [] then openProcessEditor m else Some (m, NoCmd))
         else if key = ''up'' then Some (if free \<and> 0 < tuSelected m then moveSelection m (-1) else (m, NoCmd))
         else if key = ''down'' then
           Some (if free \<and> tuSelected m + 1 < int (length (tuItems m)) then moveSelection m 1 else (m, NoCmd))
         else if key = ''pgup'' then
           Some (m\<lparr>tuScroll := min (int (length (outputLines m))) (tuScroll m + pageHeight m)\<rparr>, NoCmd)
         else if key = ''pgdown'' then Some (m\<lparr>tuScroll := max 0 (tuScroll m - pageHeight m)\<rparr>, NoCmd)
         else if key = ''l'' then
           Some (if \<not> tuPending m \<and> \<not> tuLoading m \<and> \<not> tuDaemonStarting m
                 then (m\<lparr>tuLoading := True, tuRegistry := RegistryLoading, tuGeneration := tuGeneration m + 1, tuRefreshing := False\<rparr>,
                       LoadRegistryCmd)
                 else (m, NoCmd))
         else if key = ''s'' then
           (if tuRegistry m = RegistryUnavailable then Some (beginDaemonStart m) else beginAction m ''start'')
         else if key = ''x'' then beginAction m ''stop''
         else if key = ''r'' then beginAction m ''restart''
         else Some (m, NoCmd))"

definition updateKey :: "tui \<Rightarrow> string \<Rightarrow> (tui \<times> tui_cmd) option" where
  "updateKey m key =
     (if tuShowOutput m then Some (updateOutputKey m key)
      else if key = ''left'' then Some (switchWorkspace m (-1))
      else if key = ''right'' then Some (switchWorkspace m 1)
      else if key = ''q'' \<or> key = ''ctrl+c'' then Some (m, QuitCmd)
      else case tuWorkspace m of
             WorkspaceProjects \<Rightarrow> updateProjectsKey m key
           | WorkspacePersonas \<Rightarrow> updatePersonasKey m key
           | WorkspaceProcesses \<Rightarrow> updateProcessesKey m key)"

section \<open>Messages\<close>

definition applyRegistryLoaded :: "tui \<Rightarrow> string + process_item list \<Rightarrow> tui \<times> tui_cmd" where
  "applyRegistryLoaded m loaded =
     (case loaded of
        Inl e \<Rightarrow> (m\<lparr>tuLoading := False, tuRegistry := RegistryUnavailable, tuStatusKnown := False,
                   tuNotice := (if tuLauncher m then [] else unavailableNotice), tuDiagnostic := e\<rparr>, NoCmd)
      | Inr items \<Rightarrow>
          (let previous = selectedKey m;
               m1 = m\<lparr>tuLoading := False, tuItems := items, tuRegistry := (if items = [] then RegistryEmpty else RegistryPopulated),
                      tuShowDetail := (if items = [] then False else tuShowDetail m)\<rparr>;
               i = indexOfKey items previous;
               m2 = m1\<lparr>tuSelected := (if i < 0 \<and> items \<noteq> [] then 0 else i)\<rparr>;
               m3 = (if selectedKey m2 \<noteq> previous \<or> items = [] then resetSelection m2 else m2);
               m4 = m3\<lparr>tuNotice := [], tuDiagnostic := []\<rparr>
           in if items = [] then (m4, NoCmd)
              else let m5 = m4\<lparr>tuRefreshing := True\<rparr> in (m5, refreshCmd m5)))"

definition applyIdentityLoaded :: "tui \<Rightarrow> string + service_snapshot \<Rightarrow> tui" where
  "applyIdentityLoaded m loaded =
     (let snapshot = (case loaded of Inl e \<Rightarrow> emptySnapshot | Inr x \<Rightarrow> x);
          m1 = m\<lparr>tuIdentityLoading := False, tuIdentities := snapshot, tuIdentityError := (case loaded of Inl e \<Rightarrow> e | Inr x \<Rightarrow> [])\<rparr>
      in m1\<lparr>tuIdentitySelected := min (tuIdentitySelected m) (max 0 (int (length (stProjects (ssState snapshot))) - 1)),
            tuPersonaSelected := min (tuPersonaSelected m) (max 0 (int (length (stPersonas (ssState snapshot))) - 1))\<rparr>)"

definition applyIdentitySaved :: "tui \<Rightarrow> string + service_snapshot \<Rightarrow> tui" where
  "applyIdentitySaved m saved =
     (let m1 = m\<lparr>tuIdentityLoading := False, tuSaving := False\<rparr>
      in case saved of
           Inl e \<Rightarrow> m1\<lparr>tuNotice := e\<rparr>
         | Inr snapshot \<Rightarrow> m1\<lparr>tuIdentities := snapshot, tuIdentityError := [], tuNotice := ''saved'', tuEditor := None\<rparr>)"

definition applyDaemonLaunch :: "tui \<Rightarrow> string + process_item list \<Rightarrow> tui \<times> tui_cmd" where
  "applyDaemonLaunch m launched =
     (let m1 = m\<lparr>tuDaemonStarting := False\<rparr>
      in case launched of
           Inl e \<Rightarrow> (m1\<lparr>tuRegistry := RegistryUnavailable, tuStatusKnown := False,
               tuNotice := ''Daemon did not start or become available. Press s to retry.'', tuDiagnostic := e\<rparr>, NoCmd)
         | Inr items \<Rightarrow> applyRegistryLoaded m1 (Inr items))"

definition applyRefresh :: "tui \<Rightarrow> process_key \<Rightarrow> u64 \<Rightarrow> string + process_runtime \<times> bool \<times> output_tail \<Rightarrow> tui" where
  "applyRefresh m key generation answer =
     (if key \<noteq> selectedKey m \<or> generation \<noteq> tuGeneration m then m
      else let m1 = m\<lparr>tuRefreshing := False\<rparr>
           in case answer of
                Inl e \<Rightarrow> m1\<lparr>tuStatusKnown := False, tuNotice := unavailableNotice, tuDiagnostic := e\<rparr>
              | Inr (r, exists, tail) \<Rightarrow>
                  (let m2 = (applyRuntime m1 r exists)\<lparr>tuStatusKnown := True\<rparr>;
                       m3 = appendEvents m2 (tEvents tail);
                       m4 = m3\<lparr>tuTruncated := tuTruncated m3 \<or> tTruncated tail\<rparr>
                   in if tuRegistry m4 \<noteq> RegistryUnavailable \<and> tuNotice m4 = unavailableNotice
                      then m4\<lparr>tuNotice := [], tuDiagnostic := []\<rparr> else m4))"

definition applyAction :: "tui \<Rightarrow> process_key \<Rightarrow> u64 \<Rightarrow> string \<Rightarrow> string + process_runtime \<Rightarrow> tui \<times> tui_cmd" where
  "applyAction m key generation action answer =
     (let m1 = m\<lparr>tuPending := False\<rparr>
      in if key \<noteq> selectedKey m1 \<or> generation \<noteq> tuGeneration m1 then (m1, NoCmd)
         else case answer of
                Inl e \<Rightarrow> (m1\<lparr>tuNotice := actionLabel action @ '' did not complete. Press '' @ actionKey action @ '' to retry.'',
                             tuDiagnostic := e\<rparr>, NoCmd)
              | Inr r \<Rightarrow>
                  (let m2 = (applyRuntime m1 r True)\<lparr>tuStatusKnown := True, tuNotice := [], tuDiagnostic := []\<rparr>
                   in if tuRefreshing m2 then (m2, NoCmd)
                      else let m3 = m2\<lparr>tuRefreshing := True\<rparr> in (m3, refreshCmd m3)))"

definition applyTick :: "tui \<Rightarrow> tui \<times> tui_cmd" where
  "applyTick m =
     (if (\<not> tuShowOutput m \<or> tuFollow m) \<and> tuItems m \<noteq> [] \<and> \<not> tuLoading m \<and> \<not> tuDaemonStarting m
         \<and> tuRegistry m \<noteq> RegistryUnavailable \<and> \<not> tuRefreshing m \<and> \<not> tuPending m
      then let m1 = m\<lparr>tuRefreshing := True\<rparr> in (m1, BatchCmd [TickCmd, refreshCmd m1])
      else (m, BatchCmd [TickCmd]))"

definition TuiUpdate :: "tui_env \<Rightarrow> tui \<Rightarrow> tui_msg \<Rightarrow> (tui \<times> tui_cmd) option" where
  "TuiUpdate env m msg =
     (case msg of
        IdentityLoaded loaded \<Rightarrow> Some (applyIdentityLoaded m loaded, NoCmd)
      | IdentitySaved kind saved \<Rightarrow> Some (applyIdentitySaved m saved, NoCmd)
      | WindowSize w h \<Rightarrow>
          (let m1 = m\<lparr>tuWidth := w, tuHeight := h\<rparr>
           in if tuEditor m1 \<noteq> None then updateEditor env m1 msg else Some (m1, NoCmd))
      | KeyPress key \<Rightarrow>
          (if tuConfirmation m \<noteq> None then Some (updateConfirmation m key)
           else if tuEditor m \<noteq> None then updateEditor env m msg
           else updateKey m key)
      | RegistryLoaded loaded \<Rightarrow> Some (applyRegistryLoaded m loaded)
      | DaemonLaunch launched \<Rightarrow> Some (applyDaemonLaunch m launched)
      | RefreshDone key generation answer \<Rightarrow> Some (applyRefresh m key generation answer, NoCmd)
      | ActionDone key generation action answer \<Rightarrow> Some (applyAction m key generation action answer)
      | TickMsg \<Rightarrow> Some (applyTick m)
      | OtherMsg \<Rightarrow> if tuEditor m \<noteq> None then updateEditor env m msg else Some (m, NoCmd))"

end
