(* ===== verification/TuiCommands.thy ===== *)
theory TuiCommands
  imports TuiModel
begin

text \<open>
  What the commands of the terminal interface do when they run, \<open>model.go\<close>, \<open>editor.go\<close>, \<open>daemon.go\<close>
  and \<open>identity.go\<close> of \<open>internal/tui\<close>: the answers of the daemon's client are the record
  \<open>tui_client\<close>.  Then the properties of the interface: its states stay well-formed and no update
  panics, it retains the newest output only once, and a late answer changes nothing.
\<close>

section \<open>Commands\<close>

record tui_client =
  tcListProjects :: "string + project_definition list"
  tcListProcesses :: "string \<Rightarrow> string + process_definition list"
  tcStatus :: "process_key \<Rightarrow> string + process_runtime \<times> bool"
  tcLogs :: "process_key \<Rightarrow> u64 \<Rightarrow> int \<Rightarrow> string + output_tail"
  tcRun :: "string \<Rightarrow> process_key \<Rightarrow> string + process_runtime"
  tcIdentity :: "identity_request \<Rightarrow> string + service_snapshot"
  tcQuote :: "string \<Rightarrow> string"  \<comment> \<open>\<open>strconv.Quote\<close>\<close>
  tcLaunch :: "string option"
  tcAttempts :: "((string + process_item list) \<times> bool) list"  \<comment> \<open>the attempts to load, and whether time is up after each\<close>

definition formatCommand :: "(string \<Rightarrow> string) \<Rightarrow> string \<Rightarrow> string list \<Rightarrow> string" where
  "formatCommand quote command arguments =
     joinWith '' '' (command # map (\<lambda>a. if containsAny a [CHR '' '', CHR 0x09, CHR 0x22] then quote a else a) arguments)"

fun loadProcesses :: "tui_client \<Rightarrow> process_definition list \<Rightarrow> string + process_item list" where
  "loadProcesses c [] = Inr []"
| "loadProcesses c (p # ps) =
     (case tcStatus c (ProcessKey (dProjectID p) (dID p)) of
        Inl e \<Rightarrow> Inl e
      | Inr (r, exists) \<Rightarrow>
          (case loadProcesses c ps of
             Inl e \<Rightarrow> Inl e
           | Inr items \<Rightarrow> Inr (\<lparr>tiKey = ProcessKey (dProjectID p) (dID p), tiCommand = formatCommand (tcQuote c) (dCommand p) (dArguments p),
               tiState = (if exists then rState r else Stopped), tiKnown = True\<rparr> # items)))"

fun loadProjects :: "tui_client \<Rightarrow> project_definition list \<Rightarrow> string + process_item list" where
  "loadProjects c [] = Inr []"
| "loadProjects c (p # ps) =
     (case tcListProcesses c (pdID p) of
        Inl e \<Rightarrow> Inl e
      | Inr processes \<Rightarrow>
          (case loadProcesses c processes of
             Inl e \<Rightarrow> Inl e
           | Inr items \<Rightarrow> (case loadProjects c ps of Inl e \<Rightarrow> Inl e | Inr others \<Rightarrow> Inr (items @ others))))"

definition loadRegistry :: "tui_client \<Rightarrow> string + process_item list" where
  "loadRegistry c = (case tcListProjects c of Inl e \<Rightarrow> Inl e | Inr projects \<Rightarrow> loadProjects c projects)"

text \<open>The loop that waits for the daemon; none: it is still waiting.\<close>

fun awaitDaemon :: "string option \<Rightarrow> ((string + process_item list) \<times> bool) list \<Rightarrow> tui_msg option" where
  "awaitDaemon launch [] = None"
| "awaitDaemon launch ((attempt, timeUp) # rest) =
     (case attempt of
        Inr items \<Rightarrow> Some (DaemonLaunch (Inr items))
      | Inl e \<Rightarrow>
          if timeUp then Some (DaemonLaunch (Inl (case launch of
            None \<Rightarrow> ''wait for daemon readiness: '' @ e | Some l \<Rightarrow> l @ [CHR 0x0A] @ e)))
          else awaitDaemon launch rest)"

definition refreshAnswer :: "tui_client \<Rightarrow> process_key \<Rightarrow> u64 \<Rightarrow> string \<Rightarrow> bool \<Rightarrow> string + process_runtime \<times> bool \<times> output_tail" where
  "refreshAnswer c key after previousInstance hadRuntime =
     (case tcStatus c key of
        Inl e \<Rightarrow> Inl e
      | Inr (r, exists) \<Rightarrow>
          (case tcLogs c key (if exists \<and> (\<not> hadRuntime \<or> rInstanceID r \<noteq> previousInstance) then 0 else after) 200 of
             Inl e \<Rightarrow> Inl e
           | Inr tail \<Rightarrow> Inr (r, exists, tail)))"

definition identityRequestOf :: "editor_kind \<Rightarrow> editor_state \<Rightarrow> identity_request option" where
  "identityRequestOf kind e =
     (case kind of
        EditorProject \<Rightarrow> Some (zeroRequest\<lparr>rqAction := ''project.put'', rqProject := Some (edProject e)\<rparr>)
      | EditorPersona \<Rightarrow> Some (zeroRequest\<lparr>rqAction := ''persona.put'', rqPersona := Some (edPersona e)\<rparr>)
      | EditorProcess \<Rightarrow> None)"

text \<open>The messages a command ends with; none if it panics.\<close>

fun runCommand :: "tui_client \<Rightarrow> tui_cmd \<Rightarrow> tui_msg list option" where
  "runCommand c NoCmd = Some []"
| "runCommand c QuitCmd = Some []"
| "runCommand c TickCmd = Some [TickMsg]"
| "runCommand c FormCmd = Some [OtherMsg]"
| "runCommand c LoadRegistryCmd = Some [RegistryLoaded (loadRegistry c)]"
| "runCommand c LoadIdentityCmd = Some [IdentityLoaded (tcIdentity c (zeroRequest\<lparr>rqAction := ''get''\<rparr>))]"
| "runCommand c DaemonStartCmd = Some (case awaitDaemon (tcLaunch c) (tcAttempts c) of None \<Rightarrow> [] | Some m \<Rightarrow> [m])"
| "runCommand c (RefreshCmd key generation after previousInstance hadRuntime) =
     Some [RefreshDone key generation (refreshAnswer c key after previousInstance hadRuntime)]"
| "runCommand c (ActionCmd action key generation) = Some [ActionDone key generation action
     (if action = ''start'' \<or> action = ''stop'' \<or> action = ''restart'' then tcRun c action key else Inr zeroRuntime)]"
| "runCommand c (SaveIdentityCmd kind editor) =
     (case editor of
        None \<Rightarrow> if kind = EditorProcess then Some [IdentitySaved kind (Inr emptySnapshot)] else None
      | Some e \<Rightarrow> Some [IdentitySaved kind (case identityRequestOf kind e of None \<Rightarrow> Inr emptySnapshot | Some r \<Rightarrow> tcIdentity c r)])"
| "runCommand c (BatchCmd cmds) =
     (if list_ex (\<lambda>cmd. runCommand c cmd = None) cmds then None else Some (concat (map (\<lambda>cmd. the (runCommand c cmd)) cmds)))"

section \<open>Well-formed states\<close>

text \<open>The selection is in range wherever there is something to select, and the retained output is
  ordered, new and bounded.\<close>

definition selection_ok :: "tui \<Rightarrow> bool" where
  "selection_ok m \<longleftrightarrow>
     (if tuItems m = [] then -1 \<le> tuSelected m \<and> tuSelected m \<le> 0
      else 0 \<le> tuSelected m \<and> tuSelected m < int (length (tuItems m))) \<and>
     0 \<le> tuIdentitySelected m \<and> 0 \<le> tuPersonaSelected m"

definition events_ok :: "tui \<Rightarrow> bool" where
  "events_ok m \<longleftrightarrow> sorted_wrt (<) (map eSequence (tuEvents m)) \<and> (\<forall>e\<in>set (tuEvents m). eSequence e \<le> tuLastSeq m) \<and>
     length (tuEvents m) \<le> outputLimit"

definition tui_inv :: "tui \<Rightarrow> bool" where
  "tui_inv m \<longleftrightarrow> selection_ok m \<and> events_ok m"

lemma selectedItem_ok: "selection_ok m \<Longrightarrow> tuItems m \<noteq> [] \<Longrightarrow> selectedItem m = Some (tuItems m ! nat (tuSelected m))"
  by (auto simp: selection_ok_def selectedItem_def)

lemma addEvents_ok:
  assumes "addEvents kept l es = (kept', l')" and "sorted_wrt (<) (map eSequence kept)" and "\<forall>e\<in>set kept. eSequence e \<le> l"
  shows "sorted_wrt (<) (map eSequence kept') \<and> (\<forall>e\<in>set kept'. eSequence e \<le> l') \<and> l \<le> l'"
  using assms
proof (induction kept l es rule: addEvents.induct)
  case (2 kept l e es)
  show ?case
  proof (cases "eSequence e \<le> l")
    case True
    then show ?thesis using 2 by simp
  next
    case False
    then have "sorted_wrt (<) (map eSequence (kept @ [e]))" "\<forall>x\<in>set (kept @ [e]). eSequence x \<le> eSequence e"
      using "2.prems" by (auto simp: sorted_wrt_append intro: order_trans dest: le_less_trans)
    then show ?thesis using 2 False by fastforce
  qed
qed simp

lemma appendEvents_ok:
  assumes "events_ok m"
  shows "events_ok (appendEvents m new)"
proof -
  obtain kept l where a: "addEvents (tuEvents m) (tuLastSeq m) (sort_key eSequence new) = (kept, l)" by fastforce
  have k: "sorted_wrt (<) (map eSequence kept)" "\<forall>e\<in>set kept. eSequence e \<le> l"
    using addEvents_ok [OF a] assms by (auto simp: events_ok_def)
  have "sorted_wrt (<) (map eSequence (drop n kept))" for n
    using k(1) by (metis append_take_drop_id map_append sorted_wrt_append)
  then show ?thesis using k in_set_dropD by (fastforce simp: appendEvents_def a events_ok_def)
qed

text \<open>The fields that the invariant does not mention.\<close>

lemma tui_inv_update [simp]:
  "tui_inv (m\<lparr>tuIdentities := a0\<rparr>) = tui_inv m"
  "tui_inv (m\<lparr>tuIdentityError := a1\<rparr>) = tui_inv m"
  "tui_inv (m\<lparr>tuIdentityLoading := a2\<rparr>) = tui_inv m"
  "tui_inv (m\<lparr>tuWorkspace := a3\<rparr>) = tui_inv m"
  "tui_inv (m\<lparr>tuEditor := a4\<rparr>) = tui_inv m"
  "tui_inv (m\<lparr>tuConfirmation := a5\<rparr>) = tui_inv m"
  "tui_inv (m\<lparr>tuSaving := a6\<rparr>) = tui_inv m"
  "tui_inv (m\<lparr>tuLauncher := a7\<rparr>) = tui_inv m"
  "tui_inv (m\<lparr>tuDaemonStarting := a8\<rparr>) = tui_inv m"
  "tui_inv (m\<lparr>tuGeneration := a9\<rparr>) = tui_inv m"
  "tui_inv (m\<lparr>tuWidth := a10\<rparr>) = tui_inv m"
  "tui_inv (m\<lparr>tuHeight := a11\<rparr>) = tui_inv m"
  "tui_inv (m\<lparr>tuLoading := a12\<rparr>) = tui_inv m"
  "tui_inv (m\<lparr>tuRegistry := a13\<rparr>) = tui_inv m"
  "tui_inv (m\<lparr>tuRefreshing := a14\<rparr>) = tui_inv m"
  "tui_inv (m\<lparr>tuPending := a15\<rparr>) = tui_inv m"
  "tui_inv (m\<lparr>tuRuntime := a16\<rparr>) = tui_inv m"
  "tui_inv (m\<lparr>tuHasRuntime := a17\<rparr>) = tui_inv m"
  "tui_inv (m\<lparr>tuStatusKnown := a18\<rparr>) = tui_inv m"
  "tui_inv (m\<lparr>tuTruncated := a19\<rparr>) = tui_inv m"
  "tui_inv (m\<lparr>tuScroll := a20\<rparr>) = tui_inv m"
  "tui_inv (m\<lparr>tuShowHelp := a21\<rparr>) = tui_inv m"
  "tui_inv (m\<lparr>tuShowDetail := a22\<rparr>) = tui_inv m"
  "tui_inv (m\<lparr>tuShowOutput := a23\<rparr>) = tui_inv m"
  "tui_inv (m\<lparr>tuFollow := a24\<rparr>) = tui_inv m"
  "tui_inv (m\<lparr>tuNotice := a25\<rparr>) = tui_inv m"
  "tui_inv (m\<lparr>tuDiagnostic := a26\<rparr>) = tui_inv m"
  by (simp_all add: tui_inv_def selection_ok_def events_ok_def)

definition ok_result :: "(tui \<times> tui_cmd) option \<Rightarrow> bool" where
  "ok_result r \<longleftrightarrow> (case r of None \<Rightarrow> False | Some (m, c) \<Rightarrow> tui_inv m)"

lemma ok_result_Some [simp]: "ok_result (Some p) \<longleftrightarrow> tui_inv (fst p)"
  by (cases p) (simp add: ok_result_def)

lemma tui_inv_selection: "tui_inv m \<Longrightarrow> tuItems m \<noteq> [] \<Longrightarrow> 0 \<le> tuSelected m \<and> tuSelected m < int (length (tuItems m))"
  by (simp add: tui_inv_def selection_ok_def)

lemma NewModel_inv: "tui_inv (NewModel launcher)"
  by (simp add: NewModel_def tui_inv_def selection_ok_def events_ok_def)

lemma no_events [simp]: "events_ok (m\<lparr>tuEvents := []\<rparr>)"
  by (simp add: events_ok_def)

lemma resetSelection_inv: "selection_ok m \<Longrightarrow> tui_inv (resetSelection m)"
  by (simp add: resetSelection_def tui_inv_def selection_ok_def events_ok_def)

lemma applyRuntime_inv: "tui_inv m \<Longrightarrow> tui_inv (applyRuntime m r exists)"
  by (auto simp: applyRuntime_def Let_def tui_inv_def selection_ok_def events_ok_def split: option.split)

lemma appendEvents_inv: "tui_inv m \<Longrightarrow> tui_inv (appendEvents m new)"
  using appendEvents_ok [of m new]
  by (auto simp: tui_inv_def selection_ok_def appendEvents_def split: prod.split)

lemma beginAction_inv: "tui_inv m \<Longrightarrow> ok_result (beginAction m action)"
  using tui_inv_selection [of m]
  by (auto simp: beginAction_def Let_def selectedItem_def)

lemma beginDaemonStart_inv: "tui_inv m \<Longrightarrow> tui_inv (fst (beginDaemonStart m))"
  by (simp add: beginDaemonStart_def)

lemma chosen_ok: "xs \<noteq> [] \<Longrightarrow> 0 \<le> i \<Longrightarrow> \<exists>x. chosen xs i = Some x"
  by (cases xs) (auto simp: chosen_def Let_def)

lemma openProcessEditor_inv: "tui_inv m \<Longrightarrow> tuItems m \<noteq> [] \<Longrightarrow> ok_result (openProcessEditor m)"
  using tui_inv_selection [of m] by (auto simp: openProcessEditor_def selectedItem_def)

lemma openProjectEditor_inv: "tui_inv m \<Longrightarrow> ok_result (openProjectEditor m)"
  using chosen_ok [of "stProjects (ssState (tuIdentities m))" "tuIdentitySelected m"]
  by (auto simp: openProjectEditor_def tui_inv_def selection_ok_def events_ok_def)

lemma openPersonaEditor_inv: "tui_inv m \<Longrightarrow> ok_result (openPersonaEditor m)"
  using chosen_ok [of "stPersonas (ssState (tuIdentities m))" "tuPersonaSelected m"]
  by (auto simp: openPersonaEditor_def tui_inv_def selection_ok_def events_ok_def)

lemma completeEditor_inv: "tui_inv m \<Longrightarrow> ok_result (completeEditor env m e)"
  by (auto simp: completeEditor_def intro: beginAction_inv openPersonaEditor_inv openProjectEditor_inv
      split: editor_kind.split option.split)

lemma updateEditor_inv: "tui_inv m \<Longrightarrow> ok_result (updateEditor env m msg)"
  by (auto simp: updateEditor_def Let_def intro!: completeEditor_inv split: option.split form_state.split tui_msg.split)

lemma updateConfirmation_inv: "tui_inv m \<Longrightarrow> tui_inv (fst (updateConfirmation m key))"
  by (simp add: updateConfirmation_def split: option.split)

lemma updateOutputKey_inv: "tui_inv m \<Longrightarrow> tui_inv (fst (updateOutputKey m key))"
  by (simp add: updateOutputKey_def Let_def)

lemma switchWorkspace_inv: "tui_inv m \<Longrightarrow> tui_inv (fst (switchWorkspace m d))"
  by (simp add: switchWorkspace_def Let_def)

lemma identity_selection_inv:
  "tui_inv m \<Longrightarrow> 0 \<le> i \<Longrightarrow> tui_inv (m\<lparr>tuIdentitySelected := i\<rparr>)"
  "tui_inv m \<Longrightarrow> 0 \<le> i \<Longrightarrow> tui_inv (m\<lparr>tuPersonaSelected := i\<rparr>)"
  by (simp_all add: tui_inv_def selection_ok_def events_ok_def)

lemma identity_selected: "tui_inv m \<Longrightarrow> 0 \<le> tuIdentitySelected m \<and> 0 \<le> tuPersonaSelected m"
  by (simp add: tui_inv_def selection_ok_def)

lemma updateProjectsKey_inv: "tui_inv m \<Longrightarrow> ok_result (updateProjectsKey m key)"
  using identity_selected [of m]
  by (simp add: updateProjectsKey_def Let_def identity_selection_inv openProjectEditor_inv)

lemma updatePersonasKey_inv: "tui_inv m \<Longrightarrow> ok_result (updatePersonasKey m key)"
  using identity_selected [of m]
  by (simp add: updatePersonasKey_def Let_def identity_selection_inv openPersonaEditor_inv)

lemma moveSelection_inv:
  assumes "tui_inv m" and "0 \<le> tuSelected m + d" and "tuSelected m + d < int (length (tuItems m))"
  shows "tui_inv (fst (moveSelection m d))"
proof -
  have "tui_inv (resetSelection (m\<lparr>tuSelected := tuSelected m + d\<rparr>))"
    using assms by (intro resetSelection_inv) (auto simp: tui_inv_def selection_ok_def)
  then show ?thesis by (simp add: moveSelection_def Let_def)
qed

lemma updateProcessesKey_inv:
  assumes "tui_inv m"
  shows "ok_result (updateProcessesKey m key)"
proof -
  have sel: "selection_ok m" using assms by (simp add: tui_inv_def)
  have up: "tui_inv (fst (moveSelection m (-1)))" if "0 < tuSelected m"
    using that sel assms by (intro moveSelection_inv) (auto simp: selection_ok_def split: if_split_asm)
  have down: "tui_inv (fst (moveSelection m 1))" if "tuSelected m + 1 < int (length (tuItems m))"
    using that sel assms by (intro moveSelection_inv) (auto simp: selection_ok_def split: if_split_asm)
  show ?thesis
    using assms up down
    by (simp add: updateProcessesKey_def Let_def beginAction_inv beginDaemonStart_inv openProcessEditor_inv)
qed

lemma updateKey_inv: "tui_inv m \<Longrightarrow> ok_result (updateKey m key)"
  by (simp add: updateKey_def updateOutputKey_inv switchWorkspace_inv updateProjectsKey_inv updatePersonasKey_inv
      updateProcessesKey_inv split: workspace_tab.split)

lemma indexOfKey_bounds: "-1 \<le> indexOfKey items key \<and> indexOfKey items key < int (length items)"
  by (induction items) (auto simp: Let_def)

lemma indexOfKey_found: "0 \<le> indexOfKey items key \<Longrightarrow> tiKey (items ! nat (indexOfKey items key)) = key"
  by (induction items) (auto simp: Let_def nat_add_distrib split: if_split_asm)

lemma applyRegistryLoaded_inv:
  assumes "tui_inv m"
  shows "tui_inv (fst (applyRegistryLoaded m loaded))"
proof (cases loaded)
  case (Inl e)
  then show ?thesis using assms by (simp add: applyRegistryLoaded_def)
next
  case (Inr items)
  let ?i = "indexOfKey items (selectedKey m)"
  define m2 where "m2 = m\<lparr>tuLoading := False, tuItems := items, tuRegistry := (if items = [] then RegistryEmpty else RegistryPopulated),
      tuShowDetail := (if items = [] then False else tuShowDetail m), tuSelected := (if ?i < 0 \<and> items \<noteq> [] then 0 else ?i)\<rparr>"
  have "selection_ok m2" "events_ok m2"
    using assms indexOfKey_bounds [of items "selectedKey m"]
    by (auto simp: m2_def tui_inv_def selection_ok_def events_ok_def)
  then have "tui_inv m2" "tui_inv (resetSelection m2)" by (simp_all add: tui_inv_def resetSelection_inv [unfolded tui_inv_def])
  moreover have "fst (applyRegistryLoaded m loaded) =
      (let m4 = (if selectedKey m2 \<noteq> selectedKey m \<or> items = [] then resetSelection m2 else m2)\<lparr>tuNotice := [], tuDiagnostic := []\<rparr>
       in if items = [] then m4 else m4\<lparr>tuRefreshing := True\<rparr>)"
    using Inr unfolding applyRegistryLoaded_def m2_def Let_def by simp
  ultimately show ?thesis by (simp add: Let_def)
qed

lemma applyIdentityLoaded_inv: "tui_inv m \<Longrightarrow> tui_inv (applyIdentityLoaded m loaded)"
  using identity_selected [of m] by (simp add: applyIdentityLoaded_def Let_def identity_selection_inv)

lemma applyIdentitySaved_inv: "tui_inv m \<Longrightarrow> tui_inv (applyIdentitySaved m saved)"
  by (simp add: applyIdentitySaved_def Let_def split: sum.split)

lemma applyDaemonLaunch_inv: "tui_inv m \<Longrightarrow> tui_inv (fst (applyDaemonLaunch m launched))"
  by (simp add: applyDaemonLaunch_def Let_def applyRegistryLoaded_inv split: sum.split)

lemma applyRefresh_inv: "tui_inv m \<Longrightarrow> tui_inv (applyRefresh m key generation answer)"
  by (auto simp: applyRefresh_def Let_def applyRuntime_inv intro!: appendEvents_inv split: sum.split)

lemma applyAction_inv: "tui_inv m \<Longrightarrow> tui_inv (fst (applyAction m key generation action answer))"
  by (simp add: applyAction_def Let_def applyRuntime_inv split: sum.split)

lemma applyTick_inv: "tui_inv m \<Longrightarrow> tui_inv (fst (applyTick m))"
  by (simp add: applyTick_def Let_def)

lemma TuiUpdate_inv: "tui_inv m \<Longrightarrow> ok_result (TuiUpdate env m msg)"
  by (cases msg) (simp_all add: TuiUpdate_def Let_def applyIdentityLoaded_inv applyIdentitySaved_inv updateEditor_inv
      updateConfirmation_inv updateKey_inv applyRegistryLoaded_inv applyDaemonLaunch_inv applyRefresh_inv applyAction_inv applyTick_inv)

section \<open>Reachable states\<close>

text \<open>Messages may come in any order and with any content.\<close>

inductive tui_reachable :: "tui_env \<Rightarrow> bool \<Rightarrow> tui \<Rightarrow> bool" for env launcher where
  start: "tui_reachable env launcher (NewModel launcher)"
| step: "tui_reachable env launcher m \<Longrightarrow> TuiUpdate env m msg = Some (m', cmd) \<Longrightarrow> tui_reachable env launcher m'"

lemma reachable_inv: "tui_reachable env launcher m \<Longrightarrow> tui_inv m"
proof (induction rule: tui_reachable.induct)
  case (step m msg m' cmd)
  then show ?case using TuiUpdate_inv [of m env msg] by simp
qed (rule NewModel_inv)

text \<open>C20: The terminal interface never panics while it updates.  Whatever messages arrive in whatever
  order, each update of a state so reached gives a state; the selected process is one of the list,
  and the retained output is in the order of its sequence numbers, without a repetition and with at
  most four hundred events.\<close>

theorem tui_never_panics:
  assumes "tui_reachable env launcher m"
  shows "(\<exists>m' cmd. TuiUpdate env m msg = Some (m', cmd)) \<and>
     (tuItems m \<noteq> [] \<longrightarrow> 0 \<le> tuSelected m \<and> tuSelected m < int (length (tuItems m))) \<and>
     sorted_wrt (<) (map eSequence (tuEvents m)) \<and> length (tuEvents m) \<le> 400"
  using TuiUpdate_inv [OF reachable_inv [OF assms], of env msg] reachable_inv [OF assms]
  by (auto simp: ok_result_def tui_inv_def selection_ok_def events_ok_def outputLimit_def split: option.splits)

theorem tui_never_panics_witness:
  "\<forall>env. \<exists>m' cmd. TuiUpdate env (NewModel True) (KeyPress ''enter'') = Some (m', cmd)"
  using tui_never_panics [OF tui_reachable.start, of _ True "KeyPress ''enter''"] by blast

section \<open>The layout fits the terminal\<close>

text \<open>The panes fit the terminal.  In a terminal of the least size that the interface accepts, or a
  larger one, the panes of a workspace have at least one cell, and with the header and a footer of one
  or two lines they fill the terminal exactly: side by side and the summary above the output where it
  is wide, one above the other where it is not.\<close>

theorem layout_fits:
  assumes "64 \<le> tuWidth m" and "18 \<le> tuHeight m" and "footer \<in> {1, 2}"
  shows "let l = workspaceLayoutWithFooter m footer
     in 1 + wlBodyHeight l + footer = tuHeight m \<and>
        (if wlWide l then wlNavigatorWidth l + wlSummaryWidth l = tuWidth m \<and> wlNavigatorHeight l = wlBodyHeight l \<and>
           wlSummaryHeight l + wlOutputHeight l = wlBodyHeight l
         else wlNavigatorWidth l = tuWidth m \<and> wlSummaryWidth l = tuWidth m \<and>
           wlNavigatorHeight l + wlSummaryHeight l + wlOutputHeight l = wlBodyHeight l) \<and>
        wlOutputWidth l = wlSummaryWidth l \<and>
        0 < wlNavigatorWidth l \<and> 0 < wlNavigatorHeight l \<and> 0 < wlSummaryWidth l \<and> 0 < wlSummaryHeight l \<and> 0 < wlOutputHeight l"
  using assms by (auto simp: workspaceLayoutWithFooter_def viewportSize_def Let_def min_def max_def)

theorem layout_fits_witness:
  "wlOutputHeight (workspaceLayoutWithFooter ((NewModel True)\<lparr>tuWidth := 64, tuHeight := 18\<rparr>) 2) > 0"
  using layout_fits [of "(NewModel True)\<lparr>tuWidth := 64, tuHeight := 18\<rparr>" 2] by (simp add: Let_def)

section \<open>An editor lost while it is saved\<close>

text \<open>A list of messages, each handled in turn; the result is the last state and command.\<close>

fun tuiRun :: "tui_env \<Rightarrow> tui \<Rightarrow> tui_cmd \<Rightarrow> tui_msg list \<Rightarrow> (tui \<times> tui_cmd) option" where
  "tuiRun env m cmd [] = Some (m, cmd)"
| "tuiRun env m cmd (msg # msgs) = Option.bind (TuiUpdate env m msg) (\<lambda>(m', cmd'). tuiRun env m' cmd' msgs)"

text \<open>A key pressed while a change is being saved can end the program.  The completed form handles
  the key and asks for confirmation again; the answer of the save then drops the editor but not the
  question; and if it is answered with yes, the command to save dereferences the missing editor.\<close>

theorem save_without_editor:
  assumes "tuEditor m = Some e" and "edForm e = FormCompleted" and "edKind e = EditorPersona"
    and "validatePersona (teParse env) (edPersona e) = None"
    and "tuConfirmation m = Some \<lparr>cnKind = EditorPersona, cnApprove = True\<rparr>"
  shows "\<exists>m'. tuiRun env m NoCmd [KeyPress ''enter'', KeyPress ''x'', IdentitySaved EditorPersona (Inr snapshot),
       KeyPress ''y'', KeyPress ''enter''] = Some (m', SaveIdentityCmd EditorPersona None) \<and>
     runCommand c (SaveIdentityCmd EditorPersona None) = None"
  using assms
  by (simp add: TuiUpdate_def updateConfirmation_def updateEditor_def formUpdate_def completeEditor_def applyIdentitySaved_def Let_def)

definition sample_tui_env :: tui_env where
  "sample_tui_env = \<lparr>teForm = (\<lambda>e msg. e\<lparr>edForm := FormCompleted\<rparr>), teParse = Some, teText = (\<lambda>e. ''error'')\<rparr>"

definition sample_snapshot :: service_snapshot where
  "sample_snapshot = \<lparr>ssState = sample_state, ssSessions = [], ssChecks = []\<rparr>"

text \<open>From the first state: to the personas, into the editor, through the form, and yes.\<close>

definition to_confirmation :: "tui_msg list" where
  "to_confirmation = [KeyPress ''right'', IdentityLoaded (Inr sample_snapshot), KeyPress ''enter'', KeyPress ''enter'', KeyPress ''y'']"

lemma to_confirmation_run:
  "\<exists>m cmd e. tuiRun sample_tui_env (NewModel True) NoCmd to_confirmation = Some (m, cmd) \<and> tuEditor m = Some e \<and>
     edForm e = FormCompleted \<and> edKind e = EditorPersona \<and> edPersona e = sample_persona \<and>
     tuConfirmation m = Some \<lparr>cnKind = EditorPersona, cnApprove = True\<rparr>"
proof -
  have p: "stPersonas sample_state = [sample_persona]" by (simp add: sample_state_def)
  have v: "validatePersona Some sample_persona = None" by code_simp
  show ?thesis
    by (simp add: to_confirmation_def TuiUpdate_def updateKey_def switchWorkspace_def tabOrder_def applyIdentityLoaded_def
        sample_snapshot_def updatePersonasKey_def openPersonaEditor_def chosen_def p editorOf_def updateEditor_def formUpdate_def
        completeEditor_def v sample_tui_env_def updateConfirmation_def NewModel_def Let_def)
qed

theorem save_without_editor_witness:
  "\<exists>m m' cmd. tuiRun sample_tui_env (NewModel True) NoCmd to_confirmation = Some (m, cmd) \<and>
     tuiRun sample_tui_env m NoCmd [KeyPress ''enter'', KeyPress ''x'', IdentitySaved EditorPersona (Inr sample_snapshot),
       KeyPress ''y'', KeyPress ''enter''] = Some (m', SaveIdentityCmd EditorPersona None)"
proof -
  obtain m cmd e where r: "tuiRun sample_tui_env (NewModel True) NoCmd to_confirmation = Some (m, cmd)"
    and e: "tuEditor m = Some e" "edForm e = FormCompleted" "edKind e = EditorPersona" "edPersona e = sample_persona"
      "tuConfirmation m = Some \<lparr>cnKind = EditorPersona, cnApprove = True\<rparr>"
    using to_confirmation_run by blast
  have "validatePersona (teParse sample_tui_env) (edPersona e) = None"
    unfolding e sample_tui_env_def tui_env.simps by code_simp
  from save_without_editor [OF e(1-3) this e(5)] r show ?thesis by blast
qed

end
