(* ===== verification/TerminalOutput.thy ===== *)
theory TerminalOutput
  imports Prelude
begin

text \<open>
  The filter that process output passes before it reaches the terminal
  (\<open>internal/terminalstyle/output.go\<close>).  The index of the source into \<open>value\<close> is the rest of the
  string here.  \<open>tame\<close> is what the filter lets through: tabs, newlines, well-formed SGR sequences and the
  bytes from 0x20 on.  Among the last are DEL and, outside of UTF-8 sequences, the one-byte control
  codes from 0x80 on, which a terminal may obey: the filter does not know them (\<open>c1_control_passes\<close>).  \<open>ansi.Strip\<close> of the x/ansi package is a parameter.
\<close>

section \<open>The filter\<close>

abbreviation escape :: char where "escape \<equiv> CHR 0x1B"

definition validSGR :: "bytes \<Rightarrow> bool" where
  "validSGR parameters = list_all (\<lambda>c. c \<in> set ''0123456789'' \<or> c = CHR '';'' \<or> c = CHR '':'') parameters"

definition final_byte :: "char \<Rightarrow> bool" where
  "final_byte c \<longleftrightarrow> 0x40 \<le> (of_char c :: nat) \<and> of_char c \<le> (0x7e :: nat)"

text \<open>The parameters, the final byte and the rest of a control sequence, after its introducer.\<close>

fun csi :: "bytes \<Rightarrow> (bytes \<times> char \<times> bytes) option" where
  "csi [] = None"
| "csi (c # s) = (if final_byte c then Some ([], c, s) else map_option (\<lambda>(ps, f, r). (c # ps, f, r)) (csi s))"

text \<open>What is left after an operating system command: it ends at BEL or at ESC \<open>\\<close>.\<close>

fun oscRest :: "bytes \<Rightarrow> bytes" where
  "oscRest [] = []"
| "oscRest (c # s) =
     (if c = CHR 0x07 then s
      else if c = escape \<and> s \<noteq> [] \<and> hd s = CHR 0x5C then tl s
      else oscRest s)"

lemma csi_shape: "csi s = Some (ps, f, r) \<Longrightarrow> s = ps @ f # r \<and> final_byte f \<and> (\<forall>c\<in>set ps. \<not> final_byte c)"
  by (induction s arbitrary: ps) (auto split: if_splits)

lemma csi_exact: "\<forall>c\<in>set ps. \<not> final_byte c \<Longrightarrow> final_byte f \<Longrightarrow> csi (ps @ f # r) = Some (ps, f, r)"
  by (induction ps) auto

lemma oscRest_suffix: "suffix (oscRest s) s"
  by (induction s) (auto simp: suffix_ConsI suffix_tl)

lemma oscRest_length: "length (oscRest s) \<le> length s"
  using oscRest_suffix by (rule suffix_length_le)

function SanitizeOutput :: "bytes \<Rightarrow> bytes" where
  "SanitizeOutput [] = []"
| "SanitizeOutput (c # s) =
     (if c = escape then
        (case s of
           [] \<Rightarrow> []
         | d # t \<Rightarrow>
             if d = CHR ''['' then
               (case csi t of
                  None \<Rightarrow> []
                | Some (ps, f, rest) \<Rightarrow>
                    (if f = CHR ''m'' \<and> validSGR ps then escape # CHR ''['' # ps @ [f] else []) @ SanitizeOutput rest)
             else if d = CHR '']'' then SanitizeOutput (oscRest t)
             else SanitizeOutput t)
      else if of_char c < (0x20 :: nat) \<and> c \<noteq> CHR 0x09 \<and> c \<noteq> CHR 0x0A then SanitizeOutput s
      else c # SanitizeOutput s)"
  by pat_completeness auto
termination
  by (relation "measure length") (auto dest!: csi_shape simp: le_imp_less_Suc le_SucI oscRest_length)

definition RenderOutput :: "(bytes \<Rightarrow> bytes) \<Rightarrow> bytes \<Rightarrow> bool \<Rightarrow> bytes" where
  "RenderOutput strip v color = (if \<not> color then strip (SanitizeOutput v) else SanitizeOutput v)"

section \<open>What passes\<close>

definition passes :: "char \<Rightarrow> bool" where
  "passes c \<longleftrightarrow> c = CHR 0x09 \<or> c = CHR 0x0A \<or> 0x20 \<le> (of_char c :: nat)"

inductive tame :: "bytes \<Rightarrow> bool" where
  tame_Nil: "tame []"
| tame_plain: "passes c \<Longrightarrow> tame s \<Longrightarrow> tame (c # s)"
| tame_sgr: "validSGR ps \<Longrightarrow> tame s \<Longrightarrow> tame (escape # CHR ''['' # ps @ CHR ''m'' # s)"

lemma passes_escape [simp]: "\<not> passes escape"
  by (simp add: passes_def)

lemma tame_append: "tame s \<Longrightarrow> tame t \<Longrightarrow> tame (s @ t)"
  by (induction rule: tame.induct) (simp_all add: tame.intros)

lemma tame_concat: "\<forall>s\<in>set ss. tame s \<Longrightarrow> tame (concat ss)"
  by (induction ss) (simp_all add: tame_append tame_Nil)

lemma sgr_byte: "c \<in> set ''0123456789'' \<or> c = CHR '';'' \<or> c = CHR '':'' \<Longrightarrow> \<not> final_byte c"
  by (auto simp: final_byte_def)

lemma sgr_final: "validSGR ps \<Longrightarrow> \<forall>c\<in>set ps. \<not> final_byte c"
  unfolding validSGR_def list_all_iff using sgr_byte by blast

lemma sanitize_sgr:
  assumes "validSGR ps"
  shows "SanitizeOutput (escape # CHR ''['' # ps @ CHR ''m'' # s) = escape # CHR ''['' # ps @ CHR ''m'' # SanitizeOutput s"
  using assms csi_exact [OF sgr_final [OF assms], of "CHR ''m''" s] by (simp add: final_byte_def)

lemma sanitize_plain: "passes c \<Longrightarrow> SanitizeOutput (c # s) = c # SanitizeOutput s"
  by (cases "c = escape") (auto simp: passes_def)

text \<open>One step of the loop: it ends, skips a part of the input, copies an SGR sequence or copies a byte.\<close>

lemma sanitize_step:
  obtains (ends) "SanitizeOutput v = []"
  | (skips) w where "SanitizeOutput v = SanitizeOutput w" "suffix w v" "length w < length v"
  | (styles) ps w where "v = escape # CHR ''['' # ps @ CHR ''m'' # w" "validSGR ps"
  | (copies) c w where "v = c # w" "passes c"
proof (cases v)
  case (Cons c s)
  show ?thesis
  proof (cases "c = escape")
    case True
    show ?thesis
    proof (cases s)
      case (Cons d t)
      consider "d = CHR ''[''" "csi t = None" | ps f r where "d = CHR ''[''" "csi t = Some (ps, f, r)"
        | "d = CHR '']''" | "d \<noteq> CHR ''[''" "d \<noteq> CHR '']''" by (metis option.exhaust prod_cases3)
      then show ?thesis
      proof cases
        case 2
        then have v: "v = escape # CHR ''['' # ps @ f # r" using csi_shape \<open>v = c # s\<close> \<open>c = escape\<close> Cons by blast
        show ?thesis
        proof (cases "f = CHR ''m'' \<and> validSGR ps")
          case True
          with v show ?thesis by (intro styles) auto
        next
          case False
          then have "SanitizeOutput v = SanitizeOutput r" using 2 \<open>v = c # s\<close> \<open>c = escape\<close> Cons by auto
          with v show ?thesis by (intro skips) (auto simp: suffix_def)
        qed
      next
        case 3
        then show ?thesis using skips [of "oscRest t"] oscRest_length [of t] oscRest_suffix [of t] \<open>v = c # s\<close> \<open>c = escape\<close> Cons
          by (auto simp: suffix_Cons)
      qed (use ends skips [of t] \<open>v = c # s\<close> \<open>c = escape\<close> Cons in \<open>auto simp: suffix_Cons\<close>)
    qed (use ends \<open>v = c # s\<close> \<open>c = escape\<close> in simp)
  next
    case False
    then show ?thesis using copies [of c s] skips [of s] Cons by (cases "passes c") (auto simp: passes_def suffix_Cons)
  qed
qed (use ends in simp)

declare SanitizeOutput.simps(2) [simp del]

lemmas sanitize_simps = sanitize_sgr sanitize_plain SanitizeOutput.simps(1)

lemma tame_sanitize: "tame (SanitizeOutput v)"
proof (induction v rule: measure_induct_rule [of length])
  case (less v)
  then show ?case by (cases v rule: sanitize_step) (simp_all add: sanitize_simps tame.intros)
qed

lemma sanitize_tame: "tame v \<Longrightarrow> SanitizeOutput v = v"
  by (induction rule: tame.induct) (simp_all add: sanitize_simps)

lemma subseq_sanitize: "subseq (SanitizeOutput v) v"
proof (induction v rule: measure_induct_rule [of length])
  case (less v)
  show ?case
  proof (cases v rule: sanitize_step)
    case (skips w)
    with less have "subseq (SanitizeOutput w) w" by blast
    with skips show ?thesis by (metis suffix_imp_subseq subseq_order.trans)
  qed (use less in \<open>simp_all add: sanitize_simps subseq_append'\<close>)
qed

section \<open>The properties\<close>

lemma sgr_bytes: "validSGR ps \<Longrightarrow> c \<in> set ps \<Longrightarrow> \<not> of_char c < (0x20 :: nat) \<and> c \<noteq> escape"
  unfolding validSGR_def list_all_iff by fastforce

lemma split_after:
  assumes "x \<notin> set us" and "us @ s = vs @ x # ys"
  shows "\<exists>ws. s = ws @ x # ys"
proof -
  obtain zs where "us = vs @ zs \<and> zs @ s = x # ys \<or> us @ zs = vs \<and> s = zs @ x # ys"
    using assms(2) by (auto simp: append_eq_append_conv2)
  with assms(1) show ?thesis by (cases zs) auto
qed

lemma tame_escape:
  "tame v \<Longrightarrow> v = xs @ escape # ys \<Longrightarrow> \<exists>ps zs. ys = CHR ''['' # ps @ CHR ''m'' # zs \<and> validSGR ps"
proof (induction arbitrary: xs rule: tame.induct)
  case (tame_plain c s)
  then obtain x where "xs = c # x" by (cases xs) auto
  with tame_plain show ?case by simp
next
  case (tame_sgr ps s)
  show ?case
  proof (cases xs)
    case Nil
    with tame_sgr show ?thesis by auto
  next
    case (Cons x us)
    have "escape \<notin> set (CHR ''['' # ps @ [CHR ''m''])" using sgr_bytes [OF tame_sgr(1)] by auto
    moreover have "(CHR ''['' # ps @ [CHR ''m'']) @ s = us @ escape # ys" using Cons tame_sgr(4) by simp
    ultimately obtain ws where "s = ws @ escape # ys" using split_after by metis
    with tame_sgr.IH show ?thesis by blast
  qed
qed simp

lemma tame_low:
  assumes "tame v"
  shows "\<forall>c\<in>set v. of_char c < (0x20 :: nat) \<longrightarrow> c = CHR 0x09 \<or> c = CHR 0x0A \<or> c = escape"
  using assms
proof (induction rule: tame.induct)
  case (tame_plain c s)
  then show ?case unfolding passes_def by auto
next
  case (tame_sgr ps s)
  moreover have "\<not> of_char c < (0x20 :: nat)" if "c \<in> set (CHR ''['' # ps @ [CHR ''m''])" for c
    using that sgr_bytes [OF tame_sgr(1)] by auto
  ultimately show ?case by auto
qed simp

text \<open>C29: What the filter takes from the output of a process, in whatever pieces it comes.  Of the bytes below
  0x20 only tabs, newlines and escapes are left, and every escape that is left begins a well-formed SGR
  sequence: no other escape sequence and no other control byte below 0x20 reaches the terminal.  The
  bytes from 0x20 on pass as they are, DEL and the one-byte controls above 0x7F included
  (\<open>c1_control_passes\<close>).  The filter changes a text exactly when it holds something else, and what it
  lets through appears in the text in the same order.\<close>

theorem output_tame:
  "tame (concat (map SanitizeOutput chunks)) \<and> (SanitizeOutput v = v \<longleftrightarrow> tame v) \<and> subseq (SanitizeOutput v) v \<and>
   {c \<in> set (concat (map SanitizeOutput chunks)). of_char c < (0x20 :: nat)} \<subseteq> {CHR 0x09, CHR 0x0A, escape} \<and>
   {ys. \<exists>xs. concat (map SanitizeOutput chunks) = xs @ escape # ys} \<subseteq> {CHR ''['' # ps @ CHR ''m'' # zs | ps zs. validSGR ps}"
proof (intro conjI)
  show t: "tame (concat (map SanitizeOutput chunks))"
    by (rule tame_concat) (auto intro: tame_sanitize)
  show "SanitizeOutput v = v \<longleftrightarrow> tame v" using tame_sanitize sanitize_tame by metis
  show "subseq (SanitizeOutput v) v" by (rule subseq_sanitize)
  show "{c \<in> set (concat (map SanitizeOutput chunks)). of_char c < (0x20 :: nat)} \<subseteq> {CHR 0x09, CHR 0x0A, escape}"
    using tame_low [OF t] by blast
  show "{ys. \<exists>xs. concat (map SanitizeOutput chunks) = xs @ escape # ys} \<subseteq> {CHR ''['' # ps @ CHR ''m'' # zs | ps zs. validSGR ps}"
    using tame_escape [OF t] by blast
qed

text \<open>The introducer of a control sequence in one byte, and the DEL byte, are not control sequences to
  the filter.\<close>

theorem c1_control_passes:
  "SanitizeOutput (CHR 0x9B # ''2J'') = CHR 0x9B # ''2J'' \<and> SanitizeOutput [CHR 0x7F] = [CHR 0x7F]"
  by (simp add: sanitize_plain sanitize_simps passes_def)

end
