(* ===== verification/Release.thy ===== *)
theory Release
  imports Paths
begin

text \<open>
  The release packer (\<open>cmd/releasepack/main.go\<close>): the checksum beside an archive, the extraction of
  an archive below a temporary directory, the check of its file set and of its binaries, the search for
  the root of the repository and the check of the licences.  The disk is the state: files with their
  mode and contents, and directories.  What an archive holds once its bytes are decoded (packages
  \<open>archive/zip\<close>, \<open>archive/tar\<close>, \<open>compress/gzip\<close>), SHA-256, the commands that are run and the failures of
  the operating system are the fields of \<open>release_os\<close>.
\<close>

unbundle bit_operations_syntax

section \<open>The system\<close>

datatype entry_kind = TypeReg | TypeDir | TypeOther

text \<open>\<open>aeData\<close>: the bytes that can be read, and whether they end without an error; \<open>aeOpens\<close> is the
  answer of \<open>Open\<close> for an entry of a zip archive.\<close>

record archive_entry =
  aeName :: string
  aeKind :: entry_kind
  aeMode :: "32 word"
  aeOpens :: bool
  aeData :: "bytes \<times> bool"

record disk =
  dkFiles :: "(string, 32 word \<times> bytes) gomap"
  dkDirs :: "string list"

record release_os =
  roReadable :: "string \<Rightarrow> bool"
  roWritable :: "string \<Rightarrow> bool"
  roMkdir :: "string \<Rightarrow> bool"
  roMkdirTemp :: "string \<Rightarrow> string option"
  roUmask :: "32 word"
  roGetwd :: "string option"
  roWalks :: "string \<Rightarrow> bool"  \<comment> \<open>whether a directory can be listed\<close>
  roHash :: "bytes \<Rightarrow> 8 word list"
  roZip :: "bytes \<Rightarrow> archive_entry list option"
  roTar :: "bytes \<Rightarrow> (archive_entry list \<times> bool) option"  \<comment> \<open>the entries, and whether the stream ends well\<close>
  roRun :: "string \<Rightarrow> string list \<Rightarrow> string \<times> bool"  \<comment> \<open>combined output and success\<close>
  roModules :: "string \<Rightarrow> string option"  \<comment> \<open>\<open>go list\<close> in a directory\<close>

datatype release_error =
    CannotRead string | CannotWrite string | CannotMkdir string | CannotWalk | NoTemporary | NoWorkingDirectory
  | InvalidChecksumFile | HashMismatch | UnsafePath string | UnsupportedEntry string | UnreadableEntry string
  | UnreadableArchive | WrongSuffix | FileSetDiffers | NotExecutable string | CommandFailed string | WrongOutput string
  | NoRepositoryRoot | CannotListModules | LineTooLong | MissingLicenses "string list"
  | NotTheWindowsArchive | NoPlaceholder

definition readFile :: "release_os \<Rightarrow> disk \<Rightarrow> string \<Rightarrow> bytes option" where
  "readFile os w path = (if roReadable os path then map_option snd (map_of (dkFiles w) path) else None)"

definition isDirectory :: "disk \<Rightarrow> string \<Rightarrow> bool" where
  "isDirectory w path = List.member (dkDirs w) path"

definition addDirectory :: "disk \<Rightarrow> string \<Rightarrow> disk" where
  "addDirectory w path = w\<lparr>dkDirs := path # dkDirs w\<rparr>"

lemma isDirectory_files [simp]: "isDirectory (w\<lparr>dkFiles := fs\<rparr>) path = isDirectory w path"
  by (simp add: isDirectory_def)

text \<open>\<open>os.OpenFile\<close> with \<open>O_CREATE|O_TRUNC|O_WRONLY\<close>, the copy and the close.  A file that exists keeps
  its mode.\<close>

definition createFile :: "release_os \<Rightarrow> disk \<Rightarrow> string \<Rightarrow> 32 word \<Rightarrow> bytes \<times> bool \<Rightarrow> disk \<times> bool" where
  "createFile os w path mode content =
     (if \<not> roWritable os path \<or> isDirectory w path \<or> \<not> isDirectory w (dirPath path) then (w, False)
      else (w\<lparr>dkFiles := map_put (dkFiles w) path
                (case map_of (dkFiles w) path of Some (kept, _) \<Rightarrow> kept | None \<Rightarrow> mode AND NOT (roUmask os), fst content)\<rparr>,
            snd content))"

text \<open>A path and the directories above it.\<close>

definition enclosing :: "string \<Rightarrow> string list" where
  "enclosing path = map (renderPath (isAbs path)) (prefixes (cleanComps path))"

definition mkdirAll :: "release_os \<Rightarrow> disk \<Rightarrow> string \<Rightarrow> disk \<times> bool" where
  "mkdirAll os w path =
     (if \<not> roMkdir os path \<or> list_ex (\<lambda>p. map_of (dkFiles w) p \<noteq> None) (enclosing path) then (w, False)
      else (w\<lparr>dkDirs := filter (\<lambda>d. \<not> isDirectory w d) (enclosing path) @ dkDirs w\<rparr>, True))"

definition removeAll :: "disk \<Rightarrow> string \<Rightarrow> disk" where
  "removeAll w path = w\<lparr>dkFiles := filter (\<lambda>(p, _). \<not> within p path) (dkFiles w), dkDirs := filter (\<lambda>d. \<not> within d path) (dkDirs w)\<rparr>"

definition absPath :: "release_os \<Rightarrow> string \<Rightarrow> string option" where
  "absPath os path = (if isAbs path then Some (clean path) else map_option (\<lambda>wd. joinPath wd path) (roGetwd os))"

section \<open>The checksum\<close>

text \<open>\<open>strings.Fields\<close>: the parts of a string between runs of white space.\<close>

fun spaceLength :: "string \<Rightarrow> nat" where
  "spaceLength [] = 0"
| "spaceLength (c # s) =
     (if ascii_space c then 1
      else case find (hasPrefix (c # s)) wide_spaces of None \<Rightarrow> 0 | Some w \<Rightarrow> length w)"

function fieldsFrom :: "string \<Rightarrow> string \<Rightarrow> string list" where
  "fieldsFrom field [] = (if field = [] then [] else [field])"
| "fieldsFrom field (c # s) =
     (if spaceLength (c # s) = 0 then fieldsFrom (field @ [c]) s
      else (if field = [] then [] else [field]) @ fieldsFrom [] (drop (spaceLength (c # s) - 1) s))"
  by pat_completeness auto
termination by (relation "measure (\<lambda>(f, s). length s)") auto

definition fields_of :: "string \<Rightarrow> string list" where
  "fields_of s = fieldsFrom [] s"

definition checksumPath :: "string \<Rightarrow> string" where
  "checksumPath path = path @ ''.sha256''"

definition checksumLine :: "release_os \<Rightarrow> string \<Rightarrow> bytes \<Rightarrow> string" where
  "checksumLine os path content = hexBytes (roHash os content) @ ''  '' @ basePath path @ [CHR 0x0A]"

definition writeChecksum :: "release_os \<Rightarrow> disk \<Rightarrow> string \<Rightarrow> disk \<times> release_error option" where
  "writeChecksum os w path =
     (case readFile os w path of
        None \<Rightarrow> (w, Some (CannotRead path))
      | Some content \<Rightarrow>
          (case createFile os w (checksumPath path) 420 (checksumLine os path content, True) of
             (w', ok) \<Rightarrow> (w', if ok then None else Some (CannotWrite (checksumPath path)))))"

definition verifyChecksum :: "release_os \<Rightarrow> disk \<Rightarrow> string \<Rightarrow> release_error option" where
  "verifyChecksum os w archive =
     (case readFile os w (checksumPath archive) of
        None \<Rightarrow> Some (CannotRead (checksumPath archive))
      | Some line \<Rightarrow>
          (case fields_of line of
             [digest, name] \<Rightarrow>
               if name \<noteq> basePath archive then Some InvalidChecksumFile
               else (case readFile os w archive of
                       None \<Rightarrow> Some (CannotRead archive)
                     | Some content \<Rightarrow> if hexBytes (roHash os content) \<noteq> map lower digest then Some HashMismatch else None)
           | _ \<Rightarrow> Some InvalidChecksumFile))"

section \<open>Extraction\<close>

definition safeExtractPath :: "string \<Rightarrow> string \<Rightarrow> (release_error, string) sum" where
  "safeExtractPath root name =
     (let path = joinPath root name; cleanRoot = clean root @ ''/''
      in if \<not> hasPrefix (clean path @ ''/'') cleanRoot then Inl (UnsafePath name) else Inr path)"

text \<open>A regular file of an archive: its directory, then its bytes.\<close>

definition extractFile :: "release_os \<Rightarrow> disk \<Rightarrow> string \<Rightarrow> archive_entry \<Rightarrow> disk \<times> release_error option" where
  "extractFile os w path entry =
     (case mkdirAll os w (dirPath path) of
        (w1, False) \<Rightarrow> (w1, Some (CannotMkdir (dirPath path)))
      | (w1, True) \<Rightarrow>
          (case createFile os w1 path (aeMode entry) (aeData entry) of
             (w2, ok) \<Rightarrow> (w2, if ok then None else Some (CannotWrite path))))"

definition extractDirectory :: "release_os \<Rightarrow> disk \<Rightarrow> string \<Rightarrow> disk \<times> release_error option" where
  "extractDirectory os w path = (case mkdirAll os w path of (w1, ok) \<Rightarrow> (w1, if ok then None else Some (CannotMkdir path)))"

fun extractZipEntries :: "release_os \<Rightarrow> string \<Rightarrow> disk \<Rightarrow> archive_entry list \<Rightarrow> disk \<times> release_error option" where
  "extractZipEntries os destination w [] = (w, None)"
| "extractZipEntries os destination w (entry # es) =
     (case safeExtractPath destination (aeName entry) of
        Inl e \<Rightarrow> (w, Some e)
      | Inr path \<Rightarrow>
          (case (if aeKind entry = TypeDir then extractDirectory os w path
                 else if \<not> aeOpens entry then (w, Some (UnreadableEntry (aeName entry)))
                 else extractFile os w path entry) of
             (w', Some e) \<Rightarrow> (w', Some e)
           | (w', None) \<Rightarrow> extractZipEntries os destination w' es))"

definition extractZip :: "release_os \<Rightarrow> disk \<Rightarrow> string \<Rightarrow> string \<Rightarrow> disk \<times> release_error option" where
  "extractZip os w archive destination =
     (case readFile os w archive of
        None \<Rightarrow> (w, Some (CannotRead archive))
      | Some content \<Rightarrow>
          (case roZip os content of
             None \<Rightarrow> (w, Some UnreadableArchive)
           | Some entries \<Rightarrow> extractZipEntries os destination w entries))"

fun extractTarEntries :: "release_os \<Rightarrow> string \<Rightarrow> disk \<Rightarrow> archive_entry list \<Rightarrow> bool \<Rightarrow> disk \<times> release_error option" where
  "extractTarEntries os destination w [] ends = (w, if ends then None else Some UnreadableArchive)"
| "extractTarEntries os destination w (entry # es) ends =
     (case safeExtractPath destination (aeName entry) of
        Inl e \<Rightarrow> (w, Some e)
      | Inr path \<Rightarrow>
          (case (case aeKind entry of
                   TypeDir \<Rightarrow> extractDirectory os w path
                 | TypeReg \<Rightarrow> extractFile os w path entry
                 | TypeOther \<Rightarrow> (w, Some (UnsupportedEntry (aeName entry)))) of
             (w', Some e) \<Rightarrow> (w', Some e)
           | (w', None) \<Rightarrow> extractTarEntries os destination w' es ends))"

definition extractTarGzip :: "release_os \<Rightarrow> disk \<Rightarrow> string \<Rightarrow> string \<Rightarrow> disk \<times> release_error option" where
  "extractTarGzip os w archive destination =
     (case readFile os w archive of
        None \<Rightarrow> (w, Some (CannotRead archive))
      | Some content \<Rightarrow>
          (case roTar os content of
             None \<Rightarrow> (w, Some UnreadableArchive)
           | Some (entries, ends) \<Rightarrow> extractTarEntries os destination w entries ends))"

section \<open>The check of an archive\<close>

definition archiveFiles :: "release_os \<Rightarrow> disk \<Rightarrow> string \<Rightarrow> string list option" where
  "archiveFiles os w root =
     (if \<not> list_all (\<lambda>d. within d root \<longrightarrow> roWalks os d) (dkDirs w) then None
      else Some (sortStrings (List.map_filter (relPath root) (filter (\<lambda>p. within p root) (map_keys (dkFiles w))))))"

definition expectOutput :: "release_os \<Rightarrow> string \<Rightarrow> string \<Rightarrow> string \<Rightarrow> release_error option" where
  "expectOutput os path argument expected =
     (case roRun os path [argument] of
        (output, ok) \<Rightarrow>
          if \<not> ok then Some (CommandFailed path)
          else if trimSpace output \<noteq> expected then Some (WrongOutput path) else None)"

definition expectSuccess :: "release_os \<Rightarrow> string \<Rightarrow> string list \<Rightarrow> release_error option" where
  "expectSuccess os path arguments = (if snd (roRun os path arguments) then None else Some (CommandFailed path))"

definition archiveBase :: "string \<Rightarrow> string" where
  "archiveBase archive = trimSuffix (trimSuffix (basePath archive) ''.zip'') ''.tar.gz''"

definition archiveSuffix :: "string \<Rightarrow> string" where
  "archiveSuffix base = (if contains base ''-windows-'' then ''.exe'' else [])"

definition expectedFiles :: "string \<Rightarrow> string list" where
  "expectedFiles base =
     sortStrings (map ((@) base)
       [''/CHANGELOG.md'', ''/LICENSE'', ''/README.md'', ''/THIRD_PARTY_LICENSES.md'',
        ''/dovik'' @ archiveSuffix base, ''/dovikd'' @ archiveSuffix base, ''/gh'' @ archiveSuffix base,
        ''/skills/README.md'', ''/skills/claude/SKILL.md'', ''/skills/codex/SKILL.md''])"

fun checkBinaries :: "release_os \<Rightarrow> disk \<Rightarrow> string \<Rightarrow> string \<Rightarrow> string \<Rightarrow> string list \<Rightarrow> release_error option" where
  "checkBinaries os w version content exe [] = None"
| "checkBinaries os w version content exe (binary # bs) =
     (let path = joinPath content (binary @ exe)
      in case map_of (dkFiles w) path of
           None \<Rightarrow> Some (NotExecutable binary)
         | Some (mode, _) \<Rightarrow>
             if mode AND 73 = 0 then Some (NotExecutable binary)  \<comment> \<open>0111\<close>
             else (case expectOutput os path ''--version'' (binary @ '' '' @ version) of
                     Some e \<Rightarrow> Some e
                   | None \<Rightarrow>
                       (case expectSuccess os path [''--help''] of
                          Some e \<Rightarrow> Some e
                        | None \<Rightarrow> checkBinaries os w version content exe bs)))"

definition extractArchive :: "release_os \<Rightarrow> disk \<Rightarrow> string \<Rightarrow> string \<Rightarrow> disk \<times> release_error option" where
  "extractArchive os w archive temporary =
     (if hasSuffix archive ''.zip'' then extractZip os w archive temporary
      else if hasSuffix archive ''.tar.gz'' then extractTarGzip os w archive temporary
      else (w, Some WrongSuffix))"

definition verifyExtracted :: "release_os \<Rightarrow> disk \<Rightarrow> string \<Rightarrow> string \<Rightarrow> string \<Rightarrow> release_error option" where
  "verifyExtracted os w version archive temporary =
     (case archiveFiles os w temporary of
        None \<Rightarrow> Some CannotWalk
      | Some entries \<Rightarrow>
          let base = archiveBase archive; nl = [CHR 0x0A]
          in if joinWith nl entries \<noteq> joinWith nl (expectedFiles base) then Some FileSetDiffers
             else checkBinaries os w version (joinPath temporary base) (archiveSuffix base) [''dovik'', ''dovikd''])"

text \<open>\<open>verifyArchive\<close>, with the removal of the temporary directory that it defers.\<close>

definition verifyArchive :: "release_os \<Rightarrow> disk \<Rightarrow> string \<Rightarrow> string \<Rightarrow> disk \<times> release_error option" where
  "verifyArchive os w version archive =
     (case absPath os archive of
        None \<Rightarrow> (w, Some NoWorkingDirectory)
      | Some path \<Rightarrow>
          (case verifyChecksum os w path of
             Some e \<Rightarrow> (w, Some e)
           | None \<Rightarrow>
               (case roMkdirTemp os ''dovik-verify-'' of
                  None \<Rightarrow> (w, Some NoTemporary)
                | Some temporary \<Rightarrow>
                    (case extractArchive os (addDirectory w temporary) path temporary of
                       (w', Some e) \<Rightarrow> (removeAll w' temporary, Some e)
                     | (w', None) \<Rightarrow> (removeAll w' temporary, verifyExtracted os w' version path temporary)))))"

section \<open>The root of the repository\<close>

definition present :: "disk \<Rightarrow> string \<Rightarrow> bool" where
  "present w path \<longleftrightarrow> map_of (dkFiles w) path \<noteq> None \<or> isDirectory w path"

partial_function (option) searchRoot :: "disk \<Rightarrow> string \<Rightarrow> (release_error, string) sum option" where
  "searchRoot w directory =
     (if present w (joinPath directory ''go.mod'') then Some (Inr directory)
      else if dirPath directory = directory then Some (Inl NoRepositoryRoot)
      else searchRoot w (dirPath directory))"

definition repositoryRoot :: "release_os \<Rightarrow> disk \<Rightarrow> (release_error, string) sum option" where
  "repositoryRoot os w = (case roGetwd os of None \<Rightarrow> Some (Inl NoWorkingDirectory) | Some wd \<Rightarrow> searchRoot w wd)"

section \<open>Licences\<close>

text \<open>The tokens of a \<open>bufio.Scanner\<close> over lines, and whether it reads all of them: its buffer holds
  at most 65,536 bytes, so a line of that length stops it.\<close>

definition dropCR :: "string \<Rightarrow> string" where
  "dropCR line = trimSuffix line [CHR 0x0D]"

definition scanLines :: "string \<Rightarrow> string list \<times> bool" where
  "scanLines s =
     (let ls = splitAt (CHR 0x0A) s;
          tokens = (if last ls = [] then butlast ls else ls);
          scanned = takeWhile (\<lambda>l. length l < 65536) tokens
      in (map dropCR scanned, length scanned = length tokens))"

definition licenseNames :: "string list" where
  "licenseNames = [''LICENSE'', ''LICENSE.md'', ''LICENSE.txt'', ''COPYING'', ''NOTICE'']"

definition licensed :: "disk \<Rightarrow> string \<Rightarrow> bool" where
  "licensed w directory = list_ex (\<lambda>name. map_of (dkFiles w) (joinPath directory name) \<noteq> None) licenseNames"

fun missingLicenses :: "disk \<Rightarrow> string list \<Rightarrow> string list \<Rightarrow> string list" where
  "missingLicenses w seen [] = []"
| "missingLicenses w seen (line # ls) =
     (case splitAt (CHR ''|'') line of
        [path, version, directory] \<Rightarrow>
          if path \<in> set seen then missingLicenses w seen ls
          else (if licensed w directory then [] else [path @ ''@'' @ version]) @ missingLicenses w (path # seen) ls
      | _ \<Rightarrow> missingLicenses w seen ls)"

definition checkLicensesAt :: "release_os \<Rightarrow> disk \<Rightarrow> string \<Rightarrow> release_error option" where
  "checkLicensesAt os w root =
     (case roModules os root of
        None \<Rightarrow> Some CannotListModules
      | Some output \<Rightarrow>
          (case scanLines output of
             (ls, complete) \<Rightarrow>
               let missing = missingLicenses w [] ls
               in if \<not> complete then Some LineTooLong
                  else if missing \<noteq> [] then Some (MissingLicenses (sortStrings missing))
                  else None))"

definition checkLicenses :: "release_os \<Rightarrow> disk \<Rightarrow> release_error option option" where
  "checkLicenses os w =
     map_option (\<lambda>r. case r of Inl e \<Rightarrow> Some e | Inr root \<Rightarrow> checkLicensesAt os w root) (repositoryRoot os w)"

section \<open>The manifest for Scoop\<close>

text \<open>\<open>strings.Replace\<close> of the first occurrence of a text that is not empty.\<close>

fun replaceFirst :: "string \<Rightarrow> string \<Rightarrow> string \<Rightarrow> string" where
  "replaceFirst old new [] = []"
| "replaceFirst old new (c # s) =
     (if hasPrefix (c # s) old then new @ drop (length old) (c # s) else c # replaceFirst old new s)"

definition renderScoopManifest :: "release_os \<Rightarrow> disk \<Rightarrow> string \<Rightarrow> string \<Rightarrow> string \<Rightarrow> (disk \<times> release_error option) option" where
  "renderScoopManifest os w version archive output =
     (if basePath archive \<noteq> ''dovik-v'' @ version @ ''-windows-x64.zip'' then Some (w, Some NotTheWindowsArchive)
      else case verifyChecksum os w archive of
             Some e \<Rightarrow> Some (w, Some e)
           | None \<Rightarrow>
               (case readFile os w (checksumPath archive) of
                  None \<Rightarrow> Some (w, Some (CannotRead (checksumPath archive)))
                | Some checksum \<Rightarrow>
                    (case fields_of checksum of
                       [digest, name] \<Rightarrow>
                         (case repositoryRoot os w of
                            None \<Rightarrow> None
                          | Some (Inl e) \<Rightarrow> Some (w, Some e)
                          | Some (Inr root) \<Rightarrow>
                              let path = joinPath (joinPath (joinPath root ''packaging'') ''scoop'') ''dovik.json''
                              in case readFile os w path of
                                   None \<Rightarrow> Some (w, Some (CannotRead path))
                                 | Some template \<Rightarrow>
                                     let manifest = replaceFirst ''RELEASE_SHA256_REQUIRED'' (map lower digest) template
                                     in if manifest = template then Some (w, Some NoPlaceholder)
                                        else (case mkdirAll os w (dirPath output) of
                                                (w1, False) \<Rightarrow> Some (w1, Some (CannotMkdir (dirPath output)))
                                              | (w1, True) \<Rightarrow>
                                                  (case createFile os w1 output 420 (manifest, True) of
                                                     (w2, ok) \<Rightarrow> Some (w2, if ok then None else Some (CannotWrite output)))))
                     | _ \<Rightarrow> Some (w, Some InvalidChecksumFile))))"

section \<open>Extraction stays below its destination\<close>

text \<open>What changed between two disks lies below \<open>root\<close>; a new directory may also lie above it.\<close>

definition confined :: "string \<Rightarrow> disk \<Rightarrow> disk \<Rightarrow> bool" where
  "confined root w w' \<longleftrightarrow>
     (\<forall>p. map_of (dkFiles w') p \<noteq> map_of (dkFiles w) p \<longrightarrow> isAbs p \<and> within p root) \<and>
     (\<forall>d. isDirectory w' d \<noteq> isDirectory w d \<longrightarrow> isAbs d \<and> (within d root \<or> within root d))"

lemma confined_refl [simp]: "confined root w w"
  by (simp add: confined_def)

lemma confined_trans: "confined root w w' \<Longrightarrow> confined root w' w'' \<Longrightarrow> confined root w w''"
  unfolding confined_def by metis

lemma isAbs_render [simp]: "isAbs (renderPath True cs)"
  by (simp add: renderPath_def)

lemma joinPath_abs:
  assumes "isAbs root"
  shows "isAbs (joinPath root name)" and "clean (joinPath root name) = joinPath root name"
proof -
  from assms have "isAbs (root @ ''/'' @ name)" by (cases root) auto
  moreover have "joinPath root name = clean (root @ ''/'' @ name)" using assms by (cases root) (auto simp: joinPath_def)
  ultimately show "isAbs (joinPath root name)" "clean (joinPath root name) = joinPath root name"
    by (simp_all add: isAbs_clean clean_clean)
qed

text \<open>The prefix test of the code, on cleaned absolute paths.  The root of the file system is no
  destination: with two slashes in front, only the root itself passes.\<close>

lemma joined_slashes: "cs \<noteq> [] \<Longrightarrow> joinWith ''/'' cs @ ''/'' = concat (map (\<lambda>c. c @ ''/'') cs)"
  by (induction cs rule: induct_list012) simp_all

lemma first_part: "slash \<notin> set c \<Longrightarrow> slash \<notin> set d \<Longrightarrow> prefix (c @ slash # s) (d @ slash # t) \<longleftrightarrow> c = d \<and> prefix s t"
proof (induction c arbitrary: d)
  case Nil
  then show ?case by (cases d) auto
next
  case (Cons x c)
  then show ?case by (cases d) auto
qed

lemma prefix_slashes:
  "\<forall>c\<in>set cs. slash \<notin> set c \<Longrightarrow> \<forall>d\<in>set ds. slash \<notin> set d \<Longrightarrow>
     prefix (concat (map (\<lambda>c. c @ ''/'') cs)) (concat (map (\<lambda>c. c @ ''/'') ds)) \<longleftrightarrow> prefix cs ds"
proof (induction cs arbitrary: ds)
  case (Cons c cs)
  then show ?case by (cases ds) (simp_all add: first_part)
qed simp

lemma proper_slashless: "proper_comp c \<Longrightarrow> c \<noteq> [] \<and> slash \<notin> set c"
  by (auto simp: proper_comp_def plain_comp_def)

lemma joinWith_first: "\<exists>t. joinWith sep (w # ws) = w @ t"
  by (cases ws) auto

lemma joined_proper:
  assumes "\<forall>d\<in>set ds. proper_comp d" and "ds \<noteq> []"
  obtains c s where "joinWith ''/'' ds = c # s" "c \<noteq> slash"
proof -
  obtain d ds' where "ds = d # ds'" using assms(2) by (cases ds) auto
  moreover obtain c e where "d = c # e" "c \<noteq> slash"
    using assms(1) calculation proper_slashless [of d] by (cases d) auto
  ultimately show thesis using joinWith_first [of "''/''" d ds'] that by auto
qed

lemma prefix_test:
  assumes "\<forall>c\<in>set cs. proper_comp c" and "\<forall>d\<in>set ds. proper_comp d"
  shows "hasPrefix (renderPath True ds @ ''/'') (renderPath True cs @ ''/'') \<longleftrightarrow> prefix cs ds \<and> (cs = [] \<longrightarrow> ds = [])"
proof (cases "cs = []")
  case True
  show ?thesis
  proof (cases "ds = []")
    case False
    then obtain c s where "joinWith ''/'' ds = c # s" "c \<noteq> slash" using joined_proper [OF assms(2)] by blast
    then show ?thesis using True False by (simp add: hasPrefix_iff renderPath_def)
  qed (simp add: True hasPrefix_iff)
next
  case False
  have cs: "\<forall>c\<in>set cs. slash \<notin> set c" and ds: "\<forall>c\<in>set ds. slash \<notin> set c" using assms proper_slashless by blast+
  show ?thesis
  proof (cases "ds = []")
    case True
    with False assms(1) show ?thesis
      by (cases cs) (auto simp: hasPrefix_iff renderPath_def joined_slashes prefix_Cons append_eq_Cons_conv dest!: proper_slashless)
  next
    case ds_ne: False
    have "hasPrefix (renderPath True ds @ ''/'') (renderPath True cs @ ''/'') \<longleftrightarrow>
        prefix (joinWith ''/'' cs @ ''/'') (joinWith ''/'' ds @ ''/'')" by (simp add: hasPrefix_iff renderPath_def)
    also have "\<dots> \<longleftrightarrow> prefix cs ds" by (simp only: joined_slashes [OF False] joined_slashes [OF ds_ne] prefix_slashes [OF cs ds])
    finally show ?thesis using False by simp
  qed
qed

lemma safeExtractPath_iff:
  assumes "isAbs root"
  shows "safeExtractPath root name = Inr path \<longleftrightarrow>
    path = joinPath root name \<and> within path root \<and> (clean root = ''/'' \<longrightarrow> path = ''/'')"
proof -
  let ?p = "joinPath root name"
  have abs: "isAbs ?p" and cl: "clean ?p = ?p" using joinPath_abs [OF assms] by blast+
  have slash: "clean q = ''/'' \<longleftrightarrow> cleanComps q = []" if "isAbs q" for q
  proof -
    have "renderPath True (cleanComps q) = ''/'' \<longleftrightarrow> cleanComps q = []"
      by (metis joined_proper [OF cleanComps_proper [OF that]] list.distinct(1) list.inject renderPath_def joinWith.simps(1))
    with that show ?thesis by (simp add: clean_def)
  qed
  have "hasPrefix (clean ?p @ ''/'') (clean root @ ''/'') \<longleftrightarrow>
      prefix (cleanComps root) (cleanComps ?p) \<and> (cleanComps root = [] \<longrightarrow> cleanComps ?p = [])"
    using prefix_test [OF cleanComps_proper [OF assms] cleanComps_proper [OF abs]] abs assms by (simp add: clean_def)
  then show ?thesis
    using within_iff [OF abs assms] slash [OF abs] slash [OF assms] cl by (auto simp: safeExtractPath_def Let_def)
qed

lemma enclosing_comps:
  assumes "isAbs path" and "d \<in> set (enclosing path)"
  obtains cs where "d = renderPath True cs" "prefix cs (cleanComps path)" "cleanComps d = cs"
proof -
  obtain cs where cs: "d = renderPath True cs" "prefix cs (cleanComps path)"
    using assms by (auto simp: enclosing_def)
  moreover have "\<forall>c\<in>set cs. proper_comp c"
    using cs(2) cleanComps_proper [OF assms(1)] by (meson set_mono_prefix subsetD)
  ultimately show thesis using that cleanComps_render by blast
qed

lemma confined_mkdirAll:
  assumes "isAbs path" and "isAbs root" and "within path root \<or> within root path"
  shows "confined root w (fst (mkdirAll os w path))"
proof -
  have "isAbs d \<and> (within d root \<or> within root d)" if "d \<in> set (enclosing path)" for d
  proof -
    note d = that
    obtain cs where cs: "d = renderPath True cs" "prefix cs (cleanComps path)" "cleanComps d = cs"
      by (rule enclosing_comps [OF assms(1) d])
    have "prefix (cleanComps root) (cleanComps path) \<or> prefix (cleanComps path) (cleanComps root)" using assms within_iff by blast
    then have "prefix cs (cleanComps root) \<or> prefix (cleanComps root) cs"
      using cs(2) by (meson prefix_same_cases prefix_order.trans)
    with cs assms(2) show ?thesis by (auto simp: within_iff)
  qed
  then show ?thesis by (auto simp: confined_def mkdirAll_def isDirectory_def)
qed

lemma confined_createFile:
  assumes "isAbs path" and "within path root"
  shows "confined root w (fst (createFile os w path mode content))"
  using assms by (auto simp: confined_def createFile_def split: if_splits)

lemma within_dirPath:
  assumes "isAbs root" and "isAbs path" and "clean path = path" and "within path root"
  shows "isAbs (dirPath path) \<and> (within (dirPath path) root \<or> within root (dirPath path))"
proof -
  have p: "renderPath True (cleanComps path) = path" and proper: "\<forall>c\<in>set (cleanComps path). proper_comp c"
    using assms render_cleanComps cleanComps_proper by blast+
  have "dirPath path = renderPath True (butlast (cleanComps path))"
    using dirPath_render [OF proper] p by simp
  moreover have "cleanComps (renderPath True (butlast (cleanComps path))) = butlast (cleanComps path)"
    using proper by (intro cleanComps_render) (auto dest: in_set_butlastD)
  moreover have "prefix (cleanComps root) (cleanComps path)" using assms within_iff by blast
  ultimately show ?thesis
    using assms(1) prefix_same_cases [of "cleanComps root" "cleanComps path" "butlast (cleanComps path)"]
    by (auto simp: within_iff prefixeq_butlast)
qed

text \<open>The destination and a path the code accepts for it.\<close>

definition target_in :: "string \<Rightarrow> string \<Rightarrow> bool" where
  "target_in root path \<longleftrightarrow> isAbs root \<and> isAbs path \<and> clean path = path \<and> within path root"

lemma target_safe: "isAbs root \<Longrightarrow> safeExtractPath root name = Inr path \<Longrightarrow> target_in root path"
  by (auto simp: target_in_def safeExtractPath_iff joinPath_abs)

lemma confined_extractDirectory: "target_in root path \<Longrightarrow> confined root w (fst (extractDirectory os w path))"
  using confined_mkdirAll [of path root w os] by (auto simp: target_in_def extractDirectory_def split: prod.splits)

lemma confined_extractFile:
  assumes "target_in root path"
  shows "confined root w (fst (extractFile os w path entry))"
proof -
  obtain w1 ok where m: "mkdirAll os w (dirPath path) = (w1, ok)" by fastforce
  moreover have "confined root w w1"
    using confined_mkdirAll [of "dirPath path" root w os] within_dirPath [of root path] assms m by (auto simp: target_in_def)
  moreover have "confined root w1 (fst (createFile os w1 path (aeMode entry) (aeData entry)))"
    using assms confined_createFile by (simp add: target_in_def)
  ultimately show ?thesis
    by (cases ok) (auto simp: extractFile_def intro: confined_trans split: prod.splits)
qed

lemma confined_zip: "isAbs root \<Longrightarrow> confined root w (fst (extractZipEntries os root w entries))"
proof (induction entries arbitrary: w)
  case (Cons entry es)
  show ?case
  proof (cases "safeExtractPath root (aeName entry)")
    case (Inr path)
    define r where "r = (if aeKind entry = TypeDir then extractDirectory os w path
      else if \<not> aeOpens entry then (w, Some (UnreadableEntry (aeName entry))) else extractFile os w path entry)"
    have "confined root w (fst r)"
      using target_safe [OF Cons.prems Inr] by (simp add: r_def confined_extractDirectory confined_extractFile)
    then show ?thesis
      using Cons.IH [OF Cons.prems, of "fst r"] Inr by (auto simp flip: r_def intro: confined_trans split: prod.split option.split)
  qed simp
qed simp

lemma confined_tar: "isAbs root \<Longrightarrow> confined root w (fst (extractTarEntries os root w entries ends))"
proof (induction entries arbitrary: w)
  case (Cons entry es)
  show ?case
  proof (cases "safeExtractPath root (aeName entry)")
    case (Inr path)
    define r where "r = (case aeKind entry of TypeDir \<Rightarrow> extractDirectory os w path | TypeReg \<Rightarrow> extractFile os w path entry
      | TypeOther \<Rightarrow> (w, Some (UnsupportedEntry (aeName entry))))"
    have "confined root w (fst r)"
      using target_safe [OF Cons.prems Inr] by (simp add: r_def confined_extractDirectory confined_extractFile split: entry_kind.split)
    then show ?thesis
      using Cons.IH [OF Cons.prems, of "fst r"] Inr by (auto simp flip: r_def intro: confined_trans split: prod.split option.split)
  qed simp
qed simp

lemma confined_extract:
  assumes "isAbs root"
  shows "confined root w (fst (extractArchive os w archive root))"
  using confined_zip [OF assms] confined_tar [OF assms]
  by (simp add: extractArchive_def extractZip_def extractTarGzip_def split: option.split prod.split)

section \<open>The line of the checksum\<close>

lemma wide_shape: "w \<in> set wide_spaces \<Longrightarrow> CHR 0x0A \<notin> set w \<and> w \<noteq> []"
  by (auto simp: wide_spaces_def)

lemma find_newline:
  assumes "\<forall>w\<in>set ws. CHR 0x0A \<notin> set w"
  shows "find (hasPrefix (s @ [CHR 0x0A])) ws = find (hasPrefix s) ws"
  using assms by (induction ws) (auto simp: hasPrefix_iff)

lemma spaceLength_newline: "spaceLength (c # s @ [CHR 0x0A]) = spaceLength (c # s)"
  using find_newline [of wide_spaces "c # s"] wide_shape by simp

lemma spaceLength_le: "spaceLength s \<le> length s"
  by (cases s) (auto simp: find_Some_iff hasPrefix_iff dest: prefix_length_le split: option.split)

lemma fieldsFrom_newline: "fieldsFrom field (s @ [CHR 0x0A]) = fieldsFrom field s"
proof (induction field s rule: fieldsFrom.induct)
  case (1 field)
  then show ?case by (simp add: ascii_space_def)
next
  case (2 field c s)
  have "spaceLength (c # s) - 1 \<le> length s" using spaceLength_le [of "c # s"] by simp
  with 2 show ?case using spaceLength_newline [of c s] by simp
qed

text \<open>A character that begins no white space and that lower case leaves alone, such as a hexadecimal
  digit.\<close>

definition solid :: "char \<Rightarrow> bool" where
  "solid c \<longleftrightarrow> (\<forall>s. spaceLength (c # s) = 0) \<and> lower c = c"

lemma solid_hex:
  assumes "c \<in> set ''0123456789abcdef''"
  shows "solid c"
proof -
  let ?digits = "''0123456789abcdef''"
  have digit: "\<forall>d\<in>set ?digits. \<not> ascii_space d \<and> lower d = d \<and> (\<forall>w\<in>set wide_spaces. hd w \<noteq> d)"
    by (simp add: ascii_space_def lower_def wide_spaces_def)
  have "\<not> hasPrefix (c # s) w" if "w \<in> set wide_spaces" for w s
    using bspec [OF digit assms] wide_shape [OF that] that by (cases w) (auto simp: hasPrefix_iff)
  then have "find (hasPrefix (c # s)) wide_spaces = None" for s by (auto simp: find_None_iff)
  with bspec [OF digit assms] show ?thesis by (simp add: solid_def)
qed

lemma fieldsFrom_solid: "\<forall>c\<in>set h. solid c \<Longrightarrow> fieldsFrom field (h @ s) = fieldsFrom (field @ h) s"
  by (induction h arbitrary: field) (simp_all add: solid_def del: spaceLength.simps)

lemma solid_hexBytes: "\<forall>c\<in>set (hexBytes bs). solid c"
proof -
  have "unat b div 16 < 16" for b :: "8 word"
    using unsigned_less [of b, where 'a = nat] by (simp add: less_mult_imp_div_less)
  then have "\<forall>c\<in>set (hexByte b). solid c" for b
    unfolding hexByte_def using solid_hex [OF hexDigit_set] by simp
  then show ?thesis unfolding hexBytes_def by auto
qed

lemma lower_solid: "\<forall>c\<in>set h. solid c \<Longrightarrow> map lower h = h"
  by (intro map_idI) (simp add: solid_def)

lemma fields_of_line:
  assumes "h \<noteq> []" and "\<forall>c\<in>set h. solid c"
  shows "fields_of (h @ ''  '' @ name @ [CHR 0x0A]) = h # fields_of name"
proof -
  have sp: "spaceLength (CHR '' '' # s) = 1" for s by (simp add: ascii_space_def)
  have one: "fieldsFrom f (CHR '' '' # s) = (if f = [] then [] else [f]) @ fieldsFrom [] s" for f s
    by (simp only: fieldsFrom.simps sp) simp
  have "fields_of (h @ ''  '' @ name @ [CHR 0x0A]) = fieldsFrom h (CHR '' '' # CHR '' '' # name @ [CHR 0x0A])"
    using fieldsFrom_solid [OF assms(2), of "[]"] by (simp add: fields_of_def)
  also have "\<dots> = h # fieldsFrom [] (name @ [CHR 0x0A])"
    using assms(1) by (simp only: one) simp
  finally show ?thesis by (simp add: fieldsFrom_newline fields_of_def)
qed

text \<open>The checksum that the packer writes beside an archive is accepted by its own verification of that
  archive exactly when the name of the archive holds no white space.\<close>

theorem checksum_roundtrip:
  assumes "writeChecksum os w path = (w', None)" and "roReadable os (checksumPath path)"
    and "\<forall>content. roHash os content \<noteq> []"
  shows "verifyChecksum os w' path = None \<longleftrightarrow> fields_of (basePath path) = [basePath path]"
proof -
  obtain content where content: "readFile os w path = Some content"
    and cr: "createFile os w (checksumPath path) 420 (checksumLine os path content, True) = (w', True)"
    using assms(1) by (auto simp: writeChecksum_def split: option.splits prod.splits if_splits)
  define h where "h = hexBytes (roHash os content)"
  have hex: "\<forall>c\<in>set h. solid c" unfolding h_def by (rule solid_hexBytes)
  have "h \<noteq> []" using assms(3) length_hexBytes [of "roHash os content"]
    unfolding h_def by (metis length_0_conv mult_eq_0_iff zero_neq_numeral)
  then have line: "fields_of (checksumLine os path content) = h # fields_of (basePath path)"
    using fields_of_line [OF _ hex] by (simp add: checksumLine_def flip: h_def)
  have "checksumPath path \<noteq> path" by (simp add: checksumPath_def)
  with cr content have archive: "readFile os w' path = Some content"
    by (auto simp: createFile_def readFile_def split: if_splits)
  have "readFile os w' (checksumPath path) = Some (checksumLine os path content)"
    using cr assms(2) by (auto simp: createFile_def readFile_def split: if_splits)
  then show ?thesis
    unfolding verifyChecksum_def by (simp add: line archive lower_solid [OF hex] flip: h_def split: list.split)
qed

section \<open>The search for the repository\<close>

lemma searchRoot_render:
  "\<forall>c\<in>set cs. proper_comp c \<Longrightarrow>
     searchRoot w (renderPath True cs) =
       Some (case find (\<lambda>d. present w (joinPath d ''go.mod'')) (map (renderPath True) (rev (prefixes cs))) of
               Some d \<Rightarrow> Inr d | None \<Rightarrow> Inl NoRepositoryRoot)"
proof (induction cs rule: rev_induct)
  case Nil
  show ?case using dirPath_render [of "[]"] by (subst searchRoot.simps) simp
next
  case (snoc d ds)
  have "dirPath (renderPath True (ds @ [d])) = renderPath True ds" using dirPath_render [OF snoc.prems] by simp
  moreover have "renderPath True ds \<noteq> renderPath True (ds @ [d])"
    using cleanComps_render [of ds] cleanComps_render [of "ds @ [d]"] snoc.prems by (metis append_self_conv not_Cons_self2 set_append UnI1)
  ultimately show ?case using snoc by (subst searchRoot.simps) simp
qed

text \<open>The search for the repository ends in every working directory, and finds the nearest of the
  directory and those above it that holds a \<open>go.mod\<close>, if there is one.\<close>

theorem repository_root:
  assumes "roGetwd os = Some wd" and "isAbs wd" and "clean wd = wd"
  shows "repositoryRoot os w = Some (case find (\<lambda>d. present w (joinPath d ''go.mod'')) (rev (enclosing wd)) of
    Some d \<Rightarrow> Inr d | None \<Rightarrow> Inl NoRepositoryRoot)"
  using searchRoot_render [OF cleanComps_proper [OF assms(2)], of w] assms
  by (simp add: repositoryRoot_def render_cleanComps enclosing_def rev_map)

section \<open>Licences\<close>

definition moduleOf :: "string \<Rightarrow> (string \<times> string \<times> string) option" where
  "moduleOf line = (case splitAt (CHR ''|'') line of [path, version, directory] \<Rightarrow> Some (path, version, directory) | _ \<Rightarrow> None)"

lemma missingLicenses_Nil:
  "missingLicenses w seen ls = [] \<longleftrightarrow>
     (\<forall>path m. map_of (List.map_filter moduleOf ls) path = Some m \<longrightarrow> path \<in> set seen \<or> licensed w (snd m))"
proof (induction w seen ls rule: missingLicenses.induct)
  case (1 w seen)
  then show ?case by (simp add: map_filter_def)
next
  case (2 w seen line ls)
  show ?case
  proof (cases "moduleOf line")
    case None
    then have "missingLicenses w seen (line # ls) = missingLicenses w seen ls"
      by (auto simp: moduleOf_def split: list.splits)
    then show ?thesis using 2 None by (auto simp: map_filter_simps moduleOf_def split: list.splits)
  next
    case (Some m)
    then obtain path version directory where s: "splitAt (CHR ''|'') line = [path, version, directory]" "m = (path, version, directory)"
      by (auto simp: moduleOf_def split: list.splits)
    show ?thesis
    proof (cases "path \<in> set seen")
      case True
      then show ?thesis using Some s 2 by (simp add: map_filter_simps) (metis True)
    next
      case False
      then show ?thesis using Some s 2 by (simp add: map_filter_simps) (metis False)
    qed
  qed
qed

text \<open>A release passes the licence check exactly when the list of runtime modules could be read to its
  end and every module, in the directory it is first listed with, has a licence file.\<close>

theorem licenses_complete:
  "checkLicensesAt os w root = None \<longleftrightarrow>
     (\<exists>output ls. roModules os root = Some output \<and> scanLines output = (ls, True) \<and>
        ran (map_of (List.map_filter moduleOf ls)) \<subseteq> {m. licensed w (snd m)})"
  by (auto simp: checkLicensesAt_def Let_def missingLicenses_Nil ran_def split: option.splits prod.splits)

section \<open>Verified archives\<close>

definition archiveEntries :: "release_os \<Rightarrow> disk \<Rightarrow> string \<Rightarrow> archive_entry list" where
  "archiveEntries os w archive =
     (case readFile os w archive of
        None \<Rightarrow> []
      | Some content \<Rightarrow>
          if hasSuffix archive ''.zip'' then (case roZip os content of None \<Rightarrow> [] | Some es \<Rightarrow> es)
          else (case roTar os content of None \<Rightarrow> [] | Some (es, _) \<Rightarrow> es))"

definition safe_name :: "string \<Rightarrow> string \<Rightarrow> bool" where
  "safe_name root name \<longleftrightarrow> (\<exists>path. safeExtractPath root name = Inr path)"

lemma zip_safe: "extractZipEntries os root w es = (w', None) \<Longrightarrow> list_all (\<lambda>e. safe_name root (aeName e)) es"
  by (induction es arbitrary: w) (auto simp: safe_name_def split: sum.splits prod.splits option.splits if_splits)

lemma tar_safe: "extractTarEntries os root w es ends = (w', None) \<Longrightarrow> list_all (\<lambda>e. safe_name root (aeName e)) es"
  by (induction es arbitrary: w) (auto simp: safe_name_def split: sum.splits prod.splits option.splits entry_kind.splits)

lemma extract_safe:
  "extractArchive os w archive root = (w', None) \<Longrightarrow> list_all (\<lambda>e. safe_name root (aeName e)) (archiveEntries os w archive)"
  by (auto simp: extractArchive_def extractZip_def extractTarGzip_def archiveEntries_def dest: zip_safe tar_safe
      split: if_splits option.splits prod.splits)

text \<open>C28: Extraction is confined to its destination: whatever the archive holds, a file that is created or
  overwritten lies below the destination, and so does a directory that is created, unless it is one of
  those above the destination; an archive with an entry whose path leaves the destination is refused.\<close>

theorem extraction_confined:
  assumes "isAbs root" and "extractArchive os w archive root = (w', e)"
  shows "(map_of (dkFiles w') p \<noteq> map_of (dkFiles w) p \<longrightarrow> isAbs p \<and> within p root) \<and>
    (isDirectory w' d \<noteq> isDirectory w d \<longrightarrow> isAbs d \<and> (within d root \<or> within root d)) \<and>
    (e = None \<longrightarrow> list_all (\<lambda>en. within (joinPath root (aeName en)) root) (archiveEntries os w archive))"
  using confined_extract [OF assms(1), of w os archive] extract_safe [of os w archive root w'] assms
  by (auto simp: confined_def safe_name_def safeExtractPath_iff list_all_iff)

definition archive_bytes :: bytes where "archive_bytes = ''PK''"

definition sample_release :: release_os where
  "sample_release = \<lparr>roReadable = (\<lambda>p. True), roWritable = (\<lambda>p. True), roMkdir = (\<lambda>p. True), roMkdirTemp = (\<lambda>p. Some ''/t''),
     roUmask = 18, roGetwd = Some ''/r/cmd'', roWalks = (\<lambda>p. True), roHash = (\<lambda>b. [0xAB]),
     roZip = (\<lambda>b. Some [\<lparr>aeName = ''a/b'', aeKind = TypeReg, aeMode = 420, aeOpens = True, aeData = (''x'', True)\<rparr>,
        \<lparr>aeName = ''../../etc/passwd'', aeKind = TypeReg, aeMode = 420, aeOpens = True, aeData = (''y'', True)\<rparr>]),
     roTar = (\<lambda>b. None), roRun = (\<lambda>p as. ([], True)), roModules = (\<lambda>d. None)\<rparr>"

definition sample_disk :: disk where
  "sample_disk = \<lparr>dkFiles = [(''/d/b.zip'', 420, archive_bytes), (''/r/go.mod'', 420, [])], dkDirs = [''/t'', ''/d'']\<rparr>"

text \<open>An archive with a path that climbs out of the directory.\<close>

theorem extraction_confined_witness:
  "map_of (dkFiles (fst (extractArchive sample_release sample_disk ''/d/b.zip'' ''/t''))) ''/etc/passwd'' = None"
proof -
  obtain w' e where x: "extractArchive sample_release sample_disk ''/d/b.zip'' ''/t'' = (w', e)" by fastforce
  have abs: "isAbs ''/t''" and out: "\<not> within ''/etc/passwd'' ''/t''" by code_simp+
  have none: "map_of (dkFiles sample_disk) ''/etc/passwd'' = None" by (simp add: sample_disk_def)
  show ?thesis
    using extraction_confined [OF abs x, THEN conjunct1, of "''/etc/passwd''"] out none x by (metis fst_conv)
qed

theorem checksum_roundtrip_witness:
  "verifyChecksum sample_release (fst (writeChecksum sample_release sample_disk ''/d/b.zip'')) ''/d/b.zip'' = None"
proof -
  have snd: "snd (writeChecksum sample_release sample_disk ''/d/b.zip'') = None"
    and f: "fields_of (basePath ''/d/b.zip'') = [basePath ''/d/b.zip'']" by code_simp+
  then have w: "writeChecksum sample_release sample_disk ''/d/b.zip'' =
      (fst (writeChecksum sample_release sample_disk ''/d/b.zip''), None)" by (metis prod.collapse)
  have "roReadable sample_release (checksumPath ''/d/b.zip'')" "\<forall>content. roHash sample_release content \<noteq> []"
    by (simp_all add: sample_release_def)
  with f show ?thesis using checksum_roundtrip [OF w] by blast
qed

theorem repository_root_witness:
  "repositoryRoot sample_release sample_disk = Some (Inr ''/r'')"
proof -
  have "isAbs ''/r/cmd''" "clean ''/r/cmd'' = ''/r/cmd''" by code_simp+
  moreover have "find (\<lambda>d. present sample_disk (joinPath d ''go.mod'')) (rev (enclosing ''/r/cmd'')) = Some ''/r''" by code_simp
  ultimately show ?thesis
    using repository_root [of sample_release "''/r/cmd''" sample_disk] by (simp add: sample_release_def)
qed

text \<open>What verification accepts: the archive has the digest of its checksum file, all of it can be
  extracted, and the files are the expected ones as far as the joined lists of their names can tell.\<close>

lemma verify_archive_sound:
  assumes "verifyArchive os w version archive = (w', None)"
  shows "\<exists>path temporary w1 entries content digest.
    absPath os archive = Some path \<and>
    readFile os w path = Some content \<and>
    map_option fields_of (readFile os w (checksumPath path)) = Some [digest, basePath path] \<and> hexBytes (roHash os content) = map lower digest \<and>
    extractArchive os (addDirectory w temporary) path temporary = (w1, None) \<and>
    archiveFiles os w1 temporary = Some entries \<and>
    joinWith [CHR 0x0A] entries = joinWith [CHR 0x0A] (expectedFiles (archiveBase path)) \<and>
    w' = removeAll w1 temporary"
  using assms unfolding verifyArchive_def verifyChecksum_def verifyExtracted_def Let_def
  by (auto split: option.splits list.splits prod.splits if_splits)

text \<open>The names are compared after they are joined by newlines, so one file whose name holds a newline can
  stand for two: the check of the file set accepts an archive without a licence.\<close>

definition fooled_disk :: disk where
  "fooled_disk = \<lparr>dkFiles = map (\<lambda>n. (''/t/b/'' @ n, 493, []))
       [''CHANGELOG.md'' @ [CHR 0x0A] @ ''b/LICENSE'', ''README.md'', ''THIRD_PARTY_LICENSES.md'', ''dovik'', ''dovikd'', ''gh'',
        ''skills/README.md'', ''skills/claude/SKILL.md'', ''skills/codex/SKILL.md''], dkDirs = [''/t'', ''/t/b'']\<rparr>"

definition fooled_release :: release_os where
  "fooled_release = sample_release\<lparr>roRun := (\<lambda>p as. ((if p = ''/t/b/dovik'' then ''dovik 1'' else ''dovikd 1''), True))\<rparr>"

theorem license_behind_newline:
  "verifyExtracted fooled_release fooled_disk ''1'' ''/d/b.tar.gz'' ''/t'' = None \<and>
   map_of (dkFiles fooled_disk) ''/t/b/LICENSE'' = None \<and> map_of (dkFiles fooled_disk) ''/t/b/CHANGELOG.md'' = None"
proof -
  have "verifyExtracted fooled_release fooled_disk ''1'' ''/d/b.tar.gz'' ''/t'' = None" by code_simp
  then show ?thesis by (simp add: fooled_disk_def)
qed

end
