(* ===== verification/OperatorClient.thy ===== *)
theory OperatorClient
  imports ControlClient
begin

text \<open>
  The interface of \<open>internal/operatorclient/client.go\<close> between the daemon and the surfaces an operator
  uses (the command line and MCP), what those surfaces rely on, and the client of the control socket as
  an instance of it.  The operations that stream output (\<open>ExecuteGH\<close> and \<open>RunAgent\<close>) are in the theories
  CliGh and Container.
\<close>

section \<open>The interface\<close>

text \<open>The operations of \<open>Client\<close>; an answer holds the state afterwards, the results and the error.\<close>

type_synonym ('s, 'r) answer = "'s \<times> 'r \<times> client_error option"

record 's operator_client =
  ocIdentity :: "'s \<Rightarrow> identity_request \<Rightarrow> ('s, service_snapshot) answer"
  ocAddProject :: "'s \<Rightarrow> project_definition \<Rightarrow> ('s, project_definition) answer"
  ocRemoveProject :: "'s \<Rightarrow> string \<Rightarrow> ('s, unit) answer"
  ocListProjects :: "'s \<Rightarrow> ('s, project_definition list) answer"
  ocAddProcess :: "'s \<Rightarrow> process_definition \<Rightarrow> ('s, process_definition) answer"
  ocRemoveProcess :: "'s \<Rightarrow> process_key \<Rightarrow> ('s, unit) answer"
  ocListProcesses :: "'s \<Rightarrow> string \<Rightarrow> ('s, process_definition list) answer"
  ocStart :: "'s \<Rightarrow> process_key \<Rightarrow> ('s, process_runtime) answer"
  ocStop :: "'s \<Rightarrow> process_key \<Rightarrow> ('s, process_runtime) answer"
  ocRestart :: "'s \<Rightarrow> process_key \<Rightarrow> ('s, process_runtime) answer"
  ocStatus :: "'s \<Rightarrow> process_key \<Rightarrow> ('s, process_runtime \<times> bool) answer"
  ocLogs :: "'s \<Rightarrow> process_key \<Rightarrow> u64 \<Rightarrow> int \<Rightarrow> ('s, output_tail) answer"

section \<open>The contract\<close>

definition noTail :: output_tail where
  "noTail = \<lparr>tEvents = [], tTruncated = False\<rparr>"

text \<open>An operation that fails returns nothing beside its error.\<close>

locale operator_contract =
  fixes client :: "'s operator_client"
  assumes projects_failed: "ocListProjects client s = (s', ps, Some e) \<Longrightarrow> ps = []"
    and processes_failed: "ocListProcesses client s p = (s', ds, Some e) \<Longrightarrow> ds = []"
    and status_failed: "ocStatus client s key = (s', a, Some e) \<Longrightarrow> a = (zeroRuntime, False)"
    and logs_failed: "ocLogs client s key afterSequence limit = (s', tail, Some e) \<Longrightarrow> tail = noTail"
    and start_failed: "ocStart client s key = (s', r, Some e) \<Longrightarrow> r = zeroRuntime"
    and stop_failed: "ocStop client s key = (s', r, Some e) \<Longrightarrow> r = zeroRuntime"
    and restart_failed: "ocRestart client s key = (s', r, Some e) \<Longrightarrow> r = zeroRuntime"
begin

lemmas failures = projects_failed processes_failed status_failed logs_failed start_failed stop_failed restart_failed

end

section \<open>The client of the daemon\<close>

text \<open>The daemon's client, whose state is the daemon and the counter of its requests.\<close>

definition paired :: "('w, 'e, 'r) answered \<Rightarrow> (('w, 'e) control_server \<times> u64) \<times> 'r \<times> client_error option" where
  "paired a = (case a of (s, n, r, e) \<Rightarrow> ((s, n), r, e))"

definition controlClient :: "wire \<Rightarrow> ('w, 'e) daemon_env \<Rightarrow> (('w, 'e) control_server \<times> u64) operator_client" where
  "controlClient w env =
     \<lparr>ocIdentity = (\<lambda>(s, n) r. paired (clientIdentity w env s n r)),
      ocAddProject = (\<lambda>(s, n) d. paired (clientAddProject w env s n d)),
      ocRemoveProject = (\<lambda>(s, n) p. paired (clientRemoveProject w env s n p)),
      ocListProjects = (\<lambda>(s, n). paired (clientListProjects w env s n)),
      ocAddProcess = (\<lambda>(s, n) d. paired (clientAddProcess w env s n d)),
      ocRemoveProcess = (\<lambda>(s, n) key. paired (clientRemoveProcess w env s n key)),
      ocListProcesses = (\<lambda>(s, n) p. paired (clientListProcesses w env s n p)),
      ocStart = (\<lambda>(s, n) key. paired (runtimeOperation w env s n OperationProcessStart key)),
      ocStop = (\<lambda>(s, n) key. paired (runtimeOperation w env s n OperationProcessStop key)),
      ocRestart = (\<lambda>(s, n) key. paired (runtimeOperation w env s n OperationProcessRestart key)),
      ocStatus = (\<lambda>(s, n) key. paired (clientStatus w env s n key)),
      ocLogs = (\<lambda>(s, n) key afterSequence limit. paired (clientLogs w env s n key afterSequence limit))\<rparr>"

lemma callFor_failed: "callFor w env s n op payload read zero = (s', n', r, Some e) \<Longrightarrow> r = zero"
  by (auto simp: callFor_def split: prod.splits sum.splits option.splits)

interpretation daemon_client: operator_contract "controlClient w env"
  by unfold_locales
    (auto simp: controlClient_def clientListProjects_def clientListProcesses_def clientStatus_def clientLogs_def runtimeOperation_def
      mapAnswer_def paired_def noTail_def zeroStatusView_def zeroTailView_def dest!: callFor_failed split: prod.splits)

end
