(* ===== verification/McpOperator.thy ===== *)
theory McpOperator
  imports OperatorClient
begin

text \<open>
  The MCP adapter (\<open>internal/mcpoperator/server.go\<close>, \<open>views.go\<close>) over the operations of an operator client.  The SDK, which decodes the input of a
  tool and encodes its output, and the deadline of a call are the parameters: \<open>tool_context\<close> says whether
  the context had ended before and after the handler ran, and which errors of a client wrap its end.
\<close>

section \<open>Views\<close>

record mcp_project =
  mpID :: string
  mpRootDirectory :: string

record mcp_process =
  mcProjectID :: string
  mcID :: string
  mcCommand :: string
  mcArguments :: "string list"
  mcWorkingDirectory :: string

record mcp_runtime =
  mrProjectID :: string
  mrProcessID :: string
  mrInstanceID :: string
  mrPID :: "int option"
  mrState :: process_state
  mrStartedAt :: "time option"
  mrFinishedAt :: "time option"
  mrExitCode :: "int option"
  mrTerminationReason :: string

record mcp_status =
  msExists :: bool
  msRuntime :: "mcp_runtime option"

record mcp_event =
  meSequence :: u64
  meCapturedAt :: time
  meStream :: output_stream
  meData :: bytes

record mcp_logs =
  mlEvents :: "mcp_event list"
  mlTruncated :: bool

definition runtimeResult :: "process_runtime \<Rightarrow> mcp_runtime" where
  "runtimeResult r = \<lparr>mrProjectID = rProjectID r, mrProcessID = rProcessID r, mrInstanceID = rInstanceID r, mrPID = rPID r,
     mrState = rState r, mrStartedAt = rStartedAt r, mrFinishedAt = rFinishedAt r, mrExitCode = rExitCode r,
     mrTerminationReason = rTerminationReason r\<rparr>"

definition projectResult :: "project_definition \<Rightarrow> mcp_project" where
  "projectResult project = \<lparr>mpID = pdID project, mpRootDirectory = pdRootDirectory project\<rparr>"

definition processResult :: "process_definition \<Rightarrow> mcp_process" where
  "processResult process = \<lparr>mcProjectID = dProjectID process, mcID = dID process, mcCommand = dCommand process,
     mcArguments = dArguments process, mcWorkingDirectory = dWorkingDirectory process\<rparr>"

definition statusResult :: "process_runtime \<times> bool \<Rightarrow> mcp_status" where
  "statusResult answer = (case answer of (r, exists) \<Rightarrow> \<lparr>msExists = exists, msRuntime = (if exists then Some (runtimeResult r) else None)\<rparr>)"

definition eventResult :: "output_event \<Rightarrow> mcp_event" where
  "eventResult e = \<lparr>meSequence = eSequence e, meCapturedAt = eCapturedAt e, meStream = eStream e, meData = eData e\<rparr>"

definition logsResult :: "output_tail \<Rightarrow> mcp_logs" where
  "logsResult tail = \<lparr>mlEvents = map eventResult (tEvents tail), mlTruncated = tTruncated tail\<rparr>"

section \<open>Errors of a tool\<close>

datatype context_end = DeadlineExceeded | Canceled

datatype tool_failure = InvalidInput string | ContextFailure context_end | ClientFailure client_error

record tool_context =
  tcBefore :: "context_end option"
  tcAfter :: "context_end option"
  tcWraps :: "client_error \<Rightarrow> context_end option"

text \<open>\<open>errors.Is\<close> for the two ends of a context.\<close>

definition ended :: "tool_context \<Rightarrow> context_end option \<Rightarrow> tool_failure \<Rightarrow> context_end \<Rightarrow> bool" where
  "ended ctx now reason e \<longleftrightarrow> now = Some e \<or>
     (case reason of ContextFailure e' \<Rightarrow> e' = e | ClientFailure c \<Rightarrow> tcWraps ctx c = Some e | InvalidInput _ \<Rightarrow> False)"

definition timeoutText :: string where
  "timeoutText = ''timeout: The daemon did not respond in time. Check process status before retrying a lifecycle operation.''"

definition canceledText :: string where
  "canceledText = ''canceled: The wait was canceled. An accepted lifecycle operation may still complete.''"

definition versionText :: string where
  "versionText = ''incompatible_version: Use matching Dovik client and daemon versions.''"

definition operationText :: string where
  "operationText = ''operation_failed: The daemon rejected the operation. Check the registered IDs and process status; use the CLI for diagnostics.''"

definition daemonText :: string where
  "daemonText = ''daemon_error: The daemon could not handle the request. Use the CLI for diagnostics.''"

definition connectionText :: string where
  "connectionText = ''connection_error: Could not complete a local daemon request. Check that the daemon is running at the configured endpoint and uses a matching version.''"

definition protocolText :: "string \<Rightarrow> string" where
  "protocolText code =
     (if code = ''incompatible_version'' then versionText
      else if code = ''operation_failed'' then operationText else daemonText)"

definition toolError :: "tool_context \<Rightarrow> context_end option \<Rightarrow> tool_failure \<Rightarrow> string" where
  "toolError ctx now reason =
     (case reason of
        InvalidInput message \<Rightarrow> ''invalid_arguments: '' @ message
      | _ \<Rightarrow>
          if ended ctx now reason DeadlineExceeded then timeoutText
          else if ended ctx now reason Canceled then canceledText
          else (case reason of ClientFailure (RemoteFailure e) \<Rightarrow> protocolText (perCode e) | _ \<Rightarrow> connectionText))"

definition validateProjectID :: "string \<Rightarrow> tool_failure option" where
  "validateProjectID p = (if trimSpace p = [] then Some (InvalidInput ''projectId must not be empty'') else None)"

definition validateIDs :: "process_key \<Rightarrow> tool_failure option" where
  "validateIDs key =
     (case validateProjectID (keyProject key) of
        Some e \<Rightarrow> Some e
      | None \<Rightarrow> if trimSpace (keyProcess key) = [] then Some (InvalidInput ''processId must not be empty'') else None)"

section \<open>The tools\<close>

datatype mcp_call =
  ListProjectsTool | ListProcessesTool string | StatusTool process_key | LogsTool process_key u64 "int option"
| StartTool process_key | StopTool process_key | RestartTool process_key

datatype mcp_result =
  NoOutput | ProjectsOutput "mcp_project list" | ProcessesOutput "mcp_process list" | StatusOutput mcp_status
| LogsOutput mcp_logs | RuntimeOutput mcp_runtime

type_synonym 's handled = "'s \<times> mcp_result \<times> tool_failure option"

text \<open>What a handler makes of the answer of the client: the view, and the error beside it.\<close>

definition viewAnswer :: "('r \<Rightarrow> mcp_result) \<Rightarrow> 's \<times> 'r \<times> client_error option \<Rightarrow> 's handled" where
  "viewAnswer shown answer = (case answer of (s, r, e) \<Rightarrow> (s, shown r, map_option ClientFailure e))"

definition defaultLimit :: int where "defaultLimit = 100"

definition handleProcess :: "('s \<Rightarrow> process_key \<Rightarrow> 's \<times> 'r \<times> client_error option) \<Rightarrow> ('r \<Rightarrow> mcp_result) \<Rightarrow> 's \<Rightarrow> process_key \<Rightarrow> 's handled" where
  "handleProcess operation shown s key =
     (case validateIDs key of Some e \<Rightarrow> (s, NoOutput, Some e) | None \<Rightarrow> viewAnswer shown (operation s key))"

definition handleLogs :: "'s operator_client \<Rightarrow> 's \<Rightarrow> process_key \<Rightarrow> u64 \<Rightarrow> int option \<Rightarrow> 's handled" where
  "handleLogs client s key afterSequence given =
     (case validateIDs key of
        Some e \<Rightarrow> (s, NoOutput, Some e)
      | None \<Rightarrow>
          let limit = (case given of None \<Rightarrow> defaultLimit | Some l \<Rightarrow> l)
          in if limit < 1 \<or> 1000 < limit then (s, NoOutput, Some (InvalidInput ''limit must be between 1 and 1000''))
             else viewAnswer (LogsOutput \<circ> logsResult) (ocLogs client s key afterSequence limit))"

fun handleTool :: "'s operator_client \<Rightarrow> 's \<Rightarrow> mcp_call \<Rightarrow> 's handled" where
  "handleTool client s ListProjectsTool = viewAnswer (\<lambda>ps. ProjectsOutput (map projectResult ps)) (ocListProjects client s)"
| "handleTool client s (ListProcessesTool p) =
     (case validateProjectID p of
        Some e \<Rightarrow> (s, NoOutput, Some e)
      | None \<Rightarrow> viewAnswer (\<lambda>ps. ProcessesOutput (map processResult ps)) (ocListProcesses client s p))"
| "handleTool client s (StatusTool key) = handleProcess (ocStatus client) (\<lambda>a. StatusOutput (statusResult a)) s key"
| "handleTool client s (LogsTool key afterSequence limit) = handleLogs client s key afterSequence limit"
| "handleTool client s (StartTool key) = handleProcess (ocStart client) (\<lambda>r. RuntimeOutput (runtimeResult r)) s key"
| "handleTool client s (StopTool key) = handleProcess (ocStop client) (\<lambda>r. RuntimeOutput (runtimeResult r)) s key"
| "handleTool client s (RestartTool key) = handleProcess (ocRestart client) (\<lambda>r. RuntimeOutput (runtimeResult r)) s key"

text \<open>\<open>addTool\<close>: the handler runs if the context has not ended yet.\<close>

definition callTool :: "'s operator_client \<Rightarrow> tool_context \<Rightarrow> 's \<Rightarrow> mcp_call \<Rightarrow> 's \<times> mcp_result \<times> string option" where
  "callTool client ctx s call =
     (case tcBefore ctx of
        Some e \<Rightarrow> (s, NoOutput, Some (toolError ctx (tcBefore ctx) (ContextFailure e)))
      | None \<Rightarrow>
          (case handleTool client s call of
             (s', output, Some e) \<Rightarrow> (s', output, Some (toolError ctx (tcAfter ctx) e))
           | (s', output, None) \<Rightarrow> (s', output, None)))"

text \<open>The outputs that say nothing.\<close>

definition blank :: "mcp_result \<Rightarrow> bool" where
  "blank output \<longleftrightarrow> List.member [NoOutput, ProjectsOutput [], ProcessesOutput [], StatusOutput (statusResult (zeroRuntime, False)),
     LogsOutput (logsResult noTail), RuntimeOutput (runtimeResult zeroRuntime)] output"

context operator_contract begin

lemma handle_failed: "handleTool client s call = (s', output, Some e) \<Longrightarrow> blank output"
  by (cases call)
    (auto simp: blank_def handleProcess_def handleLogs_def viewAnswer_def Let_def dest: failures split: option.splits prod.splits if_splits)

lemma tool_failed: "callTool client ctx s call = (s', output, Some text) \<Longrightarrow> blank output"
  by (auto simp: callTool_def blank_def [of NoOutput] dest: handle_failed split: option.splits prod.splits)

end

section \<open>What a tool says when it fails\<close>

definition operatorTexts :: "string list" where
  "operatorTexts =
     [timeoutText, canceledText, versionText, operationText, daemonText, connectionText] @
     map ((@) ''invalid_arguments: '') [''projectId must not be empty'', ''processId must not be empty'', ''limit must be between 1 and 1000'']"

text \<open>The calls that are refused before the client is asked.\<close>

fun validCall :: "mcp_call \<Rightarrow> bool" where
  "validCall ListProjectsTool = True"
| "validCall (ListProcessesTool p) = (trimSpace p \<noteq> [])"
| "validCall (StatusTool key) = (trimSpace (keyProject key) \<noteq> [] \<and> trimSpace (keyProcess key) \<noteq> [])"
| "validCall (LogsTool key afterSequence limit) =
     (trimSpace (keyProject key) \<noteq> [] \<and> trimSpace (keyProcess key) \<noteq> [] \<and>
      (case limit of None \<Rightarrow> True | Some l \<Rightarrow> 1 \<le> l \<and> l \<le> 1000))"
| "validCall (StartTool key) = (trimSpace (keyProject key) \<noteq> [] \<and> trimSpace (keyProcess key) \<noteq> [])"
| "validCall (StopTool key) = (trimSpace (keyProject key) \<noteq> [] \<and> trimSpace (keyProcess key) \<noteq> [])"
| "validCall (RestartTool key) = (trimSpace (keyProject key) \<noteq> [] \<and> trimSpace (keyProcess key) \<noteq> [])"

lemma validateIDs_None: "validateIDs key = None \<longleftrightarrow> trimSpace (keyProject key) \<noteq> [] \<and> trimSpace (keyProcess key) \<noteq> []"
  by (auto simp: validateIDs_def validateProjectID_def)

lemma invalid_handled:
  "\<not> validCall call \<Longrightarrow> \<exists>m. handleTool client s call = (s, NoOutput, Some (InvalidInput m))"
  by (cases call) (auto simp: validateIDs_def validateProjectID_def handleProcess_def handleLogs_def defaultLimit_def Let_def split: option.splits)

lemma input_texts:
  "handleTool client s call = (s', output, Some (InvalidInput m)) \<Longrightarrow> ''invalid_arguments: '' @ m \<in> set operatorTexts"
  by (cases call)
    (auto simp: operatorTexts_def validateIDs_def validateProjectID_def handleProcess_def handleLogs_def viewAnswer_def Let_def
      split: option.splits prod.splits if_splits)

lemma toolError_texts: "\<forall>m. reason \<noteq> InvalidInput m \<Longrightarrow> toolError ctx now reason \<in> set operatorTexts"
  by (auto simp: toolError_def protocolText_def operatorTexts_def split: tool_failure.splits client_error.splits)

lemma callTool_texts: "callTool client ctx s call = (s', output, Some t) \<Longrightarrow> t \<in> set operatorTexts"
proof -
  assume "callTool client ctx s call = (s', output, Some t)"
  then consider e where "t = toolError ctx (tcBefore ctx) (ContextFailure e)"
    | e where "handleTool client s call = (s', output, Some e)" "t = toolError ctx (tcAfter ctx) e"
    by (auto simp: callTool_def split: option.splits prod.splits)
  then show ?thesis
  proof cases
    case 2
    show ?thesis
    proof (cases "\<exists>m. e = InvalidInput m")
      case True
      with 2 show ?thesis by (auto simp: toolError_def dest: input_texts)
    qed (use 2 toolError_texts in blast)
  qed (simp add: toolError_texts)
qed

text \<open>C30: What an MCP tool says when it fails is one of nine fixed texts, whatever the daemon or the connection
  said, and it returns nothing beside the text; a call with an empty ID, or with a limit below 1 or
  above 1,000, is refused before the daemon is asked.\<close>

theorem mcp_errors:
  assumes "callTool (controlClient w env) ctx s call = (s', output, Some t)"
  shows "t \<in> set operatorTexts \<and> blank output \<and> (\<not> validCall call \<longrightarrow> s' = s)"
proof -
  have "s' = s" if "\<not> validCall call"
    using invalid_handled [OF that, of "controlClient w env" s] assms by (auto simp: callTool_def split: option.splits)
  then show ?thesis using callTool_texts [OF assms] daemon_client.tool_failed [OF assms] by blast
qed

text \<open>The MCP tool for logs returns what the process wrote, and never makes the daemon panic: with the number
  of events that was asked for, or 100, it returns the newest retained events, or the first ones after
  the given sequence number, and leaves the daemon as it was.\<close>

theorem mcp_logs:
  assumes "validCall (LogsTool key afterSequence given)" and "l = (case given of None \<Rightarrow> 100 | Some l \<Rightarrow> l)"
    and "map_of (mgrOutputs (svManager s)) key = Some h" and "b = mOutput (mgrHeap (svManager s) ! h)"
    and "seq_from k (events b)" and "0 < k" and "int (length (events b)) + 1000 \<le> max_int64"
    and "list_all (\<lambda>e. proper_stream (eStream e)) (events b)"
    and "es = (if afterSequence = 0 then drop (length (events b) - nat l) (events b)
               else take (nat l) (filter (\<lambda>e. afterSequence < eSequence e) (events b)))"
    and "delivered w (requestOf n OperationProcessLogs (writeStruct logsInputFields \<lparr>liProjectID = keyProject key,
           liProcessID = keyProcess key, liAfterSequence = afterSequence, liLimit = l\<rparr>))"
    and "answered w env (itoa (unat (n + 1))) (Return (TailResult \<lparr>lvEvents = map eventToView es, lvTruncated = truncated b\<rparr>))"
    and "tcBefore ctx = None"
  shows "callTool (controlClient w env) ctx (s, n) (LogsTool key afterSequence given) =
     ((s, n + 1), LogsOutput \<lparr>mlEvents = map eventResult es, mlTruncated = truncated b\<rparr>, None)"
proof -
  have l: "1 \<le> l" "l \<le> 1000" using assms(1,2) by (auto split: option.splits)
  have logs: "Logs (svManager s) key afterSequence l = Return \<lparr>tEvents = es, tTruncated = truncated b\<rparr>"
    using tail_result [OF assms(5,6), of l afterSequence] l assms(3,4,7,9) by (simp add: Logs_def)
  have "set es \<subseteq> set (events b)"
    unfolding assms(9) by (auto dest: in_set_dropD in_set_takeD)
  then have proper: "list_all (\<lambda>e. proper_stream (eStream e)) es" using assms(8) by (auto simp: list_all_iff)
  have "is_int64 l" using l by (simp add: is_int64_def max_int64_def)
  then have "clientLogs w env s n key afterSequence l = (s, n + 1, \<lparr>tEvents = es, tTruncated = truncated b\<rparr>, None)"
    using client_logs [OF logs _ assms(10)] assms(11) proper by simp
  moreover have "validateIDs key = None" using assms(1) by (simp add: validateIDs_None)
  moreover have "(case given of None \<Rightarrow> defaultLimit | Some l \<Rightarrow> l) = l" using assms(2) by (cases given) (simp_all add: defaultLimit_def)
  ultimately show ?thesis
    using l assms(12)
    by (simp add: callTool_def handleLogs_def controlClient_def paired_def viewAnswer_def logsResult_def Let_def)
qed

definition calm_context :: tool_context where
  "calm_context = \<lparr>tcBefore = None, tcAfter = None, tcWraps = (\<lambda>e. None)\<rparr>"

theorem mcp_errors_witness:
  "\<exists>t. callTool (controlClient sample_wire sample_daemon) calm_context (sample_server, 0)
     (LogsTool (ProcessKey ''p'' ''q'') 1 (Some max_int64)) = ((sample_server, 0), NoOutput, Some t) \<and> t \<in> set operatorTexts"
proof -
  have "trimSpace ''p'' = ''p''" "trimSpace ''q'' = ''q''" by code_simp+
  then have "\<exists>t. callTool (controlClient sample_wire sample_daemon) calm_context (sample_server, 0)
      (LogsTool (ProcessKey ''p'' ''q'') 1 (Some max_int64)) = ((sample_server, 0), NoOutput, Some t)"
    by (simp add: callTool_def calm_context_def handleLogs_def validateIDs_None [THEN iffD2] max_int64_def)
  then show ?thesis using mcp_errors by blast
qed

definition logged_buffer :: output_buffer where
  "logged_buffer = \<lparr>maxBytes = 9, maxEvents = 9, bufBytes = 2, nextSequence = 3,
      events = [\<lparr>eSequence = 1, eCapturedAt = 0, eStream = Stdout, eData = ''a''\<rparr>,
                \<lparr>eSequence = 2, eCapturedAt = 0, eStream = Stderr, eData = ''b''\<rparr>], truncated = False\<rparr>"

definition logged_server :: "(unit, unit) control_server" where
  "logged_server = sample_server\<lparr>svManager := sample_manager\<lparr>mgrOutputs := [(ProcessKey ''p'' ''q'', 0)],
     mgrHeap := [\<lparr>mKey = ProcessKey ''p'' ''q'', mInstance = ''i'', mPID = 7, mClosed = True, mOutput = logged_buffer, mDone = True, mFinishErr = None\<rparr>]\<rparr>\<rparr>"

theorem mcp_logs_witness:
  "callTool (controlClient sample_wire sample_daemon) calm_context (logged_server, 0) (LogsTool (ProcessKey ''p'' ''q'') 1 None) =
     ((logged_server, 1), LogsOutput \<lparr>mlEvents = [\<lparr>meSequence = 2, meCapturedAt = 0, meStream = Stderr, meData = ''b''\<rparr>],
        mlTruncated = False\<rparr>, None)"
proof -
  have t: "trimSpace ''p'' = ''p''" "trimSpace ''q'' = ''q''" by code_simp+
  have proper: "proper_stream Stdout" "proper_stream Stderr" by code_simp+
  have seq: "seq_from 1 (events logged_buffer)" by (simp add: logged_buffer_def seq_from_Cons) (simp add: seq_from_def)
  have "callTool (controlClient sample_wire sample_daemon) calm_context (logged_server, 0) (LogsTool (ProcessKey ''p'' ''q'') 1 None) =
     ((logged_server, 0 + 1), LogsOutput \<lparr>mlEvents = map eventResult [\<lparr>eSequence = 2, eCapturedAt = 0, eStream = Stderr, eData = ''b''\<rparr>],
        mlTruncated = truncated logged_buffer\<rparr>, None)"
    by (rule mcp_logs [where l = 100 and h = 0 and b = logged_buffer and k = 1])
      (use t seq in \<open>simp_all add: logged_server_def sample_connection calm_context_def\<close>,
       simp_all add: logged_buffer_def max_int64_def proper)
  then show ?thesis by (simp add: eventResult_def logged_buffer_def)
qed

end
