(* ===== verification/GitConfig.thy ===== *)
theory GitConfig
  imports IdentityModel
begin

text \<open>
  The changes to the local configuration of a Git repository (\<open>internal/identity/git.go\<close>) and the
  preview of an import of personas.  Git is a program of its own: a function from its state and its
  arguments to its new state and its answer.  \<open>git_config\<close> states what its manual says of the
  commands used here, in terms of the values \<open>vals s root key\<close> of a key; nothing in the model
  interprets them otherwise.
\<close>

section \<open>The program\<close>

text \<open>\<open>GitExit\<close> is an exit with a status other than 0, \<open>GitError\<close> any other failure.\<close>

datatype git_answer = GitOutput bytes | GitExit int | GitError

type_synonym 's git_program = "'s \<Rightarrow> string list \<Rightarrow> 's \<times> git_answer"

datatype git_error =
  PersonaRefused identity_error | PathNotAbsolute | NotARepository | RootUnresolved
| CannotInspectAuthor | CannotUpdateAuthor | CannotInspectConfiguration | CannotResetHelper | CannotSetHelper

record git_os =
  goAbs :: "string \<Rightarrow> string option"
  goEvalSymlinks :: "string \<Rightarrow> string option"

definition succeeded :: "git_answer \<Rightarrow> bool" where
  "succeeded a = (case a of GitOutput _ \<Rightarrow> True | _ \<Rightarrow> False)"

definition gitLocal :: "string \<Rightarrow> string list \<Rightarrow> string list" where
  "gitLocal root arguments = [''-C'', root, ''config'', ''--local''] @ arguments"

definition revParse :: "string \<Rightarrow> string list" where
  "revParse path = [''-C'', path, ''rev-parse'', ''--show-toplevel'']"

definition GitRoot :: "'s git_program \<Rightarrow> git_os \<Rightarrow> 's \<Rightarrow> string \<Rightarrow> 's \<times> (git_error, string) sum" where
  "GitRoot git os s path =
     (case goAbs os path of
        None \<Rightarrow> (s, Inl PathNotAbsolute)
      | Some absolute \<Rightarrow>
          (case git s (revParse absolute) of
             (s', GitOutput output) \<Rightarrow>
               (s', case goEvalSymlinks os (clean (trimSpace output)) of None \<Rightarrow> Inl RootUnresolved | Some root \<Rightarrow> Inr root)
           | (s', _) \<Rightarrow> (s', Inl NotARepository)))"

section \<open>The author\<close>

text \<open>The first loop: the local value of every key, if it has one.\<close>

fun inspectAuthor :: "'s git_program \<Rightarrow> string \<Rightarrow> 's \<Rightarrow> string list \<Rightarrow> 's \<times> (string \<times> string option) list option" where
  "inspectAuthor git root s [] = (s, Some [])"
| "inspectAuthor git root s (key # ks) =
     (case git s (gitLocal root [''--get'', key]) of
        (s', GitOutput output) \<Rightarrow>
          (case inspectAuthor git root s' ks of
             (s'', rest) \<Rightarrow> (s'', map_option ((#) (key, Some (trimSuffix (trimSuffix output [CHR 0x0A]) [CHR 0x0D]))) rest))
      | (s', GitExit code) \<Rightarrow>
          if code = 1 then (case inspectAuthor git root s' ks of (s'', rest) \<Rightarrow> (s'', map_option ((#) (key, None)) rest))
          else (s', None)
      | (s', GitError) \<Rightarrow> (s', None))"

text \<open>The loop that puts the previous values back; the answers are ignored.\<close>

fun restoreAuthor :: "'s git_program \<Rightarrow> string \<Rightarrow> 's \<Rightarrow> (string \<times> string option) list \<Rightarrow> 's" where
  "restoreAuthor git root s [] = s"
| "restoreAuthor git root s ((key, previous) # rest) =
     restoreAuthor git root
       (fst (git s (gitLocal root (case previous of Some value \<Rightarrow> [key, value] | None \<Rightarrow> [''--unset-all'', key])))) rest"

text \<open>The second loop: the new values, up to the first that cannot be written.\<close>

fun writeAuthor :: "'s git_program \<Rightarrow> string \<Rightarrow> 's \<Rightarrow> (string \<times> string) list \<Rightarrow> 's \<times> bool" where
  "writeAuthor git root s [] = (s, True)"
| "writeAuthor git root s ((key, value) # rest) =
     (case git s (gitLocal root [key, value]) of
        (s', GitOutput _) \<Rightarrow> writeAuthor git root s' rest
      | (s', _) \<Rightarrow> (s', False))"

definition ApplyGitAuthor :: "(string \<Rightarrow> string option) \<Rightarrow> 's git_program \<Rightarrow> git_os \<Rightarrow> 's \<Rightarrow> string \<Rightarrow> persona
    \<Rightarrow> 's \<times> git_error option" where
  "ApplyGitAuthor parseAddress git os s path p =
     (case validatePersona parseAddress p of
        Some e \<Rightarrow> (s, Some (PersonaRefused e))
      | None \<Rightarrow>
          (case GitRoot git os s path of
             (s0, Inl e) \<Rightarrow> (s0, Some e)
           | (s0, Inr root) \<Rightarrow>
               (case inspectAuthor git root s0 [''user.name'', ''user.email''] of
                  (s1, None) \<Rightarrow> (s1, Some CannotInspectAuthor)
                | (s1, Some previous) \<Rightarrow>
                    (case writeAuthor git root s1 [(''user.name'', peGitName p), (''user.email'', peGitEmail p)] of
                       (s2, True) \<Rightarrow> (s2, None)
                     | (s2, False) \<Rightarrow> (restoreAuthor git root s2 previous, Some CannotUpdateAuthor)))))"

section \<open>The credential helper\<close>

definition helperKey :: string where "helperKey = ''credential.helper''"

definition helperValue :: string where "helperValue = ''!gh auth git-credential''"

definition localGitConfigValues :: "'s git_program \<Rightarrow> 's \<Rightarrow> string \<Rightarrow> string \<Rightarrow> 's \<times> string list option" where
  "localGitConfigValues git s root key =
     (case git s (gitLocal root [''--null'', ''--get-all'', key]) of
        (s', GitOutput output) \<Rightarrow> (s', Some (splitAt (CHR 0x00) (trimSuffix output [CHR 0x00])))
      | (s', GitExit code) \<Rightarrow> (s', if code = 1 then Some [] else None)
      | (s', GitError) \<Rightarrow> (s', None))"

fun addValues :: "'s git_program \<Rightarrow> 's \<Rightarrow> string \<Rightarrow> string \<Rightarrow> string list \<Rightarrow> 's" where
  "addValues git s root key [] = s"
| "addValues git s root key (v # vs) = addValues git (fst (git s (gitLocal root [''--add'', key, v]))) root key vs"

definition restoreLocalGitConfigValues :: "'s git_program \<Rightarrow> 's \<Rightarrow> string \<Rightarrow> string \<Rightarrow> string list \<Rightarrow> 's" where
  "restoreLocalGitConfigValues git s root key values =
     (case values of
        [] \<Rightarrow> fst (git s (gitLocal root [''--unset-all'', key]))
      | v # vs \<Rightarrow> addValues git (fst (git s (gitLocal root [''--replace-all'', key, v]))) root key vs)"

definition ApplyGitCredentialHelper :: "'s git_program \<Rightarrow> git_os \<Rightarrow> 's \<Rightarrow> string \<Rightarrow> 's \<times> git_error option" where
  "ApplyGitCredentialHelper git os s path =
     (case GitRoot git os s path of
        (s0, Inl e) \<Rightarrow> (s0, Some e)
      | (s0, Inr root) \<Rightarrow>
          (case localGitConfigValues git s0 root helperKey of
             (s1, None) \<Rightarrow> (s1, Some CannotInspectConfiguration)
           | (s1, Some previous) \<Rightarrow>
               (case git s1 (gitLocal root [''--replace-all'', helperKey, []]) of
                  (s2, GitOutput _) \<Rightarrow>
                    (case git s2 (gitLocal root [''--add'', helperKey, helperValue]) of
                       (s3, GitOutput _) \<Rightarrow> (s3, None)
                     | (s3, _) \<Rightarrow> (restoreLocalGitConfigValues git s3 root helperKey previous, Some CannotSetHelper))
                | (s2, _) \<Rightarrow> (s2, Some CannotResetHelper))))"

section \<open>The import of personas\<close>

record legacy_persona =
  lgName :: string
  lgUsername :: string
  lgEmail :: string

datatype import_error = EmptyImport | InvalidLegacy nat

definition importedPersona :: "string \<Rightarrow> nat \<Rightarrow> legacy_persona \<Rightarrow> persona" where
  "importedPersona host i item =
     \<lparr>peID = ''imported-'' @ itoa (i + 1), peName = lgName item, peGitName = lgUsername item, peGitEmail = lgEmail item,
      peHost = host, peAccount = lgUsername item\<rparr>"

fun importFrom :: "(string \<Rightarrow> string option) \<Rightarrow> string \<Rightarrow> nat \<Rightarrow> legacy_persona list \<Rightarrow> (import_error, persona list) sum" where
  "importFrom parseAddress host i [] = Inr []"
| "importFrom parseAddress host i (item # rest) =
     (if validatePersona parseAddress (importedPersona host i item) \<noteq> None then Inl (InvalidLegacy (i + 1))
      else case importFrom parseAddress host (i + 1) rest of
             Inl e \<Rightarrow> Inl e
           | Inr ps \<Rightarrow> Inr (importedPersona host i item # ps))"

text \<open>\<open>decoded\<close> is what \<open>json.Unmarshal\<close> makes of the data, if it can.\<close>

definition PreviewImport :: "(string \<Rightarrow> string option) \<Rightarrow> legacy_persona list option \<Rightarrow> string \<Rightarrow> (import_error, persona list) sum" where
  "PreviewImport parseAddress decoded host =
     (case decoded of
        None \<Rightarrow> Inl EmptyImport
      | Some [] \<Rightarrow> Inl EmptyImport
      | Some legacy \<Rightarrow> importFrom parseAddress host 0 legacy)"

section \<open>What the manual of Git says\<close>

text \<open>A command that edits one key: it changes no other value; if it succeeds, the values of the key are
  those that \<open>change\<close> makes of the old ones; if it fails, they stay.\<close>

definition edits :: "'s git_program \<Rightarrow> ('s \<Rightarrow> string \<Rightarrow> string \<Rightarrow> string list) \<Rightarrow> string \<Rightarrow> string \<Rightarrow> string list
    \<Rightarrow> (string list \<Rightarrow> string list option) \<Rightarrow> bool" where
  "edits git vals root key arguments change \<longleftrightarrow>
     (\<forall>s s' a. git s (gitLocal root arguments) = (s', a) \<longrightarrow>
        (if succeeded a then \<exists>new. change (vals s root key) = Some new \<and> vals s' = (vals s)(root := (vals s root)(key := new))
         else vals s' = vals s))"

definition reads :: "'s git_program \<Rightarrow> ('s \<Rightarrow> string \<Rightarrow> string \<Rightarrow> string list) \<Rightarrow> string list \<Rightarrow> ('s \<Rightarrow> git_answer \<Rightarrow> bool) \<Rightarrow> bool" where
  "reads git vals arguments answer \<longleftrightarrow> (\<forall>s s' a. git s arguments = (s', a) \<longrightarrow> vals s' = vals s \<and> answer s a)"

definition configKeys :: "string list" where
  "configKeys = [''user.name'', ''user.email'', helperKey]"

text \<open>A value is set in place of one value or of none; \<open>--get\<close> gives the last value.\<close>

definition git_config :: "'s git_program \<Rightarrow> ('s \<Rightarrow> string \<Rightarrow> string \<Rightarrow> string list) \<Rightarrow> bool" where
  "git_config git vals \<longleftrightarrow>
     (\<forall>path. reads git vals (revParse path) (\<lambda>s a. True)) \<and>
     (\<forall>root key. key \<in> set configKeys \<longrightarrow>
        reads git vals (gitLocal root [''--get'', key])
          (\<lambda>s a. case a of
             GitOutput output \<Rightarrow> vals s root key \<noteq> [] \<and> output = last (vals s root key) @ [CHR 0x0A]
           | GitExit code \<Rightarrow> code = 1 \<longrightarrow> vals s root key = []
           | GitError \<Rightarrow> True) \<and>
        reads git vals (gitLocal root [''--null'', ''--get-all'', key])
          (\<lambda>s a. case a of
             GitOutput output \<Rightarrow> vals s root key \<noteq> [] \<and> output = concat (map (\<lambda>v. v @ [CHR 0x00]) (vals s root key))
           | GitExit code \<Rightarrow> code = 1 \<longrightarrow> vals s root key = []
           | GitError \<Rightarrow> True) \<and>
        edits git vals root key [''--unset-all'', key] (\<lambda>old. Some []) \<and>
        (\<forall>v. edits git vals root key [key, v] (\<lambda>old. if length old \<le> 1 then Some [v] else None) \<and>
             edits git vals root key [''--replace-all'', key, v] (\<lambda>old. Some [v]) \<and>
             edits git vals root key [''--add'', key, v] (\<lambda>old. Some (old @ [v]))))"

lemma configKeys [simp]: "''user.name'' \<in> set configKeys" "''user.email'' \<in> set configKeys" "helperKey \<in> set configKeys"
  by (simp_all add: configKeys_def)

lemma edits_cases:
  assumes "edits git vals root key arguments change" and "git s (gitLocal root arguments) = (s', a)"
  obtains (wrote) new where "succeeded a" "change (vals s root key) = Some new" "vals s' = (vals s)(root := (vals s root)(key := new))"
  | (kept) "\<not> succeeded a" "vals s' = vals s"
  using assms by (auto simp: edits_def split: if_splits)

lemma git_configD:
  assumes "git_config git vals"
  shows "git s (revParse path) = (s', a) \<Longrightarrow> vals s' = vals s"
    and "key \<in> set configKeys \<Longrightarrow> git s (gitLocal root [''--get'', key]) = (s', a) \<Longrightarrow> vals s' = vals s \<and>
      (\<forall>out. a = GitOutput out \<longrightarrow> vals s root key \<noteq> [] \<and> out = last (vals s root key) @ [CHR 0x0A]) \<and> (a = GitExit 1 \<longrightarrow> vals s root key = [])"
    and "key \<in> set configKeys \<Longrightarrow> git s (gitLocal root [''--null'', ''--get-all'', key]) = (s', a) \<Longrightarrow> vals s' = vals s \<and>
      (\<forall>out. a = GitOutput out \<longrightarrow> vals s root key \<noteq> [] \<and> out = concat (map (\<lambda>v. v @ [CHR 0x00]) (vals s root key))) \<and>
      (a = GitExit 1 \<longrightarrow> vals s root key = [])"
    and "key \<in> set configKeys \<Longrightarrow> edits git vals root key [''--unset-all'', key] (\<lambda>old. Some [])"
    and "key \<in> set configKeys \<Longrightarrow> edits git vals root key [key, v] (\<lambda>old. if length old \<le> 1 then Some [v] else None)"
    and "key \<in> set configKeys \<Longrightarrow> edits git vals root key [''--replace-all'', key, v] (\<lambda>old. Some [v])"
    and "key \<in> set configKeys \<Longrightarrow> edits git vals root key [''--add'', key, v] (\<lambda>old. Some (old @ [v]))"
  using assms unfolding git_config_def reads_def by (fastforce split: git_answer.splits)+

lemma GitRoot_keeps:
  assumes "git_config git vals" and "GitRoot git os s path = (s', r)"
  shows "vals s' = vals s"
  using assms by (auto simp: GitRoot_def dest: git_configD(1) split: option.splits prod.splits git_answer.splits)

section \<open>The author is written whole or not at all\<close>

definition previousValue :: "string list \<Rightarrow> string option" where
  "previousValue old = (if old = [] then None else Some (trimSuffix (last old) [CHR 0x0D]))"

lemma inspect_result:
  assumes "git_config git vals"
  shows "inspectAuthor git root s ks = (s', r) \<Longrightarrow> \<forall>k\<in>set ks. k \<in> set configKeys \<Longrightarrow>
    vals s' = vals s \<and> (\<forall>previous. r = Some previous \<longrightarrow> previous = map (\<lambda>k. (k, previousValue (vals s root k))) ks)"
proof (induction ks arbitrary: s s' r)
  case (Cons k ks)
  obtain t a where g: "git s (gitLocal root [''--get'', k]) = (t, a)" by fastforce
  have k: "k \<in> set configKeys" using Cons.prems by simp
  obtain u q where rest: "inspectAuthor git root t ks = (u, q)" by fastforce
  show ?case
    using Cons.prems Cons.IH [OF rest] git_configD(2) [OF assms k g] g rest
    by (cases a) (auto simp: previousValue_def trimSuffix_append split: if_splits)
qed auto

text \<open>Putting a previous value back where nothing was written changes nothing.\<close>

lemma restore_idle:
  assumes "git_config git vals" and "k \<in> set configKeys" and "\<forall>v\<in>set (vals s root k). \<not> hasSuffix v [CHR 0x0D]"
    and "git s (gitLocal root (case previousValue (vals s root k) of Some v \<Rightarrow> [k, v] | None \<Rightarrow> [''--unset-all'', k])) = (s', a)"
  shows "vals s' = vals s"
proof (cases "vals s root k = []")
  case True
  have "git s (gitLocal root [''--unset-all'', k]) = (s', a)" using assms(4) True by (simp add: previousValue_def)
  with git_configD(4) [OF assms(1,2)] show ?thesis
    by (rule edits_cases) (use True in \<open>auto simp: fun_eq_iff\<close>)
next
  case False
  then have "trimSuffix (last (vals s root k)) [CHR 0x0D] = last (vals s root k)" using assms(3) by (simp add: trimSuffix_def)
  then have "git s (gitLocal root [k, last (vals s root k)]) = (s', a)" using assms(4) False by (simp add: previousValue_def)
  with git_configD(5) [OF assms(1,2)] show ?thesis
  proof (rule edits_cases)
    fix new
    assume "(if length (vals s root k) \<le> 1 then Some [last (vals s root k)] else None) = Some new"
    then have "new = vals s root k" using False by (cases "vals s root k") (auto split: if_splits)
    moreover assume "vals s' = (vals s)(root := (vals s root)(k := new))"
    ultimately show ?thesis by simp
  qed
qed

definition restorable :: "'s git_program \<Rightarrow> ('s \<Rightarrow> string \<Rightarrow> string \<Rightarrow> string list) \<Rightarrow> string \<Rightarrow> bool" where
  "restorable git vals key \<longleftrightarrow>
     (\<forall>s root v. length (vals s root key) \<le> 1 \<longrightarrow> succeeded (snd (git s (gitLocal root [key, v])))) \<and>
     (\<forall>s root. vals s root key \<noteq> [] \<longrightarrow> succeeded (snd (git s (gitLocal root [''--unset-all'', key]))))"

text \<open>Putting it back over the one value that was written.\<close>

lemma restore_written:
  assumes "git_config git vals" and "k \<in> set configKeys" and "restorable git vals k"
    and "length old \<le> 1" and "\<forall>v\<in>set old. \<not> hasSuffix v [CHR 0x0D]" and "vals s root k = [w]"
    and "git s (gitLocal root (case previousValue old of Some v \<Rightarrow> [k, v] | None \<Rightarrow> [''--unset-all'', k])) = (s', a)"
  shows "vals s' = (vals s)(root := (vals s root)(k := old))"
proof (cases old)
  case Nil
  then have g: "git s (gitLocal root [''--unset-all'', k]) = (s', a)" using assms(7) by (simp add: previousValue_def)
  moreover have "succeeded (snd (git s (gitLocal root [''--unset-all'', k])))" using assms(3,6) by (simp add: restorable_def)
  ultimately have "succeeded a" by simp
  from git_configD(4) [OF assms(1,2)] g show ?thesis by (rule edits_cases) (use Nil \<open>succeeded a\<close> in simp_all)
next
  case (Cons v vs)
  then have v: "old = [v]" using assms(4) by (cases vs) auto
  then have g: "git s (gitLocal root [k, v]) = (s', a)" using assms(5,7) by (simp add: previousValue_def trimSuffix_def)
  moreover have "succeeded (snd (git s (gitLocal root [k, v])))" using assms(3,6) by (simp add: restorable_def)
  ultimately have "succeeded a" by simp
  from git_configD(5) [OF assms(1,2)] g show ?thesis by (rule edits_cases) (use v assms(6) \<open>succeeded a\<close> in simp_all)
qed

lemma writeAuthor_step:
  "git s (gitLocal root [k, v]) = (s', a) \<Longrightarrow>
     writeAuthor git root s ((k, v) # rest) = (if succeeded a then writeAuthor git root s' rest else (s', False))"
  by (simp add: succeeded_def split: git_answer.split)

declare writeAuthor.simps(2) [simp del]

lemma write_or_restore:
  assumes "git_config git vals" and "restorable git vals name"
    and "\<forall>root key. \<forall>v\<in>set (vals s root key). \<not> hasSuffix v [CHR 0x0D]"
    and "name \<in> set configKeys" and "email \<in> set configKeys" and "name \<noteq> email"
    and "writeAuthor git root s [(name, n), (email, m)] = (s2, ok)"
  shows "if ok then vals s2 = (vals s)(root := (vals s root)(name := [n], email := [m]))
    else vals (restoreAuthor git root s2 [(name, previousValue (vals s root name)), (email, previousValue (vals s root email))]) = vals s"
proof -
  obtain s1 a where g1: "git s (gitLocal root [name, n]) = (s1, a)" by fastforce
  obtain t b where r1: "git s2 (gitLocal root (case previousValue (vals s root name) of Some v \<Rightarrow> [name, v] | None \<Rightarrow> [''--unset-all'', name])) = (t, b)"
    by fastforce
  obtain u c where r2: "git t (gitLocal root (case previousValue (vals s root email) of Some v \<Rightarrow> [email, v] | None \<Rightarrow> [''--unset-all'', email])) = (u, c)"
    by fastforce
  have restored: "vals u = vals s" if "vals t = vals s"
  proof -
    have "vals u = vals t" by (rule restore_idle [OF assms(1,5)]) (use assms(3) that r2 in simp_all)
    with that show ?thesis by simp
  qed
  show ?thesis
    using git_configD(5) [OF assms(1,4)] g1
  proof (rule edits_cases)
    assume "\<not> succeeded a" "vals s1 = vals s"
    then have s2: "vals s2 = vals s" "\<not> ok" using assms(7) writeAuthor_step [of git s root name n, OF g1] by auto
    have "vals t = vals s2"
      by (rule restore_idle [OF assms(1,4)]) (use assms(3) s2 r1 in simp_all)
    with restored s2 r1 r2 show ?thesis by simp
  next
    fix new
    assume wrote: "succeeded a" "(if length (vals s root name) \<le> 1 then Some [n] else None) = Some new"
      "vals s1 = (vals s)(root := (vals s root)(name := new))"
    obtain s3 d where g2: "git s1 (gitLocal root [email, m]) = (s3, d)" by fastforce
    have s3: "s2 = s3" "ok = succeeded d" using assms(7) wrote(1) by (simp_all add: writeAuthor_step [of git s root name n, OF g1] writeAuthor_step [of git s1 root email m, OF g2] split: if_splits)
    show ?thesis
      using git_configD(5) [OF assms(1,5)] g2
    proof (rule edits_cases)
      assume "\<not> succeeded d" "vals s3 = vals s1"
      then have "vals t = vals s"
        using restore_written [OF assms(1,4,2) _ _ _ r1, of n] wrote s3 assms(3) by (auto split: if_splits)
      with restored \<open>\<not> succeeded d\<close> s3 r1 r2 show ?thesis by simp
    qed (use wrote s3 assms(6) in \<open>auto split: if_splits\<close>)
  qed
qed

text \<open>An author is applied whole or not at all: when \<open>ApplyGitAuthor\<close> reports success, the local name and
  e-mail of the repository are those of the persona, and nothing else changed; when it reports an error,
  the local configuration of every repository is what it was, provided that \<open>user.name\<close> can be put back
  and the previous values do not end in a carriage return.\<close>

theorem git_author_atomic:
  assumes "git_config git vals" and "restorable git vals ''user.name''"
    and "\<forall>root key. \<forall>v\<in>set (vals s root key). \<not> hasSuffix v [CHR 0x0D]"
    and "ApplyGitAuthor parseAddress git os s path p = (s', e)"
  shows "(e = None \<longrightarrow> (\<exists>root. vals s' = (vals s)(root := (vals s root)(''user.name'' := [peGitName p], ''user.email'' := [peGitEmail p])))) \<and>
    (e \<noteq> None \<longrightarrow> vals s' = vals s)"
proof (cases "validatePersona parseAddress p")
  case None
  obtain s0 r where root: "GitRoot git os s path = (s0, r)" by (meson surj_pair)
  note s0 = GitRoot_keeps [OF assms(1) root]
  show ?thesis
  proof (cases r)
    case (Inr root')
    obtain s1 q where inspect: "inspectAuthor git root' s0 [''user.name'', ''user.email''] = (s1, q)" by (meson surj_pair)
    have s1: "vals s1 = vals s" and q: "\<And>previous. q = Some previous \<Longrightarrow> previous = [(''user.name'', previousValue (vals s root' ''user.name'')),
        (''user.email'', previousValue (vals s root' ''user.email''))]"
      using inspect_result [OF assms(1) inspect] s0 by auto
    show ?thesis
    proof (cases q)
      case None
      then have "s' = s1" "e \<noteq> None"
        using assms(4) \<open>validatePersona parseAddress p = None\<close> root Inr inspect by (auto simp: ApplyGitAuthor_def simp del: inspectAuthor.simps)
      then show ?thesis using s1 by blast
    next
      case (Some previous)
      obtain s2 ok where written: "writeAuthor git root' s1 [(''user.name'', peGitName p), (''user.email'', peGitEmail p)] = (s2, ok)" by (meson surj_pair)
      have "if ok then vals s2 = (vals s)(root' := (vals s root')(''user.name'' := [peGitName p], ''user.email'' := [peGitEmail p]))
          else vals (restoreAuthor git root' s2 previous) = vals s"
        using write_or_restore [OF assms(1,2) _ _ _ _ written] assms(3) s1 q [OF Some] by (cases ok) (simp_all del: restoreAuthor.simps)
      then show ?thesis
        using assms(4) \<open>validatePersona parseAddress p = None\<close> root Inr inspect written Some by (auto simp: ApplyGitAuthor_def simp del: inspectAuthor.simps restoreAuthor.simps split: if_splits bool.splits)
    qed
  qed (use assms(4) None root s0 in \<open>auto simp: ApplyGitAuthor_def\<close>)
qed (use assms(4) in \<open>auto simp: ApplyGitAuthor_def\<close>)

section \<open>The credential helper is set or left alone\<close>

lemma join_values:
  "vs \<noteq> [] \<Longrightarrow> trimSuffix (concat (map (\<lambda>v. v @ [c]) vs)) [c] = joinWith [c] vs"
proof (induction vs rule: rev_induct)
  case (snoc v vs)
  have "concat (map (\<lambda>v. v @ [c]) vs) @ v = joinWith [c] (vs @ [v])"
    by (induction vs) (simp_all add: joinWith_Cons)
  moreover have "concat (map (\<lambda>v. v @ [c]) (vs @ [v])) = (concat (map (\<lambda>v. v @ [c]) vs) @ v) @ [c]" by simp
  ultimately show ?case by (simp only: trimSuffix_append)
qed simp

lemma local_values:
  assumes "git_config git vals" and "key \<in> set configKeys" and "\<forall>v\<in>set (vals s root key). CHR 0x00 \<notin> set v"
    and "localGitConfigValues git s root key = (s', r)"
  shows "vals s' = vals s" and "r = Some values \<Longrightarrow> values = vals s root key"
proof -
  obtain a where g: "git s (gitLocal root [''--null'', ''--get-all'', key]) = (s', a)"
    using assms(4) by (auto simp: localGitConfigValues_def split: prod.splits git_answer.splits)
  show "vals s' = vals s" using git_configD(3) [OF assms(1,2) g] by blast
  show "values = vals s root key" if "r = Some values"
    using git_configD(3) [OF assms(1,2) g] assms(3,4) g that
    by (auto simp: localGitConfigValues_def join_values splitAt_join split: git_answer.splits if_splits)
qed

lemma addValues_vals:
  assumes "git_config git vals" and "key \<in> set configKeys"
  shows "\<forall>v\<in>set vs. \<forall>s. succeeded (snd (git s (gitLocal root [''--add'', key, v]))) \<Longrightarrow>
    vals (addValues git s root key vs) = (vals s)(root := (vals s root)(key := vals s root key @ vs))"
proof (induction vs arbitrary: s)
  case (Cons v vs)
  obtain t a where g: "git s (gitLocal root [''--add'', key, v]) = (t, a)" by fastforce
  then have "succeeded a" using Cons.prems by (metis list.set_intros(1) snd_conv)
  from git_configD(7) [OF assms] g have t: "vals t = (vals s)(root := (vals s root)(key := vals s root key @ [v]))"
    by (rule edits_cases) (use \<open>succeeded a\<close> in simp_all)
  have "vals (addValues git t root key vs) = (vals t)(root := (vals t root)(key := vals t root key @ vs))"
    by (rule Cons.IH) (use Cons.prems in simp)
  then show ?case unfolding t using g by (simp add: fun_eq_iff)
qed simp

lemma restore_values:
  assumes "git_config git vals" and "key \<in> set configKeys"
    and "\<forall>v\<in>set olds. \<forall>t. succeeded (snd (git t (gitLocal root [''--replace-all'', key, v]))) \<and>
       succeeded (snd (git t (gitLocal root [''--add'', key, v])))"
    and "\<forall>t. succeeded (snd (git t (gitLocal root [''--unset-all'', key])))"
  shows "vals (restoreLocalGitConfigValues git s root key olds) = (vals s)(root := (vals s root)(key := olds))"
proof (cases olds)
  case Nil
  obtain t a where g: "git s (gitLocal root [''--unset-all'', key]) = (t, a)" by fastforce
  then have "succeeded a" using assms(4) by (metis snd_conv)
  from git_configD(4) [OF assms(1,2)] g have "vals t = (vals s)(root := (vals s root)(key := []))"
    by (rule edits_cases) (use \<open>succeeded a\<close> in simp_all)
  then show ?thesis using Nil g by (simp add: restoreLocalGitConfigValues_def)
next
  case (Cons v vs)
  obtain t a where g: "git s (gitLocal root [''--replace-all'', key, v]) = (t, a)" by fastforce
  then have "succeeded a" using assms(3) Cons by (metis list.set_intros(1) snd_conv)
  from git_configD(6) [OF assms(1,2)] g have t: "vals t = (vals s)(root := (vals s root)(key := [v]))"
    by (rule edits_cases) (use \<open>succeeded a\<close> in simp_all)
  have "vals (addValues git t root key vs) = (vals t)(root := (vals t root)(key := vals t root key @ vs))"
    using assms(3) Cons by (intro addValues_vals [OF assms(1,2)]) simp
  then show ?thesis unfolding t using Cons g by (simp add: restoreLocalGitConfigValues_def fun_eq_iff)
qed

lemma set_or_restore_helper:
  assumes "git_config git vals" and "git s1 (gitLocal root [''--replace-all'', helperKey, []]) = (s2, a)"
    and "git s2 (gitLocal root [''--add'', helperKey, helperValue]) = (s3, b)"
    and "\<forall>v\<in>set (vals s1 root helperKey). \<forall>t. succeeded (snd (git t (gitLocal root [''--replace-all'', helperKey, v]))) \<and>
       succeeded (snd (git t (gitLocal root [''--add'', helperKey, v])))"
    and "\<forall>t. succeeded (snd (git t (gitLocal root [''--unset-all'', helperKey])))"
  shows "if \<not> succeeded a then vals s2 = vals s1
    else if succeeded b then vals s3 = (vals s1)(root := (vals s1 root)(helperKey := [[], helperValue]))
    else vals (restoreLocalGitConfigValues git s3 root helperKey (vals s1 root helperKey)) = vals s1"
  using git_configD(6) [OF assms(1) configKeys(3)] assms(2)
proof (rule edits_cases)
  fix new
  assume a: "succeeded a" "Some [[]] = Some new" "vals s2 = (vals s1)(root := (vals s1 root)(helperKey := new))"
  show ?thesis
    using git_configD(7) [OF assms(1) configKeys(3)] assms(3)
  proof (rule edits_cases)
    assume "\<not> succeeded b" "vals s3 = vals s2"
    moreover have "vals (restoreLocalGitConfigValues git s3 root helperKey (vals s1 root helperKey)) =
        (vals s3)(root := (vals s3 root)(helperKey := vals s1 root helperKey))"
      by (rule restore_values [OF assms(1) configKeys(3) assms(4,5)])
    ultimately show ?thesis using a by simp
  qed (use a in auto)
qed simp

text \<open>Git uses the command of this repository as its credential helper or stays as it was: when
  \<open>ApplyGitCredentialHelper\<close> reports success, the local helpers are the empty entry, which clears the
  inherited ones, and the \<open>gh\<close> command; when it reports an error, no local configuration differs, provided
  the commands that put the previous helpers back succeed.\<close>

theorem git_helper_atomic:
  assumes "git_config git vals" and "\<forall>root. \<forall>v\<in>set (vals s root helperKey). CHR 0x00 \<notin> set v"
    and "\<forall>t root v. v \<in> set (vals s root helperKey) \<longrightarrow> succeeded (snd (git t (gitLocal root [''--replace-all'', helperKey, v]))) \<and>
       succeeded (snd (git t (gitLocal root [''--add'', helperKey, v])))"
    and "\<forall>t root. succeeded (snd (git t (gitLocal root [''--unset-all'', helperKey])))"
    and "ApplyGitCredentialHelper git os s path = (s', e)"
  shows "(e = None \<longrightarrow> (\<exists>root. vals s' = (vals s)(root := (vals s root)(helperKey := [[], helperValue])))) \<and>
    (e \<noteq> None \<longrightarrow> vals s' = vals s)"
proof -
  obtain s0 r where root: "GitRoot git os s path = (s0, r)" by (meson surj_pair)
  note s0 = GitRoot_keeps [OF assms(1) root]
  show ?thesis
  proof (cases r)
    case (Inl x)
    then show ?thesis using assms(5) root s0 by (auto simp: ApplyGitCredentialHelper_def)
  next
    case (Inr root')
    obtain s1 q where locals: "localGitConfigValues git s0 root' helperKey = (s1, q)" by (meson surj_pair)
    have s1: "vals s1 = vals s" and q: "\<And>previous. q = Some previous \<Longrightarrow> previous = vals s1 root' helperKey"
      using local_values [OF assms(1) configKeys(3) _ locals] assms(2) s0 by auto
    obtain s2 a where reset: "git s1 (gitLocal root' [''--replace-all'', helperKey, []]) = (s2, a)" by (meson surj_pair)
    obtain s3 b where add: "git s2 (gitLocal root' [''--add'', helperKey, helperValue]) = (s3, b)" by (meson surj_pair)
    have "(s', e) = (case q of None \<Rightarrow> (s1, Some CannotInspectConfiguration)
        | Some previous \<Rightarrow> if \<not> succeeded a then (s2, Some CannotResetHelper) else if succeeded b then (s3, None)
            else (restoreLocalGitConfigValues git s3 root' helperKey previous, Some CannotSetHelper))"
      using assms(5) root Inr locals reset add by (auto simp: ApplyGitCredentialHelper_def succeeded_def split: git_answer.splits option.split)
    with set_or_restore_helper [OF assms(1) reset add] assms(3,4) s1 q show ?thesis
      by (auto split: option.splits if_splits)
  qed
qed

definition sample_git :: "string \<Rightarrow> (string \<Rightarrow> string \<Rightarrow> string list) git_program" where
  "sample_git broken s arguments =
     (case arguments of
        [_, root, _, _] \<Rightarrow> (s, GitOutput root)
      | [_, root, _, _, a, b] \<Rightarrow>
          if a = ''--get'' then (s, if s root b = [] then GitExit 1 else GitOutput (last (s root b) @ [CHR 0x0A]))
          else if a = ''--unset-all'' then (s(root := (s root)(b := [])), GitOutput [])
          else if a = broken \<or> 1 < length (s root a) then (s, GitExit 5)
          else (s(root := (s root)(a := [b])), GitOutput [])
      | [_, root, _, _, a, b, c] \<Rightarrow>
          if a = ''--null'' then (s, if s root c = [] then GitExit 1 else GitOutput (concat (map (\<lambda>v. v @ [CHR 0x00]) (s root c))))
          else if a = ''--replace-all'' then (s(root := (s root)(b := [c])), GitOutput [])
          else if c = broken then (s, GitExit 5)
          else (s(root := (s root)(b := s root b @ [c])), GitOutput [])
      | _ \<Rightarrow> (s, GitError))"

lemma sample_git_config: "git_config (sample_git broken) (\<lambda>s. s)"
  by (auto simp: git_config_def reads_def edits_def sample_git_def gitLocal_def revParse_def configKeys_def helperKey_def succeeded_def)

definition plain_os :: git_os where
  "plain_os = \<lparr>goAbs = Some, goEvalSymlinks = Some\<rparr>"

definition author_before :: "string \<Rightarrow> string \<Rightarrow> string list" where
  "author_before root key = (if key = ''user.name'' then [''old''] else [])"

definition new_author :: persona where
  "new_author = \<lparr>peID = ''me'', peName = ''Me'', peGitName = ''me'', peGitEmail = ''m'', peHost = ''github.com'', peAccount = ''me''\<rparr>"

theorem git_author_atomic_witness:
  "ApplyGitAuthor Some (sample_git ''user.email'') plain_os author_before ''/r'' new_author = (author_before, Some CannotUpdateAuthor)"
proof -
  have e: "snd (ApplyGitAuthor Some (sample_git ''user.email'') plain_os author_before ''/r'' new_author) = Some CannotUpdateAuthor"
    by code_simp
  moreover have "restorable (sample_git ''user.email'') (\<lambda>s. s) ''user.name''"
    by (auto simp: restorable_def sample_git_def gitLocal_def succeeded_def)
  moreover have "\<forall>root key. \<forall>v\<in>set (author_before root key). \<not> hasSuffix v [CHR 0x0D]"
    by (simp add: author_before_def hasSuffix_def hasPrefix_def)
  ultimately have "fst (ApplyGitAuthor Some (sample_git ''user.email'') plain_os author_before ''/r'' new_author) = author_before"
    using git_author_atomic [OF sample_git_config] by (metis option.distinct(1) prod.collapse)
  with e show ?thesis by (metis prod.collapse)
qed

theorem git_helper_atomic_witness:
  "ApplyGitCredentialHelper (sample_git helperValue) plain_os (\<lambda>root key. [''store'', ''cache'']) ''/r'' =
     (\<lambda>root key. [''store'', ''cache''], Some CannotSetHelper)"
proof -
  let ?s = "\<lambda>(root::string) (key::string). [''store'', ''cache'']"
  have e: "snd (ApplyGitCredentialHelper (sample_git helperValue) plain_os ?s ''/r'') = Some CannotSetHelper"
    by code_simp
  have "\<forall>t root v. v \<in> set [''store'', ''cache''] \<longrightarrow>
      succeeded (snd (sample_git helperValue t (gitLocal root [''--replace-all'', helperKey, v]))) \<and>
      succeeded (snd (sample_git helperValue t (gitLocal root [''--add'', helperKey, v])))"
    by (auto simp: sample_git_def gitLocal_def succeeded_def helperValue_def)
  moreover have "\<forall>t root. succeeded (snd (sample_git helperValue t (gitLocal root [''--unset-all'', helperKey])))"
    by (simp add: sample_git_def gitLocal_def succeeded_def)
  ultimately have "fst (ApplyGitCredentialHelper (sample_git helperValue) plain_os ?s ''/r'') = ?s"
    using git_helper_atomic [OF sample_git_config, of ?s] e by (simp add: prod_eq_iff)
  with e show ?thesis by (metis prod.collapse)
qed

section \<open>Imported personas\<close>

lemma import_result:
  "importFrom parseAddress host i legacy = Inr ps \<Longrightarrow>
     length ps = length legacy \<and> (\<forall>j<length legacy. ps ! j = importedPersona host (i + j) (legacy ! j) \<and> validatePersona parseAddress (ps ! j) = None)"
proof (induction legacy arbitrary: i ps)
  case (Cons item rest)
  then obtain qs where qs: "importFrom parseAddress host (i + 1) rest = Inr qs" "ps = importedPersona host i item # qs"
      "validatePersona parseAddress (importedPersona host i item) = None"
    by (auto split: if_splits sum.splits)
  with Cons.IH [OF qs(1)] show ?case by (auto simp: nth_Cons split: nat.split)
qed simp

end
