(* ===== verification/GitDiscovery.thy ===== *)
theory GitDiscovery
  imports Executor
begin

text \<open>
  The discovery of GitHub accounts and of the repository of a checkout
  (\<open>internal/identity/discovery.go\<close>).  What \<open>json.Unmarshal\<close> makes of the answer of the GitHub CLI and
  \<open>url.Parse\<close> are parameters, and so are the answers of the commands.
\<close>

section \<open>Accounts\<close>

record github_account =
  ghHost :: string
  ghAccount :: string
  ghActive :: bool

text \<open>The order of the result: active accounts first, then by host and account.\<close>

datatype account_rank = Rank bool string

instantiation account_rank :: linorder
begin

fun less_eq_account_rank :: "account_rank \<Rightarrow> account_rank \<Rightarrow> bool" where
  "less_eq_account_rank (Rank a s) (Rank b t) = (if a \<noteq> b then a else s \<le> t)"

definition less_account_rank :: "account_rank \<Rightarrow> account_rank \<Rightarrow> bool" where
  "less_account_rank x y \<longleftrightarrow> x \<le> y \<and> \<not> y \<le> x"

instance
proof
  fix x y z :: account_rank
  show "x < y \<longleftrightarrow> x \<le> y \<and> \<not> y \<le> x" by (rule less_account_rank_def)
  show "x \<le> x" by (cases x) simp
  show "x \<le> z" if "x \<le> y" "y \<le> z" using that by (cases x; cases y; cases z) (auto split: if_splits)
  show "x = y" if "x \<le> y" "y \<le> x" using that by (cases x; cases y) (auto split: if_splits)
  show "x \<le> y \<or> y \<le> x" by (cases x; cases y) auto
qed

end

definition accountRank :: "github_account \<Rightarrow> account_rank" where
  "accountRank a = Rank (ghActive a) (ghHost a @ ''/'' @ ghAccount a)"

definition accountKey :: "github_account \<Rightarrow> string" where
  "accountKey a = map lower (ghHost a @ ''/'' @ ghAccount a)"

definition validAccount :: "github_account \<Rightarrow> bool" where
  "validAccount a \<longleftrightarrow> hostName (ghHost a) \<and> isIdentifier (ghAccount a)"

fun keepAccounts :: "string list \<Rightarrow> github_account list \<Rightarrow> github_account list" where
  "keepAccounts seen [] = []"
| "keepAccounts seen (a # as) =
     (if \<not> validAccount a \<or> List.member seen (accountKey a) then keepAccounts seen as
      else a # keepAccounts (accountKey a # seen) as)"

datatype discovery_error = InvalidAccountList | CannotListAccounts | UnusableGH

definition parseAccounts :: "github_account list option \<Rightarrow> (discovery_error, github_account list) sum" where
  "parseAccounts decoded =
     (case decoded of None \<Rightarrow> Inl InvalidAccountList | Some accounts \<Rightarrow> Inr (sort_key accountRank (keepAccounts [] accounts)))"

text \<open>\<open>GitHubAccounts\<close>, for what the run of the original command writes and whether it succeeds; the buffer behind it refuses more than 256 KiB.\<close>

definition GitHubAccounts :: "os_view \<Rightarrow> exec \<Rightarrow> string \<Rightarrow> (string \<Rightarrow> bytes list \<times> bool) \<Rightarrow> (bytes \<Rightarrow> github_account list option)
    \<Rightarrow> (discovery_error, github_account list) sum" where
  "GitHubAccounts os exec gh run unmarshal =
     (case ValidateGH os exec gh of
        Inl e \<Rightarrow> Inl UnusableGH
      | Inr path \<Rightarrow>
          (case run path of
             (chunks, ok) \<Rightarrow>
               (case limitedWrites 262144 [] chunks of
                  None \<Rightarrow> Inl CannotListAccounts
                | Some output \<Rightarrow> if ok then parseAccounts (unmarshal output) else Inl CannotListAccounts)))"

section \<open>The repository of a remote\<close>

record parsed_url =
  puScheme :: string
  puHostname :: string
  puPath :: string

definition remoteParts :: "(string \<Rightarrow> parsed_url option) \<Rightarrow> string \<Rightarrow> (string \<times> string) option" where
  "remoteParts parse remote =
     (if contains remote ''://'' then
        (case parse remote of
           None \<Rightarrow> None
         | Some u \<Rightarrow> if List.member [''https'', ''http'', ''ssh''] (puScheme u) then Some (puHostname u, puPath u) else None)
      else case cutAt (CHR '':'') remote of
             None \<Rightarrow> None
           | Some (left, right) \<Rightarrow>
               (case cutAt (CHR ''@'') left of None \<Rightarrow> None | Some (user, host) \<Rightarrow> Some (host, right)))"

definition parseGitRemote :: "(string \<Rightarrow> parsed_url option) \<Rightarrow> string \<Rightarrow> string \<times> string" where
  "parseGitRemote parse remote =
     (case remoteParts parse remote of
        None \<Rightarrow> ([], [])
      | Some (host, right) \<Rightarrow>
          let path = trimSuffix (trimChar slash right) ''.git''
          in case splitAt slash path of
               [owner, name] \<Rightarrow>
                 if hostName host \<and> isIdentifier owner \<and> isIdentifier name then (host, path) else ([], [])
             | _ \<Rightarrow> ([], []))"

record git_defaults =
  gdHost :: string
  gdRepository :: string
  gdName :: string
  gdEmail :: string

text \<open>\<open>run\<close>: the output of Git in the checkout, if the command succeeds.\<close>

definition readGit :: "(string list \<Rightarrow> string option) \<Rightarrow> string \<Rightarrow> string list \<Rightarrow> string" where
  "readGit run root arguments = (case run ([''-C'', root] @ arguments) of None \<Rightarrow> [] | Some output \<Rightarrow> trimSpace output)"

definition DiscoverGitDefaults :: "(string \<Rightarrow> parsed_url option) \<Rightarrow> (string list \<Rightarrow> string option) \<Rightarrow> string \<Rightarrow> git_defaults" where
  "DiscoverGitDefaults parse run root =
     (case parseGitRemote parse (readGit run root [''remote'', ''get-url'', ''origin'']) of
        (host, repository) \<Rightarrow>
          \<lparr>gdHost = host, gdRepository = repository, gdName = readGit run root [''config'', ''--get'', ''user.name''],
           gdEmail = readGit run root [''config'', ''--get'', ''user.email'']\<rparr>)"

section \<open>The accounts found\<close>

lemma keepAccounts_subset: "set (keepAccounts seen as) \<subseteq> {a \<in> set as. validAccount a \<and> accountKey a \<notin> set seen}"
  by (induction seen as rule: keepAccounts.induct) auto

lemma keepAccounts_distinct: "distinct (map accountKey (keepAccounts seen as))"
  using keepAccounts_subset by (induction seen as rule: keepAccounts.induct) fastforce+

lemma keepAccounts_complete:
  "a \<in> set as \<Longrightarrow> validAccount a \<Longrightarrow> accountKey a \<in> set seen \<union> accountKey ` set (keepAccounts seen as)"
  by (induction seen as rule: keepAccounts.induct) auto

text \<open>The accounts that discovery offers are exactly the valid ones of the answer, one for each host and
  account up to case: each is a valid account of the answer, every valid account is there in some
  spelling, and they are in order, the active ones first.\<close>

theorem accounts_found:
  assumes "parseAccounts (Some accounts) = Inr result"
  shows "set result \<subseteq> {a \<in> set accounts. validAccount a} \<and>
    accountKey ` set result = accountKey ` {a \<in> set accounts. validAccount a} \<and>
    distinct (map accountKey result) \<and> sorted (map accountRank result)"
proof -
  have r: "result = sort_key accountRank (keepAccounts [] accounts)" using assms by (simp add: parseAccounts_def)
  have "distinct (map accountKey result)"
    using keepAccounts_distinct [of "[]" accounts] unfolding r by (simp add: distinct_map)
  then show ?thesis
    using keepAccounts_subset [of "[]" accounts] keepAccounts_complete [of _ accounts "[]"] by (auto simp: r)
qed

definition some_accounts :: "github_account list" where
  "some_accounts = [\<lparr>ghHost = ''b.com'', ghAccount = ''x'', ghActive = False\<rparr>, \<lparr>ghHost = ''-'', ghAccount = ''x'', ghActive = True\<rparr>,
     \<lparr>ghHost = ''a.com'', ghAccount = ''x'', ghActive = False\<rparr>, \<lparr>ghHost = ''B.com'', ghAccount = ''X'', ghActive = True\<rparr>]"

theorem accounts_found_witness:
  "\<exists>result. parseAccounts (Some some_accounts) = Inr result \<and> sorted (map accountRank result) \<and>
     accountKey ` set result = {''a.com/x'', ''b.com/x''}"
proof -
  have p: "parseAccounts (Some some_accounts) = Inr (sort_key accountRank (keepAccounts [] some_accounts))"
    by (simp add: parseAccounts_def)
  have "set (map accountKey (filter validAccount some_accounts)) = {''a.com/x'', ''b.com/x''}" by code_simp
  then have "accountKey ` {a \<in> set some_accounts. validAccount a} = {''a.com/x'', ''b.com/x''}" by simp
  with accounts_found [OF p] p show ?thesis by metis
qed

section \<open>The remotes read\<close>

lemma identifier_plain: "isIdentifier s \<Longrightarrow> s \<noteq> [] \<and> (\<forall>c\<in>set s. alnum c \<or> c \<in> set ''_.-'')"
  by (auto simp: isIdentifier_def list_all_iff split: list.splits)

lemma remote_sound:
  assumes "parseGitRemote parse remote = (host, path)" and "host \<noteq> []"
  shows "hostName host \<and> (\<exists>owner name. path = owner @ ''/'' @ name \<and> isIdentifier owner \<and> isIdentifier name)"
proof -
  obtain right owner name where "remoteParts parse remote = Some (host, right)"
      and p: "splitAt slash path = [owner, name]" "hostName host" "isIdentifier owner" "isIdentifier name"
    using assms by (auto simp: parseGitRemote_def Let_def split: option.splits list.splits if_splits)
  then show ?thesis using join_splitAt [of slash path] by auto
qed

lemma trimChar_id: "s \<noteq> [] \<Longrightarrow> hd s \<noteq> c \<Longrightarrow> last s \<noteq> c \<Longrightarrow> trimChar c s = s"
  by (simp add: trimChar_def dropWhile_eq_self_iff [THEN iffD2] hd_rev)

lemma identifier_chars: "isIdentifier s \<Longrightarrow> c \<in> set s \<Longrightarrow> c \<notin> {slash, CHR '':'', CHR ''@''}"
  by (auto simp: isIdentifier_def list_all_iff alnum_def digit_def charCode_def split: list.splits)

lemma host_chars: "hostName s \<Longrightarrow> c \<in> set s \<Longrightarrow> c \<notin> {slash, CHR '':'', CHR ''@''}"
  by (auto simp: hostName_def list_all_iff alnum_def digit_def charCode_def)

lemma no_git_suffix:
  assumes "\<not> hasSuffix name ''.git''"
  shows "\<not> hasSuffix (owner @ ''/'' @ name) ''.git''"
proof
  assume "hasSuffix (owner @ ''/'' @ name) ''.git''"
  then have "suffix ''.git'' ((owner @ ''/'') @ name)" by (simp add: hasSuffix_iff)
  then have "suffix ''.git'' name \<or> (\<exists>xs. ''.git'' = xs @ name \<and> suffix xs (owner @ ''/''))"
    by (simp only: suffix_append)
  with assms obtain xs where xs: "''.git'' = xs @ name" "suffix xs (owner @ ''/'')"
    by (auto simp: hasSuffix_iff)
  then have "xs \<noteq> []" using assms by (auto simp: hasSuffix_iff)
  then have "last xs = slash" using xs(2) by (metis last_appendR last_snoc suffix_def)
  with \<open>xs \<noteq> []\<close> have "slash \<in> set xs" using last_in_set by metis
  then have "slash \<in> set ''.git''" unfolding xs(1) by simp
  then show False by simp
qed

text \<open>The remote of a repository, written as Git writes it for SSH, with or without \<open>.git\<close>, is read back
  as its host and its owner and name.\<close>

theorem remote_roundtrip:
  assumes "hostName host" and "isIdentifier owner" and "isIdentifier name" and "\<not> hasSuffix name ''.git''"
    and "git \<in> {[], ''.git''}"
  shows "parseGitRemote parse (''git@'' @ host @ '':'' @ owner @ ''/'' @ name @ git) = (host, owner @ ''/'' @ name)"
proof -
  let ?right = "owner @ ''/'' @ name @ git"
  have owner: "owner \<noteq> []" "hd owner \<noteq> slash" and name: "name \<noteq> []" "last name \<noteq> slash"
    using assms(2,3) identifier_plain identifier_chars [OF assms(2)] identifier_chars [OF assms(3)]
    by (auto dest: hd_in_set last_in_set)
  have colon: "CHR '':'' \<notin> set (''git@'' @ host)" "CHR '':'' \<notin> set ?right"
    using host_chars [OF assms(1)] identifier_chars [OF assms(2)] identifier_chars [OF assms(3)] assms(5) by auto
  have "\<not> contains (''git@'' @ host @ '':'' @ ?right) ''://''"
  proof
    assume "contains (''git@'' @ host @ '':'' @ ?right) ''://''"
    then obtain ps ss where "(''git@'' @ host) @ CHR '':'' # ?right = ps @ CHR '':'' # (slash # slash # ss)"
      by (auto simp: contains_iff sublist_def)
    then have "?right = slash # slash # ss" using append_Cons_eq_iff [OF colon] by blast
    with owner show False by (cases owner) auto
  qed
  moreover have "cutAt (CHR '':'') ((''git@'' @ host) @ CHR '':'' # ?right) = Some (''git@'' @ host, ?right)"
    by (rule cutAt_append [OF colon(1)])
  moreover have "cutAt (CHR ''@'') (''git'' @ CHR ''@'' # host) = Some (''git'', host)" by (rule cutAt_append) simp
  ultimately have parts: "remoteParts parse (''git@'' @ host @ '':'' @ ?right) = Some (host, ?right)"
    by (simp add: remoteParts_def)
  have "trimChar slash ?right = ?right" using owner name assms(5) by (intro trimChar_id) auto
  moreover have "trimSuffix ?right ''.git'' = owner @ ''/'' @ name"
    using assms(5) no_git_suffix [OF assms(4), of owner] trimSuffix_append [of "owner @ ''/'' @ name" "''.git''"]
    by (auto simp: trimSuffix_def)
  moreover have "slash \<notin> set owner" "slash \<notin> set name"
    using identifier_chars [OF assms(2), of slash] identifier_chars [OF assms(3), of slash] by blast+
  then have "splitAt slash (owner @ ''/'' @ name) = [owner, name]" by (simp add: splitAt_append splitAt_plain)
  ultimately show ?thesis using parts assms(1-3) by (simp add: parseGitRemote_def)
qed

theorem remote_roundtrip_witness:
  "parseGitRemote (\<lambda>u. None) ''git@github.com:me/tool.git'' = (''github.com'', ''me/tool'')"
proof -
  have "hostName ''github.com''" "isIdentifier ''me''" "isIdentifier ''tool''" "\<not> hasSuffix ''tool'' ''.git''" by code_simp+
  from remote_roundtrip [OF this, of "''.git''" "\<lambda>u. None"] show ?thesis by simp
qed

end
