(* ===== verification/CliFlags.thy ===== *)
theory CliFlags
  imports Prelude
begin

text \<open>
  Command-line flags as the commands of \<open>internal/cli/cli.go\<close> use them: a flag set (\<open>newFlagSet\<close>,
  \<open>parseExact\<close>), the repeatable flags (\<open>stringList\<close>) and the environment overrides
  (\<open>parseEnvironment\<close>), with the loop of Go's package flag that they run on.  The conversion of numbers
  (package strconv) is a parameter: a pair, for \<open>ParseInt\<close> and for \<open>ParseUint\<close>.
\<close>

section \<open>Flags\<close>

datatype flag_value = Text string | Flag bool | Number int | Counter u64 | Texts "string list"

type_synonym number_parsers = "(string \<Rightarrow> int option) \<times> (string \<Rightarrow> u64 option)"

text \<open>A flag set: the flags, in the order of their declaration, with the values they start from.\<close>

type_synonym flag_set = "(string, flag_value) gomap"

datatype flag_error =
  BadSyntax string | HelpRequested | UndefinedFlag string | InvalidValue string string | MissingArgument string
| UnexpectedArguments "string list" | InvalidOverride | NoCommand | UnknownCommand string | NoArguments string
| FollowInJSON | NotInJSON | JSONOutputFlag

text \<open>\<open>strconv.ParseBool\<close>.\<close>

definition parseBool :: "string \<Rightarrow> bool option" where
  "parseBool s =
     (if List.member [''1'', ''t'', ''T'', ''TRUE'', ''true'', ''True''] s then Some True
      else if List.member [''0'', ''f'', ''F'', ''FALSE'', ''false'', ''False''] s then Some False
      else None)"

text \<open>\<open>Value.Set\<close>: a text replaces the value of a flag, or is added to a repeatable one.\<close>

definition setValue :: "number_parsers \<Rightarrow> flag_value \<Rightarrow> string \<Rightarrow> flag_value option" where
  "setValue parse old s =
     (case old of
        Text _ \<Rightarrow> Some (Text s)
      | Flag _ \<Rightarrow> map_option Flag (parseBool s)
      | Number _ \<Rightarrow> map_option Number (fst parse s)
      | Counter _ \<Rightarrow> map_option Counter (snd parse s)
      | Texts vs \<Rightarrow> Some (Texts (vs @ [s])))"

definition setFlag :: "number_parsers \<Rightarrow> flag_set \<Rightarrow> string \<Rightarrow> flag_value \<Rightarrow> string \<Rightarrow> (flag_error, flag_set) sum" where
  "setFlag parse flags name old s =
     (case setValue parse old s of None \<Rightarrow> Inl (InvalidValue name s) | Some v \<Rightarrow> Inr (map_put flags name v))"

text \<open>The name and the value, if there is one, of an argument that starts with one or two dashes.\<close>

definition flagName :: "string \<Rightarrow> string" where
  "flagName s = (if hasPrefix s ''--'' then drop 2 s else drop 1 s)"

definition splitFlag :: "string \<Rightarrow> string \<times> string option" where
  "splitFlag text = (case cutAt (CHR ''='') text of None \<Rightarrow> (text, None) | Some (name, v) \<Rightarrow> (name, Some v))"

text \<open>\<open>FlagSet.Parse\<close>: the flags and the arguments that follow them.\<close>

fun parseFlags :: "number_parsers \<Rightarrow> flag_set \<Rightarrow> string list \<Rightarrow> (flag_error, flag_set \<times> string list) sum" where
  "parseFlags parse flags [] = Inr (flags, [])"
| "parseFlags parse flags (s # rest) =
     (if length s < 2 \<or> hd s \<noteq> CHR ''-'' then Inr (flags, s # rest)
      else if s = ''--'' then Inr (flags, rest)
      else if flagName s = [] \<or> hd (flagName s) = CHR ''-'' \<or> hd (flagName s) = CHR ''='' then Inl (BadSyntax s)
      else (case splitFlag (flagName s) of (name, given) \<Rightarrow>
        (case map_of flags name of
           None \<Rightarrow> Inl (if name = ''help'' \<or> name = ''h'' then HelpRequested else UndefinedFlag name)
         | Some (Flag b) \<Rightarrow>
             (case setFlag parse flags name (Flag b) (case given of None \<Rightarrow> ''true'' | Some v \<Rightarrow> v) of
                Inl e \<Rightarrow> Inl e | Inr flags' \<Rightarrow> parseFlags parse flags' rest)
         | Some old \<Rightarrow>
             (case given of
                Some v \<Rightarrow> (case setFlag parse flags name old v of Inl e \<Rightarrow> Inl e | Inr flags' \<Rightarrow> parseFlags parse flags' rest)
              | None \<Rightarrow>
                  (case rest of
                     [] \<Rightarrow> Inl (MissingArgument name)
                   | v # rest' \<Rightarrow> (case setFlag parse flags name old v of Inl e \<Rightarrow> Inl e | Inr flags' \<Rightarrow> parseFlags parse flags' rest'))))))"

definition parseExact :: "number_parsers \<Rightarrow> flag_set \<Rightarrow> string list \<Rightarrow> (flag_error, flag_set) sum" where
  "parseExact parse flags arguments =
     (case parseFlags parse flags arguments of
        Inl e \<Rightarrow> Inl e
      | Inr (flags', []) \<Rightarrow> Inr flags'
      | Inr (flags', rest) \<Rightarrow> Inl (UnexpectedArguments rest))"

definition textOf :: "flag_set \<Rightarrow> string \<Rightarrow> string" where
  "textOf flags name = (case map_of flags name of Some (Text s) \<Rightarrow> s | _ \<Rightarrow> [])"

definition boolOf :: "flag_set \<Rightarrow> string \<Rightarrow> bool" where
  "boolOf flags name = (case map_of flags name of Some (Flag b) \<Rightarrow> b | _ \<Rightarrow> False)"

definition numberOf :: "flag_set \<Rightarrow> string \<Rightarrow> int" where
  "numberOf flags name = (case map_of flags name of Some (Number i) \<Rightarrow> i | _ \<Rightarrow> 0)"

definition counterOf :: "flag_set \<Rightarrow> string \<Rightarrow> u64" where
  "counterOf flags name = (case map_of flags name of Some (Counter n) \<Rightarrow> n | _ \<Rightarrow> 0)"

definition textsOf :: "flag_set \<Rightarrow> string \<Rightarrow> string list" where
  "textsOf flags name = (case map_of flags name of Some (Texts vs) \<Rightarrow> vs | _ \<Rightarrow> [])"

section \<open>Environment overrides\<close>

fun parseOverrides :: "(string, string) gomap \<Rightarrow> string list \<Rightarrow> (flag_error, (string, string) gomap) sum" where
  "parseOverrides overrides [] = Inr overrides"
| "parseOverrides overrides (v # vs) =
     (case cutAt (CHR ''='') v of
        None \<Rightarrow> Inl InvalidOverride
      | Some (key, content) \<Rightarrow> if key = [] then Inl InvalidOverride else parseOverrides (map_put overrides key content) vs)"

definition parseEnvironment :: "string list \<Rightarrow> (flag_error, (string, string) gomap) sum" where
  "parseEnvironment vs = parseOverrides [] vs"

section \<open>What was written is read\<close>

lemma map_put_put: "map_put (map_put m k v) k w = map_put m k w"
  by (simp add: map_put_def)

text \<open>An override and its \<open>KEY=VALUE\<close>.\<close>

definition overrideText :: "string \<times> string \<Rightarrow> string" where
  "overrideText p = fst p @ ''='' @ snd p"

definition override_key :: "string \<Rightarrow> bool" where
  "override_key k \<longleftrightarrow> k \<noteq> [] \<and> CHR ''='' \<notin> set k"

lemma override_cut: "override_key k \<Longrightarrow> cutAt (CHR ''='') (overrideText (k, c)) = Some (k, c)"
  using cutAt_append [of "CHR ''=''" k c] by (simp add: overrideText_def override_key_def)

lemma parseOverrides_texts:
  "\<forall>p\<in>set ps. override_key (fst p) \<Longrightarrow>
     \<exists>m. parseOverrides acc (map overrideText ps) = Inr m \<and> map_of m = map_of (rev ps @ acc)"
proof (induction ps arbitrary: acc)
  case (Cons p ps)
  obtain k c where p: "p = (k, c)" by fastforce
  obtain m where "parseOverrides (map_put acc k c) (map overrideText ps) = Inr m" "map_of m = map_of (rev ps @ map_put acc k c)"
    using Cons by fastforce
  then show ?case
    using Cons.prems by (simp add: p override_cut override_key_def fun_eq_iff map_add_def split: option.split)
qed simp

lemma parseOverrides_wf: "parseOverrides acc vs = Inr m \<Longrightarrow> map_wf acc \<Longrightarrow> map_wf m"
  by (induction vs arbitrary: acc) (auto split: option.splits if_splits)

lemma parseOverrides_distinct:
  "\<forall>p\<in>set ps. override_key (fst p) \<Longrightarrow> distinct (map fst ps) \<Longrightarrow> set (map fst ps) \<inter> set (map_keys acc) = {} \<Longrightarrow>
     parseOverrides acc (map overrideText ps) = Inr (acc @ ps)"
proof (induction ps arbitrary: acc)
  case (Cons p ps)
  obtain k c where p: "p = (k, c)" by fastforce
  have "map_put acc (fst p) (snd p) = acc @ [p]" using Cons.prems map_put_fresh [of "fst p" acc "snd p"] by auto
  moreover have "parseOverrides (acc @ [p]) (map overrideText ps) = Inr ((acc @ [p]) @ ps)"
    using Cons.prems by (intro Cons.IH) auto
  ultimately show ?case using Cons.prems by (simp add: p override_cut override_key_def)
qed simp

text \<open>A flag written as \<open>--name=value\<close>.\<close>

definition assignment :: "string \<Rightarrow> string \<Rightarrow> string" where
  "assignment name v = ''--'' @ name @ ''='' @ v"

definition flag_name :: "string \<Rightarrow> bool" where
  "flag_name n \<longleftrightarrow> n \<noteq> [] \<and> CHR ''='' \<notin> set n \<and> hd n \<noteq> CHR ''-''"

lemma parse_assignment:
  assumes "flag_name name" and "map_of flags name = Some old" and "setValue parse old v = Some new"
  shows "parseFlags parse flags (assignment name v # rest) = parseFlags parse (map_put flags name new) rest"
proof -
  have n: "flagName (assignment name v) = name @ CHR ''='' # v" by (simp add: flagName_def assignment_def hasPrefix_def)
  moreover have "splitFlag (name @ CHR ''='' # v) = (name, Some v)"
    using assms(1) cutAt_append [of "CHR ''=''" name v] by (simp add: splitFlag_def flag_name_def)
  moreover have "hd (name @ CHR ''='' # v) \<noteq> CHR ''-''" "hd (name @ CHR ''='' # v) \<noteq> CHR ''=''"
    using assms(1) by (cases name; auto simp: flag_name_def)+
  moreover have "2 \<le> length (assignment name v)" "hd (assignment name v) = CHR ''-''" "assignment name v \<noteq> ''--''"
    by (simp_all add: assignment_def)
  ultimately show ?thesis
    using assms(2,3) by (cases old) (auto simp: setFlag_def)
qed

lemma parse_repeated:
  assumes "flag_name name"
  shows "map_of flags name = Some (Texts old) \<Longrightarrow>
    parseFlags parse flags (map (assignment name) vs @ rest) =
    parseFlags parse (if vs = [] then flags else map_put flags name (Texts (old @ vs))) rest"
proof (induction vs arbitrary: flags old)
  case (Cons v vs)
  have "parseFlags parse flags (map (assignment name) (v # vs) @ rest) =
      parseFlags parse (map_put flags name (Texts (old @ [v]))) (map (assignment name) vs @ rest)"
    using parse_assignment [OF assms Cons.prems, of parse v "Texts (old @ [v])"] by (simp add: setValue_def)
  also have "\<dots> = parseFlags parse (if vs = [] then map_put flags name (Texts (old @ [v]))
      else map_put (map_put flags name (Texts (old @ [v]))) name (Texts ((old @ [v]) @ vs))) rest"
    by (rule Cons.IH) simp
  finally show ?case by (simp add: map_put_put)
qed simp

end
