(* ===== verification/Questionnaire.thy ===== *)
theory Questionnaire
  imports OperatorClient GitConfig GitDiscovery
begin

text \<open>
  The questionnaires of package identityui: \<open>Configure\<close> of \<open>internal/identityui/configure.go\<close>, which the
  command line and the terminal interface share, and \<open>EditPersona\<close> of \<open>persona.go\<close>.  A form is a function
  from the values it shows to the operator's answer.  What the forms and the notice about the accounts draw
  on the terminal is left out.  \<open>questions\<close> is the part of \<open>configure\<close> up to the final confirmation,
  \<open>saveConfiguration\<close> the part after it.
\<close>

section \<open>Forms\<close>

datatype 'a form_answer = Answered 'a | Aborted | FormFails

record details =
  dtID :: string
  dtName :: string
  dtDescription :: string
  dtRepository :: string
  dtGH :: string

record 's questionnaire =
  qnParseAddress :: "string \<Rightarrow> string option"
  qnParseURL :: "string \<Rightarrow> parsed_url option"
  qnGit :: "'s git_program"
  qnGitOS :: git_os
  qnLookPath :: "string \<Rightarrow> string option"
  qnOS :: os_view
  qnExec :: exec
  qnStatus :: "string \<Rightarrow> bytes list \<times> bool"  \<comment> \<open>the run of \<open>gh auth status\<close>\<close>
  qnUnmarshal :: "bytes \<Rightarrow> github_account list option"
  qnDetails :: "details \<Rightarrow> bool \<Rightarrow> bool \<Rightarrow> details form_answer"  \<comment> \<open>whether the repository and the path of gh are asked for\<close>
  qnChoosePersona :: "(string \<times> string) list \<Rightarrow> string \<Rightarrow> string form_answer"
  qnPersona :: "persona \<Rightarrow> persona form_answer"
  qnProtection :: "persona \<Rightarrow> string \<Rightarrow> (bool \<times> string) form_answer"
  qnPreset :: "string \<Rightarrow> string form_answer"
  qnAllowed :: "string list \<Rightarrow> string list form_answer"
  qnAlternatives :: "string list \<Rightarrow> string list \<Rightarrow> string list form_answer"
  qnConfirm :: "bool form_answer"

datatype configure_error =
  ConfigureGit git_error | ConfigureClient client_error | ConfigureForm | ConfigureGH exec_error
| ConfigurePersona identity_error | RootDiffers

section \<open>The personas to choose from\<close>

text \<open>The loop that looks for a free ID, from \<open>account-2\<close> on.\<close>

definition numbered :: "string \<Rightarrow> nat \<Rightarrow> string" where
  "numbered account n = account @ ''-'' @ itoa n"

lemma char_digit_inj: "a < 10 \<Longrightarrow> b < 10 \<Longrightarrow> (char_of (48 + a :: nat) :: char) = char_of (48 + b) \<longleftrightarrow> a = b"
  using of_char_of [of "48 + a :: nat"] of_char_of [of "48 + b :: nat"] by (auto simp: take_bit_eq_mod)

lemma itoa_small: "k < 10 \<Longrightarrow> itoa k = [char_of (48 + k)]" by (subst itoa.simps) simp

lemma itoa_large: "\<not> k < 10 \<Longrightarrow> itoa k = itoa (k div 10) @ [char_of (48 + k mod 10)]" by (subst itoa.simps) simp

lemma itoa_inj: "itoa m = itoa n \<Longrightarrow> m = n"
proof (induction m arbitrary: n rule: itoa.induct)
  case (1 m)
  consider "m < 10" "n < 10" | "m < 10" "\<not> n < 10" | "\<not> m < 10" "n < 10" | "\<not> m < 10" "\<not> n < 10" by blast
  then show ?case
  proof cases
    case 4
    then have "itoa (m div 10) = itoa (n div 10)" "m mod 10 = n mod 10"
      using "1.prems" char_digit_inj [of "m mod 10" "n mod 10"] by (simp_all add: itoa_large)
    with "1.IH" [OF 4(1)] show ?thesis by (metis div_mult_mod_eq)
  qed (use "1.prems" itoa_nonempty [symmetric] char_digit_inj in \<open>auto simp: itoa_small itoa_large itoa_nonempty\<close>)
qed

lemma numbered_inj: "inj (numbered account)"
  by (auto simp: inj_def numbered_def dest: itoa_inj)

lemma finite_taken: "finite {k. n \<le> k \<and> numbered account k \<in> set ids}"
proof (rule finite_subset)
  show "{k. n \<le> k \<and> numbered account k \<in> set ids} \<subseteq> numbered account -` set ids" by auto
  show "finite (numbered account -` set ids)" using numbered_inj [of account] by (simp add: finite_vimageI)
qed

function freeNumber :: "string list \<Rightarrow> string \<Rightarrow> nat \<Rightarrow> string" where
  "freeNumber ids account n = (if numbered account n \<in> set ids then freeNumber ids account (n + 1) else numbered account n)"
  by pat_completeness auto
termination
proof (relation "measure (\<lambda>(ids, account, n). card {k. n \<le> k \<and> numbered account k \<in> set ids})")
  fix ids account n
  assume "numbered account n \<in> set ids"
  then have "{k. n + 1 \<le> k \<and> numbered account k \<in> set ids} \<subset> {k. n \<le> k \<and> numbered account k \<in> set ids}"
    by (intro psubsetI subsetI) (auto simp: set_eq_iff intro: exI [where x = n])
  then show "((ids, account, n + 1), ids, account, n) \<in> measure (\<lambda>(ids, account, n). card {k. n \<le> k \<and> numbered account k \<in> set ids})"
    using psubset_card_mono [OF finite_taken] by simp
qed simp

declare freeNumber.simps [simp del]

definition freeID :: "string list \<Rightarrow> string \<Rightarrow> string" where
  "freeID ids account = (if account \<in> set ids then freeNumber ids account 2 else account)"

definition sameAccount :: "github_account \<Rightarrow> persona \<Rightarrow> bool" where
  "sameAccount a p \<longleftrightarrow> equalFold (peHost p) (ghHost a) \<and> equalFold (peAccount p) (ghAccount a)"

definition suggested :: "git_defaults \<Rightarrow> string \<Rightarrow> github_account \<Rightarrow> persona" where
  "suggested defaults i a = \<lparr>peID = i, peName = ghAccount a, peGitName = gdName defaults, peGitEmail = gdEmail defaults,
     peHost = ghHost a, peAccount = ghAccount a\<rparr>"

definition wanted :: "persona list \<Rightarrow> git_defaults \<Rightarrow> github_account \<Rightarrow> bool" where
  "wanted saved defaults a \<longleftrightarrow> (gdHost defaults = [] \<or> equalFold (gdHost defaults) (ghHost a)) \<and> \<not> list_ex (sameAccount a) saved"

fun suggestPersonas :: "persona list \<Rightarrow> git_defaults \<Rightarrow> string list \<Rightarrow> github_account list \<Rightarrow> persona list" where
  "suggestPersonas saved defaults ids [] = []"
| "suggestPersonas saved defaults ids (a # as) =
     (if \<not> wanted saved defaults a then suggestPersonas saved defaults ids as
      else (let i = freeID ids (ghAccount a) in suggested defaults i a # suggestPersonas saved defaults (i # ids) as))"

definition personaChoices :: "persona list \<Rightarrow> github_account list \<Rightarrow> git_defaults \<Rightarrow> persona list" where
  "personaChoices saved accounts defaults = saved @ suggestPersonas saved defaults (map peID saved) accounts"

section \<open>The questions\<close>

record configuration =
  cfProject :: project
  cfPersona :: persona
  cfGH :: string
  cfApplyGit :: bool
  cfFound :: bool

text \<open>\<open>LeftOff None\<close>: the operator left or did not confirm.\<close>

datatype questions_end = LeftOff "configure_error option" | Confirmed configuration

definition asked :: "'a form_answer \<Rightarrow> ('a \<Rightarrow> 's \<times> questions_end) \<Rightarrow> 's \<Rightarrow> 's \<times> questions_end" where
  "asked answer next_step s =
     (case answer of Answered x \<Rightarrow> next_step x | Aborted \<Rightarrow> (s, LeftOff None) | FormFails \<Rightarrow> (s, LeftOff (Some ConfigureForm)))"

definition newProject :: "string \<Rightarrow> project" where
  "newProject root = \<lparr>prID = basePath root, prName = basePath root, prDescription = [], prRoot = root, prRepository = [], prPersona = [],
     prAlternatives = [], prMode = ''proxy-level'', prPolicy = \<lparr>polPreset = ''read-only'', polExceptions = []\<rparr>, prProxyEnabled = True\<rparr>"

definition configuredProject :: "identity_state \<Rightarrow> string \<Rightarrow> git_defaults \<Rightarrow> project" where
  "configuredProject state root defaults =
     (let p = (case FindProject state [] root of Inl e \<Rightarrow> newProject root | Inr existing \<Rightarrow> existing)
      in if prRepository p = [] then p\<lparr>prRepository := gdRepository defaults\<rparr> else p)"

definition originalGH :: "'s questionnaire \<Rightarrow> identity_state \<Rightarrow> string" where
  "originalGH env state =
     (if stGHPath state \<noteq> [] then stGHPath state
      else case qnLookPath env ''realgh'' of
             Some path \<Rightarrow> path
           | None \<Rightarrow> (case qnLookPath env ''gh'' of Some path \<Rightarrow> path | None \<Rightarrow> []))"

definition gitAnswers :: "'s questionnaire \<Rightarrow> 's \<Rightarrow> string list \<Rightarrow> string option" where
  "gitAnswers env s arguments = (case snd (qnGit env s arguments) of GitOutput output \<Rightarrow> Some output | _ \<Rightarrow> None)"

definition setDetails :: "project \<Rightarrow> details \<Rightarrow> project" where
  "setDetails p d = p\<lparr>prID := dtID d, prName := dtName d, prDescription := dtDescription d,
     prRepository := (if prRepository p = [] then dtRepository d else prRepository p)\<rparr>"

text \<open>The policy as it was checked: every permission is entered, as allowed or as denied.\<close>

definition checkedPolicy :: "string \<Rightarrow> string list \<Rightarrow> policy" where
  "checkedPolicy preset allowed =
     \<lparr>polPreset = preset, polExceptions = map (\<lambda>permission. (permission, List.member allowed permission)) Permissions\<rparr>"

definition alternativesFor :: "identity_state \<Rightarrow> persona \<Rightarrow> string list" where
  "alternativesFor state persona =
     map peID (filter (\<lambda>p. peID p \<noteq> peID persona \<and> peHost p = peHost persona) (stPersonas state))"

text \<open>The registry of processes knows the project already, or has it with another root.\<close>

definition registered :: "project \<Rightarrow> project_definition list \<Rightarrow> bool" where
  "registered p ps \<longleftrightarrow> list_ex (\<lambda>d. pdID d = prID p) ps"

definition rootDiffers :: "project \<Rightarrow> project_definition list \<Rightarrow> bool" where
  "rootDiffers p ps \<longleftrightarrow> list_ex (\<lambda>d. pdID d = prID p \<and> pdRootDirectory d \<noteq> prRoot p) ps"

definition confirmConfiguration :: "'s operator_client \<Rightarrow> 's questionnaire \<Rightarrow> 's \<Rightarrow> project \<Rightarrow> persona \<Rightarrow> string \<Rightarrow> bool \<Rightarrow> 's \<times> questions_end" where
  "confirmConfiguration client env s p persona gh applyGit =
     (case ocListProjects client s of
        (s', _, Some e) \<Rightarrow> (s', LeftOff (Some (ConfigureClient e)))
      | (s', ps, None) \<Rightarrow>
          if rootDiffers p ps then (s', LeftOff (Some RootDiffers))
          else asked (qnConfirm env) (\<lambda>confirmed.
            if \<not> confirmed then (s', LeftOff None)
            else (s', Confirmed \<lparr>cfProject = p, cfPersona = persona, cfGH = gh, cfApplyGit = applyGit, cfFound = registered p ps\<rparr>)) s')"

definition askPolicy :: "'s operator_client \<Rightarrow> 's questionnaire \<Rightarrow> 's \<Rightarrow> identity_state \<Rightarrow> project \<Rightarrow> persona \<Rightarrow> string \<Rightarrow> bool \<Rightarrow> 's \<times> questions_end" where
  "askPolicy client env s state p persona gh applyGit =
     asked (qnPreset env (polPreset (prPolicy p))) (\<lambda>preset.
       asked (qnAllowed env (filter (Allows ((prPolicy p)\<lparr>polPreset := preset\<rparr>)) Permissions)) (\<lambda>allowed.
         let p1 = p\<lparr>prPolicy := checkedPolicy preset allowed\<rparr>; options = alternativesFor state persona
         in if List.member allowed ''persona'' \<and> options \<noteq> []
            then asked (qnAlternatives env options (prAlternatives p)) (\<lambda>alternatives.
                   confirmConfiguration client env s (p1\<lparr>prAlternatives := alternatives\<rparr>) persona gh applyGit) s
            else confirmConfiguration client env s p1 persona gh applyGit) s) s"

definition requiresIsolationPolicy :: "string \<Rightarrow> bool" where
  "requiresIsolationPolicy mode \<longleftrightarrow> mode = ''agent-isolation''"

definition askProtection :: "'s operator_client \<Rightarrow> 's questionnaire \<Rightarrow> 's \<Rightarrow> identity_state \<Rightarrow> project \<Rightarrow> persona \<Rightarrow> string \<Rightarrow> 's \<times> questions_end" where
  "askProtection client env s state p persona gh =
     (case validatePersona (qnParseAddress env) persona of
        Some e \<Rightarrow> (s, LeftOff (Some (ConfigurePersona e)))
      | None \<Rightarrow>
          asked (qnProtection env persona (prMode p)) (\<lambda>(applyGit, mode).
            let p1 = p\<lparr>prPersona := peID persona, prMode := mode\<rparr>
            in if requiresIsolationPolicy mode then askPolicy client env s state p1 persona gh applyGit
               else confirmConfiguration client env s p1 persona gh applyGit) s)"

definition newPersona :: "git_defaults \<Rightarrow> persona" where
  "newPersona defaults = \<lparr>peID = [], peName = [], peGitName = gdName defaults, peGitEmail = gdEmail defaults,
     peHost = (if gdHost defaults = [] then ''github.com'' else gdHost defaults), peAccount = []\<rparr>"

definition newChoice :: string where "newChoice = ''__new''"

text \<open>The persona that was chosen: a saved one as it is, any other through a form.\<close>

definition askPersona :: "'s operator_client \<Rightarrow> 's questionnaire \<Rightarrow> 's \<Rightarrow> identity_state \<Rightarrow> git_defaults \<Rightarrow> project \<Rightarrow> string \<Rightarrow> persona list \<Rightarrow> 's \<times> questions_end" where
  "askPersona client env s state defaults p gh personas =
     (let options = map (\<lambda>q. (peName q @ '' ('' @ peHost q @ ''/'' @ peAccount q @ '')'', peID q)) personas @ [(''Create a persona'', newChoice)];
          start = (if prPersona p = [] then snd (hd options) else prPersona p)
      in asked (qnChoosePersona env options start) (\<lambda>chosen.
           case (if chosen = newChoice then Inl PersonaNotConfigured else FindPersona state chosen) of
             Inr persona \<Rightarrow> askProtection client env s state p persona gh
           | Inl e \<Rightarrow>
               (let draft = (case (if chosen = newChoice then None else findPersonaIn personas chosen) of
                               None \<Rightarrow> newPersona defaults | Some persona \<Rightarrow> persona)
                in asked (qnPersona env draft) (\<lambda>persona. askProtection client env s state p persona gh) s)) s)"

definition askDetails :: "'s operator_client \<Rightarrow> 's questionnaire \<Rightarrow> 's \<Rightarrow> identity_state \<Rightarrow> string \<Rightarrow> 's \<times> questions_end" where
  "askDetails client env s state root =
     (let defaults = DiscoverGitDefaults (qnParseURL env) (gitAnswers env s) root;
          p = configuredProject state root defaults;
          gh = originalGH env state
      in asked (qnDetails env \<lparr>dtID = prID p, dtName = prName p, dtDescription = prDescription p, dtRepository = prRepository p, dtGH = gh\<rparr>
             (prRepository p = []) (stGHPath state = [])) (\<lambda>d.
           let path = (if stGHPath state = [] then dtGH d else gh)
           in case ValidateGH (qnOS env) (qnExec env) path of
                Inl e \<Rightarrow> (s, LeftOff (Some (ConfigureGH e)))
              | Inr _ \<Rightarrow>
                  (let accounts = (case GitHubAccounts (qnOS env) (qnExec env) path (qnStatus env) (qnUnmarshal env) of Inl e \<Rightarrow> [] | Inr as \<Rightarrow> as)
                   in askPersona client env s state defaults (setDetails p d) path (personaChoices (stPersonas state) accounts defaults))) s)"

definition getRequest :: identity_request where
  "getRequest = zeroRequest\<lparr>rqAction := ''get''\<rparr>"

definition questions :: "'s operator_client \<Rightarrow> 's questionnaire \<Rightarrow> 's \<Rightarrow> string \<Rightarrow> 's \<times> string \<times> questions_end" where
  "questions client env s path =
     (case GitRoot (qnGit env) (qnGitOS env) s path of
        (s1, Inl e) \<Rightarrow> (s1, [], LeftOff (Some (ConfigureGit e)))
      | (s1, Inr root) \<Rightarrow>
          (case ocIdentity client s1 getRequest of
             (s2, _, Some e) \<Rightarrow> (s2, root, LeftOff (Some (ConfigureClient e)))
           | (s2, snapshot, None) \<Rightarrow>
               (case askDetails client env s2 (ssState snapshot) root of (s3, r) \<Rightarrow> (s3, root, r))))"

section \<open>Saving\<close>

definition configureRequest :: "configuration \<Rightarrow> identity_request" where
  "configureRequest c = zeroRequest\<lparr>rqAction := ''configure'', rqPersona := Some (cfPersona c), rqProject := Some (cfProject c), rqPath := cfGH c\<rparr>"

definition saveGit :: "'s questionnaire \<Rightarrow> 's \<Rightarrow> string \<Rightarrow> configuration \<Rightarrow> 's \<times> configure_error option" where
  "saveGit env s root c =
     (case ApplyGitCredentialHelper (qnGit env) (qnGitOS env) s root of
        (s', Some e) \<Rightarrow> (s', Some (ConfigureGit e))
      | (s', None) \<Rightarrow>
          if cfApplyGit c then
            (case ApplyGitAuthor (qnParseAddress env) (qnGit env) (qnGitOS env) s' root (cfPersona c) of
               (s'', e) \<Rightarrow> (s'', map_option ConfigureGit e))
          else (s', None))"

definition saveConfiguration :: "'s operator_client \<Rightarrow> 's questionnaire \<Rightarrow> 's \<Rightarrow> string \<Rightarrow> configuration \<Rightarrow> 's \<times> configure_error option" where
  "saveConfiguration client env s root c =
     (case ocIdentity client s (configureRequest c) of
        (s1, _, Some e) \<Rightarrow> (s1, Some (ConfigureClient e))
      | (s1, _, None) \<Rightarrow>
          if cfFound c then saveGit env s1 root c
          else (case ocAddProject client s1 \<lparr>pdID = prID (cfProject c), pdRootDirectory = prRoot (cfProject c)\<rparr> of
                  (s2, _, Some e) \<Rightarrow> (s2, Some (ConfigureClient e))
                | (s2, _, None) \<Rightarrow> saveGit env s2 root c))"

definition Configure :: "'s operator_client \<Rightarrow> 's questionnaire \<Rightarrow> 's \<Rightarrow> string \<Rightarrow> 's \<times> configure_error option" where
  "Configure client env s path =
     (case questions client env s path of
        (s', root, Confirmed c) \<Rightarrow> saveConfiguration client env s' root c
      | (s', root, LeftOff e) \<Rightarrow> (s', e))"

section \<open>Editing a persona\<close>

definition EditPersona :: "'s operator_client \<Rightarrow> 's questionnaire \<Rightarrow> 's \<Rightarrow> string \<Rightarrow> 's \<times> configure_error option" where
  "EditPersona client env s i =
     (case ocIdentity client s getRequest of
        (s1, _, Some e) \<Rightarrow> (s1, Some (ConfigureClient e))
      | (s1, snapshot, None) \<Rightarrow>
          (case FindPersona (ssState snapshot) i of
             Inl e \<Rightarrow> (s1, Some (ConfigurePersona e))
           | Inr persona \<Rightarrow>
               (case qnPersona env persona of
                  Aborted \<Rightarrow> (s1, None)
                | FormFails \<Rightarrow> (s1, Some ConfigureForm)
                | Answered edited \<Rightarrow>
                    (let q = edited\<lparr>peID := peID persona\<rparr>
                     in case validatePersona (qnParseAddress env) q of
                          Some e \<Rightarrow> (s1, Some (ConfigurePersona e))
                        | None \<Rightarrow>
                            (case qnConfirm env of
                               Answered True \<Rightarrow>
                                 (case ocIdentity client s1 (zeroRequest\<lparr>rqAction := ''persona.put'', rqPersona := Some q\<rparr>) of
                                    (s2, _, e) \<Rightarrow> (s2, map_option ConfigureClient e))
                             | FormFails \<Rightarrow> (s1, Some ConfigureForm)
                             | _ \<Rightarrow> (s1, None))))))"

section \<open>The choices\<close>

lemma freeNumber_free: "freeNumber ids account n \<notin> set ids"
proof (induction ids account n rule: freeNumber.induct)
  case (1 ids account n)
  then show ?case by (subst freeNumber.simps) simp
qed

lemma freeID_free: "freeID ids account \<notin> set ids"
  by (simp add: freeID_def freeNumber_free)

lemma suggestPersonas_ids:
  "distinct (map peID (suggestPersonas saved defaults ids accounts)) \<and> set (map peID (suggestPersonas saved defaults ids accounts)) \<inter> set ids = {}"
proof (induction accounts arbitrary: ids)
  case (Cons a as)
  show ?case using Cons [of ids] Cons [of "freeID ids (ghAccount a) # ids"] freeID_free [of ids "ghAccount a"]
    by (auto simp: suggested_def Let_def)
qed simp

lemma suggestPersonas_accounts:
  "map (\<lambda>p. (peHost p, peAccount p)) (suggestPersonas saved defaults ids accounts) =
     map (\<lambda>a. (ghHost a, ghAccount a)) (filter (wanted saved defaults) accounts)"
  by (induction accounts arbitrary: ids) (simp_all add: suggested_def Let_def)

text \<open>The personas to choose from are the saved ones, and after them one for each account of gh on the host
  of the repository that no saved persona has, in the order of the accounts; if the IDs of the saved ones
  are distinct, all are, so a choice means one persona.\<close>

theorem persona_choices:
  "\<exists>new. personaChoices saved accounts defaults = saved @ new \<and>
     map (\<lambda>p. (peHost p, peAccount p)) new = map (\<lambda>a. (ghHost a, ghAccount a)) (filter (wanted saved defaults) accounts) \<and>
     (distinct (map peID (saved @ new)) \<longleftrightarrow> distinct (map peID saved))"
  using suggestPersonas_ids [of saved defaults "map peID saved" accounts] suggestPersonas_accounts [of saved defaults "map peID saved" accounts]
  by (auto simp: personaChoices_def)

section \<open>Nothing before the confirmation\<close>

text \<open>What the questions do to the state: nothing, as long as reading does nothing.\<close>

definition only_reads :: "'s operator_client \<Rightarrow> 's git_program \<Rightarrow> bool" where
  "only_reads client git \<longleftrightarrow> (\<forall>s. fst (ocIdentity client s getRequest) = s \<and> fst (ocListProjects client s) = s) \<and>
     (\<forall>s path. fst (git s (revParse path)) = s)"

definition quietly :: "'s questionnaire \<Rightarrow> 's \<Rightarrow> ('s \<times> questions_end) \<Rightarrow> bool" where
  "quietly env s r \<longleftrightarrow> fst r = s \<and> (\<forall>c. snd r = Confirmed c \<longrightarrow> qnConfirm env = Answered True)"

lemma quietly_stopped [simp]: "quietly env s (s, LeftOff e)"
  by (simp add: quietly_def)

lemma quietly_asked: "(\<And>x. answer = Answered x \<Longrightarrow> quietly env s (next_step x)) \<Longrightarrow> quietly env s (asked answer next_step s)"
  by (auto simp: asked_def quietly_def split: form_answer.split)

lemma quietly_confirm: "only_reads client git \<Longrightarrow> quietly env s (confirmConfiguration client env s p persona gh applyGit)"
  by (auto simp: confirmConfiguration_def asked_def quietly_def only_reads_def split: prod.split option.split form_answer.split)
    (metis fst_conv)+

lemma quietly_policy: "only_reads client git \<Longrightarrow> quietly env s (askPolicy client env s state p persona gh applyGit)"
  by (auto simp: askPolicy_def Let_def quietly_confirm intro!: quietly_asked)

lemma quietly_protection: "only_reads client git \<Longrightarrow> quietly env s (askProtection client env s state p persona gh)"
  by (auto simp: askProtection_def Let_def quietly_confirm quietly_policy intro!: quietly_asked split: option.split)

lemma quietly_persona: "only_reads client git \<Longrightarrow> quietly env s (askPersona client env s state defaults p gh personas)"
  by (auto simp: askPersona_def Let_def quietly_protection intro!: quietly_asked split: sum.split)

lemma quietly_details: "only_reads client git \<Longrightarrow> quietly env s (askDetails client env s state root)"
  unfolding askDetails_def Let_def
  by (intro quietly_asked) (simp add: quietly_persona split: sum.split option.split)

lemma questions_quiet:
  assumes "only_reads client (qnGit env)"
  shows "case questions client env s path of (s', root, r) \<Rightarrow> quietly env s (s', r)"
proof -
  have r: "fst (qnGit env s (revParse p)) = s" "fst (ocIdentity client s getRequest) = s" for s p
    using assms by (simp_all add: only_reads_def)
  have g: "fst (GitRoot (qnGit env) (qnGitOS env) s path) = s"
    using r(1) by (auto simp: GitRoot_def split: option.split prod.split git_answer.split) (metis fst_conv)+
  have "quietly env s (askDetails client env s state root)" for state root
    using quietly_details [OF assms] .
  then show ?thesis
    using g r(2) [of s] by (auto simp: questions_def quietly_def split: prod.splits sum.splits option.splits) (metis fst_conv snd_conv)+
qed

text \<open>C31: Until the operator confirms its summary the questionnaire changes nothing: if the daemon's answers to its reading requests and git's answer to \<open>rev-parse\<close> change nothing, then either
  the state is what it was, or the last form was confirmed and the run is the saving of the configuration.\<close>

theorem configure_confirmed:
  assumes "only_reads client (qnGit env)"
  shows "fst (Configure client env s path) = s \<or>
    qnConfirm env = Answered True \<and> (\<exists>root c. Configure client env s path = saveConfiguration client env s root c)"
proof -
  obtain s' root r where q: "questions client env s path = (s', root, r)" by (metis prod_cases3)
  then have "quietly env s (s', r)" using questions_quiet [OF assms, of s path] by simp
  with q show ?thesis by (cases r) (auto simp: Configure_def quietly_def)
qed

section \<open>What is saved\<close>

lemma map_of_tabulate: "map_of (map (\<lambda>x. (x, f x)) xs) x = (if x \<in> set xs then Some (f x) else None)"
  by (induction xs) auto

lemma checkedPolicy_allows: "Allows (checkedPolicy preset allowed) operation \<longleftrightarrow> operation \<in> set Permissions \<and> operation \<in> set allowed"
  by (simp add: Allows_def checkedPolicy_def map_of_tabulate)

definition checked_end :: "'s questionnaire \<Rightarrow> questions_end \<Rightarrow> bool" where
  "checked_end env r \<longleftrightarrow> (\<forall>c. r = Confirmed c \<longrightarrow>
     validatePersona (qnParseAddress env) (cfPersona c) = None \<and> prPersona (cfProject c) = peID (cfPersona c) \<and>
     (requiresIsolationPolicy (prMode (cfProject c)) \<longrightarrow>
       (\<exists>shown allowed. qnAllowed env shown = Answered allowed \<and>
          (\<forall>operation. Allows (prPolicy (cfProject c)) operation \<longleftrightarrow> operation \<in> set Permissions \<and> operation \<in> set allowed))))"

lemma checked_stopped [simp]: "checked_end env (LeftOff e)"
  by (simp add: checked_end_def)

lemma checked_asked: "(\<And>x. answer = Answered x \<Longrightarrow> checked_end env (snd (next_step x))) \<Longrightarrow> checked_end env (snd (asked answer next_step s))"
  by (simp add: asked_def split: form_answer.split)

lemma confirmed_same:
  assumes "snd (confirmConfiguration client env s p persona gh applyGit) = Confirmed c"
  shows "cfProject c = p \<and> cfPersona c = persona"
  using assms by (auto simp: confirmConfiguration_def asked_def split: prod.splits option.splits if_splits form_answer.splits)

lemma checked_policy:
  assumes "validatePersona (qnParseAddress env) persona = None" and "prPersona p = peID persona"
  shows "checked_end env (snd (askPolicy client env s state p persona gh applyGit))"
  unfolding askPolicy_def Let_def
proof (intro checked_asked)
  fix preset allowed
  assume "qnAllowed env (filter (Allows (prPolicy p\<lparr>polPreset := preset\<rparr>)) Permissions) = Answered allowed"
  then have c: "checked_end env (snd (confirmConfiguration client env s q persona gh applyGit))"
    if "prPolicy q = checkedPolicy preset allowed" "prPersona q = prPersona p" for q
    using that assms by (auto simp: checked_end_def checkedPolicy_allows dest!: confirmed_same) blast
  show "checked_end env (snd (if List.member allowed ''persona'' \<and> alternativesFor state persona \<noteq> []
      then asked (qnAlternatives env (alternativesFor state persona) (prAlternatives p))
             (\<lambda>alternatives. confirmConfiguration client env s
               (p\<lparr>prPolicy := checkedPolicy preset allowed, prAlternatives := alternatives\<rparr>) persona gh applyGit) s
      else confirmConfiguration client env s (p\<lparr>prPolicy := checkedPolicy preset allowed\<rparr>) persona gh applyGit))"
    by (auto intro!: checked_asked c)
qed

lemma checked_protection: "checked_end env (snd (askProtection client env s state p persona gh))"
proof (cases "validatePersona (qnParseAddress env) persona")
  case None
  have "checked_end env (snd (confirmConfiguration client env s (p\<lparr>prPersona := peID persona, prMode := mode\<rparr>) persona gh applyGit))"
    if "\<not> requiresIsolationPolicy mode" for mode applyGit
    using that None by (auto simp: checked_end_def dest!: confirmed_same)
  then show ?thesis
    using None by (auto simp: askProtection_def Let_def checked_policy intro!: checked_asked)
qed (simp add: askProtection_def)

lemma checked_details: "checked_end env (snd (askDetails client env s state root))"
  by (auto simp: askDetails_def askPersona_def Let_def checked_protection intro!: checked_asked split: sum.split option.split)

text \<open>C32: What the operator confirms is what was asked: a valid persona, which is the one of the project, and,
  for a project with agent isolation, a policy that allows exactly the checked operations, whatever preset
  and exceptions the project had before.\<close>

theorem configure_checked:
  assumes "questions client env s path = (s', root, Confirmed c)"
  shows "validatePersona (qnParseAddress env) (cfPersona c) = None \<and> prPersona (cfProject c) = peID (cfPersona c) \<and>
    (prMode (cfProject c) \<noteq> ''agent-isolation'' \<or>
      (\<exists>shown allowed. qnAllowed env shown = Answered allowed \<and>
         {operation. Allows (prPolicy (cfProject c)) operation} = set Permissions \<inter> set allowed))"
proof -
  have "checked_end env (Confirmed c)"
    using assms checked_details [of env client] unfolding questions_def
    by (auto split: prod.splits sum.splits option.splits) (metis snd_conv)
  then show ?thesis by (auto simp: checked_end_def requiresIsolationPolicy_def)
qed

section \<open>Examples\<close>

text \<open>The state is the list of the changes that were asked for.\<close>

definition logging_client :: "string list operator_client" where
  "logging_client =
     \<lparr>ocIdentity = (\<lambda>s r. (if rqAction r = ''get'' then s else s @ [rqAction r], zeroSnapshot\<lparr>ssState := sample_state\<rparr>, None)),
      ocAddProject = (\<lambda>s d. (s @ [''add''], d, None)), ocRemoveProject = (\<lambda>s p. (s @ [''remove''], (), None)),
      ocListProjects = (\<lambda>s. (s, [], None)), ocAddProcess = (\<lambda>s d. (s, d, None)), ocRemoveProcess = (\<lambda>s key. (s, (), None)),
      ocListProcesses = (\<lambda>s p. (s, [], None)), ocStart = (\<lambda>s key. (s, zeroRuntime, Some DialFails)),
      ocStop = (\<lambda>s key. (s, zeroRuntime, Some DialFails)), ocRestart = (\<lambda>s key. (s, zeroRuntime, Some DialFails)),
      ocStatus = (\<lambda>s key. (s, (zeroRuntime, False), None)), ocLogs = (\<lambda>s key n limit. (s, noTail, None))\<rparr>"

definition operator :: "bool form_answer \<Rightarrow> string list questionnaire" where
  "operator confirms =
     \<lparr>qnParseAddress = Some, qnParseURL = (\<lambda>u. None),
      qnGit = (\<lambda>s args. (if List.member args ''rev-parse'' then s else s @ [''git''], GitOutput ''/w'')), 
      qnGitOS = \<lparr>goAbs = Some, goEvalSymlinks = Some\<rparr>, qnLookPath = (\<lambda>n. None), qnOS = sample_os, qnExec = sample_exec,
      qnStatus = (\<lambda>p. ([], True)), qnUnmarshal = (\<lambda>d. Some []), qnDetails = (\<lambda>d r g. Answered d),
      qnChoosePersona = (\<lambda>options start. Answered start), qnPersona = Answered, qnProtection = (\<lambda>p mode. Answered (False, ''agent-isolation'')),
      qnPreset = Answered, qnAllowed = (\<lambda>shown. Answered [''read'', ''comment'']), qnAlternatives = (\<lambda>options old. Answered []),
      qnConfirm = confirms\<rparr>"

lemma operator_reads: "only_reads logging_client (qnGit (operator confirms))"
  by (simp add: only_reads_def logging_client_def operator_def getRequest_def revParse_def)

theorem configure_confirmed_witness:
  "fst (Configure logging_client (operator (Answered False)) [] ''/w'') = []"
  using configure_confirmed [OF operator_reads, of "Answered False" "[]" "''/w''"] by (auto simp: operator_def)

lemma operator_root: "GitRoot (qnGit (operator c)) (qnGitOS (operator c)) [] ''/w'' = ([], Inr ''/w'')" by code_simp

lemma operator_gh: "ValidateGH sample_os sample_exec ''/usr/bin/gh'' = Inr ''/usr/bin/gh''" by code_simp

lemma operator_accounts: "GitHubAccounts sample_os sample_exec ''/usr/bin/gh'' (\<lambda>p. ([], True)) (\<lambda>d. Some []) = Inr []"
  by (simp add: GitHubAccounts_def operator_gh parseAccounts_def)

lemma operator_persona: "validatePersona Some sample_persona = None" by code_simp

lemma operator_project: "FindProject sample_state [] ''/w'' = Inr sample_project" by code_simp

lemma operator_choices: "personaChoices [sample_persona] [] defaults = [sample_persona]"
  by (simp add: personaChoices_def)

lemma operator_state:
  "stGHPath sample_state = ''/usr/bin/gh''" "stPersonas sample_state = [sample_persona]" "FindPersona sample_state ''me'' = Inr sample_persona"
  "alternativesFor sample_state sample_persona = []" "prRepository sample_project = ''o/r''" "prPersona sample_project = ''me''"
  by (simp_all add: sample_state_def FindPersona_def alternativesFor_def sample_project_def) (simp_all add: sample_persona_def)

lemma operator_fields:
  "qnOS (operator c) = sample_os" "qnExec (operator c) = sample_exec" "qnStatus (operator c) = (\<lambda>p. ([], True))" 
  "qnUnmarshal (operator c) = (\<lambda>d. Some [])" "qnDetails (operator c) d r g = Answered d" "qnChoosePersona (operator c) options start = Answered start"
  "qnProtection (operator c) persona mode = Answered (False, ''agent-isolation'')" "qnPreset (operator c) = Answered"
  "qnAllowed (operator c) shown = Answered [''read'', ''comment'']" "qnConfirm (operator c) = c" "qnParseAddress (operator c) = Some"
  "ocListProjects logging_client s = (s, [], None)" "ocIdentity logging_client s getRequest = (s, zeroSnapshot\<lparr>ssState := sample_state\<rparr>, None)"
  by (simp_all add: operator_def logging_client_def getRequest_def)

lemma operator_confirmed:
  "\<exists>c. questions logging_client (operator (Answered True)) [] ''/w'' = ([], ''/w'', Confirmed c) \<and> prMode (cfProject c) = ''agent-isolation''"
  by (simp add: questions_def askDetails_def askPersona_def askProtection_def askPolicy_def confirmConfiguration_def asked_def Let_def
      operator_root operator_gh operator_accounts operator_persona operator_project operator_choices operator_state operator_fields
      configuredProject_def setDetails_def newChoice_def originalGH_def requiresIsolationPolicy_def rootDiffers_def)

theorem configure_checked_witness:
  "\<exists>c. questions logging_client (operator (Answered True)) [] ''/w'' = ([], ''/w'', Confirmed c) \<and>
     {operation. Allows (prPolicy (cfProject c)) operation} = {''read'', ''comment''}"
proof -
  obtain c where c: "questions logging_client (operator (Answered True)) [] ''/w'' = ([], ''/w'', Confirmed c)"
    "prMode (cfProject c) = ''agent-isolation''"
    using operator_confirmed by blast
  from configure_checked [OF c(1)] c(2)
  have "{operation. Allows (prPolicy (cfProject c)) operation} = set Permissions \<inter> {''read'', ''comment''}"
    by (auto simp: operator_def)
  then show ?thesis using c(1) by (auto simp: Permissions_def RepositoryOperations_def)
qed

text \<open>A project whose agent may also be \<open>me2\<close>, and an operator who gives it the persona of another host.\<close>

definition second_persona :: persona where
  "second_persona = sample_persona\<lparr>peID := ''me2'', peAccount := ''me2''\<rparr>"

definition work_persona :: persona where
  "work_persona = sample_persona\<lparr>peID := ''work'', peHost := ''git.work.org''\<rparr>"

definition moving_state :: identity_state where
  "moving_state = sample_state\<lparr>stPersonas := [sample_persona, second_persona, work_persona],
     stProjects := [sample_project\<lparr>prAlternatives := [''me2'']\<rparr>]\<rparr>"

definition moving_client :: "string list operator_client" where
  "moving_client = logging_client\<lparr>ocIdentity := (\<lambda>s r. (s, zeroSnapshot\<lparr>ssState := moving_state\<rparr>, None))\<rparr>"

definition moving_operator :: "string list questionnaire" where
  "moving_operator = (operator (Answered True))\<lparr>qnChoosePersona := (\<lambda>options start. Answered ''work''),
     qnProtection := (\<lambda>p mode. Answered (False, mode))\<rparr>"

lemma moving_fields:
  "qnOS moving_operator = sample_os" "qnExec moving_operator = sample_exec" "qnStatus moving_operator = (\<lambda>p. ([], True))"
  "qnUnmarshal moving_operator = (\<lambda>d. Some [])" "qnDetails moving_operator d r g = Answered d"
  "qnChoosePersona moving_operator options start = Answered ''work''" "qnProtection moving_operator persona mode = Answered (False, mode)"
  "qnConfirm moving_operator = Answered True" "qnParseAddress moving_operator = Some"
  "ocListProjects moving_client s = (s, [], None)" "ocIdentity moving_client s q = (s, zeroSnapshot\<lparr>ssState := moving_state\<rparr>, None)"
  by (simp_all add: moving_operator_def moving_client_def operator_def logging_client_def)

lemma moving_root: "GitRoot (qnGit moving_operator) (qnGitOS moving_operator) [] ''/w'' = ([], Inr ''/w'')" by code_simp

lemma moving_persona: "FindPersona moving_state ''work'' = Inr work_persona" "validatePersona Some work_persona = None"
  by code_simp+

lemma moving_project: "FindProject moving_state [] ''/w'' = Inr (sample_project\<lparr>prAlternatives := [''me2'']\<rparr>)" by code_simp

lemma moved_refused:
  "validateState Some (moving_state\<lparr>stProjects := [sample_project\<lparr>prAlternatives := [''me2''], prPersona := ''work'', prMode := ''proxy-level''\<rparr>]\<rparr>) = Some AlternativeHost"
  by code_simp

theorem stale_alternatives:
  "validateState Some moving_state = None \<and>
   (\<exists>c. questions moving_client moving_operator [] ''/w'' = ([], ''/w'', Confirmed c) \<and>
     validateState Some (moving_state\<lparr>stProjects := [cfProject c]\<rparr>) = Some AlternativeHost)"
proof
  show "validateState Some moving_state = None" by code_simp
  have p: "stGHPath moving_state = ''/usr/bin/gh''" "prMode sample_project = ''proxy-level''" "prRepository sample_project = ''o/r''" "peID work_persona = ''work''"
    "prID sample_project = ''p''" "prName sample_project = ''P''" "prDescription sample_project = []"
    by (simp_all add: moving_state_def sample_state_def sample_project_def work_persona_def)
  have d: "setDetails q \<lparr>dtID = prID q, dtName = prName q, dtDescription = prDescription q, dtRepository = prRepository q, dtGH = g\<rparr> = q" for q g
    by (simp add: setDetails_def)
  show "\<exists>c. questions moving_client moving_operator [] ''/w'' = ([], ''/w'', Confirmed c) \<and>
     validateState Some (moving_state\<lparr>stProjects := [cfProject c]\<rparr>) = Some AlternativeHost"
    using moved_refused
    by (simp add: questions_def askDetails_def askPersona_def askProtection_def confirmConfiguration_def asked_def Let_def
      moving_root moving_fields moving_persona moving_project operator_gh operator_accounts p d
      configuredProject_def newChoice_def originalGH_def requiresIsolationPolicy_def rootDiffers_def del: project.update_convs)
qed

end
