(* ===== verification/CliCommands.thy ===== *)
theory CliCommands
  imports CliFlags OperatorClient TerminalOutput GitConfig AgentChannel Questionnaire
begin

text \<open>
  The project and process commands of \<open>internal/cli/cli.go\<close> over an operator client.  A command takes the
  state of the client and returns the state afterwards, what it wrote to the standard output and to the
  standard error, and its error; writing to the terminal succeeds.
\<close>

section \<open>Output and errors\<close>

datatype identity_failure =
  InputUnreadable | ImportRefused import_error | GitRefused git_error | NotConfigured identity_error
| PolicyRequired | OperatorRequired | ChannelFails | AgentRefuses agent_error | UnmetRequirements | TerminalRequired
| InvalidConfiguration | ConfigurationTrailing | QuestionnaireFails configure_error

text \<open>The other failures of a run: of the endpoint, of an agent session, of MCP and of the interface.\<close>

datatype run_failure =
  NoEndpoint | OperatorTerminalOnly | SessionNoJSON | SessionFlags flag_error | InvalidResource | AgentInputUnreadable
| AgentRunFails | MCPFails | ConsoleFails

datatype cli_error =
  BadArguments flag_error | FromClient client_error | IdentityFails identity_failure | RunFails run_failure

text \<open>\<open>FlagUsage\<close> is the text that package flag writes about an error.  A failure is written as a line or as a
  document with a code; its text is that of the error.\<close>

datatype item =
  Print string | Document json | FlagUsage flag_error | FailureLine cli_error | FailureDocument string cli_error

type_synonym 's cli_run = "'s \<times> item list \<times> item list \<times> cli_error option"

abbreviation newline :: string where "newline \<equiv> [CHR 0x0A]"
abbreviation tab :: string where "tab \<equiv> [CHR 0x09]"

record 's cli_env =
  ceClient :: "'s operator_client"
  ceNumbers :: number_parsers
  ceColor :: bool  \<comment> \<open>\<open>interactiveOutput\<close> of the standard output\<close>
  ceStrip :: "bytes \<Rightarrow> bytes"  \<comment> \<open>\<open>ansi.Strip\<close>\<close>
  ceDone :: bool  \<comment> \<open>whether the context has ended when a request fails\<close>
  ceWaits :: "('s \<Rightarrow> 's) list"  \<comment> \<open>what happens in each wait, until the context ends\<close>

definition success :: "'s \<Rightarrow> item list \<Rightarrow> 's cli_run" where
  "success s out = (s, out, [], None)"

definition failing :: "'s \<Rightarrow> identity_failure \<Rightarrow> 's cli_run" where
  "failing s e = (s, [], [], Some (IdentityFails e))"

definition refused :: "'s \<Rightarrow> flag_error \<Rightarrow> 's cli_run" where
  "refused s e = (s, [], [], Some (BadArguments e))"

text \<open>\<open>newFlagSet\<close> and \<open>parseExact\<close>: in JSON mode package flag writes nothing.\<close>

definition flagOutput :: "bool \<Rightarrow> flag_error \<Rightarrow> item list" where
  "flagOutput json e = (if json then [] else case e of UnexpectedArguments _ \<Rightarrow> [] | _ \<Rightarrow> [FlagUsage e])"

definition withFlags :: "'s cli_env \<Rightarrow> bool \<Rightarrow> 's \<Rightarrow> flag_set \<Rightarrow> string list \<Rightarrow> (flag_set \<Rightarrow> 's cli_run) \<Rightarrow> 's cli_run" where
  "withFlags env json s flags arguments command =
     (case parseExact (ceNumbers env) flags arguments of
        Inl e \<Rightarrow> (s, [], flagOutput json e, Some (BadArguments e))
      | Inr flags' \<Rightarrow> command flags')"

text \<open>The answer of the client, or its error.\<close>

definition answering :: "('s, 'r) answer \<Rightarrow> ('r \<Rightarrow> item list) \<Rightarrow> 's cli_run" where
  "answering a shown = (case a of (s, r, Some e) \<Rightarrow> (s, [], [], Some (FromClient e)) | (s, r, None) \<Rightarrow> success s (shown r))"

section \<open>The documents\<close>

definition entry :: "string \<Rightarrow> json option \<Rightarrow> (string \<times> json) list" where
  "entry name value = (case value of None \<Rightarrow> [] | Some j \<Rightarrow> [(name, j)])"

definition projectDocument :: "project_definition \<Rightarrow> json" where
  "projectDocument p = JObject [(''id'', JText (pdID p)), (''rootDirectory'', JText (pdRootDirectory p))]"

definition processDocument :: "process_definition \<Rightarrow> json" where
  "processDocument p = JObject ([(''projectId'', JText (dProjectID p)), (''id'', JText (dID p)), (''command'', JText (dCommand p))] @
     entry ''arguments'' (omitList JText (dArguments p)) @ entry ''workingDirectory'' (omitText (dWorkingDirectory p)))"

definition runtimeDocument :: "process_runtime \<Rightarrow> json" where
  "runtimeDocument r = JObject ([(''projectId'', JText (rProjectID r)), (''processId'', JText (rProcessID r))] @
     entry ''instanceId'' (omitText (rInstanceID r)) @ entry ''pid'' (omitNil JNumber (rPID r)) @
     [(''state'', JText (stateName (rState r)))] @
     entry ''startedAt'' (omitNil JTime (rStartedAt r)) @ entry ''finishedAt'' (omitNil JTime (rFinishedAt r)) @
     entry ''exitCode'' (omitNil JNumber (rExitCode r)) @ entry ''terminationReason'' (omitText (rTerminationReason r)))"

definition outputTailDocument :: "output_tail \<Rightarrow> json" where
  "outputTailDocument tail = JObject
     [(''events'', JArray (map (\<lambda>e. JObject [(''sequence'', JNumber (uint (eSequence e))), (''capturedAt'', JTime (eCapturedAt e)),
         (''stream'', JText (streamText (eStream e))), (''data'', JText (eData e))]) (tEvents tail))),
      (''truncated'', JBool (tTruncated tail))]"

definition removalDocument :: "string \<Rightarrow> string \<Rightarrow> json" where
  "removalDocument p q = JObject ([(''projectId'', JText p)] @ entry ''processId'' (omitText q) @ [(''removed'', JBool True)])"

definition showInt :: "int \<Rightarrow> string" where
  "showInt i = (if i < 0 then ''-'' else []) @ itoa (nat \<bar>i\<bar>)"

definition writeRuntime :: "process_runtime \<Rightarrow> item" where
  "writeRuntime r = Print (rProjectID r @ ''/'' @ rProcessID r @ tab @ stateName (rState r) @ tab @ ''pid='' @
     (case rPID r of None \<Rightarrow> ''-'' | Some pid \<Rightarrow> showInt pid) @ tab @ ''instance='' @ rInstanceID r @ newline)"

section \<open>Projects\<close>

definition runProjectAdd :: "'s cli_env \<Rightarrow> bool \<Rightarrow> 's \<Rightarrow> string list \<Rightarrow> 's cli_run" where
  "runProjectAdd env json s arguments =
     withFlags env json s [(''id'', Text []), (''root'', Text [])] arguments (\<lambda>flags.
       answering (ocAddProject (ceClient env) s \<lparr>pdID = textOf flags ''id'', pdRootDirectory = textOf flags ''root''\<rparr>)
         (\<lambda>p. [if json then Document (projectDocument p) else Print (''project '' @ pdID p @ '' added'' @ newline)]))"

definition runProjectRemove :: "'s cli_env \<Rightarrow> bool \<Rightarrow> 's \<Rightarrow> string list \<Rightarrow> 's cli_run" where
  "runProjectRemove env json s arguments =
     withFlags env json s [(''id'', Text [])] arguments (\<lambda>flags.
       let p = textOf flags ''id''
       in answering (ocRemoveProject (ceClient env) s p)
            (\<lambda>_. [if json then Document (removalDocument p []) else Print (''project '' @ p @ '' removed'' @ newline)]))"

definition runProjectList :: "'s cli_env \<Rightarrow> bool \<Rightarrow> 's \<Rightarrow> string list \<Rightarrow> 's cli_run" where
  "runProjectList env json s arguments =
     (if arguments \<noteq> [] then refused s (NoArguments ''project list'')
      else answering (ocListProjects (ceClient env) s)
        (\<lambda>ps. if json then [Document (JArray (map projectDocument ps))]
           else map (\<lambda>p. Print (pdID p @ tab @ pdRootDirectory p @ newline)) ps))"

definition runProjectCommand :: "'s cli_env \<Rightarrow> bool \<Rightarrow> 's \<Rightarrow> string list \<Rightarrow> 's cli_run" where
  "runProjectCommand env json s arguments =
     (case arguments of
        [] \<Rightarrow> refused s NoCommand
      | command # rest \<Rightarrow>
          if command = ''add'' then runProjectAdd env json s rest
          else if command = ''remove'' then runProjectRemove env json s rest
          else if command = ''list'' then runProjectList env json s rest
          else refused s (UnknownCommand command))"

section \<open>Output of a process\<close>

definition writeOutputEvent :: "'s cli_env \<Rightarrow> output_event \<Rightarrow> item" where
  "writeOutputEvent env e =
     (let data = RenderOutput (ceStrip env) (eData e) (ceColor env)
      in Print (''['' @ streamText (eStream e) @ ''] '' @ data @ (if data = [] \<or> last data \<noteq> CHR 0x0A then newline else [])))"

text \<open>The largest sequence number seen, from \<open>after\<close> on.\<close>

definition lastSequence :: "u64 \<Rightarrow> output_event list \<Rightarrow> u64" where
  "lastSequence afterSequence es = foldl (\<lambda>a e. if a < eSequence e then eSequence e else a) afterSequence es"

definition tailItems :: "'s cli_env \<Rightarrow> bool \<Rightarrow> output_tail \<Rightarrow> item list" where
  "tailItems env first tail =
     (if first \<and> tTruncated tail then [Print (''[output truncated]'' @ newline)] else []) @ map (writeOutputEvent env) (tEvents tail)"

text \<open>The loop of \<open>runProcessLogs\<close> over the waits that are left.\<close>

fun followLogs :: "'s cli_env \<Rightarrow> process_key \<Rightarrow> int \<Rightarrow> bool \<Rightarrow> u64 \<Rightarrow> 's \<Rightarrow> ('s \<Rightarrow> 's) list \<Rightarrow> 's cli_run" where
  "followLogs env key limit first afterSequence s waits =
     (case ocLogs (ceClient env) s key afterSequence limit of
        (s', tail, Some e) \<Rightarrow> if ceDone env then success s' [] else (s', [], [], Some (FromClient e))
      | (s', tail, None) \<Rightarrow>
          (case waits of
             [] \<Rightarrow> success s' (tailItems env first tail)
           | wait # waits' \<Rightarrow>
               (case followLogs env key limit False (lastSequence afterSequence (tEvents tail)) (wait s') waits' of
                  (s'', out, err, e) \<Rightarrow> (s'', tailItems env first tail @ out, err, e))))"

definition runProcessLogs :: "'s cli_env \<Rightarrow> bool \<Rightarrow> 's \<Rightarrow> process_key \<Rightarrow> u64 \<Rightarrow> int \<Rightarrow> bool \<Rightarrow> 's cli_run" where
  "runProcessLogs env json s key afterSequence limit follow =
     (if follow then followLogs env key limit True afterSequence s (ceWaits env)
      else answering (ocLogs (ceClient env) s key afterSequence limit)
        (\<lambda>tail. if json then [Document (outputTailDocument tail)] else tailItems env True tail))"

section \<open>Processes\<close>

definition referenceFlags :: flag_set where
  "referenceFlags = [(''project'', Text []), (''process'', Text [])]"

definition referenceOf :: "flag_set \<Rightarrow> process_key" where
  "referenceOf flags = ProcessKey (textOf flags ''project'') (textOf flags ''process'')"

text \<open>\<open>parseProcessReference\<close>, with the command that follows it.\<close>

definition withReference :: "'s cli_env \<Rightarrow> bool \<Rightarrow> 's \<Rightarrow> string list \<Rightarrow> (process_key \<Rightarrow> 's cli_run) \<Rightarrow> 's cli_run" where
  "withReference env json s arguments command =
     withFlags env json s referenceFlags arguments (\<lambda>flags. command (referenceOf flags))"

definition processAddFlags :: flag_set where
  "processAddFlags =
     [(''project'', Text []), (''id'', Text []), (''command'', Text []), (''working-directory'', Text []),
      (''arg'', Texts []), (''env'', Texts [])]"

definition processFrom :: "flag_set \<Rightarrow> (string, string) gomap \<Rightarrow> process_definition" where
  "processFrom flags overrides =
     \<lparr>dProjectID = textOf flags ''project'', dID = textOf flags ''id'', dCommand = textOf flags ''command'',
      dArguments = textsOf flags ''arg'', dWorkingDirectory = textOf flags ''working-directory'',
      dEnvironmentOverrides = Some overrides\<rparr>"

definition runProcessAdd :: "'s cli_env \<Rightarrow> bool \<Rightarrow> 's \<Rightarrow> string list \<Rightarrow> 's cli_run" where
  "runProcessAdd env json s arguments =
     withFlags env json s processAddFlags arguments (\<lambda>flags.
       case parseEnvironment (textsOf flags ''env'') of
         Inl e \<Rightarrow> refused s e
       | Inr overrides \<Rightarrow>
           answering (ocAddProcess (ceClient env) s (processFrom flags overrides))
             (\<lambda>p. [if json then Document (processDocument p)
                else Print (''process '' @ dProjectID p @ ''/'' @ dID p @ '' added'' @ newline)]))"

definition runProcessRemove :: "'s cli_env \<Rightarrow> bool \<Rightarrow> 's \<Rightarrow> string list \<Rightarrow> 's cli_run" where
  "runProcessRemove env json s arguments =
     withReference env json s arguments (\<lambda>key.
       answering (ocRemoveProcess (ceClient env) s key)
         (\<lambda>_. [if json then Document (removalDocument (keyProject key) (keyProcess key))
            else Print (''process '' @ keyProject key @ ''/'' @ keyProcess key @ '' removed'' @ newline)]))"

definition runProcessList :: "'s cli_env \<Rightarrow> bool \<Rightarrow> 's \<Rightarrow> string list \<Rightarrow> 's cli_run" where
  "runProcessList env json s arguments =
     withFlags env json s [(''project'', Text [])] arguments (\<lambda>flags.
       answering (ocListProcesses (ceClient env) s (textOf flags ''project''))
         (\<lambda>ps. if json then [Document (JArray (map processDocument ps))]
            else map (\<lambda>p. Print (dID p @ tab @ dCommand p @ tab @ joinWith '' '' (dArguments p) @ newline)) ps))"

definition runtimeItem :: "bool \<Rightarrow> process_runtime \<Rightarrow> item" where
  "runtimeItem json r = (if json then Document (runtimeDocument r) else writeRuntime r)"

definition runProcessChange :: "'s cli_env \<Rightarrow> bool \<Rightarrow> 's \<Rightarrow> ('s \<Rightarrow> process_key \<Rightarrow> ('s, process_runtime) answer) \<Rightarrow> string list \<Rightarrow> 's cli_run" where
  "runProcessChange env json s change arguments =
     withReference env json s arguments (\<lambda>key. answering (change s key) (\<lambda>r. [runtimeItem json r]))"

text \<open>A process without a runtime is shown as stopped.\<close>

definition stoppedItem :: "bool \<Rightarrow> process_key \<Rightarrow> item" where
  "stoppedItem json key =
     (if json then Document (JObject [(''projectId'', JText (keyProject key)), (''processId'', JText (keyProcess key)), (''state'', JText (stateName Stopped))])
      else Print (keyProject key @ ''/'' @ keyProcess key @ tab @ stateName Stopped @ newline))"

definition runProcessStatus :: "'s cli_env \<Rightarrow> bool \<Rightarrow> 's \<Rightarrow> string list \<Rightarrow> 's cli_run" where
  "runProcessStatus env json s arguments =
     withReference env json s arguments (\<lambda>key.
       answering (ocStatus (ceClient env) s key)
         (\<lambda>(r, exists). [if \<not> exists then stoppedItem json key else runtimeItem json r]))"

definition logsFlags :: flag_set where
  "logsFlags =
     [(''project'', Text []), (''process'', Text []), (''tail'', Number 100), (''after'', Counter 0), (''follow'', Flag False)]"

definition runProcessLogsCommand :: "'s cli_env \<Rightarrow> bool \<Rightarrow> 's \<Rightarrow> string list \<Rightarrow> 's cli_run" where
  "runProcessLogsCommand env json s arguments =
     withFlags env json s logsFlags arguments (\<lambda>flags.
       if json \<and> boolOf flags ''follow'' then refused s FollowInJSON
       else runProcessLogs env json s (referenceOf flags) (counterOf flags ''after'') (numberOf flags ''tail'') (boolOf flags ''follow''))"

definition runProcessCommand :: "'s cli_env \<Rightarrow> bool \<Rightarrow> 's \<Rightarrow> string list \<Rightarrow> 's cli_run" where
  "runProcessCommand env json s arguments =
     (case arguments of
        [] \<Rightarrow> refused s NoCommand
      | command # rest \<Rightarrow>
          if command = ''add'' then runProcessAdd env json s rest
          else if command = ''remove'' then runProcessRemove env json s rest
          else if command = ''list'' then runProcessList env json s rest
          else if command = ''start'' then runProcessChange env json s (ocStart (ceClient env)) rest
          else if command = ''stop'' then runProcessChange env json s (ocStop (ceClient env)) rest
          else if command = ''restart'' then runProcessChange env json s (ocRestart (ceClient env)) rest
          else if command = ''status'' then runProcessStatus env json s rest
          else if command = ''logs'' then runProcessLogsCommand env json s rest
          else refused s (UnknownCommand command))"

definition runOperatorCommand :: "'s cli_env \<Rightarrow> bool \<Rightarrow> 's \<Rightarrow> string list \<Rightarrow> 's cli_run" where
  "runOperatorCommand env json s arguments =
     (case arguments of
        [] \<Rightarrow> refused s NoCommand
      | command # rest \<Rightarrow>
          if command = ''project'' then runProjectCommand env json s rest
          else if command = ''process'' then runProcessCommand env json s rest
          else refused s (UnknownCommand command))"

section \<open>A process is registered as it was written\<close>

text \<open>A process definition as the arguments of \<open>process add\<close>.\<close>

definition addArguments :: "process_definition \<Rightarrow> (string, string) gomap \<Rightarrow> string list" where
  "addArguments d overrides =
     [assignment ''project'' (dProjectID d), assignment ''id'' (dID d), assignment ''command'' (dCommand d),
      assignment ''working-directory'' (dWorkingDirectory d)] @
     map (assignment ''arg'') (dArguments d) @ map (assignment ''env'') (map overrideText overrides)"

lemma add_flag_names:
  "flag_name ''project''" "flag_name ''id''" "flag_name ''command''" "flag_name ''working-directory''" "flag_name ''arg''" "flag_name ''env''"
  by (simp_all add: flag_name_def)

lemma parse_add:
  "parseExact parse processAddFlags (addArguments d overrides) = Inr
     [(''project'', Text (dProjectID d)), (''id'', Text (dID d)), (''command'', Text (dCommand d)),
      (''working-directory'', Text (dWorkingDirectory d)), (''arg'', Texts (dArguments d)), (''env'', Texts (map overrideText overrides))]"
proof -
  let ?flags = "[(''project'', Text (dProjectID d)), (''id'', Text (dID d)), (''command'', Text (dCommand d)),
      (''working-directory'', Text (dWorkingDirectory d)), (''arg'', Texts []), (''env'', Texts [])]"
  let ?envs = "map (assignment ''env'') (map overrideText overrides)"
  have "parseFlags parse processAddFlags (addArguments d overrides) =
      parseFlags parse ?flags (map (assignment ''arg'') (dArguments d) @ ?envs)"
    by (simp add: addArguments_def processAddFlags_def parse_assignment [OF add_flag_names(1)]
        parse_assignment [OF add_flag_names(2)] parse_assignment [OF add_flag_names(3)]
        parse_assignment [OF add_flag_names(4)] setValue_def map_put_def del: parseFlags.simps)
  also have "\<dots> = parseFlags parse (map_put ?flags ''arg'' (Texts (dArguments d))) (?envs @ [])"
    using parse_repeated [OF add_flag_names(5), of ?flags "[]" parse "dArguments d" ?envs] by (cases "dArguments d") (simp_all add: map_put_def)
  also have "\<dots> = parseFlags parse (map_put (map_put ?flags ''arg'' (Texts (dArguments d))) ''env'' (Texts (map overrideText overrides))) []"
    using parse_repeated [OF add_flag_names(6), of "map_put ?flags ''arg'' (Texts (dArguments d))" "[]" parse "map overrideText overrides" "[]"]
    by (cases overrides) (simp_all add: map_put_def)
  finally show ?thesis by (simp add: parseExact_def map_put_def)
qed

lemma add_read:
  assumes "dEnvironmentOverrides d = Some overrides" and "map_wf overrides" and "\<forall>key\<in>set (map_keys overrides). override_key key"
  shows "runOperatorCommand env json s (''process'' # ''add'' # addArguments d overrides) =
     answering (ocAddProcess (ceClient env) s d)
       (\<lambda>p. [if json then Document (processDocument p)
          else Print (''process '' @ dProjectID p @ ''/'' @ dID p @ '' added'' @ newline)])"
proof -
  have "parseEnvironment (map overrideText overrides) = Inr overrides"
    using parseOverrides_distinct [of overrides "[]"] assms(2,3) by (simp add: parseEnvironment_def map_wf_def)
  moreover have "processFrom [(''project'', Text (dProjectID d)), (''id'', Text (dID d)), (''command'', Text (dCommand d)),
      (''working-directory'', Text (dWorkingDirectory d)), (''arg'', Texts (dArguments d)), (''env'', Texts (map overrideText overrides))]
      overrides = d"
    using assms(1) by (simp add: processFrom_def textOf_def textsOf_def)
  ultimately show ?thesis
    by (simp add: runOperatorCommand_def runProcessCommand_def runProcessAdd_def withFlags_def parse_add textsOf_def)
qed

section \<open>One document\<close>

text \<open>What a command writes in JSON mode: one document and no error, or an error and nothing.\<close>

definition one_document :: "'s cli_run \<Rightarrow> bool" where
  "one_document r \<longleftrightarrow> (case r of (s, out, err, e) \<Rightarrow>
     err = [] \<and> (case e of None \<Rightarrow> \<exists>j. out = [Document j] | Some _ \<Rightarrow> out = []))"

lemma one_document_refused [simp]: "one_document (refused s e)"
  by (simp add: one_document_def refused_def)

lemma one_document_answering: "(\<And>r. \<exists>j. shown r = [Document j]) \<Longrightarrow> one_document (answering a shown)"
  by (auto simp: one_document_def answering_def success_def split: prod.split option.split)

lemma one_document_flags: "(\<And>flags. one_document (command flags)) \<Longrightarrow> one_document (withFlags env True s flags arguments command)"
  by (auto simp: one_document_def withFlags_def flagOutput_def split: sum.split)

lemma one_document_reference: "(\<And>key. one_document (command key)) \<Longrightarrow> one_document (withReference env True s arguments command)"
  unfolding withReference_def by (rule one_document_flags)

lemmas one_document_rules =
  one_document_answering one_document_flags one_document_reference

lemma one_document_projects: "one_document (runProjectCommand env True s arguments)"
  by (auto simp: runProjectCommand_def runProjectAdd_def runProjectRemove_def runProjectList_def Let_def
      intro!: one_document_rules split: list.split)

lemma one_document_changes: "one_document (runProcessChange env True s change arguments)"
  by (auto simp: runProcessChange_def runtimeItem_def intro!: one_document_rules)

lemma one_document_registrations:
  "one_document (runProcessAdd env True s arguments)" "one_document (runProcessRemove env True s arguments)"
  "one_document (runProcessList env True s arguments)"
  by (auto simp: runProcessAdd_def runProcessRemove_def runProcessList_def intro!: one_document_rules split: sum.split)

lemma one_document_status: "one_document (runProcessStatus env True s arguments)"
  by (auto simp: runProcessStatus_def stoppedItem_def runtimeItem_def intro!: one_document_rules split: prod.split)

lemma one_document_logs: "one_document (runProcessLogsCommand env True s arguments)"
  by (auto simp: runProcessLogsCommand_def runProcessLogs_def intro!: one_document_rules)

lemma command_document: "one_document (runOperatorCommand env True s arguments)"
  by (auto simp: runOperatorCommand_def runProcessCommand_def one_document_projects one_document_changes
      one_document_registrations one_document_status one_document_logs split: list.split)

end
