(* ===== verification/CliIdentity.thy ===== *)
theory CliIdentity
  imports CliCommands AgentChannel CliGh IdentityWire
begin

text \<open>
  The identity, policy, session and doctor commands of \<open>internal/cli/identity.go\<close>, the configuration of
  a project from a file, and \<open>whoami\<close> of \<open>internal/cli/whoami.go\<close>.  The state of a run holds the daemon
  and the repositories of the machine, so the operator client and git are functions of one state.  The
  answer of the agent channel to a request is an argument: the frame it sends, if it sends one.
\<close>

section \<open>What the commands see\<close>

record 's identity_cli =
  icCli :: "'s cli_env"
  icAgentEndpoint :: string  \<comment> \<open>\<open>DOVIK_AGENT_ENDPOINT\<close>\<close>
  icAgent :: "string \<Rightarrow> 's \<Rightarrow> agent_request \<Rightarrow> 's \<times> frame option"
  icOpen :: "string \<Rightarrow> bytes option option"  \<comment> \<open>none: opening fails; some none: reading fails\<close>
  icParseAddress :: "string \<Rightarrow> string option"
  icLegacy :: "bytes \<Rightarrow> legacy_persona list option"  \<comment> \<open>\<open>json.Unmarshal\<close> of an import\<close>
  icDecode :: "bytes \<Rightarrow> (json \<times> bool) option"  \<comment> \<open>the first JSON value, and whether nothing follows it\<close>
  icGit :: "'s git_program"
  icGitOS :: git_os
  icTerminal :: bool  \<comment> \<open>\<open>interactive\<close>\<close>
  icForms :: "'s questionnaire"  \<comment> \<open>the operator's answers to the forms\<close>

abbreviation identityCall :: "'s identity_cli \<Rightarrow> 's \<Rightarrow> identity_request \<Rightarrow> ('s, service_snapshot) answer" where
  "identityCall env \<equiv> ocIdentity (ceClient (icCli env))"

definition readInputFile :: "'s identity_cli \<Rightarrow> string \<Rightarrow> bytes option" where
  "readInputFile env path = (case icOpen env path of None \<Rightarrow> None | Some data \<Rightarrow> readLimited (1024 * 1024) data)"

section \<open>Documents\<close>

definition snapshotDocument :: "service_snapshot \<Rightarrow> json" where
  "snapshotDocument snapshot = writeStruct (snapshotFields False) snapshot"

definition contextDocument :: "project \<Rightarrow> persona \<Rightarrow> json" where
  "contextDocument p persona =
     JObject [(''project'', writeStruct (projectFields False) p), (''persona'', writeStruct personaFields persona)]"

definition importInstruction :: string where
  "importInstruction = ''Review account names, then repeat with --confirm. Use identity put to correct imported metadata.''"

definition previewDocument :: "persona list \<Rightarrow> json" where
  "previewDocument ps =
     JObject [(''preview'', JArray (map (writeStruct personaFields) ps)), (''instruction'', JText importInstruction)]"

definition policyDocument :: "project \<Rightarrow> json" where
  "policyDocument p = JObject [(''policy'', writeStruct policyFields (prPolicy p)), (''proxyEnabled'', JBool (prProxyEnabled p))]"

section \<open>Personas\<close>

definition identityFlags :: flag_set where
  "identityFlags =
     [(''id'', Text []), (''name'', Text []), (''git-name'', Text []), (''email'', Text []), (''host'', Text ''github.com''),
      (''account'', Text []), (''path'', Text []), (''file'', Text []), (''root'', Text ''.''), (''project'', Text []),
      (''confirm'', Flag False), (''short'', Flag False), (''apply-git'', Flag False)]"

datatype identity_plan = Ask identity_request | Preview "persona list" | Reject cli_error

definition planImport :: "'s identity_cli \<Rightarrow> flag_set \<Rightarrow> identity_plan" where
  "planImport env flags =
     (case readInputFile env (textOf flags ''file'') of
        None \<Rightarrow> Reject (IdentityFails InputUnreadable)
      | Some data \<Rightarrow>
          (case PreviewImport (icParseAddress env) (icLegacy env data) (textOf flags ''host'') of
             Inl e \<Rightarrow> Reject (IdentityFails (ImportRefused e))
           | Inr ps \<Rightarrow>
               if \<not> boolOf flags ''confirm'' then Preview ps
               else Ask (zeroRequest\<lparr>rqAction := ''persona.import'', rqPersonas := ps\<rparr>)))"

definition personaFrom :: "flag_set \<Rightarrow> persona" where
  "personaFrom flags = \<lparr>peID = textOf flags ''id'', peName = textOf flags ''name'', peGitName = textOf flags ''git-name'',
     peGitEmail = textOf flags ''email'', peHost = textOf flags ''host'', peAccount = textOf flags ''account''\<rparr>"

definition planIdentity :: "'s identity_cli \<Rightarrow> string \<Rightarrow> flag_set \<Rightarrow> identity_plan" where
  "planIdentity env command flags =
     (if List.member [''list'', ''status'', ''use''] command then Ask getRequest
      else if command = ''put'' then Ask (zeroRequest\<lparr>rqAction := ''persona.put'', rqPersona := Some (personaFrom flags)\<rparr>)
      else if command = ''gh'' then Ask (zeroRequest\<lparr>rqAction := ''gh.set'', rqPath := textOf flags ''path''\<rparr>)
      else if command = ''import'' then planImport env flags
      else Reject (BadArguments (UnknownCommand command)))"

text \<open>\<open>identity status\<close> and \<open>identity use\<close>, after the state was fetched.\<close>

definition showPersona :: "'s identity_cli \<Rightarrow> 's \<Rightarrow> identity_state \<Rightarrow> bool \<Rightarrow> flag_set \<Rightarrow> 's cli_run" where
  "showPersona env s state use flags =
     (case GitRoot (icGit env) (icGitOS env) s (textOf flags ''root'') of
        (s1, Inl e) \<Rightarrow> failing s1 (GitRefused e)
      | (s1, Inr resolved) \<Rightarrow>
          (case FindProject state (textOf flags ''project'') resolved of
             Inl e \<Rightarrow> if boolOf flags ''short'' then success s1 [Print (''?'' @ newline)] else failing s1 (NotConfigured e)
           | Inr p \<Rightarrow>
               (case FindPersona state (if use then textOf flags ''id'' else prPersona p) of
                  Inl e \<Rightarrow> failing s1 (NotConfigured e)
                | Inr persona \<Rightarrow>
                    (let p' = (if use then p\<lparr>prPersona := peID persona\<rparr> else p)
                     in case (if use then identityCall env s1 (zeroRequest\<lparr>rqAction := ''project.put'', rqProject := Some p'\<rparr>)
                              else (s1, zeroSnapshot, None)) of
                          (s2, _, Some e) \<Rightarrow> (s2, [], [], Some (FromClient e))
                        | (s2, _, None) \<Rightarrow>
                            (case (if boolOf flags ''apply-git''
                                   then ApplyGitAuthor (icParseAddress env) (icGit env) (icGitOS env) s2 resolved persona
                                   else (s2, None)) of
                               (s3, Some e) \<Rightarrow> failing s3 (GitRefused e)
                             | (s3, None) \<Rightarrow>
                                 success s3 [if boolOf flags ''short'' then Print (peName persona @ newline)
                                   else Document (contextDocument p' persona)])))))"

definition personaLine :: "persona \<Rightarrow> item" where
  "personaLine p = Print (peID p @ tab @ peName p @ tab @ peHost p @ ''/'' @ peAccount p @ newline)"

definition runIdentityCommand :: "'s identity_cli \<Rightarrow> bool \<Rightarrow> 's \<Rightarrow> string list \<Rightarrow> 's cli_run" where
  "runIdentityCommand env json s arguments =
     (case arguments of
        [] \<Rightarrow> refused s NoCommand
      | command # rest \<Rightarrow>
          withFlags (icCli env) json s identityFlags rest (\<lambda>flags.
            case planIdentity env command flags of
              Reject e \<Rightarrow> (s, [], [], Some e)
            | Preview ps \<Rightarrow> success s [Document (previewDocument ps)]
            | Ask request \<Rightarrow>
                (case identityCall env s request of
                   (s', snapshot, Some e) \<Rightarrow> (s', [], [], Some (FromClient e))
                 | (s', snapshot, None) \<Rightarrow>
                     if command = ''status'' \<or> command = ''use''
                     then showPersona env s' (ssState snapshot) (command = ''use'') flags
                     else success s' (if json then [Document (snapshotDocument snapshot)]
                                      else map personaLine (stPersonas (ssState snapshot))))))"

section \<open>Policies\<close>

definition policyFlags :: flag_set where
  "policyFlags = [(''project'', Text []), (''preset'', Text []), (''allow'', Texts []), (''deny'', Texts [])]"

text \<open>The allowed operations are entered first, so a denied one wins.\<close>

definition policyFrom :: "flag_set \<Rightarrow> policy" where
  "policyFrom flags =
     \<lparr>polPreset = textOf flags ''preset'',
      polExceptions = foldl (\<lambda>m op. map_put m op False)
        (foldl (\<lambda>m op. map_put m op True) [] (textsOf flags ''allow'')) (textsOf flags ''deny'')\<rparr>"

text \<open>The request of a policy command, after its own requests: the state afterwards and the request.\<close>

definition planPolicy :: "'s identity_cli \<Rightarrow> 's \<Rightarrow> string \<Rightarrow> flag_set \<Rightarrow> 's \<times> (cli_error, identity_request) sum" where
  "planPolicy env s command flags =
     (if command = ''set'' then
        (s, Inr (zeroRequest\<lparr>rqAction := ''policy.set'', rqProjectID := textOf flags ''project'', rqPolicy := Some (policyFrom flags)\<rparr>))
      else if command = ''enable'' \<or> command = ''disable'' then
        (case identityCall env s getRequest of
           (s', snapshot, Some e) \<Rightarrow> (s', Inl (FromClient e))
         | (s', snapshot, None) \<Rightarrow>
             (case FindProject (ssState snapshot) (textOf flags ''project'') [] of
                Inl e \<Rightarrow> (s', Inl (IdentityFails (NotConfigured e)))
              | Inr p \<Rightarrow>
                  if prMode p = ''agent-isolation'' \<and> command = ''disable'' then (s', Inl (IdentityFails PolicyRequired))
                  else (s', Inr (zeroRequest\<lparr>rqAction := ''project.put'', rqProject := Some (p\<lparr>prProxyEnabled := (command = ''enable'')\<rparr>)\<rparr>))))
      else if command \<noteq> ''show'' then (s, Inl (BadArguments (UnknownCommand command)))
      else (s, Inr getRequest))"

definition runPolicyCommand :: "'s identity_cli \<Rightarrow> bool \<Rightarrow> 's \<Rightarrow> string list \<Rightarrow> 's cli_run" where
  "runPolicyCommand env json s arguments =
     (case arguments of
        [] \<Rightarrow> refused s NoCommand
      | command # rest \<Rightarrow>
          withFlags (icCli env) json s policyFlags rest (\<lambda>flags.
            case planPolicy env s command flags of
              (s', Inl e) \<Rightarrow> (s', [], [], Some e)
            | (s', Inr request) \<Rightarrow>
                (case identityCall env s' request of
                   (s'', snapshot, Some e) \<Rightarrow> (s'', [], [], Some (FromClient e))
                 | (s'', snapshot, None) \<Rightarrow>
                     (case FindProject (ssState snapshot) (textOf flags ''project'') [] of
                        Inl e \<Rightarrow> failing s'' (NotConfigured e)
                      | Inr p \<Rightarrow> success s'' [Document (policyDocument p)]))))"

section \<open>Sessions\<close>

datatype agent_call = NoChannel | Refuses agent_error | Answers "(project \<times> persona) option"

definition callAgentContext :: "'s identity_cli \<Rightarrow> 's \<Rightarrow> string \<Rightarrow> string \<Rightarrow> 's \<times> agent_call" where
  "callAgentContext env s action persona =
     (case icAgent env (icAgentEndpoint env) s
        \<lparr>agVersion = AgentProtocolVersion, agAction = action, agInvocation = zeroInvocation, agPersonaID = persona\<rparr> of
        (s', None) \<Rightarrow> (s', NoChannel)
      | (s', Some f) \<Rightarrow> (s', case frError f of Some e \<Rightarrow> Refuses e | None \<Rightarrow> Answers (frContext f)))"

definition sessionFlags :: flag_set where
  "sessionFlags =
     [(''id'', Text []), (''project'', Text []), (''backend'', Text ''proxy-level''), (''principal'', Text []), (''persona'', Text [])]"

definition agentSession :: "'s identity_cli \<Rightarrow> 's \<Rightarrow> string \<Rightarrow> flag_set \<Rightarrow> 's cli_run" where
  "agentSession env s command flags =
     (if command \<noteq> ''context'' \<and> command \<noteq> ''persona'' then failing s OperatorRequired
      else case callAgentContext env s command (textOf flags ''persona'') of
             (s', NoChannel) \<Rightarrow> failing s' ChannelFails
           | (s', Refuses e) \<Rightarrow> failing s' (AgentRefuses e)
           | (s', Answers None) \<Rightarrow> success s' [Document JNull]
           | (s', Answers (Some (p, persona))) \<Rightarrow> success s' [Document (contextDocument p persona)])"

definition planSession :: "string \<Rightarrow> flag_set \<Rightarrow> identity_request option" where
  "planSession command flags =
     (if command = ''list'' \<or> command = ''context'' \<or> List.member [''create'', ''revoke'', ''persona''] command
      then Some (zeroRequest\<lparr>rqAction := (if command = ''list'' \<or> command = ''context'' then ''get'' else ''session.'' @ command),
        rqProjectID := textOf flags ''project'', rqSessionID := textOf flags ''id'', rqBackend := textOf flags ''backend'',
        rqPrincipal := textOf flags ''principal'', rqPersonaID := textOf flags ''persona''\<rparr>)
      else None)"

definition runSessionCommand :: "'s identity_cli \<Rightarrow> bool \<Rightarrow> 's \<Rightarrow> string list \<Rightarrow> 's cli_run" where
  "runSessionCommand env json s arguments =
     (case arguments of
        [] \<Rightarrow> refused s NoCommand
      | command # rest \<Rightarrow>
          withFlags (icCli env) json s sessionFlags rest (\<lambda>flags.
            if icAgentEndpoint env \<noteq> [] then agentSession env s command flags
            else case planSession command flags of
                   None \<Rightarrow> refused s (UnknownCommand command)
                 | Some request \<Rightarrow>
                     answering (identityCall env s request)
                       (\<lambda>snapshot. [Document (JArray (map (writeStruct sessionFields) (ssSessions snapshot)))])))"

section \<open>Doctor and configuration\<close>

text \<open>The checks are written before the error about those that are not met.\<close>

definition runDoctor :: "'s identity_cli \<Rightarrow> bool \<Rightarrow> 's \<Rightarrow> string list \<Rightarrow> 's cli_run" where
  "runDoctor env json s arguments =
     withFlags (icCli env) json s [(''principal'', Text []), (''backend'', Text []), (''session'', Text [])] arguments (\<lambda>flags.
       case identityCall env s (zeroRequest\<lparr>rqAction := ''doctor'', rqPrincipal := textOf flags ''principal'',
              rqBackend := textOf flags ''backend'', rqSessionID := textOf flags ''session''\<rparr>) of
         (s', snapshot, Some e) \<Rightarrow> (s', [], [], Some (FromClient e))
       | (s', snapshot, None) \<Rightarrow>
           (s', [Document (JArray (map (writeStruct checkFields) (ssChecks snapshot)))], [],
            if list_all ckReady (ssChecks snapshot) then None else Some (IdentityFails UnmetRequirements)))"

record project_configuration =
  pcPersona :: persona
  pcProject :: project
  pcGHPath :: string

definition zeroConfiguration :: project_configuration where
  "zeroConfiguration = \<lparr>pcPersona = zeroPersona, pcProject = zeroProject, pcGHPath = []\<rparr>"

definition configurationFields :: "project_configuration json_field list" where
  "configurationFields =
     [field ''persona'' (always (writeStruct personaFields)) (readStruct True personaFields) pcPersona pcPersona_update,
      field ''project'' (always (writeStruct (projectFields True))) (readStruct True (projectFields True)) pcProject pcProject_update,
      field ''ghPath'' (always JText) readText pcGHPath pcGHPath_update]"

definition planConfigure :: "'s identity_cli \<Rightarrow> string \<Rightarrow> (identity_failure, identity_request) sum" where
  "planConfigure env file =
     (case readInputFile env file of
        None \<Rightarrow> Inl InputUnreadable
      | Some data \<Rightarrow>
          (case icDecode env data of
             None \<Rightarrow> Inl InvalidConfiguration
           | Some (j, ends) \<Rightarrow>
               (case readStruct True configurationFields j zeroConfiguration of
                  None \<Rightarrow> Inl InvalidConfiguration
                | Some c \<Rightarrow>
                    if \<not> ends then Inl ConfigurationTrailing
                    else Inr (zeroRequest\<lparr>rqAction := ''configure'', rqPersona := Some (pcPersona c),
                      rqProject := Some (pcProject c), rqPath := pcGHPath c\<rparr>))))"

definition askConfigure :: "'s identity_cli \<Rightarrow> 's \<Rightarrow> string \<Rightarrow> 's cli_run" where
  "askConfigure env s root =
     (case Configure (ceClient (icCli env))
             ((icForms env)\<lparr>qnParseAddress := icParseAddress env, qnGit := icGit env, qnGitOS := icGitOS env\<rparr>) s root of
        (s', None) \<Rightarrow> success s' []
      | (s', Some e) \<Rightarrow> failing s' (QuestionnaireFails e))"

definition runProjectConfigure :: "'s identity_cli \<Rightarrow> bool \<Rightarrow> 's \<Rightarrow> string list \<Rightarrow> 's cli_run" where
  "runProjectConfigure env json s arguments =
     withFlags (icCli env) json s [(''root'', Text ''.''), (''file'', Text [])] arguments (\<lambda>flags.
       if textOf flags ''file'' = [] then
         (if json \<or> \<not> icTerminal env then failing s TerminalRequired else askConfigure env s (textOf flags ''root''))
       else case planConfigure env (textOf flags ''file'') of
              Inl e \<Rightarrow> failing s e
            | Inr request \<Rightarrow> answering (identityCall env s request) (\<lambda>snapshot. [Document (snapshotDocument snapshot)]))"

section \<open>Who am I\<close>

datatype whoami = Configured string | Unconfigured | NotRepository | Unavailable

text \<open>\<open>ended\<close> tells whether the time for the answer was over when git failed.\<close>

definition resolveWhoAmI :: "'s identity_cli \<Rightarrow> bool \<Rightarrow> 's \<Rightarrow> 's \<times> whoami" where
  "resolveWhoAmI env ended s =
     (if icAgentEndpoint env \<noteq> [] then
        (case callAgentContext env s ''context'' [] of
           (s', Answers (Some (p, persona))) \<Rightarrow> (s', if peName persona = [] then Unavailable else Configured (peName persona))
         | (s', _) \<Rightarrow> (s', Unavailable))
      else case GitRoot (icGit env) (icGitOS env) s ''.'' of
             (s1, Inl e) \<Rightarrow> (s1, if ended then Unavailable else NotRepository)
           | (s1, Inr root) \<Rightarrow>
               (case identityCall env s1 getRequest of
                  (s2, snapshot, Some e) \<Rightarrow> (s2, Unavailable)
                | (s2, snapshot, None) \<Rightarrow>
                    (s2, case FindProject (ssState snapshot) [] root of
                           Inl e \<Rightarrow> Unconfigured
                         | Inr p \<Rightarrow>
                             (case FindPersona (ssState snapshot) (prPersona p) of
                                Inl e \<Rightarrow> Unavailable
                              | Inr persona \<Rightarrow> if peName persona = [] then Unavailable else Configured (peName persona)))))"

definition whoamiDocument :: "whoami \<Rightarrow> json" where
  "whoamiDocument w = JObject
     [(''state'', JText (case w of Configured _ \<Rightarrow> ''configured'' | Unconfigured \<Rightarrow> ''unconfigured''
        | NotRepository \<Rightarrow> ''not_repository'' | Unavailable \<Rightarrow> ''unavailable'')),
      (''configured'', case w of Configured _ \<Rightarrow> JBool True | Unavailable \<Rightarrow> JNull | _ \<Rightarrow> JBool False),
      (''persona'', case w of Configured name \<Rightarrow> JText name | _ \<Rightarrow> JNull)]"

definition whoamiText :: "whoami \<Rightarrow> string" where
  "whoamiText w = (case w of Configured name \<Rightarrow> name | Unavailable \<Rightarrow> ''!'' | _ \<Rightarrow> ''?'')"

definition runWhoAmI :: "'s identity_cli \<Rightarrow> bool \<Rightarrow> bool \<Rightarrow> 's \<Rightarrow> 's cli_run" where
  "runWhoAmI env json ended s =
     (case resolveWhoAmI env ended s of
        (s', w) \<Rightarrow> success s' [if json then Document (whoamiDocument w) else Print (whoamiText w @ newline)])"

end
