(* ===== verification/CliRun.thy ===== *)
theory CliRun
  imports CliIdentity Container
begin

text \<open>
  The command line as a whole: \<open>RunIO\<close> of \<open>internal/cli/cli.go\<close> with its global flags, help and exit
  codes, the entry without a command (\<open>internal/cli/root.go\<close>) and \<open>session run\<close>
  (\<open>internal/cli/container.go\<close>).  A run ends with the state of the machine, what was written to the
  standard output and to the standard error, and the exit code.  The menu, the forms, the terminal
  interface, the MCP server and the original gh are functions of \<open>run_env\<close>.
\<close>

section \<open>What a run sees\<close>

datatype root_action = HelpAction | ConfigureAction | TUIAction

datatype menu_answer = MenuAborted | MenuFails | MenuChosen root_action

record 's run_env =
  reVersion :: string
  reDefaultEndpoint :: "string option"
  reConnect :: "string \<Rightarrow> 's operator_client"  \<comment> \<open>\<open>control.NewClient\<close>\<close>
  reIdentity :: "'s identity_cli"
  reErrorText :: "client_error \<Rightarrow> string"
  reTimedOut :: "client_error \<Rightarrow> bool"  \<comment> \<open>whether \<open>errors.Is\<close> finds \<open>context.DeadlineExceeded\<close>\<close>
  reCancelled :: bool
  reStdin :: "bytes option"  \<comment> \<open>none: reading fails\<close>
  reEnded :: bool  \<comment> \<open>whether the time of \<open>whoami\<close> was over when git failed\<close>
  reBridge :: "string option"  \<comment> \<open>the error of \<open>identity.RunBridge\<close>\<close>
  reRunAgent :: "'s \<Rightarrow> container_request \<Rightarrow> 's \<times> item list \<times> item list \<times> int \<times> bool"
  reGHHost :: "'s \<Rightarrow> gh_host"
  reAgentGH :: "'s \<Rightarrow> invocation \<Rightarrow> 's \<times> item list \<times> item list \<times> int \<times> string option"
  reOperatorGH :: "'s \<Rightarrow> gh_action \<Rightarrow> 's \<times> item list \<times> item list \<times> int \<times> string option"
  reRefusal :: "gh_refusal \<Rightarrow> string"
  reMCP :: "'s \<Rightarrow> 's \<times> item list \<times> item list \<times> bool"
  reMenu :: "string list \<Rightarrow> menu_answer"
  reLauncher :: "bool \<times> ('s \<Rightarrow> 's) option"  \<comment> \<open>whether resolving it succeeds; a launcher\<close>
  reRetries :: "('s \<Rightarrow> 's) list"  \<comment> \<open>what happens in each delay, until the time to be ready is over\<close>
  reTUI :: "'s \<Rightarrow> 's \<times> item list \<times> client_error option"

type_synonym 's run_end = "'s \<times> item list \<times> item list \<times> int"

definition identityEnv :: "'s run_env \<Rightarrow> string \<Rightarrow> 's identity_cli" where
  "identityEnv env endpoint =
     (reIdentity env)\<lparr>icCli := (icCli (reIdentity env))\<lparr>ceClient := reConnect env endpoint\<rparr>\<rparr>"

definition isolated :: "'s run_env \<Rightarrow> bool" where
  "isolated env \<longleftrightarrow> icAgentEndpoint (reIdentity env) \<noteq> []"

section \<open>Failures\<close>

definition classifyClientError :: "'s run_env \<Rightarrow> cli_error \<Rightarrow> string" where
  "classifyClientError env e =
     (case e of
        FromClient c \<Rightarrow>
          (case c of
             RemoteFailure p \<Rightarrow> perCode p
           | _ \<Rightarrow>
               if reTimedOut env c then ''timeout''
               else if contains (reErrorText env c) ''incompatible protocol version'' then ''incompatible_version''
               else ''connection_error'')
      | BadArguments _ \<Rightarrow> ''invalid_arguments''
      | _ \<Rightarrow> ''connection_error'')"

definition writeFailure :: "bool \<Rightarrow> string \<Rightarrow> cli_error \<Rightarrow> item" where
  "writeFailure json code e = (if json then FailureDocument code e else FailureLine e)"

definition failed :: "'s \<Rightarrow> item list \<Rightarrow> item list \<Rightarrow> bool \<Rightarrow> string \<Rightarrow> cli_error \<Rightarrow> int \<Rightarrow> 's run_end" where
  "failed s out err json code e exit = (s, out, err @ [writeFailure json code e], exit)"

definition identityEnd :: "bool \<Rightarrow> 's cli_run \<Rightarrow> 's run_end" where
  "identityEnd json r =
     (case r of
        (s, out, err, None) \<Rightarrow> (s, out, err, 0)
      | (s, out, err, Some e) \<Rightarrow> failed s out err json ''identity_error'' e 1)"

definition commandEnd :: "'s run_env \<Rightarrow> bool \<Rightarrow> 's cli_run \<Rightarrow> 's run_end" where
  "commandEnd env json r =
     (case r of
        (s, out, err, None) \<Rightarrow> (s, out, err, 0)
      | (s, out, err, Some e) \<Rightarrow>
          (let code = classifyClientError env e
           in failed s out err json code e (if code = ''invalid_arguments'' then 2 else 1)))"

section \<open>Help\<close>

definition globalOption :: "string \<Rightarrow> bool" where
  "globalOption a \<longleftrightarrow> a = ''--json'' \<or> hasPrefix a ''--json='' \<or> hasPrefix a ''--endpoint=''"

fun helpFrom :: "string list \<Rightarrow> string list \<Rightarrow> string list option" where
  "helpFrom topic [] = None"
| "helpFrom topic (a # rest) =
     (if a = ''--'' then None
      else if a = ''--help'' \<or> a = ''-h'' then Some topic
      else if globalOption a then helpFrom topic rest
      else if a = ''--endpoint'' then (case rest of [] \<Rightarrow> None | _ # rest' \<Rightarrow> helpFrom topic rest')
      else helpFrom (if \<not> hasPrefix a ''-'' \<and> length topic < 2 then topic @ [a] else topic) rest)"

definition helpTopic :: "string list \<Rightarrow> string list option" where
  "helpTopic arguments = helpFrom [] arguments"

definition hasJSONFlag :: "string list \<Rightarrow> bool" where
  "hasJSONFlag arguments = list_ex (\<lambda>a. a = ''--json'' \<or> hasPrefix a ''--json='') arguments"

definition usage :: "string list" where
  "usage =
   [''Dovik supervises local development processes through one local daemon.'',
    '''',
    ''Usage:'',
    ''  dovik'',
    ''  dovik [--endpoint PATH] [--json] project|process COMMAND [OPTIONS]'',
    ''  dovik [--endpoint PATH] tui'',
    ''  dovik [--endpoint PATH] [--json] whoami'',
    ''  dovik [--endpoint PATH] mcp'',
    ''  dovik [--endpoint PATH] gh -- GH_ARGUMENTS'',
    ''  dovik [--endpoint PATH] [--json] identity|policy|session|doctor [OPTIONS]'',
    ''  dovik [--endpoint PATH] project configure [--root PATH]'',
    '''',
    ''Global options:'',
    ''  --endpoint PATH  Override the local daemon endpoint'',
    ''  --json           Emit one JSON document for non-interactive commands'',
    ''  --help, -h       Show help'',
    ''  --version        Show the Dovik version'']"

definition helpOf :: "string \<Rightarrow> string" where
  "helpOf command =
     (if command = ''project'' then ''project add|remove|list|configure [OPTIONS]''
      else if command = ''project add'' then ''project add --id ID --root PATH''
      else if command = ''project remove'' then ''project remove --id ID''
      else if command = ''project list'' then ''project list''
      else if command = ''project configure'' then ''project configure [--root PATH]''
      else if command = ''process'' then ''process add|remove|list|start|stop|restart|status|logs [OPTIONS]''
      else if command = ''process add'' then ''process add --project ID --id ID --command PATH [--arg VALUE] [--env KEY=VALUE]''
      else if List.member [''process remove'', ''process start'', ''process stop'', ''process restart'', ''process status''] command
        then command @ '' --project ID --process ID''
      else if command = ''process list'' then ''process list --project ID''
      else if command = ''process logs'' then ''process logs --project ID --process ID [--tail COUNT] [--follow]''
      else if command = ''tui'' then ''tui''
      else if command = ''whoami'' then ''[--json] whoami''
      else if command = ''mcp'' then ''mcp''
      else if command = ''gh'' then ''gh -- GH_ARGUMENTS''
      else if List.member [''identity'', ''policy'', ''session''] command then command @ '' COMMAND [OPTIONS]''
      else if command = ''doctor'' then ''doctor [OPTIONS]''
      else command @ '' [OPTIONS]'')"

definition writeHelp :: "string list \<Rightarrow> item list" where
  "writeHelp topic =
     (if topic = [] then map (\<lambda>l. Print (l @ newline)) usage
      else [Print (''Usage: dovik '' @ helpOf (joinWith '' '' topic) @ newline)])"

section \<open>The entry without a command\<close>

text \<open>The root of the repository, if there is one, and whether it is configured, if that is known.\<close>

definition inspectRootProject :: "'s identity_cli \<Rightarrow> 's \<Rightarrow> 's \<times> string \<times> bool option" where
  "inspectRootProject env s =
     (case GitRoot (icGit env) (icGitOS env) s ''.'' of
        (s1, Inl e) \<Rightarrow> (s1, [], None)
      | (s1, Inr root) \<Rightarrow>
          (case identityCall env s1 getRequest of
             (s2, snapshot, Some e) \<Rightarrow> (s2, root, None)
           | (s2, snapshot, None) \<Rightarrow> (s2, root, Some (\<not> isl (FindProject (ssState snapshot) [] root)))))"

definition rootMenuOptions :: "string \<Rightarrow> bool option \<Rightarrow> (string \<times> root_action) list" where
  "rootMenuOptions root configured =
     [(''Help'', HelpAction)] @
     (if root = [] then []
      else [(case configured of Some True \<Rightarrow> ''Edit this repository'' | Some False \<Rightarrow> ''Configure this repository'' | None \<Rightarrow> ''Configure project'',
             ConfigureAction)]) @
     [(''Open TUI'', TUIAction)]"

definition probeIdentity :: "'s identity_cli \<Rightarrow> 's \<Rightarrow> 's \<times> client_error option" where
  "probeIdentity env s = (case identityCall env s getRequest of (s', _, e) \<Rightarrow> (s', e))"

fun awaitIdentity :: "'s identity_cli \<Rightarrow> 's \<Rightarrow> ('s \<Rightarrow> 's) list \<Rightarrow> 's \<times> client_error option" where
  "awaitIdentity env s delays =
     (case probeIdentity env s of
        (s', None) \<Rightarrow> (s', None)
      | (s', Some e) \<Rightarrow> (case delays of [] \<Rightarrow> (s', Some e) | delay # rest \<Rightarrow> awaitIdentity env (delay s') rest))"

definition ensureIdentityDaemon :: "'s run_env \<Rightarrow> 's identity_cli \<Rightarrow> ('s \<Rightarrow> 's) option \<Rightarrow> 's \<Rightarrow> 's \<times> client_error option" where
  "ensureIdentityDaemon env ienv launcher s =
     (case probeIdentity ienv s of
        (s', None) \<Rightarrow> (s', None)
      | (s', Some e) \<Rightarrow>
          (case launcher of
             None \<Rightarrow> (s', Some e)
           | Some launch \<Rightarrow> awaitIdentity ienv (launch s') (reRetries env)))"

definition runTUI :: "'s run_env \<Rightarrow> 's \<Rightarrow> 's cli_run" where
  "runTUI env s =
     (case reLauncher env of
        (False, _) \<Rightarrow> (s, [], [], Some (RunFails ConsoleFails))
      | (True, _) \<Rightarrow> (case reTUI env s of (s', out, e) \<Rightarrow> (s', out, [], map_option FromClient e)))"

definition runRootEntry :: "'s run_env \<Rightarrow> 's identity_cli \<Rightarrow> 's \<Rightarrow> 's cli_run" where
  "runRootEntry env ienv s =
     (case inspectRootProject ienv s of
        (s', root, configured) \<Rightarrow>
          (case reMenu env (map fst (rootMenuOptions root configured)) of
             MenuAborted \<Rightarrow> success s' []
           | MenuFails \<Rightarrow> (s', [], [], Some (RunFails ConsoleFails))
           | MenuChosen HelpAction \<Rightarrow> success s' (writeHelp [])
           | MenuChosen TUIAction \<Rightarrow> runTUI env s'
           | MenuChosen ConfigureAction \<Rightarrow>
               (case reLauncher env of
                  (False, _) \<Rightarrow> (s', [], [], Some (RunFails ConsoleFails))
                | (True, launcher) \<Rightarrow>
                    (case ensureIdentityDaemon env ienv launcher s' of
                       (s'', Some e) \<Rightarrow> (s'', [], [], Some (FromClient e))
                     | (s'', None) \<Rightarrow> askConfigure ienv s'' root))))"

section \<open>Agent sessions\<close>

definition sessionRunFlags :: flag_set where
  "sessionRunFlags =
     [(''project'', Text []), (''backend'', Text ''docker''), (''image'', Text []), (''input'', Text []), (''resource'', Texts [])]"

fun parseResources :: "string list \<Rightarrow> mount_resource list option" where
  "parseResources [] = Some []"
| "parseResources (r # rs) =
     (case cutAt (CHR ''='') r of
        None \<Rightarrow> None
      | Some (source, target) \<Rightarrow> map_option ((#) \<lparr>rsSource = source, rsTarget = target\<rparr>) (parseResources rs))"

definition agentInput :: "'s run_env \<Rightarrow> string \<Rightarrow> bytes option" where
  "agentInput env file =
     (if file = [] then Some []
      else case (if file = ''-'' then Some (reStdin env) else icOpen (reIdentity env) file) of
             None \<Rightarrow> None
           | Some data \<Rightarrow> readLimited (1024 * 1024) data)"

text \<open>The result of \<open>runContainerSession\<close>; an error makes the run end with the exit code 1.\<close>

definition runContainerSession :: "'s run_env \<Rightarrow> bool \<Rightarrow> 's \<Rightarrow> string list \<Rightarrow> 's \<times> item list \<times> item list \<times> (run_failure, int) sum" where
  "runContainerSession env json s arguments =
     (if isolated env then (s, [], [], Inl OperatorTerminalOnly)
      else if json then (s, [], [], Inl SessionNoJSON)
      else case parseFlags (ceNumbers (icCli (reIdentity env))) sessionRunFlags arguments of
             Inl e \<Rightarrow> (s, [], [FlagUsage e], Inl (SessionFlags e))
           | Inr (flags, command) \<Rightarrow>
               (case parseResources (textsOf flags ''resource'') of
                  None \<Rightarrow> (s, [], [], Inl InvalidResource)
                | Some resources \<Rightarrow>
                    (case agentInput env (textOf flags ''input'') of
                       None \<Rightarrow> (s, [], [], Inl AgentInputUnreadable)
                     | Some input \<Rightarrow>
                         (case reRunAgent env s \<lparr>crProjectID = textOf flags ''project'', crBackend = textOf flags ''backend'',
                              crImage = textOf flags ''image'', crCommand = command, crResources = resources, crInput = input\<rparr> of
                            (s', out, err, code, ok) \<Rightarrow> (s', out, err, if ok then Inr code else Inl AgentRunFails)))))"

definition sessionRunEnd :: "bool \<Rightarrow> 's \<times> item list \<times> item list \<times> (run_failure, int) sum \<Rightarrow> 's run_end" where
  "sessionRunEnd json r =
     (case r of
        (s, out, err, Inr code) \<Rightarrow> (s, out, err, code)
      | (s, out, err, Inl e) \<Rightarrow> failed s out err json ''session_error'' (RunFails e) 1)"

section \<open>The original gh\<close>

text \<open>\<open>runGH\<close>: the action of the theory CliGh is carried out; an error is written as a line.\<close>

definition ghLine :: "string option \<Rightarrow> item list" where
  "ghLine e = (case e of None \<Rightarrow> [] | Some text \<Rightarrow> [Print (''gh: '' @ text @ newline)])"

definition runGH :: "'s run_env \<Rightarrow> 's \<Rightarrow> string list \<Rightarrow> 's run_end" where
  "runGH env s arguments =
     (case runGHWith ((reGHHost env s)\<lparr>ghAgentEndpoint := icAgentEndpoint (reIdentity env)\<rparr>) arguments of
        Identify \<Rightarrow> (s, [Print (''dovik-gh-proxy-v1'' @ newline)], [], 0)
      | Refuse code e \<Rightarrow> (s, [], ghLine (Some (reRefusal env e)), code)
      | AskAgent call \<Rightarrow> (case reAgentGH env s call of (s', out, err, code, e) \<Rightarrow> (s', out, err @ ghLine e, code))
      | action \<Rightarrow> (case reOperatorGH env s action of (s', out, err, code, e) \<Rightarrow> (s', out, err @ ghLine e, code)))"

section \<open>A run\<close>

definition identityCommands :: "string list" where
  "identityCommands = [''identity'', ''policy'', ''session'', ''doctor'']"

definition runIdentityGroup :: "'s identity_cli \<Rightarrow> bool \<Rightarrow> 's \<Rightarrow> string \<Rightarrow> string list \<Rightarrow> 's cli_run" where
  "runIdentityGroup ienv json s command rest =
     (if command = ''identity'' then runIdentityCommand ienv json s rest
      else if command = ''policy'' then runPolicyCommand ienv json s rest
      else if command = ''session'' then runSessionCommand ienv json s rest
      else if command = ''doctor'' then runDoctor ienv json s rest
      else runProjectConfigure ienv json s (drop 1 rest))"

definition runMCP :: "'s run_env \<Rightarrow> bool \<Rightarrow> 's \<Rightarrow> string list \<Rightarrow> 's run_end" where
  "runMCP env json s rest =
     (if json \<or> rest \<noteq> [] then failed s [] [] json ''invalid_arguments'' (BadArguments (NoArguments ''mcp'')) 2
      else case reMCP env s of
             (s', out, err, ok) \<Rightarrow>
               if ok \<or> reCancelled env then (s', out, err, 0)
               else failed s' out err False ''mcp_error'' (RunFails MCPFails) 1)"

definition runConsole :: "'s run_env \<Rightarrow> bool \<Rightarrow> 's \<Rightarrow> string list \<Rightarrow> 's run_end" where
  "runConsole env json s rest =
     (if json then failed s [] [] True ''invalid_arguments'' (BadArguments (NotInJSON)) 2
      else if rest \<noteq> [] then failed s [] [] False ''invalid_arguments'' (BadArguments (NoArguments ''tui'')) 2
      else case runTUI env s of
             (s', out, err, None) \<Rightarrow> (s', out, err, 0)
           | (s', out, err, Some e) \<Rightarrow> failed s' out err False (classifyClientError env e) e 1)"

definition runEntry :: "'s run_env \<Rightarrow> 's identity_cli \<Rightarrow> bool \<Rightarrow> 's \<Rightarrow> 's run_end" where
  "runEntry env ienv json s =
     (if json then failed s [] [] True ''invalid_arguments'' (BadArguments NoCommand) 2
      else if \<not> icTerminal ienv \<or> isolated env then (s, writeHelp [], [], 0)
      else case runRootEntry env ienv s of
             (s', out, err, None) \<Rightarrow> (s', out, err, 0)
           | (s', out, err, Some e) \<Rightarrow> failed s' out err False (classifyClientError env e) e 1)"

text \<open>After the global flags.\<close>

definition dispatch :: "'s run_env \<Rightarrow> 's identity_cli \<Rightarrow> bool \<Rightarrow> 's \<Rightarrow> string list \<Rightarrow> 's run_end" where
  "dispatch env ienv json s arguments =
     (case arguments of
        [] \<Rightarrow> runEntry env ienv json s
      | command # rest \<Rightarrow>
          if command = ''session'' \<and> rest \<noteq> [] \<and> hd rest = ''run'' then sessionRunEnd json (runContainerSession env json s (tl rest))
          else if command = ''whoami'' then
            (if rest \<noteq> [] then failed s [] [] json ''invalid_arguments'' (BadArguments (NoArguments ''whoami'')) 2
             else commandEnd env json (runWhoAmI ienv json (reEnded env) s))
          else if isolated env \<and> command \<noteq> ''gh'' \<and> command \<noteq> ''session''
            then failed s [] [] json ''permission_denied'' (RunFails OperatorTerminalOnly) 1
          else if command = ''gh'' then
            (if json then failed s [] [] True ''invalid_arguments'' (BadArguments JSONOutputFlag) 2 else runGH env s rest)
          else if List.member identityCommands command \<or> (command = ''project'' \<and> rest \<noteq> [] \<and> hd rest = ''configure'')
            then identityEnd json (runIdentityGroup ienv json s command rest)
          else if command = ''mcp'' then runMCP env json s rest
          else if command = ''tui'' then runConsole env json s rest
          else commandEnd env json (runOperatorCommand (icCli ienv) json s (command # rest)))"

definition globalFlags :: "string \<Rightarrow> flag_set" where
  "globalFlags endpoint = [(''endpoint'', Text endpoint), (''json'', Flag False)]"

definition RunIO :: "'s run_env \<Rightarrow> 's \<Rightarrow> string list \<Rightarrow> 's run_end" where
  "RunIO env s arguments =
     (if arguments = [''--version''] then (s, [Print (''dovik '' @ reVersion env @ newline)], [], 0)
      else case helpTopic arguments of
        Some topic \<Rightarrow> (s, writeHelp topic, [], 0)
      | None \<Rightarrow>
          if arguments = [''agent-idle''] then (s, [], [], 0)
          else if arguments = [''agent-bridge''] then
            (case reBridge env of None \<Rightarrow> (s, [], [], 0) | Some text \<Rightarrow> (s, [], [Print (text @ newline)], 1))
          else case reDefaultEndpoint env of
            None \<Rightarrow> failed s [] [] (hasJSONFlag arguments) ''configuration_error'' (RunFails NoEndpoint) 1
          | Some endpoint \<Rightarrow>
              (case parseFlags (ceNumbers (icCli (reIdentity env))) (globalFlags endpoint) arguments of
                 Inl e \<Rightarrow> failed s [] (if hasJSONFlag arguments then [] else [FlagUsage e]) (hasJSONFlag arguments)
                            ''invalid_arguments'' (BadArguments e) 2
               | Inr (flags, rest) \<Rightarrow>
                   dispatch env (identityEnv env (textOf flags ''endpoint'')) (boolOf flags ''json'') s rest))"

end
