(* ===== verification/CliProcesses.thy ===== *)
theory CliProcesses
  imports CliCommands
begin

text \<open>
  What two commands of \<open>internal/cli/cli.go\<close> do with a daemon behind them: \<open>process add\<close> over the control
  client, the wire and the lifecycle manager, and \<open>process logs --follow\<close> over the buffer of
  \<open>internal/supervision/output.go\<close>.
\<close>

definition plain_terminal :: "'s operator_client \<Rightarrow> 's cli_env" where
  "plain_terminal client = \<lparr>ceClient = client, ceNumbers = (\<lambda>s. None, \<lambda>s. None), ceColor = True, ceStrip = (\<lambda>s. s),
     ceDone = True, ceWaits = []\<rparr>"

section \<open>Adding a process\<close>

text \<open>C26: A process is registered exactly as it was written on the command line: with any command, arguments
  and working directory, whatever characters they hold, given as \<open>--name=value\<close>, and with overrides of the
  environment whose names are distinct, not empty and without \<open>=\<close>, \<open>process add\<close> is the operation
  \<open>AddProcess\<close> of the daemon's manager on that definition.  It shows the definition without the values of
  the overrides, or fails with the error of the manager and shows nothing.\<close>

theorem cli_process_add:
  assumes "AddProcess (deSave env) (deStat env) (svManager s) (d\<lparr>dEnvironmentOverrides := carriedMap (Some overrides)\<rparr>) = (m, a)"
    and "dEnvironmentOverrides d = Some overrides" and "map_wf overrides" and "\<forall>key\<in>set (map_keys overrides). override_key key"
    and "delivered w (requestOf n OperationProcessAdd (writeStruct processInputFields
           \<lparr>ciProjectID = dProjectID d, ciID = dID d, ciCommand = dCommand d, ciArguments = dArguments d,
            ciWorkingDirectory = dWorkingDirectory d, ciEnvironmentOverrides = Some overrides\<rparr>))"
    and "answered w env (itoa (unat (n + 1))) (case a of Inl e \<Rightarrow> Error (ManagerFailure e) | Inr p \<Rightarrow> Return (ProcessResult (processToView p)))"
    and "ceClient cli = controlClient w env"
  shows "runOperatorCommand cli json (s, n) (''process'' # ''add'' # addArguments d overrides) =
    ((s\<lparr>svManager := m\<rparr>, n + 1),
     (case a of Inl e \<Rightarrow> [] | Inr p \<Rightarrow>
        [if json then Document (processDocument (p\<lparr>dEnvironmentOverrides := None\<rparr>))
         else Print (''process '' @ dProjectID p @ ''/'' @ dID p @ '' added'' @ newline)]),
     [], case a of Inl e \<Rightarrow> Some (FromClient (remote env (ManagerFailure e))) | Inr p \<Rightarrow> None)"
proof -
  have "clientAddProcess w env s n d =
     (s\<lparr>svManager := m\<rparr>, n + 1,
      case a of Inl e \<Rightarrow> (processFromView zeroProcessView, Some (remote env (ManagerFailure e)))
      | Inr p \<Rightarrow> (publicProcessDefinition p, None))"
    using assms(1-6) by (intro client_add_process) auto
  then show ?thesis
    using add_read [OF assms(2-4), of cli json "(s, n)"] assms(7)
    by (cases a) (simp_all add: controlClient_def paired_def answering_def success_def publicProcessDefinition_def)
qed

theorem cli_process_add_witness:
  "\<exists>s. runOperatorCommand (plain_terminal (controlClient sample_wire sample_daemon)) False (sample_server, 0)
     (''process'' # ''add'' # addArguments new_process [(''T'', ''1''), (''S'', ''2'')]) =
     ((s, 1), [Print (''process p/r added'' @ newline)], [], None)"
proof -
  have c: "carriedMap (dEnvironmentOverrides new_process) = Some [(''S'', ''2''), (''T'', ''1'')]"
    unfolding new_process_def process_definition.simps by code_simp
  have "\<exists>m. AddProcess (deSave sample_daemon) (deStat sample_daemon) (svManager sample_server)
      (new_process\<lparr>dEnvironmentOverrides := Some [(''S'', ''2''), (''T'', ''1'')]\<rparr>)
    = (m, Inr (new_process\<lparr>dEnvironmentOverrides := None\<rparr>))"
    by (simp add: AddProcess_def sample_daemon_def sample_server_def sample_manager_def idle_registry_def new_process_def
        regProject_def map_ptr_def saveRegistry_def sample_save_def publicProcessDefinition_def Let_def)
  then obtain m where "AddProcess (deSave sample_daemon) (deStat sample_daemon) (svManager sample_server)
      (new_process\<lparr>dEnvironmentOverrides := carriedMap (Some [(''T'', ''1''), (''S'', ''2'')])\<rparr>)
    = (m, Inr (new_process\<lparr>dEnvironmentOverrides := None\<rparr>))"
    using c by (auto simp: new_process_def)
  from cli_process_add [OF this, of sample_wire 0 "plain_terminal (controlClient sample_wire sample_daemon)" False] show ?thesis
    by (auto simp: sample_connection new_process_def map_wf_def override_key_def plain_terminal_def)
qed

declare followLogs.simps [simp del]

section \<open>A client that answers from a buffer\<close>

text \<open>\<open>states es\<close> are the states in which the process has the buffer \<open>buf s\<close> with the events \<open>es\<close>, whose
  sequence numbers increase.  There the client answers with the tail of that buffer, and reading it
  changes neither.\<close>

definition serves :: "'s operator_client \<Rightarrow> process_key \<Rightarrow> int \<Rightarrow> ('s \<Rightarrow> output_buffer) \<Rightarrow> (output_event list \<Rightarrow> 's set) \<Rightarrow> output_event list \<Rightarrow> bool" where
  "serves client key limit buf states es \<longleftrightarrow>
     (\<exists>k>0. seq_from k es) \<and> int (length es) + limit \<le> max_int64 \<and>
     (\<forall>s\<in>states es. events (buf s) = es \<and>
       (\<forall>afterSequence. \<exists>s'\<in>states es. \<exists>tail. ocLogs client s key afterSequence limit = (s', tail, None) \<and>
          Tail (buf s) afterSequence limit = Return tail))"

text \<open>Each wait adds its events, no more than \<open>limit\<close>, and drops none.\<close>

fun grows :: "'s operator_client \<Rightarrow> process_key \<Rightarrow> int \<Rightarrow> ('s \<Rightarrow> output_buffer) \<Rightarrow> (output_event list \<Rightarrow> 's set) \<Rightarrow> output_event list
    \<Rightarrow> ('s \<Rightarrow> 's) list \<Rightarrow> output_event list list \<Rightarrow> bool" where
  "grows client key limit buf states es [] [] \<longleftrightarrow> serves client key limit buf states es"
| "grows client key limit buf states es (wait # waits) (new # news) \<longleftrightarrow>
     serves client key limit buf states es \<and> length new \<le> nat limit \<and> wait ` states es \<subseteq> states (es @ new) \<and>
     grows client key limit buf states (es @ new) waits news"
| "grows client key limit buf states es _ _ \<longleftrightarrow> False"

lemma grows_serves: "grows client key limit buf states es waits news \<Longrightarrow> serves client key limit buf states es"
  by (cases "(client, key, limit, buf, states, es, waits, news)" rule: grows.cases) auto

lemma grows_Nil: "grows client key limit buf states es [] news \<Longrightarrow> news = []"
  by (cases news) auto

lemma grows_Cons:
  assumes "grows client key limit buf states es (wait # waits) news"
  obtains new rest where "news = new # rest" "length new \<le> nat limit" "wait ` states es \<subseteq> states (es @ new)"
    "grows client key limit buf states (es @ new) waits rest"
  using assms by (cases news) auto

definition seen :: "output_event list \<Rightarrow> u64" where
  "seen es = (if es = [] then 0 else eSequence (last es))"

lemma seq_from_append: "seq_from k (xs @ ys) \<longleftrightarrow> seq_from k xs \<and> seq_from (k + length xs) ys"
  by (induction xs arbitrary: k) (auto simp: seq_from_Cons, simp add: seq_from_def)

lemma seq_from_last: "seq_from k es \<Longrightarrow> es \<noteq> [] \<Longrightarrow> unat (eSequence (last es)) + 1 = k + length es"
  by (cases es rule: rev_cases) (auto simp: seq_from_append seq_from_Cons)

lemma seq_from_le_last: "seq_from k es \<Longrightarrow> e \<in> set es \<Longrightarrow> eSequence e \<le> eSequence (last es)"
  using seq_from_sorted [of k es] by (cases es rule: rev_cases) (auto simp: sorted_wrt_append dest: less_imp_le)

lemma seen_bound: "seq_from k es \<Longrightarrow> 0 < k \<Longrightarrow> unat (seen es) < k + length es"
  using seq_from_last [of k es] by (auto simp: seen_def)

lemma lastSequence_seen:
  "seq_from k new \<Longrightarrow> unat a < k \<Longrightarrow> lastSequence a new = (if new = [] then a else eSequence (last new))"
proof (induction new arbitrary: a k)
  case (Cons e es)
  have "a < eSequence e" using Cons.prems by (simp add: seq_from_Cons word_less_nat_alt)
  moreover have "lastSequence (eSequence e) es = (if es = [] then eSequence e else eSequence (last es))"
    using Cons.prems Cons.IH [of "Suc k" "eSequence e"] by (simp add: seq_from_Cons)
  ultimately show ?case by (simp add: lastSequence_def)
qed (simp add: lastSequence_def)

lemma later_events:
  assumes "seq_from k (xs @ ys)"  and "0 < k"
  shows "filter (\<lambda>e. seen xs < eSequence e) (xs @ ys) = ys"
proof -
  have "seq_from k xs" "seq_from (k + length xs) ys" using assms(1) by (simp_all add: seq_from_append)
  then have xs: "\<forall>e\<in>set xs. eSequence e \<le> seen xs" using seq_from_le_last by (fastforce simp: seen_def)
  have "unat (seen xs) < k + length xs" using assms seen_bound by (simp add: seq_from_append)
  then have "\<forall>e\<in>set ys. seen xs < eSequence e"
    using assms(1) seq_from_set [of "k + length xs" ys] by (fastforce simp: seq_from_append word_less_nat_alt)
  with xs show ?thesis by (auto simp: filter_empty_conv filter_id_conv not_less)
qed

text \<open>One request: what is new since the events that were seen, as long as it fits the limit.\<close>

lemma request_new:
  assumes "serves client key limit buf states (xs @ ys)" and "s \<in> states (xs @ ys)" and "0 < limit" and "length ys \<le> nat limit"
  shows "\<exists>s'\<in>states (xs @ ys). ocLogs client s key (seen xs) limit = (s', \<lparr>tEvents = ys, tTruncated = truncated (buf s)\<rparr>, None) \<and>
     lastSequence (seen xs) ys = seen (xs @ ys)"
proof -
  obtain k where k: "0 < k" "seq_from k (xs @ ys)" and n: "int (length (xs @ ys)) + limit \<le> max_int64" and b: "events (buf s) = xs @ ys"
    using assms(1,2) unfolding serves_def by metis
  have es: "(if seen xs = 0 then drop (length (xs @ ys) - nat limit) (xs @ ys)
      else take (nat limit) (filter (\<lambda>e. seen xs < eSequence e) (xs @ ys))) = ys"
  proof (cases "xs = []")
    case False
    then have "last xs \<in> set xs" by simp
    with k have "k \<le> unat (eSequence (last xs))" by (intro seq_from_set [of k xs]) (simp_all add: seq_from_append)
    with False k(1) have "seen xs \<noteq> 0" by (auto simp: seen_def)
    then show ?thesis using later_events [OF k(2,1)] assms(4) by simp
  qed (use assms(4) in \<open>simp add: seen_def\<close>)
  then have t: "Tail (buf s) (seen xs) limit = Return \<lparr>tEvents = ys, tTruncated = truncated (buf s)\<rparr>"
    using tail_result [of k "buf s" limit "seen xs"] k n assms(3) unfolding b es by simp
  have "unat (seen xs) < k + length xs" using k seen_bound by (simp add: seq_from_append)
  then have "lastSequence (seen xs) ys = seen (xs @ ys)"
    using lastSequence_seen [of "k + length xs" ys "seen xs"] k(2) by (auto simp: seq_from_append seen_def)
  moreover obtain s' tail where "s' \<in> states (xs @ ys)" "ocLogs client s key (seen xs) limit = (s', tail, None)"
    "Tail (buf s) (seen xs) limit = Return tail"
    using assms(1,2) unfolding serves_def by metis
  ultimately show ?thesis using t by auto
qed

lemma follow_rest:
  assumes "0 < limit"
  shows "s \<in> states (xs @ ys) \<Longrightarrow> grows (ceClient env) key limit buf states (xs @ ys) waits news \<Longrightarrow> length ys \<le> nat limit \<Longrightarrow>
    \<exists>s'. followLogs env key limit False (seen xs) s waits = (s', map (writeOutputEvent env) (ys @ concat news), [], None)"
proof (induction waits arbitrary: s news xs ys)
  case Nil
  from request_new [OF grows_serves [OF Nil.prems(2)] Nil.prems(1) assms Nil.prems(3)] grows_Nil [OF Nil.prems(2)]
  show ?case by (auto simp: followLogs.simps success_def tailItems_def)
next
  case (Cons wait waits)
  obtain new rest where new: "news = new # rest" "length new \<le> nat limit" "wait ` states (xs @ ys) \<subseteq> states ((xs @ ys) @ new)"
    "grows (ceClient env) key limit buf states ((xs @ ys) @ new) waits rest"
    using grows_Cons [OF Cons.prems(2)] .
  obtain s' where s': "s' \<in> states (xs @ ys)" "lastSequence (seen xs) ys = seen (xs @ ys)"
    and q: "ocLogs (ceClient env) s key (seen xs) limit = (s', \<lparr>tEvents = ys, tTruncated = truncated (buf s)\<rparr>, None)"
    using request_new [OF grows_serves [OF Cons.prems(2)] Cons.prems(1) assms Cons.prems(3)] by blast
  have "wait s' \<in> states ((xs @ ys) @ new)" using new(3) s'(1) by blast
  then obtain s'' where "followLogs env key limit False (seen (xs @ ys)) (wait s') waits =
      (s'', map (writeOutputEvent env) (new @ concat rest), [], None)"
    using Cons.IH new(2,4) by blast
  with q s' show ?case by (subst followLogs.simps) (simp add: tailItems_def new(1))
qed

section \<open>The property\<close>

text \<open>C27: Following the output of a process shows the last \<open>limit\<close> retained events, after a note if earlier
  ones were dropped, and then every event that is captured while it waits, once and in order, as long as
  the process keeps its buffer, no more than \<open>limit\<close> events come in one wait and none is dropped before it
  is read; a running process is not needed.\<close>

theorem follow_complete:
  assumes "grows (ceClient env) key limit buf states es (ceWaits env) news" and "s \<in> states es" and "0 < limit"
  shows "\<exists>s'. runProcessLogs env json s key 0 limit True =
    (s', (if truncated (buf s) then [Print (''[output truncated]'' @ newline)] else []) @
       map (writeOutputEvent env) (drop (length es - nat limit) es @ concat news), [], None)"
proof -
  let ?shown = "drop (length es - nat limit) es"
  obtain k s' tail where k: "0 < k" "seq_from k es" and n: "int (length es) + limit \<le> max_int64" and b: "events (buf s) = es"
    and s': "s' \<in> states es" "ocLogs (ceClient env) s key 0 limit = (s', tail, None)" "Tail (buf s) 0 limit = Return tail"
    using grows_serves [OF assms(1)] assms(2) unfolding serves_def by metis
  have tail: "tail = \<lparr>tEvents = ?shown, tTruncated = truncated (buf s)\<rparr>"
    using s'(3) tail_result [of k "buf s" limit 0] k n assms(3) by (simp add: b)
  have "suffix ?shown es" by (rule suffix_drop)
  then have "seq_from (k + (length es - length ?shown)) ?shown" by (rule seq_from_suffix [OF k(2)])
  then have "lastSequence 0 ?shown = (if ?shown = [] then 0 else eSequence (last ?shown))"
    using k(1) by (intro lastSequence_seen [of "k + (length es - length ?shown)"]) auto
  moreover have "?shown = [] \<longleftrightarrow> es = []" using assms(3) by (cases es) auto
  ultimately have l: "lastSequence 0 ?shown = seen es" by (auto simp: seen_def)
  show ?thesis
  proof (cases "ceWaits env")
    case Nil
    with assms(1) s' tail show ?thesis using grows_Nil by (fastforce simp: runProcessLogs_def followLogs.simps success_def tailItems_def)
  next
    case (Cons wait waits)
    obtain new rest where new: "news = new # rest" "length new \<le> nat limit" "wait ` states es \<subseteq> states (es @ new)"
      "grows (ceClient env) key limit buf states (es @ new) waits rest"
      using assms(1) grows_Cons unfolding Cons by metis
    then have "wait s' \<in> states (es @ new)" using s' by blast
    then obtain s'' where "followLogs env key limit False (seen es) (wait s') waits =
        (s'', map (writeOutputEvent env) (new @ concat rest), [], None)"
      using follow_rest [OF assms(3) _ new(4,2)] by blast
    with s' tail l Cons new(1) show ?thesis by (subst runProcessLogs_def, subst followLogs.simps) (simp add: tailItems_def)
  qed
qed

section \<open>Examples\<close>

text \<open>A client whose state is the buffer of one process.\<close>

definition bufferClient :: "output_buffer operator_client" where
  "bufferClient =
     \<lparr>ocIdentity = (\<lambda>s r. (s, zeroSnapshot, Some DialFails)), ocAddProject = (\<lambda>s d. (s, d, None)), ocRemoveProject = (\<lambda>s p. (s, (), None)),
      ocListProjects = (\<lambda>s. (s, [], None)), ocAddProcess = (\<lambda>s d. (s, d, None)), ocRemoveProcess = (\<lambda>s key. (s, (), None)),
      ocListProcesses = (\<lambda>s p. (s, [], None)), ocStart = (\<lambda>s key. (s, zeroRuntime, Some DialFails)),
      ocStop = (\<lambda>s key. (s, zeroRuntime, Some DialFails)), ocRestart = (\<lambda>s key. (s, zeroRuntime, Some DialFails)),
      ocStatus = (\<lambda>s key. (s, (zeroRuntime, False), None)),
      ocLogs = (\<lambda>s key afterSequence limit. case Tail s afterSequence limit of Return t \<Rightarrow> (s, t, None) | _ \<Rightarrow> (s, noTail, Some ResponseUnreadable))\<rparr>"

definition line :: "u64 \<Rightarrow> string \<Rightarrow> output_event" where
  "line n text = \<lparr>eSequence = n, eCapturedAt = 0, eStream = Stdout, eData = text\<rparr>"

definition holding :: "output_event list \<Rightarrow> output_buffer" where
  "holding es = \<lparr>maxBytes = 99, maxEvents = 9, bufBytes = data_size es, nextSequence = of_nat (length es) + 1, events = es, truncated = False\<rparr>"

definition following :: "(output_buffer \<Rightarrow> output_buffer) list \<Rightarrow> output_buffer cli_env" where
  "following waits = plain_terminal bufferClient\<lparr>ceWaits := waits\<rparr>"

definition captured :: "output_event list \<Rightarrow> output_buffer \<Rightarrow> output_buffer" where
  "captured new b = holding (events b @ new)"

lemma captured_holding: "captured new (holding es) = holding (es @ new)"
  by (simp add: captured_def holding_def)

theorem follow_complete_witness:
  "\<exists>s'. runProcessLogs (following [captured [line 3 ''c'']]) False (holding [line 1 ''a'', line 2 ''b'']) (ProcessKey ''p'' ''q'') 0 1 True =
     (s', map Print [''[stdout] b'' @ newline, ''[stdout] c'' @ newline], [], None)"
proof -
  have seq: "seq_from 1 [line 1 a, line 2 b]" "seq_from 1 [line 1 a, line 2 b, line 3 c]" for a b c
    by (simp_all add: seq_from_Cons line_def) (simp_all add: seq_from_def)
  have served: "serves bufferClient key 1 id (\<lambda>es. {holding es}) es" if "seq_from 1 es" "length es \<le> 9" for es key
    using that tail_result [of 1 "holding es" 1]
    by (auto simp: serves_def bufferClient_def holding_def max_int64_def intro!: exI [of _ 1])
  have "grows (ceClient (following [captured [line 3 ''c'']])) (ProcessKey ''p'' ''q'') 1 id (\<lambda>es. {holding es}) [line 1 ''a'', line 2 ''b'']
      (ceWaits (following [captured [line 3 ''c'']])) [[line 3 ''c'']]"
    by (simp add: following_def plain_terminal_def captured_holding served [OF seq(1)] served [OF seq(2)])
  from follow_complete [OF this, of "holding [line 1 ''a'', line 2 ''b'']" False] show ?thesis
    by (simp add: holding_def line_def writeOutputEvent_def following_def plain_terminal_def RenderOutput_def sanitize_simps passes_def)
qed

text \<open>When the process is restarted while its output is followed, its events are numbered from 1 again, and
  the next request asks for what comes after the last number of the old ones.\<close>

theorem follow_misses_restart:
  "\<exists>s'. runProcessLogs (following [\<lambda>b. holding [line 1 ''new'']]) False (holding [line 1 ''old'']) (ProcessKey ''p'' ''q'') 0 100 True =
     (s', [Print (''[stdout] old'' @ newline)], [], None)"
proof -
  have "runProcessLogs (following [\<lambda>b. holding [line 1 ''new'']]) False (holding [line 1 ''old'']) (ProcessKey ''p'' ''q'') 0 100 True =
     (holding [line 1 ''new''], [Print (''[stdout] old'' @ newline)], [], None)"
    by code_simp
  then show ?thesis by blast
qed

end
