(* ===== verification/CliProperties.thy ===== *)
theory CliProperties
  imports CliRun CliProcesses
begin

text \<open>
  Properties of whole runs of the command line: what an isolated agent can reach with it, what a command
  writes in JSON mode, and the answer of \<open>whoami\<close>.
\<close>

section \<open>A run with a command\<close>

definition globally :: "'s run_env \<Rightarrow> string list \<Rightarrow> flag_set \<Rightarrow> string \<Rightarrow> string list \<Rightarrow> bool" where
  "globally env arguments flags command rest \<longleftrightarrow> helpTopic arguments = None \<and>
     (\<exists>endpoint. reDefaultEndpoint env = Some endpoint \<and>
        parseFlags (ceNumbers (icCli (reIdentity env))) (globalFlags endpoint) arguments = Inr (flags, command # rest)) \<and>
     command \<notin> {''agent-idle'', ''agent-bridge''}"

lemma no_version_flag: "parseFlags parse (globalFlags endpoint) [''--version''] = Inl (UndefinedFlag ''version'')"
  by (simp add: globalFlags_def flagName_def splitFlag_def hasPrefix_def)

lemma single_command:
  "command \<in> {''agent-idle'', ''agent-bridge''} \<Longrightarrow> parseFlags parse (globalFlags endpoint) [command] = Inr (globalFlags endpoint, [command])"
  by auto

lemma RunIO_command:
  assumes "globally env arguments flags command rest"
  shows "RunIO env s arguments =
    dispatch env (identityEnv env (textOf flags ''endpoint'')) (boolOf flags ''json'') s (command # rest)"
proof -
  obtain endpoint where e: "helpTopic arguments = None" "reDefaultEndpoint env = Some endpoint"
    "parseFlags (ceNumbers (icCli (reIdentity env))) (globalFlags endpoint) arguments = Inr (flags, command # rest)"
    "command \<notin> {''agent-idle'', ''agent-bridge''}"
    using assms by (auto simp: globally_def)
  have "arguments \<noteq> [''--version'']" by (metis e(3) no_version_flag sum.distinct(1))
  moreover have "arguments \<noteq> [c]" if "c \<in> {''agent-idle'', ''agent-bridge''}" for c
  proof
    assume "arguments = [c]"
    then have "command = c" using e(3) single_command [OF that, of "ceNumbers (icCli (reIdentity env))" endpoint] by (simp del: parseFlags.simps)
    with that e(4) show False by simp
  qed
  ultimately show ?thesis using e by (simp add: RunIO_def)
qed

section \<open>The boundary of an agent\<close>

text \<open>In an isolated environment the stand-in for gh talks to the agent channel or refuses.\<close>

lemma isolated_gh:
  assumes "ghAgentEndpoint h \<noteq> []"
  shows "runGHWith h arguments = Identify \<or> (\<exists>code e. runGHWith h arguments = Refuse code e) \<or> (\<exists>call. runGHWith h arguments = AskAgent call)"
  using assms by (auto simp: runGHWith_def Let_def split: sum.splits)

text \<open>What one exchange over the agent channel leaves of the state: a request for the context or for a persona, or a
  call of the GitHub CLI.\<close>

definition channel_step :: "'s run_env \<Rightarrow> 's \<Rightarrow> 's \<Rightarrow> bool" where
  "channel_step env s s' \<longleftrightarrow>
     (\<exists>q f. agAction q \<in> {''context'', ''persona''} \<and> icAgent (reIdentity env) (icAgentEndpoint (reIdentity env)) s q = (s', f)) \<or>
     (\<exists>call r. reAgentGH env s call = (s', r))"

lemma isolated_runGH: "isolated env \<Longrightarrow> fst (runGH env s arguments) = s \<or> channel_step env s (fst (runGH env s arguments))"
  using isolated_gh [of "(reGHHost env s)\<lparr>ghAgentEndpoint := icAgentEndpoint (reIdentity env)\<rparr>" arguments]
  by (auto simp: runGH_def isolated_def channel_step_def split: prod.splits)

lemma withFlags_state:
  "(\<And>flags. fst (command flags) = s \<or> P (fst (command flags))) \<Longrightarrow>
   fst (withFlags env json s flags arguments command) = s \<or> P (fst (withFlags env json s flags arguments command))"
  by (simp add: withFlags_def split: sum.split)

text \<open>The environment of a command has the agent channel of the run.\<close>

definition same_channel :: "'s run_env \<Rightarrow> 's identity_cli \<Rightarrow> bool" where
  "same_channel env ienv \<longleftrightarrow> icAgent ienv = icAgent (reIdentity env) \<and> icAgentEndpoint ienv = icAgentEndpoint (reIdentity env)"

lemma callAgentContext_step:
  assumes "callAgentContext ienv s action i = (s', r)" and "same_channel env ienv" and "action \<in> {''context'', ''persona''}"
  shows "channel_step env s s'"
proof -
  let ?q = "\<lparr>agVersion = AgentProtocolVersion, agAction = action, agInvocation = zeroInvocation, agPersonaID = i\<rparr>"
  obtain s1 f where f: "icAgent ienv (icAgentEndpoint ienv) s ?q = (s1, f)" by fastforce
  then have "s' = s1" using assms(1) by (auto simp: callAgentContext_def split: option.splits)
  with f assms(2,3) show ?thesis
    unfolding channel_step_def same_channel_def by (intro disjI1 exI [of _ ?q] exI [of _ f]) simp
qed

lemma agentSession_step:
  assumes "same_channel env ienv"
  shows "fst (agentSession ienv s command flags) = s \<or> channel_step env s (fst (agentSession ienv s command flags))"
proof (cases "command \<in> {''context'', ''persona''}")
  case True
  obtain s' r where "callAgentContext ienv s command (textOf flags ''persona'') = (s', r)" by fastforce
  with True callAgentContext_step [OF this assms True] show ?thesis
    by (auto simp: agentSession_def failing_def success_def split: agent_call.split option.split)
qed (simp add: agentSession_def failing_def)

lemma isolated_session:
  assumes "icAgentEndpoint ienv \<noteq> []" and "same_channel env ienv"
  shows "fst (runSessionCommand ienv json s arguments) = s \<or> channel_step env s (fst (runSessionCommand ienv json s arguments))"
proof (cases arguments)
  case Nil
  then show ?thesis by (simp add: runSessionCommand_def refused_def)
next
  case (Cons command rest)
  with assms(1) show ?thesis
    using withFlags_state [of "agentSession ienv s command" s "channel_step env s"] agentSession_step [OF assms(2)]
    by (simp add: runSessionCommand_def)
qed

lemma isolated_whoami:
  assumes "icAgentEndpoint ienv \<noteq> []" and "same_channel env ienv"
  shows "channel_step env s (fst (runWhoAmI ienv json ended s))"
proof -
  obtain s' r where c: "callAgentContext ienv s ''context'' [] = (s', r)" by fastforce
  then have "fst (runWhoAmI ienv json ended s) = s'"
    using assms(1) by (simp add: runWhoAmI_def resolveWhoAmI_def success_def split: agent_call.split option.split)
  with callAgentContext_step [OF c assms(2)] show ?thesis by simp
qed

lemma identityEnd_state [simp]: "fst (identityEnd json r) = fst r"
  by (simp add: identityEnd_def failed_def split: prod.split option.split)

lemma commandEnd_state [simp]: "fst (commandEnd env json r) = fst r"
  by (simp add: commandEnd_def failed_def Let_def split: prod.split option.split)

lemma failed_state [simp]: "fst (failed s out err json code e exit) = s"
  by (simp add: failed_def)

lemma isolated_identityEnv [simp]: "same_channel env (identityEnv env endpoint)"
  by (simp add: identityEnv_def same_channel_def)

lemma isolated_dispatch:
  assumes "isolated env" and "same_channel env ienv"
  shows "fst (dispatch env ienv json s arguments) = s \<or> channel_step env s (fst (dispatch env ienv json s arguments))"
proof (cases arguments)
  case Nil
  with assms show ?thesis by (simp add: dispatch_def runEntry_def)
next
  case (Cons command rest)
  have e: "icAgentEndpoint ienv \<noteq> []" using assms by (simp add: isolated_def same_channel_def)
  consider "command = ''session''" | "command = ''whoami''" | "command = ''gh''"
    | "command \<noteq> ''session''" "command \<noteq> ''whoami''" "command \<noteq> ''gh''" by blast
  then show ?thesis
  proof cases
    case 1
    with assms Cons isolated_session [OF e assms(2), of json s rest] show ?thesis
      by (simp add: dispatch_def sessionRunEnd_def runContainerSession_def identityCommands_def runIdentityGroup_def)
  next
    case 2
    with assms Cons isolated_whoami [OF e assms(2)] show ?thesis by (simp add: dispatch_def)
  next
    case 3
    with assms Cons isolated_runGH [OF assms(1), of s rest] show ?thesis by (simp add: dispatch_def)
  qed (use assms Cons in \<open>simp add: dispatch_def\<close>)
qed

lemma isolated_run:
  assumes "isolated env"
  shows "fst (RunIO env s arguments) = s \<or> channel_step env s (fst (RunIO env s arguments))"
proof -
  have "fst (dispatch env (identityEnv env e) json s rest) = s \<or> channel_step env s (fst (dispatch env (identityEnv env e) json s rest))"
    for e json rest using isolated_dispatch [OF assms] by simp
  then show ?thesis by (simp add: RunIO_def split: option.split sum.split prod.split)
qed

text \<open>The agent channel of a session.  The state of the run is the identity service, seen by \<open>service\<close>, and
  everything else that the daemon keeps, seen by \<open>others\<close>: the processes and the registry.  An exchange
  is one connection to the socket of the native session, or one request over the bridge of its
  container; what is read of the answer to a question is its first frame.\<close>

definition exchange :: "service_env \<Rightarrow> session \<Rightarrow> service \<Rightarrow> agent_request \<Rightarrow> service \<Rightarrow> frame list \<Rightarrow> bool" where
  "exchange senv session v q v' frames \<longleftrightarrow>
     (\<exists>first peer writes. serveAgent senv v session first peer (Some q) writes = (v', frames)) \<or>
     (\<exists>writes. HandleAgent senv v (seID session) (Some q) writes = (v', frames))"

definition session_channel :: "service_env \<Rightarrow> session \<Rightarrow> ('s \<Rightarrow> service) \<Rightarrow> ('s \<Rightarrow> 'r) \<Rightarrow> 's run_env \<Rightarrow> bool" where
  "session_channel senv session service others env \<longleftrightarrow>
     (\<forall>s q s' f. icAgent (reIdentity env) (icAgentEndpoint (reIdentity env)) s q = (s', f) \<longrightarrow> others s' = others s \<and>
        (\<exists>frames. exchange senv session (service s) q (service s') frames \<and> f = (if frames = [] then None else Some (hd frames)))) \<and>
     (\<forall>s call s' r. reAgentGH env s call = (s', r) \<longrightarrow> others s' = others s \<and>
        (\<exists>frames. exchange senv session (service s)
           \<lparr>agVersion = AgentProtocolVersion, agAction = ''execute'', agInvocation = call, agPersonaID = []\<rparr> (service s') frames))"

lemma channel_confined:
  assumes "session_channel senv session service others env" and "channel_step env s s'"
  shows "others s' = others s \<and> session_confined senv (seID session) (service s) (service s')"
proof -
  have "\<exists>q frames. others s' = others s \<and> exchange senv session (service s) q (service s') frames"
    using assms(2)
  proof (unfold channel_step_def, elim disjE exE conjE)
    fix q f
    assume "icAgent (reIdentity env) (icAgentEndpoint (reIdentity env)) s q = (s', f)"
    with assms(1) show ?thesis unfolding session_channel_def by blast
  next
    fix call r
    assume "reAgentGH env s call = (s', r)"
    with assms(1) show ?thesis unfolding session_channel_def by blast
  qed
  then show ?thesis using serveAgent_session HandleAgent_session unfolding exchange_def by blast
qed

text \<open>C24: With the endpoint of an agent channel in its environment, a command line reaches nothing of what an
  operator administers.  Whatever its command, flags and endpoint are, it leaves the processes, the
  registry, the identity state, the listeners and every other session as they are;
  all it can change is the status and the persona of the session the channel belongs to, the persona
  only to one that the policy of the session's project permits.  Every command but \<open>whoami\<close>,
  \<open>session\<close> and \<open>gh\<close> is refused with the same error, without an exchange over the channel.\<close>

theorem cli_agent_boundary:
  assumes "isolated env" and "session_channel senv session service others env"
  shows "others (fst (RunIO env s arguments)) = others s \<and>
    session_confined senv (seID session) (service s) (service (fst (RunIO env s arguments))) \<and>
    {(arguments, flags, command, rest). globally env arguments flags command rest \<and> command \<notin> {''whoami'', ''session'', ''gh''}} \<subseteq>
    {(arguments, flags, command, rest). RunIO env s arguments =
       failed s [] [] (boolOf flags ''json'') ''permission_denied'' (RunFails OperatorTerminalOnly) 1}"
proof -
  have "others (fst (RunIO env s arguments)) = others s \<and>
    session_confined senv (seID session) (service s) (service (fst (RunIO env s arguments)))"
    using isolated_run [OF assms(1), of s arguments] channel_confined [OF assms(2)] session_confined_refl by metis
  moreover have "RunIO env s arguments =
      failed s [] [] (boolOf flags ''json'') ''permission_denied'' (RunFails OperatorTerminalOnly) 1"
    if "globally env arguments flags command rest" "command \<notin> {''whoami'', ''session'', ''gh''}" for arguments flags command rest
    using that(2) assms unfolding RunIO_command [OF that(1)] by (simp add: dispatch_def)
  ultimately show ?thesis by blast
qed

section \<open>One document\<close>

definition is_document :: "item \<Rightarrow> bool" where
  "is_document i = (case i of Document _ \<Rightarrow> True | FailureDocument _ _ \<Rightarrow> True | _ \<Rightarrow> False)"

lemma commandEnd_document:
  assumes "one_document r" and "commandEnd env True r = (s', out, err, code)"
  shows "\<exists>i. out @ err = [i] \<and> is_document i \<and> (code = 0 \<longleftrightarrow> err = [])"
  using assms
  by (auto simp: one_document_def commandEnd_def failed_def writeFailure_def is_document_def Let_def split: prod.splits option.splits if_splits)

text \<open>C25: In JSON mode a project or process command writes exactly one document, whatever its arguments, the
  daemon's answers and the environment are: to the standard output with the exit code 0, or to the
  standard error with another one.  (The configuration of a project is a command of its own.)\<close>

theorem cli_one_document:
  assumes "globally env arguments flags command rest" and "boolOf flags ''json''"
    and "command = ''process'' \<or> command = ''project'' \<and> take 1 rest \<noteq> [''configure'']"
    and "RunIO env s arguments = (s', out, err, code)"
  shows "\<exists>i. out @ err = [i] \<and> is_document i \<and> (code = 0 \<longleftrightarrow> err = [])"
proof (cases "isolated env")
  case True
  with assms(2-4) show ?thesis
    unfolding RunIO_command [OF assms(1)]
    by (auto simp: dispatch_def failed_def writeFailure_def is_document_def)
next
  case False
  have "hd rest \<noteq> ''configure''" if "command = ''project''" "rest \<noteq> []" using that assms(3) by (cases rest) auto
  then have c: "(List.member identityCommands command \<or> (command = ''project'' \<and> rest \<noteq> [] \<and> hd rest = ''configure'')) = False"
    using assms(3) by (auto simp: identityCommands_def)
  have ne: "(command = ''session'') = False" "(command = ''whoami'') = False" "(command = ''gh'') = False"
    "(command = ''mcp'') = False" "(command = ''tui'') = False" using assms(3) by auto
  have d: "dispatch env (identityEnv env (textOf flags ''endpoint'')) True s (command # rest) =
      commandEnd env True (runOperatorCommand (icCli (identityEnv env (textOf flags ''endpoint''))) True s (command # rest))"
    by (simp only: dispatch_def list.case c ne False if_False simp_thms)
  have j: "boolOf flags ''json'' = True" using assms(2) by blast
  note assms(4) [unfolded RunIO_command [OF assms(1)] j d]
  then show ?thesis by (rule commandEnd_document [OF command_document])
qed

section \<open>Who am I\<close>

lemma found_valid: "FindPersona state i = Inr persona \<Longrightarrow> validateState parse state = None \<Longrightarrow> validatePersona parse persona = None"
  by (auto simp: FindPersona_def validateState_None validatePersona_None split: option.splits dest: findPersonaIn_Some)

lemma plain_name:
  assumes "validatePersona parse persona = None"
  shows "peName persona \<noteq> [] \<and> CHR 0x0A \<notin> set (peName persona)"
proof -
  have "plainText (peName persona) 120" using assms by (simp add: validatePersona_None persona_ok_def)
  moreover have "trimSpace [] = []" by code_simp
  ultimately show ?thesis by (cases "peName persona = []") (auto simp: plainText_def containsAny_iff)
qed

text \<open>The personas that the daemon and the agent channel name are valid.\<close>

definition valid_personas :: "(string \<Rightarrow> string option) \<Rightarrow> 's identity_cli \<Rightarrow> bool" where
  "valid_personas parse ienv \<longleftrightarrow>
     (\<forall>s r s' snapshot. identityCall ienv s r = (s', snapshot, None) \<longrightarrow> validateState parse (ssState snapshot) = None) \<and>
     (\<forall>endpoint s r s' f p persona. icAgent ienv endpoint s r = (s', Some f) \<longrightarrow> frContext f = Some (p, persona) \<longrightarrow> validatePersona parse persona = None)"

lemma agent_persona: "callAgentContext ienv s action i = (s', Answers (Some (p, persona))) \<Longrightarrow> valid_personas parse ienv \<Longrightarrow> validatePersona parse persona = None"
  by (auto simp: callAgentContext_def valid_personas_def split: option.splits prod.splits)

lemma resolved_persona:
  assumes "resolveWhoAmI ienv ended s = (s', Configured name)" and "valid_personas parse ienv"
  shows "\<exists>persona. validatePersona parse persona = None \<and> peName persona = name"
proof (cases "icAgentEndpoint ienv = []")
  case False
  with assms(1) obtain p persona where "callAgentContext ienv s ''context'' [] = (s', Answers (Some (p, persona)))" "peName persona = name"
    by (auto simp: resolveWhoAmI_def split: prod.splits agent_call.splits option.splits if_splits)
  then show ?thesis using agent_persona [OF _ assms(2)] by blast
next
  case True
  obtain s1 s2 snapshot i persona where "identityCall ienv s1 getRequest = (s2, snapshot, None)"
    "FindPersona (ssState snapshot) i = Inr persona" "peName persona = name"
  proof (cases "GitRoot (icGit ienv) (icGitOS ienv) s ''.''")
    case (Pair s1 g)
    show thesis
    proof (cases g)
      case (Inl e)
      with assms(1) True Pair show thesis by (simp add: resolveWhoAmI_def split: if_splits)
    next
      case (Inr root)
      obtain s2 snapshot e where i: "identityCall ienv s1 getRequest = (s2, snapshot, e)" by (metis prod_cases3)
      with assms(1) True Pair Inr show thesis
        by (auto simp: resolveWhoAmI_def split: option.splits sum.splits if_splits intro: that)
    qed
  qed
  then show ?thesis using found_valid assms(2) unfolding valid_personas_def by blast
qed

text \<open>\<open>whoami\<close> always answers, with the exit code 0 and nothing on the standard error.  As the
  states of the daemon and the personas of the agent channel are valid, the plain answer is one line
  that is not empty: the name of a persona, \<open>?\<close> or \<open>!\<close>.\<close>

theorem whoami_line:
  assumes "globally env arguments flags ''whoami'' []" and "valid_personas parse (identityEnv env (textOf flags ''endpoint''))"
  shows "\<exists>w. snd (RunIO env s arguments) =
      ([if boolOf flags ''json'' then Document (whoamiDocument w) else Print (whoamiText w @ newline)], [], 0) \<and>
    whoamiText w \<noteq> [] \<and> CHR 0x0A \<notin> set (whoamiText w)"
proof -
  let ?ienv = "identityEnv env (textOf flags ''endpoint'')"
  obtain s' w where w: "resolveWhoAmI ?ienv (reEnded env) s = (s', w)" by fastforce
  have "snd (RunIO env s arguments) =
      ([if boolOf flags ''json'' then Document (whoamiDocument w) else Print (whoamiText w @ newline)], [], 0)"
    unfolding RunIO_command [OF assms(1)] by (simp add: dispatch_def runWhoAmI_def w success_def commandEnd_def)
  moreover have "whoamiText w \<noteq> [] \<and> CHR 0x0A \<notin> set (whoamiText w)"
    using resolved_persona [of ?ienv "reEnded env" s s' _ parse] w assms(2) plain_name
    by (cases w) (auto simp: whoamiText_def)
  ultimately show ?thesis by blast
qed

section \<open>Examples\<close>

text \<open>A machine with one repository, \<open>/w\<close>, whose daemon answers every identity request with \<open>snapshot\<close>.\<close>

definition quiet_client :: "service_snapshot \<Rightarrow> 's operator_client" where
  "quiet_client snapshot =
     \<lparr>ocIdentity = (\<lambda>s r. (s, snapshot, None)), ocAddProject = (\<lambda>s d. (s, d, None)), ocRemoveProject = (\<lambda>s p. (s, (), None)),
      ocListProjects = (\<lambda>s. (s, [], None)), ocAddProcess = (\<lambda>s d. (s, d, None)), ocRemoveProcess = (\<lambda>s key. (s, (), None)),
      ocListProcesses = (\<lambda>s p. (s, [], None)), ocStart = (\<lambda>s key. (s, zeroRuntime, Some DialFails)),
      ocStop = (\<lambda>s key. (s, zeroRuntime, Some DialFails)), ocRestart = (\<lambda>s key. (s, zeroRuntime, Some DialFails)),
      ocStatus = (\<lambda>s key. (s, (zeroRuntime, False), None)), ocLogs = (\<lambda>s key n limit. (s, noTail, None))\<rparr>"

definition no_forms :: "'s questionnaire" where
  "no_forms =
     \<lparr>qnParseAddress = Some, qnParseURL = (\<lambda>u. None), qnGit = (\<lambda>s args. (s, GitOutput ''/w'')), qnGitOS = \<lparr>goAbs = Some, goEvalSymlinks = Some\<rparr>,
      qnLookPath = (\<lambda>n. None), qnOS = sample_os, qnExec = sample_exec, qnStatus = (\<lambda>p. ([], True)), qnUnmarshal = (\<lambda>d. None),
      qnDetails = (\<lambda>d r g. Aborted), qnChoosePersona = (\<lambda>options start. Aborted), qnPersona = (\<lambda>p. Aborted),
      qnProtection = (\<lambda>p mode. Aborted), qnPreset = (\<lambda>p. Aborted), qnAllowed = (\<lambda>shown. Aborted),
      qnAlternatives = (\<lambda>options old. Aborted), qnConfirm = Aborted\<rparr>"

definition quiet_identity :: "string \<Rightarrow> 's identity_cli" where
  "quiet_identity agent =
     \<lparr>icCli = plain_terminal (quiet_client zeroSnapshot), icAgentEndpoint = agent, icAgent = (\<lambda>e s r. (s, None)), icOpen = (\<lambda>p. None),
      icParseAddress = Some, icLegacy = (\<lambda>d. None), icDecode = (\<lambda>d. None), icGit = (\<lambda>s args. (s, GitOutput ''/w'')),
      icGitOS = \<lparr>goAbs = Some, goEvalSymlinks = Some\<rparr>, icTerminal = False, icForms = no_forms\<rparr>"

definition sample_cli :: "service_snapshot \<Rightarrow> string \<Rightarrow> 's run_env" where
  "sample_cli snapshot agent =
     \<lparr>reVersion = ''1'', reDefaultEndpoint = Some ''/s'', reConnect = (\<lambda>endpoint. quiet_client snapshot), reIdentity = quiet_identity agent,
      reErrorText = (\<lambda>e. []), reTimedOut = (\<lambda>e. False), reCancelled = False, reStdin = Some [], reEnded = False, reBridge = None,
      reRunAgent = (\<lambda>s r. (s, [], [], 0, True)), reGHHost = (\<lambda>s. sample_gh_host), reAgentGH = (\<lambda>s c. (s, [], [], 0, None)),
      reOperatorGH = (\<lambda>s a. (s, [], [], 0, None)), reRefusal = (\<lambda>e. []), reMCP = (\<lambda>s. (s, [], [], True)), reMenu = (\<lambda>labels. MenuAborted),
      reLauncher = (True, None), reRetries = [], reTUI = (\<lambda>s. (s, [], None))\<rparr>"

lemma sample_cli_fields [simp]:
  "reDefaultEndpoint (sample_cli snapshot agent) = Some ''/s''"
  "icAgent (reIdentity (sample_cli snapshot agent)) e s r = (s, None)"
  "ocIdentity (reConnect (sample_cli snapshot agent) endpoint) s request = (s, snapshot, None)"
  "isolated (sample_cli snapshot agent) \<longleftrightarrow> agent \<noteq> []"
  by (simp_all add: sample_cli_def quiet_identity_def quiet_client_def isolated_def)

definition configured_snapshot :: service_snapshot where
  "configured_snapshot = zeroSnapshot\<lparr>ssState := sample_state\<rparr>"

text \<open>The same machine seen from a native session: the state of a run is the service and the number of running
  processes, and its channel is the session's socket.\<close>

definition channel_cli :: "(service \<times> nat) run_env" where
  "channel_cli = (sample_cli zeroSnapshot ''/agent'')
     \<lparr>reIdentity := (quiet_identity ''/agent'')\<lparr>icAgent := (\<lambda>e s q.
        case serveAgent sample_env (fst s) native_session True (Some 42) (Some q) [] of
          (service, frames) \<Rightarrow> ((service, snd s), case frames of [] \<Rightarrow> None | f # fs \<Rightarrow> Some f))\<rparr>,
      reAgentGH := (\<lambda>s call.
        case serveAgent sample_env (fst s) native_session True (Some 42)
            (Some \<lparr>agVersion = AgentProtocolVersion, agAction = ''execute'', agInvocation = call, agPersonaID = []\<rparr>) [] of
          (service, frames) \<Rightarrow> ((service, snd s), [], [], 0, None))\<rparr>"

lemma channel_cli_ask:
  "icAgent (reIdentity channel_cli) (icAgentEndpoint (reIdentity channel_cli)) s q =
     (case serveAgent sample_env (fst s) native_session True (Some 42) (Some q) [] of
        (service, frames) \<Rightarrow> ((service, snd s), if frames = [] then None else Some (hd frames)))"
  by (simp add: channel_cli_def split: prod.split list.split)

lemma channel_cli_gh:
  "reAgentGH channel_cli s call =
     (case serveAgent sample_env (fst s) native_session True (Some 42)
         (Some \<lparr>agVersion = AgentProtocolVersion, agAction = ''execute'', agInvocation = call, agPersonaID = []\<rparr>) [] of
        (service, frames) \<Rightarrow> ((service, snd s), [], [], 0, None))"
  by (simp add: channel_cli_def)

lemma channel_cli_session: "session_channel sample_env native_session fst snd channel_cli"
  unfolding session_channel_def exchange_def
proof (intro conjI allI impI)
  fix s q s' f
  assume "icAgent (reIdentity channel_cli) (icAgentEndpoint (reIdentity channel_cli)) s q = (s', f)"
  moreover obtain v frames where v: "serveAgent sample_env (fst s) native_session True (Some 42) (Some q) [] = (v, frames)" by fastforce
  ultimately have e: "s' = (v, snd s)" "f = (if frames = [] then None else Some (hd frames))" by (simp_all add: channel_cli_ask)
  show "snd s' = snd s" by (simp add: e)
  show "\<exists>frames. ((\<exists>first peer writes. serveAgent sample_env (fst s) native_session first peer (Some q) writes = (fst s', frames)) \<or>
      (\<exists>writes. HandleAgent sample_env (fst s) (seID native_session) (Some q) writes = (fst s', frames))) \<and>
      f = (if frames = [] then None else Some (hd frames))"
    unfolding e using v by (intro exI [of _ frames]) auto
next
  fix s call s' r
  let ?q = "\<lparr>agVersion = AgentProtocolVersion, agAction = ''execute'', agInvocation = call, agPersonaID = []\<rparr>"
  assume "reAgentGH channel_cli s call = (s', r)"
  moreover obtain v frames where v: "serveAgent sample_env (fst s) native_session True (Some 42) (Some ?q) [] = (v, frames)" by fastforce
  ultimately have e: "s' = (v, snd s)" by (simp add: channel_cli_gh)
  show "snd s' = snd s" by (simp add: e)
  show "\<exists>frames. (\<exists>first peer writes. serveAgent sample_env (fst s) native_session first peer (Some ?q) writes = (fst s', frames)) \<or>
      (\<exists>writes. HandleAgent sample_env (fst s) (seID native_session) (Some ?q) writes = (fst s', frames))"
    unfolding e using v by auto
qed

theorem cli_agent_boundary_witness:
  "\<forall>arguments. snd (fst (RunIO channel_cli (native_service, 3) arguments)) = 3 \<and>
     svWorld (fst (fst (RunIO channel_cli (native_service, 3) arguments))) = sample_world"
proof
  fix arguments
  have "isolated channel_cli" by (simp add: channel_cli_def isolated_def quiet_identity_def)
  moreover have "svWorld native_service = sample_world" by (simp add: native_service_def NewService_def)
  ultimately show "snd (fst (RunIO channel_cli (native_service, 3) arguments)) = 3 \<and>
     svWorld (fst (fst (RunIO channel_cli (native_service, 3) arguments))) = sample_world"
    using cli_agent_boundary [OF _ channel_cli_session, of "(native_service, 3)" arguments]
    by (simp add: session_confined_def)
qed

theorem cli_one_document_witness:
  "\<exists>i. RunIO (sample_cli zeroSnapshot []) () [''--json'', ''process'', ''list''] = ((), [i], [], 0) \<and> is_document i"
proof -
  have g: "globally (sample_cli zeroSnapshot []) [''--json'', ''process'', ''list''] [(''endpoint'', Text ''/s''), (''json'', Flag True)] ''process'' [''list'']"
    by (simp add: globally_def helpTopic_def globalOption_def hasPrefix_def globalFlags_def flagName_def splitFlag_def setFlag_def setValue_def
        parseBool_def map_put_def sample_cli_def)
  obtain s' out err code where r: "RunIO (sample_cli zeroSnapshot []) () [''--json'', ''process'', ''list''] = (s', out, err, code)"
    by (metis prod_cases4)
  moreover have "snd (snd (RunIO (sample_cli zeroSnapshot []) () [''--json'', ''process'', ''list''])) = ([], 0)" by code_simp
  ultimately show ?thesis using cli_one_document [OF g _ _ r] by (auto simp: boolOf_def)
qed

theorem whoami_line_witness:
  "\<exists>w. snd (RunIO (sample_cli configured_snapshot []) () [''whoami'']) = ([Print (whoamiText w @ newline)], [], 0)"
proof -
  have g: "globally (sample_cli configured_snapshot []) [''whoami''] [(''endpoint'', Text ''/s''), (''json'', Flag False)] ''whoami'' []"
    by (simp add: globally_def helpTopic_def globalOption_def hasPrefix_def globalFlags_def)
  show ?thesis
    using whoami_line [OF g, of Some "()"] sample_state_valid
    by (auto simp: configured_snapshot_def boolOf_def valid_personas_def identityEnv_def)
qed

text \<open>In JSON mode \<open>doctor\<close> with unmet requirements writes two documents, and the short form of a persona's
  status writes none.\<close>

definition unmet_snapshot :: service_snapshot where
  "unmet_snapshot = zeroSnapshot\<lparr>ssChecks := [\<lparr>ckName = ''gh'', ckReady = False, ckDetail = []\<rparr>]\<rparr>"

theorem json_mode_exceptions:
  "map is_document (fst (snd (RunIO (sample_cli unmet_snapshot []) () [''--json'', ''doctor'']))) = [True] \<and>
   map is_document (fst (snd (snd (RunIO (sample_cli unmet_snapshot []) () [''--json'', ''doctor''])))) = [True] \<and>
   map is_document (fst (snd (RunIO (sample_cli zeroSnapshot []) () [''--json'', ''identity'', ''status'', ''--short'']))) = [False]"
  by (intro conjI; code_simp)

end
