(* ===== verification/Bridge.thy ===== *)
theory Bridge
  imports AgentChannel
begin

text \<open>
  The bridge inside an agent container (\<open>RunBridge\<close> of \<open>internal/identity/bridge_unix.go\<close>).  It listens on a
  socket in the container, sends the requests of its clients to the host over its standard output and
  relays the frames that come back over its standard input.  The mutex makes it serve one client after
  the other; the clients are in that order here.  A read for which nothing will ever come while the
  other side stays open blocks, with the mutex held: it is a value of its own, so that a bridge that
  hangs is not one that has finished.  The host is a function from its state and a request to its new
  state, the frames it sends, and whether it has then closed the connection.
\<close>

section \<open>The bridge\<close>

text \<open>What a client sends: a request, something that cannot be decoded (too long, malformed, or the end of its
  connection), or nothing, while it keeps its connection open.\<close>

datatype client_input = Sends agent_request | SendsInvalid | SendsNothing

text \<open>A client: what it sends, and how many frames it takes before it goes away.\<close>

record bridge_client =
  bcInput :: client_input
  bcTakes :: "nat option"

datatype bridge_error = ListenFails | ChmodFails | ReadyFails | AcceptFails

record bridge_os =
  boListens :: bool
  boChmod :: bool
  boReady :: bool  \<comment> \<open>whether the ready line can be written\<close>
  boEnded :: bool  \<comment> \<open>whether the context had ended when accepting failed\<close>

text \<open>The connection to the host, from the side of the bridge: the host, the frames it has sent that were
  not read yet, and whether it has closed the connection after them.\<close>

record 'h host_end =
  heState :: 'h
  heFrames :: "frame list"
  heClosed :: bool

type_synonym 'h host = "'h \<Rightarrow> agent_request \<Rightarrow> 'h \<times> frame list \<times> bool"

definition terminalFrame :: "frame \<Rightarrow> bool" where
  "terminalFrame f \<longleftrightarrow> frExitCode f \<noteq> None \<or> frError f \<noteq> None"

text \<open>How a handler ends: it returns and releases the mutex, or it blocks and keeps it.\<close>

datatype handler_end = Returns | Blocks

text \<open>The inner loop: what the client gets, what is left of the frames that were sent, and how it ends.
  Reading a further frame fails if the host has closed the connection, and blocks otherwise.\<close>

fun relay :: "bool \<Rightarrow> bool \<Rightarrow> nat option \<Rightarrow> frame list \<Rightarrow> frame list \<times> frame list \<times> handler_end" where
  "relay closed executes takes [] = ([], [], if closed then Returns else Blocks)"
| "relay closed executes takes (f # fs) =
     (let delivered = (if takes = Some 0 then [] else [f])
      in if terminalFrame f \<or> \<not> executes then (delivered, fs, Returns)
         else (case relay closed executes (map_option (\<lambda>n. n - 1) takes) fs of
                 (rest, left, fin) \<Rightarrow> (delivered @ rest, left, fin)))"

text \<open>The request goes to the host, unless it has closed the connection.\<close>

definition forward :: "'h host \<Rightarrow> 'h host_end \<Rightarrow> agent_request \<Rightarrow> 'h host_end" where
  "forward host h q =
     (if heClosed h then h
      else case host (heState h) q of
             (s, frames, closed) \<Rightarrow> \<lparr>heState = s, heFrames = heFrames h @ frames, heClosed = closed\<rparr>)"

text \<open>The handler of one connection, with the mutex: the host's side afterwards, what the client gets, and how
  the handler ends.\<close>

definition serveClient :: "'h host \<Rightarrow> 'h host_end \<Rightarrow> bridge_client \<Rightarrow> 'h host_end \<times> frame list \<times> handler_end" where
  "serveClient host h c =
     (case bcInput c of
        SendsInvalid \<Rightarrow> (h, [], Returns)
      | SendsNothing \<Rightarrow> (h, [], Blocks)
      | Sends q \<Rightarrow>
          (let h1 = forward host h q
           in case relay (heClosed h1) (agAction q = ''execute'') (bcTakes c) (heFrames h1) of
                (got, left, fin) \<Rightarrow> (h1\<lparr>heFrames := left\<rparr>, got, fin)))"

text \<open>The clients in the order in which they get the mutex.  Behind a handler that blocks nobody gets it.\<close>

fun serveClients :: "'h host \<Rightarrow> 'h host_end \<Rightarrow> bridge_client list \<Rightarrow> 'h host_end \<times> frame list list \<times> handler_end" where
  "serveClients host h [] = (h, [], Returns)"
| "serveClients host h (c # cs) =
     (case serveClient host h c of
        (h1, got, Blocks) \<Rightarrow> (h1, got # map (\<lambda>_. []) cs, Blocks)
      | (h1, got, Returns) \<Rightarrow>
          (case serveClients host h1 cs of (h', delivered, fin) \<Rightarrow> (h', got # delivered, fin)))"

definition RunBridge :: "bridge_os \<Rightarrow> 'h host \<Rightarrow> 'h host_end \<Rightarrow> bridge_client list
    \<Rightarrow> 'h host_end \<times> frame list list \<times> bridge_error option" where
  "RunBridge os host h clients =
     (if \<not> boListens os then (h, [], Some ListenFails)
      else if \<not> boChmod os then (h, [], Some ChmodFails)
      else if \<not> boReady os then (h, [], Some ReadyFails)
      else case serveClients host h clients of
             (h', delivered, _) \<Rightarrow> (h', delivered, if boEnded os then None else Some AcceptFails))"

section \<open>The host\<close>

text \<open>The other end of the connection (\<open>RunContainer\<close> and \<open>HandleAgent\<close>): the host decodes the request again, of
  which it reads at most 2 MiB each time.  \<open>reach\<close> is how far the request reaches as the bridge encodes it,
  from where the host starts to read.  Of a longer request the host refuses the first part and then, each
  time as a request of its own, what is left; \<open>again\<close> is how often.  The host keeps the connection open.\<close>

definition invalidFrame :: frame where
  "invalidFrame = emptyFrame\<lparr>frError := Some InvalidAgentRequest\<rparr>"

definition containerHost :: "(agent_request \<Rightarrow> nat) \<Rightarrow> (agent_request \<Rightarrow> nat) \<Rightarrow> service_env \<Rightarrow> string
    \<Rightarrow> (service \<Rightarrow> agent_request \<Rightarrow> (bool \<times> bytes) list) \<Rightarrow> service host" where
  "containerHost reach again env i runs s q =
     (if reach q \<le> 2 * 1024 * 1024
      then (case HandleAgent env s i (Some q) (runs s q) of (s', frames) \<Rightarrow> (s', frames, False))
      else (s, replicate (Suc (again q)) invalidFrame, False))"

section \<open>What the clients get\<close>

definition taken :: "nat option \<Rightarrow> frame list \<Rightarrow> frame list" where
  "taken takes fs = (case takes of None \<Rightarrow> fs | Some n \<Rightarrow> take n fs)"

text \<open>A whole answer: for an execution the frames up to the first that ends it, otherwise one frame.\<close>

definition whole_answer :: "agent_request \<Rightarrow> frame list \<Rightarrow> bool" where
  "whole_answer q fs \<longleftrightarrow>
     (if agAction q = ''execute'' then \<exists>xs f. fs = xs @ [f] \<and> list_all (\<lambda>x. \<not> terminalFrame x) xs \<and> terminalFrame f
      else \<exists>f. fs = [f])"

lemma relay_execution:
  "list_all (\<lambda>x. \<not> terminalFrame x) xs \<Longrightarrow> terminalFrame f \<Longrightarrow>
   relay closed True takes (xs @ f # rest) = (taken takes (xs @ [f]), rest, Returns)"
proof (induction xs arbitrary: takes)
  case (Cons x xs)
  have "relay closed True (map_option (\<lambda>n. n - 1) takes) (xs @ f # rest) =
      (taken (map_option (\<lambda>n. n - 1) takes) (xs @ [f]), rest, Returns)"
    using Cons by simp
  with Cons.prems show ?case by (cases takes rule: option.exhaust) (auto simp: taken_def take_Cons' Let_def)
qed (auto simp: taken_def take_Cons' split: option.split)

lemma relay_whole:
  assumes "whole_answer q fs"
  shows "relay closed (agAction q = ''execute'') takes fs = (taken takes fs, [], Returns)"
  using assms relay_execution [of _ _ closed takes "[]"]
  by (auto simp: whole_answer_def taken_def take_Cons' split: option.splits if_splits)

text \<open>The clients served by the host itself.\<close>

fun direct :: "('h \<Rightarrow> agent_request \<Rightarrow> 'h \<times> frame list) \<Rightarrow> 'h \<Rightarrow> bridge_client list \<Rightarrow> 'h \<times> frame list list" where
  "direct host h [] = (h, [])"
| "direct host h (c # cs) =
     (case bcInput c of
        Sends q \<Rightarrow> (case host h q of (h1, frames) \<Rightarrow> (case direct host h1 cs of (h', ds) \<Rightarrow> (h', taken (bcTakes c) frames # ds)))
      | _ \<Rightarrow> (case direct host h cs of (h', ds) \<Rightarrow> (h', [] # ds)))"

lemma streamFrames_whole: "agAction q = ''execute'' \<Longrightarrow> whole_answer q (streamFrames writes code e)"
  by (auto simp: whole_answer_def streamFrames_def writeFrames_def terminalFrame_def emptyFrame_def list_all_iff)

lemma HandleAgent_whole: "whole_answer q (snd (HandleAgent env s i (Some q) writes))"
  using streamFrames_whole [of q]
  by (auto simp: HandleAgent_def Let_def Stream_def whole_answer_def terminalFrame_def emptyFrame_def
      split: sum.split prod.split option.split)

text \<open>The connection between two requests: nothing is left to be read.\<close>

abbreviation idle_host :: "'h \<Rightarrow> 'h host_end" where
  "idle_host s \<equiv> \<lparr>heState = s, heFrames = [], heClosed = False\<rparr>"

text \<open>A client that the bridge can serve: it sends something, and a request that the host can decode again.\<close>

definition servable :: "(agent_request \<Rightarrow> nat) \<Rightarrow> bridge_client \<Rightarrow> bool" where
  "servable reach c \<longleftrightarrow> (case bcInput c of Sends q \<Rightarrow> reach q \<le> 2 * 1024 * 1024 | SendsInvalid \<Rightarrow> True | SendsNothing \<Rightarrow> False)"

lemma serveClient_whole:
  assumes "bcInput c = Sends q" and "reach q \<le> 2 * 1024 * 1024"
    and "HandleAgent env s i (Some q) (runs s q) = (s', frames)"
  shows "serveClient (containerHost reach again env i runs) (idle_host s) c = (idle_host s', taken (bcTakes c) frames, Returns)"
  using relay_whole [of q frames False "bcTakes c"] HandleAgent_whole [of q env s i "runs s q"] assms
  by (simp add: serveClient_def forward_def containerHost_def)

text \<open>C33: Through the bridge, every client in a container gets what the host answers to its own request and
  nothing else, from the first frame on and until it goes away; the host goes through the same states as
  if the clients talked to it; no frame is left over; and no handler blocks, so every client gets its
  turn.  Clients that go away in the middle of an answer, or whose request cannot be decoded, do not
  shift the answers of the others.  It is assumed of the clients that each sends something, and no
  request that takes more than 2 MiB when the bridge encodes it: \<open>silent_client_blocks\<close> and
  \<open>oversized_request_shifts\<close> show what happens otherwise.\<close>

theorem bridge_answers:
  assumes "list_all (servable reach) clients"
  shows "serveClients (containerHost reach again env i runs) (idle_host s) clients =
     (let (s', delivered) = direct (\<lambda>s q. HandleAgent env s i (Some q) (runs s q)) s clients
      in (idle_host s', delivered, Returns))"
  using assms
proof (induction clients arbitrary: s)
  case (Cons c cs)
  show ?case
  proof (cases "bcInput c")
    case (Sends q)
    obtain s' frames where h: "HandleAgent env s i (Some q) (runs s q) = (s', frames)" by fastforce
    with Sends Cons.prems serveClient_whole [of c q reach env s i runs s' frames again] Cons.IH [of s'] show ?thesis
      by (simp add: servable_def split: prod.split)
  qed (use Cons in \<open>simp_all add: servable_def serveClient_def split: prod.split\<close>)
qed simp

text \<open>Two clients of the sample service that ask for its context, and between them one that sends nonsense.\<close>

definition asking :: bridge_client where
  "asking = \<lparr>bcInput = Sends context_request, bcTakes = None\<rparr>"

definition babbling :: bridge_client where
  "babbling = \<lparr>bcInput = SendsInvalid, bcTakes = None\<rparr>"

theorem bridge_answers_witness:
  "snd (snd (serveClients (containerHost (\<lambda>q. 100) (\<lambda>q. 0) sample_env ''5a'' (\<lambda>s q. [])) (idle_host native_service) [asking, babbling, asking])) = Returns \<and>
   length (fst (snd (serveClients (containerHost (\<lambda>q. 100) (\<lambda>q. 0) sample_env ''5a'' (\<lambda>s q. [])) (idle_host native_service) [asking, babbling, asking]))) = 3"
  using bridge_answers [of "\<lambda>q. 100" "[asking, babbling, asking]"]
  by (simp add: servable_def asking_def babbling_def split: prod.split)

text \<open>A client that opens its connection and sends nothing holds the mutex, and nobody behind it is served.\<close>

theorem silent_client_blocks:
  assumes "bcInput c = SendsNothing"
  shows "serveClients host h (c # cs) = (h, map (\<lambda>_. []) (c # cs), Blocks)"
  using assms by (simp add: serveClient_def)

text \<open>A request that is too long only when the bridge encodes it leaves an answer that the next client gets.\<close>

theorem oversized_request_shifts:
  assumes "bcInput c = Sends big" and "2 * 1024 * 1024 < reach big" and "again big = 1" and "bcTakes c = None"
    and "bcInput d = Sends q" and "reach q \<le> 2 * 1024 * 1024" and "bcTakes d = None"
  shows "\<exists>h. serveClients (containerHost reach again env i runs) (idle_host s) [c, d] = (h, [[invalidFrame], [invalidFrame]], Returns) \<and>
     heFrames h = snd (HandleAgent env s i (Some q) (runs s q))"
  using assms
  by (auto simp: serveClient_def forward_def containerHost_def terminalFrame_def invalidFrame_def emptyFrame_def split: prod.split)

end
