(* ===== verification/Transport.thy ===== *)
theory Transport
  imports Paths
begin

text \<open>
  The control endpoint on Linux (\<open>internal/control/transport_other.go\<close>): the path of the socket and opening
  it.  The file system is what is at a path and the permission bits of the directories; what each call
  of the operating system does is a field of \<open>socket_os\<close>.  Nothing else runs between the calls of one
  \<open>ListenLocal\<close>.
\<close>

section \<open>The file system\<close>

text \<open>\<open>ActiveSocket\<close>: somebody accepts connections; \<open>StaleSocket\<close>: nobody does any more.\<close>

datatype endpoint_file = OtherFile | StaleSocket | ActiveSocket (socketMode: nat)

record socket_fs =
  sfFiles :: "string \<rightharpoonup> endpoint_file"
  sfDirectories :: "string \<rightharpoonup> nat"

record socket_os =
  skMkdir :: bool
  skStat :: bool
  skLstat :: bool
  skDial :: bool  \<comment> \<open>whether dialling a socket that is listened on succeeds within 100 ms\<close>
  skRemove :: bool
  skListen :: bool
  skMode :: nat  \<comment> \<open>the mode of a new socket\<close>
  skChmod :: bool

datatype transport_error =
  RuntimeDirectoryRelative | EndpointRelative | SocketDirectoryFails | SocketDirectoryUnknown | SocketDirectoryShared
| EndpointNotSocket | EndpointActive | StaleSocketStays | EndpointUnknown | EndpointListenFails | EndpointModeFails

section \<open>The endpoint\<close>

text \<open>\<open>DefaultEndpoint\<close>: \<open>xdg\<close> is \<open>XDG_RUNTIME_DIR\<close>, \<open>temp\<close> the directory for temporary files.\<close>

definition DefaultEndpoint :: "string \<Rightarrow> string \<Rightarrow> nat \<Rightarrow> transport_error + string" where
  "DefaultEndpoint xdg temp uid =
     (if xdg \<noteq> [] \<and> \<not> isAbs xdg then Inl RuntimeDirectoryRelative
      else let directory = (if xdg = [] then joinPath temp (''dovik-'' @ itoa uid) else joinPath xdg ''dovik'')
           in Inr (joinPath directory ''control.sock''))"

text \<open>No permission bit of the group or of others: \<open>permissions&0o077 = 0\<close>.\<close>

definition ownerOnly :: "nat \<Rightarrow> bool" where
  "ownerOnly mode \<longleftrightarrow> mode mod 64 = 0"

definition makeDirectory :: "socket_fs \<Rightarrow> string \<Rightarrow> socket_fs" where
  "makeDirectory fs path =
     (if sfDirectories fs path = None then fs\<lparr>sfDirectories := (sfDirectories fs)(path \<mapsto> 448)\<rparr> else fs)"

definition ensurePrivateSocketDirectory :: "socket_os \<Rightarrow> socket_fs \<Rightarrow> string \<Rightarrow> socket_fs \<times> transport_error option" where
  "ensurePrivateSocketDirectory os fs path =
     (if \<not> skMkdir os then (fs, Some SocketDirectoryFails)
      else let fs' = makeDirectory fs path
           in (fs', case (if skStat os then sfDirectories fs' path else None) of
                      None \<Rightarrow> Some SocketDirectoryUnknown
                    | Some mode \<Rightarrow> if ownerOnly mode then None else Some SocketDirectoryShared))"

definition setEndpoint :: "socket_fs \<Rightarrow> string \<Rightarrow> endpoint_file option \<Rightarrow> socket_fs" where
  "setEndpoint fs path f = fs\<lparr>sfFiles := (sfFiles fs)(path := f)\<rparr>"

text \<open>What is in the way is looked at, and a socket that cannot be dialled is removed.  Dialling a socket that
  nobody listens on fails; dialling one that is in use can fail as well, if the backlog of the listener
  is full, the time runs out or the caller has no descriptor left.\<close>

definition dialAnswers :: "socket_os \<Rightarrow> endpoint_file \<Rightarrow> bool" where
  "dialAnswers os f = (case f of ActiveSocket mode \<Rightarrow> skDial os | _ \<Rightarrow> False)"

definition clearEndpoint :: "socket_os \<Rightarrow> socket_fs \<Rightarrow> string \<Rightarrow> socket_fs \<times> transport_error option" where
  "clearEndpoint os fs endpoint =
     (if \<not> skLstat os then (fs, Some EndpointUnknown)
      else case sfFiles fs endpoint of
             None \<Rightarrow> (fs, None)
           | Some OtherFile \<Rightarrow> (fs, Some EndpointNotSocket)
           | Some socket \<Rightarrow>
               if dialAnswers os socket then (fs, Some EndpointActive)
               else if skRemove os then (setEndpoint fs endpoint None, None)
               else (fs, Some StaleSocketStays))"

text \<open>Closing the listener removes its socket.\<close>

definition openEndpoint :: "socket_os \<Rightarrow> socket_fs \<Rightarrow> string \<Rightarrow> socket_fs \<times> transport_error option" where
  "openEndpoint os fs endpoint =
     (if \<not> skListen os then (fs, Some EndpointListenFails)
      else if \<not> skChmod os then (setEndpoint (setEndpoint fs endpoint (Some (ActiveSocket (skMode os)))) endpoint None, Some EndpointModeFails)
      else (setEndpoint fs endpoint (Some (ActiveSocket 384)), None))"

definition ListenLocal :: "socket_os \<Rightarrow> socket_fs \<Rightarrow> string \<Rightarrow> socket_fs \<times> transport_error option" where
  "ListenLocal os fs endpoint =
     (if \<not> isAbs endpoint then (fs, Some EndpointRelative)
      else case ensurePrivateSocketDirectory os fs (dirPath endpoint) of
             (fs1, Some e) \<Rightarrow> (fs1, Some e)
           | (fs1, None) \<Rightarrow>
               (case clearEndpoint os fs1 endpoint of
                  (fs2, Some e) \<Rightarrow> (fs2, Some e)
                | (fs2, None) \<Rightarrow> openEndpoint os fs2 endpoint))"

section \<open>Exclusive and private\<close>

lemmas listen_defs = ListenLocal_def ensurePrivateSocketDirectory_def clearEndpoint_def openEndpoint_def setEndpoint_def makeDirectory_def dialAnswers_def

text \<open>What a daemon replaces: nothing, or a socket that does not answer.\<close>

definition replaceable :: "socket_os \<Rightarrow> endpoint_file option \<Rightarrow> bool" where
  "replaceable os f \<longleftrightarrow> (case f of None \<Rightarrow> True | Some OtherFile \<Rightarrow> False | Some socket \<Rightarrow> \<not> dialAnswers os socket)"

lemma replaceable_dial: "skDial os \<Longrightarrow> replaceable os f \<longleftrightarrow> f = None \<or> f = Some StaleSocket"
  by (auto simp: replaceable_def dialAnswers_def split: option.splits endpoint_file.splits)

lemma listen_result:
  "case ListenLocal os fs endpoint of (fs', e) \<Rightarrow>
     (\<forall>path. path = endpoint \<or> sfFiles fs' path = sfFiles fs path) \<and>
     (e \<noteq> None \<or>
        isAbs endpoint \<and> replaceable os (sfFiles fs endpoint) \<and>
        sfFiles fs' endpoint = Some (ActiveSocket 384) \<and>
        (\<exists>mode. sfDirectories fs' (dirPath endpoint) = Some mode \<and> mode mod 64 = 0)) \<and>
     (replaceable os (sfFiles fs endpoint) \<or> (e \<noteq> None \<and> sfFiles fs' endpoint = sfFiles fs endpoint))"
  by (auto simp: listen_defs replaceable_def ownerOnly_def split: option.splits endpoint_file.splits if_splits)

lemma listen_refuses:
  assumes "sfFiles fs endpoint = Some (ActiveSocket mode)" and "skDial os"
  shows "\<exists>fs' e. ListenLocal os fs endpoint = (fs', Some e)"
proof -
  obtain fs' e where "ListenLocal os fs endpoint = (fs', e)" by fastforce
  with listen_result [where os = os and fs = fs and endpoint = endpoint] assms replaceable_dial show ?thesis by auto
qed

text \<open>C35: What a daemon takes over.  \<open>ListenLocal\<close> replaces nothing but a socket that did not answer when it was
  dialled: if a file is there that is no socket, or a socket that answers, it fails and leaves it, and
  other files are never touched.  If it succeeds, the new socket and its directory are open to their
  owner only.  If dialling succeeds on every socket that is in use, the endpoint was free or stale.\<close>

theorem listen_exclusive:
  assumes "ListenLocal os fs endpoint = (fs', e)"
  shows "(\<forall>path. path \<noteq> endpoint \<longrightarrow> sfFiles fs' path = sfFiles fs path) \<and>
    (e = None \<longrightarrow> isAbs endpoint \<and> sfFiles fs' endpoint = Some (ActiveSocket 384) \<and>
       (\<exists>mode. sfDirectories fs' (dirPath endpoint) = Some mode \<and> mode mod 64 = 0)) \<and>
    (sfFiles fs endpoint = Some OtherFile \<or> (\<exists>socket. sfFiles fs endpoint = Some socket \<and> dialAnswers os socket) \<longrightarrow>
       e \<noteq> None \<and> sfFiles fs' endpoint = sfFiles fs endpoint) \<and>
    (e = None \<longrightarrow> skDial os \<longrightarrow> sfFiles fs endpoint = None \<or> sfFiles fs endpoint = Some StaleSocket)"
  using listen_result [where os = os and fs = fs and endpoint = endpoint] assms replaceable_dial [of os "sfFiles fs endpoint"]
  by (auto simp: replaceable_def split: endpoint_file.splits)

text \<open>A stale socket is replaced in a new directory; the socket of a running daemon that answers stays.\<close>

definition ready_os :: socket_os where
  "ready_os = \<lparr>skMkdir = True, skStat = True, skLstat = True, skDial = True, skRemove = True, skListen = True, skMode = 493, skChmod = True\<rparr>"

definition endpoint_fs :: "endpoint_file \<Rightarrow> socket_fs" where
  "endpoint_fs f = \<lparr>sfFiles = [''/run/dovik/control.sock'' \<mapsto> f], sfDirectories = Map.empty\<rparr>"

theorem listen_exclusive_witness:
  "sfFiles (fst (ListenLocal ready_os (endpoint_fs StaleSocket) ''/run/dovik/control.sock'')) ''/run/dovik/control.sock'' = Some (ActiveSocket 384) \<and>
   sfFiles (fst (ListenLocal ready_os (endpoint_fs (ActiveSocket 384)) ''/run/dovik/control.sock'')) ''/run/dovik/control.sock'' = Some (ActiveSocket 384)"
proof
  let ?p = "''/run/dovik/control.sock''"
  obtain fs' e where r: "ListenLocal ready_os (endpoint_fs StaleSocket) ?p = (fs', e)" by fastforce
  have "snd (ListenLocal ready_os (endpoint_fs StaleSocket) ?p) = None" by code_simp
  with listen_exclusive [OF r] r show "sfFiles (fst (ListenLocal ready_os (endpoint_fs StaleSocket) ?p)) ?p = Some (ActiveSocket 384)" by simp
  obtain fs'' e' where r: "ListenLocal ready_os (endpoint_fs (ActiveSocket 384)) ?p = (fs'', e')" by fastforce
  have "sfFiles (endpoint_fs (ActiveSocket 384)) ?p = Some (ActiveSocket 384)" "dialAnswers ready_os (ActiveSocket 384)"
    by (simp_all add: endpoint_fs_def dialAnswers_def ready_os_def)
  with listen_exclusive [OF r] r
  show "sfFiles (fst (ListenLocal ready_os (endpoint_fs (ActiveSocket 384)) ?p)) ?p = Some (ActiveSocket 384)" by simp
qed

text \<open>Any error of the dial counts as a stale socket: a socket that is in use but cannot be dialled is removed
  and replaced, and the daemon that listens on it is cut off.\<close>

theorem busy_endpoint_replaced:
  "ListenLocal (ready_os\<lparr>skDial := False\<rparr>) (endpoint_fs (ActiveSocket 493)) ''/run/dovik/control.sock'' =
     (\<lparr>sfFiles = [''/run/dovik/control.sock'' \<mapsto> ActiveSocket 384], sfDirectories = [''/run/dovik'' \<mapsto> 448]\<rparr>, None)"
proof -
  have "dirPath ''/run/dovik/control.sock'' = ''/run/dovik''" "isAbs ''/run/dovik/control.sock''" by code_simp+
  then show ?thesis by (simp add: listen_defs ownerOnly_def ready_os_def endpoint_fs_def)
qed

end
