(* ===== verification/DaemonShutdown.thy ===== *)
theory DaemonShutdown
  imports LifecycleProperties
begin

text \<open>
  \<open>Shutdown\<close> of \<open>internal/supervision/lifecycle.go\<close>.  While it waits for a process, only the goroutines that
  observe the processes and their output run: the daemon shuts down after its server has ended every
  connection.
\<close>

section \<open>The observing goroutines\<close>

inductive observer_step :: "('w, 'e) saver \<Rightarrow> ('w, 'e) manager \<Rightarrow> ('w, 'e) manager \<Rightarrow> bool" for save where
  waits: "h < length (mgrHeap m) \<Longrightarrow> \<not> mClosed (mgrHeap m ! h) \<Longrightarrow> observer_step save m (waited m h)"
| observes: "h < length (mgrHeap m) \<Longrightarrow> mClosed (mgrHeap m ! h) \<Longrightarrow> \<not> mDone (mgrHeap m ! h)
    \<Longrightarrow> observer_step save m (observeLocked save m h exit now)"
| captures: "h < length (mgrHeap m) \<Longrightarrow> observer_step save m (captureOutput m h stream data now)"

inductive_cases observer_stepE: "observer_step save m m'"

lemma observer_manager: "observer_step save m m' \<Longrightarrow> manager_step save m m'"
  by (erule observer_stepE) (auto intro: manager_step.intros)

abbreviation observers :: "('w, 'e) saver \<Rightarrow> ('w, 'e) manager \<Rightarrow> ('w, 'e) manager \<Rightarrow> bool" where
  "observers save \<equiv> (observer_step save)\<^sup>*\<^sup>*"

text \<open>The active map only shrinks.\<close>

definition shrinks :: "('w, 'e) manager \<Rightarrow> ('w, 'e) manager \<Rightarrow> bool" where
  "shrinks m m' \<longleftrightarrow> (\<forall>key h. map_of (mgrActive m') key = Some h \<longrightarrow> map_of (mgrActive m) key = Some h)"

lemma shrinks_refl [simp]: "shrinks m m"
  by (simp add: shrinks_def)

lemma shrinks_trans: "shrinks m m' \<Longrightarrow> shrinks m' m'' \<Longrightarrow> shrinks m m''"
  by (simp add: shrinks_def)

lemma shrinks_same: "mgrActive m' = mgrActive m \<Longrightarrow> shrinks m m'"
  by (simp add: shrinks_def)

lemma observer_keeps:
  assumes "observer_step save m m'" and inv: "lifecycle_inv m"
  shows "lifecycle_inv m' \<and> shrinks m m'"
proof
  show "lifecycle_inv m'" using manager_step_inv [OF observer_manager [OF assms(1)] inv] .
  show "shrinks m m'" using assms(1)
  proof cases
    case (observes h exit now)
    from observeLocked_run [OF inv observes(2,4), of save exit now] obtain r m1 e where
      s: "saveRegistry save (assignRuntime m (mKey (mgrHeap m ! h)) (Some (exited exit now r))) = (m1, e)"
      and o: "observeLocked save m h exit now =
        finishManaged (m1\<lparr>mgrActive := map_del (mgrActive m1) (mKey (mgrHeap m ! h))\<rparr>) h (map_option PersistTerminal e)" by blast
    have "mgrActive m1 = mgrActive m" using saveRegistry_frame [OF s] by (simp add: assignRuntime_def)
    then show ?thesis by (simp add: observes(1) o shrinks_def finishManaged_def setManaged_def)
  qed (auto simp: waited_def captureOutput_def logEffects_def setManaged_def intro!: shrinks_same split: outcome.split)
qed

lemma observers_keep:
  assumes "observers save m m'" and "lifecycle_inv m"
  shows "lifecycle_inv m' \<and> shrinks m m'"
  using assms by (induction rule: rtranclp_induct) (auto dest: observer_keeps intro: shrinks_trans)

section \<open>One process\<close>

text \<open>What \<open>Stop\<close> waits with: only observers run, and the channel of the runtime is closed when the wait ends with it.\<close>

definition honest_wait :: "('w, 'e) saver \<Rightarrow> (('w, 'e) manager \<Rightarrow> nat \<Rightarrow> ('w, 'e) manager) \<Rightarrow> stop_end \<Rightarrow> bool" where
  "honest_wait save during how \<longleftrightarrow> (\<forall>m h. lifecycle_inv m \<and> h < length (mgrHeap m) \<longrightarrow>
     observers save m (during m h) \<and> (how = RuntimeDone \<longrightarrow> mDone (mgrHeap (during m h) ! h)))"

lemma saveRegistry_keeps: "saveRegistry save m = (m', e) \<Longrightarrow> mgrActive m' = mgrActive m \<and> mgrHeap m' = mgrHeap m"
  by (auto dest: saveRegistry_frame)

lemma stopBegin_keeps:
  assumes "stopBegin save m key = (m', plan)"
  shows "mgrActive m' = mgrActive m \<and> mgrHeap m' = mgrHeap m"
  using assms by (auto simp: stopBegin_def assignRuntime_def dest!: saveRegistry_keeps split: sum.splits option.splits if_splits prod.splits)

lemma stopBegin_returns:
  assumes "stopBegin save m key = (m', StopReturn r None)" and "lifecycle_inv m"
  shows "map_of (mgrActive m) key = None"
proof (rule linked_inactive [OF inv_linked [OF assms(2)]])
  show "idle (runtimeOf (mgrRegistry m) key)"
    using assms(1) by (auto simp: stopBegin_def idle_def findProcess_runtime split: sum.splits option.splits if_splits prod.splits)
qed

lemma stopBegin_waits:
  assumes "stopBegin save m key = (m', StopWait h requested)"
  shows "map_of (mgrActive m) key = Some h"
  using assms by (auto simp: stopBegin_def split: sum.splits option.splits if_splits prod.splits)

lemma statusWithError_None: "statusWithError m key e = (r, None) \<Longrightarrow> e = None"
  by (auto simp: statusWithError_def split: sum.splits prod.splits option.splits)

lemma requestStop_keeps: "requestStop m h res = (m', e) \<Longrightarrow> mgrActive m' = mgrActive m \<and> mgrHeap m' = mgrHeap m"
  by (auto simp: requestStop_def Let_def)

lemma stopFinish_keeps: "stopFinish m key h how = (m', r, e) \<Longrightarrow> mgrActive m' = mgrActive m"
  by (auto simp: stopFinish_def Let_def split: stop_end.splits)

lemma stopFinish_succeeds: "stopFinish m key h how = (m', r, None) \<Longrightarrow> how = RuntimeDone \<and> m' = m"
  by (auto simp: stopFinish_def Let_def dest: statusWithError_None split: stop_end.splits)

lemma done_inactive:
  assumes "lifecycle_inv m" and "mDone (mgrHeap m ! h)"
  shows "map_of (mgrActive m) key \<noteq> Some h"
  using linked_active [OF inv_linked [OF assms(1)], of key h] assms(2) by (auto simp: owned_def)

lemma Stop_keeps:
  assumes stop: "Stop save m key killed during how = (m', r, e)" and inv: "lifecycle_inv m" and honest: "honest_wait save during how"
  shows "lifecycle_inv m' \<and> shrinks m m' \<and> (e = None \<longrightarrow> map_of (mgrActive m') key = None)"
proof -
  obtain m1 plan where b: "stopBegin save m key = (m1, plan)" by fastforce
  note i1 = stopBegin_inv [OF inv b] and k1 = stopBegin_keeps [OF b]
  show ?thesis
  proof (cases plan)
    case (StopReturn r' e')
    with stop b have "m' = m1" "e = e'" by (simp_all add: Stop_def)
    then show ?thesis using i1 k1 stopBegin_returns [of save m key m1 r'] inv b StopReturn by (auto simp: shrinks_same)
  next
    case (StopWait h requested)
    obtain m2 se where q: "(if requested then requestStop m1 h killed else (m1, None)) = (m2, se)" by fastforce
    have h: "map_of (mgrActive m) key = Some h" using stopBegin_waits b StopWait by metis
    then have heap: "h < length (mgrHeap m)" using linked_active [OF inv_linked [OF inv] h] by (simp add: owned_def)
    have k2: "lifecycle_inv m2 \<and> mgrActive m2 = mgrActive m \<and> mgrHeap m2 = mgrHeap m"
      using q k1 i1 requestStop_keeps [of m1 h killed m2 se] requestStop_inv [of m1 h killed m2 se] by (cases requested) auto
    show ?thesis
    proof (cases se)
      case (Some x)
      then have f: "stopFinish m2 key h (RequestFailed x) = (m', r, e)" using stop b StopWait q by (simp add: Stop_def)
      then show ?thesis using k2 stopFinish_inv [OF _ f] stopFinish_keeps [OF f] stopFinish_succeeds [of m2 key h "RequestFailed x" m' r]
        by (cases e) (auto simp: shrinks_same)
    next
      case None
      then have f: "stopFinish (during m2 h) key h how = (m', r, e)" using stop b StopWait q by (simp add: Stop_def)
      have d: "observers save m2 (during m2 h)" "how = RuntimeDone \<Longrightarrow> mDone (mgrHeap (during m2 h) ! h)"
        using honest k2 heap by (simp_all add: honest_wait_def)
      note d1 = observers_keep [OF d(1) conjunct1 [OF k2]]
      have s: "shrinks m m'" using d1 k2 stopFinish_keeps [OF f] by (simp add: shrinks_def)
      moreover have "map_of (mgrActive m') key = None" if "e = None"
      proof (rule ccontr)
        assume "map_of (mgrActive m') key \<noteq> None"
        with s h have "map_of (mgrActive (during m2 h)) key = Some h" using stopFinish_keeps [OF f] by (auto simp: shrinks_def)
        then show False using done_inactive [OF conjunct1 [OF d1] d(2)] stopFinish_succeeds f that by blast
      qed
      ultimately show ?thesis using stopFinish_inv [OF conjunct1 [OF d1] f] by blast
    qed
  qed
qed

section \<open>All of them\<close>

lemma shutdownKeys_idle:
  assumes "\<And>m key m' r e. stop m key = (m', r, e) \<Longrightarrow> lifecycle_inv m
      \<Longrightarrow> lifecycle_inv m' \<and> shrinks m m' \<and> (e = None \<longrightarrow> map_of (mgrActive m') key = None)"
    and "shutdownKeys stop m keys = (m', [])" and "lifecycle_inv m"
  shows "lifecycle_inv m' \<and> shrinks m m' \<and> (\<forall>key\<in>set keys. map_of (mgrActive m') key = None)"
  using assms(2,3)
proof (induction keys arbitrary: m)
  case (Cons key keys)
  obtain m1 r e where s: "stop m key = (m1, r, e)" by (metis prod_cases3)
  with Cons.prems have e: "e = None" "shutdownKeys stop m1 keys = (m', [])"
    by (auto split: prod.splits option.splits)
  note k = assms(1) [OF s Cons.prems(2)]
  then show ?case using Cons.IH [OF e(2)] e(1) shrinks_trans [of m m1 m'] by (auto simp: shrinks_def) (metis option.exhaust)
qed simp

lemma shutdown_leaves_idle:
  assumes "lifecycle_inv m" and "\<And>key. honest_wait save (during key) (how key)"
    and "Shutdown (\<lambda>m key. Stop save m key (killed key) (during key) (how key)) m = (m', None)"
  shows "mgrActive m' = [] \<and> (\<forall>key r. runtimeOf (mgrRegistry m') key = Some r \<longrightarrow> \<not> IsActive (rState r))"
proof -
  let ?stop = "\<lambda>m key. Stop save m key (killed key) (during key) (how key)"
  have "shutdownKeys ?stop m (map_keys (mgrActive m)) = (m', [])"
    using assms(3) by (auto simp: Shutdown_def split: prod.splits list.splits)
  from shutdownKeys_idle [OF _ this assms(1)] Stop_keeps assms(2)
  have k: "lifecycle_inv m'" "shrinks m m'" "\<forall>key\<in>set (map_keys (mgrActive m)). map_of (mgrActive m') key = None" by blast+
  have none: "map_of (mgrActive m') key = None" for key
    using k(2,3) map_of_eq_None_iff [of "mgrActive m" key] by (cases "map_of (mgrActive m') key") (auto simp: shrinks_def)
  then have "mgrActive m' = []" by (metis map_of_eq_empty_iff ext)
  moreover have "\<not> IsActive (rState r)" if "runtimeOf (mgrRegistry m') key = Some r" for key r
    using linked_idle [OF inv_linked [OF k(1)] none, of key] that by (simp add: idle_def)
  ultimately show ?thesis by blast
qed

text \<open>A shutdown that reports no error leaves nothing running: no runtime is active any more, neither in the
  manager's map nor in its registry.  Whatever the goroutines that observe the processes do meanwhile, in
  whatever order the processes are stopped, and however each wait ends.\<close>

theorem shutdown_idle:
  assumes "lifecycle_inv m" and "\<And>key. honest_wait save (during key) (how key)"
    and "Shutdown (\<lambda>m key. Stop save m key (killed key) (during key) (how key)) m = (m', None)"
  shows "mgrActive m' = [] \<and> (\<forall>key r. runtimeOf (mgrRegistry m') key = Some r \<longrightarrow> \<not> IsActive (rState r))"
  by (rule shutdown_leaves_idle [OF assms])

text \<open>A process that exits when it is asked to: the observer reaps it and records its end.\<close>

definition exits_on_request :: "('w, 'e) saver \<Rightarrow> ('w, 'e) manager \<Rightarrow> nat \<Rightarrow> ('w, 'e) manager" where
  "exits_on_request save m h =
     (if mDone (mgrHeap m ! h) then m
      else observeLocked save (if mClosed (mgrHeap m ! h) then m else waited m h) h \<lparr>exitCode = 0, exitErr = False\<rparr> 9)"

lemma waited_heap: "h < length (mgrHeap m) \<Longrightarrow> mgrHeap (waited m h) = (mgrHeap m)[h := (mgrHeap m ! h)\<lparr>mClosed := True\<rparr>]"
  by (simp add: waited_def logEffects_def setManaged_def)

lemma observed_done:
  assumes "lifecycle_inv m" and "h < length (mgrHeap m)" and "\<not> mDone (mgrHeap m ! h)"
  shows "mDone (mgrHeap (observeLocked save m h exit now) ! h)"
proof -
  from observeLocked_run [OF assms, of save exit now] obtain r m1 e where
    s: "saveRegistry save (assignRuntime m (mKey (mgrHeap m ! h)) (Some (exited exit now r))) = (m1, e)"
    and o: "observeLocked save m h exit now =
      finishManaged (m1\<lparr>mgrActive := map_del (mgrActive m1) (mKey (mgrHeap m ! h))\<rparr>) h (map_option PersistTerminal e)" by blast
  have "mgrHeap m1 = mgrHeap m" using saveRegistry_keeps [OF s] by (simp add: assignRuntime_def)
  then show ?thesis using assms(2) by (simp add: o finishManaged_def setManaged_def)
qed

lemma exits_honestly: "honest_wait save (exits_on_request save) RuntimeDone"
  unfolding honest_wait_def
proof (intro allI impI)
  fix m :: "('a, 'b) manager" and h
  assume a: "lifecycle_inv m \<and> h < length (mgrHeap m)"
  let ?m = "if mClosed (mgrHeap m ! h) then m else waited m h"
  have o: "observers save m ?m" and i: "lifecycle_inv ?m" "h < length (mgrHeap ?m)" "mClosed (mgrHeap ?m ! h)"
    "mDone (mgrHeap ?m ! h) = mDone (mgrHeap m ! h)"
    using a waits [of h m save] waited_inv [of m h] by (auto simp: waited_heap)
  show "observers save m (exits_on_request save m h) \<and> (RuntimeDone = RuntimeDone \<longrightarrow> mDone (mgrHeap (exits_on_request save m h) ! h))"
  proof (cases "mDone (mgrHeap m ! h)")
    case False
    then have "observer_step save ?m (observeLocked save ?m h \<lparr>exitCode = 0, exitErr = False\<rparr> 9)"
      using i by (intro observes) simp_all
    then show ?thesis using o False i observed_done [OF i(1,2)] by (auto simp: exits_on_request_def intro: rtranclp.rtrancl_into_rtrancl)
  qed (simp add: exits_on_request_def)
qed

theorem shutdown_idle_witness:
  "mgrActive (fst (Shutdown (\<lambda>m key. Stop sample_save m key KillOK (exits_on_request sample_save) RuntimeDone) running_manager)) = []"
proof -
  let ?stop = "\<lambda>m key. Stop sample_save m key KillOK (exits_on_request sample_save) RuntimeDone"
  have "snd (Shutdown ?stop running_manager) = None" by code_simp
  then show ?thesis
    using shutdown_idle [OF running_inv exits_honestly, of sample_save "\<lambda>key. KillOK"]
    by (metis prod.collapse)
qed

end
