(* ===== verification/Daemon.thy ===== *)
theory Daemon
  imports DaemonShutdown Transport Control
begin

text \<open>
  The daemon: \<open>cmd/dovikd\<close> and \<open>Server.Serve\<close> of \<open>internal/control/server.go\<close>.  \<open>runDaemon\<close> finds its
  files, reconciles the registry, opens the control endpoint and the identity state, serves connections
  until it is interrupted, and shuts the manager down.  The connections are served in the order given;
  what other goroutines do while one of them waits is in its environment, and a panic in any of them
  ends the daemon.  The text of an error is left out.
\<close>

section \<open>Configuration\<close>

record daemon_configuration =
  dcEndpoint :: string
  dcRegistryPath :: string

datatype daemon_error =
  RegistryPathFails store_error | EndpointFails transport_error | OverridesIncomplete | OverridesRelative
| RegistryFails store_error | ManagerFails "store_error lifecycle_error" | ListenerFails transport_error
| IdentityFileFails store_failure | DaemonFails bool "store_error lifecycle_error option"  \<comment> \<open>whether accepting failed\<close>

text \<open>The build for the tests of the interface takes both values from its environment; the other has none.\<close>

definition applyDaemonOverrides :: "(string \<times> string) option \<Rightarrow> daemon_configuration \<Rightarrow> daemon_error + daemon_configuration" where
  "applyDaemonOverrides fixture configuration =
     (case fixture of
        None \<Rightarrow> Inr configuration
      | Some (endpoint, registryPath) \<Rightarrow>
          if endpoint = [] \<and> registryPath = [] then Inr configuration
          else if endpoint = [] \<or> registryPath = [] then Inl OverridesIncomplete
          else if \<not> isAbs registryPath then Inl OverridesRelative
          else Inr \<lparr>dcEndpoint = endpoint, dcRegistryPath = registryPath\<rparr>)"

section \<open>The machine\<close>

record machine =
  maStore :: store_world
  maSockets :: socket_fs
  maIdentities :: state_disk

type_synonym daemon_manager = "(store_world, store_error) manager"
type_synonym daemon_server = "(store_world, store_error) control_server"
type_synonym connection = "(store_world, store_error) daemon_env \<times> json \<times> string"

record daemon_os =
  doXDGState :: string
  doHome :: "string option"
  doXDGRuntime :: string
  doTemp :: string
  doUID :: nat
  doFixture :: "(string \<times> string) option"
  doMarshal :: encoder
  doUnmarshal :: decoder
  doReadFault :: os_fault
  doSaveFault :: os_fault
  doRandom :: string
  doNow :: time
  doSockets :: socket_os
  doParseAddress :: "string \<Rightarrow> string option"
  doDecode :: state_decoder
  doStateOS :: state_os
  doWire :: wire
  doConnections :: "connection list"
  doInterrupted :: bool  \<comment> \<open>whether accepting ended because the daemon was interrupted\<close>
  doKilled :: "process_key \<Rightarrow> kill_result"
  doDuring :: "process_key \<Rightarrow> daemon_manager \<Rightarrow> nat \<Rightarrow> daemon_manager"
  doHow :: "process_key \<Rightarrow> stop_end"

section \<open>Serving\<close>

text \<open>\<open>Serve\<close>: the replies, and whether the daemon survived.\<close>

fun serveConnections :: "wire \<Rightarrow> (store_world, store_error) saver \<Rightarrow> daemon_server \<Rightarrow> connection list \<Rightarrow> daemon_server \<times> control_reply list \<times> bool" where
  "serveConnections w save s [] = (s, [], True)"
| "serveConnections w save s ((env, received, decodeError) # cs) =
     (case handleConnection w (env\<lparr>deSave := save\<rparr>) s received decodeError of
        (s1, NoReply) \<Rightarrow> (s1, [], False)
      | (s1, reply) \<Rightarrow> (case serveConnections w save s1 cs of (s2, replies, survived) \<Rightarrow> (s2, reply # replies, survived)))"

section \<open>Running\<close>

definition daemonConfiguration :: "daemon_os \<Rightarrow> daemon_error + daemon_configuration" where
  "daemonConfiguration os =
     (case DefaultRegistryPath (doXDGState os) (doHome os) of
        Inl e \<Rightarrow> Inl (RegistryPathFails e)
      | Inr registryPath \<Rightarrow>
          (case DefaultEndpoint (doXDGRuntime os) (doTemp os) (doUID os) of
             Inl e \<Rightarrow> Inl (EndpointFails e)
           | Inr endpoint \<Rightarrow> applyDaemonOverrides (doFixture os) \<lparr>dcEndpoint = endpoint, dcRegistryPath = registryPath\<rparr>))"

definition daemonManager :: "daemon_os \<Rightarrow> string \<Rightarrow> store_world \<Rightarrow> store_world \<times> (daemon_error + daemon_manager)" where
  "daemonManager os path w =
     (case LoadAndReconcile (doMarshal os) (doUnmarshal os) (doReadFault os) (doSaveFault os) (doRandom os) path (worldDisk w) (doNow os) of
        (d, Inl e) \<Rightarrow> (w\<lparr>worldDisk := d\<rparr>, Inl (RegistryFails e))
      | (d, Inr registry) \<Rightarrow>
          (w\<lparr>worldDisk := d\<rparr>,
           case NewLifecycleManager registry (w\<lparr>worldDisk := d\<rparr>) (1024 * 1024) 4096 of
             Inl e \<Rightarrow> Inl (ManagerFails e)
           | Inr m \<Rightarrow> Inr m))"

definition identityPath :: "string \<Rightarrow> string" where
  "identityPath registryPath = joinPath (joinPath (dirPath registryPath) ''identity'') ''state.json''"

datatype daemon_end = DaemonReturns "daemon_error option" | DaemonCrashes

text \<open>What the machine is like after the server has ended: the listener has removed its socket, unless the
  daemon crashed and left it.\<close>

definition leaveMachine :: "machine \<Rightarrow> string \<Rightarrow> endpoint_file option \<Rightarrow> store_world \<Rightarrow> service option \<Rightarrow> machine" where
  "leaveMachine s endpoint file w service =
     s\<lparr>maStore := w, maSockets := setEndpoint (maSockets s) endpoint file,
       maIdentities := (case service of None \<Rightarrow> maIdentities s | Some x \<Rightarrow> iwDisk (svWorld x))\<rparr>"

definition shutdownManager :: "daemon_os \<Rightarrow> (store_world, store_error) saver \<Rightarrow> daemon_manager \<Rightarrow> daemon_manager \<times> store_error lifecycle_error option" where
  "shutdownManager os save m = Shutdown (\<lambda>m key. Stop save m key (doKilled os key) (doDuring os key) (doHow os key)) m"

definition serveDaemon :: "daemon_os \<Rightarrow> machine \<Rightarrow> daemon_configuration \<Rightarrow> daemon_manager \<Rightarrow> identity_store \<Rightarrow> machine \<times> daemon_manager \<times> daemon_end" where
  "serveDaemon os s c m store =
     (let save = fileSave (doMarshal os) (dcRegistryPath c);
          service = NewService \<lparr>iwDisk = maIdentities s, iwStore = store, iwClock = 0\<rparr>
      in case serveConnections (doWire os) save \<lparr>svManager = m, svIdentities = Some service\<rparr> (doConnections os) of
           (server, _, False) \<Rightarrow>
             (leaveMachine s (dcEndpoint c) (Some StaleSocket) (mgrWorld (svManager server)) (svIdentities server), svManager server, DaemonCrashes)
         | (server, _, True) \<Rightarrow>
             (case shutdownManager os save (svManager server) of
                (m', e) \<Rightarrow>
                  (leaveMachine s (dcEndpoint c) None (mgrWorld m') (map_option Close (svIdentities server)), m',
                   DaemonReturns (if doInterrupted os \<and> e = None then None else Some (DaemonFails (\<not> doInterrupted os) e)))))"

text \<open>\<open>runDaemon\<close>; the manager is the one it leaves behind, if it made one.\<close>

definition runDaemon :: "daemon_os \<Rightarrow> machine \<Rightarrow> machine \<times> daemon_manager option \<times> daemon_end" where
  "runDaemon os s =
     (case daemonConfiguration os of
        Inl e \<Rightarrow> (s, None, DaemonReturns (Some e))
      | Inr c \<Rightarrow>
          (case daemonManager os (dcRegistryPath c) (maStore s) of
             (w, Inl e) \<Rightarrow> (s\<lparr>maStore := w\<rparr>, None, DaemonReturns (Some e))
           | (w, Inr m) \<Rightarrow>
               (case ListenLocal (doSockets os) (maSockets s) (dcEndpoint c) of
                  (fs, Some e) \<Rightarrow> (s\<lparr>maStore := w, maSockets := fs\<rparr>, Some m, DaemonReturns (Some (ListenerFails e)))
                | (fs, None) \<Rightarrow>
                    (case OpenStore (doParseAddress os) (doDecode os) (doStateOS os) (identityPath (dcRegistryPath c)) (maIdentities s) of
                       (d, Inl e) \<Rightarrow>
                         (s\<lparr>maStore := w, maSockets := setEndpoint fs (dcEndpoint c) None, maIdentities := d\<rparr>, Some m,
                          DaemonReturns (Some (IdentityFileFails e)))
                     | (d, Inr store) \<Rightarrow>
                         (case serveDaemon os (s\<lparr>maStore := w, maSockets := fs, maIdentities := d\<rparr>) c m store of
                            (s', m', how) \<Rightarrow> (s', Some m', how))))))"

text \<open>\<open>runCLI\<close> of the daemon.\<close>

datatype daemon_line = VersionLine string | HelpLines | RunningLine | UnknownArgument string | DaemonError daemon_error

definition Version :: string where "Version = ''1.1.0''"

text \<open>The line that the daemon runs is written once everything is open.\<close>

definition daemonAnnounces :: "daemon_end \<Rightarrow> bool" where
  "daemonAnnounces how = (case how of DaemonCrashes \<Rightarrow> True | DaemonReturns None \<Rightarrow> True | DaemonReturns (Some (DaemonFails a e)) \<Rightarrow> True | _ \<Rightarrow> False)"

definition daemonCLI :: "daemon_os \<Rightarrow> machine \<Rightarrow> string list \<Rightarrow> machine \<times> daemon_line list \<times> daemon_line list \<times> nat" where
  "daemonCLI os s arguments =
     (if arguments = [''--version''] then (s, [VersionLine Version], [], 0)
      else if arguments = [''--help''] \<or> arguments = [''-h''] then (s, [HelpLines], [], 0)
      else case arguments of
             a # _ \<Rightarrow> (s, [], [UnknownArgument a], 2)
           | [] \<Rightarrow>
               (case runDaemon os s of
                  (s', _, how) \<Rightarrow>
                    (s', if daemonAnnounces how then [RunningLine] else [],
                     case how of DaemonReturns (Some e) \<Rightarrow> [DaemonError e] | _ \<Rightarrow> [],
                     case how of DaemonReturns None \<Rightarrow> 0 | DaemonReturns (Some e) \<Rightarrow> 1 | DaemonCrashes \<Rightarrow> 2)))"

end
