(* ===== verification/DaemonProperties.thy ===== *)
theory DaemonProperties
  imports Daemon ControlClient
begin

text \<open>
  What holds of the daemon as a whole: it never crashes except on one request, it leaves nothing running,
  and what a second daemon does to the files of the first.
\<close>

section \<open>The manager behind the server\<close>

text \<open>What other goroutines do while a connection waits keeps the invariant of the manager, as their steps do.\<close>

definition benign :: "('w, 'e) daemon_env \<Rightarrow> bool" where
  "benign env \<longleftrightarrow> (\<forall>m h. lifecycle_inv m \<longrightarrow> lifecycle_inv (deDuring env m h))"

lemma managerStart_inv: "managerStart env m key = (m', r, e) \<Longrightarrow> lifecycle_inv m \<Longrightarrow> lifecycle_inv m'"
  unfolding managerStart_def using Start_inv by blast

lemma Stop_inv:
  assumes "Stop save m key killed during how = (m', r, e)" and "lifecycle_inv m"
    and "\<And>m h. lifecycle_inv m \<Longrightarrow> lifecycle_inv (during m h)"
  shows "lifecycle_inv m'"
proof -
  obtain m1 plan where b: "stopBegin save m key = (m1, plan)" by fastforce
  note i1 = conjunct1 [OF stopBegin_inv [OF assms(2) b]]
  show ?thesis
  proof (cases plan)
    case (StopWait h requested)
    obtain m2 se where q: "(if requested then requestStop m1 h killed else (m1, None)) = (m2, se)" by fastforce
    then have "lifecycle_inv m2" using i1 requestStop_inv [of m1 h killed m2 se] by (cases requested) auto
    then show ?thesis using assms b StopWait q stopFinish_inv [of m2 key h "RequestFailed x" m' r e for x] stopFinish_inv [of "during m2 h" key h how m' r e]
      by (auto simp: Stop_def split: option.splits)
  qed (use assms b i1 in \<open>simp add: Stop_def\<close>)
qed

lemma managerStop_inv: "managerStop env m key = (m', r, e) \<Longrightarrow> benign env \<Longrightarrow> lifecycle_inv m \<Longrightarrow> lifecycle_inv m'"
  unfolding managerStop_def benign_def using Stop_inv by blast

lemma managerRestart_inv: "managerRestart env m key = (m', r, e) \<Longrightarrow> benign env \<Longrightarrow> lifecycle_inv m \<Longrightarrow> lifecycle_inv m'"
  by (auto simp: managerRestart_def Restart_def dest: managerStop_inv managerStart_inv split: prod.splits option.splits)

text \<open>The three runtime operations share this contract.\<close>

definition keeps_manager :: "(('w, 'e) manager \<Rightarrow> process_key \<Rightarrow> ('w, 'e) manager \<times> process_runtime \<times> 'e lifecycle_error option) \<Rightarrow> bool" where
  "keeps_manager run \<longleftrightarrow> (\<forall>m key. lifecycle_inv m \<longrightarrow> lifecycle_inv (fst (run m key)))"

lemma runtime_keeps:
  assumes "benign env"
  shows "keeps_manager (managerStart env)" "keeps_manager (managerStop env)" "keeps_manager (managerRestart env)"
  unfolding keeps_manager_def
  by (metis managerStart_inv prod.exhaust_sel, metis managerStop_inv assms prod.exhaust_sel, metis managerRestart_inv assms prod.exhaust_sel)

lemma executeRuntime_inv:
  assumes "keeps_manager run" and "lifecycle_inv (svManager s)"
  shows "lifecycle_inv (svManager (fst (executeRuntime run s payload)))"
proof (cases "decodeProcessReference payload")
  case (Some input)
  obtain m r e where m: "run (svManager s) (referenceKey input) = (m, r, e)" by (metis prod_cases3)
  then have "lifecycle_inv m" using assms unfolding keeps_manager_def by (metis fst_conv)
  then show ?thesis using Some m by (simp add: executeRuntime_def split: option.split)
qed (use assms in \<open>simp add: executeRuntime_def\<close>)

lemmas registry_invs = AddProject_cases [THEN conjunct1] RemoveProject_cases [THEN conjunct1]
  AddProcess_cases [THEN conjunct1] RemoveProcess_cases [THEN conjunct1]

lemmas execute_reads = executeProjectList_def executeProcessList_def executeStatus_def executeLogs_def

lemma execute_inv:
  assumes "benign env" and inv: "lifecycle_inv (svManager s)"
  shows "lifecycle_inv (svManager (fst (execute env s request)))"
proof -
  have "lifecycle_inv (svManager (fst (executeIdentity env s p)))" for p
    using inv by (simp add: executeIdentity_def split: option.split prod.split sum.split)
  moreover have "lifecycle_inv (svManager (fst (executeProjectAdd env s p)))" for p
    using inv by (auto simp: executeProjectAdd_def dest: registry_invs split: option.split prod.split sum.split)
  moreover have "lifecycle_inv (svManager (fst (executeProjectRemove env s p)))" for p
    using inv by (auto simp: executeProjectRemove_def dest: registry_invs split: option.split prod.split)
  moreover have "lifecycle_inv (svManager (fst (executeProcessAdd env s p)))" for p
    using inv by (auto simp: executeProcessAdd_def dest: registry_invs split: option.split prod.split sum.split)
  moreover have "lifecycle_inv (svManager (fst (executeProcessRemove env s p)))" for p
    using inv by (auto simp: executeProcessRemove_def dest: registry_invs split: option.split prod.split)
  moreover have "fst (executeProjectList s) = s" "fst (executeProcessList s p) = s" "fst (executeStatus s p) = s" "fst (executeLogs s p) = s" for p
    by (simp_all add: execute_reads split: option.split)
  moreover note executeRuntime_inv [OF runtime_keeps(1) [OF assms(1)] inv] executeRuntime_inv [OF runtime_keeps(2) [OF assms(1)] inv]
    executeRuntime_inv [OF runtime_keeps(3) [OF assms(1)] inv]
  ultimately show ?thesis
    using inv by (cases "operationOf (ctOperation request)") (simp add: execute_def, simp add: execute_def Let_def split: operation.split)
qed

lemma handleRequest_inv:
  assumes "benign env" and "lifecycle_inv (svManager s)"
  shows "lifecycle_inv (svManager (fst (handleRequest w env s request)))"
proof -
  obtain s' out where x: "execute env s request = (s', out)" by fastforce
  then have "lifecycle_inv (svManager s')" using execute_inv [OF assms, of request] by simp
  then show ?thesis using assms(2) x by (cases out) (simp_all add: handleRequest_def split: option.split)
qed

lemma handleConnection_inv:
  assumes "benign env" and "lifecycle_inv (svManager s)"
  shows "lifecycle_inv (svManager (fst (handleConnection w env s received e)))"
proof -
  have "lifecycle_inv (svManager (fst (case handleRequest w env s request of (s', None) \<Rightarrow> (s', NoReply) | (s', Some response) \<Rightarrow> (s', ResponseReply response))))"
    for request using handleRequest_inv [OF assms, of w request] by (cases "handleRequest w env s request") (simp split: option.split)
  moreover have "svManager (fst (handleAgentRun env s service p)) = svManager s" "fst (handleExecute env s service p) = s" for service p
    by (simp_all add: handleAgentRun_def handleExecute_def split: option.split prod.split)
  ultimately show ?thesis
    using assms(2) unfolding handleConnection_def by (simp only: split: option.split if_split) simp
qed

section \<open>No crash but one\<close>

text \<open>The only request that panics is a read of the logs whose limit overflows.\<close>

definition crashes :: "('w, 'e) control_server \<Rightarrow> control_request \<Rightarrow> bool" where
  "crashes s request \<longleftrightarrow> operationOf (ctOperation request) = Some OperationProcessLogs \<and>
     (\<exists>input. decodePayload logsInputFields zeroLogsInput (ctPayload request) = Some input \<and>
       Logs (svManager s) (ProcessKey (liProjectID input) (liProcessID input)) (liAfterSequence input) (liLimit input) = Panic)"

fun answers :: "('e, 'a) outcome \<Rightarrow> bool" where
  "answers (Return x) \<longleftrightarrow> True"
| "answers (Error e) \<longleftrightarrow> True"
| "answers _ \<longleftrightarrow> False"

lemma lists_answer:
  assumes "lifecycle_inv m"
  shows "\<exists>ds. ListProjects m = Return ds" "answers (ListProcesses m p)"
proof -
  have ok: "\<forall>(k, v)\<in>set (regProjects (mgrRegistry m)). Reconciliation.project_ok v"
    using assms by (simp add: lifecycle_inv_def registry_loaded_ok)
  then show "\<exists>ds. ListProjects m = Return ds" by (auto simp: ListProjects_def list_ex_iff Reconciliation.project_ok_def)
  have "\<not> list_ex (\<lambda>(k, v). v = None) (projProcesses project)" if "regProject (mgrRegistry m) p = Some project" for project
    using loaded_procs [OF _ that] assms by (auto simp: lifecycle_inv_def procs_ok_def process_ok_def list_ex_iff)
  then show "answers (ListProcesses m p)" by (auto simp: ListProcesses_def split: option.split)
qed

lemma executeRuntime_answers: "answers (snd (executeRuntime run s payload))"
  by (simp add: executeRuntime_def split: option.split prod.split)

lemma executeLogs_answers:
  assumes "\<not> crashes s request" and "operationOf (ctOperation request) = Some OperationProcessLogs"
  shows "answers (snd (executeLogs s (ctPayload request)))"
proof (cases "decodePayload logsInputFields zeroLogsInput (ctPayload request)")
  case (Some input)
  let ?logs = "Logs (svManager s) (ProcessKey (liProjectID input) (liProcessID input)) (liAfterSequence input) (liLimit input)"
  have "?logs \<noteq> Panic" using assms Some by (simp add: crashes_def)
  moreover have "?logs \<noteq> Diverge" by (simp add: Logs_def Tail_def Let_def split: option.split)
  ultimately show ?thesis using Some by (cases ?logs) (simp_all add: executeLogs_def)
qed (simp add: executeLogs_def)

lemma execute_answers:
  assumes inv: "lifecycle_inv (svManager s)" and "\<not> crashes s request"
  shows "answers (snd (execute env s request))"
proof -
  have "answers (snd (executeIdentity env s p))" for p by (simp add: executeIdentity_def split: option.split prod.split sum.split)
  moreover have "answers (snd (executeProjectAdd env s p))" for p by (simp add: executeProjectAdd_def split: option.split prod.split sum.split)
  moreover have "answers (snd (executeProjectRemove env s p))" for p by (simp add: executeProjectRemove_def split: option.split prod.split)
  moreover have "answers (snd (executeProcessAdd env s p))" for p by (simp add: executeProcessAdd_def split: option.split prod.split sum.split)
  moreover have "answers (snd (executeProcessRemove env s p))" for p by (simp add: executeProcessRemove_def split: option.split prod.split)
  moreover have "answers (snd (executeProjectList s))" using lists_answer(1) [OF inv] by (auto simp: executeProjectList_def)
  moreover have "answers (snd (executeProcessList s p))" for p
  proof (cases "decodePayload projectReferenceFields zeroProjectReference p")
    case (Some input)
    then show ?thesis using lists_answer(2) [OF inv, of "pfProjectID input"]
      by (cases "ListProcesses (svManager s) (pfProjectID input)") (simp_all add: executeProcessList_def)
  qed (simp add: executeProcessList_def)
  moreover have "answers (snd (executeStatus s p))" for p by (simp add: executeStatus_def split: option.split prod.split)
  moreover note executeLogs_answers [OF assms(2)]
  ultimately show ?thesis
    by (cases "operationOf (ctOperation request)")
      (simp add: execute_def, simp add: execute_def Let_def executeRuntime_answers split: operation.split)
qed

lemma handleConnection_replies:
  assumes "lifecycle_inv (svManager s)" and "handleConnection w env s received e = (s', NoReply)"
  shows "\<exists>request. readStruct True requestFields received zeroControlRequest = Some request \<and> crashes s request"
proof -
  obtain request where r: "readStruct True requestFields received zeroControlRequest = Some request"
    and n: "handleRequest w env s request = (s', None)"
    using assms(2) by (auto simp: handleConnection_def handleAgentRun_def handleExecute_def refuseStream_def
        split: option.splits if_splits prod.splits)
  have "crashes s request"
  proof (rule ccontr)
    assume "\<not> crashes s request"
    from execute_answers [OF assms(1) this, of env] n show False
      by (auto simp: handleRequest_def split: if_splits prod.splits outcome.splits option.splits)
  qed
  with r show ?thesis by blast
qed

text \<open>A connection whose request can crash some server.\<close>

definition crashing :: "connection \<Rightarrow> bool" where
  "crashing c \<longleftrightarrow> (case c of (env, received, e) \<Rightarrow>
     \<exists>request server. readStruct True requestFields received zeroControlRequest = Some request \<and> crashes (server :: daemon_server) request)"

lemma serveConnections_inv:
  assumes "serveConnections w save s cs = (s', replies, survived)" and "lifecycle_inv (svManager s)" and "\<forall>(env, received, e)\<in>set cs. benign env"
  shows "lifecycle_inv (svManager s') \<and> (survived \<or> list_ex crashing cs)"
  using assms
proof (induction cs arbitrary: s replies)
  case (Cons c cs)
  obtain env received e where c: "c = (env, received, e)" by (metis prod_cases3)
  obtain s1 reply where h: "handleConnection w (env\<lparr>deSave := save\<rparr>) s received e = (s1, reply)" by fastforce
  have "benign (env\<lparr>deSave := save\<rparr>)" using Cons.prems(3) c by (simp add: benign_def)
  from handleConnection_inv [OF this Cons.prems(2), of w received e] h have i: "lifecycle_inv (svManager s1)" by simp
  show ?case
  proof (cases "reply = NoReply")
    case True
    with Cons.prems(1) c h have "s' = s1" "\<not> survived" by simp_all
    with i handleConnection_replies [OF Cons.prems(2) h [unfolded True]] c show ?thesis by (auto simp: crashing_def)
  next
    case False
    then obtain rs where "serveConnections w save s1 cs = (s', rs, survived)"
      using Cons.prems(1) c h by (auto split: control_reply.splits prod.splits)
    from Cons.IH [OF this i] Cons.prems(3) show ?thesis by auto
  qed
qed simp

section \<open>The life of the daemon\<close>

lemma reconciled_inv:
  assumes "daemonManager os path w = (w', Inr m)"
  shows "lifecycle_inv m"
proof -
  obtain d r where l: "LoadAndReconcile (doMarshal os) (doUnmarshal os) (doReadFault os) (doSaveFault os) (doRandom os) path (worldDisk w) (doNow os) = (d, Inr r)"
    and n: "NewLifecycleManager r (w\<lparr>worldDisk := d\<rparr>) (1024 * 1024) 4096 = (Inr m :: store_error lifecycle_error + _)"
    using assms by (auto simp: daemonManager_def split: prod.splits sum.splits)
  obtain r0 changed where r0: "Load (doUnmarshal os) (doReadFault os) path (worldDisk w) = Inr r0"
    and r: "ReconcileAfterDaemonRestart r0 (doNow os) = (r, Inr changed)"
    using l by (auto simp: LoadAndReconcile_def split: sum.splits prod.splits if_splits option.splits)
  from reconcile_result [OF Load_loaded [OF r0], of "doNow os"] r
  have ok: "registry_loaded r" and none: "\<forall>p q process. regProcess r p q = Some process \<longrightarrow> \<not> process_active process" by auto
  have "idle (runtimeOf r key)" for key
    using none by (auto simp: idle_def runtimeOf_def process_active_def split: option.splits bind_splits)
  then show ?thesis using ok n
    by (auto simp: NewLifecycleManager_def lifecycle_inv_def linked_def split: if_splits)
qed

text \<open>C34: The daemon ends in one of two ways.  It crashes only on a request to read logs, and when it returns
  without an error it leaves nothing behind that runs: no runtime is active in its manager or registry,
  and its endpoint is gone.  Whatever its clients ask for, in whatever order.\<close>

theorem daemon_leaves_nothing:
  assumes "\<forall>(env, received, e)\<in>set (doConnections os). benign env"
    and "daemonConfiguration os = Inr c"
    and "\<And>key. honest_wait (fileSave (doMarshal os) (dcRegistryPath c)) (doDuring os key) (doHow os key)" and "runDaemon os s = (s', Some m, how)"
  shows "case how of
      DaemonCrashes \<Rightarrow> list_ex crashing (doConnections os)
    | DaemonReturns None \<Rightarrow> mgrActive m = [] \<and> (\<forall>key r. runtimeOf (mgrRegistry m) key = Some r \<longrightarrow> \<not> IsActive (rState r)) \<and>
        sfFiles (maSockets s') (dcEndpoint c) = None
    | DaemonReturns (Some e) \<Rightarrow> True"
proof -
  consider e where "how = DaemonReturns (Some e)"
    | s1 m1 store where "lifecycle_inv m1" "serveDaemon os s1 c m1 store = (s', m, how)"
    using assms(2,4) reconciled_inv [of os "dcRegistryPath c" "maStore s"]
    by (auto simp: runDaemon_def split: sum.splits prod.splits option.splits)
  then show ?thesis
  proof cases
    case 2
    let ?save = "fileSave (doMarshal os) (dcRegistryPath c)"
    let ?service = "NewService \<lparr>iwDisk = maIdentities s1, iwStore = store, iwClock = 0\<rparr>"
    obtain server replies survived where
      v: "serveConnections (doWire os) ?save \<lparr>svManager = m1, svIdentities = Some ?service\<rparr> (doConnections os) = (server, replies, survived)"
      by (metis prod_cases3)
    from serveConnections_inv [OF v _ assms(1)] 2(1) have i: "lifecycle_inv (svManager server)"
      and crash: "survived \<or> list_ex crashing (doConnections os)" by simp_all
    show ?thesis
    proof (cases survived)
      case True
      obtain m' e where sd: "shutdownManager os ?save (svManager server) = (m', e)" by fastforce
      have r: "m = m'" "how = DaemonReturns (if doInterrupted os \<and> e = None then None else Some (DaemonFails (\<not> doInterrupted os) e))"
        "s' = leaveMachine s1 (dcEndpoint c) None (mgrWorld m') (map_option Close (svIdentities server))"
        using 2(2) v True sd by (auto simp: serveDaemon_def Let_def)
      show ?thesis
      proof (cases "doInterrupted os \<and> e = None")
        case True
        with sd have "Shutdown (\<lambda>m key. Stop ?save m key (doKilled os key) (doDuring os key) (doHow os key)) (svManager server) = (m', None)"
          by (simp add: shutdownManager_def)
        from shutdown_leaves_idle [OF i assms(3) this] True r show ?thesis by (simp add: leaveMachine_def setEndpoint_def)
      qed (use r in \<open>auto split: option.split\<close>)
    qed (use 2(2) v crash in \<open>simp add: serveDaemon_def Let_def\<close>)
  qed simp
qed

section \<open>A second daemon\<close>

text \<open>The registry is reconciled before the endpoint is opened: a daemon that is started while another one
  runs and answers fails, but by then every runtime the other one owns has been stored as failed.\<close>

theorem second_daemon_overwrites:
  assumes "daemonConfiguration os = Inr c" and "sfFiles (maSockets s) (dcEndpoint c) = Some (ActiveSocket mode)"
    and "skDial (doSockets os)"
    and "LoadAndReconcile (doMarshal os) (doUnmarshal os) (doReadFault os) (doSaveFault os) (doRandom os) (dcRegistryPath c)
      (worldDisk (maStore s)) (doNow os) = (d, Inr r)"
    and "storable (doMarshal os) (doUnmarshal os) (dcRegistryPath c) r" and "disk_ok (worldDisk (maStore s))"
  shows "\<exists>s' m e r1. runDaemon os s = (s', Some m, DaemonReturns (Some (ListenerFails e))) \<and>
    Load (doUnmarshal os) NoFault (dcRegistryPath c) (worldDisk (maStore s')) = Inr r1 \<and>
    (\<forall>p q process. regProcess r1 p q = Some process \<longrightarrow> \<not> process_active process)"
proof -
  from start_stored [OF assms(4-6)] obtain r1 where r1: "Load (doUnmarshal os) NoFault (dcRegistryPath c) d = Inr r1"
    "\<forall>p q process. regProcess r1 p q = Some process \<longrightarrow> \<not> process_active process" by auto
  obtain fs e where f: "ListenLocal (doSockets os) (maSockets s) (dcEndpoint c) = (fs, Some e)"
    using listen_refuses [OF assms(2,3)] by blast
  from assms(1,4) f r1 show ?thesis
    by (simp add: runDaemon_def daemonManager_def NewLifecycleManager_def)
qed

section \<open>Examples\<close>

text \<open>A machine without files, and a daemon that is interrupted before anybody connects.\<close>

definition fresh_machine :: machine where
  "fresh_machine = \<lparr>maStore = \<lparr>worldDisk = empty_disk, worldSchedule = []\<rparr>, maSockets = \<lparr>sfFiles = Map.empty, sfDirectories = Map.empty\<rparr>,
     maIdentities = \<lparr>sdDirectory = None, sdFiles = Map.empty\<rparr>\<rparr>"

definition lonely_daemon :: daemon_os where
  "lonely_daemon =
     \<lparr>doXDGState = ''/s'', doHome = None, doXDGRuntime = ''/r'', doTemp = ''/tmp'', doUID = 1, doFixture = None,
      doMarshal = sample_marshal sample_registry, doUnmarshal = sample_unmarshal sample_registry, doReadFault = NoFault, doSaveFault = NoFault,
      doRandom = ''1'', doNow = 9,
      doSockets = \<lparr>skMkdir = True, skStat = True, skLstat = True, skDial = True, skRemove = True, skListen = True, skMode = 493, skChmod = True\<rparr>,
      doParseAddress = Some, doDecode = (\<lambda>data. None), doStateOS = calm_os\<lparr>soLstat := (\<lambda>p. LstatDirectory)\<rparr>, doWire = sample_wire,
      doConnections = [], doInterrupted = True, doKilled = (\<lambda>key. KillOK),
      doDuring = (\<lambda>key. exits_on_request (fileSave (sample_marshal sample_registry) ''/s/dovik/registry.json'')),
      doHow = (\<lambda>key. RuntimeDone)\<rparr>"

lemma lonely_configuration:
  "daemonConfiguration lonely_daemon = Inr \<lparr>dcEndpoint = ''/r/dovik/control.sock'', dcRegistryPath = ''/s/dovik/registry.json''\<rparr>"
  by code_simp

lemma lonely_run: "snd (snd (runDaemon lonely_daemon fresh_machine)) = DaemonReturns None"
  "fst (snd (runDaemon lonely_daemon fresh_machine)) \<noteq> None"
  by code_simp+

theorem daemon_leaves_nothing_witness:
  "\<exists>s' m. runDaemon lonely_daemon fresh_machine = (s', Some m, DaemonReturns None) \<and> mgrActive m = [] \<and>
     sfFiles (maSockets s') ''/r/dovik/control.sock'' = None"
proof -
  obtain s' m where r: "runDaemon lonely_daemon fresh_machine = (s', Some m, DaemonReturns None)"
    using lonely_run by (metis not_None_eq prod.collapse)
  then show ?thesis
    using daemon_leaves_nothing [OF _ lonely_configuration _ r] exits_honestly by (fastforce simp: lonely_daemon_def)
qed

text \<open>The same machine with a running daemon: its socket is there, and its registry has a running process.\<close>

definition interrupted_registry :: registry where
  "interrupted_registry = fst (ReconcileAfterDaemonRestart (canonical sample_registry) 9)"

definition second_unmarshal :: decoder where
  "second_unmarshal content =
     (if content = ''old'' then (case registryToDocument (Some sample_registry) of Inl e \<Rightarrow> None | Inr d \<Rightarrow> Some d)
      else sample_unmarshal interrupted_registry content)"

definition second_daemon :: daemon_os where
  "second_daemon = lonely_daemon\<lparr>doMarshal := sample_marshal interrupted_registry, doUnmarshal := second_unmarshal\<rparr>"

definition running_disk :: disk where
  "running_disk = \<lparr>diskDirectory = Some True, diskFiles = [''/s/dovik/registry.json'' \<mapsto> \<lparr>fileContent = ''old'', filePrivate = True\<rparr>]\<rparr>"

definition busy_machine :: machine where
  "busy_machine = fresh_machine\<lparr>maStore := \<lparr>worldDisk = running_disk, worldSchedule = []\<rparr>,
     maSockets := \<lparr>sfFiles = [''/r/dovik/control.sock'' \<mapsto> ActiveSocket 384], sfDirectories = [''/r/dovik'' \<mapsto> 448]\<rparr>\<rparr>"

lemma second_configuration:
  "daemonConfiguration second_daemon = Inr \<lparr>dcEndpoint = ''/r/dovik/control.sock'', dcRegistryPath = ''/s/dovik/registry.json''\<rparr>"
  by code_simp

lemma second_load:
  "snd (LoadAndReconcile (doMarshal second_daemon) (doUnmarshal second_daemon) (doReadFault second_daemon) (doSaveFault second_daemon)
     (doRandom second_daemon) ''/s/dovik/registry.json'' (worldDisk (maStore busy_machine)) (doNow second_daemon)) = Inr interrupted_registry"
  by code_simp

lemma loaded_wf: "registry_loaded r \<Longrightarrow> registry_wf r"
  by (fastforce simp: registry_loaded_def registry_wf_def)

lemma second_storable: "storable (doMarshal second_daemon) (doUnmarshal second_daemon) ''/s/dovik/registry.json'' interrupted_registry"
proof -
  have "documentToRegistry (the (second_unmarshal ''old'')) = Inr (canonical sample_registry)" by code_simp
  then have "registry_loaded (canonical sample_registry)" by (rule documentToRegistry_loaded)
  from reconcile_result [OF this, of 9] have "registry_wf interrupted_registry"
    by (auto simp: interrupted_registry_def intro: loaded_wf)
  then show ?thesis
    by (auto simp: storable_def second_daemon_def second_unmarshal_def sample_marshal_def sample_unmarshal_def hasSuffix_def hasPrefix_def
        split: sum.split option.split)
qed

theorem second_daemon_overwrites_witness:
  "\<exists>s' m e r1. runDaemon second_daemon busy_machine = (s', Some m, DaemonReturns (Some (ListenerFails e))) \<and>
     Load second_unmarshal NoFault ''/s/dovik/registry.json'' (worldDisk (maStore s')) = Inr r1 \<and>
     (\<forall>p q process. regProcess r1 p q = Some process \<longrightarrow> \<not> process_active process)"
proof -
  obtain d where l: "LoadAndReconcile (doMarshal second_daemon) (doUnmarshal second_daemon) (doReadFault second_daemon) (doSaveFault second_daemon)
     (doRandom second_daemon) ''/s/dovik/registry.json'' (worldDisk (maStore busy_machine)) (doNow second_daemon) = (d, Inr interrupted_registry)"
    using second_load by (metis prod.collapse)
  have s: "sfFiles (maSockets busy_machine) ''/r/dovik/control.sock'' = Some (ActiveSocket 384)" "disk_ok (worldDisk (maStore busy_machine))"
    by (simp_all add: busy_machine_def running_disk_def disk_ok_def)
  from second_daemon_overwrites [OF second_configuration, of busy_machine 384 d interrupted_registry] l s second_storable
  show ?thesis by (simp add: second_daemon_def lonely_daemon_def)
qed

end
