(* ===== verification/TuiView.thy ===== *)
theory TuiView
  imports TuiCommands TerminalOutput CliGh Release
begin

text \<open>
  What the terminal interface shows (\<open>internal/tui/presentation.go\<close>, \<open>identity.go\<close>, the drawing part of
  \<open>editor.go\<close> and \<open>model.go\<close>).  A view is a tree of boxes with their sizes and their lines; a line is a list
  of pieces of text in the styles of the presentation.  How package lipgloss draws a style, a border and a
  box, and the header line, are left out; the width of a line in cells, hard wrapping, truncation and
  removing escape sequences are parameters.  The truncation of the bars and of the names of projects and
  personas to the width is left to the drawing.
\<close>

section \<open>Pieces, lines and boxes\<close>

datatype text_style =
  PlainStyle | MutedStyle | SectionStyle | LabelStyle | ValueStyle | ProjectStyle | SelectedStyle | SuccessStyle | AttentionStyle
| DangerStyle | StdoutStyle | StderrStyle | KeyStyle

text \<open>The symbols outside ASCII: the selector, the branches of the tree and the full and the empty dot.\<close>

datatype glyph = Selector | Branch | LastBranch | FullDot | EmptyDot | Separator | ArrowsUpDown | ArrowsLeftRight | ArrowLeft | ArrowRight

datatype piece = Styled text_style string | Glyph text_style glyph

type_synonym view_line = "piece list"

abbreviation muted :: "string \<Rightarrow> view_line" where "muted s \<equiv> [Styled MutedStyle s]"
abbreviation sectionLine :: "string \<Rightarrow> view_line" where "sectionLine s \<equiv> [Styled SectionStyle s]"
abbreviation plain :: "string \<Rightarrow> view_line" where "plain s \<equiv> [Styled PlainStyle s]"

text \<open>A key that the footer names, and what it says the key does.\<close>

datatype shown_key = Keys string | KeyGlyph glyph

type_synonym hint = "shown_key \<times> string"

text \<open>A box: its width, its height, the rows of its padding and border, and its lines.\<close>

datatype view =
  Box int int int "view_line list"
| Header int "(string \<times> bool) list" string
| Bar int "hint list"
| ActionBar int "view_line" "hint list"
| Above "view list"
| Beside "view list"
| Drawn int int  \<comment> \<open>a form or a dialogue of another package\<close>

record view_env =
  veWidth :: "view_line \<Rightarrow> int"  \<comment> \<open>\<open>lipgloss.Width\<close>\<close>
  veWrap :: "int \<Rightarrow> view_line \<Rightarrow> view_line list"  \<comment> \<open>\<open>ansi.Hardwrap\<close>\<close>
  veTruncate :: "int \<Rightarrow> string \<Rightarrow> view_line \<Rightarrow> view_line"  \<comment> \<open>\<open>ansi.Truncate\<close> with the text that marks the end\<close>
  veStrip :: "bytes \<Rightarrow> bytes"
  veColor :: bool
  veTime :: "time option \<Rightarrow> string"

text \<open>\<open>fitLines\<close>: lines are added until there are \<open>height\<close> of them, and without end if that is negative.\<close>

definition fitLines :: "view_env \<Rightarrow> view_line list \<Rightarrow> int \<Rightarrow> int \<Rightarrow> view_line list" where
  "fitLines env lines width height =
     (let wrapped = concat (map (veWrap env (max 1 width)) lines) in if height < 0 then wrapped else take (nat height) wrapped)"

definition field_lines :: "string \<Rightarrow> string \<Rightarrow> view_line list" where
  "field_lines label v = [[Styled LabelStyle label], [Styled ValueStyle (''  '' @ v)]]"

definition inlineField :: "string \<Rightarrow> string \<Rightarrow> view_line" where
  "inlineField label v = [Styled LabelStyle label, Styled PlainStyle ''  '', Styled ValueStyle v]"

definition panel :: "view_env \<Rightarrow> int \<Rightarrow> int \<Rightarrow> view_line list \<Rightarrow> view" where
  "panel env width height lines =
     Box width height 1 (fitLines env (map (veTruncate env (width - 2) []) lines) (width - 2) (height - 1))"

section \<open>The processes\<close>

definition truncatedOutputMessage :: string where
  "truncatedOutputMessage = ''earlier lines were discarded; showing the newest output''"

definition renderState :: "bool \<Rightarrow> string \<Rightarrow> piece" where
  "renderState color state =
     (let label = toUpper state;
          style = (if state = ''running'' then SuccessStyle
                   else if state = ''starting'' \<or> state = ''stopping'' then AttentionStyle
                   else if state = ''failed'' then DangerStyle else MutedStyle)
      in if color then Styled style label else Styled PlainStyle (''['' @ label @ '']''))"

text \<open>A row as long as there is room for: of a selected one only the name is cut.\<close>

definition rowStart :: "bool \<Rightarrow> bool \<Rightarrow> view_line" where
  "rowStart lastChild selected =
     (let style = (if selected then SelectedStyle else ProjectStyle)
      in [if selected then Glyph style Selector else Styled style '' '', Styled style '' '',
          Glyph style (if lastChild then LastBranch else Branch), Styled style '' ''])"

definition renderProcessRow :: "view_env \<Rightarrow> process_item \<Rightarrow> bool \<Rightarrow> bool \<Rightarrow> int \<Rightarrow> view_line" where
  "renderProcessRow env item lastChild selected width =
     (let style = (if selected then SelectedStyle else ProjectStyle);
          marker = Glyph style (if tiKnown item \<and> IsActive (tiState item) then FullDot else EmptyDot);
          suffix = [Styled style ('' '' @ keyProcess (tiKey item))]
      in if \<not> selected then veTruncate env width ''...'' (rowStart lastChild selected @ marker # suffix)
         else rowStart lastChild selected @
           marker # veTruncate env (max 0 (width - veWidth env (rowStart lastChild selected) - veWidth env [marker])) [] suffix)"

text \<open>The projects in the order of their first process, and the indices of the processes of one.\<close>

definition projectOrder :: "process_item list \<Rightarrow> string list" where
  "projectOrder items = rev (remdups (rev (map (keyProject \<circ> tiKey) items)))"

definition childrenOf :: "process_item list \<Rightarrow> string \<Rightarrow> nat list" where
  "childrenOf items p = filter (\<lambda>i. keyProject (tiKey (items ! i)) = p) [0..<length items]"

definition inRange :: "int \<times> int \<Rightarrow> nat \<Rightarrow> bool" where
  "inRange bounds i \<longleftrightarrow> fst bounds \<le> int i \<and> int i < snd bounds"

definition projectRows :: "view_env \<Rightarrow> tui \<Rightarrow> int \<Rightarrow> int \<times> int \<Rightarrow> string \<Rightarrow> view_line list" where
  "projectRows env m width bounds p =
     (let indices = childrenOf (tuItems m) p; shown = filter (inRange bounds) indices
      in if shown = [] then []
         else sectionLine ('' '' @ p) #
           map (\<lambda>i. renderProcessRow env (tuItems m ! i) (i = last indices) (int i = tuSelected m) width) shown)"

text \<open>\<open>renderProcessTree\<close>: it returns once it has as many lines as there is room for, after a row.\<close>

fun addProjects :: "nat \<Rightarrow> view_line list \<Rightarrow> view_line list list \<Rightarrow> view_line list" where
  "addProjects capacity lines [] = lines"
| "addProjects capacity lines ([] # groups) = addProjects capacity lines groups"
| "addProjects capacity lines ((heading # rows) # groups) =
     (let room = max 1 (capacity - (length lines + 1))
      in if rows \<noteq> [] \<and> capacity \<le> length lines + 1 + length rows then lines @ heading # take room rows
         else addProjects capacity (lines @ heading # rows) groups)"

definition renderProcessTree :: "view_env \<Rightarrow> tui \<Rightarrow> int \<Rightarrow> int \<Rightarrow> view_line list" where
  "renderProcessTree env m width capacity =
     (let bounds = navigatorRange m (max 1 (capacity div 2))
      in addProjects (nat capacity) [] (map (projectRows env m width bounds) (projectOrder (tuItems m))))"

definition renderNavigator :: "view_env \<Rightarrow> tui \<Rightarrow> int \<Rightarrow> int \<Rightarrow> view" where
  "renderNavigator env m width height =
     Box width height 0 (fitLines env
       (if tuLoading m then [muted ''loading registered processes...'']
        else if tuRegistry m = RegistryUnavailable then [muted ''process list unavailable.'']
        else if tuItems m = [] then [muted ''no process definitions.'']
        else renderProcessTree env m (width - 2) (max 1 (height - 1))) (width - 2) height)"

definition outputLine :: "view_env \<Rightarrow> output_stream \<times> string \<Rightarrow> view_line" where
  "outputLine env l = (case l of (stream, text) \<Rightarrow>
     [if stream = Stderr then Styled StderrStyle ''[stderr]'' else Styled StdoutStyle ''[stdout]'', Styled PlainStyle '' '',
      Styled PlainStyle (RenderOutput (veStrip env) text (veColor env))])"

definition panelOutputLines :: "view_env \<Rightarrow> tui \<Rightarrow> int \<Rightarrow> view_line list" where
  "panelOutputLines env m height =
     (let heading = sectionLine ''process output'' # (if tuTruncated m then [muted truncatedOutputMessage] else []);
          visible = visibleOutputLines m (max 1 (height - int (length heading)))
      in heading @ (if visible = [] then [muted ''no output yet.''] else map (outputLine env) visible))"

definition emptyAsDash :: "string \<Rightarrow> string" where
  "emptyAsDash v = (if v = [] then ''-'' else v)"

definition showNumber :: "int option \<Rightarrow> string" where
  "showNumber v = (case v of None \<Rightarrow> ''-'' | Some n \<Rightarrow> (if n < 0 then ''-'' else []) @ itoa (nat \<bar>n\<bar>))"

definition detailLines :: "view_env \<Rightarrow> tui \<Rightarrow> view_line list" where
  "detailLines env m =
     [sectionLine ''runtime details''] @
     (if tuDiagnostic m \<noteq> [] then [[Styled DangerStyle ''diagnostic  '', Styled PlainStyle (tuDiagnostic m)]] else []) @
     (if \<not> tuHasRuntime m then [muted ''no runtime has started.'']
      else let r = tuRuntime m in
        [plain (''instance  '' @ rInstanceID r @ ''    pid  '' @ showNumber (rPID r)),
         plain (''started   '' @ veTime env (rStartedAt r)),
         plain (''ended     '' @ veTime env (rFinishedAt r) @ ''    exit  '' @ showNumber (rExitCode r) @
           ''    reason  '' @ emptyAsDash (rTerminationReason r))])"

definition keyLine :: "shown_key \<Rightarrow> string \<Rightarrow> view_line" where
  "keyLine key action =
     [case key of Keys k \<Rightarrow> Styled KeyStyle k | KeyGlyph g \<Rightarrow> Glyph KeyStyle g, Styled PlainStyle '' '', Styled MutedStyle (map lower action)]"

definition keyLines :: "hint list \<Rightarrow> view_line" where
  "keyLines hints = (case hints of [] \<Rightarrow> [] | (k, a) # hs \<Rightarrow> keyLine k a @ concat (map (\<lambda>(k, a). Glyph PlainStyle Separator # keyLine k a) hs))"

definition helpLines :: "view_line list" where
  "helpLines =
     [sectionLine ''keyboard help'',
      keyLines [(KeyGlyph ArrowsLeftRight, ''switch workspace'')],
      keyLines [(KeyGlyph ArrowsUpDown, ''move selection'')],
      keyLines [(Keys ''enter'', ''manage selected process'')],
      keyLines [(Keys ''s'', ''start''), (Keys ''x'', ''stop''), (Keys ''r'', ''restart'')],
      keyLines [(Keys ''pgup'', ''page up''), (Keys ''pgdn'', ''page down'')],
      keyLines [(Keys ''l'', ''refresh''), (Keys ''d'', ''details''), (Keys ''?'', ''close help''), (Keys ''q'', ''quit'')]]"

definition setupLines :: "view_line list" where
  "setupLines =
     [sectionLine ''register your first process'', [],
      plain ''run these commands in another terminal:'',
      plain ''dovik project add --id PROJECT --root \"ROOT\"'',
      plain ''dovik process add --project PROJECT --id PROCESS'',
      plain ''  --command \"COMMAND\"'',
      plain ''the process command above is one line.'', [],
      plain ''replace PROJECT and PROCESS with your chosen IDs.'',
      plain ''ROOT is an absolute folder; COMMAND is an executable.'',
      plain ''add --arg VALUE for each command argument.'', [],
      plain ''return here, press ? to close help, then l to refresh.'']"

definition renderWorkArea :: "view_env \<Rightarrow> tui \<Rightarrow> int \<Rightarrow> int \<Rightarrow> view" where
  "renderWorkArea env m width height =
     panel env width height
       (if tuShowHelp m then helpLines
        else if tuShowDetail m then detailLines env m
        else panelOutputLines env m (max 1 (height - 1)))"

text \<open>\<open>renderSummary\<close>; none: the selection is out of range and the program panics.\<close>

definition summaryState :: "tui \<Rightarrow> string" where
  "summaryState m =
     (if tuRegistry m = RegistryUnavailable \<or> (\<not> tuStatusKnown m \<and> tuDiagnostic m \<noteq> []) then ''unavailable''
      else if tuStatusKnown m then stateText (currentState m)
      else ''loading'')"

definition renderSummary :: "view_env \<Rightarrow> tui \<Rightarrow> int \<Rightarrow> int \<Rightarrow> view option" where
  "renderSummary env m width height =
     map_option (\<lambda>item.
       Box width height 1 (fitLines env
         (field_lines ''process'' (keyProcess (tiKey item)) @ field_lines ''project'' (keyProject (tiKey item)) @
          [[Styled LabelStyle ''status''], [Styled PlainStyle ''  '', renderState (veColor env) (summaryState m)]] @
          field_lines ''command'' (tiCommand item) @
          (if tuLoading m then [muted ''refreshing process list...'']
           else if tuNotice m \<noteq> [] then [[Styled (if tuDiagnostic m \<noteq> [] then DangerStyle else AttentionStyle) (tuNotice m)]]
           else []))
         (width - 2) (height - 1)))
       (selectedItem m)"

definition registryLines :: "tui \<Rightarrow> view_line list" where
  "registryLines m =
     (case tuRegistry m of
        RegistryLoading \<Rightarrow> [sectionLine ''loading processes...'', [], muted ''waiting for the daemon.'']
      | RegistryUnavailable \<Rightarrow>
          [sectionLine ''process data is unavailable'', [],
           if tuDaemonStarting m then [Styled AttentionStyle ''starting daemon...'']
           else if tuNotice m \<noteq> [] then [Styled DangerStyle (tuNotice m)]
           else if tuLauncher m then plain ''Press s to start the daemon, or l to retry the connection.''
           else plain ''Check that the daemon is running, then press l to retry.'']
      | RegistryEmpty \<Rightarrow>
          [sectionLine ''no processes registered'', [], plain ''register a project and process using the CLI.'',
           plain ''press ? for setup commands, then l to refresh.'']
      | RegistryPopulated \<Rightarrow> [])"

definition renderRegistryState :: "view_env \<Rightarrow> tui \<Rightarrow> int \<Rightarrow> int \<Rightarrow> view" where
  "renderRegistryState env m width height =
     (let lines = registryLines m;
          shown = (if tuShowHelp m then
                     (if tuRegistry m = RegistryEmpty then setupLines
                      else lines @ [[]] @
                        (if tuLauncher m \<and> \<not> tuDaemonStarting m then [keyLines [(Keys ''s'', ''Start daemon'')]] else []) @
                        [keyLines [(Keys ''l'', ''Retry when ready'')], keyLines [(Keys ''?'', ''Close help'')], keyLines [(Keys ''q'', ''Quit'')]])
                   else if tuShowDetail m \<and> tuDiagnostic m \<noteq> []
                   then lines @ [[], sectionLine ''Diagnostic details'', plain (tuDiagnostic m)]
                   else lines)
      in Box width height 2 (fitLines env shown (width - 4) (height - 2)))"

definition renderFullOutput :: "view_env \<Rightarrow> tui \<Rightarrow> int \<Rightarrow> int \<Rightarrow> view option" where
  "renderFullOutput env m width height =
     map_option (\<lambda>item.
       let heading = [inlineField ''process'' (keyProcess (tiKey item)), inlineField ''project'' (keyProject (tiKey item)),
               inlineField ''viewer'' (if tuFollow m then ''following'' else ''paused''), muted ''retained output - no shell'', []] @
               (if tuTruncated m then [muted truncatedOutputMessage] else []);
           shown = visibleOutputLines m (max 1 (height - int (length heading) - 1))
       in Box width height 1 (fitLines env
            (heading @ map (outputLine env) shown @ (if outputLines m = [] then [muted ''no output yet.''] else []))
            (max 1 (width - 4)) (max 1 (height - 1))))
       (selectedItem m)"

section \<open>The footers\<close>

definition outputHints :: "tui \<Rightarrow> hint list" where
  "outputHints m =
     [(Keys ''esc'', ''close''), (Keys ''f'', if tuFollow m then ''pause'' else ''follow''), (KeyGlyph ArrowsUpDown, ''scroll''),
      (Keys ''pgup pgdn'', ''page''), (Keys ''home'', ''top''), (Keys ''end'', ''bottom'')]"

text \<open>\<open>renderProcessActionBar\<close>: a word in place of the actions while one is pending.\<close>

definition actionHints :: "tui \<Rightarrow> hint list" where
  "actionHints m =
     (if tuPending m \<or> \<not> tuStatusKnown m \<or> tuRegistry m = RegistryUnavailable \<or> tuLoading m then []
      else if IsActive (currentState m) then [(Keys ''x'', ''stop''), (Keys ''r'', ''restart'')]
      else [(Keys ''s'', ''start'')])"

definition renderProcessActionBar :: "tui \<Rightarrow> int \<Rightarrow> view" where
  "renderProcessActionBar m width =
     ActionBar width (if tuPending m then [Styled AttentionStyle ''working...''] else []) (actionHints m)"

definition processHints :: "tui \<Rightarrow> int \<Rightarrow> hint list" where
  "processHints m width =
     (let reachable = (tuRegistry m \<noteq> RegistryUnavailable); free = (\<not> tuPending m \<and> \<not> tuLoading m)
      in (if 1 < length (tuItems m) \<and> free \<and> reachable then [(KeyGlyph ArrowsUpDown, ''move'')] else []) @
         (if tuItems m \<noteq> [] \<and> free \<and> reachable then [(Keys ''enter'', ''manage'')] else []) @
         (if tuItems m \<noteq> [] \<and> reachable then [(Keys ''o'', ''output'')] else []) @
         (if free \<and> \<not> tuDaemonStarting m then
            (if \<not> reachable \<and> tuLauncher m then [(Keys ''s'', ''start daemon'')] else []) @
            [(Keys ''l'', if \<not> reachable \<or> (\<not> tuStatusKnown m \<and> tuDiagnostic m \<noteq> []) then ''retry'' else ''refresh'')]
          else []) @
         [(KeyGlyph ArrowsLeftRight, ''tabs'')] @
         (if tuShowDetail m then [(Keys ''d'', ''close details'')] else if tuDiagnostic m \<noteq> [] then [(Keys ''d'', ''details'')] else []) @
         (if tuShowHelp m then [(Keys ''?'', ''close help'')]
          else if tuRegistry m = RegistryEmpty then [(Keys ''?'', ''setup help'')]
          else if 120 \<le> width then [(Keys ''?'', ''help'')] else []) @
         [(Keys ''q'', ''quit'')])"

definition projectHints :: "tui \<Rightarrow> hint list" where
  "projectHints m =
     (if 1 < length (stProjects (ssState (tuIdentities m))) \<and> \<not> tuIdentityLoading m then [(KeyGlyph ArrowsUpDown, ''move'')] else []) @
     (if \<not> tuIdentityLoading m \<and> tuIdentityError m = [] \<and> \<not> tuPending m \<and> \<not> tuDaemonStarting m \<and> tuRegistry m \<noteq> RegistryUnavailable
      then [(Keys ''enter'', ''edit'')] else []) @
     [(Keys ''l'', ''refresh''), (KeyGlyph ArrowsLeftRight, ''tabs''), (Keys ''q'', ''quit'')]"

definition personaHints :: "tui \<Rightarrow> hint list" where
  "personaHints m =
     (if 1 < length (stPersonas (ssState (tuIdentities m))) \<and> \<not> tuIdentityLoading m then [(KeyGlyph ArrowsUpDown, ''move'')] else []) @
     (if stPersonas (ssState (tuIdentities m)) \<noteq> [] \<and> \<not> tuIdentityLoading m \<and> tuIdentityError m = [] then [(Keys ''enter'', ''edit'')] else []) @
     [(Keys ''l'', ''refresh''), (KeyGlyph ArrowsLeftRight, ''tabs''), (Keys ''q'', ''quit'')]"

section \<open>The header\<close>

definition runningProcessCount :: "tui \<Rightarrow> nat" where
  "runningProcessCount m = length (filter (\<lambda>item. tiKnown item \<and> tiState item = Running) (tuItems m))"

text \<open>The tabs with their counts, and which of them is active.\<close>

definition workspaceTabs :: "tui \<Rightarrow> (string \<times> bool) list" where
  "workspaceTabs m =
     [(''personas ('' @ itoa (length (stPersonas (ssState (tuIdentities m)))) @ '')'', tuWorkspace m = WorkspacePersonas),
      (''projects ('' @ itoa (length (stProjects (ssState (tuIdentities m)))) @ '')'', tuWorkspace m = WorkspaceProjects),
      (''processes ('' @ itoa (runningProcessCount m) @ ''/'' @ itoa (length (tuItems m)) @ '')'', tuWorkspace m = WorkspaceProcesses)]"

definition daemonIndicator :: "tui \<Rightarrow> string" where
  "daemonIndicator m =
     (if tuDaemonStarting m then ''daemon starting''
      else case tuRegistry m of
             RegistryEmpty \<Rightarrow> ''daemon online'' | RegistryPopulated \<Rightarrow> ''daemon online''
           | RegistryUnavailable \<Rightarrow> ''daemon offline'' | RegistryLoading \<Rightarrow> ''daemon checking'')"

definition renderHeader :: "tui \<Rightarrow> int \<Rightarrow> view" where
  "renderHeader m width = Header width (workspaceTabs m) (daemonIndicator m)"

section \<open>Projects and personas\<close>

definition windowRange :: "nat \<Rightarrow> int \<Rightarrow> int \<Rightarrow> int \<times> int" where
  "windowRange n selected capacity =
     (let start = max 0 (selected - capacity div 2); finish = min (int n) (start + capacity) in (max 0 (finish - capacity), finish))"

definition nameRow :: "string \<Rightarrow> bool \<Rightarrow> view_line" where
  "nameRow name selected = (if selected then [Glyph SelectedStyle Selector, Styled SelectedStyle ('' '' @ name)] else [Styled ProjectStyle (''  '' @ name)])"

definition renderNames :: "view_env \<Rightarrow> string list \<Rightarrow> int \<Rightarrow> int \<Rightarrow> int \<Rightarrow> view" where
  "renderNames env names selected width height =
     (let bounds = windowRange (length names) selected (max 1 height)
      in Box width height 0 (fitLines env
           (map (\<lambda>i. nameRow (names ! i) (int i = selected)) (filter (inRange bounds) [0..<length names])) (width - 2) height))"

definition humanizeIdentityLabel :: "string \<Rightarrow> string" where
  "humanizeIdentityLabel v =
     (case map (\<lambda>c. if c = CHR ''-'' then CHR '' '' else c) v of [] \<Rightarrow> ''Not configured'' | c # cs \<Rightarrow> toUpper [c] @ cs)"

definition emptyAsNotConfigured :: "string \<Rightarrow> string" where
  "emptyAsNotConfigured v = (if trimSpace v = [] then ''not configured'' else v)"

definition operationMarker :: "bool \<Rightarrow> piece" where
  "operationMarker allowed = (if allowed then Glyph SuccessStyle FullDot else Glyph PlainStyle EmptyDot)"

definition operationCell :: "policy \<Rightarrow> string \<Rightarrow> view_line" where
  "operationCell policy operation =
     [Styled PlainStyle ''  '', operationMarker (Allows policy operation), Styled PlainStyle '' '', Styled ValueStyle operation]"

text \<open>The operations in one column or two; a cell is four columns wider than its operation.\<close>

fun gridRows :: "policy \<Rightarrow> nat \<Rightarrow> string list \<Rightarrow> view_line list" where
  "gridRows policy cell [] = []"
| "gridRows policy cell [a] = [operationCell policy a]"
| "gridRows policy cell (a # b # rest) =
     (operationCell policy a @ [Styled PlainStyle (replicate (max 2 (cell - (4 + length a))) (CHR '' ''))] @ operationCell policy b)
       # gridRows policy cell rest"

definition renderOperationGrid :: "policy \<Rightarrow> int \<Rightarrow> view_line list" where
  "renderOperationGrid policy width =
     (if 46 \<le> width then gridRows policy (nat (width div 2)) RepositoryOperations
      else map (operationCell policy) RepositoryOperations)"

definition zeroPersonaOf :: "identity_state \<Rightarrow> string \<Rightarrow> persona" where
  "zeroPersonaOf s i = (case FindPersona s i of Inl e \<Rightarrow> zeroPersona | Inr p \<Rightarrow> p)"

definition sessionSummary :: "session list \<Rightarrow> string \<Rightarrow> string" where
  "sessionSummary sessions i =
     (let mine = filter (\<lambda>s. seProjectID s = i) sessions; active = filter (\<lambda>s. seStatus s = ''active'') mine
      in if mine = [] then ''no isolated sessions''
         else itoa (length active) @ '' active, '' @ itoa (length mine - length active) @ '' waiting'')"

text \<open>The fields of a project, as labels and values.\<close>

definition descriptionField :: "project \<Rightarrow> (string \<times> string) list" where
  "descriptionField p = (let d = joinWith '' '' (fields_of (prDescription p)) in if d = [] then [] else [(''description'', d)])"

definition projectFieldsAbove :: "tui \<Rightarrow> project \<Rightarrow> (string \<times> string) list" where
  "projectFieldsAbove m p =
     (let persona = zeroPersonaOf (ssState (tuIdentities m)) (prPersona p)
      in [(''repository'', if peHost persona = [] then prRepository p else peHost persona @ ''/'' @ prRepository p),
          (''persona'', if peAccount persona = [] then ''not assigned'' else peName persona @ ''  @'' @ peAccount persona),
          (''git author'', if peGitName persona = [] \<and> peGitEmail persona = [] then ''not configured''
             else trimSpace (peGitName persona @ '' <'' @ peGitEmail persona @ ''>''))])"

definition projectFieldsBelow :: "tui \<Rightarrow> project \<Rightarrow> (string \<times> string) list" where
  "projectFieldsBelow m p =
     [(''persona switching'', if Allows (prPolicy p) ''persona'' then ''allowed'' else ''not allowed''),
      (''agent sessions'', sessionSummary (ssSessions (tuIdentities m)) (prID p))]"

definition boundaryLine :: "project \<Rightarrow> view_line" where
  "boundaryLine p = muted (if prMode p = ''proxy-level'' then ''same-user applications are outside this boundary.''
     else ''commands use the assigned identity and policy.'')"

definition asFields :: "(string \<times> string) list \<Rightarrow> view_line list" where
  "asFields fs = concat (map (\<lambda>(label, v). field_lines label v) fs)"

definition asInline :: "(string \<times> string) list \<Rightarrow> view_line list" where
  "asInline fs = map (\<lambda>(label, v). inlineField label v) fs"

definition renderCompactIdentityDetails :: "view_env \<Rightarrow> tui \<Rightarrow> project \<Rightarrow> int \<Rightarrow> int \<Rightarrow> view" where
  "renderCompactIdentityDetails env m p width height =
     (let lines = field_lines ''project'' (prName p) @ asInline (descriptionField p @ projectFieldsAbove m p) @
            field_lines ''protection'' (humanizeIdentityLabel (prMode p)) @ asInline [(''policy'', humanizeIdentityLabel (polPreset (prPolicy p)))] @
            [sectionLine ''repository operations''] @ renderOperationGrid (prPolicy p) (max 1 (width - 4)) @ asInline (projectFieldsBelow m p)
      in Box width height 0 (fitLines env (lines @ (if int (length lines) < height then [boundaryLine p] else [])) (max 1 (width - 4)) (max 1 height)))"

definition renderIdentityDetails :: "view_env \<Rightarrow> tui \<Rightarrow> project \<Rightarrow> int \<Rightarrow> int \<Rightarrow> view" where
  "renderIdentityDetails env m p width height =
     (if height < 22 then renderCompactIdentityDetails env m p width height
      else Box width height 1 (fitLines env
        (asFields ((''project'', prName p) # descriptionField p @ projectFieldsAbove m p @
           [(''protection'', humanizeIdentityLabel (prMode p)), (''policy'', humanizeIdentityLabel (polPreset (prPolicy p)))]) @
         [sectionLine ''repository operations''] @ renderOperationGrid (prPolicy p) (max 1 (width - 4)) @
         asFields (projectFieldsBelow m p) @ [boundaryLine p]) (max 1 (width - 4)) (max 1 (height - 1))))"

definition personaFieldList :: "persona \<Rightarrow> (string \<times> string) list" where
  "personaFieldList p =
     [(''persona id'', peID p), (''github account'', if peAccount p = [] then ''not configured'' else ''@'' @ peAccount p),
      (''github host'', if peHost p = [] then ''not configured'' else peHost p),
      (''git author name'', emptyAsNotConfigured (peGitName p)), (''git author email'', emptyAsNotConfigured (peGitEmail p))]"

definition assignedProjects :: "tui \<Rightarrow> persona \<Rightarrow> string list" where
  "assignedProjects m p = map prName (filter (\<lambda>q. prPersona q = peID p) (stProjects (ssState (tuIdentities m))))"

definition assignedLine :: "string \<Rightarrow> view_line" where
  "assignedLine name = [Styled PlainStyle ''  '', operationMarker True, Styled PlainStyle '' '', Styled ValueStyle name]"

definition notAssigned :: view_line where
  "notAssigned = [Styled MutedStyle ''  '', Glyph MutedStyle EmptyDot, Styled MutedStyle '' not assigned to a project'']"

text \<open>The last visible project gives way to the number of those that are left out.\<close>

definition renderCompactPersonaDetails :: "view_env \<Rightarrow> persona \<Rightarrow> string list \<Rightarrow> int \<Rightarrow> int \<Rightarrow> view" where
  "renderCompactPersonaDetails env p projects width height =
     (let lines = field_lines ''persona'' (peName p) @ asInline (personaFieldList p) @ [sectionLine ''assigned projects''];
          available = max 1 (height - int (length lines)); visible = min (length projects) (nat available);
          shown = map assignedLine (take visible projects)
      in Box width height 0 (fitLines env
           (lines @ (if projects = [] then [notAssigned]
              else if visible < length projects then butlast shown @ [muted (''... '' @ itoa (length projects - visible + 1) @ '' more'')]
              else shown)) (max 1 (width - 4)) (max 1 height)))"

definition renderPersonaDetails :: "view_env \<Rightarrow> tui \<Rightarrow> persona \<Rightarrow> int \<Rightarrow> int \<Rightarrow> view" where
  "renderPersonaDetails env m p width height =
     (let projects = assignedProjects m p
      in if height < 22 then renderCompactPersonaDetails env p projects width height
         else Box width height 1 (fitLines env
           (asFields ((''persona'', peName p) # personaFieldList p) @ [sectionLine ''assigned projects''] @
            (if projects = [] then [notAssigned] else map assignedLine projects)) (max 1 (width - 4)) (max 1 (height - 1))))"

definition renderIdentityState :: "view_env \<Rightarrow> int \<Rightarrow> int \<Rightarrow> string \<Rightarrow> string \<Rightarrow> view" where
  "renderIdentityState env width height title message =
     Box width height 4 (fitLines env [sectionLine title, [], muted message] (max 1 (width - 6)) (max 1 (height - 2)))"

section \<open>The workspaces\<close>

definition joined :: "bool \<Rightarrow> view \<Rightarrow> view \<Rightarrow> view" where
  "joined wide navigator pane = (if wide then Beside [navigator, pane] else Above [navigator, pane])"

definition screen :: "tui \<Rightarrow> view \<Rightarrow> view list \<Rightarrow> view" where
  "screen m body footer = Above ([renderHeader m (fst (viewportSize m)), body] @ footer)"

text \<open>The height of the details beside or below the list of names.\<close>

definition detailsHeight :: "workspace_layout \<Rightarrow> int" where
  "detailsHeight l = (if wlWide l then wlBodyHeight l else max 1 (wlBodyHeight l - wlNavigatorHeight l))"

definition identityView :: "view_env \<Rightarrow> tui \<Rightarrow> view option" where
  "identityView env m =
     (let (width, height) = viewportSize m; projects = stProjects (ssState (tuIdentities m)); l = workspaceLayout m;
          message = renderIdentityState env width (max 1 (height - 2));
          body = (if tuIdentityLoading m then Some (message ''loading projects'' ''reading project identity and session state...'')
            else if tuIdentityError m \<noteq> []
            then Some (message ''projects unavailable'' ''press l to retry. process management remains available from the processes tab.'')
            else if projects = []
            then Some (message ''no projects configured'' ''GitHub CLI works normally. configure a repository when you want to assign a project identity.'')
            else map_option (\<lambda>p. joined (wlWide l)
                (renderNames env (map prName projects) (min (tuIdentitySelected m) (int (length projects) - 1)) (wlNavigatorWidth l) (wlNavigatorHeight l))
                (renderIdentityDetails env m p (wlSummaryWidth l) (detailsHeight l))) (chosen projects (tuIdentitySelected m)))
      in map_option (\<lambda>v. screen m v [Bar width (projectHints m)]) body)"

definition personaView :: "view_env \<Rightarrow> tui \<Rightarrow> view option" where
  "personaView env m =
     (let (width, height) = viewportSize m; personas = stPersonas (ssState (tuIdentities m)); l = workspaceLayout m;
          message = renderIdentityState env width (max 1 (height - 2));
          body = (if tuIdentityLoading m then Some (message ''loading personas'' ''reading saved personas and project assignments...'')
            else if tuIdentityError m \<noteq> []
            then Some (message ''personas unavailable'' ''press l to retry. processes remain available from the processes tab.'')
            else if personas = []
            then Some (message ''no personas configured'' ''configure a repository identity to create or assign a persona.'')
            else map_option (\<lambda>p. joined (wlWide l)
                (renderNames env (map peName personas) (min (tuPersonaSelected m) (int (length personas) - 1)) (wlNavigatorWidth l) (wlNavigatorHeight l))
                (renderPersonaDetails env m p (wlSummaryWidth l) (detailsHeight l))) (chosen personas (tuPersonaSelected m)))
      in map_option (\<lambda>v. screen m v [Bar width (personaHints m)]) body)"

definition renderProcessWorkspace :: "view_env \<Rightarrow> tui \<Rightarrow> view option" where
  "renderProcessWorkspace env m =
     (let width = fst (viewportSize m); l = processWorkspaceLayout m
      in if tuShowOutput m \<and> tuItems m \<noteq> [] then
           map_option (\<lambda>v. screen m v [Bar width (outputHints m)]) (renderFullOutput env m width (wlBodyHeight l))
         else
           (let navigator = renderNavigator env m (wlNavigatorWidth l) (wlNavigatorHeight l);
                work = (if tuItems m = [] then Some (renderRegistryState env m (wlSummaryWidth l) (detailsHeight l))
                        else map_option (\<lambda>summary. Above [summary, renderWorkArea env m (wlOutputWidth l) (wlOutputHeight l)])
                               (renderSummary env m (wlSummaryWidth l) (wlSummaryHeight l)));
                footer = (if tuItems m \<noteq> [] \<and> tuRegistry m \<noteq> RegistryUnavailable then [renderProcessActionBar m width] else []) @
                         [Bar width (processHints m width)]
            in map_option (\<lambda>w. screen m (joined (wlWide l) navigator w) footer) work))"

definition editorHints :: "tui \<Rightarrow> hint list" where
  "editorHints m =
     (if tuConfirmation m \<noteq> None
      then [(KeyGlyph ArrowLeft, ''previous''), (KeyGlyph ArrowRight, ''next''), (Keys ''enter'', ''confirm''), (Keys ''esc'', ''cancel'')]
      else (case tuEditor m of
              Some e \<Rightarrow> if edKind e = EditorProcess then [(KeyGlyph ArrowsUpDown, ''move''), (Keys ''enter'', ''select'')]
                        else [(Keys ''tab'', ''next field''), (Keys ''shift+tab'', ''previous field''), (Keys ''enter'', ''continue'')]
            | None \<Rightarrow> [(Keys ''tab'', ''next field''), (Keys ''shift+tab'', ''previous field''), (Keys ''enter'', ''continue'')]) @
           [(Keys ''esc'', ''cancel'')])"

definition confirmationText :: "tui \<Rightarrow> editor_kind \<Rightarrow> string" where
  "confirmationText m kind =
     (case tuEditor m of
        None \<Rightarrow> ''save this configuration?''
      | Some e \<Rightarrow>
          if kind = EditorProject then ''save project '' @ prName (edProject e) @ '' with persona '' @ prPersona (edProject e) @ ''?''
          else if kind = EditorPersona then ''save persona '' @ peName (edPersona e) @ '' (@'' @ peAccount (edPersona e) @ '')?''
          else ''save this configuration?'')"

definition editorTitle :: "tui \<Rightarrow> string" where
  "editorTitle m = (case tuEditor m of None \<Rightarrow> []
     | Some e \<Rightarrow> (case edKind e of EditorProcess \<Rightarrow> ''manage process'' | EditorProject \<Rightarrow> ''edit project'' | EditorPersona \<Rightarrow> ''edit persona''))"

text \<open>The navigator of an editor: the list of its workspace, dimmed.\<close>

definition renderEditorNavigator :: "view_env \<Rightarrow> tui \<Rightarrow> workspace_layout \<Rightarrow> view" where
  "renderEditorNavigator env m l =
     (case tuWorkspace m of
        WorkspaceProjects \<Rightarrow> renderNames env (map prName (stProjects (ssState (tuIdentities m)))) (tuIdentitySelected m) (wlNavigatorWidth l) (wlNavigatorHeight l)
      | WorkspacePersonas \<Rightarrow> renderNames env (map peName (stPersonas (ssState (tuIdentities m)))) (tuPersonaSelected m) (wlNavigatorWidth l) (wlNavigatorHeight l)
      | WorkspaceProcesses \<Rightarrow> renderNavigator env m (wlNavigatorWidth l) (wlNavigatorHeight l))"

definition renderEditorWorkspace :: "view_env \<Rightarrow> tui \<Rightarrow> view" where
  "renderEditorWorkspace env m =
     (let width = fst (viewportSize m); l = workspaceLayout m; panelWidth = (if wlWide l then wlSummaryWidth l else width)
      in screen m (joined (wlWide l) (renderEditorNavigator env m l) (Drawn panelWidth (detailsHeight l))) [Bar width (editorHints m)])"

definition showInt64 :: "int \<Rightarrow> string" where
  "showInt64 n = showNumber (Some n)"

definition smallTerminalLines :: "tui \<Rightarrow> view_line list" where
  "smallTerminalLines m =
     [plain ''DOVIK'', [],
      plain (''Terminal too small: need at least 64x18, current '' @ showInt64 (tuWidth m) @ ''x'' @ showInt64 (tuHeight m) @ ''.''), []] @
     (if tuShowHelp m then [plain ''? close help'', plain ''q quit''] else [plain ''? help  q quit''])"

definition tooSmall :: "tui \<Rightarrow> bool" where
  "tooSmall m \<longleftrightarrow> 0 < tuWidth m \<and> 0 < tuHeight m \<and> (tuWidth m < 64 \<or> tuHeight m < 18)"

text \<open>\<open>render\<close>; none: it panics.\<close>

definition render :: "view_env \<Rightarrow> tui \<Rightarrow> view option" where
  "render env m =
     (if tooSmall m then Some (Box (tuWidth m) (tuHeight m) 0 (smallTerminalLines m))
      else if tuConfirmation m \<noteq> None \<or> tuEditor m \<noteq> None then Some (renderEditorWorkspace env m)
      else case tuWorkspace m of
             WorkspaceProjects \<Rightarrow> identityView env m
           | WorkspacePersonas \<Rightarrow> personaView env m
           | WorkspaceProcesses \<Rightarrow> renderProcessWorkspace env m)"

end
