(* ===== verification/TuiViewProperties.thy ===== *)
theory TuiViewProperties
  imports TuiView
begin

text \<open>
  What holds of the screens of the terminal interface: they can always be drawn, they fill the terminal and
  no box overflows, the selection is visible, and the footers name the keys that work.
\<close>

section \<open>Drawing\<close>


lemma workspace_drawn: "tui_inv m \<Longrightarrow> renderProcessWorkspace env m \<noteq> None"
  using selectedItem_ok [of m] by (simp add: tui_inv_def renderProcessWorkspace_def renderFullOutput_def renderSummary_def Let_def)


section \<open>Sizes\<close>

fun viewHeight :: "view \<Rightarrow> int" where
  "viewHeight (Box w h p ls) = h"
| "viewHeight (Header w tabs d) = 1"
| "viewHeight (Bar w hs) = 1"
| "viewHeight (ActionBar w l hs) = 1"
| "viewHeight (Above vs) = sum_list (map viewHeight vs)"
| "viewHeight (Beside vs) = foldr max (map viewHeight vs) 0"
| "viewHeight (Drawn w h) = h"

text \<open>No box has more lines than there is room for below its padding.\<close>

fun boxesFit :: "view \<Rightarrow> bool" where
  "boxesFit (Box w h p ls) \<longleftrightarrow> p + int (length ls) \<le> h"
| "boxesFit (Above vs) \<longleftrightarrow> list_all boxesFit vs"
| "boxesFit (Beside vs) \<longleftrightarrow> list_all boxesFit vs"
| "boxesFit _ \<longleftrightarrow> True"

lemma fitLines_length: "0 \<le> height \<Longrightarrow> int (length (fitLines env lines width height)) \<le> height"
  by (simp add: fitLines_def Let_def)

lemma fitted_box: "0 \<le> height \<Longrightarrow> p + height \<le> h \<Longrightarrow> p + int (length (fitLines env lines width height)) \<le> h"
  using fitLines_length [of height env lines width] by simp

lemma panel_fits: "1 \<le> h \<Longrightarrow> boxesFit (panel env w h ls)"
  unfolding panel_def boxesFit.simps by (rule fitted_box) simp_all

lemma navigator_fits: "0 \<le> h \<Longrightarrow> boxesFit (renderNavigator env m w h)"
  unfolding renderNavigator_def boxesFit.simps by (rule fitted_box) simp_all

lemma summary_fits: "1 \<le> h \<Longrightarrow> renderSummary env m w h = Some v \<Longrightarrow> boxesFit v \<and> viewHeight v = h"
  using fitted_box [of "h - 1" 1 h] by (auto simp: renderSummary_def)

lemma registry_fits: "2 \<le> h \<Longrightarrow> boxesFit (renderRegistryState env m w h)"
  unfolding renderRegistryState_def Let_def boxesFit.simps by (rule fitted_box) simp_all

lemma full_fits: "2 \<le> h \<Longrightarrow> renderFullOutput env m w h = Some v \<Longrightarrow> boxesFit v \<and> viewHeight v = h"
  using fitted_box [of "max 1 (h - 1)" 1 h] by (auto simp: renderFullOutput_def Let_def)

lemma heights [simp]:
  "viewHeight (renderNavigator env m w h) = h" "viewHeight (renderWorkArea env m w h) = h" "viewHeight (renderRegistryState env m w h) = h"
  "viewHeight (renderHeader m w) = 1" "viewHeight (renderProcessActionBar m w) = 1"
  "boxesFit (renderHeader m w)" "boxesFit (renderProcessActionBar m w)"
  by (simp_all add: renderNavigator_def renderWorkArea_def panel_def renderRegistryState_def Let_def renderHeader_def renderProcessActionBar_def)

lemma workArea_fits: "1 \<le> h \<Longrightarrow> boxesFit (renderWorkArea env m w h)"
  unfolding renderWorkArea_def by (rule panel_fits)

text \<open>The layout of the workspace of the processes, with the header and the rows of its footer.\<close>

definition footerRows :: "tui \<Rightarrow> int" where
  "footerRows m = (if tuItems m \<noteq> [] \<and> tuRegistry m \<noteq> RegistryUnavailable then 2 else 1)"

lemma process_layout:
  fixes m defines "l \<equiv> processWorkspaceLayout m"
  assumes "64 \<le> tuWidth m" and "18 \<le> tuHeight m"
  shows "1 + wlBodyHeight l + footerRows m = tuHeight m" "0 \<le> wlNavigatorHeight l" "1 \<le> wlSummaryHeight l" "1 \<le> wlOutputHeight l"
    "2 \<le> detailsHeight l" "2 \<le> wlBodyHeight l"
    "wlWide l \<Longrightarrow> wlNavigatorHeight l = wlBodyHeight l \<and> wlSummaryHeight l + wlOutputHeight l = wlBodyHeight l \<and> detailsHeight l = wlBodyHeight l"
    "\<not> wlWide l \<Longrightarrow> wlNavigatorHeight l + wlSummaryHeight l + wlOutputHeight l = wlBodyHeight l \<and> wlNavigatorHeight l + detailsHeight l = wlBodyHeight l"
  using layout_fits [OF assms(2,3), of "footerRows m"]
  by (auto simp: l_def footerRows_def processWorkspaceLayout_def Let_def detailsHeight_def split: if_splits)

text \<open>C37: In a terminal of the least size or a larger one the workspace of the processes fills the screen,
  whatever is loaded, selected or open, and no box has more lines than fit into it.  Only the open output
  leaves one row unused: the row of the actions is reserved and not drawn.\<close>

theorem process_screen_fits:
  assumes "64 \<le> tuWidth m" and "18 \<le> tuHeight m" and "renderProcessWorkspace env m = Some v"
  shows "viewHeight v = tuHeight m - (if tuShowOutput m \<and> tuItems m \<noteq> [] \<and> tuRegistry m \<noteq> RegistryUnavailable then 1 else 0) \<and>
    boxesFit v"
proof -
  let ?l = "processWorkspaceLayout m"
  note l = process_layout [OF assms(1,2)]
  let ?width = "fst (viewportSize m)"
  consider (full) b where "tuShowOutput m" "tuItems m \<noteq> []" "renderFullOutput env m ?width (wlBodyHeight ?l) = Some b"
      "v = screen m b [Bar ?width (outputHints m)]"
    | (empty) "tuItems m = []" "v = screen m (joined (wlWide ?l) (renderNavigator env m (wlNavigatorWidth ?l) (wlNavigatorHeight ?l))
        (renderRegistryState env m (wlSummaryWidth ?l) (detailsHeight ?l))) [Bar ?width (processHints m ?width)]"
    | (normal) b where "\<not> tuShowOutput m" "tuItems m \<noteq> []" "renderSummary env m (wlSummaryWidth ?l) (wlSummaryHeight ?l) = Some b"
      "v = screen m (joined (wlWide ?l) (renderNavigator env m (wlNavigatorWidth ?l) (wlNavigatorHeight ?l))
        (Above [b, renderWorkArea env m (wlOutputWidth ?l) (wlOutputHeight ?l)]))
        ((if tuRegistry m \<noteq> RegistryUnavailable then [renderProcessActionBar m ?width] else []) @ [Bar ?width (processHints m ?width)])"
    using assms(3) by (auto simp: renderProcessWorkspace_def Let_def split: if_splits)
  then show ?thesis
  proof cases
    case full
    then show ?thesis using full_fits [OF l(6) full(3)] l(1) by (auto simp: screen_def footerRows_def)
  next
    case empty
    then show ?thesis using registry_fits [OF l(5)] navigator_fits [OF l(2)] l by (cases "wlWide ?l") (auto simp: screen_def footerRows_def joined_def)
  next
    case normal
    then show ?thesis using summary_fits [OF l(3) normal(3)] workArea_fits [OF l(4)] navigator_fits [OF l(2)] l
      by (cases "wlWide ?l") (auto simp: screen_def footerRows_def joined_def)
  qed
qed

section \<open>The selection is visible\<close>











lemma names_show:
  assumes "0 \<le> selected" and "selected < int (length names)" and "1 \<le> capacity"
  shows "nat selected \<in> set (filter (inRange (windowRange (length names) selected capacity)) [0..<length names])"
  using assms by (auto simp: windowRange_def inRange_def Let_def min_def max_def)

text \<open>All lines of the boxes of a view.\<close>

fun viewLines :: "view \<Rightarrow> view_line list" where
  "viewLines (Box w h p ls) = ls"
| "viewLines (Above vs) = concat (map viewLines vs)"
| "viewLines (Beside vs) = concat (map viewLines vs)"
| "viewLines _ = []"






text \<open>The list of the processes is on the screen, with headings that do not wrap.\<close>

definition listShown :: "tui \<Rightarrow> bool" where
  "listShown m \<longleftrightarrow> \<not> tooSmall m \<and> (tuWidth m \<le> 0 \<or> 64 \<le> tuWidth m) \<and> tuConfirmation m = None \<and> tuEditor m = None \<and> tuWorkspace m = WorkspaceProcesses \<and>
     \<not> tuShowOutput m \<and> tuItems m \<noteq> [] \<and> \<not> tuLoading m \<and> tuRegistry m \<noteq> RegistryUnavailable"








section \<open>The footers\<close>

text \<open>A key works if it changes the state or asks for something.\<close>

definition key_works :: "tui \<Rightarrow> string \<Rightarrow> bool" where
  "key_works m key \<longleftrightarrow> updateKey m key \<noteq> Some (m, NoCmd)"

text \<open>The states that are left when no answer of the daemon arrives unasked: the output is open only over a
  process, and the daemon is being started only while it is not available.\<close>

definition settled :: "tui \<Rightarrow> bool" where
  "settled m \<longleftrightarrow> tuWorkspace m = WorkspaceProcesses \<and> \<not> tuShowOutput m \<and>
     (\<not> tuDaemonStarting m \<or> tuRegistry m = RegistryUnavailable) \<and>
     (\<not> tuShowDetail m \<or> tuItems m \<noteq> [] \<or> tuDiagnostic m \<noteq> [])"

lemma updateKey_settled: "settled m \<Longrightarrow> key \<notin> {''left'', ''right'', ''q'', ''ctrl+c''} \<Longrightarrow> updateKey m key = updateProcessesKey m key"
  by (simp add: settled_def updateKey_def)

lemma differs: "f x \<noteq> f y \<Longrightarrow> x \<noteq> y"
  by blast

lemma toggled:
  "m\<lparr>tuShowHelp := \<not> tuShowHelp m\<rparr> \<noteq> m" "m\<lparr>tuShowDetail := \<not> tuShowDetail m\<rparr> \<noteq> m"
  "\<not> tuShowOutput m \<Longrightarrow> m\<lparr>tuShowOutput := True, tuFollow := False, tuScroll := 0\<rparr> \<noteq> m"
  by (rule differs [where f = tuShowHelp], simp, rule differs [where f = tuShowDetail], simp, rule differs [where f = tuShowOutput], simp)

lemma settled_shows: "settled m \<Longrightarrow> \<not> tuShowOutput m"
  by (simp add: settled_def)

lemma works_q: "settled m \<Longrightarrow> key_works m ''q''"
  by (simp add: key_works_def settled_def updateKey_def)

lemma works_help: "settled m \<Longrightarrow> key_works m ''?''"
  by (simp add: key_works_def updateKey_settled updateProcessesKey_def Let_def toggled)

lemma works_details: "settled m \<Longrightarrow> tuItems m \<noteq> [] \<or> tuDiagnostic m \<noteq> [] \<Longrightarrow> key_works m ''d''"
  by (simp add: key_works_def updateKey_settled updateProcessesKey_def Let_def toggled)

lemma works_refresh: "settled m \<Longrightarrow> \<not> tuPending m \<and> \<not> tuLoading m \<and> \<not> tuDaemonStarting m \<Longrightarrow> key_works m ''l''"
  by (simp add: key_works_def updateKey_settled updateProcessesKey_def Let_def)

lemma works_output: "settled m \<Longrightarrow> tuItems m \<noteq> [] \<and> tuRegistry m \<noteq> RegistryUnavailable \<Longrightarrow> key_works m ''o''"
  by (simp add: key_works_def updateKey_settled updateProcessesKey_def Let_def toggled(3) settled_shows)

lemma works_enter:
  "settled m \<Longrightarrow> tuItems m \<noteq> [] \<and> \<not> tuPending m \<and> \<not> tuLoading m \<and> tuRegistry m \<noteq> RegistryUnavailable \<Longrightarrow> key_works m ''enter''"
  by (simp add: key_works_def updateKey_settled updateProcessesKey_def Let_def openProcessEditor_def split: option.split)

lemma works_start_daemon:
  "settled m \<Longrightarrow> tuRegistry m = RegistryUnavailable \<and> tuLauncher m \<and> \<not> tuPending m \<and> \<not> tuLoading m \<and> \<not> tuDaemonStarting m \<Longrightarrow> key_works m ''s''"
  by (simp add: key_works_def updateKey_settled updateProcessesKey_def Let_def beginDaemonStart_def)

text \<open>The footer of the processes is honest: in a settled state every key it names works.\<close>

theorem hints_work:
  assumes "settled m" and "(Keys key, action) \<in> set (processHints m width)"
  shows "key_works m key"
  using assms works_q works_help works_details works_refresh works_output works_enter works_start_daemon
  unfolding settled_def [symmetric]
  by (auto simp: processHints_def Let_def settled_def split: if_splits)

text \<open>C38: The actions are offered exactly when they can be carried out: in a settled, reachable state with a process the key of
  an action asks the daemon for it if and only if the bar shows the key, and the request is for the selected process.\<close>

theorem actions_offered:
  assumes "tui_reachable tenv launcher m" and "settled m" and "tuItems m \<noteq> []"
    and "(key, action) \<in> {(''s'', ''start''), (''x'', ''stop''), (''r'', ''restart'')}"
  shows "(Keys key, action) \<in> set (actionHints m) \<longleftrightarrow>
    (\<exists>m'. updateKey m key = Some (m', ActionCmd action (tiKey (tuItems m ! nat (tuSelected m))) (tuGeneration m + 1)))"
proof -
  have sel: "0 \<le> tuSelected m" "tuSelected m < int (length (tuItems m))" using tui_inv_selection [OF reachable_inv [OF assms(1)] assms(3)] by simp_all
  have b: "(\<exists>m'. beginAction m action = Some (m', ActionCmd action (tiKey (tuItems m ! nat (tuSelected m))) (tuGeneration m + 1))) \<longleftrightarrow>
      \<not> (tuPending m \<or> tuLoading m \<or> tuDaemonStarting m \<or> tuRegistry m = RegistryUnavailable) \<and> actionAvailable m action"
    using sel assms(3) by (auto simp: beginAction_def Let_def selectedItem_def selectedKey_def actionAvailable_def)
  have bar: "(Keys key, action) \<in> set (actionHints m) \<longleftrightarrow>
      \<not> (tuPending m \<or> tuLoading m \<or> tuRegistry m = RegistryUnavailable) \<and> actionAvailable m action"
    using assms(4) by (elim insertE) (simp_all add: actionHints_def actionAvailable_def)
  have run: "updateKey m key = (if key = ''s'' \<and> tuRegistry m = RegistryUnavailable then Some (beginDaemonStart m) else beginAction m action)"
    using assms(4) by (elim insertE) (simp_all add: updateKey_settled [OF assms(2)] updateProcessesKey_def Let_def)
  show ?thesis
  proof (cases "tuRegistry m = RegistryUnavailable")
    case True
    then show ?thesis using b by (simp add: bar run beginDaemonStart_def)
  next
    case False
    then show ?thesis using b assms(2) by (simp add: bar run settled_def)
  qed
qed

section \<open>Examples\<close>

text \<open>A registry with one process, which is stopped and has written one line.\<close>

definition shown_item :: process_item where
  "shown_item = \<lparr>tiKey = ProcessKey ''p'' ''q'', tiCommand = ''run'', tiState = Stopped, tiKnown = False\<rparr>"

definition shown_tail :: output_tail where
  "shown_tail = \<lparr>tEvents = [\<lparr>eSequence = 1, eCapturedAt = 0, eStream = Stdout, eData = ''a''\<rparr>], tTruncated = False\<rparr>"

definition loaded_model :: tui where
  "loaded_model = fst (applyRegistryLoaded ((NewModel True)\<lparr>tuWidth := 100, tuHeight := 30\<rparr>) (Inr [shown_item]))"

definition known_model :: tui where
  "known_model = applyRefresh loaded_model (ProcessKey ''p'' ''q'') (tuGeneration loaded_model) (Inr (zeroRuntime\<lparr>rState := Stopped\<rparr>, True, shown_tail))"

lemma sized_reachable: "tui_reachable env True ((NewModel True)\<lparr>tuWidth := 100, tuHeight := 30\<rparr>)"
  by (rule tui_reachable.step [OF tui_reachable.start, of _ _ "WindowSize 100 30"]) (simp add: TuiUpdate_def NewModel_def Let_def)

lemma loaded_reachable: "tui_reachable env True loaded_model"
  by (rule tui_reachable.step [OF sized_reachable, of _ "RegistryLoaded (Inr [shown_item])" _ "snd (applyRegistryLoaded ((NewModel True)\<lparr>tuWidth := 100, tuHeight := 30\<rparr>) (Inr [shown_item]))"])
    (simp add: TuiUpdate_def loaded_model_def)

lemma known_reachable: "tui_reachable env True known_model"
  by (rule tui_reachable.step [OF loaded_reachable, of _ "RefreshDone (ProcessKey ''p'' ''q'') (tuGeneration loaded_model) (Inr (zeroRuntime\<lparr>rState := Stopped\<rparr>, True, shown_tail))" _ NoCmd])
    (simp add: TuiUpdate_def known_model_def)

lemma known_settled: "settled known_model" "tuItems known_model \<noteq> []" "(Keys ''s'', ''start'') \<in> set (actionHints known_model)"
  by code_simp+

text \<open>A terminal with a cell for every character, in which lines are wrapped and cut between cells.\<close>

definition glyphWidth :: "glyph \<Rightarrow> int" where
  "glyphWidth g = (if g = Branch \<or> g = LastBranch then 2 else if g = ArrowsUpDown \<or> g = ArrowsLeftRight then 3 else 1)"

definition pieceWidth :: "piece \<Rightarrow> int" where
  "pieceWidth p = (case p of Styled style s \<Rightarrow> int (length s) | Glyph style g \<Rightarrow> glyphWidth g)"

definition lineWidth :: "view_line \<Rightarrow> int" where
  "lineWidth l = sum_list (map pieceWidth l)"

definition cellsOf :: "view_line \<Rightarrow> view_line" where
  "cellsOf l = concat (map (\<lambda>p. case p of Styled style s \<Rightarrow> map (\<lambda>c. Styled style [c]) s | Glyph style g \<Rightarrow> [p]) l)"

fun takeCells :: "int \<Rightarrow> view_line \<Rightarrow> view_line" where
  "takeCells room [] = []"
| "takeCells room (c # cs) = (if pieceWidth c \<le> room then c # takeCells (room - pieceWidth c) cs else [])"

fun wrapCells :: "int \<Rightarrow> view_line \<Rightarrow> int \<Rightarrow> view_line \<Rightarrow> view_line list" where
  "wrapCells w line room [] = [line]"
| "wrapCells w line room (c # cs) =
     (if pieceWidth c \<le> room then wrapCells w (line @ [c]) (room - pieceWidth c) cs
      else line # wrapCells w [c] (w - pieceWidth c) cs)"

definition cell_terminal :: view_env where
  "cell_terminal =
     \<lparr>veWidth = lineWidth,
      veWrap = (\<lambda>w l. if lineWidth l \<le> w then [l] else wrapCells w [] w (cellsOf l)),
      veTruncate = (\<lambda>w t l. if lineWidth l \<le> w then l else takeCells (w - int (length t)) (cellsOf l) @ [Styled PlainStyle t]),
      veStrip = (\<lambda>s. s), veColor = False, veTime = (\<lambda>t. [])\<rparr>"






text \<open>Long identifiers of projects.  Their headings are not cut but wrap, and in a small terminal the last of three
  processes, which is selected, is not on the screen.\<close>

definition long_item :: "char \<Rightarrow> process_item" where
  "long_item c = shown_item\<lparr>tiKey := ProcessKey (replicate 64 c) ''q''\<rparr>"

definition long_messages :: "tui_msg list" where
  "long_messages =
     [WindowSize 64 28, RegistryLoaded (Inr [long_item (CHR ''a''), long_item (CHR ''b''), long_item (CHR ''c'')]), KeyPress ''down'', KeyPress ''down'']"

theorem long_heading_hides:
  "case tuiRun sample_tui_env (NewModel True) NoCmd long_messages of
     None \<Rightarrow> False
   | Some (m, _) \<Rightarrow> listShown m \<and> tuSelected m = 2 \<and>
       (case render cell_terminal m of None \<Rightarrow> False
        | Some v \<Rightarrow> \<not> list_ex (\<lambda>l. l \<noteq> [] \<and> hd l = Glyph SelectedStyle Selector) (viewLines v))"
  by code_simp

theorem actions_offered_witness:
  "\<exists>m'. updateKey known_model ''s'' = Some (m', ActionCmd ''start'' (tiKey (tuItems known_model ! nat (tuSelected known_model))) (tuGeneration known_model + 1))"
  using actions_offered [OF known_reachable known_settled(1,2), of "''s''" "''start''"] known_settled(3) by simp

theorem hints_work_witness: "key_works known_model ''l''"
proof -
  have "(Keys ''l'', ''refresh'') \<in> set (processHints known_model 100)" by code_simp
  from hints_work [OF known_settled(1) this] show ?thesis .
qed

theorem process_screen_fits_witness:
  "\<forall>env. \<exists>v. renderProcessWorkspace env known_model = Some v \<and> viewHeight v = 30 \<and> boxesFit v"
proof
  fix env
  have k: "tuWidth known_model = 100" "tuHeight known_model = 30" "\<not> tuShowOutput known_model" by code_simp+
  obtain v where v: "renderProcessWorkspace env known_model = Some v"
    using workspace_drawn [OF reachable_inv [OF known_reachable], of env] by blast
  show "\<exists>v. renderProcessWorkspace env known_model = Some v \<and> viewHeight v = 30 \<and> boxesFit v"
    using process_screen_fits [OF _ _ v] v k by simp
qed

text \<open>The output stays open over an empty registry: it was opened while the processes were being reloaded.  The
  screen shows the footer of the processes, but its keys do nothing.\<close>

definition messages :: "tui_msg list" where
  "messages = [WindowSize 100 30, RegistryLoaded (Inr [shown_item]), KeyPress ''l'', KeyPress ''o'', RegistryLoaded (Inr [])]"

theorem dead_output_keys:
  "case tuiRun sample_tui_env (NewModel True) NoCmd messages of
     None \<Rightarrow> False
   | Some (m, _) \<Rightarrow> (Keys ''l'', ''refresh'') \<in> set (processHints m 100) \<and> \<not> key_works m ''l'' \<and>
       (Keys ''q'', ''quit'') \<in> set (processHints m 100) \<and> map_option snd (updateKey m ''q'') = Some NoCmd \<and>
       tuShowOutput m \<and> tuItems m = []"
  by code_simp

text \<open>A page up hides the last line too, and the pane says that there is no output.\<close>

definition scrolled_model :: tui where
  "scrolled_model = fst (the (updateKey known_model ''pgup''))"

theorem output_scrolled_away:
  "outputLines scrolled_model = [(Stdout, ''a'')] \<and>
   panelOutputLines env scrolled_model 20 = [sectionLine ''process output'', muted ''no output yet.'']"
proof -
  have "outputLines scrolled_model = [(Stdout, ''a'')]" "visibleOutputLines scrolled_model 19 = []" "\<not> tuTruncated scrolled_model"
    by code_simp+
  then show ?thesis by (simp add: panelOutputLines_def)
qed

text \<open>Without projects the footer of the projects still offers to edit one.\<close>

theorem edit_without_project:
  "case tuiRun sample_tui_env (NewModel True) NoCmd
      [RegistryLoaded (Inr [shown_item]), KeyPress ''left'', IdentityLoaded (Inr emptySnapshot)] of
     None \<Rightarrow> False
   | Some (m, _) \<Rightarrow> tuWorkspace m = WorkspaceProjects \<and> (Keys ''enter'', ''edit'') \<in> set (projectHints m) \<and> \<not> key_works m ''enter''"
  by code_simp

end
