(* ===== verification/ReleasePack.thy ===== *)
theory ReleasePack
  imports Release CliFlags
begin

text \<open>
  Packing a release (\<open>packageCurrent\<close> of \<open>cmd/releasepack/main.go\<close>): the staged directory with the
  binaries that the Go tool builds and the documents of the repository, the archive of it, and the
  command line of the packer.  The build, the encoders of \<open>archive/zip\<close> and \<open>archive/tar\<close> and the bytes that
  reach the disk when an archive is closed are fields of \<open>pack_os\<close>.
\<close>

unbundle bit_operations_syntax

section \<open>The target\<close>

record pack_target =
  tgName :: string
  tgArchive :: string
  tgExeSuffix :: string

record pack_os =
  poSystem :: release_os
  poGOOS :: string
  poGOARCH :: string
  poBuild :: "string \<Rightarrow> string \<Rightarrow> bytes \<times> bool"  \<comment> \<open>\<open>go build\<close> of a command: the binary, and whether it succeeds\<close>
  poChmod :: "string \<Rightarrow> bool"
  poZip :: "archive_entry list \<Rightarrow> bytes"
  poTar :: "archive_entry list \<Rightarrow> bytes"
  poFlush :: "bytes \<Rightarrow> bytes \<times> bool"  \<comment> \<open>what of an archive is on disk after it is closed\<close>

datatype packer_error =
    Packer release_error | UnsupportedTarget string | BuildFails string | CannotChmod string
  | BadFlags flag_error | ArgumentRequired | UnknownPackerCommand string | NoPackerCommand

definition targets :: "(string, pack_target) gomap" where
  "targets =
     [(''windows/amd64'', \<lparr>tgName = ''windows-x64'', tgArchive = ''.zip'', tgExeSuffix = ''.exe''\<rparr>),
      (''linux/amd64'', \<lparr>tgName = ''linux-x64'', tgArchive = ''.tar.gz'', tgExeSuffix = []\<rparr>),
      (''darwin/amd64'', \<lparr>tgName = ''macos-x64'', tgArchive = ''.tar.gz'', tgExeSuffix = []\<rparr>),
      (''darwin/arm64'', \<lparr>tgName = ''macos-arm64'', tgArchive = ''.tar.gz'', tgExeSuffix = []\<rparr>)]"

definition currentTarget :: "pack_os \<Rightarrow> (packer_error, pack_target) sum" where
  "currentTarget p =
     (let key = poGOOS p @ ''/'' @ poGOARCH p
      in case map_of targets key of None \<Rightarrow> Inl (UnsupportedTarget key) | Some target \<Rightarrow> Inr target)"

section \<open>Walks\<close>

text \<open>The paths below a directory, and the directory, in the order of \<open>filepath.WalkDir\<close> and \<open>filepath.Walk\<close>: a directory
  before what it holds, and the names of one directory sorted.\<close>

definition walkPaths :: "disk \<Rightarrow> string \<Rightarrow> string list" where
  "walkPaths w root =
     map (renderPath True) (sort (remdups (filter (prefix (cleanComps root)) (map cleanComps (map_keys (dkFiles w) @ dkDirs w)))))"

section \<open>The staged directory\<close>

definition copyFile :: "release_os \<Rightarrow> disk \<Rightarrow> string \<Rightarrow> string \<Rightarrow> 32 word \<Rightarrow> disk \<times> release_error option" where
  "copyFile os w source destination mode =
     (case readFile os w source of
        None \<Rightarrow> (w, Some (CannotRead source))
      | Some content \<Rightarrow>
          (case mkdirAll os w (dirPath destination) of
             (w1, False) \<Rightarrow> (w1, Some (CannotMkdir (dirPath destination)))
           | (w1, True) \<Rightarrow>
               (case createFile os w1 destination mode (content, True) of
                  (w2, ok) \<Rightarrow> (w2, if ok then None else Some (CannotWrite destination)))))"

text \<open>\<open>copyTree\<close>; the destination lies outside the source, so the walk does not meet the copies.\<close>

fun copyEntries :: "release_os \<Rightarrow> string \<Rightarrow> string \<Rightarrow> disk \<Rightarrow> string list \<Rightarrow> disk \<times> release_error option" where
  "copyEntries os source destination w [] = (w, None)"
| "copyEntries os source destination w (path # ps) =
     (case relPath source path of
        None \<Rightarrow> (w, Some CannotWalk)
      | Some relative \<Rightarrow>
          let copied = joinPath destination relative
          in (case (if isDirectory w path
                    then (case mkdirAll os w copied of
                            (w1, False) \<Rightarrow> (w1, Some (CannotMkdir copied))
                          | (w1, True) \<Rightarrow> (w1, if roWalks os path then None else Some CannotWalk))
                    else copyFile os w path copied 420) of
                (w1, Some e) \<Rightarrow> (w1, Some e)
              | (w1, None) \<Rightarrow> copyEntries os source destination w1 ps))"

definition copyTree :: "release_os \<Rightarrow> disk \<Rightarrow> string \<Rightarrow> string \<Rightarrow> disk \<times> release_error option" where
  "copyTree os w source destination =
     (if \<not> present w source then (w, Some CannotWalk) else copyEntries os source destination w (walkPaths w source))"

definition setMode :: "disk \<Rightarrow> string \<Rightarrow> 32 word \<Rightarrow> disk" where
  "setMode w path mode =
     (case map_of (dkFiles w) path of None \<Rightarrow> w | Some (_, content) \<Rightarrow> w\<lparr>dkFiles := map_put (dkFiles w) path (mode, content)\<rparr>)"

fun buildBinaries :: "pack_os \<Rightarrow> string \<Rightarrow> string \<Rightarrow> string \<Rightarrow> disk \<Rightarrow> string list \<Rightarrow> disk \<times> packer_error option" where
  "buildBinaries p root content exe w [] = (w, None)"
| "buildBinaries p root content exe w (binary # bs) =
     (let destination = joinPath content (binary @ exe); (data, built) = poBuild p root binary
      in case createFile (poSystem p) w destination 493 (data, built) of
           (w1, False) \<Rightarrow> (w1, Some (BuildFails binary))
         | (w1, True) \<Rightarrow>
             if poGOOS p = ''windows'' then buildBinaries p root content exe w1 bs
             else if \<not> poChmod p destination then (w1, Some (CannotChmod destination))
             else buildBinaries p root content exe (setMode w1 destination 493) bs)"

fun copyDocuments :: "release_os \<Rightarrow> string \<Rightarrow> string \<Rightarrow> disk \<Rightarrow> string list \<Rightarrow> disk \<times> release_error option" where
  "copyDocuments os root content w [] = (w, None)"
| "copyDocuments os root content w (name # ns) =
     (case copyFile os w (joinPath root name) (joinPath content name) 420 of
        (w1, Some e) \<Rightarrow> (w1, Some e)
      | (w1, None) \<Rightarrow> copyDocuments os root content w1 ns)"

definition binaries :: "string list" where
  "binaries = [''dovik'', ''dovikd'', ''gh'']"

definition documents :: "string list" where
  "documents = [''README.md'', ''CHANGELOG.md'', ''LICENSE'', ''THIRD_PARTY_LICENSES.md'']"

definition stageRelease :: "pack_os \<Rightarrow> disk \<Rightarrow> string \<Rightarrow> string \<Rightarrow> string \<Rightarrow> disk \<times> packer_error option" where
  "stageRelease p w root content exe =
     (case mkdirAll (poSystem p) w (joinPath content ''skills'') of
        (w1, False) \<Rightarrow> (w1, Some (Packer (CannotMkdir (joinPath content ''skills''))))
      | (w1, True) \<Rightarrow>
          (case buildBinaries p root content exe w1 binaries of
             (w2, Some e) \<Rightarrow> (w2, Some e)
           | (w2, None) \<Rightarrow>
               (case copyDocuments (poSystem p) root content w2 documents of
                  (w3, Some e) \<Rightarrow> (w3, Some (Packer e))
                | (w3, None) \<Rightarrow>
                    (case copyTree (poSystem p) w3 (joinPath root ''skills'') (joinPath content ''skills'') of
                       (w4, e) \<Rightarrow> (w4, map_option Packer e)))))"

section \<open>The archive\<close>

definition fileEntry :: "string \<Rightarrow> 32 word \<Rightarrow> bytes \<Rightarrow> archive_entry" where
  "fileEntry name mode content = \<lparr>aeName = name, aeKind = TypeReg, aeMode = mode, aeOpens = True, aeData = (content, True)\<rparr>"

definition modeOf :: "disk \<Rightarrow> string \<Rightarrow> 32 word" where
  "modeOf w path = (case map_of (dkFiles w) path of None \<Rightarrow> 0 | Some (mode, _) \<Rightarrow> mode)"

text \<open>The entries written so far and the error that ends the walk.  A zip archive holds the files only.\<close>

fun zipEntries :: "release_os \<Rightarrow> disk \<Rightarrow> string \<Rightarrow> archive_entry list \<Rightarrow> string list \<Rightarrow> archive_entry list \<times> release_error option" where
  "zipEntries os w root es [] = (es, None)"
| "zipEntries os w root es (path # ps) =
     (if isDirectory w path
      then (if roWalks os path then zipEntries os w root es ps else (es, Some CannotWalk))
      else case relPath root path of
             None \<Rightarrow> (es, Some CannotWalk)
           | Some relative \<Rightarrow>
               (case readFile os w path of
                  None \<Rightarrow> (es @ [fileEntry relative (modeOf w path) []], Some (CannotRead path))
                | Some content \<Rightarrow> zipEntries os w root (es @ [fileEntry relative (modeOf w path) content]) ps))"

text \<open>Every directory of the staged tree was made with \<open>MkdirAll\<close> and the mode 0755.\<close>

definition directoryEntry :: "release_os \<Rightarrow> string \<Rightarrow> archive_entry" where
  "directoryEntry os name =
     \<lparr>aeName = name, aeKind = TypeDir, aeMode = 493 AND NOT (roUmask os), aeOpens = True, aeData = ([], True)\<rparr>"

fun tarEntries :: "release_os \<Rightarrow> disk \<Rightarrow> string \<Rightarrow> archive_entry list \<Rightarrow> string list \<Rightarrow> archive_entry list \<times> release_error option" where
  "tarEntries os w root es [] = (es, None)"
| "tarEntries os w root es (path # ps) =
     (if isDirectory w path \<and> \<not> roWalks os path then (es, Some CannotWalk)
      else case relPath root path of
             None \<Rightarrow> (es, Some CannotWalk)
           | Some relative \<Rightarrow>
               if isDirectory w path then tarEntries os w root (es @ [directoryEntry os relative]) ps
               else (case readFile os w path of
                       None \<Rightarrow> (es @ [fileEntry relative (modeOf w path) []], Some (CannotRead path))
                     | Some content \<Rightarrow> tarEntries os w root (es @ [fileEntry relative (modeOf w path) content]) ps))"

definition setBytes :: "disk \<Rightarrow> string \<Rightarrow> bytes \<Rightarrow> disk" where
  "setBytes w path content = w\<lparr>dkFiles := map_put (dkFiles w) path (modeOf w path, content)\<rparr>"

text \<open>Both end the same way: the entries are encoded, the writers and the file are closed, and the
  errors are joined.\<close>

definition closeArchive :: "pack_os \<Rightarrow> disk \<Rightarrow> string \<Rightarrow> bytes \<Rightarrow> release_error option \<Rightarrow> disk \<times> release_error option" where
  "closeArchive p w destination encoded walkErr =
     (case poFlush p encoded of
        (stored, ok) \<Rightarrow> (setBytes w destination stored, if ok then walkErr else Some (CannotWrite destination)))"

definition writeZip :: "pack_os \<Rightarrow> disk \<Rightarrow> string \<Rightarrow> string \<Rightarrow> string \<Rightarrow> disk \<times> release_error option" where
  "writeZip p w destination root base =
     (case createFile (poSystem p) w destination 438 ([], True) of
        (w1, False) \<Rightarrow> (w1, Some (CannotWrite destination))
      | (w1, True) \<Rightarrow>
          (case (if present w1 (joinPath root base) then zipEntries (poSystem p) w1 root [] (walkPaths w1 (joinPath root base))
                 else ([], Some CannotWalk)) of
             (es, e) \<Rightarrow> closeArchive p w1 destination (poZip p es) e))"

definition writeTarGzip :: "pack_os \<Rightarrow> disk \<Rightarrow> string \<Rightarrow> string \<Rightarrow> string \<Rightarrow> disk \<times> release_error option" where
  "writeTarGzip p w destination root base =
     (case createFile (poSystem p) w destination 438 ([], True) of
        (w1, False) \<Rightarrow> (w1, Some (CannotWrite destination))
      | (w1, True) \<Rightarrow>
          (case (if present w1 (joinPath root base) then tarEntries (poSystem p) w1 root [] (walkPaths w1 (joinPath root base))
                 else ([], Some CannotWalk)) of
             (es, e) \<Rightarrow> closeArchive p w1 destination (poTar p es) e))"

section \<open>Packing\<close>

definition releaseBase :: "string \<Rightarrow> pack_target \<Rightarrow> string" where
  "releaseBase version target = ''dovik-v'' @ version @ ''-'' @ tgName target"

text \<open>From the temporary directory on; the caller removes it.\<close>

definition packStaged :: "pack_os \<Rightarrow> disk \<Rightarrow> string \<Rightarrow> pack_target \<Rightarrow> string \<Rightarrow> string \<Rightarrow> string \<Rightarrow> disk \<times> packer_error option" where
  "packStaged p w version target root output temporary =
     (let base = releaseBase version target; archive = joinPath output (base @ tgArchive target)
      in case stageRelease p w root (joinPath temporary base) (tgExeSuffix target) of
           (w1, Some e) \<Rightarrow> (w1, Some e)
         | (w1, None) \<Rightarrow>
             (case (if tgArchive target = ''.zip'' then writeZip p w1 archive temporary base
                    else writeTarGzip p w1 archive temporary base) of
                (w2, Some e) \<Rightarrow> (w2, Some (Packer e))
              | (w2, None) \<Rightarrow>
                  (case writeChecksum (poSystem p) w2 archive of
                     (w3, Some e) \<Rightarrow> (w3, Some (Packer e))
                   | (w3, None) \<Rightarrow>
                       (case verifyArchive (poSystem p) w3 version archive of
                          (w4, e) \<Rightarrow> (w4, map_option Packer e)))))"

definition packageCurrent :: "pack_os \<Rightarrow> disk \<Rightarrow> string \<Rightarrow> string \<Rightarrow> (disk \<times> packer_error option) option" where
  "packageCurrent p w version output =
     (case currentTarget p of
        Inl e \<Rightarrow> Some (w, Some e)
      | Inr target \<Rightarrow>
          (case repositoryRoot (poSystem p) w of
             None \<Rightarrow> None
           | Some (Inl e) \<Rightarrow> Some (w, Some (Packer e))
           | Some (Inr root) \<Rightarrow>
               (case checkLicensesAt (poSystem p) w root of
                  Some e \<Rightarrow> Some (w, Some (Packer e))
                | None \<Rightarrow>
                    (case absPath (poSystem p) output of
                       None \<Rightarrow> Some (w, Some (Packer NoWorkingDirectory))
                     | Some directory \<Rightarrow>
                         (case mkdirAll (poSystem p) w directory of
                            (w1, False) \<Rightarrow> Some (w1, Some (Packer (CannotMkdir directory)))
                          | (w1, True) \<Rightarrow>
                              (case roMkdirTemp (poSystem p) ''dovik-release-'' of
                                 None \<Rightarrow> Some (w1, Some (Packer NoTemporary))
                               | Some temporary \<Rightarrow>
                                   (case packStaged p (addDirectory w1 temporary) version target root directory temporary of
                                      (w2, e) \<Rightarrow> Some (removeAll w2 temporary, e))))))))"

section \<open>The command line\<close>

text \<open>\<open>run\<close>: \<open>smoke\<close> is what \<open>smokeArchive\<close> does, theory ReleaseSmoke.\<close>

definition packerFlag :: "flag_set \<Rightarrow> string list \<Rightarrow> (packer_error, flag_set) sum" where
  "packerFlag flags arguments =
     (case parseFlags (\<lambda>s. None, \<lambda>s. None) flags arguments of Inl e \<Rightarrow> Inl (BadFlags e) | Inr (given, _) \<Rightarrow> Inr given)"

definition withArchive :: "flag_set \<Rightarrow> string list \<Rightarrow> disk \<Rightarrow> (flag_set \<Rightarrow> (disk \<times> packer_error option) option) \<Rightarrow> (disk \<times> packer_error option) option" where
  "withArchive flags arguments w continue =
     (case packerFlag flags arguments of
        Inl e \<Rightarrow> Some (w, Some e)
      | Inr given \<Rightarrow> if list_ex (\<lambda>(name, _). textOf given name = []) flags then Some (w, Some ArgumentRequired) else continue given)"

definition runPacker :: "pack_os \<Rightarrow> (disk \<Rightarrow> string \<Rightarrow> disk \<times> packer_error option) \<Rightarrow> string \<Rightarrow> disk \<Rightarrow> string list \<Rightarrow> (disk \<times> packer_error option) option" where
  "runPacker p smoke version w arguments =
     (case arguments of
        [] \<Rightarrow> Some (w, Some NoPackerCommand)
      | command # rest \<Rightarrow>
          if command = ''package'' then
            (case packerFlag [(''output'', Text ''dist'')] rest of
               Inl e \<Rightarrow> Some (w, Some e)
             | Inr given \<Rightarrow> packageCurrent p w version (textOf given ''output''))
          else if command = ''verify'' then
            withArchive [(''archive'', Text [])] rest w (\<lambda>given.
              Some (map_prod id (map_option Packer) (verifyArchive (poSystem p) w version (textOf given ''archive''))))
          else if command = ''smoke'' then
            withArchive [(''archive'', Text [])] rest w (\<lambda>given. Some (smoke w (textOf given ''archive'')))
          else if command = ''check-licenses'' then
            map_option (\<lambda>e. (w, map_option Packer e)) (checkLicenses (poSystem p) w)
          else if command = ''scoop'' then
            withArchive [(''archive'', Text []), (''output'', Text [])] rest w (\<lambda>given.
              map_option (map_prod id (map_option Packer))
                (renderScoopManifest (poSystem p) w version (textOf given ''archive'') (textOf given ''output'')))
          else Some (w, Some (UnknownPackerCommand command)))"

text \<open>\<open>main\<close>: the exit code.\<close>

definition packerMain :: "pack_os \<Rightarrow> (disk \<Rightarrow> string \<Rightarrow> disk \<times> packer_error option) \<Rightarrow> string \<Rightarrow> disk \<Rightarrow> string list \<Rightarrow> (disk \<times> int) option" where
  "packerMain p smoke version w arguments =
     map_option (\<lambda>(w', e). (w', if e = None then 0 else 1)) (runPacker p smoke version w arguments)"

end
