(* ===== verification/ReleasePackProperties.thy ===== *)
theory ReleasePackProperties
  imports ReleasePack
begin

text \<open>
  What a packed release holds: unpacking the archive gives exactly the binaries that were built and the
  documents of the repository.
\<close>

unbundle bit_operations_syntax

section \<open>Paths below a directory\<close>

definition below :: "string \<Rightarrow> string list \<Rightarrow> string" where
  "below root cs = renderPath True (cleanComps root @ cs)"

definition relativeName :: "string list \<Rightarrow> string" where
  "relativeName cs = (if cs = [] then ''.'' else joinWith ''/'' cs)"

lemma below_abs [simp]: "isAbs (below root cs)"
  by (simp add: below_def)

lemma below_comps: "isAbs root \<Longrightarrow> \<forall>c\<in>set cs. proper_comp c \<Longrightarrow> cleanComps (below root cs) = cleanComps root @ cs"
  unfolding below_def using cleanComps_proper [of root] by (intro cleanComps_render) auto

lemma below_clean: "isAbs root \<Longrightarrow> \<forall>c\<in>set cs. proper_comp c \<Longrightarrow> clean (below root cs) = below root cs"
  using below_comps [of root cs] by (simp add: clean_def) (simp add: below_def)

lemma below_inject:
  "isAbs root \<Longrightarrow> \<forall>c\<in>set cs. proper_comp c \<Longrightarrow> \<forall>d\<in>set ds. proper_comp d \<Longrightarrow> below root cs = below root ds \<longleftrightarrow> cs = ds"
  by (metis below_comps same_append_eq)

lemma below_below:
  "isAbs root \<Longrightarrow> \<forall>c\<in>set cs. proper_comp c \<Longrightarrow> below (below root cs) ds = below root (cs @ ds)"
  by (simp add: below_comps below_def [of "below root cs"]) (simp add: below_def)

lemma within_below: "isAbs root \<Longrightarrow> \<forall>c\<in>set cs. proper_comp c \<Longrightarrow> within (below root cs) root"
  by (simp add: within_iff below_comps)

lemma within_is_below:
  assumes "isAbs root" and "isAbs path" and "clean path = path" and "within path root"
  obtains cs where "path = below root cs" "\<forall>c\<in>set cs. proper_comp c"
proof -
  obtain cs where cs: "cleanComps path = cleanComps root @ cs" using assms within_iff by (auto simp: prefix_def)
  have "path = below root cs" using render_cleanComps [OF assms(2,3)] cs by (simp add: below_def)
  moreover have "\<forall>c\<in>set cs. proper_comp c" using cleanComps_proper [OF assms(2)] cs by simp
  ultimately show thesis by (rule that)
qed

lemma splitAt_relative: "\<forall>c\<in>set cs. proper_comp c \<Longrightarrow> foldl (cleanStep r) acc (splitAt slash (relativeName cs)) = rev cs @ acc"
proof (cases "cs = []")
  case True
  have "splitAt slash ''.'' = [''.'']" by code_simp
  with True show ?thesis by (simp add: relativeName_def cleanStep_def)
next
  case False
  assume cs: "\<forall>c\<in>set cs. proper_comp c"
  then have "splitAt slash (joinWith ''/'' cs) = cs"
    using False splitAt_join [of cs slash] by (auto simp: proper_comp_def plain_comp_def)
  with False cs show ?thesis by (simp add: relativeName_def foldl_cleanStep_id)
qed

lemma joinPath_below:
  assumes "isAbs root" and "\<forall>c\<in>set cs. proper_comp c"
  shows "joinPath root (relativeName cs) = below root cs"
proof -
  have "isAbs (root @ ''/'' @ relativeName cs)" using assms(1) by (cases root) auto
  moreover have "cleanComps (root @ ''/'' @ relativeName cs) = cleanComps root @ cs"
    using assms splitAt_app [of slash root "relativeName cs"] calculation
    by (simp add: cleanComps_def splitAt_relative)
  moreover have "root \<noteq> []" using assms(1) by auto
  ultimately show ?thesis by (simp add: joinPath_def clean_def below_def)
qed

lemma relPath_below:
  assumes "isAbs root" and "\<forall>c\<in>set cs. proper_comp c"
  shows "relPath root (below root cs) = Some (relativeName cs)"
proof (cases "cs = []")
  case True
  with assms show ?thesis by (simp add: relPath_def relativeName_def below_clean) (simp add: below_def clean_def)
next
  case False
  have "clean (below root cs) \<noteq> clean root"
    using assms False by (simp add: clean_eq_iff below_comps)
  moreover have "clean (below root cs) \<noteq> ''.''" using isAbs_clean [of "below root cs"] by auto
  ultimately show ?thesis
    using assms False by (simp add: relPath_def relativeName_def below_comps dropCommon_append)
qed

section \<open>Disks and walks\<close>

text \<open>A disk lists clean absolute paths, and none of them is both a file and a directory.\<close>

definition wf_disk :: "disk \<Rightarrow> bool" where
  "wf_disk w \<longleftrightarrow> list_all (\<lambda>p. isAbs p \<and> clean p = p) (map_keys (dkFiles w) @ dkDirs w) \<and>
     list_all (\<lambda>p. \<not> isDirectory w p) (map_keys (dkFiles w))"

text \<open>Nothing is there yet.\<close>

definition unused :: "disk \<Rightarrow> string \<Rightarrow> bool" where
  "unused w root \<longleftrightarrow> list_all (\<lambda>p. \<not> within p root) (map_keys (dkFiles w) @ dkDirs w)"

lemma present_listed: "present w p \<longleftrightarrow> p \<in> set (map_keys (dkFiles w) @ dkDirs w)"
  by (auto simp: present_def isDirectory_def map_of_eq_None_iff)

lemma file_present: "map_of (dkFiles w) p = Some x \<Longrightarrow> present w p"
  by (simp add: present_def)

lemma wf_path: "wf_disk w \<Longrightarrow> present w p \<Longrightarrow> isAbs p \<and> clean p = p"
  unfolding present_listed by (auto simp: wf_disk_def list_all_iff)

lemma wf_file: "wf_disk w \<Longrightarrow> map_of (dkFiles w) p \<noteq> None \<Longrightarrow> \<not> isDirectory w p"
  by (auto simp: wf_disk_def list_all_iff map_of_eq_None_iff)

lemma unused_absent: "unused w root \<Longrightarrow> within p root \<Longrightarrow> \<not> present w p"
  unfolding present_listed by (auto simp: unused_def list_all_iff)

lemma walk_member:
  assumes "wf_disk w" and "isAbs root"
  shows "p \<in> set (walkPaths w root) \<longleftrightarrow> present w p \<and> within p root"
proof -
  have "p \<in> set (walkPaths w root) \<longleftrightarrow> (\<exists>k. present w k \<and> prefix (cleanComps root) (cleanComps k) \<and> p = renderPath True (cleanComps k))"
    unfolding present_listed walkPaths_def by auto
  also have "\<dots> \<longleftrightarrow> (\<exists>k. present w k \<and> within k root \<and> p = k)"
    using wf_path [OF assms(1)] by (metis assms(2) render_cleanComps within_iff)
  finally show ?thesis by blast
qed

lemma walk_distinct:
  assumes "wf_disk w"
  shows "distinct (walkPaths w root)"
proof -
  have "inj_on (renderPath True) (cleanComps ` {k. present w k})"
    using wf_path [OF assms] by (auto intro!: inj_onI dest!: arg_cong [where f = cleanComps] simp: render_cleanComps)
  then show ?thesis
    unfolding walkPaths_def by (auto simp: distinct_map present_listed [abs_def] intro: inj_on_subset)
qed

section \<open>Writing and unpacking\<close>

definition filesOf :: "archive_entry list \<Rightarrow> archive_entry list" where
  "filesOf es = filter (\<lambda>e. aeKind e \<noteq> TypeDir) es"

definition writtenFile :: "release_os \<Rightarrow> disk \<Rightarrow> string \<Rightarrow> string \<Rightarrow> archive_entry" where
  "writtenFile os w root path = fileEntry (the (relPath root path)) (modeOf w path) (the (readFile os w path))"

definition readable :: "release_os \<Rightarrow> disk \<Rightarrow> string list \<Rightarrow> bool" where
  "readable os w ps \<longleftrightarrow> (\<forall>p\<in>set ps. \<not> isDirectory w p \<longrightarrow> readFile os w p \<noteq> None)"

lemma zip_entries:
  "zipEntries os w root es ps = (es', None) \<Longrightarrow>
     filesOf es' = filesOf es @ map (writtenFile os w root) (filter (\<lambda>p. \<not> isDirectory w p) ps) \<and> readable os w ps"
  by (induction ps arbitrary: es)
    (auto simp: filesOf_def writtenFile_def readable_def fileEntry_def split: if_splits option.splits)

lemma tar_entries:
  "tarEntries os w root es ps = (es', None) \<Longrightarrow>
     filesOf es' = filesOf es @ map (writtenFile os w root) (filter (\<lambda>p. \<not> isDirectory w p) ps) \<and> readable os w ps"
  by (induction ps arbitrary: es)
    (auto simp: filesOf_def writtenFile_def readable_def fileEntry_def directoryEntry_def split: if_splits option.splits)

lemma mkdirAll_files [simp]: "dkFiles (fst (mkdirAll os w path)) = dkFiles w"
  by (simp add: mkdirAll_def)

text \<open>The files of a disk after one of them is written, and after entries are unpacked.\<close>

type_synonym file_map = "string \<rightharpoonup> 32 word \<times> bytes"

definition storedFile :: "release_os \<Rightarrow> file_map \<Rightarrow> string \<Rightarrow> 32 word \<Rightarrow> bytes \<Rightarrow> 32 word \<times> bytes" where
  "storedFile os m path mode content = (case m path of Some (kept, _) \<Rightarrow> kept | None \<Rightarrow> mode AND NOT (roUmask os), content)"

lemma createFile_files:
  "createFile os w path mode content = (w', True) \<Longrightarrow>
     map_of (dkFiles w') = (map_of (dkFiles w))(path \<mapsto> storedFile os (map_of (dkFiles w)) path mode (fst content)) \<and>
     dkDirs w' = dkDirs w \<and> \<not> isDirectory w path \<and> snd content"
  by (auto simp: createFile_def storedFile_def split: if_splits)

fun unpackedFiles :: "release_os \<Rightarrow> string \<Rightarrow> file_map \<Rightarrow> archive_entry list \<Rightarrow> file_map" where
  "unpackedFiles os root m [] = m"
| "unpackedFiles os root m (e # es) =
     unpackedFiles os root
       (if aeKind e = TypeDir then m
        else m(joinPath root (aeName e) \<mapsto> storedFile os m (joinPath root (aeName e)) (aeMode e) (fst (aeData e)))) es"

lemma extractFile_files:
  assumes "extractFile os w path e = (w', None)"
  shows "map_of (dkFiles w') = (map_of (dkFiles w))(path \<mapsto> storedFile os (map_of (dkFiles w)) path (aeMode e) (fst (aeData e)))"
proof -
  obtain w1 where m: "mkdirAll os w (dirPath path) = (w1, True)" and c: "createFile os w1 path (aeMode e) (aeData e) = (w', True)"
    using assms by (auto simp: extractFile_def split: prod.splits bool.splits if_splits)
  have "dkFiles w1 = dkFiles w" using mkdirAll_files [of os w "dirPath path"] m by simp
  with createFile_files [OF c] show ?thesis by simp
qed

lemma extractDirectory_files: "extractDirectory os w path = (w', None) \<Longrightarrow> dkFiles w' = dkFiles w"
  by (cases "mkdirAll os w path") (use mkdirAll_files [of os w path] in \<open>auto simp: extractDirectory_def split: if_splits\<close>)

lemma safe_is_join: "safeExtractPath root name = Inr path \<Longrightarrow> path = joinPath root name"
  by (auto simp: safeExtractPath_def Let_def split: if_splits)

lemma zip_unpacked:
  "extractZipEntries os root w es = (w', None) \<Longrightarrow> map_of (dkFiles w') = unpackedFiles os root (map_of (dkFiles w)) es"
  by (induction es arbitrary: w)
    (auto split: sum.splits prod.splits option.splits if_splits dest!: safe_is_join extractFile_files extractDirectory_files)

lemma tar_unpacked:
  "extractTarEntries os root w es ends = (w', None) \<Longrightarrow> map_of (dkFiles w') = unpackedFiles os root (map_of (dkFiles w)) es"
  by (induction es arbitrary: w)
    (auto split: sum.splits prod.splits option.splits if_splits entry_kind.splits dest!: safe_is_join extractFile_files extractDirectory_files)

lemma unpackedFiles_filesOf: "unpackedFiles os root m es = unpackedFiles os root m (filesOf es)"
  by (induction es arbitrary: m) (simp_all add: filesOf_def)

text \<open>Into a directory with none of the files.\<close>

lemma unpacked_fresh:
  assumes "distinct (map (\<lambda>e. joinPath root (aeName e)) es)" and "\<forall>e\<in>set es. aeKind e \<noteq> TypeDir \<and> m (joinPath root (aeName e)) = None"
  shows "unpackedFiles os root m es path =
    (case find (\<lambda>e. joinPath root (aeName e) = path) es of
       None \<Rightarrow> m path | Some e \<Rightarrow> Some (aeMode e AND NOT (roUmask os), fst (aeData e)))"
  using assms
proof (induction es arbitrary: m)
  case (Cons e es)
  let ?p = "joinPath root (aeName e)"
  have other: "joinPath root (aeName e') \<noteq> ?p" if "e' \<in> set es" for e' using Cons.prems(1) that by (auto simp: image_iff)
  then have e: "find (\<lambda>e'. joinPath root (aeName e') = ?p) es = None" by (simp add: find_None_iff)
  have "unpackedFiles os root (m(?p \<mapsto> storedFile os m ?p (aeMode e) (fst (aeData e)))) es path =
    (case find (\<lambda>e. joinPath root (aeName e) = path) es of
       None \<Rightarrow> (m(?p \<mapsto> storedFile os m ?p (aeMode e) (fst (aeData e)))) path
     | Some e \<Rightarrow> Some (aeMode e AND NOT (roUmask os), fst (aeData e)))"
    using Cons.prems other by (intro Cons.IH) auto
  then show ?case using Cons.prems e by (auto simp: storedFile_def split: option.split)
qed simp

lemma find_written: "\<forall>p\<in>set ps. P (f p) \<longleftrightarrow> p = q \<Longrightarrow> find P (map f ps) = (if q \<in> set ps then Some (f q) else None)"
  by (induction ps) auto

lemma distinct_written:
  "distinct ps \<Longrightarrow> inj_on g (set ps) \<Longrightarrow> \<forall>p\<in>set ps. joinPath t (aeName (f p)) = g p \<Longrightarrow>
     distinct (map (\<lambda>e. joinPath t (aeName e)) (map f ps))"
  by (induction ps) (auto simp: inj_on_def)

text \<open>The same paths below another directory, with the modes that the mask leaves.\<close>

definition masked :: "release_os \<Rightarrow> 32 word \<times> bytes \<Rightarrow> 32 word \<times> bytes" where
  "masked os f = (fst f AND NOT (roUmask os), snd f)"

lemma archive_unpacked:
  assumes "wf_disk w" and "isAbs root" and "isAbs t" and "proper_comp base"
    and ps: "ps = filter (\<lambda>p. \<not> isDirectory w p) (walkPaths w (below root [base]))"
    and "readable os w (walkPaths w (below root [base]))"
    and free: "\<And>p. isAbs p \<Longrightarrow> within p t \<Longrightarrow> m p = None" and cs: "\<forall>c\<in>set cs. proper_comp c"
  shows "unpackedFiles os t m (map (writtenFile os w root) ps) (below t cs) =
    (if cs \<noteq> [] \<and> hd cs = base then map_option (masked os) (map_of (dkFiles w) (below root cs)) else None)"
proof -
  let ?f = "writtenFile os w root" and ?q = "below root cs"
  have members: "p \<in> set ps \<longleftrightarrow> map_of (dkFiles w) p \<noteq> None \<and> within p (below root [base])" for p
    using walk_member [OF assms(1), of "below root [base]"] wf_file [OF assms(1), of p] by (auto simp: ps present_def)
  have shape: "\<exists>ds. (\<forall>d\<in>set ds. proper_comp d) \<and> p = below root (base # ds) \<and> joinPath t (aeName (?f p)) = below t (base # ds)" if p: "p \<in> set ps" for p
  proof -
    have "isAbs p" "clean p = p" "within p (below root [base])" using wf_path [OF assms(1), of p] p members by (auto simp: present_def)
    then obtain ds where ds: "p = below (below root [base]) ds" "\<forall>c\<in>set ds. proper_comp c"
      using within_is_below [of "below root [base]" p] by auto
    then have "p = below root (base # ds)" using below_below [OF assms(2), of "[base]" ds] assms(4) by simp
    moreover have "joinPath t (aeName (?f p)) = below t (base # ds)"
      using relPath_below [OF assms(2), of "base # ds"] joinPath_below [OF assms(3), of "base # ds"] ds(2) assms(4) calculation
      by (simp add: writtenFile_def fileEntry_def)
    ultimately show ?thesis using ds(2) by blast
  qed
  have same: "joinPath t (aeName (?f p)) = below t ds \<longleftrightarrow> p = below root ds"
    if "p \<in> set ps" "\<forall>d\<in>set ds. proper_comp d" for p ds
    using shape [OF that(1)] that(2) assms(2-4) below_inject by (metis set_ConsD)
  have "inj_on (\<lambda>p. joinPath t (aeName (?f p))) (set ps)"
    using shape same assms(4) by (intro inj_onI) (metis set_ConsD)
  then have d: "distinct (map (\<lambda>e. joinPath t (aeName e)) (map ?f ps))"
    using walk_distinct [OF assms(1), of "below root [base]"] by (intro distinct_written) (auto simp: ps)
  have n: "\<forall>e\<in>set (map ?f ps). aeKind e \<noteq> TypeDir \<and> m (joinPath t (aeName e)) = None"
    using shape free within_below [OF assms(3)] assms(4) by (force simp: writtenFile_def fileEntry_def)
  have f: "find (\<lambda>e. joinPath t (aeName e) = below t cs) (map ?f ps) = (if ?q \<in> set ps then Some (?f ?q) else None)"
    using same [OF _ cs] by (intro find_written) blast
  have "within ?q (below root [base]) \<longleftrightarrow> cs \<noteq> [] \<and> hd cs = base"
    using below_comps [OF assms(2)] cs assms(4) by (cases cs) (auto simp: within_iff)
  then have in_ps: "?q \<in> set ps \<longleftrightarrow> map_of (dkFiles w) ?q \<noteq> None \<and> cs \<noteq> [] \<and> hd cs = base" using members by blast
  have "?q \<in> set ps \<Longrightarrow> map_of (dkFiles w) ?q = Some x \<Longrightarrow> readFile os w ?q = Some (snd x)" for x
    using assms(6) by (auto simp: readable_def ps readFile_def split: if_splits)
  moreover have "m (below t cs) = None" using free within_below [OF assms(3)] cs by simp
  ultimately show ?thesis
    unfolding unpacked_fresh [OF d n] f using in_ps
    by (auto simp: writtenFile_def fileEntry_def modeOf_def masked_def)
qed

section \<open>The staged files\<close>

lemma enclosing_clean:
  assumes "isAbs path" and "d \<in> set (enclosing path)"
  shows "isAbs d \<and> clean d = d"
proof -
  obtain cs where "d = renderPath True cs" "cleanComps d = cs" by (rule enclosing_comps [OF assms])
  then show ?thesis by (simp add: clean_def)
qed

lemma isDirectory_mkdir: "mkdirAll os w path = (w', True) \<Longrightarrow> isDirectory w' d \<longleftrightarrow> isDirectory w d \<or> d \<in> set (enclosing path)"
  by (auto simp: mkdirAll_def isDirectory_def split: if_splits)

lemma mkdirAll_ok:
  assumes "mkdirAll os w path = (w', True)" and "wf_disk w" and "isAbs path"
  shows "wf_disk w' \<and> dkFiles w' = dkFiles w \<and> (\<forall>d. isDirectory w d \<longrightarrow> isDirectory w' d)"
proof -
  have f: "dkFiles w' = dkFiles w" using mkdirAll_files [of os w path] assms(1) by simp
  have d: "\<forall>d\<in>set (dkDirs w'). isAbs d \<and> clean d = d"
    using assms enclosing_clean [OF assms(3)] by (auto simp: mkdirAll_def wf_disk_def list_all_iff split: if_splits)
  have "\<not> isDirectory w' q" if "q \<in> set (map_keys (dkFiles w))" for q
    using assms(1,2) that by (auto simp: isDirectory_mkdir [OF assms(1)] wf_disk_def list_all_iff mkdirAll_def list_ex_iff map_of_eq_None_iff
        split: if_splits)
  with f d assms(2) isDirectory_mkdir [OF assms(1)] show ?thesis by (auto simp: wf_disk_def list_all_iff)
qed

lemma wf_put: "wf_disk w \<Longrightarrow> isAbs path \<Longrightarrow> clean path = path \<Longrightarrow> \<not> isDirectory w path \<Longrightarrow> wf_disk (w\<lparr>dkFiles := map_put (dkFiles w) path f\<rparr>)"
  unfolding wf_disk_def list_all_iff using map_keys_put [of "dkFiles w" path f] by auto

lemma createFile_ok:
  assumes "createFile os w path mode content = (w', True)" and "wf_disk w" and "isAbs path" and "clean path = path"
  shows "wf_disk w' \<and> isDirectory w' = isDirectory w"
  using assms wf_put [OF assms(2-4)] by (auto simp: createFile_def isDirectory_def [abs_def] split: if_splits)

text \<open>One copy to a path where there is no file yet.\<close>

definition continues :: "disk \<Rightarrow> disk \<Rightarrow> bool" where
  "continues w w' \<longleftrightarrow> wf_disk w' \<and> (\<forall>d. isDirectory w d \<longrightarrow> isDirectory w' d)"

lemma continues_trans: "continues w w' \<Longrightarrow> continues w' w'' \<Longrightarrow> continues w w''"
  by (simp add: continues_def)

lemma copyFile_ok:
  assumes "copyFile os w source destination mode = (w', None)" and "wf_disk w" and "isAbs destination" and "clean destination = destination"
    and "map_of (dkFiles w) destination = None"
  shows "readFile os w source \<noteq> None \<and> continues w w' \<and>
    map_of (dkFiles w') = (map_of (dkFiles w))(destination \<mapsto> (mode AND NOT (roUmask os), the (readFile os w source)))"
proof -
  obtain content w1 where c: "readFile os w source = Some content" and m: "mkdirAll os w (dirPath destination) = (w1, True)"
    and f: "createFile os w1 destination mode (content, True) = (w', True)"
    using assms(1) by (auto simp: copyFile_def split: option.splits prod.splits bool.splits if_splits)
  note w1 = mkdirAll_ok [OF m assms(2), OF dirPath_clean [OF assms(3), THEN conjunct1]]
  note w' = createFile_ok [OF f _ assms(3,4)] createFile_files [OF f]
  from c w1 w' assms(5) show ?thesis by (simp add: continues_def storedFile_def)
qed

lemma first_written: "map_of fs x = None \<Longrightarrow> m(x \<mapsto> y) ++ map_of fs = m ++ map_of ((x, y) # fs)"
  by (auto simp: map_add_def fun_eq_iff split: option.split)

text \<open>Copies of files to new paths: none of the sources is one of the paths that are written.\<close>

definition copies :: "release_os \<Rightarrow> disk \<Rightarrow> (string \<times> string) list \<Rightarrow> (string \<times> 32 word \<times> bytes) list" where
  "copies os w ps = map (\<lambda>(source, destination). (destination, 420 AND NOT (roUmask os), the (readFile os w source))) ps"

definition copyable :: "disk \<Rightarrow> (string \<times> string) list \<Rightarrow> bool" where
  "copyable w ps \<longleftrightarrow> distinct (map snd ps) \<and>
     (\<forall>(source, destination)\<in>set ps. isAbs destination \<and> clean destination = destination \<and> map_of (dkFiles w) destination = None \<and>
        source \<notin> set (map snd ps))"

lemma dom_copies: "dom (map_of (copies os w ps)) = set (map snd ps)"
  by (force simp: copies_def dom_map_of_conv_image_fst)

lemma copies_cong:
  "(\<And>source destination. (source, destination) \<in> set ps \<Longrightarrow> map_of (dkFiles w) source = map_of (dkFiles w') source) \<Longrightarrow> copies os w ps = copies os w' ps"
  unfolding copies_def readFile_def by (rule map_cong) auto

lemma copyDocuments_ok:
  assumes "copyDocuments os root content w ns = (w', None)" and "wf_disk w"
    and "copyable w (map (\<lambda>n. (joinPath root n, joinPath content n)) ns)"
  shows "continues w w' \<and> map_of (dkFiles w') = map_of (dkFiles w) ++ map_of (copies os w (map (\<lambda>n. (joinPath root n, joinPath content n)) ns)) \<and>
    (\<forall>n\<in>set ns. readFile os w (joinPath root n) \<noteq> None)"
  using assms
proof (induction ns arbitrary: w)
  case Nil
  then show ?case by (simp add: continues_def copies_def)
next
  case (Cons n ns)
  let ?ps = "map (\<lambda>n. (joinPath root n, joinPath content n)) ns"
  obtain w1 where w1: "copyFile os w (joinPath root n) (joinPath content n) 420 = (w1, None)" "copyDocuments os root content w1 ns = (w', None)"
    using Cons.prems(1) by (auto split: prod.splits option.splits)
  have d: "isAbs (joinPath content n)" "clean (joinPath content n) = joinPath content n" "map_of (dkFiles w) (joinPath content n) = None"
    using Cons.prems(3) by (simp_all add: copyable_def)
  note step = copyFile_ok [OF w1(1) Cons.prems(2) d]
  have "copyable w1 ?ps" using Cons.prems(3) step by (auto simp: copyable_def image_iff)
  moreover have "wf_disk w1" using step by (simp add: continues_def)
  ultimately have ih: "continues w1 w'" "map_of (dkFiles w') = map_of (dkFiles w1) ++ map_of (copies os w1 ?ps)"
      "\<forall>n\<in>set ns. readFile os w1 (joinPath root n) \<noteq> None"
    using Cons.IH [OF w1(2)] by blast+
  have kept: "\<forall>k\<in>set ns. map_of (dkFiles w1) (joinPath root k) = map_of (dkFiles w) (joinPath root k)"
    using Cons.prems(3) step by (auto simp: copyable_def)
  then have reads: "\<forall>k\<in>set ns. readFile os w1 (joinPath root k) = readFile os w (joinPath root k)" unfolding readFile_def by simp
  have same: "copies os w1 ?ps = copies os w ?ps"
    using kept by (intro copies_cong) auto
  have "joinPath content n \<notin> dom (map_of (copies os w ?ps))" using Cons.prems(3) by (simp add: dom_copies copyable_def)
  then have none: "map_of (copies os w ?ps) (joinPath content n) = None" by auto
  have "map_of (dkFiles w') = (map_of (dkFiles w))(joinPath content n \<mapsto> (420 AND NOT (roUmask os), the (readFile os w (joinPath root n))))
      ++ map_of (copies os w ?ps)" unfolding ih(2) same using step by simp
  also have "\<dots> = map_of (dkFiles w) ++ map_of (copies os w ((joinPath root n, joinPath content n) # ?ps))"
    unfolding first_written [OF none] by (simp add: copies_def)
  finally have "map_of (dkFiles w') = map_of (dkFiles w) ++ map_of (copies os w (map (\<lambda>n. (joinPath root n, joinPath content n)) (n # ns)))"
    by simp
  moreover have "\<forall>k\<in>set (n # ns). readFile os w (joinPath root k) \<noteq> None"
    using step ih(3) reads by simp
  ultimately show ?case using step continues_trans [OF _ ih(1)] by blast
qed

text \<open>The same for the tree of the skills; the walk goes over paths that are there, files and directories.\<close>

definition treeCopies :: "disk \<Rightarrow> string \<Rightarrow> string \<Rightarrow> string list \<Rightarrow> (string \<times> string) list" where
  "treeCopies w source destination ps =
     map (\<lambda>p. (p, joinPath destination (the (relPath source p)))) (filter (\<lambda>p. \<not> isDirectory w p) ps)"

lemma continues_directory:
  assumes "continues w w'" and "present w p" and "map_of (dkFiles w') p = map_of (dkFiles w) p"
  shows "isDirectory w' p \<longleftrightarrow> isDirectory w p"
  using assms wf_file [of w' p] by (auto simp: continues_def present_def)

lemma copyEntries_ok:
  assumes "copyEntries os source destination w ps = (w', None)" and "wf_disk w" and "isAbs destination" and "\<forall>p\<in>set ps. present w p"
    and "copyable w (treeCopies w source destination ps)"
    and "\<forall>p\<in>set ps. p \<notin> set (map snd (treeCopies w source destination ps))"
  shows "continues w w' \<and> map_of (dkFiles w') = map_of (dkFiles w) ++ map_of (copies os w (treeCopies w source destination ps)) \<and> readable os w ps"
  using assms
proof (induction ps arbitrary: w)
  case Nil
  then show ?case by (simp add: continues_def copies_def treeCopies_def readable_def)
next
  case (Cons p ps)
  let ?c = "joinPath destination (the (relPath source p))"
  have abs: "isAbs ?c" using joinPath_abs [OF Cons.prems(3)] by simp
  let ?rest = "treeCopies w source destination ps"
  obtain w1 where rest: "copyEntries os source destination w1 ps = (w', None)"
      and step: "if isDirectory w p then mkdirAll os w ?c = (w1, True) else copyFile os w p ?c 420 = (w1, None)"
    using Cons.prems(1) by (auto simp: Let_def split: option.splits prod.splits bool.splits if_splits)
  have one: "continues w w1 \<and> (\<not> isDirectory w p \<longrightarrow> readFile os w p \<noteq> None) \<and> map_of (dkFiles w1) =
      (if isDirectory w p then map_of (dkFiles w) else (map_of (dkFiles w))(?c \<mapsto> (420 AND NOT (roUmask os), the (readFile os w p))))"
  proof (cases "isDirectory w p")
    case True
    with step mkdirAll_ok [OF _ Cons.prems(2) abs] show ?thesis by (simp add: continues_def)
  next
    case False
    have "clean ?c = ?c" "map_of (dkFiles w) ?c = None" using Cons.prems(5) False by (simp_all add: treeCopies_def copyable_def)
    with step False copyFile_ok [OF _ Cons.prems(2) abs] show ?thesis by simp
  qed
  have keep: "map_of (dkFiles w1) q = map_of (dkFiles w) q" if "q \<in> set ps" for q
    using one that Cons.prems(6) by (auto simp: treeCopies_def)
  have dirs: "isDirectory w1 q \<longleftrightarrow> isDirectory w q" if "q \<in> set ps" for q
    using continues_directory [of w w1 q] one keep [OF that] that Cons.prems(4) by auto
  have trees: "treeCopies w1 source destination ps = ?rest"
    using dirs by (auto simp: treeCopies_def intro!: arg_cong [where f = "map _"] filter_cong)
  have same: "copies os w1 ?rest = copies os w ?rest"
    using keep by (intro copies_cong) (auto simp: treeCopies_def)
  have whole: "treeCopies w source destination (p # ps) = (if isDirectory w p then ?rest else (p, ?c) # ?rest)"
    by (simp add: treeCopies_def)
  have "copyable w1 ?rest" using Cons.prems(5) one unfolding whole by (auto simp: copyable_def image_iff split: if_splits)
  moreover have "\<forall>q\<in>set ps. present w1 q" using Cons.prems(4) keep dirs by (simp add: present_def)
  moreover have "\<forall>q\<in>set ps. q \<notin> set (map snd ?rest)" using Cons.prems(6) unfolding whole by (auto split: if_splits)
  moreover have "wf_disk w1" using one by (simp add: continues_def)
  ultimately have ih: "continues w1 w'" "map_of (dkFiles w') = map_of (dkFiles w1) ++ map_of (copies os w ?rest)" "readable os w1 ps"
    using Cons.IH [OF rest _ Cons.prems(3)] unfolding trees same by blast+
  have reads: "\<And>q. q \<in> set ps \<Longrightarrow> readFile os w1 q = readFile os w q" using keep unfolding readFile_def by simp
  have "readable os w (p # ps)" using ih(3) one dirs reads unfolding readable_def by auto
  have "\<not> isDirectory w p \<Longrightarrow> ?c \<notin> dom (map_of (copies os w ?rest))"
    using Cons.prems(5) unfolding whole by (simp add: dom_copies copyable_def)
  then have none: "\<not> isDirectory w p \<Longrightarrow> map_of (copies os w ?rest) ?c = None" by auto
  have "map_of (dkFiles w') = map_of (dkFiles w) ++ map_of (copies os w (if isDirectory w p then ?rest else (p, ?c) # ?rest))"
  proof (cases "isDirectory w p")
    case False
    have "map_of (dkFiles w') = (map_of (dkFiles w))(?c \<mapsto> (420 AND NOT (roUmask os), the (readFile os w p))) ++ map_of (copies os w ?rest)"
      unfolding ih(2) using one False by simp
    then show ?thesis unfolding first_written [OF none [OF False]] using False by (simp add: copies_def)
  qed (use ih(2) one in simp)
  with \<open>readable os w (p # ps)\<close> show ?case unfolding whole using one continues_trans [OF _ ih(1)] by blast
qed

text \<open>The binaries, with the mode that the packer or the Go tool gives them.\<close>

definition binaryMode :: "pack_os \<Rightarrow> 32 word" where
  "binaryMode p = (if poGOOS p = ''windows'' then 493 AND NOT (roUmask (poSystem p)) else 493)"

definition builtFiles :: "pack_os \<Rightarrow> string \<Rightarrow> string \<Rightarrow> string \<Rightarrow> string list \<Rightarrow> (string \<times> 32 word \<times> bytes) list" where
  "builtFiles p root content exe bs = map (\<lambda>b. (joinPath content (b @ exe), binaryMode p, fst (poBuild p root b))) bs"

lemma setMode_ok:
  assumes "wf_disk w" and "map_of (dkFiles w) path = Some (mode, content)"
  shows "continues w (setMode w path mode') \<and> map_of (dkFiles (setMode w path mode')) = (map_of (dkFiles w))(path \<mapsto> (mode', content))"
proof -
  have "isAbs path" "clean path = path" "\<not> isDirectory w path"
    using assms wf_path [of w path] wf_file [of w path] by (auto simp: present_def)
  then have "wf_disk (w\<lparr>dkFiles := map_put (dkFiles w) path (mode', content)\<rparr>)" by (rule wf_put [OF assms(1)])
  with assms(2) show ?thesis by (simp add: setMode_def continues_def)
qed

lemma buildBinaries_ok:
  assumes "buildBinaries p root content exe w bs = (w', None)" and "wf_disk w"
    and "distinct (map fst (builtFiles p root content exe bs))"
    and "\<forall>(path, f)\<in>set (builtFiles p root content exe bs). isAbs path \<and> clean path = path \<and> map_of (dkFiles w) path = None"
  shows "continues w w' \<and> map_of (dkFiles w') = map_of (dkFiles w) ++ map_of (builtFiles p root content exe bs)"
  using assms
proof (induction bs arbitrary: w)
  case Nil
  then show ?case by (simp add: continues_def builtFiles_def)
next
  case (Cons b bs)
  let ?d = "joinPath content (b @ exe)" and ?L = "builtFiles p root content exe bs"
  have d: "isAbs ?d" "clean ?d = ?d" "map_of (dkFiles w) ?d = None" using Cons.prems(4) by (simp_all add: builtFiles_def)
  obtain w1 w2 where c: "createFile (poSystem p) w ?d 493 (poBuild p root b) = (w1, True)"
      and w2: "w2 = (if poGOOS p = ''windows'' then w1 else setMode w1 ?d 493)"
      and rest: "buildBinaries p root content exe w2 bs = (w', None)"
    using Cons.prems(1) by (auto simp: Let_def split: prod.splits bool.splits if_splits)
  note w1 = createFile_ok [OF c Cons.prems(2) d(1,2)] createFile_files [OF c]
  have step: "continues w w2 \<and> map_of (dkFiles w2) = (map_of (dkFiles w))(?d \<mapsto> (binaryMode p, fst (poBuild p root b)))"
    using w1 d(3) setMode_ok [of w1 ?d _ "fst (poBuild p root b)" 493] unfolding w2
    by (auto simp: continues_def binaryMode_def storedFile_def)
  have "map_of (dkFiles w2) path = None" if "(path, f) \<in> set ?L" for path f
  proof -
    have "path \<noteq> ?d" using Cons.prems(3) that by (auto simp: builtFiles_def image_iff)
    then show ?thesis using Cons.prems(4) step that by (auto simp: builtFiles_def)
  qed
  then have new: "\<forall>(path, f)\<in>set ?L. isAbs path \<and> clean path = path \<and> map_of (dkFiles w2) path = None"
    using Cons.prems(4) by (auto simp: builtFiles_def)
  have "wf_disk w2" "distinct (map fst ?L)" using step Cons.prems(3) by (simp_all add: continues_def builtFiles_def)
  then have ih: "continues w2 w'" "map_of (dkFiles w') = map_of (dkFiles w2) ++ map_of ?L"
    using Cons.IH [OF rest _ _ new] by blast+
  have "?d \<notin> dom (map_of ?L)" using Cons.prems(3) by (auto simp: builtFiles_def dom_map_of_conv_image_fst)
  then have none: "map_of ?L ?d = None" by auto
  have "map_of (dkFiles w') = (map_of (dkFiles w))(?d \<mapsto> (binaryMode p, fst (poBuild p root b))) ++ map_of ?L"
    unfolding ih(2) using step by simp
  also have "\<dots> = map_of (dkFiles w) ++ map_of (builtFiles p root content exe (b # bs))"
    unfolding first_written [OF none] by (simp add: builtFiles_def)
  finally show ?case using step continues_trans [OF _ ih(1)] by simp
qed

section \<open>A staged release\<close>

text \<open>What a release holds, by the path in its directory.\<close>

definition released :: "pack_os \<Rightarrow> disk \<Rightarrow> string \<Rightarrow> string list \<Rightarrow> (32 word \<times> bytes) option" where
  "released p w root cs =
     (case find (\<lambda>b. cs = [b]) binaries of
        Some b \<Rightarrow> Some (493, fst (poBuild p root b))
      | None \<Rightarrow>
          if cs \<in> set (map (\<lambda>n. [n]) documents) \<or> (cs \<noteq> [] \<and> hd cs = ''skills'')
          then map_option (\<lambda>f. (420, snd f)) (map_of (dkFiles w) (below root cs)) else None)"

lemma map_of_written: "\<forall>x\<in>set xs. k x = q \<longleftrightarrow> x = y \<Longrightarrow> map_of (map (\<lambda>x. (k x, v x)) xs) q = (if y \<in> set xs then Some (v y) else None)"
  by (induction xs) auto

lemma map_of_unwritten: "\<forall>x\<in>set xs. k x \<noteq> q \<Longrightarrow> map_of (map (\<lambda>x. (k x, v x)) xs) q = None"
  by (induction xs) auto

lemma masked_again: "masked os (m AND NOT (roUmask os), c) = masked os (m, c)"
  by (simp add: masked_def and.assoc)

lemma joinPath_name: "isAbs root \<Longrightarrow> proper_comp n \<Longrightarrow> joinPath root n = below root [n]"
  using joinPath_below [of root "[n]"] by (simp add: relativeName_def)

lemma names_proper: "\<forall>n\<in>set (''skills'' # binaries @ documents). proper_comp n"
  by code_simp

text \<open>The places of a packing: the repository, and a directory that is not in it and holds it not, in
  which there are no files.\<close>

definition workplace :: "disk \<Rightarrow> string \<Rightarrow> string \<Rightarrow> string \<Rightarrow> bool" where
  "workplace w root temporary base \<longleftrightarrow> wf_disk w \<and> isAbs root \<and> isAbs temporary \<and> proper_comp base \<and>
     \<not> within temporary root \<and> \<not> within root temporary \<and> list_all (\<lambda>q. \<not> within q temporary) (map_keys (dkFiles w))"

lemma workplace_free: "workplace w root temporary base \<Longrightarrow> within q temporary \<Longrightarrow> map_of (dkFiles w) q = None"
  by (auto simp: workplace_def list_all_iff map_of_eq_None_iff)

lemma apart:
  assumes "isAbs root" and "isAbs temporary" and "\<not> within temporary root" and "\<not> within root temporary" and "isAbs q" and "within q root"
  shows "\<not> within q temporary"
  using assms by (auto simp: within_iff dest: prefix_same_cases)

definition stagedPath :: "string \<Rightarrow> string \<Rightarrow> string list \<Rightarrow> string" where
  "stagedPath temporary base cs = below temporary (base # cs)"

lemma stagedPath_facts:
  assumes "workplace w root temporary base" and "\<forall>c\<in>set cs. proper_comp c"
  shows "isAbs (stagedPath temporary base cs)" "clean (stagedPath temporary base cs) = stagedPath temporary base cs"
    "within (stagedPath temporary base cs) temporary" "map_of (dkFiles w) (stagedPath temporary base cs) = None"
    "below (below temporary [base]) cs = stagedPath temporary base cs"
  using assms below_clean [of temporary "base # cs"] within_below [of temporary "base # cs"] below_below [of temporary "[base]" cs]
    workplace_free [OF assms(1), of "below temporary (base # cs)"]
  by (auto simp: stagedPath_def workplace_def)

lemma stagedPath_inject:
  "isAbs temporary \<Longrightarrow> proper_comp base \<Longrightarrow> \<forall>c\<in>set cs. proper_comp c \<Longrightarrow> \<forall>d\<in>set ds. proper_comp d \<Longrightarrow>
     stagedPath temporary base cs = stagedPath temporary base ds \<longleftrightarrow> cs = ds"
  using below_inject [of temporary "base # cs" "base # ds"] by (simp add: stagedPath_def)

lemma source_apart:
  assumes "workplace w root temporary base" and "\<forall>c\<in>set cs. proper_comp c" and "\<forall>d\<in>set ds. proper_comp d"
  shows "below root cs \<noteq> stagedPath temporary base ds"
  using assms apart [of root temporary "below root cs"] within_below [of root cs] stagedPath_facts(3) [OF assms(1,3)]
  by (auto simp: workplace_def)

lemma stage_built:
  assumes "buildBinaries p root (below temporary [base]) [] w binaries = (w', None)" and "workplace w root temporary base"
  shows "continues w w' \<and> map_of (dkFiles w') = map_of (dkFiles w) ++
    map_of (map (\<lambda>b. (stagedPath temporary base [b], binaryMode p, fst (poBuild p root b))) binaries)"
proof -
  let ?L = "map (\<lambda>b. (stagedPath temporary base [b], binaryMode p, fst (poBuild p root b))) binaries"
  have t: "isAbs temporary" "proper_comp base" using assms(2) by (simp_all add: workplace_def)
  have names: "proper_comp b" if "b \<in> set binaries" for b using names_proper that by simp
  have L: "builtFiles p root (below temporary [base]) [] binaries = ?L"
    using names stagedPath_facts(5) [OF assms(2)] by (auto simp: builtFiles_def joinPath_name)
  have "distinct (map fst ?L)"
    using stagedPath_inject [OF t] names by (simp add: comp_def distinct_map inj_on_def) (simp add: binaries_def)
  moreover have "\<forall>(path, f)\<in>set ?L. isAbs path \<and> clean path = path \<and> map_of (dkFiles w) path = None"
    using names stagedPath_facts(1,2,4) [OF assms(2)] by auto
  ultimately show ?thesis
    using buildBinaries_ok [OF assms(1)] assms(2) unfolding L by (simp add: workplace_def)
qed

lemma stage_documents:
  assumes "copyDocuments os root (below temporary [base]) w' documents = (w'', None)" and "workplace w root temporary base"
    and "wf_disk w'" and "\<And>n. n \<in> set documents \<Longrightarrow> map_of (dkFiles w') (stagedPath temporary base [n]) = None"
  shows "continues w' w'' \<and> map_of (dkFiles w'') = map_of (dkFiles w') ++
      map_of (map (\<lambda>n. (stagedPath temporary base [n], 420 AND NOT (roUmask os), the (readFile os w' (below root [n])))) documents) \<and>
    (\<forall>n\<in>set documents. readFile os w' (below root [n]) \<noteq> None)"
proof -
  have t: "isAbs root" "isAbs temporary" "proper_comp base" using assms(2) by (simp_all add: workplace_def)
  have names: "proper_comp n" if "n \<in> set documents" for n using names_proper that by simp
  have roots: "joinPath root n = below root [n]" "joinPath (below temporary [base]) n = stagedPath temporary base [n]" if "n \<in> set documents" for n
    using names [OF that] joinPath_name [OF t(1)] joinPath_name [of "below temporary [base]"] stagedPath_facts(5) [OF assms(2)] by simp_all
  let ?ps = "map (\<lambda>n. (joinPath root n, joinPath (below temporary [base]) n)) documents"
  have ps: "?ps = map (\<lambda>n. (below root [n], stagedPath temporary base [n])) documents" using roots by simp
  have "distinct (map snd ?ps)"
    unfolding ps using stagedPath_inject [OF t(2,3)] names by (simp add: comp_def distinct_map inj_on_def) (simp add: documents_def)
  moreover have "\<forall>(source, destination)\<in>set ?ps. isAbs destination \<and> clean destination = destination \<and>
      map_of (dkFiles w') destination = None \<and> source \<notin> set (map snd ?ps)"
    unfolding ps using names stagedPath_facts(1,2) [OF assms(2)] assms(4) source_apart [OF assms(2)] by auto
  ultimately have "copyable w' ?ps" by (simp add: copyable_def)
  moreover have "copies os w' ?ps = map (\<lambda>n. (stagedPath temporary base [n], 420 AND NOT (roUmask os), the (readFile os w' (below root [n])))) documents"
    unfolding ps by (simp add: copies_def)
  ultimately show ?thesis using copyDocuments_ok [OF assms(1,3)] roots by auto
qed

lemma walk_below:
  assumes "wf_disk w" and "isAbs root" and "p \<in> set (walkPaths w root)"
  obtains ds where "p = below root ds" "\<forall>d\<in>set ds. proper_comp d"
proof -
  have "present w p" "within p root" using walk_member [OF assms(1,2), of p] assms(3) by simp_all
  then show thesis using within_is_below [OF assms(2)] wf_path [OF assms(1)] that by blast
qed

text \<open>Where a path below the skills of the repository is copied to.\<close>

definition skillCopy :: "string \<Rightarrow> string \<Rightarrow> string \<Rightarrow> string \<Rightarrow> string" where
  "skillCopy root temporary base p = joinPath (below temporary [base, ''skills'']) (the (relPath (below root [''skills'']) p))"

definition skillsWalk :: "disk \<Rightarrow> string \<Rightarrow> string list" where
  "skillsWalk w root = walkPaths w (below root [''skills''])"

lemma skills_name: "proper_comp ''skills''"
  using names_proper by simp

lemma skillCopy_below:
  assumes "workplace w root temporary base" and "\<forall>d\<in>set ds. proper_comp d"
  shows "skillCopy root temporary base (below root (''skills'' # ds)) = stagedPath temporary base (''skills'' # ds)"
  using assms relPath_below [of "below root [''skills'']" ds] joinPath_below [of "below temporary [base, ''skills'']" ds]
    below_below [of root "[''skills'']" ds] below_below [of temporary "[base, ''skills'']" ds] skills_name
  by (simp add: skillCopy_def stagedPath_def workplace_def)

lemma skills_shape:
  assumes "workplace w root temporary base" and "wf_disk w'" and "p \<in> set (skillsWalk w' root)"
  obtains ds where "\<forall>d\<in>set ds. proper_comp d" "p = below root (''skills'' # ds)"
    "skillCopy root temporary base p = stagedPath temporary base (''skills'' # ds)"
proof -
  have root: "isAbs root" using assms(1) by (simp add: workplace_def)
  obtain ds where ds: "p = below (below root [''skills'']) ds" "\<forall>d\<in>set ds. proper_comp d"
    using walk_below [OF assms(2) below_abs] assms(3) unfolding skillsWalk_def by blast
  then have "p = below root (''skills'' # ds)" using below_below [OF root, of "[''skills'']" ds] skills_name by simp
  then show thesis using that ds(2) skillCopy_below [OF assms(1)] by blast
qed

lemma skillCopy_same:
  assumes "workplace w root temporary base" and "wf_disk w'" and "p \<in> set (skillsWalk w' root)" and cs: "\<forall>c\<in>set cs. proper_comp c"
  shows "skillCopy root temporary base p = stagedPath temporary base cs \<longleftrightarrow> cs \<noteq> [] \<and> hd cs = ''skills'' \<and> p = below root cs"
proof -
  have t: "isAbs root" "isAbs temporary" "proper_comp base" using assms(1) by (simp_all add: workplace_def)
  obtain es where es: "\<forall>d\<in>set es. proper_comp d" "p = below root (''skills'' # es)"
      "skillCopy root temporary base p = stagedPath temporary base (''skills'' # es)"
    using skills_shape [OF assms(1-3)] .
  have all: "\<forall>d\<in>set (''skills'' # es). proper_comp d" using es(1) skills_name by simp
  have "skillCopy root temporary base p = stagedPath temporary base cs \<longleftrightarrow> ''skills'' # es = cs"
    unfolding es(3) by (rule stagedPath_inject [OF t(2,3) all cs])
  moreover have "p = below root cs \<longleftrightarrow> ''skills'' # es = cs" unfolding es(2) by (rule below_inject [OF t(1) all cs])
  ultimately show ?thesis by auto
qed

lemma skills_copyable:
  assumes wp: "workplace w root temporary base" and wf: "wf_disk w'"
    and new: "\<And>ts. \<forall>t\<in>set ts. proper_comp t \<Longrightarrow> map_of (dkFiles w') (stagedPath temporary base (''skills'' # ts)) = None"
    and cp: "cp = map (\<lambda>p. (p, skillCopy root temporary base p)) (filter (\<lambda>p. \<not> isDirectory w' p) (skillsWalk w' root))"
  shows "copyable w' cp \<and> (\<forall>p\<in>set (skillsWalk w' root). p \<notin> set (map snd cp))"
proof -
  have apart: "p \<notin> set (map snd cp)" if p: "p \<in> set (skillsWalk w' root)" for p
  proof
    assume "p \<in> set (map snd cp)"
    then obtain q where q: "q \<in> set (skillsWalk w' root)" "p = skillCopy root temporary base q" by (auto simp: cp)
    obtain ds where ds: "\<forall>d\<in>set ds. proper_comp d" "p = below root (''skills'' # ds)" by (rule skills_shape [OF wp wf p])
    obtain es where es: "\<forall>d\<in>set es. proper_comp d" "skillCopy root temporary base q = stagedPath temporary base (''skills'' # es)"
      by (rule skills_shape [OF wp wf q(1)])
    show False using source_apart [OF wp, of "''skills'' # ds" "''skills'' # es"] ds es q(2) skills_name by simp
  qed
  have "inj_on (skillCopy root temporary base) (set (skillsWalk w' root))"
  proof (rule inj_onI)
    fix p q assume m: "p \<in> set (skillsWalk w' root)" "q \<in> set (skillsWalk w' root)" "skillCopy root temporary base p = skillCopy root temporary base q"
    obtain es where es: "\<forall>d\<in>set es. proper_comp d" "skillCopy root temporary base q = stagedPath temporary base (''skills'' # es)"
      by (rule skills_shape [OF wp wf m(2)])
    then show "p = q" using skillCopy_same [OF wp wf m(1), of "''skills'' # es"] skillCopy_same [OF wp wf m(2), of "''skills'' # es"] m(3) skills_name by auto
  qed
  then have "distinct (map snd cp)"
    using walk_distinct [OF wf, of "below root [''skills'']"] unfolding cp
    by (auto simp: distinct_map comp_def skillsWalk_def intro: inj_on_subset)
  moreover have "isAbs d \<and> clean d = d \<and> map_of (dkFiles w') d = None \<and> s \<notin> set (map snd cp)" if m: "(s, d) \<in> set cp" for s d
  proof -
    have s: "s \<in> set (skillsWalk w' root)" "d = skillCopy root temporary base s" using m by (auto simp: cp)
    obtain ds where ds: "\<forall>d\<in>set ds. proper_comp d" "skillCopy root temporary base s = stagedPath temporary base (''skills'' # ds)"
      by (rule skills_shape [OF wp wf s(1)])
    show ?thesis using stagedPath_facts(1,2) [OF wp, of "''skills'' # ds"] new [OF ds(1)] apart [OF s(1)] ds s(2) skills_name by simp
  qed
  ultimately show ?thesis using apart by (auto simp: copyable_def)
qed

lemma stage_skills:
  assumes run: "copyTree os w' (joinPath root ''skills'') (joinPath (below temporary [base]) ''skills'') = (w'', None)"
    and wp: "workplace w root temporary base" and wf: "wf_disk w'"
    and new: "\<And>ts. \<forall>t\<in>set ts. proper_comp t \<Longrightarrow> map_of (dkFiles w') (stagedPath temporary base (''skills'' # ts)) = None"
    and cs: "\<forall>c\<in>set cs. proper_comp c"
  shows "continues w' w'' \<and> map_of (dkFiles w'') (stagedPath temporary base cs) =
    (if cs \<noteq> [] \<and> hd cs = ''skills'' then map_option (\<lambda>f. (420 AND NOT (roUmask os), snd f)) (map_of (dkFiles w') (below root cs))
     else map_of (dkFiles w') (stagedPath temporary base cs))"
proof -
  have t: "isAbs root" "isAbs temporary" "proper_comp base" using wp by (simp_all add: workplace_def)
  let ?src = "below root [''skills'']" and ?dst = "below temporary [base, ''skills'']" and ?ps = "skillsWalk w' root"
  define cp where "cp = map (\<lambda>p. (p, skillCopy root temporary base p)) (filter (\<lambda>p. \<not> isDirectory w' p) ?ps)"
  have tree: "treeCopies w' ?src ?dst ?ps = cp" by (simp add: cp_def treeCopies_def skillCopy_def)
  have "joinPath (below temporary [base]) ''skills'' = ?dst" "joinPath root ''skills'' = ?src"
    using joinPath_name [of _ "''skills''"] below_below [of temporary "[base]"] t skills_name by simp_all
  then have "copyEntries os ?src ?dst w' ?ps = (w'', None)"
    using run unfolding copyTree_def skillsWalk_def by (auto split: if_splits)
  moreover have "\<forall>p\<in>set ?ps. present w' p" using walk_member [OF wf, of ?src] by (simp add: skillsWalk_def)
  ultimately have ok: "continues w' w''" "map_of (dkFiles w'') = map_of (dkFiles w') ++ map_of (copies os w' cp)" "readable os w' ?ps"
    using copyEntries_ok [of os ?src ?dst w' ?ps w''] skills_copyable [OF wp wf new cp_def] wf unfolding tree by simp_all
  let ?fs = "filter (\<lambda>p. \<not> isDirectory w' p) ?ps" and ?q = "below root cs"
  have L: "copies os w' cp = map (\<lambda>p. (skillCopy root temporary base p, 420 AND NOT (roUmask os), the (readFile os w' p))) ?fs"
    by (simp add: copies_def cp_def)
  show ?thesis
  proof (cases "cs \<noteq> [] \<and> hd cs = ''skills''")
    case True
    then have "\<forall>p\<in>set ?fs. skillCopy root temporary base p = stagedPath temporary base cs \<longleftrightarrow> p = ?q"
      using skillCopy_same [OF wp wf _ cs] by simp
    note look = map_of_written [OF this, of "\<lambda>p. (420 AND NOT (roUmask os), the (readFile os w' p))"]
    obtain ts where ts: "cs = ''skills'' # ts" using True by (cases cs) auto
    have "within ?q ?src" using within_below [of ?src ts] below_below [OF t(1), of "[''skills'']" ts] ts cs by simp
    then have "?q \<in> set ?ps \<longleftrightarrow> present w' ?q" using walk_member [OF wf, of ?src] by (simp add: skillsWalk_def)
    then have in_fs: "?q \<in> set ?fs \<longleftrightarrow> map_of (dkFiles w') ?q \<noteq> None" using wf_file [OF wf, of ?q] by (auto simp: present_def)
    have "readFile os w' ?q = Some (snd f)" if "map_of (dkFiles w') ?q = Some f" for f
    proof -
      have "readFile os w' ?q \<noteq> None" using ok(3) in_fs that by (simp add: readable_def)
      with that show ?thesis by (simp add: readFile_def split: if_splits)
    qed
    then have "map_of (copies os w' cp) (stagedPath temporary base cs) =
        map_option (\<lambda>f. (420 AND NOT (roUmask os), snd f)) (map_of (dkFiles w') ?q)"
      unfolding L look using in_fs by (cases "map_of (dkFiles w') ?q") auto
    moreover have "map_of (dkFiles w') (stagedPath temporary base cs) = None" using new [of ts] cs ts by simp
    ultimately show ?thesis using True ok(1) unfolding ok(2) by (simp add: map_add_def split: option.split)
  next
    case False
    then have "map_of (copies os w' cp) (stagedPath temporary base cs) = None"
      unfolding L using skillCopy_same [OF wp wf _ cs] by (intro map_of_unwritten) auto
    with False ok show ?thesis by (auto simp: map_add_def)
  qed
qed

lemma look_names:
  assumes "workplace w root temporary base" and "\<forall>c\<in>set cs. proper_comp c" and "\<forall>n\<in>set names. proper_comp n"
  shows "map_of (map (\<lambda>n. (stagedPath temporary base [n], v n)) names) (stagedPath temporary base cs) = map_option v (find (\<lambda>n. cs = [n]) names)"
  using assms(3)
proof (induction names)
  case (Cons n names)
  have "stagedPath temporary base cs = stagedPath temporary base [n] \<longleftrightarrow> cs = [n]"
    using stagedPath_inject [of temporary base cs "[n]"] assms(1,2) Cons.prems by (simp add: workplace_def)
  with Cons show ?case by auto
qed simp

lemma source_unwritten:
  assumes "workplace w root temporary base" and "\<forall>c\<in>set cs. proper_comp c" and "\<forall>n\<in>set names. proper_comp n"
  shows "map_of (map (\<lambda>n. (stagedPath temporary base [n], v n)) names) (below root cs) = None"
proof (intro map_of_unwritten ballI)
  fix n assume "n \<in> set names"
  then show "stagedPath temporary base [n] \<noteq> below root cs" using source_apart [OF assms(1,2), of "[n]"] assms(3) by auto
qed

lemma names_apart: "''skills'' \<notin> set (binaries @ documents)" "set binaries \<inter> set documents = {}"
  by code_simp+

lemma found: "find P xs = Some x \<Longrightarrow> P x \<and> x \<in> set xs"
  by (induction xs) (auto split: if_splits)

lemma find_names:
  "cs \<noteq> [] \<and> hd cs = ''skills'' \<Longrightarrow> find (\<lambda>n. cs = [n]) binaries = None \<and> find (\<lambda>n. cs = [n]) documents = None"
  "find (\<lambda>n. cs = [n]) binaries = Some b \<Longrightarrow> cs = [b] \<and> b \<noteq> ''skills'' \<and> find (\<lambda>n. cs = [n]) documents = None"
  "find (\<lambda>n. cs = [n]) documents = Some n \<Longrightarrow> cs = [n] \<and> n \<in> set documents \<and> n \<noteq> ''skills'' \<and> find (\<lambda>n. cs = [n]) binaries = None"
  "find (\<lambda>n. cs = [n]) documents = None \<Longrightarrow> cs \<notin> set (map (\<lambda>n. [n]) documents)"
  using names_apart by (auto simp: find_None_iff dest!: found)

text \<open>The disk before the skills are copied.\<close>

lemma staged_documents:
  assumes run: "mkdirAll (poSystem p) w (joinPath (below temporary [base]) ''skills'') = (w1, True)"
    "buildBinaries p root (below temporary [base]) [] w1 binaries = (w2, None)"
    "copyDocuments (poSystem p) root (below temporary [base]) w2 documents = (w3, None)"
    and wp: "workplace w root temporary base" and linux: "poGOOS p = ''linux''" and ds: "\<forall>d\<in>set ds. proper_comp d"
  shows "wf_disk w3" and "map_of (dkFiles w3) (below root ds) = map_of (dkFiles w) (below root ds)"
    and "map_of (dkFiles w3) (stagedPath temporary base ds) =
      (case find (\<lambda>n. ds = [n]) documents of
         Some n \<Rightarrow> map_option (\<lambda>f. (420 AND NOT (roUmask (poSystem p)), snd f)) (map_of (dkFiles w) (below root [n]))
       | None \<Rightarrow> map_option (\<lambda>b. (493, fst (poBuild p root b))) (find (\<lambda>n. ds = [n]) binaries))"
proof -
  let ?os = "poSystem p"
  have wf: "wf_disk w" and names: "\<forall>n\<in>set binaries. proper_comp n" "\<forall>n\<in>set documents. proper_comp n"
    using wp names_proper by (simp_all add: workplace_def)
  note m1 = mkdirAll_ok [OF run(1) wf joinPath_abs(1) [OF below_abs]]
  have wp1: "workplace w1 root temporary base" using wp m1 by (simp add: workplace_def)
  note m2 = stage_built [OF run(2) wp1] note built = look_names [OF wp _ names(1)] source_unwritten [OF wp _ names(1)]
  have new: "map_of (dkFiles w2) (stagedPath temporary base ds) =
      map_option (\<lambda>b. (493, fst (poBuild p root b))) (find (\<lambda>n. ds = [n]) binaries)" if "\<forall>d\<in>set ds. proper_comp d" for ds
    using m2 built(1) [OF that, of "\<lambda>b. (493 :: 32 word, fst (poBuild p root b))"] stagedPath_facts(4) [OF wp1 that] linux
    by (simp add: map_add_def binaryMode_def split: option.split)
  have none: "map_of (dkFiles w2) (stagedPath temporary base [n]) = None" if "n \<in> set documents" for n
    using new [of "[n]"] names(2) that by (auto simp: binaries_def documents_def)
  have wf2: "wf_disk w2" using m2 by (simp add: continues_def)
  note m3 = stage_documents [OF run(3) wp wf2 none] note copied = look_names [OF wp _ names(2)] source_unwritten [OF wp _ names(2)]
  have sources: "map_of (dkFiles w3) (below root ds) = map_of (dkFiles w) (below root ds)"
      "map_of (dkFiles w2) (below root ds) = map_of (dkFiles w) (below root ds)" if "\<forall>d\<in>set ds. proper_comp d" for ds
    using m1 m2 m3 built(2) [OF that, of "\<lambda>b. (binaryMode p, fst (poBuild p root b))"]
      copied(2) [OF that, of "\<lambda>n. (420 AND NOT (roUmask ?os), the (readFile ?os w2 (below root [n])))"]
    by (simp_all add: map_add_def)
  have doc: "map_option (\<lambda>f. (420 AND NOT (roUmask ?os), snd f)) (map_of (dkFiles w) (below root [n])) =
      Some (420 AND NOT (roUmask ?os), the (readFile ?os w2 (below root [n])))" if "n \<in> set documents" for n
  proof -
    have "readFile ?os w2 (below root [n]) \<noteq> None" using m3 that by blast
    moreover have "map_of (dkFiles w2) (below root [n]) = map_of (dkFiles w) (below root [n])" using sources(2) [of "[n]"] names(2) that by simp
    ultimately show ?thesis by (auto simp: readFile_def split: if_splits)
  qed
  have at3: "map_of (dkFiles w3) (stagedPath temporary base ds) =
      (case find (\<lambda>n. ds = [n]) documents of
         Some n \<Rightarrow> Some (420 AND NOT (roUmask ?os), the (readFile ?os w2 (below root [n])))
       | None \<Rightarrow> map_option (\<lambda>b. (493, fst (poBuild p root b))) (find (\<lambda>n. ds = [n]) binaries))"
    using m3 copied(1) [OF ds, of "\<lambda>n. (420 AND NOT (roUmask ?os), the (readFile ?os w2 (below root [n])))"] new [OF ds]
    by (simp add: map_add_def split: option.split)
  show "map_of (dkFiles w3) (stagedPath temporary base ds) =
      (case find (\<lambda>n. ds = [n]) documents of
         Some n \<Rightarrow> map_option (\<lambda>f. (420 AND NOT (roUmask ?os), snd f)) (map_of (dkFiles w) (below root [n]))
       | None \<Rightarrow> map_option (\<lambda>b. (493, fst (poBuild p root b))) (find (\<lambda>n. ds = [n]) binaries))"
  proof (cases "find (\<lambda>n. ds = [n]) documents")
    case (Some n)
    then have "n \<in> set documents" using found by fast
    note d = doc [OF this]
    show ?thesis unfolding at3 Some option.case d by (rule refl)
  qed (simp add: at3)
  show "wf_disk w3" "map_of (dkFiles w3) (below root ds) = map_of (dkFiles w) (below root ds)"
    using m3 sources(1) [OF ds] by (simp_all add: continues_def)
qed

text \<open>The parts of a release do not overlap.\<close>

lemma released_part:
  "cs \<noteq> [] \<and> hd cs = ''skills'' \<Longrightarrow> released p w root cs = map_option (\<lambda>f. (420, snd f)) (map_of (dkFiles w) (below root cs))"
  "\<not> (cs \<noteq> [] \<and> hd cs = ''skills'') \<Longrightarrow> released p w root cs =
     (case find (\<lambda>n. cs = [n]) documents of
        Some n \<Rightarrow> map_option (\<lambda>f. (420, snd f)) (map_of (dkFiles w) (below root [n]))
      | None \<Rightarrow> map_option (\<lambda>b. (493, fst (poBuild p root b))) (find (\<lambda>n. cs = [n]) binaries))"
proof -
  assume "cs \<noteq> [] \<and> hd cs = ''skills''"
  with find_names(1) [OF this] show "released p w root cs = map_option (\<lambda>f. (420, snd f)) (map_of (dkFiles w) (below root cs))"
    unfolding released_def by simp
next
  assume n: "\<not> (cs \<noteq> [] \<and> hd cs = ''skills'')"
  show "released p w root cs =
     (case find (\<lambda>n. cs = [n]) documents of
        Some n \<Rightarrow> map_option (\<lambda>f. (420, snd f)) (map_of (dkFiles w) (below root [n]))
      | None \<Rightarrow> map_option (\<lambda>b. (493, fst (poBuild p root b))) (find (\<lambda>n. cs = [n]) binaries))"
  proof (cases "find (\<lambda>n. cs = [n]) documents")
    case None
    with n find_names(4) [OF None] show ?thesis
      unfolding released_def by (cases "find (\<lambda>n. cs = [n]) binaries") (simp_all only: option.case option.map if_False simp_thms)
  next
    case (Some d)
    have f: "find (\<lambda>n. cs = [n]) binaries = None" "cs \<in> set (map (\<lambda>n. [n]) documents)" "cs = [d]"
      using find_names(3) [OF Some] by auto
    have "released p w root cs = map_option (\<lambda>f. (420, snd f)) (map_of (dkFiles w) (below root cs))"
      by (simp only: released_def f(1,2) option.case if_True simp_thms)
    with Some f(3) show ?thesis by simp
  qed
qed

lemma staged_release:
  assumes run: "stageRelease p w root (below temporary [base]) [] = (w', None)" and wp: "workplace w root temporary base"
    and linux: "poGOOS p = ''linux''" and cs: "\<forall>c\<in>set cs. proper_comp c"
  shows "wf_disk w' \<and> map_option (masked (poSystem p)) (map_of (dkFiles w') (stagedPath temporary base cs)) =
    map_option (masked (poSystem p)) (released p w root cs)"
proof -
  let ?os = "poSystem p" and ?content = "below temporary [base]"
  obtain w1 w2 w3 where w: "mkdirAll ?os w (joinPath ?content ''skills'') = (w1, True)"
      "buildBinaries p root ?content [] w1 binaries = (w2, None)" "copyDocuments ?os root ?content w2 documents = (w3, None)"
      and w4: "copyTree ?os w3 (joinPath root ''skills'') (joinPath ?content ''skills'') = (w', None)"
    using run by (auto simp: stageRelease_def split: prod.splits bool.splits option.splits)
  note three = staged_documents [OF w wp linux]
  have free: "map_of (dkFiles w3) (stagedPath temporary base (''skills'' # ts)) = None" if "\<forall>t\<in>set ts. proper_comp t" for ts
    using three(3) [of "''skills'' # ts"] find_names(1) [of "''skills'' # ts"] that skills_name by simp
  note four = stage_skills [OF w4 wp three(1) [OF cs] free cs]
  show ?thesis
  proof (cases "cs \<noteq> [] \<and> hd cs = ''skills''")
    case True
    with four three(2) [OF cs] show ?thesis
      by (simp add: continues_def released_part(1) [OF True] option.map_comp comp_def masked_again)
  next
    case False
    with four three(3) [OF cs] show ?thesis
      unfolding released_part(2) [OF False]
      by (auto simp: continues_def option.map_comp comp_def masked_again split: option.split)
  qed
qed

section \<open>The archive of a release\<close>

text \<open>What is documented of the archive formats and of the disk: reading an archive gives the entries that
  were written, and a file that was closed without an error holds what was written to it.\<close>

definition faithful :: "pack_os \<Rightarrow> bool" where
  "faithful p \<longleftrightarrow> (\<forall>es. roTar (poSystem p) (poTar p es) = Some (es, True)) \<and> (\<forall>b. snd (poFlush p b) \<longrightarrow> fst (poFlush p b) = b)"

lemma tar_written:
  assumes "writeTarGzip p w archive temporary base = (w', None)" and "wf_disk w" and "isAbs temporary" and "proper_comp base"
    and "isAbs archive" and "clean archive = archive" and "faithful p"
  obtains es w1 where "map_option snd (map_of (dkFiles w') archive) = Some (poTar p es)" "wf_disk w1"
    "map_of (dkFiles w1) = (map_of (dkFiles w))(archive := map_of (dkFiles w1) archive)"
    "filesOf es = map (writtenFile (poSystem p) w1 temporary) (filter (\<lambda>q. \<not> isDirectory w1 q) (walkPaths w1 (below temporary [base])))"
    "readable (poSystem p) w1 (walkPaths w1 (below temporary [base]))"
proof -
  obtain w1 where w1: "createFile (poSystem p) w archive 438 ([], True) = (w1, True)"
    using assms(1) by (auto simp: writeTarGzip_def split: prod.splits bool.splits)
  have base: "joinPath temporary base = below temporary [base]" by (rule joinPath_name [OF assms(3,4)])
  obtain es e where es: "(if present w1 (below temporary [base]) then tarEntries (poSystem p) w1 temporary [] (walkPaths w1 (below temporary [base]))
      else ([], Some CannotWalk)) = (es, e)" by fastforce
  have c: "closeArchive p w1 archive (poTar p es) e = (w', None)" using assms(1) unfolding writeTarGzip_def base by (simp add: w1 es)
  then have e: "e = None" and w': "w' = setBytes w1 archive (poTar p es)"
    using assms(7) by (auto simp: closeArchive_def faithful_def split: prod.splits if_splits) (metis snd_conv fst_conv)
  then have t: "tarEntries (poSystem p) w1 temporary [] (walkPaths w1 (below temporary [base])) = (es, None)"
    using es by (simp split: if_splits)
  show thesis
  proof (rule that [of es w1])
    show "map_option snd (map_of (dkFiles w') archive) = Some (poTar p es)" by (simp add: w' setBytes_def)
    show "wf_disk w1" using createFile_ok [OF w1 assms(2,5,6)] by simp
    show "map_of (dkFiles w1) = (map_of (dkFiles w))(archive := map_of (dkFiles w1) archive)" using createFile_files [OF w1] by auto
  qed (use tar_entries [OF t] in \<open>simp_all add: filesOf_def\<close>)
qed

lemma extract_tar:
  assumes "extractTarGzip os w archive root = (w', None)" and "map_option snd (map_of (dkFiles w) archive) = Some content"
    and "roTar os content = Some (es, True)"
  shows "map_of (dkFiles w') = unpackedFiles os root (map_of (dkFiles w)) (filesOf es)"
proof -
  have "extractTarEntries os root w es True = (w', None)"
    using assms by (auto simp: extractTarGzip_def readFile_def split: if_splits)
  from tar_unpacked [OF this] show ?thesis by (simp flip: unpackedFiles_filesOf)
qed

text \<open>Writing the archive and unpacking it elsewhere.\<close>

lemma tar_roundtrip:
  assumes "writeTarGzip p w archive temporary base = (w', None)" and "wf_disk w" and "isAbs temporary" and "proper_comp base"
    and "isAbs archive" and "clean archive = archive" and "faithful p" and "\<not> within archive temporary"
    and "map_of (dkFiles d) archive = map_of (dkFiles w') archive" and "extractTarGzip (poSystem p) d archive t = (d', None)"
    and "isAbs t" and "list_all (\<lambda>q. \<not> within q t) (map_keys (dkFiles d))" and cs: "\<forall>c\<in>set cs. proper_comp c"
  shows "map_of (dkFiles d') (below t cs) =
    (if cs \<noteq> [] \<and> hd cs = base then map_option (masked (poSystem p)) (map_of (dkFiles w) (below temporary cs)) else None)"
proof -
  obtain es w1 where es: "map_option snd (map_of (dkFiles w') archive) = Some (poTar p es)" "wf_disk w1"
    "map_of (dkFiles w1) = (map_of (dkFiles w))(archive := map_of (dkFiles w1) archive)"
    "filesOf es = map (writtenFile (poSystem p) w1 temporary) (filter (\<lambda>q. \<not> isDirectory w1 q) (walkPaths w1 (below temporary [base])))"
    "readable (poSystem p) w1 (walkPaths w1 (below temporary [base]))" by (rule tar_written [OF assms(1-7)])
  have "map_of (dkFiles d') = unpackedFiles (poSystem p) t (map_of (dkFiles d)) (filesOf es)"
    using extract_tar [OF assms(10)] es(1) assms(7,9) by (simp add: faithful_def)
  moreover have "map_of (dkFiles d) q = None" if "isAbs q" "within q t" for q
    using assms(12) that by (auto simp: list_all_iff map_of_eq_None_iff)
  moreover have "below temporary cs \<noteq> archive" using within_below [OF assms(3) cs] assms(8) by auto
  then have "map_of (dkFiles w1) (below temporary cs) = map_of (dkFiles w) (below temporary cs)" by (metis es(3) fun_upd_apply)
  ultimately show ?thesis
    unfolding es(4) using archive_unpacked [OF es(2) assms(3,11,4) refl es(5) _ cs, of "map_of (dkFiles d)"] by simp
qed

section \<open>A packed release\<close>

lemma removeAll_files: "map_of (dkFiles (removeAll w path)) q = (if within q path then None else map_of (dkFiles w) q)"
proof -
  have "map_of (filter (\<lambda>(p, _). \<not> within p path) fs) q = (if within q path then None else map_of fs q)" for fs :: "(string, 32 word \<times> bytes) gomap"
    by (induction fs) auto
  then show ?thesis by (simp add: removeAll_def)
qed

lemma verify_keeps:
  assumes "verifyArchive os w version archive = (w', e)" and "isAbs archive" and "clean archive = archive"
    and "\<forall>t. roMkdirTemp os ''dovik-verify-'' = Some t \<longrightarrow> isAbs t \<and> \<not> within archive t"
  shows "map_of (dkFiles w') archive = map_of (dkFiles w) archive"
proof -
  have abs: "absPath os archive = Some archive" using assms(2,3) by (simp add: absPath_def)
  have "map_of (dkFiles (fst (extractArchive os (addDirectory w t) archive t))) archive = map_of (dkFiles w) archive"
    if "roMkdirTemp os ''dovik-verify-'' = Some t" for t
    using confined_extract [of t "addDirectory w t" os archive] assms(4) that by (auto simp: confined_def addDirectory_def)
  then show ?thesis
    using assms(1,4) by (auto simp: verifyArchive_def abs removeAll_files split: option.splits prod.splits)
qed

lemma checksum_keeps: "writeChecksum os w path = (w', None) \<Longrightarrow> map_of (dkFiles w') path = map_of (dkFiles w) path"
  by (auto simp: writeChecksum_def checksumPath_def dest!: createFile_files split: option.splits prod.splits if_splits)

definition linuxTarget :: pack_target where
  "linuxTarget = \<lparr>tgName = ''linux-x64'', tgArchive = ''.tar.gz'', tgExeSuffix = []\<rparr>"

definition releaseArchive :: "string \<Rightarrow> string \<Rightarrow> string" where
  "releaseArchive directory version = joinPath directory (releaseBase version linuxTarget @ ''.tar.gz'')"

text \<open>Packing on Linux: the places do not overlap, and the temporary directories are new ones.\<close>

definition packing :: "pack_os \<Rightarrow> disk \<Rightarrow> string \<Rightarrow> string \<Rightarrow> string \<Rightarrow> string \<Rightarrow> bool" where
  "packing p w version root directory temporary \<longleftrightarrow>
     poGOOS p = ''linux'' \<and> faithful p \<and> workplace w root temporary (releaseBase version linuxTarget) \<and> clean temporary = temporary \<and>
     isAbs directory \<and> \<not> within (releaseArchive directory version) temporary \<and>
     repositoryRoot (poSystem p) w = Some (Inr root) \<and> roMkdirTemp (poSystem p) ''dovik-release-'' = Some temporary \<and>
     (\<forall>t. roMkdirTemp (poSystem p) ''dovik-verify-'' = Some t \<longrightarrow> isAbs t \<and> \<not> within (releaseArchive directory version) t)"

lemma linux_target: "poGOOS p = ''linux'' \<Longrightarrow> currentTarget p = Inr target \<Longrightarrow> target = linuxTarget"
  by (auto simp: currentTarget_def targets_def linuxTarget_def Let_def split: option.splits if_splits)

lemma linux_archive [simp]: "tgArchive linuxTarget = ''.tar.gz''" "tgExeSuffix linuxTarget = []"
  by (simp_all add: linuxTarget_def)

lemma packStaged_steps:
  assumes "packStaged p w version linuxTarget root directory temporary = (w', None)"
  obtains w1 w2 w3 where
    "stageRelease p w root (joinPath temporary (releaseBase version linuxTarget)) [] = (w1, None)"
    "writeTarGzip p w1 (releaseArchive directory version) temporary (releaseBase version linuxTarget) = (w2, None)"
    "writeChecksum (poSystem p) w2 (releaseArchive directory version) = (w3, None)"
    "verifyArchive (poSystem p) w3 version (releaseArchive directory version) = (w', None)"
  using assms by (auto simp: packStaged_def releaseArchive_def Let_def split: prod.splits option.splits)

lemma workplace_ready:
  assumes "workplace w root temporary base" and "clean temporary = temporary" and "mkdirAll os w directory = (w1, True)" and "isAbs directory"
  shows "workplace (addDirectory w1 temporary) root temporary base"
proof -
  note m = mkdirAll_ok [OF assms(3) _ assms(4)]
  have "wf_disk w" "isAbs temporary" using assms(1) by (simp_all add: workplace_def)
  then have "map_of (dkFiles w1) temporary = None" "wf_disk w1" "dkFiles w1 = dkFiles w"
    using m workplace_free [OF assms(1) within_refl] by simp_all
  then have "wf_disk (addDirectory w1 temporary)"
    using \<open>isAbs temporary\<close> assms(2) by (auto simp: wf_disk_def addDirectory_def list_all_iff isDirectory_def map_of_eq_None_iff)
  with assms(1) \<open>dkFiles w1 = dkFiles w\<close> show ?thesis by (simp add: workplace_def addDirectory_def)
qed

text \<open>C39: A packed release holds what was built and nothing else.  When packing succeeds, unpacking the archive into an empty
  directory gives, below the directory of the release, the three binaries as the Go tool built them, the
  documents of the repository and every file of its skills, with their modes under the mask, and no other
  file.\<close>

theorem package_roundtrip:
  assumes "packing p w version root directory temporary" and "absPath (poSystem p) output = Some directory"
    and "packageCurrent p w version output = Some (w', None)"
    and "map_of (dkFiles d) (releaseArchive directory version) = map_of (dkFiles w') (releaseArchive directory version)"
    and "list_all (\<lambda>q. \<not> within q t) (map_keys (dkFiles d))" and "isAbs t"
    and "extractTarGzip (poSystem p) d (releaseArchive directory version) t = (d', None)" and cs: "\<forall>c\<in>set cs. proper_comp c"
  shows "map_of (dkFiles d') (below t cs) =
    (if cs \<noteq> [] \<and> hd cs = releaseBase version linuxTarget then map_option (masked (poSystem p)) (released p w root (tl cs)) else None)"
proof -
  let ?archive = "releaseArchive directory version" and ?base = "releaseBase version linuxTarget"
  have p: "poGOOS p = ''linux''" "faithful p" "workplace w root temporary ?base" "clean temporary = temporary" "isAbs directory"
      "\<not> within ?archive temporary" "repositoryRoot (poSystem p) w = Some (Inr root)" "roMkdirTemp (poSystem p) ''dovik-release-'' = Some temporary"
      "\<forall>t. roMkdirTemp (poSystem p) ''dovik-verify-'' = Some t \<longrightarrow> isAbs t \<and> \<not> within ?archive t"
    using assms(1) by (simp_all add: packing_def)
  note archive = joinPath_abs [OF p(5), of "?base @ ''.tar.gz''", folded releaseArchive_def]
  have t: "isAbs temporary" "proper_comp ?base" using p(3) by (simp_all add: workplace_def)
  obtain w1 w2 where w1: "mkdirAll (poSystem p) w directory = (w1, True)"
      and w2: "packStaged p (addDirectory w1 temporary) version linuxTarget root directory temporary = (w2, None)" and w': "w' = removeAll w2 temporary"
    using assms(3) p(7,8) assms(2) linux_target [OF p(1)]
    by (auto simp: packageCurrent_def split: sum.splits option.splits prod.splits bool.splits)
  note ready = workplace_ready [OF p(3,4) w1 p(5)]
  obtain s1 s2 s3 where s: "stageRelease p (addDirectory w1 temporary) root (joinPath temporary ?base) [] = (s1, None)"
      "writeTarGzip p s1 ?archive temporary ?base = (s2, None)" "writeChecksum (poSystem p) s2 ?archive = (s3, None)"
      "verifyArchive (poSystem p) s3 version ?archive = (w2, None)" by (rule packStaged_steps [OF w2])
  note staged = staged_release [OF s(1) [unfolded joinPath_name [OF t]] ready p(1)]
  have "map_of (dkFiles w') ?archive = map_of (dkFiles s2) ?archive"
    using verify_keeps [OF s(4) archive p(9)] checksum_keeps [OF s(3)] p(6) by (simp add: w' removeAll_files)
  with assms(4) have d: "map_of (dkFiles d) ?archive = map_of (dkFiles s2) ?archive" by simp
  have "wf_disk s1" using staged [of "[]"] by simp
  note unpacked = tar_roundtrip [OF s(2) this t archive p(2,6) d assms(7,6,5) cs]
  have files: "dkFiles (addDirectory w1 temporary) = dkFiles w"
    using mkdirAll_files [of "poSystem p" w directory] w1 by (simp add: addDirectory_def)
  have same: "released p (addDirectory w1 temporary) root = released p w root" by (rule ext) (simp only: released_def files)
  show ?thesis
  proof (cases "cs \<noteq> [] \<and> hd cs = ?base")
    case True
    then obtain ds where "cs = ?base # ds" by (cases cs) auto
    with cs staged [of ds] show ?thesis unfolding unpacked by (simp add: stagedPath_def same)
  qed (auto simp: unpacked)
qed

section \<open>A release is packed\<close>

text \<open>An archive format: numbers in unary, and lengths before texts.\<close>

definition putNumber :: "nat \<Rightarrow> string" where
  "putNumber n = replicate n (CHR ''x'') @ ''.''"

fun getNumber :: "string \<Rightarrow> nat \<times> string" where
  "getNumber [] = (0, [])"
| "getNumber (c # s) = (if c = CHR ''x'' then map_prod Suc id (getNumber s) else (0, s))"

definition putText :: "string \<Rightarrow> string" where
  "putText s = putNumber (length s) @ s"

definition getText :: "string \<Rightarrow> string \<times> string" where
  "getText s = (case getNumber s of (n, rest) \<Rightarrow> (take n rest, drop n rest))"

definition putEntry :: "archive_entry \<Rightarrow> string" where
  "putEntry e = putText (aeName e) @ putNumber (case aeKind e of TypeReg \<Rightarrow> 0 | TypeDir \<Rightarrow> 1 | TypeOther \<Rightarrow> 2) @
     putNumber (unat (aeMode e) div 32) @ putNumber (unat (aeMode e) mod 32) @ putNumber (if aeOpens e then 1 else 0) @
     putText (fst (aeData e)) @ putNumber (if snd (aeData e) then 1 else 0)"

definition getEntry :: "string \<Rightarrow> archive_entry \<times> string" where
  "getEntry s =
     (case getText s of (name, s1) \<Rightarrow> case getNumber s1 of (kind, s2) \<Rightarrow> case getNumber s2 of (high, s3) \<Rightarrow>
      case getNumber s3 of (low, s4) \<Rightarrow> case getNumber s4 of (opens, s5) \<Rightarrow> case getText s5 of (data, s6) \<Rightarrow>
      case getNumber s6 of (ends, s7) \<Rightarrow>
        (\<lparr>aeName = name, aeKind = (if kind = 0 then TypeReg else if kind = 1 then TypeDir else TypeOther),
          aeMode = word_of_nat (high * 32 + low), aeOpens = (opens = 1), aeData = (data, ends = 1)\<rparr>, s7))"

fun getEntries :: "nat \<Rightarrow> string \<Rightarrow> archive_entry list" where
  "getEntries 0 s = []"
| "getEntries (Suc n) s = (case getEntry s of (e, rest) \<Rightarrow> e # getEntries n rest)"

definition putArchive :: "archive_entry list \<Rightarrow> string" where
  "putArchive es = putNumber (length es) @ concat (map putEntry es)"

definition getArchive :: "string \<Rightarrow> (archive_entry list \<times> bool) option" where
  "getArchive s = (case getNumber s of (n, rest) \<Rightarrow> Some (getEntries n rest, True))"

lemma getNumber_put [simp]: "getNumber (putNumber n @ s) = (n, s)"
  by (induction n) (simp_all add: putNumber_def)

lemma getText_put [simp]: "getText (putText t @ s) = (t, s)"
  by (simp add: getText_def putText_def)

lemma getEntry_put [simp]: "getEntry (putEntry e @ s) = (e, s)"
  by (cases e; cases "aeKind e") (auto simp: getEntry_def putEntry_def simp del: of_nat_add of_nat_mult)

lemma getEntries_put: "getEntries (length es) (concat (map putEntry es) @ s) = es"
  by (induction es) simp_all

lemma getArchive_put: "getArchive (putArchive es) = Some (es, True)"
  using getEntries_put [of es "[]"] by (simp add: getArchive_def putArchive_def)

definition sample_packer :: pack_os where
  "sample_packer = \<lparr>poSystem = sample_release\<lparr>roGetwd := Some ''/r'', roModules := (\<lambda>d. Some []), roTar := getArchive,
       roMkdirTemp := (\<lambda>pattern. Some (if pattern = ''dovik-release-'' then ''/s'' else ''/v'')),
       roRun := (\<lambda>path arguments. ((if hasSuffix path ''/dovik'' then ''dovik 1'' else ''dovikd 1''), True))\<rparr>,
     poGOOS = ''linux'', poGOARCH = ''amd64'', poBuild = (\<lambda>root command. (command, True)), poChmod = (\<lambda>path. True),
     poZip = putArchive, poTar = putArchive, poFlush = (\<lambda>b. (b, True))\<rparr>"

definition sample_repository :: disk where
  "sample_repository =
     \<lparr>dkFiles = map (\<lambda>name. (''/r/'' @ name, 420, ''#''))
        [''go.mod'', ''README.md'', ''CHANGELOG.md'', ''LICENSE'', ''THIRD_PARTY_LICENSES.md'', ''skills/README.md'',
         ''skills/claude/SKILL.md'', ''skills/codex/SKILL.md''],
      dkDirs = [''/'', ''/r'', ''/r/skills'', ''/r/skills/claude'', ''/r/skills/codex'']\<rparr>"

text \<open>The disks on the way: staged, with the archive opened, and with the archive and its checksum.\<close>

definition ready_disk :: disk where
  "ready_disk = sample_repository\<lparr>dkDirs := [''/s'', ''/o''] @ dkDirs sample_repository\<rparr>"

definition staged_disk :: disk where
  "staged_disk =
     \<lparr>dkFiles = dkFiles sample_repository @ map (\<lambda>(name, f). (''/s/dovik-v1-linux-x64/'' @ name, f))
        ([(''dovik'', 493, ''dovik''), (''dovikd'', 493, ''dovikd''), (''gh'', 493, ''gh'')] @
         map (\<lambda>name. (name, 420, ''#''))
          [''README.md'', ''CHANGELOG.md'', ''LICENSE'', ''THIRD_PARTY_LICENSES.md'', ''skills/README.md'', ''skills/claude/SKILL.md'', ''skills/codex/SKILL.md'']),
      dkDirs = map ((@) ''/s/dovik-v1-linux-x64'') [''/skills/codex'', ''/skills/claude'', [], ''/skills''] @ dkDirs ready_disk\<rparr>"

definition opened_disk :: disk where
  "opened_disk = staged_disk\<lparr>dkFiles := dkFiles staged_disk @ [(''/o/dovik-v1-linux-x64.tar.gz'', 420, [])]\<rparr>"

definition written_entries :: "archive_entry list" where
  "written_entries = map (\<lambda>(name, f). case f of
       None \<Rightarrow> directoryEntry (poSystem sample_packer) (''dovik-v1-linux-x64'' @ name)
     | Some (mode, content) \<Rightarrow> fileEntry (''dovik-v1-linux-x64'' @ name) mode content)
     [([], None), (''/CHANGELOG.md'', Some (420, ''#'')), (''/LICENSE'', Some (420, ''#'')), (''/README.md'', Some (420, ''#'')),
      (''/THIRD_PARTY_LICENSES.md'', Some (420, ''#'')), (''/dovik'', Some (493, ''dovik'')), (''/dovikd'', Some (493, ''dovikd'')),
      (''/gh'', Some (493, ''gh'')), (''/skills'', None), (''/skills/README.md'', Some (420, ''#'')), (''/skills/claude'', None),
      (''/skills/claude/SKILL.md'', Some (420, ''#'')), (''/skills/codex'', None), (''/skills/codex/SKILL.md'', Some (420, ''#''))]"

definition closed_disk :: "bytes \<Rightarrow> disk" where
  "closed_disk content = staged_disk\<lparr>dkFiles := dkFiles staged_disk @
     [(''/o/dovik-v1-linux-x64.tar.gz'', 420, content), (''/o/dovik-v1-linux-x64.tar.gz.sha256'', 420, ''ab  dovik-v1-linux-x64.tar.gz'' @ [CHR 0x0A])]\<rparr>"

text \<open>Packing it, with the bytes of the archive left as they are.\<close>

lemma packed_staged: "stageRelease sample_packer ready_disk ''/r'' ''/s/dovik-v1-linux-x64'' [] = (staged_disk, None)"
  by code_simp

lemma packed_opened:
  "createFile (poSystem sample_packer) staged_disk ''/o/dovik-v1-linux-x64.tar.gz'' 438 ([], True) = (opened_disk, True)"
  by code_simp

lemma packed_walk:
  "tarEntries (poSystem sample_packer) opened_disk ''/s'' [] (walkPaths opened_disk ''/s/dovik-v1-linux-x64'') = (written_entries, None)"
  by code_simp

lemma packed_checksum:
  "writeChecksum (poSystem sample_packer) (setBytes opened_disk ''/o/dovik-v1-linux-x64.tar.gz'' content) ''/o/dovik-v1-linux-x64.tar.gz'' =
     (closed_disk content, None)"
  by code_simp

lemma packed_verified:
  "verifyChecksum (poSystem sample_packer) (closed_disk content) ''/o/dovik-v1-linux-x64.tar.gz'' = None"
  by code_simp

definition unpacked_disk :: "bytes \<Rightarrow> disk" where
  "unpacked_disk content =
     \<lparr>dkFiles = dkFiles (closed_disk content) @
        map (\<lambda>e. (''/v/'' @ aeName e, aeMode e, fst (aeData e))) (filter (\<lambda>e. aeKind e \<noteq> TypeDir) written_entries),
      dkDirs = map ((@) ''/v/dovik-v1-linux-x64'') [''/skills/codex'', ''/skills/claude'', ''/skills'', []] @ ''/v'' # dkDirs staged_disk\<rparr>"

lemma packed_unpacked:
  "extractTarEntries (poSystem sample_packer) ''/v'' (addDirectory (closed_disk content) ''/v'') written_entries True = (unpacked_disk content, None)"
  by code_simp

lemma packed_checked:
  "verifyExtracted (poSystem sample_packer) (unpacked_disk content) ''1'' ''/o/dovik-v1-linux-x64.tar.gz'' ''/v'' = None"
  by code_simp

lemma sample_fields [simp]:
  "poFlush sample_packer b = (b, True)" "poTar sample_packer es = putArchive es" "roTar (poSystem sample_packer) = getArchive"
  "roReadable (poSystem sample_packer) path" "poGOOS sample_packer = ''linux''"
  "roMkdirTemp (poSystem sample_packer) pattern = Some (if pattern = ''dovik-release-'' then ''/s'' else ''/v'')"
  by (simp_all add: sample_packer_def sample_release_def)

lemma sample_names:
  "joinPath ''/s'' (releaseBase ''1'' linuxTarget) = ''/s/dovik-v1-linux-x64''"
  "releaseArchive ''/o'' ''1'' = ''/o/dovik-v1-linux-x64.tar.gz''"
  "hasSuffix ''/o/dovik-v1-linux-x64.tar.gz'' ''.zip'' = False" "hasSuffix ''/o/dovik-v1-linux-x64.tar.gz'' ''.tar.gz''"
  "absPath (poSystem sample_packer) ''/o/dovik-v1-linux-x64.tar.gz'' = Some ''/o/dovik-v1-linux-x64.tar.gz''"
  by code_simp+

lemma packed_verify:
  "verifyArchive (poSystem sample_packer) (closed_disk (putArchive written_entries)) ''1'' ''/o/dovik-v1-linux-x64.tar.gz'' =
     (removeAll (unpacked_disk (putArchive written_entries)) ''/v'', None)"
proof -
  let ?c = "putArchive written_entries"
  have "map_of (dkFiles (addDirectory (closed_disk ?c) ''/v'')) ''/o/dovik-v1-linux-x64.tar.gz'' = Some (420, ?c)"
    by (simp add: addDirectory_def closed_disk_def map_add_def split: option.split) (simp add: staged_disk_def sample_repository_def)
  then have r: "readFile (poSystem sample_packer) (addDirectory (closed_disk ?c) ''/v'') ''/o/dovik-v1-linux-x64.tar.gz'' = Some ?c"
    by (simp add: readFile_def)
  have "extractArchive (poSystem sample_packer) (addDirectory (closed_disk ?c) ''/v'') ''/o/dovik-v1-linux-x64.tar.gz'' ''/v'' = (unpacked_disk ?c, None)"
    by (simp add: extractArchive_def extractTarGzip_def sample_names r getArchive_put packed_unpacked)
  then show ?thesis by (simp add: verifyArchive_def sample_names packed_verified packed_checked)
qed

lemma packed_archive:
  "packStaged sample_packer ready_disk ''1'' linuxTarget ''/r'' ''/o'' ''/s'' = (removeAll (unpacked_disk (putArchive written_entries)) ''/v'', None)"
proof -
  have "present opened_disk ''/s/dovik-v1-linux-x64''" by code_simp
  then have "writeTarGzip sample_packer staged_disk ''/o/dovik-v1-linux-x64.tar.gz'' ''/s'' (releaseBase ''1'' linuxTarget) =
      (setBytes opened_disk ''/o/dovik-v1-linux-x64.tar.gz'' (putArchive written_entries), None)"
    by (simp add: writeTarGzip_def sample_names packed_opened packed_walk closeArchive_def)
  then show ?thesis
    by (simp add: packStaged_def Let_def sample_names packed_staged sample_names(2) [unfolded releaseArchive_def] packed_checksum packed_verify)
qed

lemma sample_root: "repositoryRoot (poSystem sample_packer) sample_repository = Some (Inr ''/r'')"
proof -
  have "present sample_repository (joinPath ''/r'' ''go.mod'')" "roGetwd (poSystem sample_packer) = Some ''/r''" by code_simp+
  then show ?thesis by (subst repositoryRoot_def) (simp add: searchRoot.simps)
qed

lemma packed_release:
  "packageCurrent sample_packer sample_repository ''1'' ''/o'' =
     Some (removeAll (removeAll (unpacked_disk (putArchive written_entries)) ''/v'') ''/s'', None)"
proof -
  have m: "mkdirAll (poSystem sample_packer) sample_repository ''/o'' = (sample_repository\<lparr>dkDirs := ''/o'' # dkDirs sample_repository\<rparr>, True)"
    and "currentTarget sample_packer = Inr linuxTarget" "absPath (poSystem sample_packer) ''/o'' = Some ''/o''"
      "checkLicensesAt (poSystem sample_packer) sample_repository ''/r'' = None" by code_simp+
  moreover have "addDirectory (sample_repository\<lparr>dkDirs := ''/o'' # dkDirs sample_repository\<rparr>) ''/s'' = ready_disk"
    by (simp add: addDirectory_def ready_disk_def)
  ultimately show ?thesis by (simp add: packageCurrent_def sample_root packed_archive)
qed

definition fetched_disk :: "bytes \<Rightarrow> disk" where
  "fetched_disk content = \<lparr>dkFiles = [(''/o/dovik-v1-linux-x64.tar.gz'', 420, content)], dkDirs = [''/x'', ''/'']\<rparr>"

lemma fetched_elsewhere: "list_all (\<lambda>q. \<not> within q ''/x'') (map_keys (dkFiles (fetched_disk content)))"
  by code_simp

lemma fetched_unpacked: "snd (extractTarEntries (poSystem sample_packer) ''/x'' (fetched_disk content) written_entries True) = None"
  by code_simp

text \<open>The licence of the repository is in the archive.\<close>

theorem package_roundtrip_witness:
  "snd (the (packageCurrent sample_packer sample_repository ''1'' ''/o'')) = None \<and>
   map_of (dkFiles (fst (extractTarGzip (poSystem sample_packer) (fetched_disk (putArchive written_entries)) ''/o/dovik-v1-linux-x64.tar.gz'' ''/x'')))
     ''/x/dovik-v1-linux-x64/LICENSE'' = Some (420, ''#'')"
proof -
  let ?c = "putArchive written_entries" and ?a = "''/o/dovik-v1-linux-x64.tar.gz''"
  have f: "faithful sample_packer" by (simp add: faithful_def getArchive_put)
  have "workplace sample_repository ''/r'' ''/s'' (releaseBase ''1'' linuxTarget)" "clean ''/s'' = ''/s''" "isAbs ''/o''" "isAbs ''/v''"
      "\<not> within ?a ''/s''" "\<not> within ?a ''/v''" by code_simp+
  then have p: "packing sample_packer sample_repository ''1'' ''/r'' ''/o'' ''/s''"
    using f by (simp add: packing_def sample_names sample_root)
  have abs: "absPath (poSystem sample_packer) ''/o'' = Some ''/o''" by code_simp
  have "isAbs ?a" "clean ?a = ?a" by code_simp+
  from verify_keeps [OF packed_verify this] \<open>isAbs ''/v''\<close> \<open>\<not> within ?a ''/v''\<close>
  have "map_of (dkFiles (removeAll (unpacked_disk ?c) ''/v'')) ?a = map_of (dkFiles (closed_disk ?c)) ?a" by simp
  also have "\<dots> = Some (420, ?c)"
    by (simp add: closed_disk_def map_add_def split: option.split) (simp add: staged_disk_def sample_repository_def)
  finally have a: "map_of (dkFiles (fetched_disk ?c)) (releaseArchive ''/o'' ''1'') =
      map_of (dkFiles (removeAll (removeAll (unpacked_disk ?c) ''/v'') ''/s'')) (releaseArchive ''/o'' ''1'')"
    using \<open>\<not> within ?a ''/s''\<close> by (simp add: sample_names removeAll_files fetched_disk_def)
  have t: "isAbs ''/x''" "\<forall>c\<in>set [''dovik-v1-linux-x64'', ''LICENSE'']. proper_comp c" by code_simp+
  define d where "d = fst (extractTarEntries (poSystem sample_packer) ''/x'' (fetched_disk ?c) written_entries True)"
  have "extractTarEntries (poSystem sample_packer) ''/x'' (fetched_disk ?c) written_entries True = (d, None)"
    using fetched_unpacked [of ?c] by (simp add: d_def prod_eq_iff)
  then have u: "extractTarGzip (poSystem sample_packer) (fetched_disk ?c) (releaseArchive ''/o'' ''1'') ''/x'' = (d, None)"
    by (simp add: extractTarGzip_def readFile_def sample_names getArchive_put) (simp add: fetched_disk_def getArchive_put)
  have n: "below ''/x'' [''dovik-v1-linux-x64'', ''LICENSE''] = ''/x/dovik-v1-linux-x64/LICENSE''"
      "releaseBase ''1'' linuxTarget = ''dovik-v1-linux-x64''"
      "map_option (masked (poSystem sample_packer)) (released sample_packer sample_repository ''/r'' [''LICENSE'']) = Some (420, ''#'')"
    by code_simp+
  show ?thesis
    using package_roundtrip [OF p abs packed_release a fetched_elsewhere t(1) u t(2)] u by (simp add: n packed_release sample_names)
qed

end
