(* ===== verification/ReleaseSmoke.thy ===== *)
theory ReleaseSmoke
  imports ReleasePack
begin

text \<open>
  The smoke test of a release (\<open>smokeArchive\<close>, \<open>smokeMCP\<close> of \<open>cmd/releasepack/main.go\<close>): the archive is unpacked
  into a temporary directory, its daemon is started with a state of its own there, and its clients are
  tried.  What the programs answer is in \<open>smoke_os\<close>; what is run is a log.
\<close>

section \<open>What is run\<close>

record smoke_os =
  skSystem :: release_os
  skEnviron :: "string list"
  skTui :: "string \<times> bool"  \<comment> \<open>combined output, and success\<close>
  skPreflight :: bool
  skStarts :: bool
  skProbes :: "bool list"  \<comment> \<open>the probes until the deadline is over\<close>
  skGitInit :: bool
  skProjectAdd :: bool
  skProcessAdd :: bool
  skConnects :: bool
  skTools :: "nat option"
  skCall :: "string \<Rightarrow> bool option"  \<comment> \<open>no answer, or whether it is an application error\<close>
  skCloses :: bool
  skProxy :: "string \<times> bool"

datatype smoke_effect =
    RanCommand string "string list" "string list option"  \<comment> \<open>without an environment the own one is inherited\<close>
  | StartedDaemon string "string list" | KilledDaemon | ReapedDaemon
  | StartedClient string "string list" | CalledTool string | ClosedClient

datatype smoke_error =
    SmokeArchive release_error | TUIBoundary string | DaemonReachable | DaemonDoesNotStart | DaemonNotReady | GitInitFails
  | SmokeCommandFails string | ClientFails | ToolsUnknown | WrongToolCount nat | ToolFails string | ToolRefused string
  | ClientDoesNotClose | ProxyFails | ProxyAnswers string

text \<open>\<open>expectFailureContaining\<close>.\<close>

definition expectFailureContaining :: "string \<times> bool \<Rightarrow> string \<Rightarrow> smoke_error option" where
  "expectFailureContaining r expected =
     (case r of (output, succeeded) \<Rightarrow>
        if succeeded \<or> \<not> contains (map lower output) (map lower expected) then Some (TUIBoundary output) else None)"

definition smokeTools :: "string list" where
  "smokeTools = [''list_projects'', ''list_processes'', ''process_status'', ''process_start'', ''process_logs'', ''process_restart'', ''process_stop'']"

fun callTools :: "smoke_os \<Rightarrow> string list \<Rightarrow> smoke_effect list \<times> smoke_error option" where
  "callTools os [] = ([], None)"
| "callTools os (name # names) =
     (case skCall os name of
        None \<Rightarrow> ([CalledTool name], Some (ToolFails name))
      | Some True \<Rightarrow> ([CalledTool name], Some (ToolRefused name))
      | Some False \<Rightarrow> (case callTools os names of (log, e) \<Rightarrow> (CalledTool name # log, e)))"

text \<open>\<open>smokeMCP\<close>: the session is closed on every way out.\<close>

definition smokeMCP :: "smoke_os \<Rightarrow> string list \<Rightarrow> string \<Rightarrow> smoke_effect list \<times> smoke_error option" where
  "smokeMCP os environment dovik =
     (if \<not> skConnects os then ([StartedClient dovik environment], Some ClientFails)
      else case (case skTools os of
             None \<Rightarrow> ([], Some ToolsUnknown)
           | Some count \<Rightarrow>
               if count \<noteq> 7 then ([], Some (WrongToolCount count))
               else case callTools os smokeTools of
                      (log, Some e) \<Rightarrow> (log, Some e)
                    | (log, None) \<Rightarrow> (log, if skCloses os then None else Some ClientDoesNotClose)) of
           (log, e) \<Rightarrow> (StartedClient dovik environment # log @ [ClosedClient], e))"

section \<open>The smoke test\<close>

definition smokeEnvironment :: "smoke_os \<Rightarrow> string \<Rightarrow> string list" where
  "smokeEnvironment os temporary =
     skEnviron os @
     [''LOCALAPPDATA='' @ joinPath temporary ''state'', ''XDG_STATE_HOME='' @ joinPath temporary ''state'',
      ''XDG_RUNTIME_DIR='' @ joinPath temporary ''runtime'']"

text \<open>The rounds of the wait: a probe that succeeds ends it.\<close>

definition probed :: "bool list \<Rightarrow> nat" where
  "probed answers = length (takeWhile Not answers) + (if list_ex id answers then 1 else 0)"

text \<open>With the daemon started; it is killed and waited for by the caller.\<close>

definition smokeClients :: "smoke_os \<Rightarrow> disk \<Rightarrow> string \<Rightarrow> string \<Rightarrow> string list \<Rightarrow> disk \<times> smoke_effect list \<times> smoke_error option" where
  "smokeClients os w temporary content environment =
     (let dovik = joinPath content ''dovik'';
          probes = replicate (probed (skProbes os)) (RanCommand dovik [''--json'', ''project'', ''list''] (Some environment));
          root = joinPath temporary ''project'';
          git = RanCommand ''git'' [''init'', ''--quiet'', root] (Some environment);
          add = RanCommand dovik [''--json'', ''project'', ''add'', ''--id'', ''release-smoke'', ''--root'', root] (Some environment);
          worker = RanCommand dovik [''--json'', ''process'', ''add'', ''--project'', ''release-smoke'', ''--id'', ''worker'',
                     ''--command'', dovik, ''--arg'', ''agent-idle''] (Some environment);
          proxy = RanCommand (joinPath content ''gh'') [''--dovik-proxy-identify''] (Some environment)
      in if \<not> list_ex id (skProbes os) then (w, probes, Some DaemonNotReady)
         else case mkdirAll (skSystem os) w root of
                (w1, False) \<Rightarrow> (w1, probes, Some (SmokeArchive (CannotMkdir root)))
              | (w1, True) \<Rightarrow>
                  if \<not> skGitInit os then (w1, probes @ [git], Some GitInitFails)
                  else if \<not> skProjectAdd os then (w1, probes @ [git, add], Some (SmokeCommandFails ''project add''))
                  else if \<not> skProcessAdd os then (w1, probes @ [git, add, worker], Some (SmokeCommandFails ''process add''))
                  else (case smokeMCP os environment dovik of
                          (log, Some e) \<Rightarrow> (w1, probes @ [git, add, worker] @ log, Some e)
                        | (log, None) \<Rightarrow>
                            (w1, probes @ [git, add, worker] @ log @ [proxy],
                             case skProxy os of
                               (output, False) \<Rightarrow> Some ProxyFails
                             | (output, True) \<Rightarrow> if trimSpace output \<noteq> ''dovik-gh-proxy-v1'' then Some (ProxyAnswers output) else None)))"

definition smokeExtracted :: "smoke_os \<Rightarrow> disk \<Rightarrow> string \<Rightarrow> string \<Rightarrow> disk \<times> smoke_effect list \<times> smoke_error option" where
  "smokeExtracted os w archive temporary =
     (let content = joinPath temporary (archiveBase archive); dovik = joinPath content ''dovik''; daemon = joinPath content ''dovikd'';
          tui = RanCommand dovik [''tui''] None; runtimeDirectory = joinPath temporary ''runtime'';
          environment = smokeEnvironment os temporary;
          preflight = RanCommand dovik [''--json'', ''project'', ''list''] (Some environment)
      in case expectFailureContaining (skTui os) ''interactive'' of
           Some e \<Rightarrow> (w, [tui], Some e)
         | None \<Rightarrow>
             (case mkdirAll (skSystem os) w runtimeDirectory of
                (w1, False) \<Rightarrow> (w1, [tui], Some (SmokeArchive (CannotMkdir runtimeDirectory)))
              | (w1, True) \<Rightarrow>
                  if skPreflight os then (w1, [tui, preflight], Some DaemonReachable)
                  else if \<not> skStarts os then (w1, [tui, preflight], Some DaemonDoesNotStart)
                  else (case smokeClients os w1 temporary content environment of
                          (w2, log, e) \<Rightarrow> (w2, [tui, preflight, StartedDaemon daemon environment] @ log @ [KilledDaemon, ReapedDaemon], e))))"

definition smokeArchive :: "smoke_os \<Rightarrow> disk \<Rightarrow> string \<Rightarrow> disk \<times> smoke_effect list \<times> smoke_error option" where
  "smokeArchive os w archive =
     (case roMkdirTemp (skSystem os) ''dovik-smoke-'' of
        None \<Rightarrow> (w, [], Some (SmokeArchive NoTemporary))
      | Some temporary \<Rightarrow>
          (case (if hasSuffix archive ''.zip'' then extractZip (skSystem os) (addDirectory w temporary) archive temporary
                 else extractTarGzip (skSystem os) (addDirectory w temporary) archive temporary) of
             (w1, Some e) \<Rightarrow> (removeAll w1 temporary, [], Some (SmokeArchive e))
           | (w1, None) \<Rightarrow>
               (case smokeExtracted os w1 archive temporary of (w2, log, e) \<Rightarrow> (removeAll w2 temporary, log, e))))"

section \<open>What the smoke test leaves\<close>

fun environmentOf :: "smoke_effect \<Rightarrow> string list option" where
  "environmentOf (RanCommand path arguments environment) = environment"
| "environmentOf (StartedDaemon path environment) = Some environment"
| "environmentOf (StartedClient path environment) = Some environment"
| "environmentOf e = None"

text \<open>The commands that may run in the environment of the caller: the one that must refuse to start.\<close>

definition isolated_effect :: "string list \<Rightarrow> smoke_effect \<Rightarrow> bool" where
  "isolated_effect environment e \<longleftrightarrow>
     environmentOf e = Some environment \<or> e \<in> {KilledDaemon, ReapedDaemon, ClosedClient} \<or> (\<exists>name. e = CalledTool name) \<or>
     (\<exists>path. e = RanCommand path [''tui''] None)"

lemma isolated_simps [simp]:
  "isolated_effect environment (RanCommand path arguments (Some environment))"
  "isolated_effect environment (RanCommand path [''tui''] None)"
  "isolated_effect environment (StartedDaemon path environment)" "isolated_effect environment (StartedClient path environment)"
  "isolated_effect environment KilledDaemon" "isolated_effect environment ReapedDaemon" "isolated_effect environment ClosedClient"
  "isolated_effect environment (CalledTool name)"
  by (simp_all add: isolated_effect_def)

lemma isolated_probes [simp]: "list_all (isolated_effect environment) (replicate n (RanCommand path arguments (Some environment)))"
  by (induction n) simp_all

lemma callTools_log: "e \<in> set (fst (callTools os names)) \<Longrightarrow> \<exists>name. e = CalledTool name"
  by (induction names) (auto split: option.splits bool.splits prod.splits)

lemma callTools_isolated [simp]: "list_all (isolated_effect environment) (fst (callTools os names))"
  by (auto simp: list_all_iff dest!: callTools_log)

lemma smokeMCP_isolated: "smokeMCP os environment dovik = (log, e) \<Longrightarrow> list_all (isolated_effect environment) log"
  using callTools_isolated [of environment os smokeTools]
  by (auto simp: smokeMCP_def simp del: callTools_isolated split: option.splits prod.splits if_splits)

lemma smokeClients_isolated:
  assumes "smokeClients os w temporary content environment = (w', log, e)"
  shows "list_all (isolated_effect environment) log"
proof -
  obtain mcp me where m: "smokeMCP os environment (joinPath content ''dovik'') = (mcp, me)" by fastforce
  obtain w1 ok where d: "mkdirAll (skSystem os) w (joinPath temporary ''project'') = (w1, ok)" by fastforce
  show ?thesis
    using assms smokeMCP_isolated [OF m] unfolding smokeClients_def Let_def m d
    by (cases ok; cases me) (auto split: if_splits)
qed

lemma smokeExtracted_log:
  assumes "smokeExtracted os w archive temporary = (w', log, e)"
  shows "list_all (isolated_effect (smokeEnvironment os temporary)) log \<and>
    ((\<exists>path environment. StartedDaemon path environment \<in> set log) \<longrightarrow> (\<exists>before. log = before @ [KilledDaemon, ReapedDaemon]))"
proof -
  obtain w1 ok where d: "mkdirAll (skSystem os) w (joinPath temporary ''runtime'') = (w1, ok)" by fastforce
  obtain w2 l f where c: "smokeClients os w1 temporary (joinPath temporary (archiveBase archive)) (smokeEnvironment os temporary) = (w2, l, f)"
    by (metis prod_cases3)
  show ?thesis
    using assms smokeClients_isolated [OF c] unfolding smokeExtracted_def Let_def d
    by (cases ok; cases "expectFailureContaining (skTui os) ''interactive''") (auto simp: c split: if_splits)
qed

text \<open>However the smoke test ends, a daemon it started is killed and reaped, its directory is removed, and nothing but
  the terminal interface ran outside the environment that points into that directory.\<close>

theorem smoke_cleans_up:
  assumes "smokeArchive os w archive = (w', log, e)" and "roMkdirTemp (skSystem os) ''dovik-smoke-'' = Some temporary"
  shows "list_all (\<lambda>p. \<not> within p temporary) (map_keys (dkFiles w')) \<and>
    list_all (isolated_effect (smokeEnvironment os temporary)) log \<and>
    ((\<exists>path environment. StartedDaemon path environment \<in> set log) \<longrightarrow> (\<exists>before. log = before @ [KilledDaemon, ReapedDaemon]))"
  using assms smokeExtracted_log [of os _ archive temporary]
  by (auto simp: smokeArchive_def removeAll_def list_all_iff split: prod.splits if_splits option.splits)

text \<open>The worker is a process of the daemon, in a group of its own.  The daemon is killed without a chance to
  stop it: when the restart fails, nothing asks for the worker's end any more.\<close>

lemma smoke_leaves_worker:
  assumes "skCall os ''process_restart'' \<noteq> Some False" and "\<And>name. name \<noteq> ''process_restart'' \<Longrightarrow> skCall os name = Some False"
    and "skConnects os" and "skTools os = Some 7"
  shows "case smokeMCP os environment dovik of (log, e) \<Rightarrow>
    CalledTool ''process_start'' \<in> set log \<and> CalledTool ''process_stop'' \<notin> set log \<and> e \<noteq> None"
  using assms by (auto simp: smokeMCP_def smokeTools_def split: option.splits bool.splits)

end
