(* ===== verification/CliMain.thy ===== *)
theory CliMain
  imports CliRun
begin

text \<open>
  The programs around the command line: \<open>cmd/dovik\<close>, which can be installed under the name of the GitHub
  CLI, \<open>cmd/gh\<close>, which stands in for it, and the launcher of the daemon (\<open>internal/daemonlaunch\<close>,
  \<open>internal/cli/tui_daemon.go\<close>).
\<close>

section \<open>The programs\<close>

text \<open>\<open>program\<close> is \<open>os.Args[0]\<close>.\<close>

definition dovikArguments :: "string \<Rightarrow> string list \<Rightarrow> string list" where
  "dovikArguments program arguments =
     (if equalFold (basePath program) ''gh'' \<or> equalFold (basePath program) ''gh.exe'' then [''gh'', ''--''] @ arguments else arguments)"

definition dovikMain :: "'s run_env \<Rightarrow> 's \<Rightarrow> string \<Rightarrow> string list \<Rightarrow> 's run_end" where
  "dovikMain env s program arguments = RunIO env s (dovikArguments program arguments)"

text \<open>\<open>endpoint\<close> is \<open>DOVIK_ENDPOINT\<close>.\<close>

definition ghArguments :: "string \<Rightarrow> string list \<Rightarrow> string list" where
  "ghArguments endpoint arguments = (if endpoint \<noteq> [] then [''--endpoint'', endpoint] else []) @ [''gh'', ''--''] @ arguments"

definition ghMain :: "'s run_env \<Rightarrow> 's \<Rightarrow> string \<Rightarrow> string list \<Rightarrow> 's run_end" where
  "ghMain env s endpoint arguments = RunIO env s (ghArguments endpoint arguments)"

section \<open>The arguments of the stand-in\<close>

lemma helpTopic_gh: "helpTopic (ghArguments endpoint arguments) = None"
  by (simp add: helpTopic_def ghArguments_def globalOption_def hasPrefix_def)

lemma parse_gh:
  "\<exists>e. parseFlags parse (globalFlags d) (ghArguments endpoint arguments) =
     Inr ([(''endpoint'', Text e), (''json'', Flag False)], ''gh'' # ''--'' # arguments)"
proof (cases "endpoint = []")
  case True
  then show ?thesis by (simp add: ghArguments_def globalFlags_def)
next
  case False
  have "flagName ''--endpoint'' = ''endpoint''" "splitFlag ''endpoint'' = (''endpoint'', None)" by code_simp+
  moreover have "setFlag parse (globalFlags d) ''endpoint'' (Text d) endpoint = Inr [(''endpoint'', Text endpoint), (''json'', Flag False)]"
    by (simp add: setFlag_def setValue_def globalFlags_def map_put_def)
  ultimately show ?thesis using False by (simp add: ghArguments_def) (simp add: globalFlags_def)
qed

text \<open>What follows the name of the stand-in belongs to the GitHub CLI: no argument is taken for an option, a command or
  a question for help of dovik itself, and every argument is passed on in its place.\<close>

theorem gh_proxy_transparent:
  assumes "reDefaultEndpoint env = Some d"
  shows "ghMain env s endpoint arguments = runGH env s (''--'' # arguments) \<and> dropSeparator (''--'' # arguments) = arguments"
proof -
  obtain e where p: "parseFlags (ceNumbers (icCli (reIdentity env))) (globalFlags d) (ghArguments endpoint arguments) =
     Inr ([(''endpoint'', Text e), (''json'', Flag False)], ''gh'' # ''--'' # arguments)" using parse_gh by blast
  have n: "ghArguments endpoint arguments \<noteq> [''--version'']" "ghArguments endpoint arguments \<noteq> [''agent-idle'']"
    "ghArguments endpoint arguments \<noteq> [''agent-bridge'']" by (simp_all add: ghArguments_def)
  have "RunIO env s (ghArguments endpoint arguments) = dispatch env (identityEnv env e) False s (''gh'' # ''--'' # arguments)"
    by (simp add: RunIO_def n helpTopic_gh assms p textOf_def boolOf_def)
  also have "\<dots> = runGH env s (''--'' # arguments)" by (simp add: dispatch_def)
  finally show ?thesis by (simp add: ghMain_def dropSeparator_def)
qed

theorem dovik_as_gh: "equalFold (basePath program) ''gh'' \<Longrightarrow> dovikMain env s program arguments = ghMain env s [] arguments"
  by (simp add: dovikMain_def dovikArguments_def ghMain_def ghArguments_def)

section \<open>The launcher of the daemon\<close>

record launcher =
  lnExecutable :: string
  lnArguments :: "string list"
  lnEnvironment :: "string list"

datatype launch_error = LauncherRelative | ClientUnknown | SiblingMissing | SiblingUnknown | SiblingNotRegular | LaunchUnsupported

definition NewLauncher :: "string \<Rightarrow> string list \<Rightarrow> string list \<Rightarrow> (launch_error, launcher) sum" where
  "NewLauncher executable arguments environment =
     (if \<not> isAbs executable then Inl LauncherRelative
      else Inr \<lparr>lnExecutable = executable, lnArguments = arguments, lnEnvironment = environment\<rparr>)"

text \<open>\<open>filepath.Ext\<close>: from the last dot of the last element on.\<close>

definition extPath :: "string \<Rightarrow> string" where
  "extPath path =
     (let final = rev (takeWhile (\<lambda>c. c \<noteq> slash) (rev path))
      in if CHR ''.'' \<in> set final then CHR ''.'' # rev (takeWhile (\<lambda>c. c \<noteq> CHR ''.'') (rev final)) else [])"

text \<open>\<open>os.Stat\<close> of a path: missing, unknown, or whether it is a regular file.\<close>

datatype sibling = NoSibling | UnreadableSibling | Sibling bool

definition NewSibling :: "string option \<Rightarrow> (string \<Rightarrow> sibling) \<Rightarrow> (launch_error, launcher) sum" where
  "NewSibling executable stat =
     (case executable of
        None \<Rightarrow> Inl ClientUnknown
      | Some path \<Rightarrow>
          (let daemon = joinPath (dirPath path) (''dovikd'' @ extPath path)
           in case stat daemon of
                NoSibling \<Rightarrow> Inl SiblingMissing
              | UnreadableSibling \<Rightarrow> Inl SiblingUnknown
              | Sibling regular \<Rightarrow> if \<not> regular then Inl SiblingNotRegular else NewLauncher daemon [] []))"

text \<open>\<open>startDetached\<close> outside Windows.\<close>

definition startDetached :: "launcher \<Rightarrow> (launch_error, int) sum" where
  "startDetached launcher = Inl LaunchUnsupported"

definition productionTUIDaemonLauncher ::
    "string \<Rightarrow> string \<Rightarrow> string \<Rightarrow> string option \<Rightarrow> (string \<Rightarrow> sibling) \<Rightarrow> (launch_error, launcher option) sum" where
  "productionTUIDaemonLauncher goos endpoint defaultEndpoint executable stat =
     (if goos \<noteq> ''windows'' \<or> endpoint \<noteq> defaultEndpoint then Inr None
      else case NewSibling executable stat of
             Inl e \<Rightarrow> if e = SiblingMissing then Inr None else Inl e
           | Inr launcher \<Rightarrow> Inr (Some launcher))"

text \<open>The daemon that is launched lies beside the client and is a regular file; a client that was told another
  endpoint launches none.\<close>

lemma launcher_beside_client:
  assumes "productionTUIDaemonLauncher goos endpoint defaultEndpoint (Some path) stat = Inr (Some launcher)"
  shows "goos = ''windows'' \<and> endpoint = defaultEndpoint \<and> isAbs (lnExecutable launcher) \<and>
    lnExecutable launcher = joinPath (dirPath path) (''dovikd'' @ extPath path) \<and> stat (lnExecutable launcher) = Sibling True \<and>
    lnArguments launcher = [] \<and> lnEnvironment launcher = []"
  using assms
  by (auto simp: productionTUIDaemonLauncher_def NewSibling_def NewLauncher_def Let_def split: sum.splits sibling.splits if_splits)

end
