(* ===== verification/ClientStreams.thy ===== *)
theory ClientStreams
  imports ControlClient
begin

text \<open>
  The streaming operations of the client (\<open>identityStream\<close> of \<open>internal/control/identity.go\<close>): running the GitHub CLI
  and running an agent.  The reply is read frame by frame into the two outputs of the caller.  A reply
  that is no frame, the refusal of a request the daemon could not read, does not decode as one: its
  error is an object where a frame has a text.
\<close>

section \<open>The operations\<close>

datatype stream_error = StreamDialFails | StreamFails read_error | AgentFails container_failure

type_synonym stream_end = "sink \<times> sink \<times> int \<times> stream_error option"

definition streamEnd :: "read_result \<Rightarrow> container_failure option \<Rightarrow> stream_end" where
  "streamEnd r fault =
     (rdOut r, rdErr r, rdCode r, case rdError r of Some e \<Rightarrow> Some (StreamFails e) | None \<Rightarrow> map_option AgentFails fault)"

definition readReply :: "control_reply \<Rightarrow> sink \<Rightarrow> sink \<Rightarrow> stream_end" where
  "readReply reply out err =
     (case reply of
        FramesReply frames \<Rightarrow> streamEnd (ReadStream frames out err) None
      | ContainerReply frames code fault \<Rightarrow>
          streamEnd (ReadStream (frames @ [emptyFrame\<lparr>frExitCode := Some code\<rparr>]) out err) fault
      | _ \<Rightarrow> streamEnd (ReadStream [] out err) None)"

definition identityStream :: "wire \<Rightarrow> ('w, 'e) daemon_env \<Rightarrow> ('w, 'e) control_server \<Rightarrow> u64 \<Rightarrow> operation \<Rightarrow> json \<Rightarrow> sink \<Rightarrow> sink
    \<Rightarrow> ('w, 'e) control_server \<times> u64 \<times> stream_end" where
  "identityStream w env s lastID op payload out err =
     (if \<not> wDial w then (s, lastID, out, err, 1, Some StreamDialFails)
      else let next = lastID + 1;
               request = \<lparr>ctVersion = ProtocolVersion, ctID = itoa (unat next), ctOperation = operationName op, ctPayload = Some payload\<rparr>
           in case handleConnection w env s (carried (wUtf w) (writeStruct requestFields request)) [] of
                (s', reply) \<Rightarrow> (s', next, readReply reply out err))"

definition clientExecuteGH :: "wire \<Rightarrow> ('w, 'e) daemon_env \<Rightarrow> ('w, 'e) control_server \<Rightarrow> u64 \<Rightarrow> execution_request \<Rightarrow> sink \<Rightarrow> sink
    \<Rightarrow> ('w, 'e) control_server \<times> u64 \<times> stream_end" where
  "clientExecuteGH w env s n r out err = identityStream w env s n OperationGHExecute (writeStruct (executionFields False) r) out err"

definition clientRunAgent :: "wire \<Rightarrow> ('w, 'e) daemon_env \<Rightarrow> ('w, 'e) control_server \<Rightarrow> u64 \<Rightarrow> container_request \<Rightarrow> sink \<Rightarrow> sink
    \<Rightarrow> ('w, 'e) control_server \<times> u64 \<times> stream_end" where
  "clientRunAgent w env s n r out err = identityStream w env s n OperationAgentRun (writeStruct (containerFields False) r) out err"

section \<open>A stream is the operation\<close>

lemma identityStream_reply:
  assumes "delivered w (requestOf n op payload)" and "op = OperationGHExecute \<or> op = OperationAgentRun" and "svIdentities s = Some service"
  shows "identityStream w env s n op payload out err =
    (case (if op = OperationAgentRun then handleAgentRun env s service (Some payload) else handleExecute env s service (Some payload)) of
       (s', reply) \<Rightarrow> (s', n + 1, readReply reply out err))"
proof -
  have dial: "wDial w" and size: "\<not> maximumRequestBytes < wSize w (writeStruct requestFields (requestOf n op payload))"
    and sent: "carried (wUtf w) (writeStruct requestFields (requestOf n op payload)) = writeStruct requestFields (requestOf n op payload)"
    using assms(1) intact_carried by (auto simp: delivered_def)
  have read: "readStruct True requestFields (writeStruct requestFields (requestOf n op payload)) zeroControlRequest = Some (requestOf n op payload)"
    by (rule control_requests.roundtrip) simp
  have req: "\<lparr>ctVersion = ProtocolVersion, ctID = itoa (unat (n + 1)), ctOperation = operationName op, ctPayload = Some payload\<rparr> = requestOf n op payload"
    by (simp add: requestOf_def)
  have name: "(operationName op = operationName OperationAgentRun) = (op = OperationAgentRun)"
    using operationOf_name by (metis option.inject)
  have names: "operationName op = operationName OperationGHExecute \<or> operationName op = operationName OperationAgentRun" using assms(2) by auto
  have "handleConnection w env s (writeStruct requestFields (requestOf n op payload)) [] =
      (if op = OperationAgentRun then handleAgentRun env s service (Some payload) else handleExecute env s service (Some payload))"
    using size names by (simp add: handleConnection_def read assms(3) itoa_nonempty name del: operationName.simps)
  then show ?thesis by (simp add: identityStream_def Let_def dial req sent split: prod.split)
qed

text \<open>C40: Running the GitHub CLI through the client is running it in the daemon: the caller gets the exit code, the
  error and on each output exactly the bytes the call wrote, and the daemon is unchanged.\<close>

theorem gh_through_daemon:
  assumes "delivered w (requestOf n OperationGHExecute (writeStruct (executionFields False) r))" and "svIdentities s = Some service"
    and "Execute (deService env) service r freshSink freshSink = Inr res"
    and "concat (writesTo True (deWrites env)) = sinkData (resOut res)" and "concat (writesTo False (deWrites env)) = sinkData (resErr res)"
  shows "clientExecuteGH w env s n r freshSink freshSink =
    (s, n + 1, absorb freshSink (sinkData (resOut res)), absorb freshSink (sinkData (resErr res)), resCode res,
     map_option (\<lambda>e. StreamFails (RemoteError (ExecFailure e))) (resError res))"
proof -
  have "handleExecute env s service (Some (writeStruct (executionFields False) r)) =
      (s, FramesReply (streamFrames (deWrites env) (resCode res) (map_option ExecFailure (resError res))))"
    by (simp add: handleExecute_def decodePayload_def executions.roundtrip Stream_def assms(3))
  then show ?thesis
    unfolding clientExecuteGH_def identityStream_reply [OF assms(1) disjI1 [OF refl] assms(2)]
    by (simp add: readReply_def streamEnd_def ReadStream_streamFrames freshSink_def assms(4,5) split: option.split)
qed

text \<open>A call that the policy denies.\<close>

definition broker_daemon :: "(unit, unit) daemon_env" where
  "broker_daemon = sample_daemon\<lparr>deService := sample_env, deWrites := []\<rparr>"

theorem gh_through_daemon_witness:
  "clientExecuteGH sample_wire broker_daemon (sample_server\<lparr>svIdentities := Some sample_service\<rparr>) 0 bad_call freshSink freshSink =
     (sample_server\<lparr>svIdentities := Some sample_service\<rparr>, 1, freshSink, freshSink, 1, Some (StreamFails (RemoteError (ExecFailure (NotAuthorized OperationDenied)))))"
proof -
  have x: "Execute (deService broker_daemon) sample_service bad_call freshSink freshSink = Inr (failure freshSink freshSink (NotAuthorized OperationDenied))"
    by (simp add: broker_daemon_def sample_execute)
  have "concat (writesTo b (deWrites broker_daemon)) = []" for b by (simp add: writesTo_def broker_daemon_def)
  moreover have "svIdentities (sample_server\<lparr>svIdentities := Some sample_service\<rparr>) = Some sample_service" by simp
  ultimately show ?thesis
    using gh_through_daemon [where w = sample_wire and n = 0 and s = "sample_server\<lparr>svIdentities := Some sample_service\<rparr>",
      OF sample_connection(1) _ x]
    by (simp add: failure_def freshSink_def absorb_def)
qed

text \<open>A call the daemon refuses before it runs anything.\<close>

lemma gh_refused:
  assumes "delivered w (requestOf n OperationGHExecute (writeStruct (executionFields False) r))" and "svIdentities s = Some service"
    and "Execute (deService env) service r freshSink freshSink = Inl e" and "deWrites env = []"
  shows "clientExecuteGH w env s n r freshSink freshSink = (s, n + 1, freshSink, freshSink, 1, Some (StreamFails (RemoteError (ServiceFailure e))))"
proof -
  have "handleExecute env s service (Some (writeStruct (executionFields False) r)) = (s, FramesReply (streamFrames [] 1 (Some (ServiceFailure e))))"
    by (simp add: handleExecute_def decodePayload_def executions.roundtrip Stream_def assms(3,4))
  then show ?thesis
    unfolding clientExecuteGH_def identityStream_reply [OF assms(1) disjI1 [OF refl] assms(2)]
    by (simp add: readReply_def streamEnd_def streamFrames_def emptyFrame_def)
qed

text \<open>An agent's run: the outputs of its commands, the code of the container and its failure.\<close>

theorem agent_through_daemon:
  assumes "delivered w (requestOf n OperationAgentRun (writeStruct (containerFields False) r))" and "svIdentities s = Some service"
    and "run = RunContainer (deService env) (deContainer env) (deNonce env) service r"
  shows "clientRunAgent w env s n r freshSink freshSink =
    (s\<lparr>svIdentities := Some (cnService run)\<rparr>, n + 1,
     absorb freshSink (concat (writesTo True (deWrites env))), absorb freshSink (concat (writesTo False (deWrites env))), cnCode run,
     map_option AgentFails (cnError run))"
proof -
  have "handleAgentRun env s service (Some (writeStruct (containerFields False) r)) =
      (s\<lparr>svIdentities := Some (cnService run)\<rparr>, ContainerReply (concat (map (\<lambda>(out, p). writeFrames out p) (deWrites env))) (cnCode run) (cnError run))"
    by (simp add: handleAgentRun_def decodePayload_def containers.roundtrip StreamContainer_def Let_def assms(3))
  moreover have "concat (map (\<lambda>(out, p). writeFrames out p) (deWrites env)) @ [emptyFrame\<lparr>frExitCode := Some (cnCode run)\<rparr>] =
      streamFrames (deWrites env) (cnCode run) None"
    by (simp add: streamFrames_def emptyFrame_def)
  ultimately show ?thesis
    unfolding clientRunAgent_def identityStream_reply [OF assms(1) disjI2 [OF refl] assms(2)]
    by (simp add: readReply_def streamEnd_def ReadStream_streamFrames freshSink_def)
qed

end
