(* ===== verification/Spec2Isabelle.thy ===== *)
theory Spec2Isabelle
  imports Prelude Paths ProcessState OutputBuffer Registry Reconciliation RegistryStore Lifecycle
    LifecycleSystem LifecycleProperties IdentityModel Catalog SecretFilter Executor IdentityStore
    JsonText IdentityDurable NativeIsolation IdentityService AgentChannel IdentitySessions CliGh
    WireJson IdentityWire ControlProtocol Container Control ControlClient TuiModel TuiCommands
    TerminalOutput Release OperatorClient McpOperator GitConfig GitDiscovery CliFlags CliCommands
    CliIdentity CliRun CliProcesses CliProperties Questionnaire Bridge
    Transport DaemonShutdown Daemon DaemonProperties TuiView TuiViewProperties
    ReleasePack ReleasePackProperties ReleaseSmoke CliMain ClientStreams
begin

text \<open>
  A verification of dovik, a local process supervisor and identity broker written in Go.

  \<^bold>\<open>The program.\<close>  A daemon (\<open>cmd/dovikd\<close>) keeps a registry of projects
  and their processes, starts and stops the processes, keeps their recent output, and brokers calls of
  the GitHub CLI for agents under the persona and the policy the operator chose.  Clients reach it over a
  private socket: the command line (\<open>cmd/dovik\<close>, \<open>internal/cli\<close>), a terminal
  interface (\<open>internal/tui\<close>), an MCP server (\<open>internal/mcpoperator\<close>) and
  \<open>cmd/gh\<close>, which stands in for the GitHub CLI.  An isolated agent, another account of the
  system or a container, has a channel of its own that answers for one session only.
  \<open>cmd/releasepack\<close> packs the releases.

  \<^bold>\<open>Conventions.\<close>  Go strings and byte slices are HOL strings (lists of bytes), Go
  maps are association lists whose order stands for the unspecified order of iteration, pointers that may
  be nil are options, sequence numbers are \<open>64 word\<close>, \<open>int64\<close> arithmetic is
  written with its wrap-around where it can overflow.  An error is a value of a datatype of its own per
  package; its text is kept only where the program shows it.  State is passed explicitly, also over error
  paths; the goroutines of the manager and of the service are interleaved by inductive step relations
  whose steps are the critical sections of the mutexes, and the clients of the bridge are served one after
  the other, as its mutex does.  What is not in the repository is an
  argument: system calls, Git, the GitHub CLI, the container engine, the forms on the terminal, the
  packages for JSON, archives, URLs and hashes.  They come as records of answers
  (\<open>release_os\<close>, \<open>daemon_os\<close>, \<open>os_fault\<close> and the like) about
  which nothing is assumed, except where a theorem states the documented behaviour as a hypothesis.  The
  platform is Linux.

  \<^bold>\<open>Foundations.\<close>

  \<^item> \<open>Prelude\<close>: Go values, maps, \<open>strings\<close>; the collections of
    simplification rules.
  \<^item> \<open>Paths\<close>: \<open>path/filepath\<close> and what the components prove about it
    (cleaning is idempotent, containment of paths is a prefix of components).
  \<^item> \<open>WireJson\<close>: the part of \<open>encoding/json\<close> the program uses, and the
    locale \<open>json_codec\<close> of round trips, interpreted for every type that crosses a
    connection.  \<open>JsonText\<close>: what is relied on of the text of a JSON value, and a printer and
    a parser that satisfy it.

  \<^bold>\<open>Supervision\<close> (\<open>internal/supervision\<close>).

  \<^item> \<open>ProcessState\<close>: the states of a runtime and its transitions
    (\<open>state.go\<close>).
  \<^item> \<open>OutputBuffer\<close>: the bounded buffer (\<open>output.go\<close>), a refinement of
    the log of all chunks.
  \<^item> \<open>Registry\<close>, \<open>Reconciliation\<close>: the records, their document and the
    reconciliation after a restart (\<open>model.go\<close>, \<open>registry.go\<close>,
    \<open>registry_document.go\<close>).
  \<^item> \<open>RegistryStore\<close>: the file, its atomic replacement under failing system calls; the
    locale \<open>persister\<close> says what the manager needs of it and is interpreted by it.
  \<^item> \<open>Lifecycle\<close>: every operation of the manager (\<open>lifecycle.go\<close>,
    \<open>registry_operations.go\<close>, \<open>process.go\<close>), with the effects on processes as a
    log.
  \<^item> \<open>LifecycleSystem\<close>: the manager with its observers as a step relation and its
    invariant.
  \<^item> \<open>LifecycleProperties\<close>: what the operations return, durability and the refinement
    of two maps.

  \<^bold>\<open>Identity\<close> (\<open>internal/identity\<close>).

  \<^item> \<open>IdentityModel\<close>: personas, policies, projects and their validation
    (\<open>model.go\<close>).
  \<^item> \<open>Catalog\<close>: which calls of the GitHub CLI are authorised
    (\<open>catalog.go\<close>).
  \<^item> \<open>SecretFilter\<close>, \<open>Executor\<close>: running one of them, and the redaction
    of its output (\<open>executor.go\<close>).
  \<^item> \<open>IdentityStore\<close>: the state file (\<open>store.go\<close>); locale
    \<open>state_store\<close>.  \<open>IdentityDurable\<close>: the bytes of a state, and what an
    update leaves for a later daemon: the same state, with the keys of its maps in order, if its texts
    are UTF-8.
  \<^item> \<open>NativeIsolation\<close>: the checks before an agent of another account is let in
    (\<open>native*.go\<close>, \<open>integrity_unix.go\<close>, \<open>doctor*.go\<close>).
  \<^item> \<open>IdentityService\<close>, \<open>IdentitySessions\<close>: the broker and its sessions
    (\<open>service.go\<close>) as a step relation, its invariant, and what may be executed in a session.
  \<^item> \<open>AgentChannel\<close>: the stream of frames and the channel of an agent
    (\<open>stream.go\<close>).
  \<^item> \<open>Container\<close>, \<open>Bridge\<close>: agents in containers and the bridge inside
    (\<open>container.go\<close>, \<open>bridge_unix.go\<close>).  A read of the bridge for which nothing will
    come blocks, with the mutex held, and is told apart from a handler that returns.
  \<^item> \<open>GitConfig\<close>, \<open>GitDiscovery\<close>: the Git configuration, accounts and
    remotes (\<open>git.go\<close>, \<open>discovery.go\<close>).
  \<^item> \<open>Questionnaire\<close>: the dialogue that configures a project
    (\<open>internal/identityui\<close>).

  \<^bold>\<open>Daemon\<close> (\<open>internal/control\<close>, \<open>cmd/dovikd\<close>).

  \<^item> \<open>IdentityWire\<close>, \<open>ControlProtocol\<close>: requests, responses and their
    JSON forms (\<open>protocol.go\<close>, \<open>identity.go\<close>).
  \<^item> \<open>Control\<close>: the server's handling of a connection (\<open>server.go\<close>).
  \<^item> \<open>ControlClient\<close>, \<open>ClientStreams\<close>, \<open>OperatorClient\<close>: the
    client (\<open>client.go\<close>, \<open>operatorclient\<close>) and the locale
    \<open>operator_contract\<close> of what the adapters rely on, interpreted by client, wire and server
    composed with the manager.
  \<^item> \<open>Transport\<close>: the socket and its directory (\<open>transport_other.go\<close>); dialling a
    socket that is in use may fail.
  \<^item> \<open>DaemonShutdown\<close>, \<open>Daemon\<close>, \<open>DaemonProperties\<close>: the
    life of the daemon from its flags to its end.

  \<^bold>\<open>Clients.\<close>

  \<^item> \<open>CliFlags\<close>, \<open>CliCommands\<close>, \<open>CliIdentity\<close>,
    \<open>CliRun\<close>, \<open>CliProcesses\<close>, \<open>CliProperties\<close>: package flag, the
    commands and the whole command line (\<open>internal/cli\<close>).
  \<^item> \<open>CliGh\<close>: the gh command (\<open>gh.go\<close>).
  \<^item> \<open>McpOperator\<close>: the tools of the MCP server.
  \<^item> \<open>TuiModel\<close>, \<open>TuiCommands\<close>: the state machine of the terminal
    interface and its commands (\<open>model.go\<close>, \<open>editor.go\<close>,
    \<open>daemon.go\<close>).
  \<^item> \<open>TuiView\<close>, \<open>TuiViewProperties\<close>: what it draws
    (\<open>presentation.go\<close>, \<open>identity.go\<close>).
  \<^item> \<open>TerminalOutput\<close>: the filter for the output of processes
    (\<open>terminalstyle/output.go\<close>).
  \<^item> \<open>CliMain\<close>: the entry programs and the launcher of the daemon.
  \<^item> \<open>Release\<close>, \<open>ReleasePack\<close>, \<open>ReleasePackProperties\<close>,
    \<open>ReleaseSmoke\<close>: the release packer.

  \<^bold>\<open>What is shown.\<close>  The registry, the active map and the runtimes of the manager
  agree in every reachable state; a start leaves no second and no unrecorded process; what an operation
  reported as done is on disk; saving is atomic; a daemon that ends leaves nothing running.  An
  authorised call stays on the repository, account and policy of its project; a session runs nothing
  else, its agent gets neither the credential nor another session, and the redaction misses no cut of the
  output.  The client, the wire and the server together are the operations of the manager.  The command
  line writes one document in JSON mode, and gives an agent no way to change more than the status and the
  persona of its own session.  The terminal interface never panics, fills the screen, shows the selected
  process where the headings fit, and offers the actions that work.
  Theorems without a claim number are further facts of a component, among them the cases in which the
  code does not do what it means to.

  \<^bold>\<open>Bounds and termination.\<close>  Loops over data are structural recursions.  The walks
  to the root of the file system are \<open>partial_function (option)\<close>, and theorems show that
  they return on absolute paths.  The polling loops (a client that waits for the daemon, \<open>logs
  --follow\<close>, the read loop of a connection) run over the finite list of what they observe: its
  length is the number of rounds before their deadline or the end of the stream, so no fuel is chosen.

  \<^bold>\<open>Not modelled.\<close>  The Windows and macOS files (\<open>*_windows.go\<close>,
  \<open>*_darwin.go\<close>), which are calls of the system with no logic of their own, and the start of
  a detached daemon, which only Windows has; the styles and colours
  (\<open>terminalstyle/palette.go\<close>, \<open>huh.go\<close>), and the
  libraries lipgloss and huh themselves, whose widths, wrapping and truncation of lines are arguments; the loop of the terminal program
  (\<open>tui/run.go\<close>) and its diagnostic log; the accept loops of the servers, whose connections
  are a list in the order the locks serve them; timeouts, except as the end of what is observed; the
  wording of diagnostics that only the operator reads.
\<close>

end
